(* ===== verification/K3k_Prelude.thy ===== *)
theory K3k_Prelude
  imports Main "HOL-Library.Finite_Map" "HOL-Library.Sublist" "HOL-Library.List_Lexorder"
    "HOL-Library.Char_ord"
begin

text \<open>
  Shared ground of the development: the fragment of Go's standard library the
  sources use on strings, maps and errors, and the lemma collections the component
  theories draw on.

  Go strings are byte sequences, so they are \<^typ>\<open>string\<close>, and comparison of
  strings is the lexicographic order on bytes. A Go \<^verbatim>\<open>map[string]string\<close> is
  \<^verbatim>\<open>smap option\<close>: \<^verbatim>\<open>None\<close> is the nil map, which reads as empty and differs
  from an allocated empty map under \<^verbatim>\<open>reflect.DeepEqual\<close>.
\<close>

named_theorems go_str \<open>rewriting of the Go string functions\<close>
named_theorems go_map \<open>rewriting of the Go map accessors\<close>
named_theorems go_err \<open>classification of error values\<close>

lemma if_not_swap: "(if \<not> b then x else y) = (if b then y else x)"
  by simp

section \<open>Strings\<close>

fun strings_Join :: "string list \<Rightarrow> string \<Rightarrow> string" where
  "strings_Join [] sep = ''''"
| "strings_Join [x] sep = x"
| "strings_Join (x # y # xs) sep = x @ sep @ strings_Join (y # xs) sep"

definition strings_HasPrefix :: "string \<Rightarrow> string \<Rightarrow> bool" where
  "strings_HasPrefix s p = (take (length p) s = p)"

definition strings_TrimPrefix :: "string \<Rightarrow> string \<Rightarrow> string" where
  "strings_TrimPrefix s p = (if strings_HasPrefix s p then drop (length p) s else s)"

text \<open>\<^verbatim>\<open>strings_Contains s t\<close>: \<^verbatim>\<open>t\<close> occurs in \<^verbatim>\<open>s\<close>.\<close>

fun strings_Contains :: "string \<Rightarrow> string \<Rightarrow> bool" where
  "strings_Contains [] t = (t = [])"
| "strings_Contains (c # s) t = (strings_HasPrefix (c # s) t \<or> strings_Contains s t)"

text \<open>\<^verbatim>\<open>strings.Cut\<close> and \<^verbatim>\<open>strings.Split\<close> at a one-byte separator: the part before the
  first separator, and all the parts.\<close>

definition strings_Cut_before :: "string \<Rightarrow> char \<Rightarrow> string" where
  "strings_Cut_before s c = takeWhile (\<lambda>x. x \<noteq> c) s"

fun strings_Split :: "string \<Rightarrow> char \<Rightarrow> string list" where
  "strings_Split [] c = [[]]"
| "strings_Split (x # xs) c =
     (if x = c then [] # strings_Split xs c
      else (case strings_Split xs c of [] \<Rightarrow> [[x]] | p # ps \<Rightarrow> (x # p) # ps))"

text \<open>\<^verbatim>\<open>strings.Replace(s, old, new, 1)\<close> for a one-byte \<^verbatim>\<open>old\<close>.\<close>

fun strings_Replace1 :: "string \<Rightarrow> char \<Rightarrow> char \<Rightarrow> string" where
  "strings_Replace1 [] a b = []"
| "strings_Replace1 (x # xs) a b = (if x = a then b # xs else x # strings_Replace1 xs a b)"

lemma strings_HasPrefix_iff [go_str]: "strings_HasPrefix s p \<longleftrightarrow> prefix p s"
  unfolding strings_HasPrefix_def prefix_def
  by (metis append_eq_conv_conj append_take_drop_id)

lemma strings_Contains_sublist [go_str]: "strings_Contains s t \<longleftrightarrow> sublist t s"
proof (induction s)
  case Nil
  then show ?case by simp
next
  case (Cons c s)
  then show ?case by (simp add: strings_HasPrefix_iff sublist_Cons_right)
qed

lemma strings_Split_nonempty [simp]: "strings_Split s c \<noteq> []"
  by (induction s) (auto split: list.splits)

lemma strings_Split_hd [go_str]: "hd (strings_Split s c) = strings_Cut_before s c"
  unfolding strings_Cut_before_def
  by (induction s) (auto split: list.splits)

lemma strings_Join_Split: "strings_Join (strings_Split s c) [c] = s"
proof (induction s)
  case Nil
  then show ?case by simp
next
  case (Cons x xs)
  obtain p ps where s: "strings_Split xs c = p # ps"
    using strings_Split_nonempty by (meson neq_Nil_conv)
  with Cons show ?case by (cases ps) auto
qed

lemma length_strings_Replace1 [simp]: "length (strings_Replace1 s a b) = length s"
  by (induction s) auto

lemma strings_Replace1_id [simp]: "a \<notin> set s \<Longrightarrow> strings_Replace1 s a b = s"
  by (induction s) auto

lemma strings_Join_cons:
  "xs \<noteq> [] \<Longrightarrow> strings_Join (x # xs) sep = x @ sep @ strings_Join xs sep"
  by (cases xs) auto

text \<open>Joining with a separator that none of the parts contains loses nothing.\<close>

lemma append_sep_inj:
  "c \<notin> set x \<Longrightarrow> c \<notin> set y \<Longrightarrow> x @ c # r = y @ c # s \<Longrightarrow> x = y \<and> r = s"
proof (induction x arbitrary: y)
  case Nil
  then show ?case by (cases y) auto
next
  case (Cons a x)
  then show ?case by (cases y) auto
qed

lemma append_sep_not_in: "c \<notin> set x \<Longrightarrow> x \<noteq> y @ c # s"
  by auto

lemma strings_Join_inj:
  assumes "\<forall>x\<in>set xs. c \<notin> set x" "\<forall>y\<in>set ys. c \<notin> set y" "xs \<noteq> []" "ys \<noteq> []"
    and "strings_Join xs [c] = strings_Join ys [c]"
  shows "xs = ys"
  using assms
proof (induction xs arbitrary: ys)
  case Nil
  then show ?case by simp
next
  case (Cons x xs)
  obtain y ys' where ys: "ys = y # ys'" using Cons.prems(4) by (meson neq_Nil_conv)
  show ?case
  proof (cases "xs = [] \<or> ys' = []")
    case True
    then show ?thesis
    proof
      assume "xs = []"
      with Cons.prems ys show ?thesis
        by (cases ys') (auto simp: strings_Join_cons)
    next
      assume "ys' = []"
      with Cons.prems ys show ?thesis
        by (cases xs) (auto simp: strings_Join_cons)
    qed
  next
    case False
    with Cons.prems ys have "x @ c # strings_Join xs [c] = y @ c # strings_Join ys' [c]"
      by (simp add: strings_Join_cons)
    with Cons.prems ys have "x = y" "strings_Join xs [c] = strings_Join ys' [c]"
      using append_sep_inj by (metis list.set_intros(1))+
    with Cons.IH [of ys'] Cons.prems ys False show ?thesis by simp
  qed
qed

section \<open>Maps\<close>

type_synonym smap = "(string, string) fmap"

text \<open>\<^verbatim>\<open>m[k]\<close> with the comma-ok form, \<^verbatim>\<open>m[k]\<close> with the zero default, the update of an
  allocated map and \<^verbatim>\<open>delete\<close>; all but the update accept the nil map.\<close>

definition mlookup :: "smap option \<Rightarrow> string \<Rightarrow> string option" where
  "mlookup m k = (case m of None \<Rightarrow> None | Some f \<Rightarrow> fmlookup f k)"

definition mindex :: "smap option \<Rightarrow> string \<Rightarrow> string" where
  "mindex m k = (case mlookup m k of None \<Rightarrow> '''' | Some v \<Rightarrow> v)"

definition mdelete :: "smap option \<Rightarrow> string \<Rightarrow> smap option" where
  "mdelete m k = map_option (fmdrop k) m"

text \<open>Writing through \<^verbatim>\<open>if m == nil { m = map[string]string{} }; m[k] = v\<close>.\<close>

definition minit :: "smap option \<Rightarrow> smap" where
  "minit m = (case m of None \<Rightarrow> fmempty | Some f \<Rightarrow> f)"

lemma mlookup_simps [simp]:
  "mlookup None k = None"
  "mlookup (Some f) k = fmlookup f k"
  by (simp_all add: mlookup_def)

lemma mdelete_simps [simp]:
  "mdelete None k = None"
  "mdelete (Some f) k = Some (fmdrop k f)"
  by (simp_all add: mdelete_def)

lemma minit_simps [simp]:
  "minit None = fmempty"
  "minit (Some f) = f"
  by (simp_all add: minit_def)

lemma mlookup_mdelete [go_map]: "mlookup (mdelete m k) j = (if j = k then None else mlookup m j)"
  by (cases m) auto

lemma fmlookup_minit [go_map]: "fmlookup (minit m) k = mlookup m k"
  by (cases m) auto

text \<open>\<^verbatim>\<open>labels.SelectorFromSet\<close> and \<^verbatim>\<open>client.MatchingLabels\<close>: every pair of the selector is a
  label of the object; nil and empty selectors match everything.\<close>

definition labels_match :: "smap \<Rightarrow> smap option \<Rightarrow> bool" where
  "labels_match sel ls = fBall (fmdom sel) (\<lambda>k. mlookup ls k = fmlookup sel k)"

lemma labels_match_iff:
  "labels_match sel ls \<longleftrightarrow> (\<forall>k v. fmlookup sel k = Some v \<longrightarrow> mlookup ls k = Some v)"
  by (fastforce simp: labels_match_def fmlookup_dom_iff)

lemma labels_match_empty [simp]: "labels_match fmempty ls"
  by (simp add: labels_match_def)

text \<open>Go iterates maps in an unspecified order: a function that enumerates a finite key set.\<close>

locale range_order =
  fixes ord :: "string fset \<Rightarrow> string list"
  assumes distinct_ord: "distinct (ord S)"
    and set_ord: "set (ord S) = fset S"

lemma sorted_list_of_fset_distinct: "distinct (sorted_list_of_fset S)"
  by (simp add: sorted_list_of_fset.rep_eq)

interpretation sorted_order: range_order "sorted_list_of_fset"
  by unfold_locales (simp_all add: sorted_list_of_fset_distinct)

section \<open>Sorted sets of strings\<close>

text \<open>\<^verbatim>\<open>sets.List\<close> and \<^verbatim>\<open>sets.NewString(...).List()\<close>: the elements once each, sorted.\<close>

definition sorted_set :: "string list \<Rightarrow> string list" where
  "sorted_set xs = sort (remdups xs)"

lemma set_sorted_set [simp]: "set (sorted_set xs) = set xs"
  by (simp add: sorted_set_def)

lemma sorted_sorted_set [simp]: "sorted (sorted_set xs)"
  by (simp add: sorted_set_def)

lemma distinct_sorted_set [simp]: "distinct (sorted_set xs)"
  by (simp add: sorted_set_def)

lemma sorted_set_cong: "set xs = set ys \<Longrightarrow> sorted_set xs = sorted_set ys"
  by (metis distinct_sorted_set set_sorted_set sorted_distinct_set_unique sorted_sorted_set)

section \<open>Errors\<close>

text \<open>
  An error value: an API status error with its reason, one of the sentinel values the
  code compares with \<^verbatim>\<open>errors.Is\<close>, an unnamed error, or an error that wraps others
  (\<^verbatim>\<open>fmt.Errorf\<close> with \<^verbatim>\<open>%w\<close> and \<^verbatim>\<open>errors.Join\<close>). A Go result \<^verbatim>\<open>error\<close> is
  \<^verbatim>\<open>goerr option\<close>, and a result \<^verbatim>\<open>(T, error)\<close> is \<^verbatim>\<open>goerr + T\<close>.
\<close>

datatype api_reason = NotFound | AlreadyExists | Conflict | OtherReason

datatype sentinel = ErrClusterValidation | ErrCustomCACertSecretMissing | ErrServerNotReady
  | ErrRetryTimeout | ErrGRPCMemberNotFound | ErrLoadBalancerNotReady
  | ErrConnectionRefused | ErrSaveSnapshot | ErrListSnapshots | ErrDeleteSnapshot | ErrSnapshotNotFound | ErrClusterNotReady | ErrNotExist
  | ErrContextCanceled

datatype goerr =
    ApiErr api_reason string
  | Sentinel sentinel
  | ErrNew string
  | ErrWrap string "goerr list"

text \<open>\<^verbatim>\<open>errors.Is\<close> and \<^verbatim>\<open>apierrors.IsNotFound\<close>, \<^verbatim>\<open>IsAlreadyExists\<close>: both look through the
  wrapped errors, the second at the first status error found.\<close>

fun errors_Is :: "goerr \<Rightarrow> sentinel \<Rightarrow> bool" where
  "errors_Is (Sentinel s) t = (s = t)"
| "errors_Is (ErrWrap m es) t = (\<exists>e\<in>set es. errors_Is e t)"
| "errors_Is _ t = False"

fun api_status :: "goerr \<Rightarrow> api_reason option" where
  "api_status (ApiErr r m) = Some r"
| "api_status (ErrWrap m es) =
     (case filter (\<lambda>x. x \<noteq> None) (map api_status es) of [] \<Rightarrow> None | r # _ \<Rightarrow> r)"
| "api_status _ = None"

definition IsNotFound :: "goerr \<Rightarrow> bool" where
  "IsNotFound e = (api_status e = Some NotFound)"

definition IsAlreadyExists :: "goerr \<Rightarrow> bool" where
  "IsAlreadyExists e = (api_status e = Some AlreadyExists)"

text \<open>\<^verbatim>\<open>errors.Join\<close>: nil when every argument is nil.\<close>

definition errors_Join :: "goerr option list \<Rightarrow> goerr option" where
  "errors_Join es =
     (let xs = List.map_filter id es in if xs = [] then None else Some (ErrWrap ''join'' xs))"

text \<open>A function that only returns an \<^verbatim>\<open>error\<close> has results in \<^verbatim>\<open>goerr + unit\<close>.\<close>

definition of_err :: "goerr option \<Rightarrow> goerr + unit" where
  "of_err e = (case e of None \<Rightarrow> Inr () | Some x \<Rightarrow> Inl x)"

definition IgnoreNotFound :: "goerr + 'a \<Rightarrow> goerr + unit" where
  "IgnoreNotFound r = (case r of Inl e \<Rightarrow> (if IsNotFound e then Inr () else Inl e) | Inr _ \<Rightarrow> Inr ())"

lemma IsNotFound_simps [simp]:
  "IsNotFound (ApiErr r m) \<longleftrightarrow> r = NotFound"
  "\<not> IsNotFound (Sentinel s)"
  "\<not> IsNotFound (ErrNew m)"
  by (simp_all add: IsNotFound_def)

lemma IsAlreadyExists_simps [simp]:
  "IsAlreadyExists (ApiErr r m) \<longleftrightarrow> r = AlreadyExists"
  "\<not> IsAlreadyExists (Sentinel s)"
  "\<not> IsAlreadyExists (ErrNew m)"
  by (simp_all add: IsAlreadyExists_def)

lemma errors_Join_None [go_err]: "errors_Join es = None \<longleftrightarrow> (\<forall>e\<in>set es. e = None)"
  by (auto simp: errors_Join_def Let_def List.map_filter_def filter_empty_conv)

lemma errors_Join_pair [simp]:
  "errors_Join [None, None] = None"
  "errors_Join [] = None"
  by (simp_all add: errors_Join_def List.map_filter_def)

lemma of_err_simps [simp]:
  "of_err None = Inr ()"
  "of_err (Some e) = Inl e"
  by (simp_all add: of_err_def)

lemma IgnoreNotFound_simps [simp]:
  "IgnoreNotFound (Inr x) = Inr ()"
  "IgnoreNotFound (Inl e) = (if IsNotFound e then Inr () else Inl e)"
  by (simp_all add: IgnoreNotFound_def)

text \<open>The error part and the value part of a \<^verbatim>\<open>(T, error)\<close> result.\<close>

definition err_of :: "goerr + 'a \<Rightarrow> goerr option" where
  "err_of r = (case r of Inl e \<Rightarrow> Some e | Inr _ \<Rightarrow> None)"

lemma err_of_simps [simp]:
  "err_of (Inl e) = Some e"
  "err_of (Inr x) = None"
  by (simp_all add: err_of_def)

end
