(* ===== verification/Api_Types.thy ===== *)
theory Api_Types
  imports K3k_Prelude
begin

text \<open>
  The custom resources of k3k (\<^verbatim>\<open>pkg/apis/k3k.io/v1beta1/types.go\<close>) as records, one per
  struct and with every field, and the metadata every Kubernetes object carries.

  Pointers are options. Enumerations stay the strings they are in Go, since the code
  compares them with the empty string and passes unknown values on. Kubernetes types
  the code only copies (affinities, security contexts, resource requirements, quota and
  limit specifications) are \<^verbatim>\<open>payload\<close>, an opaque serialised value. \<^verbatim>\<open>TypeMeta\<close> is left out:
  the type of the record carries it.
\<close>

type_synonym payload = string

section \<open>Object metadata\<close>

record owner_ref =
  or_APIVersion :: string
  or_Kind :: string
  or_Name :: string
  or_UID :: string
  or_Controller :: bool

record object_meta =
  Name :: string
  Namespace :: string
  UID :: string
  ResourceVersion :: string
  DeletionTimestamp :: "string option"
  Labels :: "smap option"
  Annotations :: "smap option"
  OwnerReferences :: "owner_ref list"
  Finalizers :: "string list"

text \<open>An object with the given name and namespace and nothing else.\<close>

definition meta_of :: "string \<Rightarrow> string \<Rightarrow> object_meta" where
  "meta_of name namespace =
     \<lparr>Name = name, Namespace = namespace, UID = '''', ResourceVersion = '''',
      DeletionTimestamp = None, Labels = None, Annotations = None, OwnerReferences = [],
      Finalizers = []\<rparr>"

record namespaced_name =
  nn_Namespace :: string
  nn_Name :: string

definition key_of :: "object_meta \<Rightarrow> namespaced_name" where
  "key_of m = \<lparr>nn_Namespace = Namespace m, nn_Name = Name m\<rparr>"

record condition =
  cd_Type :: string
  cd_Status :: string
  cd_Reason :: string
  cd_Message :: string

text \<open>The sources of an environment variable: a field of the pod, or a key of a config map or
  a secret (name and key).\<close>

record env_var_source =
  es_FieldRef :: "string option"
  es_ConfigMapKeyRef :: "(string \<times> string) option"
  es_SecretKeyRef :: "(string \<times> string) option"
  es_rest :: payload

record env_var =
  ev_Name :: string
  ev_Value :: string
  ev_ValueFrom :: "env_var_source option"

record secret_reference =
  sr_Name :: string
  sr_Namespace :: string

section \<open>Synchronisation settings\<close>

record secret_sync_config =
  sec_Enabled :: bool
  sec_Selector :: "smap option"

record service_sync_config =
  svc_Enabled :: bool
  svc_Selector :: "smap option"

record config_map_sync_config =
  cm_Enabled :: bool
  cm_Selector :: "smap option"

record ingress_sync_config =
  ing_Enabled :: bool
  ing_Selector :: "smap option"
  ing_DisableTLSSecretTranslation :: bool

record pvc_sync_config =
  pvc_Enabled :: bool
  pvc_Selector :: "smap option"

record priority_class_sync_config =
  pc_Enabled :: bool
  pc_Selector :: "smap option"

record storage_class_sync_config =
  sc_Enabled :: bool
  sc_Selector :: "smap option"

record sync_config =
  Services :: service_sync_config
  ConfigMaps :: config_map_sync_config
  Secrets :: secret_sync_config
  Ingresses :: ingress_sync_config
  PersistentVolumeClaims :: pvc_sync_config
  PriorityClasses :: priority_class_sync_config
  StorageClasses :: storage_class_sync_config

section \<open>Cluster\<close>

abbreviation SharedClusterMode :: string where "SharedClusterMode \<equiv> ''shared''"
abbreviation VirtualClusterMode :: string where "VirtualClusterMode \<equiv> ''virtual''"
abbreviation HCPClusterMode :: string where "HCPClusterMode \<equiv> ''hcp''"
abbreviation EphemeralPersistenceMode :: string where "EphemeralPersistenceMode \<equiv> ''ephemeral''"
abbreviation DynamicPersistenceMode :: string where "DynamicPersistenceMode \<equiv> ''dynamic''"

record key_to_path =
  kp_Key :: string
  kp_Path :: string
  kp_Mode :: "int option"

record secret_mount =
  sm_SecretName :: string
  sm_Items :: "key_to_path list"
  sm_DefaultMode :: "int option"
  sm_Optional :: "bool option"
  sm_Name :: string
  sm_MountPath :: string
  sm_SubPath :: string
  sm_Role :: string

record addon =
  ad_SecretNamespace :: string
  ad_SecretRef :: string

record persistence_config =
  pe_Type :: string
  pe_StorageClassName :: "string option"
  pe_StorageRequestSize :: "payload option"

record ingress_config =
  ic_Annotations :: "smap option"
  ic_IngressClassName :: string

record load_balancer_config =
  lb_ServerPort :: "int option"
  lb_EtcdPort :: "int option"
  lb_LoadBalancerClass :: "string option"

record node_port_config =
  np_ServerPort :: "int option"
  np_EtcdPort :: "int option"

record expose_config =
  ex_Ingress :: "ingress_config option"
  ex_LoadBalancer :: "load_balancer_config option"
  ex_NodePort :: "node_port_config option"
  ex_Annotations :: "smap option"

record credential_source =
  cs_SecretName :: string

record credential_sources =
  ServerCA :: credential_source
  ClientCA :: credential_source
  RequestHeaderCA :: credential_source
  EtcdServerCA :: credential_source
  EtcdPeerCA :: credential_source
  ServiceAccountToken :: credential_source

record custom_cas =
  ca_Enabled :: bool
  ca_Sources :: credential_sources

record cluster_spec =
  Version :: string
  Mode :: string
  Servers :: "int option"
  Agents :: "int option"
  ClusterCIDR :: string
  ServiceCIDR :: string
  ClusterDNS :: string
  Persistence :: persistence_config
  Expose :: "expose_config option"
  NodeSelector :: "smap option"
  PriorityClass :: string
  TokenSecretRef :: "secret_reference option"
  TLSSANs :: "string list"
  ServerArgs :: "string list"
  AgentArgs :: "string list"
  ServerEnvs :: "env_var list"
  AgentEnvs :: "env_var list"
  Addons :: "addon list"
  ServerLimit :: "payload option"
  WorkerLimit :: "payload option"
  ServerResources :: "payload option"
  WorkerResources :: "payload option"
  ServerAffinity :: "payload option"
  AgentAffinity :: "payload option"
  MirrorHostNodes :: bool
  CustomCAs :: "custom_cas option"
  SyncCfg :: "sync_config option"
  SecretMounts :: "secret_mount list"
  PodSecurityContext :: "payload option"
  SecurityContext :: "payload option"
  RuntimeClassName :: "string option"
  HostUsers :: "bool option"
  AllowedHostSchedulers :: "string list option"

record applied_policy =
  ap_Name :: string
  ap_PriorityClass :: "string option"
  ap_NodeSelector :: "smap option"
  ap_ServerAffinity :: "payload option"
  ap_AgentAffinity :: "payload option"
  ap_Sync :: "sync_config option"
  ap_RuntimeClassName :: "string option"
  ap_PodSecurityContext :: "payload option"
  ap_SecurityContext :: "payload option"
  ap_HostUsers :: "bool option"
  ap_AllowedHostSchedulers :: "string list option"

abbreviation ClusterPending :: string where "ClusterPending \<equiv> ''Pending''"
abbreviation ClusterProvisioning :: string where "ClusterProvisioning \<equiv> ''Provisioning''"
abbreviation ClusterReady :: string where "ClusterReady \<equiv> ''Ready''"
abbreviation ClusterFailed :: string where "ClusterFailed \<equiv> ''Failed''"
abbreviation ClusterTerminating :: string where "ClusterTerminating \<equiv> ''Terminating''"
abbreviation ClusterUnknown :: string where "ClusterUnknown \<equiv> ''Unknown''"

record cluster_status =
  st_HostVersion :: string
  st_ClusterCIDR :: string
  st_ServiceCIDR :: string
  st_ClusterDNS :: string
  st_TLSSANs :: "string list"
  st_PolicyName :: string
  st_Policy :: "applied_policy option"
  st_KubeletPort :: int
  st_Conditions :: "condition list"
  st_Phase :: string

record cluster =
  cl_meta :: object_meta
  cl_Spec :: cluster_spec
  cl_Status :: cluster_status

section \<open>Virtual cluster policy\<close>

abbreviation PrivilegedPodSecurityAdmissionLevel :: string where
  "PrivilegedPodSecurityAdmissionLevel \<equiv> ''privileged''"

record policy_spec =
  Quota :: "payload option"
  Limit :: "payload option"
  DefaultNodeSelector :: "smap option"
  DefaultPriorityClass :: string
  DefaultServerAffinity :: "payload option"
  DefaultAgentAffinity :: "payload option"
  AllowedMode :: string
  DisableNetworkPolicy :: bool
  PodSecurityAdmissionLevel :: "string option"
  pl_Sync :: "sync_config option"
  pl_RuntimeClassName :: "string option"
  pl_SecurityContext :: "payload option"
  pl_HostUsers :: "bool option"
  pl_AllowedHostSchedulers :: "string list option"

record policy_status =
  ps_ObservedGeneration :: int
  ps_LastUpdate :: string
  ps_Summary :: string
  ps_Conditions :: "condition list"

record virtual_cluster_policy =
  vp_meta :: object_meta
  vp_Spec :: policy_spec
  vp_Status :: policy_status

section \<open>Zero values\<close>

text \<open>The zero value of a Go struct, which a failed \<^verbatim>\<open>Get\<close> leaves in place and from which
  concrete instances are built.\<close>

definition empty_spec :: cluster_spec where
  "empty_spec =
     \<lparr>Version = '''', Mode = '''', Servers = None, Agents = None, ClusterCIDR = '''',
      ServiceCIDR = '''', ClusterDNS = '''',
      Persistence = \<lparr>pe_Type = '''', pe_StorageClassName = None, pe_StorageRequestSize = None\<rparr>,
      Expose = None, NodeSelector = None, PriorityClass = '''', TokenSecretRef = None,
      TLSSANs = [], ServerArgs = [], AgentArgs = [], ServerEnvs = [], AgentEnvs = [], Addons = [],
      ServerLimit = None, WorkerLimit = None, ServerResources = None, WorkerResources = None,
      ServerAffinity = None, AgentAffinity = None, MirrorHostNodes = False, CustomCAs = None,
      SyncCfg = None, SecretMounts = [], PodSecurityContext = None, SecurityContext = None,
      RuntimeClassName = None, HostUsers = None, AllowedHostSchedulers = None\<rparr>"

definition empty_status :: cluster_status where
  "empty_status =
     \<lparr>st_HostVersion = '''', st_ClusterCIDR = '''', st_ServiceCIDR = '''', st_ClusterDNS = '''',
      st_TLSSANs = [], st_PolicyName = '''', st_Policy = None, st_KubeletPort = 0,
      st_Conditions = [], st_Phase = ''''\<rparr>"

definition empty_cluster :: cluster where
  "empty_cluster = \<lparr>cl_meta = meta_of '''' '''', cl_Spec = empty_spec, cl_Status = empty_status\<rparr>"

lemma meta_of_simps [simp]:
  "Name (meta_of n ns) = n"
  "Namespace (meta_of n ns) = ns"
  "Labels (meta_of n ns) = None"
  "Annotations (meta_of n ns) = None"
  "Finalizers (meta_of n ns) = []"
  "OwnerReferences (meta_of n ns) = []"
  "DeletionTimestamp (meta_of n ns) = None"
  "UID (meta_of n ns) = ''''"
  "ResourceVersion (meta_of n ns) = ''''"
  by (simp_all add: meta_of_def)

end
