(* ===== verification/Sha256.thy ===== *)
theory Sha256
  imports K3k_Prelude "HOL-Library.Word"
begin

text \<open>
  The two standard-library encoders the naming functions rest on:
  \<^verbatim>\<open>crypto/sha256.Sum256\<close>, as FIPS 180-4 defines it over 32-bit words, and
  \<^verbatim>\<open>encoding/hex.EncodeToString\<close>. The naming theorems need the length of the digest and
  that hexadecimal encoding is injective and has lower-case digits only.
\<close>

unbundle bit_operations_syntax

type_synonym u8 = "8 word"
type_synonym u32 = "32 word"

section \<open>The SHA-256 compression function\<close>

definition rotr32 :: "nat \<Rightarrow> u32 \<Rightarrow> u32" where
  "rotr32 n x = drop_bit n x OR push_bit (32 - n) x"

definition ch :: "u32 \<Rightarrow> u32 \<Rightarrow> u32 \<Rightarrow> u32" where
  "ch x y z = (x AND y) XOR (NOT x AND z)"

definition maj :: "u32 \<Rightarrow> u32 \<Rightarrow> u32 \<Rightarrow> u32" where
  "maj x y z = (x AND y) XOR (x AND z) XOR (y AND z)"

definition bsig0 :: "u32 \<Rightarrow> u32" where
  "bsig0 x = rotr32 2 x XOR rotr32 13 x XOR rotr32 22 x"

definition bsig1 :: "u32 \<Rightarrow> u32" where
  "bsig1 x = rotr32 6 x XOR rotr32 11 x XOR rotr32 25 x"

definition ssig0 :: "u32 \<Rightarrow> u32" where
  "ssig0 x = rotr32 7 x XOR rotr32 18 x XOR drop_bit 3 x"

definition ssig1 :: "u32 \<Rightarrow> u32" where
  "ssig1 x = rotr32 17 x XOR rotr32 19 x XOR drop_bit 10 x"

text \<open>The constants are the first 32 bits of the fractional parts of the cube roots of the first 64 primes
  and of the square roots of the first 8. \<^verbatim>\<open>int_root k n\<close> is the integer part of the \<^verbatim>\<open>k\<close>-th root of
  \<^verbatim>\<open>n\<close>, bit by bit from bit 36 on.\<close>

definition int_root :: "nat \<Rightarrow> int \<Rightarrow> int" where
  "int_root k n = foldr (\<lambda>b x. if (x + 2 ^ b) ^ k \<le> n then x + 2 ^ b else x) [0..<37] 0"

definition small_primes :: "int list" where
  "small_primes = filter (\<lambda>p. list_all (\<lambda>d. p mod d \<noteq> 0) [2..min 17 (p - 1)]) [2..311]"

definition root_fraction :: "nat \<Rightarrow> int \<Rightarrow> u32" where
  "root_fraction k p = word_of_int (int_root k (p * (2 ^ 32) ^ k))"

definition sha_k :: "u32 list" where
  "sha_k = map (root_fraction 3) small_primes"

definition sha_init :: "u32 list" where
  "sha_init = map (root_fraction 2) (take 8 small_primes)"

text \<open>Padding to a multiple of 64 bytes: a one bit, zeros, and the bit length in 8 bytes.\<close>

definition be_bytes64 :: "64 word \<Rightarrow> u8 list" where
  "be_bytes64 v = map (\<lambda>k. ucast (drop_bit k v)) [56, 48, 40, 32, 24, 16, 8, 0]"

definition sha_pad :: "u8 list \<Rightarrow> u8 list" where
  "sha_pad m =
     m @ [0x80] @ replicate ((119 - length m mod 64) mod 64) 0 @ be_bytes64 (8 * of_nat (length m))"

definition be_word :: "u8 \<Rightarrow> u8 \<Rightarrow> u8 \<Rightarrow> u8 \<Rightarrow> u32" where
  "be_word a b c d =
     push_bit 24 (ucast a) OR push_bit 16 (ucast b) OR push_bit 8 (ucast c) OR ucast d"

fun words_of :: "u8 list \<Rightarrow> u32 list" where
  "words_of (a # b # c # d # bs) = be_word a b c d # words_of bs"
| "words_of _ = []"

text \<open>The message schedule, kept newest word first, and the 64 rounds.\<close>

definition sched_next :: "u32 list \<Rightarrow> u32" where
  "sched_next w = ssig1 (w ! 1) + w ! 6 + ssig0 (w ! 14) + w ! 15"

fun sched_extend :: "nat \<Rightarrow> u32 list \<Rightarrow> u32 list" where
  "sched_extend 0 w = w"
| "sched_extend (Suc n) w = sched_extend n (sched_next w # w)"

fun sha_round :: "u32 \<times> u32 \<Rightarrow> u32 list \<Rightarrow> u32 list" where
  "sha_round (k, w) [a, b, c, d, e, f, g, h] =
     (let t1 = h + bsig1 e + ch e f g + k + w; t2 = bsig0 a + maj a b c
      in [t1 + t2, a, b, c, d + t1, e, f, g])"
| "sha_round kw st = st"

definition sha_block :: "u32 list \<Rightarrow> u32 list \<Rightarrow> u32 list" where
  "sha_block st m =
     map2 (+) st (fold sha_round (zip sha_k (rev (sched_extend 48 (rev m)))) st)"

fun sha_blocks :: "nat \<Rightarrow> u32 list \<Rightarrow> u32 list \<Rightarrow> u32 list" where
  "sha_blocks 0 ws st = st"
| "sha_blocks (Suc n) ws st = sha_blocks n (drop 16 ws) (sha_block st (take 16 ws))"

definition word_bytes :: "u32 \<Rightarrow> u8 list" where
  "word_bytes w = [ucast (drop_bit 24 w), ucast (drop_bit 16 w), ucast (drop_bit 8 w), ucast w]"

definition bytes_of :: "string \<Rightarrow> u8 list" where
  "bytes_of s = map of_char s"

definition sha256_Sum256 :: "u8 list \<Rightarrow> u8 list" where
  "sha256_Sum256 m =
     (let ws = words_of (sha_pad m)
      in concat (map word_bytes (sha_blocks (length ws div 16) ws sha_init)))"

section \<open>Hexadecimal\<close>

definition hex_digit :: "u8 \<Rightarrow> char" where
  "hex_digit n = ''0123456789abcdef'' ! unat n"

definition hex_byte :: "u8 \<Rightarrow> string" where
  "hex_byte b = [hex_digit (drop_bit 4 b), hex_digit (b AND 0xf)]"

definition hex_EncodeToString :: "u8 list \<Rightarrow> string" where
  "hex_EncodeToString bs = concat (map hex_byte bs)"

section \<open>Lengths\<close>

lemma length_sha_round [simp]: "length (sha_round kw st) = length st"
  by (induction kw st rule: sha_round.induct) (auto simp: Let_def)

lemma length_fold_sha_round [simp]: "length (fold sha_round kws st) = length st"
  by (induction kws arbitrary: st) auto

lemma length_sha_block [simp]: "length (sha_block st m) = length st"
  by (simp add: sha_block_def)

lemma length_sha_blocks [simp]: "length (sha_blocks n ws st) = length st"
  by (induction n arbitrary: ws st) auto

lemma length_concat_map_const:
  "(\<And>x. length (f x) = k) \<Longrightarrow> length (concat (map f xs)) = k * length xs"
  by (induction xs) auto

lemma length_small_primes [simp]: "length small_primes = 64"
  by code_simp

lemma length_sha256_Sum256 [simp]: "length (sha256_Sum256 m) = 32"
  by (simp add: sha256_Sum256_def Let_def length_concat_map_const [where k = 4]
      word_bytes_def sha_init_def)

lemma length_hex_EncodeToString [simp]: "length (hex_EncodeToString bs) = 2 * length bs"
  unfolding hex_EncodeToString_def by (rule length_concat_map_const) (simp add: hex_byte_def)

lemma hex_EncodeToString_Nil [simp]: "hex_EncodeToString bs = [] \<longleftrightarrow> bs = []"
  by (metis length_0_conv length_hex_EncodeToString mult_is_0 zero_neq_numeral)

lemma sha256_Sum256_nonempty [simp]: "sha256_Sum256 m \<noteq> []"
  by (metis length_sha256_Sum256 list.size(3) zero_neq_numeral)

lemma length_bytes_of [simp]: "length (bytes_of s) = length s"
  by (simp add: bytes_of_def)

section \<open>Hexadecimal digits and injectivity\<close>

definition hex_chars :: "char set" where
  "hex_chars = set ''0123456789abcdef''"

lemma nibble_high_div: "unat (drop_bit 4 (b :: u8)) = unat b div 16"
  by (subst unat_drop_bit_eq) (simp add: drop_bit_eq_div)

lemma nibble_high: "unat (drop_bit 4 (b :: u8)) < 16"
  using unsigned_less [of b, where ?'a = nat] by (subst nibble_high_div) simp

lemma nibble_low: "unat ((b :: u8) AND 0xf) = unat b mod 16"
proof -
  have "b AND 0xf = take_bit 4 b"
    by (simp add: take_bit_eq_mask mask_eq_exp_minus_1)
  then show ?thesis
    using unsigned_take_bit_eq [of 4 b, where ?'a = nat] by (simp only: take_bit_eq_mod) simp
qed

lemma hex_digit_in_hex_chars: "unat n < 16 \<Longrightarrow> hex_digit n \<in> hex_chars"
  unfolding hex_digit_def hex_chars_def by (rule nth_mem) simp

lemma set_hex_byte: "set (hex_byte b) \<subseteq> hex_chars"
  using hex_digit_in_hex_chars nibble_high nibble_low [of b]
  by (simp add: hex_byte_def)

lemma set_hex_EncodeToString: "set (hex_EncodeToString bs) \<subseteq> hex_chars"
  using set_hex_byte unfolding hex_EncodeToString_def by fastforce

lemma hex_digit_inj: "unat m < 16 \<Longrightarrow> unat n < 16 \<Longrightarrow> hex_digit m = hex_digit n \<Longrightarrow> m = n"
proof -
  assume "unat m < 16" "unat n < 16" "hex_digit m = hex_digit n"
  moreover have "distinct ''0123456789abcdef''" by simp
  ultimately have "unat m = unat n"
    unfolding hex_digit_def by (subst (asm) nth_eq_iff_index_eq) auto
  then show "m = n" by (simp add: word_unat_eq_iff)
qed

lemma hex_byte_inj: "hex_byte a = hex_byte b \<Longrightarrow> a = b"
proof -
  assume h: "hex_byte a = hex_byte b"
  have "drop_bit 4 a = drop_bit 4 b"
    using h nibble_high hex_digit_inj unfolding hex_byte_def by blast
  then have hi: "unat a div 16 = unat b div 16"
    using nibble_high_div [of a] nibble_high_div [of b] by simp
  have "a AND 0xf = b AND 0xf"
    using h nibble_low [of a] nibble_low [of b] hex_digit_inj [of "a AND 0xf" "b AND 0xf"]
    unfolding hex_byte_def by simp
  then have "unat a mod 16 = unat b mod 16"
    by (metis nibble_low)
  with hi have "unat a = unat b"
    by (metis mult_div_mod_eq)
  then show "a = b" by (simp add: word_unat_eq_iff)
qed

lemma hex_EncodeToString_inj: "hex_EncodeToString as = hex_EncodeToString bs \<Longrightarrow> as = bs"
proof (induction as arbitrary: bs)
  case Nil
  then show ?case
    by (cases bs) (auto simp: hex_EncodeToString_def hex_byte_def)
next
  case (Cons a as)
  then obtain b bs' where bs: "bs = b # bs'"
    by (cases bs) (auto simp: hex_EncodeToString_def hex_byte_def)
  with Cons.prems have "hex_byte a @ hex_EncodeToString as = hex_byte b @ hex_EncodeToString bs'"
    by (simp add: hex_EncodeToString_def)
  then have "hex_byte a = hex_byte b" "hex_EncodeToString as = hex_EncodeToString bs'"
    by (auto simp: hex_byte_def)
  with Cons.IH bs hex_byte_inj show ?case by blast
qed

lemma of_char_word_inj: "(of_char c :: u8) = of_char d \<longleftrightarrow> c = d"
proof
  assume "(of_char c :: u8) = of_char d"
  then have "(of_nat (of_char c) :: u8) = of_nat (of_char d)"
    by (simp add: of_nat_of_char)
  then have "unat (of_nat (of_char c) :: u8) = unat (of_nat (of_char d) :: u8)"
    by simp
  moreover have "(of_char c :: nat) < 256" "(of_char d :: nat) < 256"
    by (simp_all only: nat_of_char_less_256)
  ultimately have "(of_char c :: nat) = of_char d"
    by (simp add: unat_of_nat)
  then show "c = d" by simp
qed simp

lemma bytes_of_inj: "bytes_of s = bytes_of t \<Longrightarrow> s = t"
  unfolding bytes_of_def
  by (rule map_injective [where f = "of_char :: char \<Rightarrow> u8"])
    (simp_all add: inj_def of_char_word_inj)

end
