(* ===== verification/NetIP.thy ===== *)
theory NetIP
  imports K3k_Prelude
begin

text \<open>
  The fragment of Go's \<^verbatim>\<open>net\<close> package the controllers use: \<^verbatim>\<open>net.ParseIP\<close> (which accepts
  what \<^verbatim>\<open>netip.ParseAddr\<close> accepts, without a zone), \<^verbatim>\<open>IP.To4\<close> and \<^verbatim>\<open>IP.IsLoopback\<close>. An
  address is its 16 bytes; an IPv4 address is the IPv4-mapped one.
\<close>

type_synonym ip_addr = "nat list"

definition is_digit :: "char \<Rightarrow> bool" where
  "is_digit c = (48 \<le> (of_char c :: nat) \<and> (of_char c :: nat) \<le> 57)"

definition digit_val :: "char \<Rightarrow> nat" where
  "digit_val c = of_char c - 48"

definition hex_val :: "char \<Rightarrow> nat option" where
  "hex_val c =
     (let n = (of_char c :: nat) in
      if 48 \<le> n \<and> n \<le> 57 then Some (n - 48)
      else if 97 \<le> n \<and> n \<le> 102 then Some (n - 87)
      else if 65 \<le> n \<and> n \<le> 70 then Some (n - 55)
      else None)"

section \<open>IPv4\<close>

definition dec_val :: "string \<Rightarrow> nat" where
  "dec_val s = foldl (\<lambda>v c. 10 * v + digit_val c) 0 s"

text \<open>One field of a dotted quad: digits only, no leading zero, at most 255.\<close>

definition parse_octet :: "string \<Rightarrow> nat option" where
  "parse_octet s =
     (if s = [] \<or> \<not> list_all is_digit s then None
      else if length s > 1 \<and> hd s = CHR ''0'' then None
      else if length s > 3 \<or> dec_val s > 255 then None
      else Some (dec_val s))"

definition parseIPv4Fields :: "string \<Rightarrow> nat list option" where
  "parseIPv4Fields s =
     (case map parse_octet (strings_Split s CHR ''.'') of
        [Some a, Some b, Some c, Some d] \<Rightarrow> Some [a, b, c, d]
      | _ \<Rightarrow> None)"

definition v4_mapped :: "nat list \<Rightarrow> ip_addr" where
  "v4_mapped q = replicate 10 0 @ [255, 255] @ q"

section \<open>IPv6\<close>

text \<open>
  The loop of \<^verbatim>\<open>netip.parseIPv6\<close>. Its state is the rest of the string, the bytes read so
  far and the position of the ellipsis; each round reads a group of one to four
  hexadecimal digits, so the rest gets shorter.
\<close>

definition hex_run :: "string \<Rightarrow> string" where
  "hex_run s = takeWhile (\<lambda>c. hex_val c \<noteq> None) s"

definition group_val :: "string \<Rightarrow> nat" where
  "group_val s = foldl (\<lambda>v c. 16 * v + the (hex_val c)) 0 s"

definition expand :: "nat list \<Rightarrow> nat option \<Rightarrow> ip_addr option" where
  "expand bs ell =
     (if length bs < 16 then
        (case ell of None \<Rightarrow> None
         | Some e \<Rightarrow> Some (take e bs @ replicate (16 - length bs) 0 @ drop e bs))
      else if ell \<noteq> None then None else Some bs)"

lemma hex_run_nonempty: "hex_run s \<noteq> [] \<Longrightarrow> 0 < length s"
  by (auto simp: hex_run_def)

function v6_loop :: "string \<Rightarrow> nat list \<Rightarrow> nat option \<Rightarrow> ip_addr option" where
  "v6_loop s bs ell =
     (if length bs \<ge> 16 then (if s = [] then expand bs ell else None)
      else
        let g = hex_run s; rest = drop (length g) s in
        if g = [] \<or> length g > 4 then None
        else if rest \<noteq> [] \<and> hd rest = CHR ''.'' then
          (if ell = None \<and> length bs \<noteq> 12 then None
           else if length bs + 4 > 16 then None
           else (case parseIPv4Fields s of None \<Rightarrow> None | Some q \<Rightarrow> expand (bs @ q) ell))
        else
          let bs' = bs @ [group_val g div 256, group_val g mod 256] in
          if rest = [] then expand bs' ell
          else if hd rest \<noteq> CHR '':'' \<or> tl rest = [] then None
          else if hd (tl rest) = CHR '':'' then
            (if ell \<noteq> None then None
             else if tl (tl rest) = [] then expand bs' (Some (length bs'))
             else v6_loop (tl (tl rest)) bs' (Some (length bs')))
          else v6_loop (tl rest) bs' ell)"
  by pat_completeness auto
termination
  by (relation "measure (\<lambda>(s, bs, ell). length s)")
    (use hex_run_nonempty in \<open>simp_all add: less_imp_diff_less\<close>)

declare v6_loop.simps [simp del]

definition parseIPv6 :: "string \<Rightarrow> ip_addr option" where
  "parseIPv6 s =
     (if CHR ''%'' \<in> set s then None
      else if strings_HasPrefix s ''::'' then
        (if length s = 2 then Some (replicate 16 0) else v6_loop (drop 2 s) [] (Some 0))
      else v6_loop s [] None)"

text \<open>\<^verbatim>\<open>net.ParseIP\<close>: the first of \<^verbatim>\<open>.\<close>, \<^verbatim>\<open>:\<close> and \<^verbatim>\<open>%\<close> decides the family.\<close>

definition ParseIP :: "string \<Rightarrow> ip_addr option" where
  "ParseIP s =
     (case dropWhile (\<lambda>c. c \<notin> {CHR ''.'', CHR '':'', CHR ''%''}) s of
        [] \<Rightarrow> None
      | c # _ \<Rightarrow>
          if c = CHR ''.'' then map_option v4_mapped (parseIPv4Fields s)
          else if c = CHR '':'' then parseIPv6 s
          else None)"

definition To4 :: "ip_addr \<Rightarrow> nat list option" where
  "To4 ip = (if take 12 ip = replicate 10 0 @ [255, 255] then Some (drop 12 ip) else None)"

definition IsLoopback :: "ip_addr \<Rightarrow> bool" where
  "IsLoopback ip =
     (case To4 ip of Some q \<Rightarrow> q ! 0 = 127 | None \<Rightarrow> ip = replicate 15 0 @ [1])"

section \<open>Well-formedness of parsed addresses\<close>

definition wf_ip :: "ip_addr \<Rightarrow> bool" where
  "wf_ip ip = (length ip = 16 \<and> (\<forall>b\<in>set ip. b < 256))"

lemma parse_octet_bound: "parse_octet s = Some v \<Longrightarrow> v \<le> 255"
  by (auto simp: parse_octet_def split: if_splits)

lemma parseIPv4Fields_wf:
  "parseIPv4Fields s = Some q \<Longrightarrow> length q = 4 \<and> (\<forall>b\<in>set q. b < 256)"
  by (auto simp: parseIPv4Fields_def split: list.splits option.splits
      dest!: parse_octet_bound)

lemma hex_val_bound: "hex_val c = Some v \<Longrightarrow> v < 16"
  by (auto simp: hex_val_def Let_def split: if_splits)

lemma group_val_bound:
  "(\<forall>c\<in>set g. hex_val c \<noteq> None) \<Longrightarrow> group_val g < 16 ^ length g"
proof (induction g rule: rev_induct)
  case Nil
  then show ?case by (simp add: group_val_def)
next
  case (snoc c g)
  then obtain v where "hex_val c = Some v" by auto
  with snoc hex_val_bound [of c v] show ?case
    by (auto simp: group_val_def)
qed

lemma hex_run_hex: "\<forall>c\<in>set (hex_run s). hex_val c \<noteq> None"
  unfolding hex_run_def by (blast dest: set_takeWhileD)

lemma hex_group_bytes:
  assumes "length (hex_run s) \<le> 4"
  shows "group_val (hex_run s) div 256 < 256"
proof -
  have "group_val (hex_run s) < 16 ^ length (hex_run s)"
    by (rule group_val_bound [OF hex_run_hex])
  also have "\<dots> \<le> (16::nat) ^ 4"
    by (rule power_increasing) (use assms in auto)
  finally show ?thesis by (simp add: less_mult_imp_div_less)
qed

lemma expand_wf:
  assumes "expand bs ell = Some ip" "length bs \<le> 16" "\<forall>b\<in>set bs. b < 256"
  shows "wf_ip ip"
  using assms
  by (auto simp: expand_def wf_ip_def split: if_splits option.splits
      dest!: in_set_takeD in_set_dropD)

lemma v6_loop_group:
  assumes "\<not> 16 \<le> length bs" "g = hex_run s" "rest = drop (length g) s"
    and "bs' = bs @ [group_val g div 256, group_val g mod 256]"
  shows "v6_loop s bs ell =
     (if g = [] \<or> length g > 4 then None
      else if rest \<noteq> [] \<and> hd rest = CHR ''.'' then
        (if ell = None \<and> length bs \<noteq> 12 then None
         else if length bs + 4 > 16 then None
         else (case parseIPv4Fields s of None \<Rightarrow> None | Some q \<Rightarrow> expand (bs @ q) ell))
      else if rest = [] then expand bs' ell
      else if hd rest \<noteq> CHR '':'' \<or> tl rest = [] then None
      else if hd (tl rest) = CHR '':'' then
        (if ell \<noteq> None then None
         else if tl (tl rest) = [] then expand bs' (Some (length bs'))
         else v6_loop (tl (tl rest)) bs' (Some (length bs')))
      else v6_loop (tl rest) bs' ell)"
  using assms(1) unfolding v6_loop.simps [of s bs ell] assms(2-4) Let_def
  by (simp only: if_False)

lemma v6_loop_wf:
  assumes "v6_loop s bs ell = Some ip" "length bs \<le> 16" "even (length bs)" "\<forall>b\<in>set bs. b < 256"
  shows "wf_ip ip"
  using assms
proof (induction s bs ell rule: v6_loop.induct)
  case (1 s bs ell)
  define g where "g = hex_run s"
  define rest where "rest = drop (length g) s"
  define bs' where "bs' = bs @ [group_val g div 256, group_val g mod 256]"
  show ?case
  proof (cases "length bs \<ge> 16")
    case True
    with "1.prems" show ?thesis
      by (auto simp: v6_loop.simps [of s bs ell] split: if_splits intro: expand_wf)
  next
    case False
    note eq = v6_loop_group [OF False g_def rest_def bs'_def, of ell]
    have g: "g \<noteq> []" "length g \<le> 4"
      using "1.prems"(1) by (auto simp: eq split: if_splits)
    have le: "length bs \<le> 14" using False "1.prems"(3) by presburger
    have bs': "length bs' \<le> 16" "even (length bs')" "\<forall>b\<in>set bs'. b < 256"
      using le "1.prems"(3,4) hex_group_bytes [of s] g(2) by (auto simp: bs'_def g_def)
    have gn: "\<not> (g = [] \<or> length g > 4)" using g by simp
    note IH = "1.IH" [OF False g_def rest_def gn _ bs'_def]
    have v4: "wf_ip ip" if "parseIPv4Fields s = Some q" "expand (bs @ q) ell = Some ip"
      "length bs + 4 \<le> 16" for q
      using that "1.prems"(4) parseIPv4Fields_wf [of s q] by (auto intro!: expand_wf)
    show ?thesis
    proof (cases "rest \<noteq> [] \<and> hd rest = CHR ''.''")
      case True
      with "1.prems"(1) gn show ?thesis
        by (auto simp: eq split: if_splits option.splits intro: v4)
    next
      case nodot: False
      show ?thesis
      proof (cases "rest = []")
        case True
        with "1.prems"(1) gn show ?thesis
          by (simp add: eq expand_wf [OF _ bs'(1) bs'(3)])
      next
        case False
        with "1.prems"(1) gn nodot
        have c: "\<not> (hd rest \<noteq> CHR '':'' \<or> tl rest = [])" by (simp add: eq split: if_splits)
        show ?thesis
        proof (cases "hd (tl rest) = CHR '':''")
          case True
          with "1.prems"(1) gn nodot False c show ?thesis
            by (auto simp: eq bs' split: if_splits
                intro: expand_wf [OF _ bs'(1) bs'(3)] IH(1) [OF nodot False c True])
        next
          case n: False
          with "1.prems"(1) gn nodot False c show ?thesis
            by (auto simp: eq bs' intro: IH(2) [OF nodot False c n])
        qed
      qed
    qed
  qed
qed

lemma ParseIP_wf: "ParseIP s = Some ip \<Longrightarrow> wf_ip ip"
  by (auto simp: ParseIP_def parseIPv6_def v4_mapped_def wf_ip_def split: list.splits if_splits
      dest!: parseIPv4Fields_wf v6_loop_wf)

end
