(* ===== verification/Names.thy ===== *)
theory Names
  imports Api_Types Sha256 NetIP
begin

text \<open>
  \<^verbatim>\<open>pkg/controller/controller.go\<close>: resolution of the k3s version and image of a cluster,
  the filter that keeps DNS names, and the length-safe name concatenation every host
  resource name goes through. The lemmas show the length bound, that names built from
  DNS labels are DNS labels again (also when they are cut), and that the three version
  formats agree.
\<close>

section \<open>k3s versions\<close>

record k3s_version =
  Raw :: string

definition ResolveK3sVersion :: "cluster \<Rightarrow> k3s_version" where
  "ResolveK3sVersion cluster =
     (if Version (cl_Spec cluster) \<noteq> '''' then \<lparr>Raw = Version (cl_Spec cluster)\<rparr>
      else if st_HostVersion (cl_Status cluster) \<noteq> '''' then
        \<lparr>Raw = st_HostVersion (cl_Status cluster) @ ''-k3s1''\<rparr>
      else \<lparr>Raw = ''latest''\<rparr>)"

definition ImageTag :: "k3s_version \<Rightarrow> string" where
  "ImageTag v = Raw v"

definition ReleaseName :: "k3s_version \<Rightarrow> string" where
  "ReleaseName v = strings_Replace1 (Raw v) CHR ''-'' CHR ''+''"

definition KubernetesVersion :: "k3s_version \<Rightarrow> string" where
  "KubernetesVersion v = hd (strings_Split (hd (strings_Split (Raw v) CHR ''-'')) CHR ''+'')"

definition K3SImage :: "cluster \<Rightarrow> string \<Rightarrow> string" where
  "K3SImage cluster k3SImage = k3SImage @ '':'' @ ImageTag (ResolveK3sVersion cluster)"

definition FilterDNSNames :: "string list \<Rightarrow> string list" where
  "FilterDNSNames names = filter (\<lambda>name. ParseIP name = None) names"

section \<open>Length-safe names\<close>

abbreviation namePrefix :: string where "namePrefix \<equiv> ''k3k''"

definition lower_or_digit :: "char \<Rightarrow> bool" where
  "lower_or_digit c = ((CHR ''a'' \<le> c \<and> c \<le> CHR ''z'') \<or> (CHR ''0'' \<le> c \<and> c \<le> CHR ''9''))"

definition SafeConcatName :: "string list \<Rightarrow> string" where
  "SafeConcatName name =
     (let fullPath = strings_Join (filter (\<lambda>s. s \<noteq> '''') name) ''-'' in
      if length fullPath < 64 then fullPath
      else
        let digest = hex_EncodeToString (sha256_Sum256 (bytes_of fullPath)) in
        if lower_or_digit (fullPath ! 56)
        then take 57 fullPath @ ''-'' @ take 5 digest
        else take 56 fullPath @ ''-'' @ take 6 digest)"

definition SafeConcatNameWithPrefix :: "string list \<Rightarrow> string" where
  "SafeConcatNameWithPrefix name = SafeConcatName (namePrefix # name)"

section \<open>Versions: the formats agree\<close>

lemma KubernetesVersion_takeWhile:
  "KubernetesVersion v = takeWhile (\<lambda>c. c \<noteq> CHR ''-'' \<and> c \<noteq> CHR ''+'') (Raw v)"
proof -
  have "takeWhile P (takeWhile Q xs) = takeWhile (\<lambda>c. Q c \<and> P c) xs" for P Q and xs :: string
    by (induction xs) auto
  then show ?thesis
    by (simp add: KubernetesVersion_def strings_Split_hd strings_Cut_before_def)
qed

lemma takeWhile_Replace1:
  "\<not> P a \<Longrightarrow> \<not> P b \<Longrightarrow> takeWhile P (strings_Replace1 s a b) = takeWhile P s"
  by (induction s) auto

lemma KubernetesVersion_suffix:
  assumes "CHR ''-'' \<notin> set s" "CHR ''+'' \<notin> set s"
  shows "KubernetesVersion \<lparr>Raw = s @ CHR ''-'' # t\<rparr> = s"
proof -
  have "takeWhile (\<lambda>c. c \<noteq> CHR ''-'' \<and> c \<noteq> CHR ''+'') (s @ CHR ''-'' # t) = s"
    using assms by (subst takeWhile_append2) auto
  then show ?thesis by (simp add: KubernetesVersion_takeWhile)
qed

section \<open>Names: bounds and DNS labels\<close>

lemma length_SafeConcatName: "length (SafeConcatName name) < 64"
  by (simp add: SafeConcatName_def Let_def)

lemma SafeConcatName_short:
  "length (strings_Join (filter (\<lambda>s. s \<noteq> '''') name) ''-'') < 64 \<Longrightarrow>
    SafeConcatName name = strings_Join (filter (\<lambda>s. s \<noteq> '''') name) ''-''"
  by (simp add: SafeConcatName_def Let_def)

definition dns_char :: "char \<Rightarrow> bool" where
  "dns_char c = (lower_or_digit c \<or> c = CHR ''-'')"

text \<open>A DNS-1123 label, as the API server validates most object names.\<close>

definition dns1123_label :: "string \<Rightarrow> bool" where
  "dns1123_label s =
     (s \<noteq> [] \<and> length s \<le> 63 \<and> list_all dns_char s \<and> lower_or_digit (hd s) \<and> lower_or_digit (last s))"

text \<open>The same without the length bound.\<close>

definition dns_like :: "string \<Rightarrow> bool" where
  "dns_like s = (s \<noteq> [] \<and> list_all dns_char s \<and> lower_or_digit (hd s) \<and> lower_or_digit (last s))"

lemma hex_chars_lower_or_digit: "c \<in> hex_chars \<Longrightarrow> lower_or_digit c"
  unfolding hex_chars_def lower_or_digit_def less_eq_char_def by auto

lemma list_all_hex: "list_all lower_or_digit (hex_EncodeToString bs)"
  using set_hex_EncodeToString hex_chars_lower_or_digit by (fastforce simp: list_all_iff)

lemma dns_like_append:
  "dns_like s \<Longrightarrow> dns_like t \<Longrightarrow> dns_like (s @ CHR ''-'' # t)"
  by (auto simp: dns_like_def dns_char_def)

lemma dns_like_Join:
  "xs \<noteq> [] \<Longrightarrow> list_all dns_like xs \<Longrightarrow> dns_like (strings_Join xs ''-'')"
proof (induction xs)
  case Nil
  then show ?case by simp
next
  case (Cons x xs)
  then show ?case
    by (cases "xs = []") (simp_all add: strings_Join_cons dns_like_append)
qed

lemma digest_tail: "list_all lower_or_digit (take k (hex_EncodeToString bs))"
  using list_all_hex by (auto simp: list_all_iff dest: in_set_takeD)

lemma dns1123_label_cut:
  assumes "dns_like s" "0 < k" "k \<le> length s" "list_all lower_or_digit t" "t \<noteq> []"
    and "k + 1 + length t \<le> 63"
  shows "dns1123_label (take k s @ CHR ''-'' # t)"
proof -
  have "take k s \<noteq> []" using assms by auto
  moreover have "hd (take k s) = hd s" using assms by simp
  moreover have "last t \<in> set t" using assms by simp
  ultimately show ?thesis
    using assms unfolding dns1123_label_def dns_like_def
    by (auto simp: list_all_iff dns_char_def dest: in_set_takeD)
qed

lemma SafeConcatName_dns:
  assumes "list_all (\<lambda>s. s = '''' \<or> dns_like s) name" "\<exists>s\<in>set name. s \<noteq> ''''"
  shows "dns1123_label (SafeConcatName name)"
proof -
  let ?full = "strings_Join (filter (\<lambda>s. s \<noteq> '''') name) ''-''"
  have full: "dns_like ?full"
    by (rule dns_like_Join) (use assms in \<open>auto simp: list_all_iff filter_empty_conv\<close>)
  show ?thesis
  proof (cases "length ?full < 64")
    case True
    with full show ?thesis by (simp add: SafeConcatName_def Let_def dns1123_label_def dns_like_def)
  next
    case False
    then show ?thesis
      by (auto simp: SafeConcatName_def Let_def
          intro!: dns1123_label_cut [OF full] digest_tail)
  qed
qed

section \<open>Properties\<close>

text \<open>
  The three formats of a k3s version agree on the Kubernetes version: the release name and the
  image tag of a version both have the Kubernetes version of the version itself, and that
  version has neither a prerelease nor a build part.
\<close>
theorem KubernetesVersion_formats:
  "KubernetesVersion \<lparr>Raw = ReleaseName v\<rparr> = KubernetesVersion v \<and>
   KubernetesVersion \<lparr>Raw = ImageTag v\<rparr> = KubernetesVersion v \<and>
   KubernetesVersion \<lparr>Raw = KubernetesVersion v\<rparr> = KubernetesVersion v \<and>
   CHR ''-'' \<notin> set (KubernetesVersion v) \<and> CHR ''+'' \<notin> set (KubernetesVersion v)"
proof -
  have "takeWhile P (takeWhile P xs) = takeWhile P xs" for P and xs :: string
    by (simp add: takeWhile_eq_all_conv)
  moreover have "CHR ''-'' \<notin> set (KubernetesVersion v)" "CHR ''+'' \<notin> set (KubernetesVersion v)"
    by (auto simp: KubernetesVersion_takeWhile dest: set_takeWhileD)
  ultimately show ?thesis
    by (simp add: KubernetesVersion_takeWhile ReleaseName_def ImageTag_def takeWhile_Replace1)
qed

text \<open>
  A name made by \<^verbatim>\<open>SafeConcatNameWithPrefix\<close> from parts that are empty or look like DNS names is a
  DNS-1123 label: at most 63 characters, lower-case alphanumeric or hyphen, alphanumeric
  at both ends, also when it is cut and ends in the digest.
\<close>
theorem SafeConcatNameWithPrefix_dns:
  assumes "list_all (\<lambda>s. s = '''' \<or> dns_like s) name"
  shows "dns1123_label (SafeConcatNameWithPrefix name)"
proof -
  have "dns_like ''k3k''" by (simp add: dns_like_def dns_char_def lower_or_digit_def less_eq_char_def)
  then show ?thesis
    unfolding SafeConcatNameWithPrefix_def
    by (intro SafeConcatName_dns) (use assms in auto)
qed

theorem SafeConcatNameWithPrefix_dns_witness:
  "dns1123_label (SafeConcatNameWithPrefix [''my-cluster'', '''', ''server''])"
  by (rule SafeConcatNameWithPrefix_dns)
    (simp add: dns_like_def dns_char_def lower_or_digit_def less_eq_char_def)

end
