(* ===== verification/Translate.thy ===== *)
theory Translate
  imports Names
begin

text \<open>
  \<^verbatim>\<open>k3k-kubelet/translate/host.go\<close>: the translation of object metadata between a
  virtual cluster and its host namespace, and of names. \<^verbatim>\<open>TranslateTo\<close> and
  \<^verbatim>\<open>TranslateFrom\<close> work on the metadata only, through the accessors of \<^verbatim>\<open>client.Object\<close>.

  The lemmas show that translation to the host and back restores name, namespace,
  labels and annotations, and that names which fit in 63 bytes are translated
  injectively, also across clusters that share a host namespace.
\<close>

abbreviation ClusterNameLabel :: string where "ClusterNameLabel \<equiv> ''k3k.io/clusterName''"
abbreviation AgentNameLabel :: string where "AgentNameLabel \<equiv> ''k3k.io/agentName''"
abbreviation ResourceNameAnnotation :: string where "ResourceNameAnnotation \<equiv> ''k3k.io/name''"
abbreviation ResourceNamespaceAnnotation :: string where
  "ResourceNamespaceAnnotation \<equiv> ''k3k.io/namespace''"
abbreviation MetadataPrefix :: string where "MetadataPrefix \<equiv> ''k3k.io/''"
abbreviation MetadataNameField :: string where "MetadataNameField \<equiv> ''metadata.name''"
abbreviation MetadataNamespaceField :: string where
  "MetadataNamespaceField \<equiv> ''metadata.namespace''"

record to_host_translator =
  tr_ClusterName :: string
  tr_ClusterNamespace :: string

definition NewHostTranslator :: "cluster \<Rightarrow> to_host_translator" where
  "NewHostTranslator cluster =
     \<lparr>tr_ClusterName = Name (cl_meta cluster), tr_ClusterNamespace = Namespace (cl_meta cluster)\<rparr>"

definition TranslateName :: "to_host_translator \<Rightarrow> string \<Rightarrow> string \<Rightarrow> string" where
  "TranslateName t namespace name =
     (let names = (if namespace = '''' then [name, tr_ClusterName t]
                   else [name, namespace, tr_ClusterName t]);
          namePrefix = strings_Join names ''-'';
          nameKey = strings_Join names ''+'';
          nameSuffix = hex_EncodeToString (bytes_of nameKey)
      in SafeConcatName [namePrefix, nameSuffix])"

definition TranslateTo :: "to_host_translator \<Rightarrow> object_meta \<Rightarrow> object_meta" where
  "TranslateTo t obj =
     (let obj1 = obj\<lparr>OwnerReferences := []\<rparr>;
          annotations = fmupd ResourceNamespaceAnnotation (Namespace obj1)
            (fmupd ResourceNameAnnotation (Name obj1) (minit (Annotations obj1)));
          obj2 = obj1\<lparr>Annotations := Some annotations\<rparr>;
          labels = fmupd ClusterNameLabel (tr_ClusterName t) (minit (Labels obj2));
          obj3 = obj2\<lparr>Labels := Some labels, ResourceVersion := '''', UID := ''''\<rparr>;
          obj4 = obj3\<lparr>Name := TranslateName t (Namespace obj3) (Name obj3)\<rparr>
      in obj4\<lparr>Namespace := tr_ClusterNamespace t, Finalizers := []\<rparr>)"

definition TranslateFrom :: "object_meta \<Rightarrow> object_meta" where
  "TranslateFrom obj =
     (let obj1 = obj\<lparr>OwnerReferences := []\<rparr>;
          annotations = Annotations obj1;
          name = mindex annotations ResourceNameAnnotation;
          namespace = mindex annotations ResourceNamespaceAnnotation;
          obj2 = obj1\<lparr>Name := name, Namespace := namespace,
            Annotations := mdelete (mdelete annotations ResourceNameAnnotation)
              ResourceNamespaceAnnotation\<rparr>
      in obj2\<lparr>Labels := mdelete (Labels obj2) ClusterNameLabel, ResourceVersion := '''', UID := ''''\<rparr>)"

definition NamespacedName :: "to_host_translator \<Rightarrow> object_meta \<Rightarrow> namespaced_name" where
  "NamespacedName t obj =
     \<lparr>nn_Namespace = tr_ClusterNamespace t, nn_Name = TranslateName t (Namespace obj) (Name obj)\<rparr>"

section \<open>Metadata round trip\<close>

lemma fmdrop_fmupd_fresh: "fmlookup m k = None \<Longrightarrow> fmdrop k (fmupd k v m) = m"
  by (rule fmap_ext) auto

text \<open>
  C28: Translating an object of the virtual cluster to the host and back restores it: its name,
  namespace, labels and annotations come back, and only the owner references, finalizers,
  UID and resource version are dropped (a nil map comes back as an empty one). The object must
  not itself carry the keys the translation uses.
\<close>
theorem TranslateFrom_TranslateTo:
  assumes "mlookup (Annotations obj) ResourceNameAnnotation = None"
    and "mlookup (Annotations obj) ResourceNamespaceAnnotation = None"
    and "mlookup (Labels obj) ClusterNameLabel = None"
  shows "TranslateFrom (TranslateTo t obj) =
     obj\<lparr>OwnerReferences := [], Finalizers := [], ResourceVersion := '''', UID := '''',
       Annotations := Some (minit (Annotations obj)), Labels := Some (minit (Labels obj))\<rparr>"
proof -
  let ?a = "minit (Annotations obj)"
  have "fmdrop ResourceNamespaceAnnotation (fmdrop ResourceNameAnnotation
      (fmupd ResourceNamespaceAnnotation x (fmupd ResourceNameAnnotation y ?a))) = ?a" for x y
    by (rule fmap_ext) (use assms in \<open>auto simp: fmlookup_minit\<close>)
  moreover have "fmdrop ClusterNameLabel (fmupd ClusterNameLabel x (minit (Labels obj))) =
      minit (Labels obj)" for x
    by (rule fmdrop_fmupd_fresh) (simp add: fmlookup_minit assms)
  ultimately show ?thesis
    by (simp add: TranslateFrom_def TranslateTo_def Let_def mindex_def)
qed

definition wit_meta :: object_meta where
  "wit_meta = (meta_of ''web'' ''default'')\<lparr>Labels := Some (fmap_of_list [(''app'', ''web'')]),
     Finalizers := [''f''], UID := ''u''\<rparr>"

theorem TranslateFrom_TranslateTo_witness:
  "let m = TranslateFrom (TranslateTo \<lparr>tr_ClusterName = ''c'', tr_ClusterNamespace = ''k3k-c''\<rparr> wit_meta)
   in Name m = ''web'' \<and> Namespace m = ''default'' \<and> mlookup (Labels m) ''app'' = Some ''web'' \<and>
      Finalizers m = [] \<and> UID m = ''''"
  by (subst TranslateFrom_TranslateTo) (simp_all add: wit_meta_def meta_of_def)

lemma TranslateTo_frame:
  "Namespace (TranslateTo t obj) = tr_ClusterNamespace t"
  "Name (TranslateTo t obj) = TranslateName t (Namespace obj) (Name obj)"
  "key_of (TranslateTo t obj) = NamespacedName t obj"
  "mlookup (Labels (TranslateTo t obj)) ClusterNameLabel = Some (tr_ClusterName t)"
  "OwnerReferences (TranslateTo t obj) = []"
  "Finalizers (TranslateTo t obj) = []"
  "UID (TranslateTo t obj) = ''''"
  "ResourceVersion (TranslateTo t obj) = ''''"
  "DeletionTimestamp (TranslateTo t obj) = DeletionTimestamp obj"
  by (simp_all add: TranslateTo_def Let_def key_of_def NamespacedName_def)

section \<open>Injectivity of short names\<close>

definition host_names :: "to_host_translator \<Rightarrow> string \<Rightarrow> string \<Rightarrow> string list" where
  "host_names t namespace name =
     (if namespace = '''' then [name, tr_ClusterName t] else [name, namespace, tr_ClusterName t])"

text \<open>The length of the name before any cut.\<close>

definition full_length :: "to_host_translator \<Rightarrow> string \<Rightarrow> string \<Rightarrow> nat" where
  "full_length t namespace name =
     3 * length (strings_Join (host_names t namespace name) ''-'') + 1"

lemma length_Join_sep: "length c = length d \<Longrightarrow>
    length (strings_Join xs c) = length (strings_Join xs d)"
  by (induction xs c rule: strings_Join.induct) auto

lemma TranslateName_full:
  assumes "full_length t ns n < 64"
  shows "TranslateName t ns n =
     strings_Join (host_names t ns n) ''-'' @ CHR ''-'' #
       hex_EncodeToString (bytes_of (strings_Join (host_names t ns n) ''+''))"
proof -
  let ?p = "strings_Join (host_names t ns n) ''-''"
  let ?s = "hex_EncodeToString (bytes_of (strings_Join (host_names t ns n) ''+''))"
  have "length (strings_Join (host_names t ns n) ''+'') = length ?p"
    by (rule length_Join_sep) simp
  then have "length (?p @ CHR ''-'' # ?s) < 64"
    using assms by (simp add: full_length_def)
  moreover have "?p \<noteq> []" "?s \<noteq> []"
    by (auto simp: host_names_def bytes_of_def)
  ultimately show ?thesis
    unfolding TranslateName_def Let_def host_names_def [symmetric]
    by (subst SafeConcatName_short) auto
qed

lemma hyphen_not_hex: "CHR ''-'' \<notin> hex_chars"
  by (simp add: hex_chars_def)

lemma suffix_after_last_sep:
  assumes "c \<notin> set s" "c \<notin> set s'" "p @ c # s = p' @ c # s'"
  shows "s = s'"
proof -
  have "rev s @ c # rev p = rev s' @ c # rev p'"
    using assms(3) by (metis append.assoc append_Cons append_Nil rev.simps(2) rev_append)
  then show ?thesis
    using append_sep_inj [of c "rev s" "rev s'"] assms(1,2) by auto
qed

text \<open>
  C29: Two objects, of one virtual cluster or of two, never get the same host name unless they have the
  same name, namespace and cluster, as long as the name needs no cut (longer ones rest on the
  digest) and no part contains the separator of the key.
\<close>
theorem TranslateName_inj:
  assumes len: "full_length t ns n < 64" "full_length t' ns' n' < 64"
    and plus: "\<forall>x\<in>{n, ns, tr_ClusterName t, n', ns', tr_ClusterName t'}. CHR ''+'' \<notin> set x"
    and eq: "TranslateName t ns n = TranslateName t' ns' n'"
  shows "n = n' \<and> ns = ns' \<and> tr_ClusterName t = tr_ClusterName t'"
proof -
  let ?k = "strings_Join (host_names t ns n) ''+''"
  let ?k' = "strings_Join (host_names t' ns' n') ''+''"
  have nohyphen: "CHR ''-'' \<notin> set (hex_EncodeToString bs)" for bs
    using set_hex_EncodeToString hyphen_not_hex by blast
  have "hex_EncodeToString (bytes_of ?k) = hex_EncodeToString (bytes_of ?k')"
    using suffix_after_last_sep [OF nohyphen nohyphen] eq
    unfolding TranslateName_full [OF len(1)] TranslateName_full [OF len(2)] by blast
  then have key: "?k = ?k'"
    by (rule bytes_of_inj [OF hex_EncodeToString_inj])
  have sep: "\<forall>x\<in>set (host_names t ns n). CHR ''+'' \<notin> set x"
      "\<forall>x\<in>set (host_names t' ns' n'). CHR ''+'' \<notin> set x"
    using plus by (simp_all add: host_names_def)
  have "host_names t ns n \<noteq> []" "host_names t' ns' n' \<noteq> []"
    by (simp_all add: host_names_def)
  from strings_Join_inj [OF sep this key] have "host_names t ns n = host_names t' ns' n'" .
  then show ?thesis
    by (auto simp: host_names_def split: if_splits)
qed

theorem TranslateName_inj_witness:
  "TranslateName \<lparr>tr_ClusterName = ''c'', tr_ClusterNamespace = ''k''\<rparr> ''b-a'' ''x'' \<noteq>
   TranslateName \<lparr>tr_ClusterName = ''c'', tr_ClusterNamespace = ''k''\<rparr> ''b'' ''x-a''"
proof
  assume "TranslateName \<lparr>tr_ClusterName = ''c'', tr_ClusterNamespace = ''k''\<rparr> ''b-a'' ''x'' =
    TranslateName \<lparr>tr_ClusterName = ''c'', tr_ClusterNamespace = ''k''\<rparr> ''b'' ''x-a''"
  from TranslateName_inj [OF _ _ _ this] show False
    by (simp add: full_length_def host_names_def)
qed

lemma length_TranslateName: "length (TranslateName t ns n) < 64"
  by (simp add: TranslateName_def Let_def length_SafeConcatName)

text \<open>
  The host name of an object whose name, namespace and cluster look like DNS names is a DNS-1123 label, so
  the host API server accepts it.
\<close>
theorem TranslateName_dns:
  assumes "dns_like n" "dns_like (tr_ClusterName t)" "ns = '''' \<or> dns_like ns"
  shows "dns1123_label (TranslateName t ns n)"
proof -
  let ?p = "strings_Join (host_names t ns n) ''-''"
  let ?s = "hex_EncodeToString (bytes_of (strings_Join (host_names t ns n) ''+''))"
  have p: "dns_like ?p"
    by (rule dns_like_Join) (use assms in \<open>auto simp: host_names_def\<close>)
  have "?s \<noteq> []" by (auto simp: host_names_def bytes_of_def)
  moreover have "list_all lower_or_digit ?s" by (rule list_all_hex)
  ultimately have "dns_like ?s"
    by (auto simp: dns_like_def list_all_iff dns_char_def)
  with p show ?thesis
    unfolding TranslateName_def Let_def host_names_def [symmetric]
    by (intro SafeConcatName_dns) (auto simp: dns_like_def)
qed

theorem TranslateName_dns_witness:
  "dns1123_label (TranslateName \<lparr>tr_ClusterName = ''my-cluster'', tr_ClusterNamespace = ''k3k''\<rparr>
     ''default'' ''a-long-config-map-name'')"
  by (rule TranslateName_dns)
    (simp_all add: dns_like_def dns_char_def lower_or_digit_def less_eq_char_def)

end
