(* ===== verification/Core_Types.thy ===== *)
theory Core_Types
  imports Api_Types
begin

text \<open>
  The Kubernetes objects the controllers and the virtual kubelet read and write, as records
  with the fields the sources touch; what they only copy is a \<^verbatim>\<open>payload\<close> field. Pointers are
  options, so a Go union of pointers (volume sources, projections) is a record of options,
  of which more than one may be set.
\<close>

section \<open>Config maps, secrets and services\<close>

record config_map =
  cm_meta :: object_meta
  cm_Data :: "smap option"
  cm_BinaryData :: "smap option"
  cm_Immutable :: "bool option"

record secret =
  sec_meta :: object_meta
  sec_Type :: string
  sec_Data :: "smap option"
  sec_Immutable :: "bool option"

abbreviation SecretTypeServiceAccountToken :: string where
  "SecretTypeServiceAccountToken \<equiv> ''kubernetes.io/service-account-token''"
abbreviation SecretTypeOpaque :: string where "SecretTypeOpaque \<equiv> ''Opaque''"

record service =
  svc_meta :: object_meta
  svc_ClusterIP :: string
  svc_rest :: payload
  svc_LoadBalancer :: payload

section \<open>Ingresses\<close>

record service_backend =
  sb_Name :: string
  sb_Port :: payload

record ingress_path =
  ip_Service :: "service_backend option"
  ip_rest :: payload

record ingress_rule =
  ir_Host :: string
  ir_HTTP :: "ingress_path list option"

record ingress_tls =
  it_Hosts :: "string list"
  it_SecretName :: string

record ingress =
  ing_meta :: object_meta
  ing_Rules :: "ingress_rule list"
  ing_TLS :: "ingress_tls list"
  ing_rest :: payload
  ing_LoadBalancer :: payload

section \<open>Storage and scheduling\<close>

record persistent_volume_claim =
  pvc_meta :: object_meta
  pvc_APIVersion :: string
  pvc_Kind :: string
  pvc_StorageClassName :: "string option"
  pvc_VolumeMode :: "string option"
  pvc_AccessModes :: "string list"
  pvc_Requests :: payload
  pvc_VolumeName :: string
  pvc_rest :: payload
  pvc_Phase :: string
  pvc_StatusAccessModes :: "string list"

record object_reference =
  ob_APIVersion :: string
  ob_Kind :: string
  ob_Namespace :: string
  ob_Name :: string
  ob_UID :: string
  ob_ResourceVersion :: string

record persistent_volume =
  pv_meta :: object_meta
  pv_FlexVolumeDriver :: string
  pv_StorageClassName :: string
  pv_VolumeMode :: "string option"
  pv_ReclaimPolicy :: string
  pv_AccessModes :: "string list"
  pv_Capacity :: payload
  pv_ClaimRef :: "object_reference option"
  pv_Phase :: string

record priority_class =
  prc_meta :: object_meta
  prc_Value :: int
  prc_GlobalDefault :: bool
  prc_rest :: payload

record event =
  evt_meta :: object_meta
  evt_InvolvedObject :: object_reference
  evt_Type :: string
  evt_Reason :: string
  evt_Message :: string

section \<open>Pods\<close>

record capabilities =
  cap_Add :: "string list"
  cap_Drop :: "string list"

record security_context =
  sx_AllowPrivilegeEscalation :: "bool option"
  sx_Capabilities :: "capabilities option"
  sx_RunAsNonRoot :: "bool option"
  sx_RunAsUser :: "int option"
  sx_RunAsGroup :: "int option"
  sx_SeccompProfile :: "string option"
  sx_rest :: payload

definition empty_security_context :: security_context where
  "empty_security_context =
     \<lparr>sx_AllowPrivilegeEscalation = None, sx_Capabilities = None, sx_RunAsNonRoot = None,
      sx_RunAsUser = None, sx_RunAsGroup = None, sx_SeccompProfile = None, sx_rest = ''''\<rparr>"

record volume_mount =
  vm_Name :: string
  vm_MountPath :: string
  vm_SubPath :: string
  vm_rest :: payload

text \<open>\<^verbatim>\<open>EnvFromSource\<close>: a prefix and the names of a config map or a secret.\<close>

record env_from_source =
  ef_Prefix :: string
  ef_ConfigMapRef :: "string option"
  ef_SecretRef :: "string option"

record container =
  ct_Name :: string
  ct_Image :: string
  ct_Env :: "env_var list"
  ct_EnvFrom :: "env_from_source list"
  ct_VolumeMounts :: "volume_mount list"
  ct_SecurityContext :: "security_context option"
  ct_rest :: payload

record named_source =
  ns_Name :: string
  ns_rest :: payload

record secret_projection =
  sp_Name :: string
  sp_Items :: "key_to_path list"
  sp_Optional :: "bool option"

record token_projection =
  tp_Audience :: string
  tp_ExpirationSeconds :: "int option"
  tp_Path :: string

record downward_item =
  dw_Path :: string
  dw_FieldRef :: "string option"
  dw_rest :: payload

record projection =
  pj_ConfigMap :: "named_source option"
  pj_Secret :: "secret_projection option"
  pj_DownwardAPI :: "downward_item list option"
  pj_ServiceAccountToken :: "token_projection option"
  pj_rest :: payload

record volume =
  vo_Name :: string
  vo_ConfigMap :: "named_source option"
  vo_Secret :: "named_source option"
  vo_PersistentVolumeClaim :: "named_source option"
  vo_Projected :: "projection list option"
  vo_DownwardAPI :: "downward_item list option"
  vo_EmptyDir :: "payload option"
  vo_HostPath :: "string option"
  vo_rest :: payload

definition empty_volume :: "string \<Rightarrow> volume" where
  "empty_volume n =
     \<lparr>vo_Name = n, vo_ConfigMap = None, vo_Secret = None, vo_PersistentVolumeClaim = None,
      vo_Projected = None, vo_DownwardAPI = None, vo_EmptyDir = None, vo_HostPath = None,
      vo_rest = ''''\<rparr>"

record host_alias =
  ha_IP :: string
  ha_Hostnames :: "string list"

record dns_config =
  dn_Nameservers :: "string list"
  dn_Searches :: "string list"
  dn_Options :: "(string \<times> string option) list"

text \<open>An affinity is opaque, apart from the ones the program builds: preferred node terms with
  weight, key, operator and values, and a preferred pod anti-affinity with its weight, topology key
  and the labels of the pods to avoid.\<close>

datatype affinity =
    OpaqueAffinity payload
  | PreferredNodeAffinity "(int \<times> string \<times> string \<times> string list) list"
  | PreferredPodAntiAffinity int string smap

record pod_spec =
  pod_NodeName :: string
  pod_NodeSelector :: "smap option"
  pod_Affinity :: "affinity option"
  pod_Hostname :: string
  pod_PriorityClassName :: string
  pod_Priority :: "int option"
  pod_SchedulerName :: string
  pod_Volumes :: "volume list"
  pod_Containers :: "container list"
  pod_InitContainers :: "container list"
  pod_EphemeralContainers :: "container list"
  pod_ServiceAccountName :: string
  pod_DeprecatedServiceAccount :: string
  pod_AutomountServiceAccountToken :: "bool option"
  pod_ImagePullSecrets :: "string list"
  pod_HostAliases :: "host_alias list"
  pod_DNSPolicy :: string
  pod_DNSConfig :: "dns_config option"
  pod_ActiveDeadlineSeconds :: "int option"
  pod_Tolerations :: payload
  pod_rest :: payload

record pod_status =
  pod_Phase :: string
  pod_PodIP :: string
  pod_HostIP :: string
  pod_status_rest :: payload

record pod =
  pod_meta :: object_meta
  pod_Spec :: pod_spec
  pod_Status :: pod_status

definition empty_pod_spec :: pod_spec where
  "empty_pod_spec =
     \<lparr>pod_NodeName = '''', pod_NodeSelector = None, pod_Affinity = None, pod_Hostname = '''',
      pod_PriorityClassName = '''', pod_Priority = None, pod_SchedulerName = '''',
      pod_Volumes = [], pod_Containers = [], pod_InitContainers = [],
      pod_EphemeralContainers = [], pod_ServiceAccountName = '''',
      pod_DeprecatedServiceAccount = '''', pod_AutomountServiceAccountToken = None,
      pod_ImagePullSecrets = [], pod_HostAliases = [], pod_DNSPolicy = '''', pod_DNSConfig = None,
      pod_ActiveDeadlineSeconds = None, pod_Tolerations = '''', pod_rest = ''''\<rparr>"

definition pod_of :: "object_meta \<Rightarrow> pod" where
  "pod_of m =
     \<lparr>pod_meta = m, pod_Spec = empty_pod_spec,
      pod_Status = \<lparr>pod_Phase = '''', pod_PodIP = '''', pod_HostIP = '''', pod_status_rest = ''''\<rparr>\<rparr>"

end
