(* ===== verification/Kube.thy ===== *)
theory Kube
  imports Core_Types
begin

text \<open>
  The Kubernetes API as the controllers see it. The API server and the client library
  are not part of the repository, so they are a parameter: a record of functions over an
  arbitrary environment state \<^verbatim>\<open>'e\<close>, one typed client per resource and side (host or
  virtual cluster). Nothing is assumed of them here, so a response may be anything,
  including an error, at every call; this also covers other clients changing objects
  between two calls.

  Every call a handler makes is appended to a log with its outcome, so that theorems
  can speak about which calls a handler makes and in which order. Handlers are state
  transformers over the log and the environment; \<^verbatim>\<open>bindE\<close> is Go's
  \<^verbatim>\<open>if err != nil { return err }\<close>.
\<close>

section \<open>The world and its calls\<close>

datatype side = Host | Virt

datatype verb = VGet | VList | VCreate | VUpdate | VStatusUpdate | VStatusPatch | VDelete
  | VDeleteAllOf | VCreateOrUpdate | VPatch | VUpdateEphemeralContainers | VCreateToken
  | VRecordEvent

datatype kind = KCluster | KPolicy | KNamespace | KNode | KPod | KService | KSecret | KConfigMap
  | KNetworkPolicy | KResourceQuota | KLimitRange | KIngress | KStatefulSet
  | KClusterRoleBinding | KLease | KStorageClass | KPVC | KPV | KPriorityClass | KEvent
  | KServiceCIDR | KServiceAccount | KDaemonSet | KDeployment | KRole | KRoleBinding
  | KEndpointSlice | KEndpoints | KServerConfig | KBootstrapData | KServerVersion | KHostAddress
  | KEtcdMember | KEtcdSnapshot | KSnapshotFile | KPodLog | KPodExec | KPodAttach | KPodPortForward | KNodeStats

text \<open>The label requirements of a selector, and the selection by an index field of the cache.\<close>

datatype requirement = ReqEquals string string | ReqNotEquals string string | ReqField string string

record call =
  c_side :: side
  c_verb :: verb
  c_kind :: kind
  c_meta :: object_meta
  c_reqs :: "requirement list"
  c_err :: "goerr option"

record 'e world =
  w_calls :: "call list"
  w_env :: 'e

type_synonym ('e, 'a) io = "'e world \<Rightarrow> 'a \<times> 'e world"

definition ret :: "'a \<Rightarrow> ('e, 'a) io" where
  "ret a = (\<lambda>w. (a, w))"

definition bindS :: "('e, 'a) io \<Rightarrow> ('a \<Rightarrow> ('e, 'b) io) \<Rightarrow> ('e, 'b) io" where
  "bindS m f = (\<lambda>w. case m w of (a, w') \<Rightarrow> f a w')"

definition bindE :: "('e, goerr + 'a) io \<Rightarrow> ('a \<Rightarrow> ('e, goerr + 'b) io) \<Rightarrow> ('e, goerr + 'b) io" where
  "bindE m f = bindS m (\<lambda>r. case r of Inl e \<Rightarrow> ret (Inl e) | Inr a \<Rightarrow> f a)"

text \<open>Input from outside the API servers.\<close>

definition external :: "('e \<Rightarrow> 'a \<times> 'e) \<Rightarrow> ('e, 'a) io" where
  "external f = (\<lambda>w. case f (w_env w) of (a, e) \<Rightarrow> (a, w\<lparr>w_env := e\<rparr>))"

text \<open>A loop that returns at the first error, and one that goes on and collects them.\<close>

fun for_each :: "'a list \<Rightarrow> ('a \<Rightarrow> ('e, goerr + unit) io) \<Rightarrow> ('e, goerr + unit) io" where
  "for_each [] f = ret (Inr ())"
| "for_each (x # xs) f = bindE (f x) (\<lambda>_. for_each xs f)"

fun for_collect :: "'a list \<Rightarrow> ('a \<Rightarrow> ('e, goerr list) io) \<Rightarrow> ('e, goerr list) io" where
  "for_collect [] f = ret []"
| "for_collect (x # xs) f = bindS (f x) (\<lambda>es. bindS (for_collect xs f) (\<lambda>es'. ret (es @ es')))"

section \<open>Clients\<close>

text \<open>The options of a list call.\<close>

record list_opts =
  lo_Namespace :: string
  lo_Reqs :: "requirement list"

abbreviation InNamespace :: "string \<Rightarrow> list_opts" where
  "InNamespace ns \<equiv> \<lparr>lo_Namespace = ns, lo_Reqs = []\<rparr>"

record ('e, 'o) client =
  cli_Get :: "namespaced_name \<Rightarrow> 'e \<Rightarrow> (goerr + 'o) \<times> 'e"
  cli_List :: "list_opts \<Rightarrow> 'e \<Rightarrow> (goerr + 'o list) \<times> 'e"
  cli_Create :: "'o \<Rightarrow> 'e \<Rightarrow> (goerr + 'o) \<times> 'e"
  cli_Update :: "'o \<Rightarrow> 'e \<Rightarrow> (goerr + 'o) \<times> 'e"
  cli_StatusUpdate :: "'o \<Rightarrow> 'e \<Rightarrow> (goerr + 'o) \<times> 'e"
  cli_StatusPatch :: "'o \<Rightarrow> 'o \<Rightarrow> 'e \<Rightarrow> (goerr + 'o) \<times> 'e"
  cli_Patch :: "'o \<Rightarrow> 'o \<Rightarrow> 'e \<Rightarrow> (goerr + 'o) \<times> 'e"
  cli_Delete :: "'o \<Rightarrow> 'e \<Rightarrow> (goerr + unit) \<times> 'e"
  cli_DeleteAllOf :: "list_opts \<Rightarrow> 'e \<Rightarrow> (goerr + unit) \<times> 'e"
  cli_CreateOrUpdate :: "'o \<Rightarrow> ('o \<Rightarrow> goerr + 'o) \<Rightarrow> 'e \<Rightarrow> (goerr + 'o) \<times> 'e"

text \<open>A resource: its kind, its metadata, and its client on either side.\<close>

record ('e, 'o) resource =
  r_kind :: kind
  r_meta :: "'o \<Rightarrow> object_meta"
  r_cli :: "side \<Rightarrow> ('e, 'o) client"

definition log_call :: "side \<Rightarrow> verb \<Rightarrow> kind \<Rightarrow> object_meta \<Rightarrow> requirement list \<Rightarrow> ('e \<Rightarrow> (goerr + 'a) \<times> 'e) \<Rightarrow>
    ('e, goerr + 'a) io" where
  "log_call s v k m rs f =
     (\<lambda>w. case f (w_env w) of (r, e) \<Rightarrow>
        (r, \<lparr>w_calls = w_calls w @ [\<lparr>c_side = s, c_verb = v, c_kind = k, c_meta = m, c_reqs = rs, c_err = err_of r\<rparr>],
             w_env = e\<rparr>))"

definition k_Get :: "side \<Rightarrow> ('e, 'o) resource \<Rightarrow> namespaced_name \<Rightarrow> ('e, goerr + 'o) io" where
  "k_Get s R key =
     log_call s VGet (r_kind R) (meta_of (nn_Name key) (nn_Namespace key)) [] (cli_Get (r_cli R s) key)"

definition k_List :: "side \<Rightarrow> ('e, 'o) resource \<Rightarrow> list_opts \<Rightarrow> ('e, goerr + 'o list) io" where
  "k_List s R opts =
     log_call s VList (r_kind R) (meta_of '''' (lo_Namespace opts)) (lo_Reqs opts) (cli_List (r_cli R s) opts)"

definition k_Create :: "side \<Rightarrow> ('e, 'o) resource \<Rightarrow> 'o \<Rightarrow> ('e, goerr + 'o) io" where
  "k_Create s R ob = log_call s VCreate (r_kind R) (r_meta R ob) [] (cli_Create (r_cli R s) ob)"

definition k_Update :: "side \<Rightarrow> ('e, 'o) resource \<Rightarrow> 'o \<Rightarrow> ('e, goerr + 'o) io" where
  "k_Update s R ob = log_call s VUpdate (r_kind R) (r_meta R ob) [] (cli_Update (r_cli R s) ob)"

definition k_StatusUpdate :: "side \<Rightarrow> ('e, 'o) resource \<Rightarrow> 'o \<Rightarrow> ('e, goerr + 'o) io" where
  "k_StatusUpdate s R ob =
     log_call s VStatusUpdate (r_kind R) (r_meta R ob) [] (cli_StatusUpdate (r_cli R s) ob)"

definition k_StatusPatch :: "side \<Rightarrow> ('e, 'o) resource \<Rightarrow> 'o \<Rightarrow> 'o \<Rightarrow> ('e, goerr + 'o) io" where
  "k_StatusPatch s R ob orig =
     log_call s VStatusPatch (r_kind R) (r_meta R ob) [] (cli_StatusPatch (r_cli R s) ob orig)"

definition k_Patch :: "side \<Rightarrow> ('e, 'o) resource \<Rightarrow> 'o \<Rightarrow> 'o \<Rightarrow> ('e, goerr + 'o) io" where
  "k_Patch s R ob orig = log_call s VPatch (r_kind R) (r_meta R ob) [] (cli_Patch (r_cli R s) ob orig)"

definition k_Delete :: "side \<Rightarrow> ('e, 'o) resource \<Rightarrow> 'o \<Rightarrow> ('e, goerr + unit) io" where
  "k_Delete s R ob = log_call s VDelete (r_kind R) (r_meta R ob) [] (cli_Delete (r_cli R s) ob)"

definition k_DeleteAllOf :: "side \<Rightarrow> ('e, 'o) resource \<Rightarrow> list_opts \<Rightarrow> ('e, goerr + unit) io" where
  "k_DeleteAllOf s R opts =
     log_call s VDeleteAllOf (r_kind R) (meta_of '''' (lo_Namespace opts)) (lo_Reqs opts)
       (cli_DeleteAllOf (r_cli R s) opts)"

definition k_CreateOrUpdate :: "side \<Rightarrow> ('e, 'o) resource \<Rightarrow> 'o \<Rightarrow> ('o \<Rightarrow> goerr + 'o) \<Rightarrow>
    ('e, goerr + 'o) io" where
  "k_CreateOrUpdate s R ob f =
     log_call s VCreateOrUpdate (r_kind R) (r_meta R ob) [] (cli_CreateOrUpdate (r_cli R s) ob f)"

lemmas k_defs = k_Get_def k_List_def k_Create_def k_Update_def k_StatusUpdate_def
  k_StatusPatch_def k_Patch_def k_Delete_def k_DeleteAllOf_def k_CreateOrUpdate_def

section \<open>Controller utilities\<close>

text \<open>
  The functions of \<^verbatim>\<open>controllerutil\<close> and \<^verbatim>\<open>meta\<close> the handlers use, a parameter as well:
  finalizers, owner references (the first argument is the owner) and status conditions.
\<close>

record util =
  AddFinalizer :: "string \<Rightarrow> object_meta \<Rightarrow> bool \<times> object_meta"
  RemoveFinalizer :: "string \<Rightarrow> object_meta \<Rightarrow> bool \<times> object_meta"
  SetControllerReference :: "object_meta \<Rightarrow> object_meta \<Rightarrow> goerr + object_meta"
  SetOwnerReference :: "object_meta \<Rightarrow> object_meta \<Rightarrow> goerr + object_meta"
  SetStatusCondition :: "condition list \<Rightarrow> condition \<Rightarrow> condition list"

text \<open>Their documented behaviour.\<close>

locale controllerutil =
  fixes U :: util
  assumes AddFinalizer_law:
      "AddFinalizer U f m =
         (if f \<in> set (Finalizers m) then (False, m)
          else (True, m\<lparr>Finalizers := Finalizers m @ [f]\<rparr>))"
    and RemoveFinalizer_law:
      "RemoveFinalizer U f m =
         (f \<in> set (Finalizers m), m\<lparr>Finalizers := removeAll f (Finalizers m)\<rparr>)"
    and SetControllerReference_law:
      "SetControllerReference U owner m = Inr m' \<Longrightarrow>
         m' = m\<lparr>OwnerReferences := OwnerReferences m'\<rparr> \<and>
         (\<exists>r\<in>set (OwnerReferences m'). or_Name r = Name owner \<and> or_Controller r)"
    and SetOwnerReference_law:
      "SetOwnerReference U owner m = Inr m' \<Longrightarrow>
         m' = m\<lparr>OwnerReferences := OwnerReferences m'\<rparr> \<and>
         (\<exists>r\<in>set (OwnerReferences m'). or_Name r = Name owner)"
    and SetStatusCondition_in: "c \<in> set (SetStatusCondition U cs c)"
    and SetStatusCondition_other:
      "cd_Type d \<noteq> cd_Type c \<Longrightarrow> d \<in> set (SetStatusCondition U cs c) \<longleftrightarrow> d \<in> set cs"
    and SetStatusCondition_only:
      "d \<in> set (SetStatusCondition U cs c) \<Longrightarrow> cd_Type d = cd_Type c \<Longrightarrow> d = c"
begin

lemma RemoveFinalizer_gone: "f \<notin> set (Finalizers (snd (RemoveFinalizer U f m)))"
  by (simp add: RemoveFinalizer_law)

lemma RemoveFinalizer_key: "key_of (snd (RemoveFinalizer U f m)) = key_of m"
  by (simp add: RemoveFinalizer_law key_of_def)

lemma AddFinalizer_there: "f \<in> set (Finalizers (snd (AddFinalizer U f m)))"
  by (simp add: AddFinalizer_law)

lemma AddFinalizer_key: "key_of (snd (AddFinalizer U f m)) = key_of m"
  by (simp add: AddFinalizer_law key_of_def)

lemma SetControllerReference_key:
  "SetControllerReference U owner m = Inr m' \<Longrightarrow> key_of m' = key_of m"
  by (drule SetControllerReference_law) (metis key_of_def object_meta.select_convs(1,2)
      object_meta.surjective object_meta.update_convs(8))

lemma SetOwnerReference_key:
  "SetOwnerReference U owner m = Inr m' \<Longrightarrow> key_of m' = key_of m"
  by (drule SetOwnerReference_law) (metis key_of_def object_meta.select_convs(1,2)
      object_meta.surjective object_meta.update_convs(8))

end

section \<open>Reasoning about handlers\<close>

named_theorems io_run \<open>execution of handlers step by step\<close>
named_theorems calls_intro \<open>compositional rules for the calls of a handler\<close>

lemma ret_run [io_run]: "ret a w = (a, w)"
  by (simp add: ret_def)

lemma bindS_run [io_run]: "bindS m f w = (case m w of (a, w') \<Rightarrow> f a w')"
  by (simp add: bindS_def)

lemma bindE_run [io_run]:
  "bindE m f w = (case m w of (Inl e, w') \<Rightarrow> (Inl e, w') | (Inr a, w') \<Rightarrow> f a w')"
  by (auto simp: bindE_def bindS_def ret_def split: prod.splits sum.splits)

lemma for_each_append: "for_each (xs @ ys) f = bindE (for_each xs f) (\<lambda>_. for_each ys f)"
  by (induction xs) (auto simp: fun_eq_iff io_run split: prod.splits sum.splits)

text \<open>
  \<^verbatim>\<open>calls_sat P m\<close>: whatever the environment answers, \<^verbatim>\<open>m\<close> only appends calls that
  satisfy \<^verbatim>\<open>P\<close> to the log.
\<close>

definition calls_sat :: "(call \<Rightarrow> bool) \<Rightarrow> ('e, 'a) io \<Rightarrow> bool" where
  "calls_sat P m = (\<forall>w. \<exists>cs. w_calls (snd (m w)) = w_calls w @ cs \<and> list_all P cs)"

lemma calls_sat_ret [calls_intro]: "calls_sat P (ret a)"
  by (simp add: calls_sat_def ret_def)

text \<open>The continuation may use that its argument is a result of the first handler.\<close>

lemma calls_sat_bindS_res:
  assumes "calls_sat P m" "\<And>w a w'. m w = (a, w') \<Longrightarrow> calls_sat P (f a)"
  shows "calls_sat P (bindS m f)"
  unfolding calls_sat_def
proof
  fix w
  obtain a w' where m: "m w = (a, w')" by (cases "m w")
  with assms(1) obtain cs where "w_calls w' = w_calls w @ cs" "list_all P cs"
    unfolding calls_sat_def by (metis snd_conv)
  moreover obtain cs' where "w_calls (snd (f a w')) = w_calls w' @ cs'" "list_all P cs'"
    using assms(2) [OF m] unfolding calls_sat_def by blast
  ultimately show "\<exists>cs. w_calls (snd (bindS m f w)) = w_calls w @ cs \<and> list_all P cs"
    by (intro exI [of _ "cs @ cs'"]) (simp add: bindS_def m)
qed

lemma calls_sat_bindS [calls_intro]:
  "calls_sat P m \<Longrightarrow> (\<And>a. calls_sat P (f a)) \<Longrightarrow> calls_sat P (bindS m f)"
  by (rule calls_sat_bindS_res)

lemma calls_sat_bindE [calls_intro]:
  assumes "calls_sat P m" "\<And>a. calls_sat P (f a)"
  shows "calls_sat P (bindE m f)"
  unfolding bindE_def
  by (rule calls_sat_bindS [OF assms(1)]) (auto intro: assms(2) calls_sat_ret split: sum.split)

lemma calls_sat_bindE_res:
  assumes "calls_sat P m" "\<And>w a w'. m w = (Inr a, w') \<Longrightarrow> calls_sat P (f a)"
  shows "calls_sat P (bindE m f)"
  unfolding bindE_def
  by (rule calls_sat_bindS_res [OF assms(1)]) (auto intro: assms(2) calls_sat_ret split: sum.split)

lemma calls_sat_for_each [calls_intro]:
  "(\<And>x. x \<in> set xs \<Longrightarrow> calls_sat P (f x)) \<Longrightarrow> calls_sat P (for_each xs f)"
  by (induction xs) (auto intro!: calls_sat_bindE calls_sat_ret)

lemma calls_sat_for_collect [calls_intro]:
  "(\<And>x. x \<in> set xs \<Longrightarrow> calls_sat P (f x)) \<Longrightarrow> calls_sat P (for_collect xs f)"
  by (induction xs) (auto intro!: calls_sat_bindS calls_sat_ret)

lemma calls_sat_log_call [calls_intro]:
  "(\<And>e. P \<lparr>c_side = s, c_verb = v, c_kind = k, c_meta = m, c_reqs = rs, c_err = e\<rparr>) \<Longrightarrow>
    calls_sat P (log_call s v k m rs f)"
  by (auto simp: calls_sat_def log_call_def split: prod.splits)

lemma calls_sat_external [calls_intro]: "calls_sat P (external f)"
  by (auto simp: calls_sat_def external_def split: prod.splits)

lemma calls_sat_if [calls_intro]:
  "(b \<Longrightarrow> calls_sat P m) \<Longrightarrow> (\<not> b \<Longrightarrow> calls_sat P n) \<Longrightarrow> calls_sat P (if b then m else n)"
  by simp

lemma calls_sat_sum [calls_intro]:
  "(\<And>e. r = Inl e \<Longrightarrow> calls_sat P (f e)) \<Longrightarrow> (\<And>a. r = Inr a \<Longrightarrow> calls_sat P (g a)) \<Longrightarrow>
    calls_sat P (case r of Inl e \<Rightarrow> f e | Inr a \<Rightarrow> g a)"
  by (simp split: sum.split)

lemma calls_sat_option [calls_intro]:
  "(r = None \<Longrightarrow> calls_sat P m) \<Longrightarrow> (\<And>a. r = Some a \<Longrightarrow> calls_sat P (g a)) \<Longrightarrow>
    calls_sat P (case r of None \<Rightarrow> m | Some a \<Rightarrow> g a)"
  by (simp split: option.split)

lemma calls_sat_prod [calls_intro]:
  "(\<And>a b. r = (a, b) \<Longrightarrow> calls_sat P (f a b)) \<Longrightarrow> calls_sat P (case r of (a, b) \<Rightarrow> f a b)"
  by (simp split: prod.split)

lemma calls_sat_Let [calls_intro]: "calls_sat P (f x) \<Longrightarrow> calls_sat P (let y = x in f y)"
  by simp

lemma calls_sat_mono: "calls_sat P m \<Longrightarrow> (\<And>c. P c \<Longrightarrow> Q c) \<Longrightarrow> calls_sat Q m"
  unfolding calls_sat_def by (metis (mono_tags, lifting) list.pred_mono_strong)

text \<open>Writes, and calls that stay inside a namespace of a side.\<close>

definition is_write :: "call \<Rightarrow> bool" where
  "is_write c = (c_verb c \<noteq> VGet \<and> c_verb c \<noteq> VList)"

abbreviation writes_only :: "(call \<Rightarrow> bool) \<Rightarrow> ('e, 'a) io \<Rightarrow> bool" where
  "writes_only P m \<equiv> calls_sat (\<lambda>c. is_write c \<longrightarrow> P c) m"

lemma is_write_simps [simp]:
  "is_write \<lparr>c_side = s, c_verb = v, c_kind = k, c_meta = m, c_reqs = rs, c_err = e\<rparr> \<longleftrightarrow>
     v \<noteq> VGet \<and> v \<noteq> VList"
  by (simp add: is_write_def)

section \<open>Order of calls\<close>

text \<open>
  \<^verbatim>\<open>guarded en cr cs\<close>: in the sequence \<^verbatim>\<open>cs\<close>, no call satisfies \<^verbatim>\<open>cr\<close> before the first one that
  satisfies \<^verbatim>\<open>en\<close>. \<^verbatim>\<open>guards en cr m\<close>: that holds for the calls of \<^verbatim>\<open>m\<close>, whatever the environment
  answers.
\<close>

fun guarded :: "(call \<Rightarrow> bool) \<Rightarrow> (call \<Rightarrow> bool) \<Rightarrow> call list \<Rightarrow> bool" where
  "guarded en cr [] = True"
| "guarded en cr (c # cs) = (en c \<or> (\<not> cr c \<and> guarded en cr cs))"

definition guards :: "(call \<Rightarrow> bool) \<Rightarrow> (call \<Rightarrow> bool) \<Rightarrow> ('e, 'a) io \<Rightarrow> bool" where
  "guards en cr m = (\<forall>w. \<exists>cs. w_calls (snd (m w)) = w_calls w @ cs \<and> guarded en cr cs)"

lemma guarded_nth:
  "guarded en cr cs \<Longrightarrow> i < length cs \<Longrightarrow> cr (cs ! i) \<Longrightarrow> \<exists>j\<le>i. en (cs ! j)"
proof (induction cs arbitrary: i)
  case (Cons c cs)
  show ?case
  proof (cases "en c")
    case True
    then show ?thesis by (intro exI [of _ 0]) simp
  next
    case False
    with Cons.prems obtain k where k: "i = Suc k" by (cases i) auto
    with Cons.prems False Cons.IH [of k] obtain j where "j \<le> k" "en (cs ! j)" by auto
    with k show ?thesis by (intro exI [of _ "Suc j"]) simp
  qed
qed simp

lemma guarded_append:
  "list_all (\<lambda>c. \<not> cr c) xs \<Longrightarrow> guarded en cr ys \<Longrightarrow> guarded en cr (xs @ ys)"
  by (induction xs) auto

lemma guarded_append_enabled: "guarded en cr xs \<Longrightarrow> \<exists>c\<in>set xs. en c \<Longrightarrow> guarded en cr (xs @ ys)"
  by (induction xs) auto

lemma guarded_none: "list_all (\<lambda>c. \<not> cr c) xs \<Longrightarrow> guarded en cr xs"
  by (induction xs) auto

lemma guards_calls_sat: "calls_sat (\<lambda>c. \<not> cr c) m \<Longrightarrow> guards en cr m"
  unfolding calls_sat_def guards_def
proof
  fix w
  assume "\<forall>w. \<exists>cs. w_calls (snd (m w)) = w_calls w @ cs \<and> list_all (\<lambda>c. \<not> cr c) cs"
  then obtain cs where "w_calls (snd (m w)) = w_calls w @ cs" "list_all (\<lambda>c. \<not> cr c) cs" by blast
  then show "\<exists>cs. w_calls (snd (m w)) = w_calls w @ cs \<and> guarded en cr cs"
    by (intro exI [of _ cs]) (simp add: guarded_none)
qed

lemma guards_bindS_res:
  assumes "calls_sat (\<lambda>c. \<not> cr c) m" "\<And>w a w'. m w = (a, w') \<Longrightarrow> guards en cr (f a)"
  shows "guards en cr (bindS m f)"
  unfolding guards_def
proof
  fix w
  obtain a w' where m: "m w = (a, w')" by (cases "m w")
  with assms(1) obtain cs where "w_calls w' = w_calls w @ cs" "list_all (\<lambda>c. \<not> cr c) cs"
    unfolding calls_sat_def by (metis snd_conv)
  moreover obtain cs' where "w_calls (snd (f a w')) = w_calls w' @ cs'" "guarded en cr cs'"
    using assms(2) [OF m] unfolding guards_def by blast
  ultimately show "\<exists>cs. w_calls (snd (bindS m f w)) = w_calls w @ cs \<and> guarded en cr cs"
    by (intro exI [of _ "cs @ cs'"]) (simp add: bindS_def m guarded_append)
qed

lemma guards_bindE_res:
  assumes "calls_sat (\<lambda>c. \<not> cr c) m" "\<And>w a w'. m w = (Inr a, w') \<Longrightarrow> guards en cr (f a)"
  shows "guards en cr (bindE m f)"
  unfolding bindE_def
  by (rule guards_bindS_res [OF assms(1)])
    (auto intro: assms(2) guards_calls_sat calls_sat_ret split: sum.split)

lemma guards_bindE:
  "calls_sat (\<lambda>c. \<not> cr c) m \<Longrightarrow> (\<And>a. guards en cr (f a)) \<Longrightarrow> guards en cr (bindE m f)"
  by (rule guards_bindE_res)

text \<open>A call that enables what follows when it succeeds in the way \<^verbatim>\<open>en\<close> asks.\<close>

lemma guards_log_call:
  fixes f :: "goerr + 'b \<Rightarrow> ('e, 'a) io"
  assumes "\<And>r :: goerr + 'b. \<not> cr \<lparr>c_side = s, c_verb = v, c_kind = k, c_meta = m, c_reqs = rs, c_err = err_of r\<rparr>"
    and "\<And>r. en \<lparr>c_side = s, c_verb = v, c_kind = k, c_meta = m, c_reqs = rs, c_err = err_of r\<rparr> \<Longrightarrow>
      calls_sat (\<lambda>_. True) (f r)"
    and "\<And>r. \<not> en \<lparr>c_side = s, c_verb = v, c_kind = k, c_meta = m, c_reqs = rs, c_err = err_of r\<rparr> \<Longrightarrow>
      guards en cr (f r)"
  shows "guards en cr (bindS (log_call s v k m rs g) f)"
  unfolding guards_def
proof
  fix w :: "'e world"
  obtain r e where g: "g (w_env w) = (r, e)" by (cases "g (w_env w)")
  let ?c = "\<lparr>c_side = s, c_verb = v, c_kind = k, c_meta = m, c_reqs = rs, c_err = err_of r\<rparr>"
  let ?w = "\<lparr>w_calls = w_calls w @ [?c], w_env = e\<rparr>"
  have b: "bindS (log_call s v k m rs g) f w = f r ?w" by (simp add: bindS_def log_call_def g)
  show "\<exists>cs. w_calls (snd (bindS (log_call s v k m rs g) f w)) = w_calls w @ cs \<and> guarded en cr cs"
  proof (cases "en ?c")
    case True
    with assms(2) [of r] obtain cs where "w_calls (snd (f r ?w)) = w_calls ?w @ cs"
      unfolding calls_sat_def by blast
    then show ?thesis unfolding b by (intro exI [of _ "?c # cs"]) (simp add: True)
  next
    case False
    with assms(3) [of r] obtain cs where "w_calls (snd (f r ?w)) = w_calls ?w @ cs" "guarded en cr cs"
      unfolding guards_def by blast
    then show ?thesis unfolding b by (intro exI [of _ "?c # cs"]) (simp add: assms(1))
  qed
qed

lemma guards_if:
  "(b \<Longrightarrow> guards en cr m) \<Longrightarrow> (\<not> b \<Longrightarrow> guards en cr n) \<Longrightarrow> guards en cr (if b then m else n)"
  by simp

lemma guards_sum:
  "(\<And>e. r = Inl e \<Longrightarrow> guards en cr (f e)) \<Longrightarrow> (\<And>a. r = Inr a \<Longrightarrow> guards en cr (g a)) \<Longrightarrow>
    guards en cr (case r of Inl e \<Rightarrow> f e | Inr a \<Rightarrow> g a)"
  by (simp split: sum.split)

section \<open>What success implies\<close>

text \<open>\<^verbatim>\<open>does P m\<close>: whenever \<^verbatim>\<open>m\<close> returns without error, one of its calls satisfied \<^verbatim>\<open>P\<close>.\<close>

definition does :: "(call \<Rightarrow> bool) \<Rightarrow> ('e, goerr + 'a) io \<Rightarrow> bool" where
  "does P m = (\<forall>w a w'. m w = (Inr a, w') \<longrightarrow> (\<exists>cs. w_calls w' = w_calls w @ cs \<and> list_ex P cs))"

lemma bindE_Inr:
  "bindE m f w = (Inr b, w') \<longleftrightarrow> (\<exists>a v. m w = (Inr a, v) \<and> f a v = (Inr b, w'))"
  by (auto simp: bindE_run split: prod.splits sum.splits)

lemma calls_sat_extends: "calls_sat P m \<Longrightarrow> m w = (a, w') \<Longrightarrow> \<exists>cs. w_calls w' = w_calls w @ cs"
  unfolding calls_sat_def by (metis snd_conv)

lemma does_log_call:
  "P \<lparr>c_side = s, c_verb = v, c_kind = k, c_meta = m, c_reqs = rs, c_err = None\<rparr> \<Longrightarrow> does P (log_call s v k m rs f)"
  by (auto simp: does_def log_call_def split: prod.splits)

lemma does_ret_Inl: "does P (ret (Inl e))"
  by (simp add: does_def ret_def)

lemma does_bindE1:
  assumes "does P m" "\<And>a. calls_sat (\<lambda>_. True) (f a)"
  shows "does P (bindE m f)"
  unfolding does_def
proof (intro allI impI)
  fix w b w'
  assume "bindE m f w = (Inr b, w')"
  then obtain a v where m: "m w = (Inr a, v)" and f: "f a v = (Inr b, w')" by (auto simp: bindE_Inr)
  obtain cs where "w_calls v = w_calls w @ cs" "list_ex P cs" using assms(1) m unfolding does_def by blast
  moreover obtain cs' where "w_calls w' = w_calls v @ cs'" using calls_sat_extends [OF assms(2) f] by blast
  ultimately show "\<exists>cs. w_calls w' = w_calls w @ cs \<and> list_ex P cs" by (intro exI [of _ "cs @ cs'"]) simp
qed

text \<open>The continuation may use that its argument is a result of the first handler.\<close>

lemma does_bindE_res:
  assumes "calls_sat Q m" "\<And>w a w'. m w = (Inr a, w') \<Longrightarrow> does P (f a)"
  shows "does P (bindE m f)"
  unfolding does_def
proof (intro allI impI)
  fix w b w'
  assume "bindE m f w = (Inr b, w')"
  then obtain a v where m: "m w = (Inr a, v)" and f: "f a v = (Inr b, w')" by (auto simp: bindE_Inr)
  obtain cs where "w_calls w' = w_calls v @ cs" "list_ex P cs" using assms(2) [OF m] f unfolding does_def by blast
  moreover obtain cs' where "w_calls v = w_calls w @ cs'" using calls_sat_extends [OF assms(1) m] by blast
  ultimately show "\<exists>cs. w_calls w' = w_calls w @ cs \<and> list_ex P cs" by (intro exI [of _ "cs' @ cs"]) simp
qed

lemma does_bindE2: "calls_sat (\<lambda>_. True) m \<Longrightarrow> (\<And>a. does P (f a)) \<Longrightarrow> does P (bindE m f)"
  by (rule does_bindE_res)

lemma does_mono: "does P m \<Longrightarrow> (\<And>c. P c \<Longrightarrow> Q c) \<Longrightarrow> does Q m"
  unfolding does_def list_ex_iff by blast

lemma does_sum:
  "(\<And>e. r = Inl e \<Longrightarrow> does P (f e)) \<Longrightarrow> (\<And>a. r = Inr a \<Longrightarrow> does P (g a)) \<Longrightarrow>
    does P (case r of Inl e \<Rightarrow> f e | Inr a \<Rightarrow> g a)"
  by (simp split: sum.split)

lemma does_if: "(b \<Longrightarrow> does P m) \<Longrightarrow> (\<not> b \<Longrightarrow> does P n) \<Longrightarrow> does P (if b then m else n)"
  by simp

lemma k_Get_answer: "k_Get s R key v = (Inr x, v') \<Longrightarrow> fst (cli_Get (r_cli R s) key (w_env v)) = Inr x"
  by (auto simp: k_Get_def log_call_def split: prod.splits)

lemma bindE_ret [simp]: "bindE (ret (Inr a)) f = f a" "bindE (ret (Inl e)) f = ret (Inl e)"
  by (simp_all add: fun_eq_iff io_run)

lemma bindS_ret [simp]: "bindS (ret a) f = f a"
  by (simp add: fun_eq_iff io_run)

text \<open>\<^verbatim>\<open>Get\<close> returns the object asked for.\<close>

definition get_honest :: "('e, 'o) resource \<Rightarrow> bool" where
  "get_honest R =
     (\<forall>s key e. case cli_Get (r_cli R s) key e of (Inr ob, _) \<Rightarrow> key_of (r_meta R ob) = key | _ \<Rightarrow> True)"

lemma k_Get_key:
  assumes "get_honest R" "k_Get s R key w = (Inr ob, w')"
  shows "key_of (r_meta R ob) = key"
  using assms by (fastforce simp: get_honest_def k_Get_def log_call_def split: prod.splits sum.splits)

text \<open>\<^verbatim>\<open>Update\<close> answers with the object that was written.\<close>

definition update_honest :: "('e, 'o) resource \<Rightarrow> bool" where
  "update_honest R =
     (\<forall>s ob e. case cli_Update (r_cli R s) ob e of
        (Inr ob', _) \<Rightarrow> key_of (r_meta R ob') = key_of (r_meta R ob) \<and>
          Finalizers (r_meta R ob') = Finalizers (r_meta R ob)
      | _ \<Rightarrow> True)"

section \<open>A reference instance of the utilities\<close>

definition owner_ref_to :: "object_meta \<Rightarrow> bool \<Rightarrow> owner_ref" where
  "owner_ref_to owner c =
     \<lparr>or_APIVersion = ''k3k.io/v1beta1'', or_Kind = ''Cluster'', or_Name = Name owner,
      or_UID = UID owner, or_Controller = c\<rparr>"

definition ref_util :: util where
  "ref_util =
     \<lparr>AddFinalizer = (\<lambda>f m. if f \<in> set (Finalizers m) then (False, m)
        else (True, m\<lparr>Finalizers := Finalizers m @ [f]\<rparr>)),
      RemoveFinalizer = (\<lambda>f m. (f \<in> set (Finalizers m),
        m\<lparr>Finalizers := removeAll f (Finalizers m)\<rparr>)),
      SetControllerReference = (\<lambda>owner m.
        if \<exists>r\<in>set (OwnerReferences m). or_Controller r \<and> or_UID r \<noteq> UID owner
        then Inl (ErrNew ''already owned'')
        else Inr (m\<lparr>OwnerReferences :=
          filter (\<lambda>r. or_UID r \<noteq> UID owner) (OwnerReferences m) @ [owner_ref_to owner True]\<rparr>)),
      SetOwnerReference = (\<lambda>owner m. Inr (m\<lparr>OwnerReferences :=
          filter (\<lambda>r. or_UID r \<noteq> UID owner) (OwnerReferences m) @ [owner_ref_to owner False]\<rparr>)),
      SetStatusCondition = (\<lambda>cs c. filter (\<lambda>d. cd_Type d \<noteq> cd_Type c) cs @ [c])\<rparr>"

interpretation ref: controllerutil ref_util
  by unfold_locales (auto simp: ref_util_def owner_ref_to_def split: if_splits)

section \<open>A reference server\<close>

text \<open>
  An in-memory server: the objects of a resource are a list in the environment, read by
  \<^verbatim>\<open>get\<close> and written by \<^verbatim>\<open>put\<close>. It answers as the API server documents for plain objects and is the
  concrete environment of the witnesses.
\<close>

definition meets :: "smap option \<Rightarrow> requirement \<Rightarrow> bool" where
  "meets ls r = (case r of ReqEquals k v \<Rightarrow> mlookup ls k = Some v | ReqNotEquals k v \<Rightarrow> mlookup ls k \<noteq> Some v
     | ReqField f v \<Rightarrow> False)"

abbreviation not_found_err :: goerr where "not_found_err \<equiv> ApiErr NotFound ''not found''"

definition mem_client :: "('o \<Rightarrow> object_meta) \<Rightarrow> ('e \<Rightarrow> 'o list) \<Rightarrow> ('o list \<Rightarrow> 'e \<Rightarrow> 'e) \<Rightarrow> ('e, 'o) client" where
  "mem_client meta get put =
     (let find = (\<lambda>key e. List.find (\<lambda>x. key_of (meta x) = key) (get e));
          replace = (\<lambda>ob e. put (map (\<lambda>x. if key_of (meta x) = key_of (meta ob) then ob else x) (get e)) e);
          selected = (\<lambda>opts x. (lo_Namespace opts = '''' \<or> Namespace (meta x) = lo_Namespace opts) \<and>
            list_all (meets (Labels (meta x))) (lo_Reqs opts));
          update = (\<lambda>ob e. case find (key_of (meta ob)) e of None \<Rightarrow> (Inl not_found_err, e)
            | Some _ \<Rightarrow> (Inr ob, replace ob e));
          create = (\<lambda>ob e. case find (key_of (meta ob)) e of
              None \<Rightarrow> (Inr ob, put (get e @ [ob]) e)
            | Some _ \<Rightarrow> (Inl (ApiErr AlreadyExists ''exists''), e))
      in \<lparr>cli_Get = (\<lambda>key e. case find key e of None \<Rightarrow> (Inl not_found_err, e) | Some ob \<Rightarrow> (Inr ob, e)),
          cli_List = (\<lambda>opts e. (Inr (filter (selected opts) (get e)), e)),
          cli_Create = create, cli_Update = update, cli_StatusUpdate = update,
          cli_StatusPatch = (\<lambda>ob _. update ob), cli_Patch = (\<lambda>ob _. update ob),
          cli_Delete = (\<lambda>ob e. case find (key_of (meta ob)) e of None \<Rightarrow> (Inl not_found_err, e)
            | Some _ \<Rightarrow> (Inr (), put (filter (\<lambda>x. key_of (meta x) \<noteq> key_of (meta ob)) (get e)) e)),
          cli_DeleteAllOf = (\<lambda>opts e. (Inr (), put (filter (\<lambda>x. \<not> selected opts x) (get e)) e)),
          cli_CreateOrUpdate = (\<lambda>ob f e. case find (key_of (meta ob)) e of
              None \<Rightarrow> (case f ob of Inl err \<Rightarrow> (Inl err, e) | Inr ob' \<Rightarrow> create ob' e)
            | Some cur \<Rightarrow> (case f cur of Inl err \<Rightarrow> (Inl err, e) | Inr ob' \<Rightarrow> update ob' e))\<rparr>)"

text \<open>The resource over an environment that keeps one list per side.\<close>

definition mem_resource :: "kind \<Rightarrow> ('o \<Rightarrow> object_meta) \<Rightarrow> ('e \<Rightarrow> side \<Rightarrow> 'o list) \<Rightarrow>
    ((side \<Rightarrow> 'o list) \<Rightarrow> 'e \<Rightarrow> 'e) \<Rightarrow> ('e, 'o) resource" where
  "mem_resource k meta get put =
     \<lparr>r_kind = k, r_meta = meta,
      r_cli = (\<lambda>s. mem_client meta (\<lambda>e. get e s) (\<lambda>xs e. put ((get e)(s := xs)) e))\<rparr>"

lemma mem_resource_get_honest: "get_honest (mem_resource k meta get put)"
  by (auto simp: get_honest_def mem_resource_def mem_client_def Let_def find_Some_iff split: option.split)

lemma mem_resource_update_honest: "update_honest (mem_resource k meta get put)"
  by (auto simp: update_honest_def mem_resource_def mem_client_def Let_def split: option.split)

lemma mem_resource_simps [simp]:
  "r_kind (mem_resource k meta get put) = k"
  "r_meta (mem_resource k meta get put) = meta"
  by (simp_all add: mem_resource_def)

end
