(* ===== verification/Capacity.thy ===== *)
theory Capacity
  imports Kube
begin

text \<open>
  \<^verbatim>\<open>k3k-kubelet/provider/configure_capacity.go\<close>: the capacity a virtual node reports,
  computed from the capacity of its host node and the resource quotas of the namespace.

  \<^verbatim>\<open>resource.Quantity\<close> is a library type, so it is a parameter: a type \<^verbatim>\<open>'q\<close> with the
  operations the code uses, whose documented laws are the locale \<^verbatim>\<open>quantity\<close>. Go iterates over
  maps in an unspecified order; the order is the parameter \<^verbatim>\<open>ord\<close>, which enumerates a
  finite key set (prelude locale \<^verbatim>\<open>range_order\<close>). \<^verbatim>\<open>int64\<close> values are integers: the lemmas show that
  the distribution keeps every intermediate value between 0 and the larger of the quota
  and the host capacity, so no wrap-around occurs.
\<close>

section \<open>Library interfaces\<close>

record 'q quantity_ops =
  q_Value :: "'q \<Rightarrow> int"
  q_MilliValue :: "'q \<Rightarrow> int"
  q_Format :: "'q \<Rightarrow> string"
  q_NewQuantity :: "int \<Rightarrow> string \<Rightarrow> 'q"
  q_NewMilliQuantity :: "int \<Rightarrow> string \<Rightarrow> 'q"
  q_Zero :: 'q
  q_Cmp :: "'q \<Rightarrow> 'q \<Rightarrow> int"

locale quantity =
  fixes Q :: "'q quantity_ops"
  assumes Value_NewQuantity: "q_Value Q (q_NewQuantity Q v f) = v"
    and MilliValue_NewMilliQuantity: "q_MilliValue Q (q_NewMilliQuantity Q v f) = v"
    and Value_Zero: "q_Value Q (q_Zero Q) = 0"
    and MilliValue_Zero: "q_MilliValue Q (q_Zero Q) = 0"

text \<open>Quantities at milli precision: \<^verbatim>\<open>Value\<close> rounds up, as documented.\<close>

definition milli_quantity :: "(int \<times> string) quantity_ops" where
  "milli_quantity =
     \<lparr>q_Value = (\<lambda>(m, f). - ((- m) div 1000)), q_MilliValue = fst, q_Format = snd,
      q_NewQuantity = (\<lambda>v f. (1000 * v, f)), q_NewMilliQuantity = Pair, q_Zero = (0, ''''),
      q_Cmp = (\<lambda>a b. sgn (fst a - fst b))\<rparr>"

lemma ceil_thousand: "- (- (1000 * v) div 1000) = (v::int)"
  by simp

interpretation milli: quantity milli_quantity
  by unfold_locales (simp_all add: milli_quantity_def ceil_thousand)

type_synonym 'q resource_list = "(string, 'q) fmap"
type_synonym 'q resource_map = "(string, 'q resource_list) fmap"

section \<open>Resource names\<close>

definition milliScaleResources :: "string list" where
  "milliScaleResources =
     [''cpu'', ''memory'', ''storage'', ''ephemeral-storage'', ''requests.cpu'',
      ''requests.memory'', ''requests.storage'', ''requests.ephemeral-storage'', ''limits.cpu'',
      ''limits.memory'', ''limits.ephemeral-storage'']"

definition coreResources :: "string list" where
  "coreResources =
     [''cpu'', ''memory'', ''storage'', ''ephemeral-storage'', ''requests.cpu'',
      ''requests.memory'', ''requests.storage'', ''requests.ephemeral-storage'']"

section \<open>Merging and filtering quotas\<close>

definition merge_entry :: "'q quantity_ops \<Rightarrow> string \<Rightarrow> 'q \<Rightarrow> 'q resource_list \<Rightarrow> 'q resource_list" where
  "merge_entry Q resName qty merged =
     (case fmlookup merged resName of
        None \<Rightarrow> fmupd resName qty merged
      | Some existingQty \<Rightarrow> if q_Cmp Q qty existingQty < 0 then fmupd resName qty merged else merged)"

definition mergeQuotas :: "'q quantity_ops \<Rightarrow> (string fset \<Rightarrow> string list) \<Rightarrow> 'q resource_list list \<Rightarrow>
    'q resource_list" where
  "mergeQuotas Q ord resourceLists =
     fold (\<lambda>resourceList merged.
        fold (\<lambda>resName merged. merge_entry Q resName (the (fmlookup resourceList resName)) merged)
          (ord (fmdom resourceList)) merged)
       resourceLists fmempty"

definition filtered_name :: "string \<Rightarrow> string" where
  "filtered_name resourceName =
     strings_TrimPrefix (strings_TrimPrefix resourceName ''requests.'') ''limits.''"

definition filterQuotas :: "(string fset \<Rightarrow> string list) \<Rightarrow> 'q resource_list \<Rightarrow> 'q resource_list" where
  "filterQuotas ord resources =
     fold (\<lambda>resourceName filtered.
        if resourceName \<in> set coreResources then filtered
        else fmupd (filtered_name resourceName) (the (fmlookup resources resourceName)) filtered)
       (ord (fmdom resources)) fmempty"

section \<open>Distributing one resource over the nodes\<close>

text \<open>\<^verbatim>\<open>Value\<close> or \<^verbatim>\<open>MilliValue\<close> of a quantity, and the constructor of the same scale.\<close>

definition qval :: "'q quantity_ops \<Rightarrow> bool \<Rightarrow> 'q \<Rightarrow> int" where
  "qval Q useMilli q = (if useMilli then q_MilliValue Q q else q_Value Q q)"

definition qnew :: "'q quantity_ops \<Rightarrow> bool \<Rightarrow> int \<Rightarrow> string \<Rightarrow> 'q" where
  "qnew Q useMilli v f = (if useMilli then q_NewMilliQuantity Q v f else q_NewQuantity Q v f)"

text \<open>The variables of the distribution cycle; \<^verbatim>\<open>remainder\<close> and \<^verbatim>\<open>remainingNodes\<close> are those of the
  current pass.\<close>

record 'q dist =
  d_totalValue :: int
  d_remainder :: int
  d_hostCap :: "(string, int) fmap"
  d_resourceMap :: "'q resource_map"
  d_remainingNodes :: "string list"

definition cap_of :: "(string, int) fmap \<Rightarrow> string \<Rightarrow> int" where
  "cap_of m vn = (case fmlookup m vn of None \<Rightarrow> 0 | Some c \<Rightarrow> c)"

definition list_of :: "'q resource_map \<Rightarrow> string \<Rightarrow> 'q resource_list" where
  "list_of m vn = (case fmlookup m vn of None \<Rightarrow> fmempty | Some l \<Rightarrow> l)"

definition qty_of :: "'q quantity_ops \<Rightarrow> 'q resource_map \<Rightarrow> string \<Rightarrow> string \<Rightarrow> 'q" where
  "qty_of Q m vn resourceName =
     (case fmlookup (list_of m vn) resourceName of None \<Rightarrow> q_Zero Q | Some q \<Rightarrow> q)"

text \<open>The body of the loop over the eligible nodes.\<close>

definition give_node :: "'q quantity_ops \<Rightarrow> bool \<Rightarrow> string \<Rightarrow> string \<Rightarrow> int \<Rightarrow> string \<Rightarrow> 'q dist \<Rightarrow>
    'q dist" where
  "give_node Q useMilli fmt resourceName quantityPerNode vn d =
     (let nodeQuantity0 = (if d_remainder d > 0 then quantityPerNode + 1 else quantityPerNode);
          remainder = (if d_remainder d > 0 then d_remainder d - 1 else d_remainder d);
          nodeQuantity = min nodeQuantity0 (cap_of (d_hostCap d) vn);
          existing = qty_of Q (d_resourceMap d) vn resourceName;
          resourceMap =
            (if nodeQuantity > 0 then
               fmupd vn (fmupd resourceName (qnew Q useMilli (qval Q useMilli existing + nodeQuantity) fmt)
                 (list_of (d_resourceMap d) vn)) (d_resourceMap d)
             else d_resourceMap d);
          hostCap = fmupd vn (cap_of (d_hostCap d) vn - nodeQuantity) (d_hostCap d)
      in \<lparr>d_totalValue = d_totalValue d - nodeQuantity, d_remainder = remainder, d_hostCap = hostCap,
          d_resourceMap = resourceMap,
          d_remainingNodes = (if cap_of hostCap vn > 0 then d_remainingNodes d @ [vn]
            else d_remainingNodes d)\<rparr>)"

text \<open>One pass over the eligible nodes.\<close>

definition dist_pass :: "'q quantity_ops \<Rightarrow> bool \<Rightarrow> string \<Rightarrow> string \<Rightarrow> string list \<Rightarrow> 'q dist \<Rightarrow> 'q dist" where
  "dist_pass Q useMilli fmt resourceName eligibleNodes d =
     (let nodeNum = int (length eligibleNodes);
          quantityPerNode = d_totalValue d div nodeNum;
          remainder = d_totalValue d mod nodeNum
      in fold (give_node Q useMilli fmt resourceName quantityPerNode) eligibleNodes
           (d\<lparr>d_remainder := remainder, d_remainingNodes := []\<rparr>))"

text \<open>Bookkeeping of one pass.\<close>

lemma cap_of_fmupd [simp]: "cap_of (fmupd k v m) j = (if j = k then v else cap_of m j)"
  by (simp add: cap_of_def)

lemma list_of_fmupd [simp]: "list_of (fmupd k v m) j = (if j = k then v else list_of m j)"
  by (simp add: list_of_def)

definition offer :: "int \<Rightarrow> int \<Rightarrow> int" where
  "offer per rem = (if rem > 0 then per + 1 else per)"

lemma give_node_simps:
  "d_totalValue (give_node Q m f r per vn d) =
     d_totalValue d - min (offer per (d_remainder d)) (cap_of (d_hostCap d) vn)"
  "d_remainder (give_node Q m f r per vn d) =
     (if d_remainder d > 0 then d_remainder d - 1 else d_remainder d)"
  "d_hostCap (give_node Q m f r per vn d) =
     fmupd vn (cap_of (d_hostCap d) vn - min (offer per (d_remainder d)) (cap_of (d_hostCap d) vn))
       (d_hostCap d)"
  "d_remainingNodes (give_node Q m f r per vn d) =
     d_remainingNodes d @
       (if offer per (d_remainder d) < cap_of (d_hostCap d) vn then [vn] else [])"
  by (auto simp: give_node_def offer_def Let_def cap_of_def split: if_splits)

text \<open>A pass that exhausts no node hands out everything it has.\<close>

lemma fold_give_node_remaining:
  "length (d_remainingNodes (fold (give_node Q m f r per) vns d)) \<le>
     length (d_remainingNodes d) + length vns"
proof (induction vns arbitrary: d)
  case (Cons v vns)
  from Cons [of "give_node Q m f r per v d"] show ?case
    by (auto simp: give_node_simps split: if_splits)
qed simp

lemma fold_give_node_full:
  "length (d_remainingNodes (fold (give_node Q m f r per) vns d)) =
     length (d_remainingNodes d) + length vns \<Longrightarrow>
   0 \<le> d_remainder d \<Longrightarrow> d_remainder d \<le> int (length vns) \<Longrightarrow>
   d_totalValue (fold (give_node Q m f r per) vns d) =
     d_totalValue d - (per * int (length vns) + d_remainder d)"
proof (induction vns arbitrary: d)
  case (Cons v vns)
  let ?d = "give_node Q m f r per v d"
  have c: "offer per (d_remainder d) < cap_of (d_hostCap d) v"
    using Cons.prems(1) fold_give_node_remaining [of Q m f r per vns ?d]
    by (auto simp: give_node_simps split: if_splits)
  have "d_totalValue (fold (give_node Q m f r per) vns ?d) =
     d_totalValue ?d - (per * int (length vns) + d_remainder ?d)"
    by (rule Cons.IH) (use Cons.prems c in \<open>auto simp: give_node_simps\<close>)
  with c Cons.prems show ?case
    by (cases "0 < d_remainder d") (simp_all add: give_node_simps offer_def algebra_simps)
qed simp

lemma dist_pass_progress:
  assumes "ns \<noteq> []" "0 < d_totalValue (dist_pass Q m f r ns d)"
  shows "length (d_remainingNodes (dist_pass Q m f r ns d)) < length ns"
proof (rule ccontr)
  let ?n = "int (length ns)"
  let ?d = "d\<lparr>d_remainder := d_totalValue d mod ?n, d_remainingNodes := []\<rparr>"
  let ?per = "d_totalValue d div ?n"
  assume "\<not> ?thesis"
  then have "length (d_remainingNodes (fold (give_node Q m f r ?per) ns ?d)) =
      length (d_remainingNodes ?d) + length ns"
    using fold_give_node_remaining [of Q m f r ?per ns ?d]
    by (simp add: dist_pass_def Let_def)
  from fold_give_node_full [OF this] assms(1)
  have "d_totalValue (dist_pass Q m f r ns d) =
      d_totalValue d - (?per * ?n + d_totalValue d mod ?n)"
    by (simp add: dist_pass_def Let_def less_imp_le)
  then show False using assms(2) by (simp only: div_mult_mod_eq)
qed

text \<open>The distribution cycle, one resource of the quota, and all of them.\<close>

function dist_loop :: "'q quantity_ops \<Rightarrow> bool \<Rightarrow> string \<Rightarrow> string \<Rightarrow> string list \<Rightarrow> 'q dist \<Rightarrow> 'q dist" where
  "dist_loop Q useMilli fmt resourceName eligibleNodes d =
     (if d_totalValue d > 0 \<and> eligibleNodes \<noteq> []
      then let d' = dist_pass Q useMilli fmt resourceName eligibleNodes d
           in dist_loop Q useMilli fmt resourceName (d_remainingNodes d') d'
      else d)"
  by auto
termination
  by (relation "measure (\<lambda>(Q, m, f, r, ns, d). if d_totalValue d > 0 then Suc (length ns) else 0)")
    (auto dest: dist_pass_progress)

declare dist_loop.simps [simp del]

definition host_qty :: "'q resource_map \<Rightarrow> string \<Rightarrow> string \<Rightarrow> 'q option" where
  "host_qty hostResourceMap resourceName vn =
     (case fmlookup hostResourceMap vn of None \<Rightarrow> None | Some l \<Rightarrow> fmlookup l resourceName)"

definition distribute_resource :: "'q quantity_ops \<Rightarrow> (string fset \<Rightarrow> string list) \<Rightarrow> 'q resource_map \<Rightarrow>
    'q resource_map \<Rightarrow> string \<Rightarrow> 'q \<Rightarrow> 'q resource_map \<Rightarrow> 'q resource_map" where
  "distribute_resource Q ord hostResourceMap virtResourceMap resourceName totalQuantity resourceMap =
     (let useMilli = (resourceName \<in> set milliScaleResources);
          (eligibleNodes, hostCap) =
            fold (\<lambda>vn (ns, hc). case host_qty hostResourceMap resourceName vn of
                None \<Rightarrow> (ns, hc)
              | Some q \<Rightarrow> (ns @ [vn], fmupd vn (qval Q useMilli q) hc))
              (ord (fmdom virtResourceMap)) ([], fmempty);
          d = \<lparr>d_totalValue = qval Q useMilli totalQuantity, d_remainder = 0, d_hostCap = hostCap,
               d_resourceMap = resourceMap, d_remainingNodes = []\<rparr>
      in d_resourceMap (dist_loop Q useMilli (q_Format Q totalQuantity) resourceName
           (sort eligibleNodes) d))"

definition fill_node :: "(string fset \<Rightarrow> string list) \<Rightarrow> 'q resource_map \<Rightarrow> 'q resource_list \<Rightarrow>
    string \<Rightarrow> 'q resource_map \<Rightarrow> 'q resource_map" where
  "fill_node ord hostResourceMap quotas vn resourceMap =
     (case fmlookup hostResourceMap vn of
        None \<Rightarrow> resourceMap
      | Some hostResources \<Rightarrow>
          fold (\<lambda>resourceName resourceMap.
              if fmlookup quotas resourceName = None
              then fmupd vn (fmupd resourceName (the (fmlookup hostResources resourceName))
                     (list_of resourceMap vn)) resourceMap
              else resourceMap)
            (ord (fmdom hostResources)) resourceMap)"

definition distributeQuotas :: "'q quantity_ops \<Rightarrow> (string fset \<Rightarrow> string list) \<Rightarrow> 'q resource_map \<Rightarrow>
    'q resource_map \<Rightarrow> 'q resource_list \<Rightarrow> 'q resource_map" where
  "distributeQuotas Q ord hostResourceMap virtResourceMap quotas =
     (let resourceMap = fold (fill_node ord hostResourceMap quotas) (ord (fmdom virtResourceMap))
            virtResourceMap
      in fold (\<lambda>resourceName. distribute_resource Q ord hostResourceMap virtResourceMap resourceName
             (the (fmlookup quotas resourceName)))
           (ord (fmdom quotas)) resourceMap)"

lemma dist_loop_induct:
  assumes "\<And>ns d. (0 < d_totalValue d \<Longrightarrow> ns \<noteq> [] \<Longrightarrow>
    P (d_remainingNodes (dist_pass Q m f r ns d)) (dist_pass Q m f r ns d)) \<Longrightarrow> P ns d"
  shows "P ns d"
  using assms by (induction Q m f r ns d rule: dist_loop.induct) metis

subsection \<open>The number of passes\<close>

definition dist_step :: "'q quantity_ops \<Rightarrow> bool \<Rightarrow> string \<Rightarrow> string \<Rightarrow> string list \<times> 'q dist \<Rightarrow> string list \<times> 'q dist" where
  "dist_step Q m f r = (\<lambda>(ns, d). let d' = dist_pass Q m f r ns d in (d_remainingNodes d', d'))"

text \<open>
  C19: The distribution cycle ends after at most as many passes as there are nodes: after some number of passes, no more
  than the eligible nodes, the condition of the loop is false, and the result of the loop is the state
  reached then, for every quota, every capacity and also for nodes without any.
\<close>

theorem dist_loop_terminates:
  "\<exists>k \<le> length ns. \<exists>ns' d'. (dist_step Q m f r ^^ k) (ns, d) = (ns', d') \<and> \<not> (0 < d_totalValue d' \<and> ns' \<noteq> []) \<and>
    dist_loop Q m f r ns d = d'"
proof (induction ns d rule: dist_loop_induct [where Q = Q and m = m and f = f and r = r])
  case (1 ns d)
  let ?d = "dist_pass Q m f r ns d" and ?ns = "d_remainingNodes (dist_pass Q m f r ns d)"
  have first: "dist_step Q m f r (ns, d) = (?ns, ?d)" by (simp add: dist_step_def Let_def)
  consider "\<not> (0 < d_totalValue d \<and> ns \<noteq> [])" | "0 < d_totalValue d" "ns \<noteq> []" "d_totalValue ?d \<le> 0"
    | "0 < d_totalValue d" "ns \<noteq> []" "0 < d_totalValue ?d" by linarith
  then show ?case
  proof cases
    case 1
    then show ?thesis by (subst dist_loop.simps) (auto intro!: exI [of _ 0])
  next
    case 2
    then have "dist_loop Q m f r ns d = ?d" by (simp add: dist_loop.simps [of Q m f r ns d] dist_loop.simps [of Q m f r ?ns ?d] Let_def)
    with 2 first show ?thesis by (auto intro!: exI [of _ 1] simp: Suc_leI)
  next
    case 3
    then obtain k ns' d' where k: "k \<le> length ?ns" "(dist_step Q m f r ^^ k) (?ns, ?d) = (ns', d')"
      "\<not> (0 < d_totalValue d' \<and> ns' \<noteq> [])" "dist_loop Q m f r ?ns ?d = d'" using 1 by blast
    have "Suc k \<le> length ns" using k(1) dist_pass_progress [OF 3(2,3)] by simp
    moreover have "(dist_step Q m f r ^^ Suc k) (ns, d) = (ns', d')" using k(2) first by (simp only: funpow_Suc_right comp_def)
    moreover have "dist_loop Q m f r ns d = d'" using 3 k(4) by (simp add: dist_loop.simps [of Q m f r ns d] Let_def)
    ultimately show ?thesis using k(3) by blast
  qed
qed

subsection \<open>The allocation invariant\<close>

definition alloc :: "'q quantity_ops \<Rightarrow> bool \<Rightarrow> string \<Rightarrow> 'q resource_map \<Rightarrow> string \<Rightarrow> int" where
  "alloc Q useMilli r m vn = qval Q useMilli (qty_of Q m vn r)"

text \<open>
  Over a set \<^verbatim>\<open>S\<close> of nodes with capacities \<^verbatim>\<open>C\<close> and a quota \<^verbatim>\<open>T\<close>: what a node was given and
  what it still has free is its capacity, and what the quota still holds differs from the
  free capacity by a constant.
\<close>

definition dist_inv :: "'q quantity_ops \<Rightarrow> bool \<Rightarrow> string \<Rightarrow> string set \<Rightarrow> (string \<Rightarrow> int) \<Rightarrow> int \<Rightarrow>
    'q dist \<Rightarrow> bool" where
  "dist_inv Q m r S C T d =
     ((\<forall>v\<in>S. 0 \<le> cap_of (d_hostCap d) v \<and> 0 \<le> alloc Q m r (d_resourceMap d) v \<and>
        alloc Q m r (d_resourceMap d) v + cap_of (d_hostCap d) v = C v) \<and>
      d_totalValue d - (\<Sum>v\<in>S. cap_of (d_hostCap d) v) = T - sum C S)"

lemma fold_eligible:
  assumes "distinct vns"
  shows "fold (\<lambda>vn (ns, hc). case g vn of None \<Rightarrow> (ns, hc) | Some q \<Rightarrow> (ns @ [vn], fmupd vn (h q) hc))
      vns (ns, hc) =
    (ns @ filter (\<lambda>vn. g vn \<noteq> None) vns,
     fold (\<lambda>vn hc. case g vn of None \<Rightarrow> hc | Some q \<Rightarrow> fmupd vn (h q) hc) vns hc)"
  using assms by (induction vns arbitrary: ns hc) (auto split: option.splits)

lemma fold_hostCap:
  "distinct vns \<Longrightarrow>
   cap_of (fold (\<lambda>vn hc. case g vn of None \<Rightarrow> hc | Some q \<Rightarrow> fmupd vn (h q) hc) vns hc) v =
     (if v \<in> set vns \<and> g v \<noteq> None then h (the (g v)) else cap_of hc v)"
  by (induction vns arbitrary: hc) (auto split: option.splits)

text \<open>The nodes a resource of the quota goes to, and their capacity.\<close>

definition eligible :: "'q resource_map \<Rightarrow> 'q resource_map \<Rightarrow> string \<Rightarrow> string set" where
  "eligible host virt r = {vn \<in> fset (fmdom virt). host_qty host r vn \<noteq> None}"

definition host_cap :: "'q quantity_ops \<Rightarrow> 'q resource_map \<Rightarrow> string \<Rightarrow> string \<Rightarrow> int" where
  "host_cap Q host r vn = qval Q (r \<in> set milliScaleResources) (the (host_qty host r vn))"

lemma finite_eligible [simp]: "finite (eligible host virt r)"
  by (simp add: eligible_def)

definition entry :: "'q resource_map \<Rightarrow> string \<Rightarrow> string \<Rightarrow> 'q option" where
  "entry m vn r = fmlookup (list_of m vn) r"

lemma entry_give_node:
  "r' \<noteq> r \<or> v \<noteq> vn \<Longrightarrow> entry (d_resourceMap (give_node Q m f r per vn d)) v r' = entry (d_resourceMap d) v r'"
  by (auto simp: entry_def give_node_def Let_def)

lemma entry_fold_give_node:
  "r' \<noteq> r \<Longrightarrow> entry (d_resourceMap (fold (give_node Q m f r per) vns d)) v r' = entry (d_resourceMap d) v r'"
  by (induction vns arbitrary: d) (simp_all add: entry_give_node)

lemma entry_dist_loop:
  assumes "r' \<noteq> r"
  shows "entry (d_resourceMap (dist_loop Q m f r ns d)) v r' = entry (d_resourceMap d) v r'"
proof (induction ns d rule: dist_loop_induct [where Q = Q and m = m and f = f and r = r])
  case (1 ns d)
  then show ?case
    by (subst dist_loop.simps) (auto simp: Let_def dist_pass_def entry_fold_give_node assms)
qed

lemma entry_distribute_resource:
  "r' \<noteq> r \<Longrightarrow> entry (distribute_resource Q ord host virt r q m) v r' = entry m v r'"
  by (simp add: distribute_resource_def Let_def entry_dist_loop split: prod.split)

lemma entry_fold_distribute:
  "r \<notin> set rs \<Longrightarrow>
   entry (fold (\<lambda>r. distribute_resource Q ord host virt r (g r)) rs m) v r = entry m v r"
  by (induction rs arbitrary: m) (auto simp: entry_distribute_resource)

lemma entry_fill_other:
  assumes "v' \<noteq> v \<or> fmlookup quotas r \<noteq> None"
  shows "entry (fill_node ord host quotas v m) v' r = entry m v' r"
proof -
  have "entry (fold (\<lambda>rn m. if fmlookup quotas rn = None
        then fmupd v (fmupd rn (g rn) (list_of m v)) m else m) rs m) v' r = entry m v' r" for g rs
    using assms by (induction rs arbitrary: m) (auto simp: entry_def)
  then show ?thesis by (simp add: fill_node_def split: option.split)
qed

lemma entry_fill:
  assumes "range_order ord" "host_qty host r v = Some q" "fmlookup quotas r = None"
  shows "entry (fill_node ord host quotas v m) v r = Some q"
proof -
  obtain l where l: "fmlookup host v = Some l" "fmlookup l r = Some q"
    using assms(2) by (auto simp: host_qty_def split: option.splits)
  have keep: "entry m v r = Some q \<Longrightarrow> entry (fold (\<lambda>rn m. if fmlookup quotas rn = None
        then fmupd v (fmupd rn (the (fmlookup l rn)) (list_of m v)) m else m) rs m) v r = Some q" for rs m
    using l by (induction rs arbitrary: m) (auto simp: entry_def)
  have "r \<in> set rs \<Longrightarrow> entry (fold (\<lambda>rn m. if fmlookup quotas rn = None
        then fmupd v (fmupd rn (the (fmlookup l rn)) (list_of m v)) m else m) rs m) v r = Some q" for rs m
  proof (induction rs arbitrary: m)
    case (Cons x rs)
    then show ?case
      using l assms(3) by (cases "x = r") (auto simp: entry_def intro!: keep [unfolded entry_def])
  qed simp
  moreover have "r \<in> set (ord (fmdom l))"
    using assms(1) l(2) by (simp add: range_order.set_ord fmdom'I fmdom'_alt_def [symmetric])
  ultimately show ?thesis by (simp add: fill_node_def l)
qed

lemma alloc_entry: "alloc Q m r rm v = qval Q m (case entry rm v r of None \<Rightarrow> q_Zero Q | Some q \<Rightarrow> q)"
  by (simp add: alloc_def qty_of_def entry_def)

context quantity
begin

lemma qval_qnew: "qval Q m (qnew Q m v f) = v"
  by (simp add: qval_def qnew_def Value_NewQuantity MilliValue_NewMilliQuantity)

lemma alloc_give_node:
  assumes "0 \<le> min (offer per (d_remainder d)) (cap_of (d_hostCap d) vn)"
  shows "alloc Q m r (d_resourceMap (give_node Q m f r per vn d)) v =
    alloc Q m r (d_resourceMap d) v +
      (if v = vn then min (offer per (d_remainder d)) (cap_of (d_hostCap d) vn) else 0)"
  using assms
  by (auto simp: alloc_def give_node_def Let_def qty_of_def qval_qnew offer_def)

lemma dist_inv_give_node:
  assumes "dist_inv Q m r S C T d" "finite S" "vn \<in> S" "0 \<le> per"
  shows "dist_inv Q m r S C T (give_node Q m f r per vn d)"
proof -
  let ?q = "min (offer per (d_remainder d)) (cap_of (d_hostCap d) vn)"
  let ?c = "cap_of (d_hostCap d)"
  have q: "0 \<le> ?q" using assms by (auto simp: dist_inv_def offer_def)
  have eq: "?c v - (if v = vn then ?q else 0) = (if v = vn then ?c vn - ?q else ?c v)" for v
    by simp
  have "(\<Sum>v\<in>S. if v = vn then ?c vn - ?q else ?c v) = (\<Sum>v\<in>S. ?c v) - ?q"
    unfolding eq [symmetric] sum_subtractf using assms by simp
  with assms q show ?thesis
    by (auto simp: dist_inv_def give_node_simps alloc_give_node)
qed

text \<open>One pass keeps the invariant, never overdraws the quota, and keeps every node with
  free capacity for the next pass.\<close>

lemma fold_give_node_inv:
  assumes "dist_inv Q m r S C T d" "finite S" "set vns \<subseteq> S" "0 \<le> per" "0 \<le> d_remainder d"
    and "d_remainder d \<le> int (length vns)"
    and "per * int (length vns) + d_remainder d \<le> d_totalValue d"
    and "set (d_remainingNodes d) \<subseteq> S"
    and "\<forall>v\<in>S. 0 < cap_of (d_hostCap d) v \<longrightarrow> v \<in> set (d_remainingNodes d) \<union> set vns"
  shows "dist_inv Q m r S C T (fold (give_node Q m f r per) vns d) \<and>
    0 \<le> d_totalValue (fold (give_node Q m f r per) vns d) \<and>
    set (d_remainingNodes (fold (give_node Q m f r per) vns d)) \<subseteq> S \<and>
    (\<forall>v\<in>S. 0 < cap_of (d_hostCap (fold (give_node Q m f r per) vns d)) v \<longrightarrow>
       v \<in> set (d_remainingNodes (fold (give_node Q m f r per) vns d)))"
  using assms
proof (induction vns arbitrary: d)
  case (Cons v vns)
  let ?d = "give_node Q m f r per v d"
  have "dist_inv Q m r S C T ?d"
    by (rule dist_inv_give_node) (use Cons.prems in auto)
  moreover have "per * int (length vns) + d_remainder ?d \<le> d_totalValue ?d"
    using Cons.prems(5,7) by (auto simp: give_node_simps offer_def algebra_simps min_def)
  moreover have "0 \<le> d_remainder ?d" "d_remainder ?d \<le> int (length vns)"
    using Cons.prems(5,6) by (auto simp: give_node_simps)
  moreover have "set (d_remainingNodes ?d) \<subseteq> S"
    using Cons.prems(3,8) by (auto simp: give_node_simps)
  moreover have "\<forall>u\<in>S. 0 < cap_of (d_hostCap ?d) u \<longrightarrow> u \<in> set (d_remainingNodes ?d) \<union> set vns"
    using Cons.prems(9) by (auto simp: give_node_simps)
  ultimately show ?case using Cons.IH [of ?d] Cons.prems(2,3,4) by simp
qed auto

lemma dist_pass_inv:
  assumes "dist_inv Q m r S C T d" "finite S" "set ns \<subseteq> S" "ns \<noteq> []" "0 \<le> d_totalValue d"
    and "\<forall>v\<in>S. 0 < cap_of (d_hostCap d) v \<longrightarrow> v \<in> set ns"
    and "d' = dist_pass Q m f r ns d"
  shows "dist_inv Q m r S C T d' \<and> 0 \<le> d_totalValue d' \<and> set (d_remainingNodes d') \<subseteq> S \<and>
    (\<forall>v\<in>S. 0 < cap_of (d_hostCap d') v \<longrightarrow> v \<in> set (d_remainingNodes d'))"
  unfolding assms(7) dist_pass_def Let_def
  by (rule fold_give_node_inv)
    (use assms in \<open>auto simp: dist_inv_def less_imp_le pos_imp_zdiv_nonneg_iff\<close>)

lemma dist_loop_inv:
  "dist_inv Q m r S C T d \<Longrightarrow> finite S \<Longrightarrow> set ns \<subseteq> S \<Longrightarrow> 0 \<le> d_totalValue d \<Longrightarrow>
   \<forall>v\<in>S. 0 < cap_of (d_hostCap d) v \<longrightarrow> v \<in> set ns \<Longrightarrow>
   dist_inv Q m r S C T (dist_loop Q m f r ns d) \<and> 0 \<le> d_totalValue (dist_loop Q m f r ns d) \<and>
   (d_totalValue (dist_loop Q m f r ns d) = 0 \<or>
    (\<forall>v\<in>S. cap_of (d_hostCap (dist_loop Q m f r ns d)) v = 0))"
proof (induction ns d rule: dist_loop_induct [where Q = Q and m = m and f = f and r = r])
  case (1 ns d)
  show ?case
  proof (cases "0 < d_totalValue d \<and> ns \<noteq> []")
    case True
    note p = dist_pass_inv [OF 1(2,3,4) conjunct2 [OF True] 1(5,6) refl, of f]
    have l: "dist_loop Q m f r ns d =
        dist_loop Q m f r (d_remainingNodes (dist_pass Q m f r ns d)) (dist_pass Q m f r ns d)"
      using True by (subst dist_loop.simps) (simp add: Let_def)
    show ?thesis unfolding l
      by (rule "1.IH") (use True p 1(3) in auto)
  next
    case False
    have l: "dist_loop Q m f r ns d = d"
      using False by (subst dist_loop.simps) auto
    have "cap_of (d_hostCap d) v = 0" if "v \<in> S" "0 < d_totalValue d" for v
      using 1(2,6) False that by (fastforce simp: dist_inv_def)
    with 1(2,5) show ?thesis unfolding l by (cases "d_totalValue d = 0") auto
  qed
qed

lemma distribute_resource_alloc:
  assumes "range_order ord" and T: "0 \<le> qval Q (r \<in> set milliScaleResources) q"
    and C: "\<forall>v\<in>eligible host virt r. 0 \<le> host_cap Q host r v"
    and Z: "\<forall>v\<in>eligible host virt r. alloc Q (r \<in> set milliScaleResources) r rm v = 0"
  defines "a \<equiv> alloc Q (r \<in> set milliScaleResources) r (distribute_resource Q ord host virt r q rm)"
  shows "(\<Sum>v\<in>eligible host virt r. a v) =
      min (qval Q (r \<in> set milliScaleResources) q) (\<Sum>v\<in>eligible host virt r. host_cap Q host r v)"
    and "v \<in> eligible host virt r \<Longrightarrow> 0 \<le> a v \<and> a v \<le> host_cap Q host r v"
proof -
  let ?m = "r \<in> set milliScaleResources"
  let ?S = "eligible host virt r"
  let ?vns = "ord (fmdom virt)"
  define hc where "hc = fold (\<lambda>vn hc. case host_qty host r vn of None \<Rightarrow> hc
      | Some q \<Rightarrow> fmupd vn (qval Q ?m q) hc) ?vns fmempty"
  define ns where "ns = sort (filter (\<lambda>vn. host_qty host r vn \<noteq> None) ?vns)"
  define d where "d = \<lparr>d_totalValue = qval Q ?m q, d_remainder = 0, d_hostCap = hc,
      d_resourceMap = rm, d_remainingNodes = []\<rparr>"
  define d' where "d' = dist_loop Q ?m (q_Format Q q) r ns d"
  have dis: "distinct ?vns" and st: "set ?vns = fset (fmdom virt)"
    using assms(1) by (simp_all add: range_order.distinct_ord range_order.set_ord)
  have a: "a = alloc Q ?m r (d_resourceMap d')"
    unfolding a_def d'_def d_def ns_def hc_def distribute_resource_def
    by (simp add: Let_def fold_eligible [OF dis])
  have ns: "set ns = ?S" by (auto simp: ns_def eligible_def st)
  have hc: "cap_of hc v = host_cap Q host r v" if "v \<in> ?S" for v
    using that by (simp add: hc_def fold_hostCap [OF dis] eligible_def st host_cap_def)
  have inv: "dist_inv Q ?m r ?S (host_cap Q host r) (qval Q ?m q) d"
    using C Z by (simp add: dist_inv_def d_def hc)
  have fin: "dist_inv Q ?m r ?S (host_cap Q host r) (qval Q ?m q) d' \<and> 0 \<le> d_totalValue d' \<and>
      (d_totalValue d' = 0 \<or> (\<forall>v\<in>?S. cap_of (d_hostCap d') v = 0))"
    unfolding d'_def by (rule dist_loop_inv [OF inv]) (use T ns in \<open>auto simp: d_def\<close>)
  then show "v \<in> ?S \<Longrightarrow> 0 \<le> a v \<and> a v \<le> host_cap Q host r v"
    by (fastforce simp: dist_inv_def a)
  have "sum a ?S = (\<Sum>v\<in>?S. host_cap Q host r v - cap_of (d_hostCap d') v)"
    by (rule sum.cong) (use fin in \<open>auto simp: dist_inv_def a\<close>)
  moreover have "0 \<le> (\<Sum>v\<in>?S. cap_of (d_hostCap d') v)"
    by (rule sum_nonneg) (use fin in \<open>auto simp: dist_inv_def\<close>)
  moreover have "d_totalValue d' - (\<Sum>v\<in>?S. cap_of (d_hostCap d') v) =
      qval Q ?m q - sum (host_cap Q host r) ?S"
    using fin by (simp add: dist_inv_def)
  ultimately show "sum a ?S = min (qval Q ?m q) (sum (host_cap Q host r) ?S)"
    using fin by (auto simp: sum_subtractf)
qed

end

text \<open>The two parts of the result of \<^verbatim>\<open>distributeQuotas\<close>: a resource in the quota comes from its own
  distribution, one outside the quota from the host node.\<close>

lemma distributeQuotas_in_quota:
  assumes "range_order ord" "fmlookup quotas r = Some q"
  shows "\<exists>rm. (\<forall>v. entry rm v r = entry virt v r) \<and>
    (\<forall>v. entry (distributeQuotas Q ord host virt quotas) v r =
      entry (distribute_resource Q ord host virt r q rm) v r)"
proof -
  have "r \<in> set (ord (fmdom quotas))" "distinct (ord (fmdom quotas))"
    using assms by (simp_all add: range_order.set_ord range_order.distinct_ord fmdomI)
  then obtain xs ys where o: "ord (fmdom quotas) = xs @ r # ys" "r \<notin> set xs" "r \<notin> set ys"
    by (metis distinct.simps(2) distinct_append not_distinct_conv_prefix split_list_first)
  have fill: "entry (fold (fill_node ord host quotas) vs m) v r = entry m v r" for vs m v
    using assms(2) by (induction vs arbitrary: m) (auto simp: entry_fill_other)
  show ?thesis
    unfolding distributeQuotas_def Let_def o(1) using assms(2) o(2,3)
    by (intro exI [of _ "fold (\<lambda>r. distribute_resource Q ord host virt r (the (fmlookup quotas r))) xs
        (fold (fill_node ord host quotas) (ord (fmdom virt)) virt)"])
      (simp add: entry_fold_distribute fill)
qed

subsection \<open>Which entries a distribution touches\<close>

lemma remaining_subset:
  "set (d_remainingNodes (fold (give_node Q m f r per) vns d)) \<subseteq> set (d_remainingNodes d) \<union> set vns"
proof (induction vns arbitrary: d)
  case (Cons v vns)
  from Cons [of "give_node Q m f r per v d"] show ?case
    by (auto simp: give_node_simps split: if_splits)
qed simp

lemma entry_fold_give_node_other:
  "v \<notin> set vns \<Longrightarrow> entry (d_resourceMap (fold (give_node Q m f r per) vns d)) v r' = entry (d_resourceMap d) v r'"
  by (induction vns arbitrary: d) (simp_all add: entry_give_node)

lemma entry_dist_loop_other:
  "v \<notin> set ns \<Longrightarrow> entry (d_resourceMap (dist_loop Q m f r ns d)) v r' = entry (d_resourceMap d) v r'"
proof (induction ns d rule: dist_loop_induct [where Q = Q and m = m and f = f and r = r])
  case (1 ns d)
  have "v \<notin> set (d_remainingNodes (dist_pass Q m f r ns d))"
    using remaining_subset [of Q m f r _ ns] 1(2) by (fastforce simp: dist_pass_def Let_def)
  with 1 show ?case
    by (subst dist_loop.simps) (auto simp: Let_def dist_pass_def entry_fold_give_node_other)
qed

lemma entry_distribute_resource_other:
  assumes "range_order ord" "v \<notin> eligible host virt r"
  shows "entry (distribute_resource Q ord host virt r q m) v r' = entry m v r'"
  using assms
  by (auto simp: distribute_resource_def Let_def entry_dist_loop_other eligible_def
      fold_eligible [OF range_order.distinct_ord] range_order.set_ord)

lemma entry_distribute_nothing:
  "qval Q (r \<in> set milliScaleResources) q \<le> 0 \<Longrightarrow>
   entry (distribute_resource Q ord host virt r q m) v r' = entry m v r'"
  by (subst distribute_resource_def, subst dist_loop.simps) (simp add: Let_def split: prod.split)

lemma entry_fill_missing:
  assumes "range_order ord" "host_qty host r v = None"
  shows "entry (fill_node ord host quotas v' m) v r = entry m v r"
proof (cases "fmlookup host v'")
  case (Some l)
  have "entry (fold (\<lambda>rn m. if fmlookup quotas rn = None
        then fmupd v' (fmupd rn (the (fmlookup l rn)) (list_of m v')) m else m) rs m) v r = entry m v r"
    if "\<forall>rn\<in>set rs. rn |\<in>| fmdom l" for rs
    using that
  proof (induction rs arbitrary: m)
    case (Cons x rs)
    have "x \<noteq> r \<or> v \<noteq> v'"
      using Cons.prems Some assms(2) by (auto simp: host_qty_def fmlookup_dom_iff)
    with Cons show ?case by (auto simp: entry_def)
  qed simp
  then show ?thesis
    by (simp add: fill_node_def Some range_order.set_ord [OF assms(1)])
qed (simp add: fill_node_def)

lemma entry_fold_fill:
  assumes "range_order ord"
  shows "entry (fold (fill_node ord host quotas) vs m) v r =
    (if v \<in> set vs \<and> host_qty host r v \<noteq> None \<and> fmlookup quotas r = None then host_qty host r v
     else entry m v r)"
proof (induction vs arbitrary: m)
  case (Cons x vs)
  show ?case
  proof (cases "host_qty host r v")
    case None
    then show ?thesis using Cons by (simp add: entry_fill_missing [OF assms])
  next
    case (Some q)
    then show ?thesis
      using Cons entry_fill [OF assms Some, of quotas]
        entry_fill_other [of v x quotas r] by (cases "x = v") auto
  qed
qed simp

lemma distributeQuotas_not_in_quota:
  assumes "range_order ord" "fmlookup quotas r = None"
  shows "entry (distributeQuotas Q ord host virt quotas) v r =
    (if v \<in> eligible host virt r then host_qty host r v else entry virt v r)"
  using assms
  by (auto simp: distributeQuotas_def Let_def entry_fold_distribute range_order.set_ord
      entry_fold_fill eligible_def fmdom_notI fmlookup_dom_iff)

section \<open>Merged quotas are the most restrictive\<close>

text \<open>The quantity of one resource as the lists are merged one after the other.\<close>

definition least_step :: "'q quantity_ops \<Rightarrow> 'q option \<Rightarrow> 'q option \<Rightarrow> 'q option" where
  "least_step Q x acc =
     (case x of None \<Rightarrow> acc
      | Some q \<Rightarrow> (case acc of None \<Rightarrow> Some q | Some p \<Rightarrow> if q_Cmp Q q p < 0 then Some q else acc))"

lemma fold_merge_entry:
  "distinct rs \<Longrightarrow>
   fmlookup (fold (\<lambda>rn m. merge_entry Q rn (g rn) m) rs m) r =
     (if r \<in> set rs then least_step Q (Some (g r)) (fmlookup m r) else fmlookup m r)"
  by (induction rs arbitrary: m) (auto simp: merge_entry_def least_step_def split: option.splits)

lemma fmlookup_mergeQuotas:
  assumes "range_order ord"
  shows "fmlookup (mergeQuotas Q ord ls) r = fold (\<lambda>l. least_step Q (fmlookup l r)) ls None"
proof -
  have one: "fmlookup (fold (\<lambda>rn m. merge_entry Q rn (the (fmlookup l rn)) m) (ord (fmdom l)) m) r =
      least_step Q (fmlookup l r) (fmlookup m r)" for l m
    using assms
    by (cases "fmlookup l r") (auto simp: fold_merge_entry range_order.distinct_ord
        range_order.set_ord least_step_def fmlookup_dom_iff)
  have "fmlookup (fold (\<lambda>l m. fold (\<lambda>rn m. merge_entry Q rn (the (fmlookup l rn)) m)
      (ord (fmdom l)) m) ls m) r = fold (\<lambda>l. least_step Q (fmlookup l r)) ls (fmlookup m r)" for m
    by (induction ls arbitrary: m) (simp_all add: one)
  then show ?thesis by (simp add: mergeQuotas_def)
qed

locale quantity_cmp = quantity +
  assumes Cmp_asym: "q_Cmp Q a b < 0 \<Longrightarrow> \<not> q_Cmp Q b a < 0"
    and Cmp_between: "q_Cmp Q a c < 0 \<Longrightarrow> q_Cmp Q a b < 0 \<or> q_Cmp Q b c < 0"
begin

lemma least_step_le:
  assumes "least_step Q x acc = Some a" "Some p = acc \<or> Some p = x"
  shows "\<not> q_Cmp Q p a < 0"
proof -
  have "p = a \<or> q_Cmp Q a p < 0 \<or> \<not> q_Cmp Q p a < 0"
    using assms by (auto simp: least_step_def split: option.splits if_splits)
  with Cmp_asym show ?thesis by blast
qed

lemma fold_least_step:
  "fold (least_step Q) xs acc = Some q \<Longrightarrow>
     (Some q = acc \<or> Some q \<in> set xs) \<and> (\<forall>p. Some p = acc \<or> Some p \<in> set xs \<longrightarrow> \<not> q_Cmp Q p q < 0)"
proof (induction xs arbitrary: acc)
  case Nil
  then show ?case using Cmp_asym by auto
next
  case (Cons x xs)
  let ?acc = "least_step Q x acc"
  from Cons.IH [of ?acc] Cons.prems
  have ih: "Some q = ?acc \<or> Some q \<in> set xs"
    "\<And>p. Some p = ?acc \<or> Some p \<in> set xs \<Longrightarrow> \<not> q_Cmp Q p q < 0" by auto
  have "\<not> q_Cmp Q p q < 0" if p: "Some p = acc \<or> Some p = x" for p
  proof -
    have "?acc \<noteq> None" using p by (cases x; cases acc) (auto simp: least_step_def)
    then obtain a where a: "?acc = Some a" by blast
    have "\<not> q_Cmp Q p a < 0"
      using least_step_le [OF a p] .
    with a ih(2) [of a] Cmp_between [of p q a] show ?thesis by auto
  qed
  with ih show ?case
    by (auto simp: least_step_def split: option.splits if_splits)
qed

end

interpretation milli_cmp: quantity_cmp milli_quantity
  by unfold_locales (auto simp: milli_quantity_def sgn_if split: if_splits)

section \<open>The capacity of the virtual node\<close>

record 'q node =
  nd_meta :: object_meta
  nd_Capacity :: "'q resource_list"
  nd_Allocatable :: "'q resource_list"

record 'q resource_quota =
  rqt_meta :: object_meta
  rqt_Hard :: "'q resource_list"

text \<open>The maps \<^verbatim>\<open>updateNodeCapacity\<close> passes to \<^verbatim>\<open>distributeQuotas\<close>.\<close>

definition virt_map :: "'q node list \<Rightarrow> 'q resource_map" where
  "virt_map virtualNodes = fold (\<lambda>n m. fmupd (Name (nd_meta n)) fmempty m) virtualNodes fmempty"

definition host_map :: "'q node list \<Rightarrow> 'q node list \<Rightarrow> 'q resource_map" where
  "host_map virtualNodes hostNodes =
     fold (\<lambda>n m. if Name (nd_meta n) |\<in>| fmdom (virt_map virtualNodes)
        then fmupd (Name (nd_meta n)) (nd_Allocatable n) m else m) hostNodes fmempty"

definition merged_quota :: "'q quantity_ops \<Rightarrow> (string fset \<Rightarrow> string list) \<Rightarrow> 'q resource_quota list \<Rightarrow>
    'q resource_list" where
  "merged_quota Q ord quotas = filterQuotas ord (mergeQuotas Q ord (map rqt_Hard quotas))"

text \<open>The block guarded by \<^verbatim>\<open>len(quotas.Items) > 0\<close>, once its two lists are read: the
  allocatable resources with the node's share of the quotas merged over them.\<close>

definition quotaAllocatable :: "'q quantity_ops \<Rightarrow> (string fset \<Rightarrow> string list) \<Rightarrow> 'q resource_quota list \<Rightarrow>
    'q node list \<Rightarrow> 'q node list \<Rightarrow> string \<Rightarrow> 'q resource_list \<Rightarrow> 'q resource_list" where
  "quotaAllocatable Q ord quotas virtualNodes hostNodes virtualNodeName allocatable =
     (let m = distributeQuotas Q ord (host_map virtualNodes hostNodes) (virt_map virtualNodes)
            (merged_quota Q ord quotas)
      in allocatable ++\<^sub>f list_of m virtualNodeName)"

definition updateNodeCapacity :: "'q quantity_ops \<Rightarrow> (string fset \<Rightarrow> string list) \<Rightarrow>
    ('e, 'q node) resource \<Rightarrow> ('e, 'q resource_quota) resource \<Rightarrow> cluster \<Rightarrow> string \<Rightarrow> ('e, unit) io" where
  "updateNodeCapacity Q ord NodeR QuotaR virtualCluster virtualNodeName =
     bindS (k_Get Host NodeR \<lparr>nn_Namespace = '''', nn_Name = virtualNodeName\<rparr>) (\<lambda>r.
       case r of Inl e \<Rightarrow> ret () | Inr node \<Rightarrow>
     bindS (k_List Host QuotaR (InNamespace (Namespace (cl_meta virtualCluster)))) (\<lambda>r.
       case r of Inl e \<Rightarrow> ret () | Inr quotas \<Rightarrow>
     bindS (if quotas = [] then ret (Some (nd_Allocatable node))
            else bindS (k_List Virt NodeR (InNamespace '''')) (\<lambda>r.
              case r of Inl e \<Rightarrow> ret None | Inr virtualNodes \<Rightarrow>
              bindS (k_List Host NodeR (InNamespace '''')) (\<lambda>r.
              case r of Inl e \<Rightarrow> ret None | Inr hostNodes \<Rightarrow>
              ret (Some (quotaAllocatable Q ord quotas virtualNodes hostNodes virtualNodeName
                (nd_Allocatable node)))))) (\<lambda>r.
       case r of None \<Rightarrow> ret () | Some allocatable \<Rightarrow>
     bindS (k_Get Virt NodeR \<lparr>nn_Namespace = '''', nn_Name = virtualNodeName\<rparr>) (\<lambda>r.
       case r of Inl e \<Rightarrow> ret () | Inr virtualNode \<Rightarrow>
     bindS (k_StatusUpdate Virt NodeR (virtualNode\<lparr>nd_Capacity := allocatable,
         nd_Allocatable := allocatable\<rparr>)) (\<lambda>_. ret ())))))"

lemma virt_map_empty:
  "(\<forall>v. list_of m v = fmempty) \<Longrightarrow>
   list_of (fold (\<lambda>n m. fmupd (Name (nd_meta n)) fmempty m) ns m) v = fmempty"
  by (induction ns arbitrary: m) auto

lemma host_map_lookup:
  "fmlookup (fold (\<lambda>n m. if P n then fmupd (Name (nd_meta n)) (nd_Allocatable n) m else m) ns m) v = Some l \<Longrightarrow>
   fmlookup m v = Some l \<or> (\<exists>n\<in>set ns. Name (nd_meta n) = v \<and> nd_Allocatable n = l)"
proof (induction ns arbitrary: m)
  case (Cons n ns)
  let ?m = "if P n then fmupd (Name (nd_meta n)) (nd_Allocatable n) m else m"
  from Cons.IH [of ?m] Cons.prems show ?case
    by (auto split: if_splits)
qed simp

lemma entry_virt_map [simp]: "entry (virt_map vs) v r = None"
  by (simp add: entry_def virt_map_def virt_map_empty [of fmempty] list_of_def [of fmempty])

lemma quotaAllocatable_lookup:
  "fmlookup (quotaAllocatable Q ord quotas virtualNodes hostNodes vn allocatable) r =
     (case entry (distributeQuotas Q ord (host_map virtualNodes hostNodes) (virt_map virtualNodes)
         (merged_quota Q ord quotas)) vn r of
        None \<Rightarrow> fmlookup allocatable r | Some q \<Rightarrow> Some q)"
  by (auto simp: quotaAllocatable_def Let_def entry_def fmlookup_dom_iff split: option.split)

lemma host_qty_host_map:
  assumes "host_qty (host_map vs hs) r v = Some q"
    and "\<forall>h\<in>set hs. Name (nd_meta h) = v \<longrightarrow> nd_Allocatable h = a"
  shows "fmlookup a r = Some q"
  using assms host_map_lookup [of _ hs fmempty v]
  by (fastforce simp: host_qty_def host_map_def split: option.splits)

text \<open>A concrete instance: two nodes with 4 and 8 devices, and a quota of 6.\<close>

definition wit_host :: "(int \<times> string) resource_map" where
  "wit_host = fmap_of_list [(''a'', fmap_of_list [(''gpu'', (4000, ''''))]),
     (''b'', fmap_of_list [(''gpu'', (8000, ''''))])]"

definition wit_virt :: "(int \<times> string) resource_map" where
  "wit_virt = fmap_of_list [(''a'', fmempty), (''b'', fmempty)]"

definition wit_quotas :: "(int \<times> string) resource_list" where
  "wit_quotas = fmap_of_list [(''gpu'', (6000, ''''))]"

lemma wit_eligible: "eligible wit_host wit_virt ''gpu'' = {''a'', ''b''}"
  by (auto simp: eligible_def wit_host_def wit_virt_def host_qty_def)

lemma wit_qval: "qval milli_quantity (''gpu'' \<in> set milliScaleResources) (v, f) = - ((- v) div 1000)"
  by (simp add: qval_def milli_quantity_def milliScaleResources_def)

lemma wit_caps:
  "host_cap milli_quantity wit_host ''gpu'' ''a'' = 4"
  "host_cap milli_quantity wit_host ''gpu'' ''b'' = 8"
  by (simp_all add: host_cap_def host_qty_def wit_host_def wit_qval)

lemma wit_facts:
  "fmlookup wit_quotas ''gpu'' = Some (6000, '''')"
  "0 \<le> qval milli_quantity (''gpu'' \<in> set milliScaleResources) (6000, '''')"
  "\<forall>v\<in>eligible wit_host wit_virt ''gpu''. 0 \<le> host_cap milli_quantity wit_host ''gpu'' v"
  "\<forall>v\<in>eligible wit_host wit_virt ''gpu''. entry wit_virt v ''gpu'' = None"
  unfolding wit_eligible
  by (simp_all add: wit_quotas_def wit_qval wit_caps wit_virt_def entry_def list_of_def)

section \<open>Properties\<close>

text \<open>
  C26: \<^verbatim>\<open>distributeQuotas\<close> hands out, over the nodes that have the resource, exactly the smaller of
  the quota and the capacity of those nodes together: nothing of the quota is lost and nothing
  is counted twice, whatever order the maps are iterated in.
\<close>
theorem distributeQuotas_conserves:
  assumes "quantity Q" "range_order ord" "fmlookup quotas r = Some q"
    and "0 \<le> qval Q (r \<in> set milliScaleResources) q"
    and "\<forall>v\<in>eligible host virt r. 0 \<le> host_cap Q host r v"
    and "\<forall>v\<in>eligible host virt r. entry virt v r = None"
  shows "(\<Sum>v\<in>eligible host virt r.
      alloc Q (r \<in> set milliScaleResources) r (distributeQuotas Q ord host virt quotas) v) =
    min (qval Q (r \<in> set milliScaleResources) q) (\<Sum>v\<in>eligible host virt r. host_cap Q host r v)"
proof -
  obtain rm where rm: "\<And>v. entry rm v r = entry virt v r"
    "\<And>v. entry (distributeQuotas Q ord host virt quotas) v r =
      entry (distribute_resource Q ord host virt r q rm) v r"
    using distributeQuotas_in_quota [OF assms(2,3)] by blast
  have "\<forall>v\<in>eligible host virt r. alloc Q (r \<in> set milliScaleResources) r rm v = 0"
    using assms(1,6) by (simp add: alloc_entry rm qval_def quantity.Value_Zero quantity.MilliValue_Zero)
  from quantity.distribute_resource_alloc(1) [OF assms(1,2,4,5) this]
  show ?thesis by (simp add: alloc_entry rm)
qed

theorem distributeQuotas_conserves_witness:
  "(\<Sum>v\<in>eligible wit_host wit_virt ''gpu''. alloc milli_quantity (''gpu'' \<in> set milliScaleResources) ''gpu''
     (distributeQuotas milli_quantity sorted_list_of_fset wit_host wit_virt wit_quotas) v) = 6"
  using distributeQuotas_conserves [OF milli.quantity_axioms sorted_order.range_order_axioms wit_facts]
  by (simp add: wit_eligible wit_caps wit_qval)

text \<open>
  No virtual node is given more of a quota resource than its host node has.
\<close>
theorem distributeQuotas_within_host:
  assumes "quantity Q" "range_order ord" "fmlookup quotas r = Some q"
    and "0 \<le> qval Q (r \<in> set milliScaleResources) q"
    and "\<forall>v\<in>eligible host virt r. 0 \<le> host_cap Q host r v"
    and "\<forall>v\<in>eligible host virt r. entry virt v r = None"
    and "v \<in> eligible host virt r"
  shows "0 \<le> alloc Q (r \<in> set milliScaleResources) r (distributeQuotas Q ord host virt quotas) v \<and>
    alloc Q (r \<in> set milliScaleResources) r (distributeQuotas Q ord host virt quotas) v
      \<le> host_cap Q host r v"
proof -
  obtain rm where rm: "\<And>v. entry rm v r = entry virt v r"
    "\<And>v. entry (distributeQuotas Q ord host virt quotas) v r =
      entry (distribute_resource Q ord host virt r q rm) v r"
    using distributeQuotas_in_quota [OF assms(2,3)] by blast
  have "\<forall>v\<in>eligible host virt r. alloc Q (r \<in> set milliScaleResources) r rm v = 0"
    using assms(1,6) by (simp add: alloc_entry rm qval_def quantity.Value_Zero quantity.MilliValue_Zero)
  from quantity.distribute_resource_alloc(2) [OF assms(1,2,4,5) this assms(7)]
  show ?thesis by (simp add: alloc_entry rm)
qed

theorem distributeQuotas_within_host_witness:
  "alloc milli_quantity (''gpu'' \<in> set milliScaleResources) ''gpu''
     (distributeQuotas milli_quantity sorted_list_of_fset wit_host wit_virt wit_quotas) ''a'' \<le> 4"
  using distributeQuotas_within_host [OF milli.quantity_axioms sorted_order.range_order_axioms
      wit_facts, of "''a''"]
  by (simp add: wit_eligible wit_caps wit_qval)

text \<open>
  \<^verbatim>\<open>mergeQuotas\<close> keeps, for each resource, one of the quantities of the lists, and none of the lists
  has a smaller one; a resource is in the result exactly when some list has it.
\<close>
theorem mergeQuotas_most_restrictive:
  assumes "quantity_cmp Q" "range_order ord"
  shows "case fmlookup (mergeQuotas Q ord ls) r of
      None \<Rightarrow> \<forall>l\<in>set ls. fmlookup l r = None
    | Some q \<Rightarrow> (\<exists>l\<in>set ls. fmlookup l r = Some q) \<and>
        (\<forall>l\<in>set ls. \<forall>p. fmlookup l r = Some p \<longrightarrow> \<not> q_Cmp Q p q < 0)"
proof -
  have f: "fold (\<lambda>l. least_step Q (fmlookup l r)) ls = fold (least_step Q) (map (\<lambda>l. fmlookup l r) ls)"
    by (simp add: fold_map comp_def)
  have none: "fold (least_step Q) xs acc = None \<Longrightarrow> acc = None \<and> (\<forall>x\<in>set xs. x = None)" for xs acc
  proof (induction xs arbitrary: acc)
    case (Cons x xs)
    from Cons.IH [of "least_step Q x acc"] Cons.prems
    have "least_step Q x acc = None" "\<forall>x\<in>set xs. x = None" by auto
    then show ?case by (cases x; cases acc) (auto simp: least_step_def split: if_splits)
  qed simp
  let ?xs = "map (\<lambda>l. fmlookup l r) ls"
  show ?thesis
  proof (cases "fold (least_step Q) ?xs None")
    case None
    from none [OF this] None show ?thesis
      by (simp add: fmlookup_mergeQuotas [OF assms(2)] f)
  next
    case (Some q)
    from quantity_cmp.fold_least_step [OF assms(1) Some]
    have "Some q \<in> set ?xs" "\<forall>p. Some p \<in> set ?xs \<longrightarrow> \<not> q_Cmp Q p q < 0" by auto
    then show ?thesis
      by (simp add: fmlookup_mergeQuotas [OF assms(2)] f Some image_iff) metis
  qed
qed

theorem mergeQuotas_most_restrictive_witness:
  "case fmlookup (mergeQuotas milli_quantity sorted_list_of_fset
      [wit_quotas, fmap_of_list [(''gpu'', (2000, ''''))]]) ''gpu'' of
     None \<Rightarrow> False | Some q \<Rightarrow> \<not> q_Cmp milli_quantity (2000, '''') q < 0"
  using mergeQuotas_most_restrictive [OF milli_cmp.quantity_cmp_axioms sorted_order.range_order_axioms,
      of "[wit_quotas, fmap_of_list [(''gpu'', (2000, ''''))]]" "''gpu''"]
  by (auto simp: wit_quotas_def split: option.splits)

text \<open>
  C27: The capacity a virtual node reports never exceeds that of its host node: with the list and
  the get of the host node agreeing and no negative host capacity, every reported resource is
  one of the host node's, at a value at most the host's, and every resource of the host
  node is reported.
\<close>
theorem quotaAllocatable_within_host:
  assumes "quantity Q" "range_order ord"
    and agree: "\<forall>h\<in>set hostNodes. Name (nd_meta h) = vn \<longrightarrow> nd_Allocatable h = allocatable"
    and nonneg: "\<forall>r q. fmlookup allocatable r = Some q \<longrightarrow> 0 \<le> q_Value Q q \<and> 0 \<le> q_MilliValue Q q"
    and others: "\<forall>h\<in>set hostNodes. \<forall>r q. fmlookup (nd_Allocatable h) r = Some q \<longrightarrow>
      0 \<le> q_Value Q q \<and> 0 \<le> q_MilliValue Q q"
  shows "case fmlookup (quotaAllocatable Q ord quotas virtualNodes hostNodes vn allocatable) r of
      None \<Rightarrow> fmlookup allocatable r = None
    | Some q \<Rightarrow> \<exists>h. fmlookup allocatable r = Some h \<and>
        qval Q (r \<in> set milliScaleResources) q \<le> qval Q (r \<in> set milliScaleResources) h"
proof (cases "entry (distributeQuotas Q ord (host_map virtualNodes hostNodes) (virt_map virtualNodes)
    (merged_quota Q ord quotas)) vn r")
  case None
  then show ?thesis by (simp add: quotaAllocatable_lookup split: option.split)
next
  case (Some q)
  note ent = Some
  let ?m = "r \<in> set milliScaleResources"
  let ?host = "host_map virtualNodes hostNodes"
  let ?virt = "virt_map virtualNodes"
  let ?quotas = "merged_quota Q ord quotas"
  note lk = quotaAllocatable_lookup [of Q ord quotas virtualNodes hostNodes vn allocatable r]
  show ?thesis
  proof (cases "fmlookup ?quotas r")
    case None
    with Some have "host_qty ?host r vn = Some q"
      by (simp add: distributeQuotas_not_in_quota [OF assms(2)] split: if_splits)
    from host_qty_host_map [OF this agree] Some lk show ?thesis by simp
  next
    case (Some t)
    obtain rm where rm: "\<And>v. entry rm v r = entry ?virt v r"
      "\<And>v. entry (distributeQuotas Q ord ?host ?virt ?quotas) v r =
        entry (distribute_resource Q ord ?host ?virt r t rm) v r"
      using distributeQuotas_in_quota [OF assms(2) Some] by blast
    have q: "entry (distribute_resource Q ord ?host ?virt r t rm) vn r = Some q"
      using ent rm(2) by simp
    have el: "vn \<in> eligible ?host ?virt r"
      using q entry_distribute_resource_other [OF assms(2)] rm(1) by fastforce
    have t: "0 \<le> qval Q ?m t"
      using q entry_distribute_nothing [of Q r t] rm(1) by fastforce
    have z: "\<forall>v\<in>eligible ?host ?virt r. alloc Q ?m r rm v = 0"
      using assms(1) rm(1)
      by (simp add: alloc_entry qval_def quantity.Value_Zero quantity.MilliValue_Zero)
    have cap: "\<forall>v\<in>eligible ?host ?virt r. 0 \<le> host_cap Q ?host r v"
      using others host_map_lookup [of _ hostNodes fmempty]
      by (fastforce simp: eligible_def host_cap_def host_qty_def host_map_def qval_def split: option.splits)
    obtain h where h: "host_qty ?host r vn = Some h" using el by (auto simp: eligible_def)
    have "qval Q ?m q \<le> qval Q ?m h"
      using quantity.distribute_resource_alloc(2) [OF assms(1,2) t cap z el]
      by (simp add: alloc_entry q host_cap_def h)
    with host_qty_host_map [OF h agree] ent lk show ?thesis by simp
  qed
qed

definition wit_node :: "string \<Rightarrow> (int \<times> string) resource_list \<Rightarrow> (int \<times> string) node" where
  "wit_node n l = \<lparr>nd_meta = meta_of n '''', nd_Capacity = l, nd_Allocatable = l\<rparr>"

definition wit_gpus :: "(int \<times> string) resource_list" where
  "wit_gpus = fmap_of_list [(''gpu'', (4000, ''''))]"

definition wit_quota :: "int \<Rightarrow> (int \<times> string) resource_quota" where
  "wit_quota n = \<lparr>rqt_meta = meta_of ''q'' ''ns'', rqt_Hard = fmap_of_list [(''requests.gpu'', (n, ''''))]\<rparr>"

theorem quotaAllocatable_within_host_witness:
  "case fmlookup (quotaAllocatable milli_quantity sorted_list_of_fset [wit_quota 1000]
      [wit_node ''a'' fmempty] [wit_node ''a'' wit_gpus] ''a'' wit_gpus) ''gpu'' of
     None \<Rightarrow> False | Some q \<Rightarrow> qval milli_quantity False q \<le> 4"
proof -
  have ns: "\<forall>r q. fmlookup wit_gpus r = Some q \<longrightarrow>
      0 \<le> q_Value milli_quantity q \<and> 0 \<le> q_MilliValue milli_quantity q"
    by (auto simp: wit_gpus_def milli_quantity_def split: if_splits)
  show ?thesis
    using quotaAllocatable_within_host [OF milli.quantity_axioms sorted_order.range_order_axioms,
        of "[wit_node ''a'' wit_gpus]" "''a''" wit_gpus "''gpu''" "[wit_quota 1000]" "[wit_node ''a'' fmempty]"]
      ns
    by (auto simp: wit_node_def milliScaleResources_def wit_gpus_def qval_def milli_quantity_def
        split: option.splits)
qed

text \<open>
  A resource whose merged quota is zero is not withheld: the share of every node is zero, the
  distribution leaves no entry for it, and the node goes on reporting the full allocatable
  quantity of its host node.
\<close>
theorem zero_quota_reports_host:
  assumes "range_order ord" "fmlookup (merged_quota Q ord quotas) r = Some q"
    and "qval Q (r \<in> set milliScaleResources) q = 0"
  shows "fmlookup (quotaAllocatable Q ord quotas virtualNodes hostNodes vn allocatable) r =
    fmlookup allocatable r"
proof -
  obtain rm where "\<And>v. entry rm v r = entry (virt_map virtualNodes) v r"
    "\<And>v. entry (distributeQuotas Q ord (host_map virtualNodes hostNodes) (virt_map virtualNodes)
        (merged_quota Q ord quotas)) v r =
      entry (distribute_resource Q ord (host_map virtualNodes hostNodes) (virt_map virtualNodes) r q rm) v r"
    using distributeQuotas_in_quota [OF assms(1,2)] by blast
  with assms(3) show ?thesis by (simp add: quotaAllocatable_lookup entry_distribute_nothing)
qed

lemma wit_zero:
  "fmlookup (merged_quota milli_quantity sorted_list_of_fset [wit_quota 0]) ''gpu'' = Some (0, '''')"
proof -
  have l: "sorted_list_of_fset {|x|} = [x]" for x :: string
    by (simp add: sorted_list_of_fset.rep_eq)
  show ?thesis
    by (simp add: merged_quota_def filterQuotas_def mergeQuotas_def wit_quota_def l merge_entry_def
        coreResources_def filtered_name_def strings_TrimPrefix_def strings_HasPrefix_def)
qed

theorem zero_quota_reports_host_witness:
  "fmlookup (quotaAllocatable milli_quantity sorted_list_of_fset [wit_quota 0]
      [wit_node ''a'' fmempty] [wit_node ''a'' wit_gpus] ''a'' wit_gpus) ''gpu'' = Some (4000, '''')"
  using zero_quota_reports_host [OF sorted_order.range_order_axioms wit_zero,
      of "[wit_node ''a'' fmempty]" "[wit_node ''a'' wit_gpus]" "''a''" wit_gpus]
  by (simp add: qval_def milli_quantity_def wit_gpus_def milliScaleResources_def)

end
