(* ===== verification/Syncers.thy ===== *)
theory Syncers
  imports Translate Kube
begin

text \<open>
  \<^verbatim>\<open>k3k-kubelet/controller/syncer\<close>: the reconcilers that mirror the objects of a virtual cluster
  in the host namespace of the cluster. Each reconciler is written out as in its file; all six are
  then shown to be instances of one skeleton, \<^verbatim>\<open>sync_object\<close>, about which the locale
  \<^verbatim>\<open>syncer\<close> proves where they write and when they let go of the finalizer.

  A nil dereference in a reconciler is recovered by the controller runtime and reported as an
  error; in an event filter it is not, so the filters return an option, \<^verbatim>\<open>None\<close> for the panic.
  \<^verbatim>\<open>Update\<close>, \<^verbatim>\<open>Create\<close> and \<^verbatim>\<open>Patch\<close> leave the server's answer in the object they are given.
\<close>

record sync_context =
  sy_ClusterName :: string
  sy_ClusterNamespace :: string
  sy_Translator :: to_host_translator

definition cluster_key :: "sync_context \<Rightarrow> namespaced_name" where
  "cluster_key sc = \<lparr>nn_Namespace = sy_ClusterNamespace sc, nn_Name = sy_ClusterName sc\<rparr>"

text \<open>What the \<^verbatim>\<open>Add...Syncer\<close> functions put in the context.\<close>

definition newContext :: "string \<Rightarrow> string \<Rightarrow> sync_context" where
  "newContext clusterName clusterNamespace =
     \<lparr>sy_ClusterName = clusterName, sy_ClusterNamespace = clusterNamespace,
      sy_Translator = \<lparr>tr_ClusterName = clusterName, tr_ClusterNamespace = clusterNamespace\<rparr>\<rparr>"

definition nil_deref :: goerr where
  "nil_deref = ErrNew ''runtime error: invalid memory address or nil pointer dereference''"

section \<open>Event filters\<close>

text \<open>The body the filters share after the configuration of their resource is read.\<close>

definition filter_by :: "bool \<Rightarrow> smap option \<Rightarrow> object_meta \<Rightarrow> bool" where
  "filter_by enabled selector object =
     (if \<not> enabled then DeletionTimestamp object \<noteq> None
      else if minit selector = fmempty then True
      else labels_match (minit selector) (Labels object))"

definition filter_with :: "(sync_config \<Rightarrow> bool \<times> smap option) \<Rightarrow> ('e, cluster) resource \<Rightarrow> sync_context \<Rightarrow>
    object_meta \<Rightarrow> ('e, bool option) io" where
  "filter_with cfg ClusterR sc object =
     bindS (k_Get Host ClusterR (cluster_key sc)) (\<lambda>r. case r of
       Inl err \<Rightarrow> ret (Some False)
     | Inr cluster \<Rightarrow> (case SyncCfg (cl_Spec cluster) of
         None \<Rightarrow> ret None
       | Some sync \<Rightarrow> (case cfg sync of (enabled, selector) \<Rightarrow>
           ret (Some (filter_by enabled selector object)))))"

definition ConfigMapSyncer_filterResources ::
    "('e, cluster) resource \<Rightarrow> sync_context \<Rightarrow> object_meta \<Rightarrow> ('e, bool option) io" where
  "ConfigMapSyncer_filterResources =
     filter_with (\<lambda>sync. (cm_Enabled (ConfigMaps sync), cm_Selector (ConfigMaps sync)))"

definition SecretSyncer_filterResources ::
    "('e, cluster) resource \<Rightarrow> sync_context \<Rightarrow> object_meta \<Rightarrow> ('e, bool option) io" where
  "SecretSyncer_filterResources =
     filter_with (\<lambda>sync. (sec_Enabled (Secrets sync), sec_Selector (Secrets sync)))"

definition ServiceReconciler_filterResources ::
    "('e, cluster) resource \<Rightarrow> sync_context \<Rightarrow> object_meta \<Rightarrow> ('e, bool option) io" where
  "ServiceReconciler_filterResources =
     filter_with (\<lambda>sync. (svc_Enabled (Services sync), svc_Selector (Services sync)))"

definition IngressReconciler_filterResources ::
    "('e, cluster) resource \<Rightarrow> sync_context \<Rightarrow> object_meta \<Rightarrow> ('e, bool option) io" where
  "IngressReconciler_filterResources =
     filter_with (\<lambda>sync. (ing_Enabled (Ingresses sync), ing_Selector (Ingresses sync)))"

definition PVCReconciler_filterResources ::
    "('e, cluster) resource \<Rightarrow> sync_context \<Rightarrow> object_meta \<Rightarrow> ('e, bool option) io" where
  "PVCReconciler_filterResources =
     filter_with (\<lambda>sync. (pvc_Enabled (PersistentVolumeClaims sync),
       pvc_Selector (PersistentVolumeClaims sync)))"

definition PriorityClassSyncer_filterResources ::
    "('e, cluster) resource \<Rightarrow> sync_context \<Rightarrow> object_meta \<Rightarrow> ('e, bool option) io" where
  "PriorityClassSyncer_filterResources =
     filter_with (\<lambda>sync. (pc_Enabled (PriorityClasses sync), pc_Selector (PriorityClasses sync)))"

text \<open>\<^verbatim>\<open>ignoreSystemPrefixPredicate\<close>: the same test in all four functions.\<close>

definition ignoreSystemPrefixPredicate :: "object_meta \<Rightarrow> bool" where
  "ignoreSystemPrefixPredicate ob = (\<not> strings_HasPrefix (Name ob) ''system-'')"

definition filterHostIngress :: "('e, cluster) resource \<Rightarrow> sync_context \<Rightarrow> ingress \<Rightarrow> ('e, bool option) io" where
  "filterHostIngress ClusterR sc object =
     (if mindex (Labels (ing_meta object)) ClusterNameLabel \<noteq> sy_ClusterName sc then ret (Some False)
      else IngressReconciler_filterResources ClusterR sc (ing_meta object))"

definition virtualIngressRequest :: "ingress \<Rightarrow> namespaced_name list" where
  "virtualIngressRequest object =
     (let annotations = Annotations (ing_meta object);
          name = mindex annotations ResourceNameAnnotation;
          namespace = mindex annotations ResourceNamespaceAnnotation
      in if name = '''' \<or> namespace = '''' then []
         else [\<lparr>nn_Namespace = namespace, nn_Name = name\<rparr>])"

section \<open>Translation of the objects\<close>

definition translateConfigMap :: "to_host_translator \<Rightarrow> config_map \<Rightarrow> config_map" where
  "translateConfigMap t configMap = configMap\<lparr>cm_meta := TranslateTo t (cm_meta configMap)\<rparr>"

definition translateSecret :: "to_host_translator \<Rightarrow> secret \<Rightarrow> secret" where
  "translateSecret t secret =
     (let hostSecret = (if sec_Type secret = SecretTypeServiceAccountToken
            then secret\<lparr>sec_Type := SecretTypeOpaque\<rparr> else secret)
      in hostSecret\<lparr>sec_meta := TranslateTo t (sec_meta hostSecret)\<rparr>)"

definition translateService :: "to_host_translator \<Rightarrow> service \<Rightarrow> service" where
  "translateService t obj = obj\<lparr>svc_meta := TranslateTo t (svc_meta obj)\<rparr>"

definition translateIngress :: "to_host_translator \<Rightarrow> ingress \<Rightarrow> bool \<Rightarrow> ingress" where
  "translateIngress t obj disableTLSSecretTranslation =
     (let hostIngress = obj\<lparr>ing_meta := TranslateTo t (ing_meta obj)\<rparr>;
          ns = Namespace (ing_meta obj);
          path_f = (\<lambda>path. path\<lparr>ip_Service :=
            map_option (\<lambda>s. s\<lparr>sb_Name := TranslateName t ns (sb_Name s)\<rparr>) (ip_Service path)\<rparr>);
          rule_f = (\<lambda>rule. rule\<lparr>ir_HTTP := map_option (map path_f) (ir_HTTP rule)\<rparr>);
          hostIngress = hostIngress\<lparr>ing_Rules := map rule_f (ing_Rules hostIngress)\<rparr>
      in if disableTLSSecretTranslation then hostIngress
         else hostIngress\<lparr>ing_TLS := map (\<lambda>tls. if it_SecretName tls \<noteq> ''''
             then tls\<lparr>it_SecretName := TranslateName t ns (it_SecretName tls)\<rparr> else tls)
           (ing_TLS hostIngress)\<rparr>)"

definition translatePVC :: "to_host_translator \<Rightarrow> persistent_volume_claim \<Rightarrow> persistent_volume_claim" where
  "translatePVC t obj = obj\<lparr>pvc_meta := TranslateTo t (pvc_meta obj)\<rparr>"

abbreviation PriorityClassGlobalDefaultAnnotation :: string where
  "PriorityClassGlobalDefaultAnnotation \<equiv> ''priorityclass.k3k.io/globalDefault''"

definition translatePriorityClass :: "to_host_translator \<Rightarrow> priority_class \<Rightarrow> priority_class" where
  "translatePriorityClass t priorityClass =
     (let hostPC = priorityClass\<lparr>prc_meta := TranslateTo t (prc_meta priorityClass)\<rparr>;
          hostPC = hostPC\<lparr>prc_meta := (prc_meta hostPC)\<lparr>Annotations := Some (minit (Annotations (prc_meta hostPC)))\<rparr>\<rparr>
      in if prc_GlobalDefault hostPC
         then hostPC\<lparr>prc_GlobalDefault := False,
           prc_meta := (prc_meta hostPC)\<lparr>Annotations := Some (fmupd PriorityClassGlobalDefaultAnnotation ''true''
             (minit (Annotations (prc_meta hostPC))))\<rparr>\<rparr>
         else hostPC)"

section \<open>Steps shared by the reconcilers\<close>

text \<open>\<^verbatim>\<open>Delete\<close> that does not mind a missing object; adding and removing the finalizer with an
  update of the virtual object when it changed. \<^verbatim>\<open>setm\<close> updates the metadata of the object.\<close>

type_synonym 'o meta_upd = "(object_meta \<Rightarrow> object_meta) \<Rightarrow> 'o \<Rightarrow> 'o"

definition delete_ignoring :: "side \<Rightarrow> ('e, 'o) resource \<Rightarrow> 'o \<Rightarrow> ('e, goerr + unit) io" where
  "delete_ignoring s R ob = bindS (k_Delete s R ob) (\<lambda>r. ret (IgnoreNotFound r))"

definition drop_finalizer :: "util \<Rightarrow> string \<Rightarrow> 'o meta_upd \<Rightarrow> ('e, 'o) resource \<Rightarrow> 'o \<Rightarrow> ('e, goerr + unit) io" where
  "drop_finalizer U fin setm R virt =
     (case RemoveFinalizer U fin (r_meta R virt) of (changed, m) \<Rightarrow>
        if changed then bindE (k_Update Virt R (setm (\<lambda>_. m) virt)) (\<lambda>_. ret (Inr ()))
        else ret (Inr ()))"

definition ensure_finalizer :: "util \<Rightarrow> string \<Rightarrow> 'o meta_upd \<Rightarrow> ('e, 'o) resource \<Rightarrow> 'o \<Rightarrow> ('e, goerr + 'o) io" where
  "ensure_finalizer U fin setm R virt =
     (case AddFinalizer U fin (r_meta R virt) of (changed, m) \<Rightarrow>
        if changed then k_Update Virt R (setm (\<lambda>_. m) virt) else ret (Inr (setm (\<lambda>_. m) virt)))"

text \<open>\<^verbatim>\<open>return c.HostClient.Create(...)\<close> and \<^verbatim>\<open>Update\<close>.\<close>

definition create_on :: "side \<Rightarrow> ('e, 'o) resource \<Rightarrow> 'o \<Rightarrow> ('e, goerr + unit) io" where
  "create_on s R ob = bindE (k_Create s R ob) (\<lambda>_. ret (Inr ()))"

definition update_on :: "side \<Rightarrow> ('e, 'o) resource \<Rightarrow> 'o \<Rightarrow> ('e, goerr + unit) io" where
  "update_on s R ob = bindE (k_Update s R ob) (\<lambda>_. ret (Inr ()))"

abbreviation configMapFinalizerName :: string where "configMapFinalizerName \<equiv> ''configmap.k3k.io/finalizer''"
abbreviation secretFinalizerName :: string where "secretFinalizerName \<equiv> ''secret.k3k.io/finalizer''"
abbreviation serviceFinalizerName :: string where "serviceFinalizerName \<equiv> ''service.k3k.io/finalizer''"
abbreviation ingressFinalizerName :: string where "ingressFinalizerName \<equiv> ''ingress.k3k.io/finalizer''"
abbreviation pvcFinalizerName :: string where "pvcFinalizerName \<equiv> ''pvc.k3k.io/finalizer''"
abbreviation priorityClassFinalizerName :: string where
  "priorityClassFinalizerName \<equiv> ''priorityclass.k3k.io/finalizer''"

section \<open>The reconcilers\<close>

definition ConfigMapSyncer_Reconcile :: "util \<Rightarrow> ('e, cluster) resource \<Rightarrow> ('e, config_map) resource \<Rightarrow>
    sync_context \<Rightarrow> namespaced_name \<Rightarrow> ('e, goerr + unit) io" where
  "ConfigMapSyncer_Reconcile U ClusterR R sc req =
     bindE (k_Get Host ClusterR (cluster_key sc)) (\<lambda>cluster.
     bindS (k_Get Virt R req) (\<lambda>r. case r of Inl err \<Rightarrow> ret (IgnoreNotFound (Inl err :: goerr + config_map))
     | Inr virtualConfigMap \<Rightarrow>
     (let syncedConfigMap = translateConfigMap (sy_Translator sc) virtualConfigMap in
     case SetOwnerReference U (cl_meta cluster) (cm_meta syncedConfigMap) of Inl err \<Rightarrow> ret (Inl err)
     | Inr m \<Rightarrow>
     (let syncedConfigMap = syncedConfigMap\<lparr>cm_meta := m\<rparr> in
     if DeletionTimestamp (cm_meta virtualConfigMap) \<noteq> None then
       bindE (delete_ignoring Host R syncedConfigMap) (\<lambda>_.
       drop_finalizer U configMapFinalizerName cm_meta_update R virtualConfigMap)
     else
       bindE (ensure_finalizer U configMapFinalizerName cm_meta_update R virtualConfigMap) (\<lambda>_.
       bindS (k_Get Host R (key_of (cm_meta syncedConfigMap))) (\<lambda>r. case r of
         Inl err \<Rightarrow> if IsNotFound err then create_on Host R syncedConfigMap else ret (Inl err)
       | Inr _ \<Rightarrow> update_on Host R syncedConfigMap))))))"

definition SecretSyncer_Reconcile :: "util \<Rightarrow> ('e, cluster) resource \<Rightarrow> ('e, secret) resource \<Rightarrow>
    sync_context \<Rightarrow> namespaced_name \<Rightarrow> ('e, goerr + unit) io" where
  "SecretSyncer_Reconcile U ClusterR R sc req =
     bindE (k_Get Host ClusterR (cluster_key sc)) (\<lambda>cluster.
     bindS (k_Get Virt R req) (\<lambda>r. case r of Inl err \<Rightarrow> ret (IgnoreNotFound (Inl err :: goerr + secret))
     | Inr virtualSecret \<Rightarrow>
     (let syncedSecret = translateSecret (sy_Translator sc) virtualSecret in
     case SetOwnerReference U (cl_meta cluster) (sec_meta syncedSecret) of Inl err \<Rightarrow> ret (Inl err)
     | Inr m \<Rightarrow>
     (let syncedSecret = syncedSecret\<lparr>sec_meta := m\<rparr> in
     if DeletionTimestamp (sec_meta virtualSecret) \<noteq> None then
       bindE (delete_ignoring Host R syncedSecret) (\<lambda>_.
       drop_finalizer U secretFinalizerName sec_meta_update R virtualSecret)
     else
       bindE (ensure_finalizer U secretFinalizerName sec_meta_update R virtualSecret) (\<lambda>_.
       bindS (k_Get Host R (key_of (sec_meta syncedSecret))) (\<lambda>r. case r of
         Inl err \<Rightarrow> if IsNotFound err then create_on Host R syncedSecret else ret (Inl err)
       | Inr _ \<Rightarrow> update_on Host R syncedSecret))))))"

definition ServiceReconciler_Reconcile :: "util \<Rightarrow> ('e, cluster) resource \<Rightarrow> ('e, service) resource \<Rightarrow>
    sync_context \<Rightarrow> namespaced_name \<Rightarrow> ('e, goerr + unit) io" where
  "ServiceReconciler_Reconcile U ClusterR R sc req =
     (if nn_Name req = ''kubernetes'' \<or> nn_Name req = ''kube-dns'' then ret (Inr ()) else
     bindE (k_Get Host ClusterR (cluster_key sc)) (\<lambda>cluster.
     bindS (k_Get Virt R req) (\<lambda>r. case r of Inl err \<Rightarrow> ret (IgnoreNotFound (Inl err :: goerr + service))
     | Inr virtService \<Rightarrow>
     (let syncedService = translateService (sy_Translator sc) virtService in
     case SetOwnerReference U (cl_meta cluster) (svc_meta syncedService) of Inl err \<Rightarrow> ret (Inl err)
     | Inr m \<Rightarrow>
     (let syncedService = syncedService\<lparr>svc_meta := m\<rparr> in
     if DeletionTimestamp (svc_meta virtService) \<noteq> None then
       bindE (delete_ignoring Host R syncedService) (\<lambda>_.
       drop_finalizer U serviceFinalizerName svc_meta_update R virtService)
     else
       bindE (ensure_finalizer U serviceFinalizerName svc_meta_update R virtService) (\<lambda>_.
       bindS (k_Get Host R \<lparr>nn_Namespace = sy_ClusterNamespace sc, nn_Name = Name (svc_meta syncedService)\<rparr>) (\<lambda>r.
       case r of
         Inl err \<Rightarrow> if IsNotFound err then create_on Host R syncedService else ret (Inl err)
       | Inr _ \<Rightarrow> update_on Host R syncedService)))))))"

definition syncStatus :: "('e, ingress) resource \<Rightarrow> ingress \<Rightarrow> ingress \<Rightarrow> ('e, goerr + unit) io" where
  "syncStatus R virtIngress hostIngress =
     (if ing_LoadBalancer virtIngress = ing_LoadBalancer hostIngress then ret (Inr ())
      else bindE (k_StatusPatch Virt R (virtIngress\<lparr>ing_LoadBalancer := ing_LoadBalancer hostIngress\<rparr>) virtIngress)
        (\<lambda>_. ret (Inr ())))"

definition applied_sync :: "cluster \<Rightarrow> sync_config option" where
  "applied_sync cluster =
     (case st_Policy (cl_Status cluster) of
        None \<Rightarrow> SyncCfg (cl_Spec cluster)
      | Some p \<Rightarrow> (case ap_Sync p of None \<Rightarrow> SyncCfg (cl_Spec cluster) | Some s \<Rightarrow> Some s))"

definition IngressReconciler_Reconcile :: "util \<Rightarrow> ('e, cluster) resource \<Rightarrow> ('e, ingress) resource \<Rightarrow>
    sync_context \<Rightarrow> namespaced_name \<Rightarrow> ('e, goerr + unit) io" where
  "IngressReconciler_Reconcile U ClusterR R sc req =
     bindE (k_Get Host ClusterR (cluster_key sc)) (\<lambda>cluster.
     case applied_sync cluster of None \<Rightarrow> ret (Inl nil_deref) | Some appliedSync \<Rightarrow>
     bindS (k_Get Virt R req) (\<lambda>r. case r of Inl err \<Rightarrow> ret (IgnoreNotFound (Inl err :: goerr + ingress))
     | Inr virtIngress \<Rightarrow>
     (let syncedIngress = translateIngress (sy_Translator sc) virtIngress
            (ing_DisableTLSSecretTranslation (Ingresses appliedSync)) in
     case SetOwnerReference U (cl_meta cluster) (ing_meta syncedIngress) of Inl err \<Rightarrow> ret (Inl err)
     | Inr m \<Rightarrow>
     (let syncedIngress = syncedIngress\<lparr>ing_meta := m\<rparr> in
     if DeletionTimestamp (ing_meta virtIngress) \<noteq> None then
       bindE (delete_ignoring Host R syncedIngress) (\<lambda>_.
       drop_finalizer U ingressFinalizerName ing_meta_update R virtIngress)
     else
       bindE (ensure_finalizer U ingressFinalizerName ing_meta_update R virtIngress) (\<lambda>virtIngress.
       bindS (k_Get Host R \<lparr>nn_Namespace = sy_ClusterNamespace sc, nn_Name = Name (ing_meta syncedIngress)\<rparr>) (\<lambda>r.
       case r of
         Inl err \<Rightarrow> if IsNotFound err then create_on Host R syncedIngress else ret (Inl err)
       | Inr hostIngress \<Rightarrow>
           bindE (update_on Host R syncedIngress) (\<lambda>_. syncStatus R virtIngress hostIngress)))))))"

abbreviation AnnBoundByController :: string where "AnnBoundByController \<equiv> ''pv.kubernetes.io/bound-by-controller''"
abbreviation AnnBindCompleted :: string where "AnnBindCompleted \<equiv> ''pv.kubernetes.io/bind-completed''"
abbreviation AnnDynamicallyProvisioned :: string where
  "AnnDynamicallyProvisioned \<equiv> ''pv.kubernetes.io/provisioned-by''"

definition newPersistentVolume :: "persistent_volume_claim \<Rightarrow> persistent_volume" where
  "newPersistentVolume obj =
     \<lparr>pv_meta = (meta_of (Name (pvc_meta obj)) '''')\<lparr>
        Labels := Some (fmap_of_list [(''pod.k3k.io/pseudoPV'', ''true'')]),
        Annotations := Some (fmap_of_list [(AnnBoundByController, ''true''),
          (AnnDynamicallyProvisioned, ''k3k-kubelet'')])\<rparr>,
      pv_FlexVolumeDriver = ''pseudopv'',
      pv_StorageClassName = (case pvc_StorageClassName obj of None \<Rightarrow> '''' | Some s \<Rightarrow> s),
      pv_VolumeMode = pvc_VolumeMode obj, pv_ReclaimPolicy = ''Delete'',
      pv_AccessModes = pvc_AccessModes obj, pv_Capacity = pvc_Requests obj,
      pv_ClaimRef = Some \<lparr>ob_APIVersion = pvc_APIVersion obj, ob_Kind = pvc_Kind obj,
        ob_Namespace = Namespace (pvc_meta obj), ob_Name = Name (pvc_meta obj),
        ob_UID = UID (pvc_meta obj), ob_ResourceVersion = ResourceVersion (pvc_meta obj)\<rparr>,
      pv_Phase = ''''\<rparr>"

definition createVirtualPersistentVolume :: "('e, persistent_volume_claim) resource \<Rightarrow>
    ('e, persistent_volume) resource \<Rightarrow> persistent_volume_claim \<Rightarrow> ('e, goerr + unit) io" where
  "createVirtualPersistentVolume R PVR pvc =
     (let pv = newPersistentVolume pvc in
     bindE (bindS (k_Create Virt PVR pv) (\<lambda>r. case r of
         Inl err \<Rightarrow> if IsAlreadyExists err then ret (Inr pv) else ret (Inl err)
       | Inr pv \<Rightarrow> ret (Inr pv))) (\<lambda>pv.
     bindE (k_StatusPatch Virt PVR (pv\<lparr>pv_Phase := ''Bound''\<rparr>) pv) (\<lambda>pv.
     (let pvcPatch = pvc\<lparr>pvc_VolumeName := Name (pv_meta pv),
            pvc_meta := (pvc_meta pvc)\<lparr>Annotations := Some (fmupd AnnBindCompleted ''yes''
              (fmupd AnnBoundByController ''yes'' (minit (Annotations (pvc_meta pvc)))))\<rparr>\<rparr> in
     bindE (k_Update Virt R pvcPatch) (\<lambda>pvcPatch.
     bindE (k_StatusUpdate Virt R (pvcPatch\<lparr>pvc_Phase := ''Bound'',
         pvc_StatusAccessModes := pvc_AccessModes pvcPatch\<rparr>)) (\<lambda>_. ret (Inr ())))))))"

definition PVCReconciler_Reconcile :: "util \<Rightarrow> ('e, cluster) resource \<Rightarrow>
    ('e, persistent_volume_claim) resource \<Rightarrow> ('e, persistent_volume) resource \<Rightarrow>
    sync_context \<Rightarrow> namespaced_name \<Rightarrow> ('e, goerr + unit) io" where
  "PVCReconciler_Reconcile U ClusterR R PVR sc req =
     bindE (k_Get Host ClusterR (cluster_key sc)) (\<lambda>cluster.
     bindS (k_Get Virt R req) (\<lambda>r. case r of
       Inl err \<Rightarrow> ret (IgnoreNotFound (Inl err :: goerr + persistent_volume_claim))
     | Inr virtPVC \<Rightarrow>
     (let syncedPVC = translatePVC (sy_Translator sc) virtPVC in
     case SetOwnerReference U (cl_meta cluster) (pvc_meta syncedPVC) of Inl err \<Rightarrow> ret (Inl err)
     | Inr m \<Rightarrow>
     (let syncedPVC = syncedPVC\<lparr>pvc_meta := m\<rparr> in
     if DeletionTimestamp (pvc_meta virtPVC) \<noteq> None then
       bindE (delete_ignoring Host R syncedPVC) (\<lambda>_.
       bindE (delete_ignoring Virt PVR (newPersistentVolume virtPVC)) (\<lambda>_.
       drop_finalizer U pvcFinalizerName pvc_meta_update R virtPVC))
     else
       bindE (ensure_finalizer U pvcFinalizerName pvc_meta_update R virtPVC) (\<lambda>virtPVC.
       bindS (k_Get Host R (key_of (pvc_meta syncedPVC))) (\<lambda>r. case r of
         Inr _ \<Rightarrow> ret (Inr ())
       | Inl err \<Rightarrow> if \<not> IsNotFound err then ret (Inl err) else
           bindE (bindS (k_Create Host R syncedPVC) (\<lambda>r. case r of
               Inl err \<Rightarrow> if IsAlreadyExists err then ret (Inr ()) else ret (Inl err)
             | Inr _ \<Rightarrow> ret (Inr ())))
             (\<lambda>_. createVirtualPersistentVolume R PVR virtPVC)))))))"

definition PriorityClassSyncer_Reconcile :: "util \<Rightarrow> ('e, cluster) resource \<Rightarrow>
    ('e, priority_class) resource \<Rightarrow> sync_context \<Rightarrow> namespaced_name \<Rightarrow> ('e, goerr + unit) io" where
  "PriorityClassSyncer_Reconcile U ClusterR R sc req =
     bindE (k_Get Host ClusterR (cluster_key sc)) (\<lambda>cluster.
     bindS (k_Get Virt R req) (\<lambda>r. case r of
       Inl err \<Rightarrow> ret (IgnoreNotFound (Inl err :: goerr + priority_class))
     | Inr priorityClass \<Rightarrow>
     (let hostPriorityClass = translatePriorityClass (sy_Translator sc) priorityClass in
     case SetOwnerReference U (cl_meta cluster) (prc_meta hostPriorityClass) of Inl err \<Rightarrow> ret (Inl err)
     | Inr m \<Rightarrow>
     (let hostPriorityClass = hostPriorityClass\<lparr>prc_meta := m\<rparr> in
     if DeletionTimestamp (prc_meta priorityClass) \<noteq> None then
       bindE (delete_ignoring Host R hostPriorityClass) (\<lambda>_.
       drop_finalizer U priorityClassFinalizerName prc_meta_update R priorityClass)
     else
       bindE (ensure_finalizer U priorityClassFinalizerName prc_meta_update R priorityClass) (\<lambda>_.
       bindS (k_Get Host R (key_of (prc_meta hostPriorityClass))) (\<lambda>r. case r of
         Inl err \<Rightarrow> if \<not> IsNotFound err then ret (Inl err) else create_on Host R hostPriorityClass
       | Inr existing \<Rightarrow>
           bindS (k_Update Host R (hostPriorityClass\<lparr>prc_meta := (prc_meta hostPriorityClass)
             \<lparr>ResourceVersion := ResourceVersion (prc_meta existing)\<rparr>\<rparr>)) (\<lambda>r. case r of
             Inl err \<Rightarrow> ret (Inl (ErrWrap ''updating priorityclass in host'' [err]))
           | Inr _ \<Rightarrow> ret (Inr ()))))))))"

section \<open>The skeleton\<close>

definition sync_object :: "util \<Rightarrow> ('e, 'o) resource \<Rightarrow> 'o meta_upd \<Rightarrow> string \<Rightarrow> ('o \<Rightarrow> 'o) \<Rightarrow>
    ('o \<Rightarrow> ('e, goerr + unit) io) \<Rightarrow> ('o \<Rightarrow> 'o \<Rightarrow> ('e, goerr + unit) io) \<Rightarrow> object_meta \<Rightarrow> namespaced_name \<Rightarrow>
    ('e, goerr + unit) io" where
  "sync_object U R setm fin trn extra finish owner req =
     bindS (k_Get Virt R req) (\<lambda>r. case r of Inl err \<Rightarrow> ret (IgnoreNotFound (Inl err :: goerr + 'o))
     | Inr virt \<Rightarrow> (case SetOwnerReference U owner (r_meta R (trn virt)) of Inl err \<Rightarrow> ret (Inl err)
     | Inr m \<Rightarrow>
         let synced = setm (\<lambda>_. m) (trn virt) in
         if DeletionTimestamp (r_meta R virt) \<noteq> None then
           bindE (delete_ignoring Host R synced) (\<lambda>_.
           bindE (extra virt) (\<lambda>_. drop_finalizer U fin setm R virt))
         else
           bindE (ensure_finalizer U fin setm R virt) (\<lambda>virt. finish virt synced)))"

text \<open>How five of the six end: get the host object, then create or update it.\<close>

definition create_or_update :: "('e, 'o) resource \<Rightarrow> namespaced_name \<Rightarrow> 'o \<Rightarrow> ('o \<Rightarrow> ('e, goerr + unit) io) \<Rightarrow>
    ('e, goerr + unit) io" where
  "create_or_update R key synced upd =
     bindS (k_Get Host R key) (\<lambda>r. case r of
       Inl err \<Rightarrow> if IsNotFound err then create_on Host R synced else ret (Inl err)
     | Inr host \<Rightarrow> upd host)"

lemmas skeleton_simps = sync_object_def create_or_update_def Let_def

lemma ConfigMapSyncer_skeleton:
  assumes "r_meta R = cm_meta"
  shows "ConfigMapSyncer_Reconcile U ClusterR R sc req =
    bindE (k_Get Host ClusterR (cluster_key sc)) (\<lambda>cluster.
      sync_object U R cm_meta_update configMapFinalizerName (translateConfigMap (sy_Translator sc))
        (\<lambda>_. ret (Inr ())) (\<lambda>_ synced. create_or_update R (key_of (cm_meta synced)) synced
          (\<lambda>_. update_on Host R synced)) (cl_meta cluster) req)"
  by (simp add: ConfigMapSyncer_Reconcile_def skeleton_simps assms cong: sum.case_cong if_cong)

lemma SecretSyncer_skeleton:
  assumes "r_meta R = sec_meta"
  shows "SecretSyncer_Reconcile U ClusterR R sc req =
    bindE (k_Get Host ClusterR (cluster_key sc)) (\<lambda>cluster.
      sync_object U R sec_meta_update secretFinalizerName (translateSecret (sy_Translator sc))
        (\<lambda>_. ret (Inr ())) (\<lambda>_ synced. create_or_update R (key_of (sec_meta synced)) synced
          (\<lambda>_. update_on Host R synced)) (cl_meta cluster) req)"
  by (simp add: SecretSyncer_Reconcile_def skeleton_simps assms cong: sum.case_cong if_cong)

lemma ServiceReconciler_skeleton:
  assumes "r_meta R = svc_meta"
  shows "ServiceReconciler_Reconcile U ClusterR R sc req =
    (if nn_Name req = ''kubernetes'' \<or> nn_Name req = ''kube-dns'' then ret (Inr ()) else
    bindE (k_Get Host ClusterR (cluster_key sc)) (\<lambda>cluster.
      sync_object U R svc_meta_update serviceFinalizerName (translateService (sy_Translator sc))
        (\<lambda>_. ret (Inr ())) (\<lambda>_ synced. create_or_update R
          \<lparr>nn_Namespace = sy_ClusterNamespace sc, nn_Name = Name (svc_meta synced)\<rparr> synced
          (\<lambda>_. update_on Host R synced)) (cl_meta cluster) req))"
  by (simp add: ServiceReconciler_Reconcile_def skeleton_simps assms cong: sum.case_cong if_cong)

lemma IngressReconciler_skeleton:
  assumes "r_meta R = ing_meta"
  shows "IngressReconciler_Reconcile U ClusterR R sc req =
    bindE (k_Get Host ClusterR (cluster_key sc)) (\<lambda>cluster.
      case applied_sync cluster of None \<Rightarrow> ret (Inl nil_deref) | Some appliedSync \<Rightarrow>
      sync_object U R ing_meta_update ingressFinalizerName
        (\<lambda>virt. translateIngress (sy_Translator sc) virt (ing_DisableTLSSecretTranslation (Ingresses appliedSync)))
        (\<lambda>_. ret (Inr ())) (\<lambda>virt synced. create_or_update R
          \<lparr>nn_Namespace = sy_ClusterNamespace sc, nn_Name = Name (ing_meta synced)\<rparr> synced
          (\<lambda>host. bindE (update_on Host R synced) (\<lambda>_. syncStatus R virt host))) (cl_meta cluster) req)"
  by (simp add: IngressReconciler_Reconcile_def skeleton_simps assms cong: sum.case_cong if_cong option.case_cong)

lemma PriorityClassSyncer_skeleton:
  assumes "r_meta R = prc_meta"
  shows "PriorityClassSyncer_Reconcile U ClusterR R sc req =
    bindE (k_Get Host ClusterR (cluster_key sc)) (\<lambda>cluster.
      sync_object U R prc_meta_update priorityClassFinalizerName (translatePriorityClass (sy_Translator sc))
        (\<lambda>_. ret (Inr ())) (\<lambda>_ synced. create_or_update R (key_of (prc_meta synced)) synced
          (\<lambda>existing. bindS (k_Update Host R (synced\<lparr>prc_meta := (prc_meta synced)
             \<lparr>ResourceVersion := ResourceVersion (prc_meta existing)\<rparr>\<rparr>)) (\<lambda>r. case r of
             Inl err \<Rightarrow> ret (Inl (ErrWrap ''updating priorityclass in host'' [err]))
           | Inr _ \<Rightarrow> ret (Inr ())))) (cl_meta cluster) req)"
  by (simp add: PriorityClassSyncer_Reconcile_def skeleton_simps assms if_not_swap
      cong: sum.case_cong if_cong)

definition pvc_finish :: "('e, persistent_volume_claim) resource \<Rightarrow> ('e, persistent_volume) resource \<Rightarrow>
    persistent_volume_claim \<Rightarrow> persistent_volume_claim \<Rightarrow> ('e, goerr + unit) io" where
  "pvc_finish R PVR virt synced =
     bindS (k_Get Host R (key_of (pvc_meta synced))) (\<lambda>r. case r of
         Inr _ \<Rightarrow> ret (Inr ())
       | Inl err \<Rightarrow> if \<not> IsNotFound err then ret (Inl err) else
           bindE (bindS (k_Create Host R synced) (\<lambda>r. case r of
               Inl err \<Rightarrow> if IsAlreadyExists err then ret (Inr ()) else ret (Inl err)
             | Inr _ \<Rightarrow> ret (Inr ())))
             (\<lambda>_. createVirtualPersistentVolume R PVR virt))"

lemma PVCReconciler_skeleton:
  assumes "r_meta R = pvc_meta"
  shows "PVCReconciler_Reconcile U ClusterR R PVR sc req =
    bindE (k_Get Host ClusterR (cluster_key sc)) (\<lambda>cluster.
      sync_object U R pvc_meta_update pvcFinalizerName (translatePVC (sy_Translator sc))
        (\<lambda>virt. delete_ignoring Virt PVR (newPersistentVolume virt)) (pvc_finish R PVR) (cl_meta cluster) req)"
  by (simp add: PVCReconciler_Reconcile_def pvc_finish_def skeleton_simps assms cong: sum.case_cong if_cong)

section \<open>Where a syncer writes, and when it lets go\<close>

text \<open>The host object of a request.\<close>

definition host_key :: "to_host_translator \<Rightarrow> namespaced_name \<Rightarrow> namespaced_name" where
  "host_key t req =
     \<lparr>nn_Namespace = tr_ClusterNamespace t, nn_Name = TranslateName t (nn_Namespace req) (nn_Name req)\<rparr>"

text \<open>A write on the host goes to one object of one kind.\<close>

definition host_confined :: "kind \<Rightarrow> namespaced_name \<Rightarrow> call \<Rightarrow> bool" where
  "host_confined k hk c =
     (c_side c = Host \<and> is_write c \<longrightarrow> c_kind c = k \<and> key_of (c_meta c) = hk)"

text \<open>An update of a virtual object that leaves it without the finalizer, and the answer to the delete of
  the host object that has to come before it.\<close>

definition takes_finalizer_off :: "kind \<Rightarrow> string \<Rightarrow> call \<Rightarrow> bool" where
  "takes_finalizer_off k fin c =
     (c_side c = Virt \<and> c_verb c = VUpdate \<and> c_kind c = k \<and> fin \<notin> set (Finalizers (c_meta c)))"

definition host_object_gone :: "kind \<Rightarrow> namespaced_name \<Rightarrow> call \<Rightarrow> bool" where
  "host_object_gone k hk c =
     (c_side c = Host \<and> c_verb c = VDelete \<and> c_kind c = k \<and> key_of (c_meta c) = hk \<and>
      (c_err c = None \<or> (\<exists>e. c_err c = Some e \<and> IsNotFound e)))"

locale syncer = controllerutil U for U :: util +
  fixes R :: "('e, 'o) resource" and setm :: "'o meta_upd" and fin :: string
    and t :: to_host_translator and trn :: "'o \<Rightarrow> 'o" and extra :: "'o \<Rightarrow> ('e, goerr + unit) io"
    and finish :: "'o \<Rightarrow> 'o \<Rightarrow> ('e, goerr + unit) io"
  assumes setm: "r_meta R (setm g ob) = g (r_meta R ob)"
    and trn_key: "key_of (r_meta R (trn ob)) = NamespacedName t (r_meta R ob)"
    and get: "get_honest R"
    and upd: "update_honest R"
    and extra_calls: "calls_sat (\<lambda>c. c_side c = Virt \<and> c_verb c \<noteq> VUpdate) (extra ob)"
    and finish_confined: "key_of (r_meta R synced) = hk \<Longrightarrow>
      calls_sat (host_confined (r_kind R) hk) (finish virt synced)"
    and finish_keeps: "fin \<in> set (Finalizers (r_meta R virt)) \<Longrightarrow>
      calls_sat (\<lambda>c. \<not> takes_finalizer_off (r_kind R) fin c) (finish virt synced)"
begin

lemmas get_key = k_Get_key [OF get]

lemma synced_key:
  assumes "key_of (r_meta R ob) = req" "SetOwnerReference U owner (r_meta R (trn ob)) = Inr m"
  shows "key_of (r_meta R (setm (\<lambda>_. m) (trn ob))) = host_key t req"
proof -
  have "key_of m = NamespacedName t (r_meta R ob)"
    using SetOwnerReference_key [OF assms(2)] trn_key by simp
  with assms(1) show ?thesis by (auto simp: setm host_key_def NamespacedName_def key_of_def)
qed

lemma ensure_finalizer_result:
  assumes "ensure_finalizer U fin setm R virt w = (Inr virt', w')"
  shows "fin \<in> set (Finalizers (r_meta R virt'))"
proof (cases "AddFinalizer U fin (r_meta R virt)")
  case (Pair changed m)
  have m: "fin \<in> set (Finalizers m)"
    using AddFinalizer_there [of fin "r_meta R virt"] Pair by simp
  show ?thesis
  proof (cases changed)
    case True
    with assms Pair have "k_Update Virt R (setm (\<lambda>_. m) virt) w = (Inr virt', w')"
      by (simp add: ensure_finalizer_def)
    then have "Finalizers (r_meta R virt') = Finalizers (r_meta R (setm (\<lambda>_. m) virt))"
      using upd
      by (fastforce simp: update_honest_def k_Update_def log_call_def split: prod.splits sum.splits)
    with m show ?thesis by (simp add: setm)
  next
    case False
    with assms Pair m show ?thesis by (auto simp: ensure_finalizer_def ret_def setm)
  qed
qed

lemma ensure_finalizer_keeps:
  "calls_sat (\<lambda>c. \<not> takes_finalizer_off (r_kind R) fin c) (ensure_finalizer U fin setm R virt)"
  using AddFinalizer_there [of fin "r_meta R virt"]
  by (auto simp: ensure_finalizer_def k_Update_def takes_finalizer_off_def setm
      intro!: calls_sat_log_call calls_sat_ret split: prod.split)

lemma sync_object_confined:
  "calls_sat (host_confined (r_kind R) (host_key t req))
     (sync_object U R setm fin trn extra finish owner req)"
proof -
  let ?P = "host_confined (r_kind R) (host_key t req)"
  have ex: "calls_sat ?P (extra ob)" for ob
    by (rule calls_sat_mono [OF extra_calls]) (simp add: host_confined_def)
  have dr: "calls_sat ?P (drop_finalizer U fin setm R ob)" for ob
    by (auto simp: drop_finalizer_def k_Update_def host_confined_def
        intro!: calls_sat_log_call calls_sat_ret calls_sat_bindE split: prod.split)
  have en: "calls_sat ?P (ensure_finalizer U fin setm R ob)" for ob
    by (auto simp: ensure_finalizer_def k_Update_def host_confined_def
        intro!: calls_sat_log_call calls_sat_ret split: prod.split)
  have de: "calls_sat ?P (delete_ignoring Host R ob)" if "key_of (r_meta R ob) = host_key t req" for ob
    using that by (auto simp: delete_ignoring_def k_Delete_def host_confined_def
        intro!: calls_sat_log_call calls_sat_ret calls_sat_bindS)
  show ?thesis
    unfolding sync_object_def Let_def
  proof (rule calls_sat_bindS_res)
    show "calls_sat ?P (k_Get Virt R req)"
      by (auto simp: k_Get_def host_confined_def intro!: calls_sat_log_call)
  next
    fix w r w'
    assume g: "k_Get Virt R req w = (r, w')"
    show "calls_sat ?P (case r of Inl err \<Rightarrow> ret (IgnoreNotFound (Inl err)) | Inr virt \<Rightarrow>
        (case SetOwnerReference U owner (r_meta R (trn virt)) of Inl err \<Rightarrow> ret (Inl err) | Inr m \<Rightarrow>
          if DeletionTimestamp (r_meta R virt) \<noteq> None then
            bindE (delete_ignoring Host R (setm (\<lambda>_. m) (trn virt))) (\<lambda>_.
            bindE (extra virt) (\<lambda>_. drop_finalizer U fin setm R virt))
          else bindE (ensure_finalizer U fin setm R virt)
            (\<lambda>virta. finish virta (setm (\<lambda>_. m) (trn virt)))))"
      using get_key synced_key g
      by (intro calls_sat_sum calls_sat_ret calls_sat_if calls_sat_bindE ex dr en de finish_confined) auto
  qed
qed

lemma sync_object_guards:
  "guards (host_object_gone (r_kind R) (host_key t req)) (takes_finalizer_off (r_kind R) fin)
     (sync_object U R setm fin trn extra finish owner req)"
proof -
  let ?en = "host_object_gone (r_kind R) (host_key t req)"
  let ?cr = "takes_finalizer_off (r_kind R) fin"
  have all: "calls_sat (\<lambda>_. True) (bindE (extra virt) (\<lambda>_. drop_finalizer U fin setm R virt))" for virt
    using calls_sat_mono [OF extra_calls, of "\<lambda>_. True"]
    by (auto simp: drop_finalizer_def k_Update_def
        intro!: calls_sat_bindE calls_sat_log_call calls_sat_ret split: prod.split)
  have del: "guards ?en ?cr (bindE (delete_ignoring Host R ob) (\<lambda>_.
      bindE (extra virt) (\<lambda>_. drop_finalizer U fin setm R virt)))"
    if "key_of (r_meta R ob) = host_key t req" for ob virt
  proof -
    have eq: "bindE (delete_ignoring Host R ob) f = bindS (k_Delete Host R ob) (\<lambda>r. case r of
        Inl e \<Rightarrow> if IsNotFound e then f () else ret (Inl e) | Inr _ \<Rightarrow> f ())" for f :: "unit \<Rightarrow> ('e, goerr + unit) io"
      by (auto simp: fun_eq_iff delete_ignoring_def io_run split: prod.splits sum.splits)
    show ?thesis unfolding eq k_Delete_def
      by (rule guards_log_call)
        (use that in \<open>auto simp: takes_finalizer_off_def host_object_gone_def
          intro!: all guards_calls_sat calls_sat_ret split: sum.splits\<close>)
  qed
  have fin: "guards ?en ?cr (bindE (ensure_finalizer U fin setm R virt) (\<lambda>v. finish v synced))" for virt synced
    by (rule guards_bindE_res [OF ensure_finalizer_keeps])
      (auto dest!: ensure_finalizer_result intro: guards_calls_sat finish_keeps)
  show ?thesis
    unfolding sync_object_def Let_def
  proof (rule guards_bindS_res)
    show "calls_sat (\<lambda>c. \<not> ?cr c) (k_Get Virt R req)"
      by (auto simp: k_Get_def takes_finalizer_off_def intro!: calls_sat_log_call)
  next
    fix w r w'
    assume g: "k_Get Virt R req w = (r, w')"
    show "guards ?en ?cr (case r of Inl err \<Rightarrow> ret (IgnoreNotFound (Inl err)) | Inr virt \<Rightarrow>
        (case SetOwnerReference U owner (r_meta R (trn virt)) of Inl err \<Rightarrow> ret (Inl err) | Inr m \<Rightarrow>
          if DeletionTimestamp (r_meta R virt) \<noteq> None then
            bindE (delete_ignoring Host R (setm (\<lambda>_. m) (trn virt))) (\<lambda>_.
            bindE (extra virt) (\<lambda>_. drop_finalizer U fin setm R virt))
          else bindE (ensure_finalizer U fin setm R virt)
            (\<lambda>virta. finish virta (setm (\<lambda>_. m) (trn virt)))))"
      using get_key synced_key g
      by (intro guards_sum guards_calls_sat [OF calls_sat_ret] guards_if del fin) auto
  qed
qed

end

section \<open>The six syncers\<close>

text \<open>The server side of the contract: the metadata of a resource, and honest answers.\<close>

definition server_ok :: "('e, 'o) resource \<Rightarrow> ('o \<Rightarrow> object_meta) \<Rightarrow> bool" where
  "server_ok R meta = (r_meta R = meta \<and> get_honest R \<and> update_honest R)"

lemma NamespacedName_key: "key_of m = key_of m' \<Longrightarrow> NamespacedName t m = NamespacedName t m'"
  by (simp add: NamespacedName_def key_of_def)

lemma key_of_frame [simp]:
  "key_of (m\<lparr>ResourceVersion := v\<rparr>) = key_of m"
  "key_of (m\<lparr>Annotations := a\<rparr>) = key_of m"
  "key_of (m\<lparr>Labels := l\<rparr>) = key_of m"
  by (simp_all add: key_of_def)

lemma translate_keys:
  "key_of (cm_meta (translateConfigMap t cm)) = NamespacedName t (cm_meta cm)"
  "key_of (sec_meta (translateSecret t se)) = NamespacedName t (sec_meta se)"
  "key_of (svc_meta (translateService t sv)) = NamespacedName t (svc_meta sv)"
  "key_of (ing_meta (translateIngress t ing b)) = NamespacedName t (ing_meta ing)"
  "key_of (pvc_meta (translatePVC t pvc)) = NamespacedName t (pvc_meta pvc)"
  "key_of (prc_meta (translatePriorityClass t prc)) = NamespacedName t (prc_meta prc)"
  by (simp_all add: translateConfigMap_def translateSecret_def translateService_def translateIngress_def
      translatePVC_def translatePriorityClass_def TranslateTo_frame Let_def key_of_def NamespacedName_def)

lemmas host_call_simps = k_defs create_on_def update_on_def host_confined_def takes_finalizer_off_def

lemma create_or_update_calls:
  assumes "\<And>h. calls_sat P (upd h)" "P = host_confined (r_kind R) (key_of (r_meta R synced)) \<or>
    P = (\<lambda>c. \<not> takes_finalizer_off k fin c)"
  shows "calls_sat P (create_or_update R key synced upd)"
  using assms(2) unfolding create_or_update_def
  by (intro calls_sat_bindS calls_sat_sum calls_sat_if calls_sat_ret assms(1))
    (auto simp: host_call_simps intro!: calls_sat_log_call calls_sat_bindE calls_sat_ret)

lemma update_on_host_calls:
  "key_of (r_meta R ob) = hk \<Longrightarrow> calls_sat (host_confined (r_kind R) hk) (update_on Host R ob)"
  "calls_sat (\<lambda>c. \<not> takes_finalizer_off k fin c) (update_on Host R ob)"
  by (auto simp: host_call_simps intro!: calls_sat_log_call calls_sat_bindE calls_sat_ret)

lemma ret_unit_calls: "calls_sat P (ret (Inr ()))"
  by (rule calls_sat_ret)

lemma syncer_ConfigMap:
  assumes "controllerutil U" "server_ok R cm_meta"
  shows "syncer U R cm_meta_update configMapFinalizerName t (translateConfigMap t) (\<lambda>_. ret (Inr ()))
    (\<lambda>_ synced. create_or_update R (key_of (cm_meta synced)) synced (\<lambda>_. update_on Host R synced))"
  using assms
  by (intro syncer.intro syncer_axioms.intro) (auto simp: server_ok_def translate_keys
      intro!: create_or_update_calls update_on_host_calls ret_unit_calls)

lemma syncer_Secret:
  assumes "controllerutil U" "server_ok R sec_meta"
  shows "syncer U R sec_meta_update secretFinalizerName t (translateSecret t) (\<lambda>_. ret (Inr ()))
    (\<lambda>_ synced. create_or_update R (key_of (sec_meta synced)) synced (\<lambda>_. update_on Host R synced))"
  using assms
  by (intro syncer.intro syncer_axioms.intro) (auto simp: server_ok_def translate_keys
      intro!: create_or_update_calls update_on_host_calls ret_unit_calls)

lemma syncer_Service:
  assumes "controllerutil U" "server_ok R svc_meta"
  shows "syncer U R svc_meta_update serviceFinalizerName t (translateService t) (\<lambda>_. ret (Inr ()))
    (\<lambda>_ synced. create_or_update R \<lparr>nn_Namespace = ns, nn_Name = Name (svc_meta synced)\<rparr> synced
      (\<lambda>_. update_on Host R synced))"
  using assms
  by (intro syncer.intro syncer_axioms.intro) (auto simp: server_ok_def translate_keys
      intro!: create_or_update_calls update_on_host_calls ret_unit_calls)

lemma syncStatus_calls:
  "calls_sat (host_confined k hk) (syncStatus R virt host)"
  "calls_sat (\<lambda>c. \<not> takes_finalizer_off k fin c) (syncStatus R virt host)"
  by (auto simp: syncStatus_def host_call_simps intro!: calls_sat_log_call calls_sat_bindE calls_sat_ret)

lemma syncer_Ingress:
  assumes "controllerutil U" "server_ok R ing_meta"
  shows "syncer U R ing_meta_update ingressFinalizerName t (\<lambda>virt. translateIngress t virt b)
    (\<lambda>_. ret (Inr ()))
    (\<lambda>virt synced. create_or_update R \<lparr>nn_Namespace = ns, nn_Name = Name (ing_meta synced)\<rparr> synced
      (\<lambda>host. bindE (update_on Host R synced) (\<lambda>_. syncStatus R virt host)))"
  using assms
  by (intro syncer.intro syncer_axioms.intro) (auto simp: server_ok_def translate_keys
      intro!: create_or_update_calls calls_sat_bindE update_on_host_calls syncStatus_calls ret_unit_calls)

lemma pvc_finish_calls:
  assumes "r_meta R = pvc_meta"
  shows "calls_sat (host_confined (r_kind R) (key_of (pvc_meta synced))) (pvc_finish R PVR virt synced)"
    and "fin \<in> set (Finalizers (pvc_meta virt)) \<Longrightarrow>
      calls_sat (\<lambda>c. \<not> takes_finalizer_off (r_kind R) fin c) (pvc_finish R PVR virt synced)"
  using assms
  by (auto simp: pvc_finish_def createVirtualPersistentVolume_def host_call_simps Let_def
      intro!: calls_sat_log_call calls_sat_bindS calls_sat_bindE calls_sat_ret calls_sat_sum calls_sat_if)

lemma syncer_PVC:
  assumes "controllerutil U" "server_ok R pvc_meta"
  shows "syncer U R pvc_meta_update pvcFinalizerName t (translatePVC t)
    (\<lambda>virt. delete_ignoring Virt PVR (newPersistentVolume virt)) (pvc_finish R PVR)"
  using assms
  by (intro syncer.intro syncer_axioms.intro) (auto simp: server_ok_def translate_keys delete_ignoring_def k_Delete_def
      intro!: pvc_finish_calls calls_sat_bindS calls_sat_log_call calls_sat_ret)

lemma syncer_PriorityClass:
  assumes "controllerutil U" "server_ok R prc_meta"
  shows "syncer U R prc_meta_update priorityClassFinalizerName t (translatePriorityClass t)
    (\<lambda>_. ret (Inr ())) (\<lambda>_ synced. create_or_update R (key_of (prc_meta synced)) synced
      (\<lambda>existing. bindS (k_Update Host R (synced\<lparr>prc_meta := (prc_meta synced)
         \<lparr>ResourceVersion := ResourceVersion (prc_meta existing)\<rparr>\<rparr>)) (\<lambda>r. case r of
         Inl err \<Rightarrow> ret (Inl (ErrWrap ''updating priorityclass in host'' [err]))
       | Inr _ \<Rightarrow> ret (Inr ()))))"
  using assms
  by (intro syncer.intro syncer_axioms.intro) (auto simp: server_ok_def translate_keys host_call_simps key_of_frame
      intro!: create_or_update_calls calls_sat_bindS calls_sat_log_call calls_sat_sum calls_sat_ret)

section \<open>Events\<close>

text \<open>\<^verbatim>\<open>strings.ReplaceAll\<close>: the non-overlapping occurrences from the left. An empty \<^verbatim>\<open>old\<close> matches before
  every code point and at the end; in valid UTF-8 the code points start at the bytes that are not
  continuation bytes.\<close>

definition utf8_continuation :: "char \<Rightarrow> bool" where
  "utf8_continuation c = (128 \<le> (of_char c :: nat) \<and> (of_char c :: nat) < 192)"

function replace_occurrences :: "string \<Rightarrow> string \<Rightarrow> string \<Rightarrow> string" where
  "replace_occurrences old new s =
     (if old = [] \<or> s = [] then s
      else if prefix old s then new @ replace_occurrences old new (drop (length old) s)
      else hd s # replace_occurrences old new (tl s))"
  by auto
termination
  by (relation "measure (\<lambda>(old, new, s). length s)") auto

declare replace_occurrences.simps [simp del]

definition strings_ReplaceAll :: "string \<Rightarrow> string \<Rightarrow> string \<Rightarrow> string" where
  "strings_ReplaceAll s old new =
     (if old = [] then concat (map (\<lambda>c. if utf8_continuation c then [c] else new @ [c]) s) @ new
      else replace_occurrences old new s)"

definition translateEventMessage :: "string \<Rightarrow> string \<Rightarrow> string \<Rightarrow> string \<Rightarrow> string \<Rightarrow> string" where
  "translateEventMessage message hostName hostNamespace virtualName virtualNamespace =
     (let message = (if hostNamespace \<noteq> '''' \<and> virtualNamespace \<noteq> ''''
            then strings_ReplaceAll message (hostNamespace @ ''/'' @ hostName)
              (virtualNamespace @ ''/'' @ virtualName) else message)
      in strings_ReplaceAll message hostName virtualName)"

text \<open>The event recorder of the virtual cluster is a parameter: pod, type, reason and message.\<close>

type_synonym 'e event_recorder = "pod \<Rightarrow> string \<Rightarrow> string \<Rightarrow> string \<Rightarrow> 'e \<Rightarrow> 'e"

definition EventSyncer_Reconcile :: "('e, event) resource \<Rightarrow> ('e, pod) resource \<Rightarrow> 'e event_recorder \<Rightarrow>
    namespaced_name \<Rightarrow> ('e, goerr + unit) io" where
  "EventSyncer_Reconcile EventR PodR recorder req =
     bindS (k_Get Host EventR req) (\<lambda>r. case r of
       Inl err \<Rightarrow> ret (IgnoreNotFound (Inl (ErrWrap ''could not load event'' [err]) :: goerr + event))
     | Inr event \<Rightarrow>
     if ob_Kind (evt_InvolvedObject event) \<noteq> ''Pod'' then ret (Inr ()) else
     bindS (k_Get Host PodR \<lparr>nn_Namespace = ob_Namespace (evt_InvolvedObject event),
         nn_Name = ob_Name (evt_InvolvedObject event)\<rparr>) (\<lambda>r. case r of
       Inl err \<Rightarrow> if \<not> IsNotFound err then ret (Inl (ErrWrap ''could not load host object'' [err])) else ret (Inr ())
     | Inr hostPod \<Rightarrow>
     (let hostPod = hostPod\<lparr>pod_meta := TranslateFrom (pod_meta hostPod)\<rparr> in
     if Name (pod_meta hostPod) = '''' then ret (Inr ()) else
     bindS (k_Get Virt PodR (key_of (pod_meta hostPod))) (\<lambda>r. case r of
       Inl err \<Rightarrow> if IsNotFound err then ret (Inr ()) else ret (Inl (ErrWrap ''could not load virtual object'' [err]))
     | Inr virtPod \<Rightarrow>
     (let message = translateEventMessage (evt_Message event) (ob_Name (evt_InvolvedObject event))
            (ob_Namespace (evt_InvolvedObject event)) (Name (pod_meta hostPod)) (Namespace (pod_meta hostPod)) in
     log_call Virt VRecordEvent KEvent (pod_meta virtPod) []
       (\<lambda>e. (Inr (), recorder virtPod (evt_Type event) (evt_Reason event) message e)))))))"

lemma replace_occurrences_none: "\<not> sublist old s \<Longrightarrow> replace_occurrences old new s = s"
proof (induction old new s rule: replace_occurrences.induct)
  case (1 old new s)
  show ?case
  proof (cases "old = [] \<or> s = []")
    case False
    then obtain c cs where s: "s = c # cs" by (cases s) auto
    with 1 False show ?thesis
      by (subst replace_occurrences.simps) (auto simp: sublist_Cons_right)
  qed (subst replace_occurrences.simps, simp)
qed

section \<open>The syncers on the reference server\<close>

record sync_env =
  se_clusters :: "side \<Rightarrow> cluster list"
  se_config_maps :: "side \<Rightarrow> config_map list"
  se_secrets :: "side \<Rightarrow> secret list"
  se_services :: "side \<Rightarrow> service list"
  se_ingresses :: "side \<Rightarrow> ingress list"
  se_pvcs :: "side \<Rightarrow> persistent_volume_claim list"
  se_pvs :: "side \<Rightarrow> persistent_volume list"
  se_prcs :: "side \<Rightarrow> priority_class list"

definition mem_clusters :: "(sync_env, cluster) resource" where
  "mem_clusters = mem_resource KCluster cl_meta se_clusters (\<lambda>x. se_clusters_update (\<lambda>_. x))"

definition mem_config_maps :: "(sync_env, config_map) resource" where
  "mem_config_maps = mem_resource KConfigMap cm_meta se_config_maps (\<lambda>x. se_config_maps_update (\<lambda>_. x))"

definition mem_secrets :: "(sync_env, secret) resource" where
  "mem_secrets = mem_resource KSecret sec_meta se_secrets (\<lambda>x. se_secrets_update (\<lambda>_. x))"

definition mem_services :: "(sync_env, service) resource" where
  "mem_services = mem_resource KService svc_meta se_services (\<lambda>x. se_services_update (\<lambda>_. x))"

definition mem_ingresses :: "(sync_env, ingress) resource" where
  "mem_ingresses = mem_resource KIngress ing_meta se_ingresses (\<lambda>x. se_ingresses_update (\<lambda>_. x))"

definition mem_pvcs :: "(sync_env, persistent_volume_claim) resource" where
  "mem_pvcs = mem_resource KPVC pvc_meta se_pvcs (\<lambda>x. se_pvcs_update (\<lambda>_. x))"

definition mem_pvs :: "(sync_env, persistent_volume) resource" where
  "mem_pvs = mem_resource KPV pv_meta se_pvs (\<lambda>x. se_pvs_update (\<lambda>_. x))"

definition mem_prcs :: "(sync_env, priority_class) resource" where
  "mem_prcs = mem_resource KPriorityClass prc_meta se_prcs (\<lambda>x. se_prcs_update (\<lambda>_. x))"

lemmas mem_defs = mem_clusters_def mem_config_maps_def mem_secrets_def mem_services_def mem_ingresses_def mem_pvcs_def mem_pvs_def mem_prcs_def

lemma mem_ok:
  "server_ok mem_clusters cl_meta"
  "server_ok mem_config_maps cm_meta"
  "server_ok mem_secrets sec_meta"
  "server_ok mem_services svc_meta"
  "server_ok mem_ingresses ing_meta"
  "server_ok mem_pvcs pvc_meta"
  "server_ok mem_pvs pv_meta"
  "server_ok mem_prcs prc_meta"
  by (simp_all add: server_ok_def mem_defs mem_resource_get_honest mem_resource_update_honest)

interpretation config_maps: syncer ref_util mem_config_maps cm_meta_update
    configMapFinalizerName t "translateConfigMap t" "\<lambda>_. ret (Inr ())"
    "\<lambda>_ synced. create_or_update mem_config_maps (key_of (cm_meta synced)) synced
      (\<lambda>_. update_on Host mem_config_maps synced)" for t
  by (rule syncer_ConfigMap [OF ref.controllerutil_axioms mem_ok(2)])

interpretation secrets: syncer ref_util mem_secrets sec_meta_update
    secretFinalizerName t "translateSecret t" "\<lambda>_. ret (Inr ())"
    "\<lambda>_ synced. create_or_update mem_secrets (key_of (sec_meta synced)) synced
      (\<lambda>_. update_on Host mem_secrets synced)" for t
  by (rule syncer_Secret [OF ref.controllerutil_axioms mem_ok(3)])

interpretation services: syncer ref_util mem_services svc_meta_update
    serviceFinalizerName t "translateService t" "\<lambda>_. ret (Inr ())"
    "\<lambda>_ synced. create_or_update mem_services
      \<lparr>nn_Namespace = ns, nn_Name = Name (svc_meta synced)\<rparr> synced
      (\<lambda>_. update_on Host mem_services synced)" for t ns
  by (rule syncer_Service [OF ref.controllerutil_axioms mem_ok(4)])

interpretation ingresses: syncer ref_util mem_ingresses ing_meta_update
    ingressFinalizerName t "\<lambda>virt. translateIngress t virt b" "\<lambda>_. ret (Inr ())"
    "\<lambda>virt synced. create_or_update mem_ingresses
      \<lparr>nn_Namespace = ns, nn_Name = Name (ing_meta synced)\<rparr> synced
      (\<lambda>host. bindE (update_on Host mem_ingresses synced)
        (\<lambda>_. syncStatus mem_ingresses virt host))" for t b ns
  by (rule syncer_Ingress [OF ref.controllerutil_axioms mem_ok(5)])

interpretation pvcs: syncer ref_util mem_pvcs pvc_meta_update pvcFinalizerName t "translatePVC t"
    "\<lambda>virt. delete_ignoring Virt mem_pvs (newPersistentVolume virt)" "pvc_finish mem_pvcs mem_pvs" for t
  by (rule syncer_PVC [OF ref.controllerutil_axioms mem_ok(6)])

interpretation priority_classes: syncer ref_util mem_prcs prc_meta_update
    priorityClassFinalizerName t "translatePriorityClass t" "\<lambda>_. ret (Inr ())"
    "\<lambda>_ synced. create_or_update mem_prcs (key_of (prc_meta synced)) synced
      (\<lambda>existing. bindS (k_Update Host mem_prcs (synced\<lparr>prc_meta := (prc_meta synced)
         \<lparr>ResourceVersion := ResourceVersion (prc_meta existing)\<rparr>\<rparr>)) (\<lambda>r. case r of
         Inl err \<Rightarrow> ret (Inl (ErrWrap ''updating priorityclass in host'' [err]))
       | Inr _ \<Rightarrow> ret (Inr ())))" for t
  by (rule syncer_PriorityClass [OF ref.controllerutil_axioms mem_ok(8)])

text \<open>A cluster with one claim that is synced and not bound.\<close>

definition wit_sc :: sync_context where
  "wit_sc = newContext ''c'' ''k3k-c''"

definition wit_synced_cluster :: cluster where
  "wit_synced_cluster = empty_cluster\<lparr>cl_meta := meta_of ''c'' ''k3k-c''\<rparr>"

definition wit_pvc :: persistent_volume_claim where
  "wit_pvc =
     \<lparr>pvc_meta = (meta_of ''data'' ''default'')\<lparr>Finalizers := [pvcFinalizerName]\<rparr>,
      pvc_APIVersion = ''v1'', pvc_Kind = ''PersistentVolumeClaim'', pvc_StorageClassName = None,
      pvc_VolumeMode = None, pvc_AccessModes = [], pvc_Requests = '''', pvc_VolumeName = '''',
      pvc_rest = '''', pvc_Phase = ''Pending'', pvc_StatusAccessModes = []\<rparr>"

definition wit_env :: sync_env where
  "wit_env =
     \<lparr>se_clusters = (\<lambda>s. if s = Host then [wit_synced_cluster] else []), se_config_maps = (\<lambda>_. []),
      se_secrets = (\<lambda>_. []), se_services = (\<lambda>_. []), se_ingresses = (\<lambda>_. []),
      se_pvcs = (\<lambda>s. if s = Virt then [wit_pvc] else [translatePVC (sy_Translator wit_sc) wit_pvc]),
      se_pvs = (\<lambda>_. []), se_prcs = (\<lambda>_. [])\<rparr>"

section \<open>Properties\<close>

lemma get_cluster_calls:
  "calls_sat (host_confined k hk) (k_Get Host ClusterR key)"
  "calls_sat (\<lambda>c. \<not> takes_finalizer_off k fin c) (k_Get Host ClusterR key)"
  by (auto simp: k_Get_def host_confined_def takes_finalizer_off_def intro!: calls_sat_log_call)



text \<open>
  C2: A syncer releases the virtual object only when the host copy is gone: no update takes the finalizer
  off before a delete of the host object was answered with success or not found.
\<close>
theorem syncers_release_after_delete:
  assumes "controllerutil U" "server_ok CM cm_meta" "server_ok SE sec_meta" "server_ok SV svc_meta"
    and "server_ok ING ing_meta" "server_ok PVC pvc_meta" "server_ok PRC prc_meta"
  shows "guards (host_object_gone (r_kind CM) (host_key (sy_Translator sc) req))
      (takes_finalizer_off (r_kind CM) configMapFinalizerName) (ConfigMapSyncer_Reconcile U ClusterR CM sc req) \<and>
    guards (host_object_gone (r_kind SE) (host_key (sy_Translator sc) req))
      (takes_finalizer_off (r_kind SE) secretFinalizerName) (SecretSyncer_Reconcile U ClusterR SE sc req) \<and>
    guards (host_object_gone (r_kind SV) (host_key (sy_Translator sc) req))
      (takes_finalizer_off (r_kind SV) serviceFinalizerName) (ServiceReconciler_Reconcile U ClusterR SV sc req) \<and>
    guards (host_object_gone (r_kind ING) (host_key (sy_Translator sc) req))
      (takes_finalizer_off (r_kind ING) ingressFinalizerName) (IngressReconciler_Reconcile U ClusterR ING sc req) \<and>
    guards (host_object_gone (r_kind PVC) (host_key (sy_Translator sc) req))
      (takes_finalizer_off (r_kind PVC) pvcFinalizerName) (PVCReconciler_Reconcile U ClusterR PVC PVR sc req) \<and>
    guards (host_object_gone (r_kind PRC) (host_key (sy_Translator sc) req))
      (takes_finalizer_off (r_kind PRC) priorityClassFinalizerName) (PriorityClassSyncer_Reconcile U ClusterR PRC sc req)"
  using assms(2-7)
  by (intro conjI) (auto simp: server_ok_def ConfigMapSyncer_skeleton SecretSyncer_skeleton ServiceReconciler_skeleton
      IngressReconciler_skeleton PVCReconciler_skeleton PriorityClassSyncer_skeleton
      intro!: guards_bindE get_cluster_calls
        syncer.sync_object_guards [OF syncer_ConfigMap [OF assms(1,2)]]
        syncer.sync_object_guards [OF syncer_Secret [OF assms(1,3)]]
        syncer.sync_object_guards [OF syncer_Service [OF assms(1,4)]]
        syncer.sync_object_guards [OF syncer_Ingress [OF assms(1,5)]]
        syncer.sync_object_guards [OF syncer_PVC [OF assms(1,6)]]
        syncer.sync_object_guards [OF syncer_PriorityClass [OF assms(1,7)]]
      intro: guards_calls_sat [OF calls_sat_ret] split: option.split)

theorem syncers_release_after_delete_witness:
  "guards (host_object_gone KPVC (host_key (sy_Translator wit_sc) \<lparr>nn_Namespace = ''default'', nn_Name = ''data''\<rparr>))
     (takes_finalizer_off KPVC pvcFinalizerName)
     (PVCReconciler_Reconcile ref_util mem_clusters mem_pvcs mem_pvs wit_sc
       \<lparr>nn_Namespace = ''default'', nn_Name = ''data''\<rparr>)"
  using syncers_release_after_delete [OF ref.controllerutil_axioms mem_ok(2) mem_ok(3) mem_ok(4) mem_ok(5) mem_ok(6) mem_ok(8),
      of wit_sc "\<lparr>nn_Namespace = ''default'', nn_Name = ''data''\<rparr>" mem_clusters mem_pvs]
  by (simp add: mem_defs)

text \<open>
  A claim whose host copy already exists is left as it is: the reconciler returns without error and without
  any further call, so a claim whose virtual volume could not be created or bound in the run that
  created the host claim stays unbound in every later run.
\<close>
theorem pvc_binding_not_retried:
  assumes "r_meta R = pvc_meta" "controllerutil U"
    and "k_Get Host ClusterR (cluster_key sc) w = (Inr cluster, w1)"
    and "k_Get Virt R req w1 = (Inr virtPVC, w2)"
    and "SetOwnerReference U (cl_meta cluster) (TranslateTo (sy_Translator sc) (pvc_meta virtPVC)) = Inr m"
    and "DeletionTimestamp (pvc_meta virtPVC) = None"
    and "pvcFinalizerName \<in> set (Finalizers (pvc_meta virtPVC))"
    and "k_Get Host R (key_of m) w2 = (Inr hostPVC, w3)"
  shows "PVCReconciler_Reconcile U ClusterR R PVR sc req w = (Inr (), w3)"
  using assms(1,3-8) controllerutil.AddFinalizer_law [OF assms(2)]
  by (simp add: PVCReconciler_Reconcile_def io_run Let_def translatePVC_def ensure_finalizer_def)

theorem pvc_binding_not_retried_witness:
  "let r = PVCReconciler_Reconcile ref_util mem_clusters mem_pvcs mem_pvs wit_sc
       \<lparr>nn_Namespace = ''default'', nn_Name = ''data''\<rparr> \<lparr>w_calls = [], w_env = wit_env\<rparr>
   in fst r = Inr () \<and> se_pvcs (w_env (snd r)) Virt = [wit_pvc] \<and> se_pvs (w_env (snd r)) Virt = []"
proof -
  let ?t = "sy_Translator wit_sc"
  let ?req = "\<lparr>nn_Namespace = ''default'', nn_Name = ''data''\<rparr>"
  let ?h = "translatePVC ?t wit_pvc"
  let ?m = "(TranslateTo ?t (pvc_meta wit_pvc))\<lparr>OwnerReferences := [owner_ref_to (cl_meta wit_synced_cluster) False]\<rparr>"
  define w where "w = \<lparr>w_calls = [], w_env = wit_env\<rparr>"
  have 1: "\<exists>w1. k_Get Host mem_clusters (cluster_key wit_sc) w = (Inr wit_synced_cluster, w1) \<and> w_env w1 = wit_env"
    by (simp add: w_def k_Get_def log_call_def mem_defs mem_resource_def mem_client_def Let_def wit_env_def
        cluster_key_def wit_sc_def newContext_def wit_synced_cluster_def key_of_def)
  then obtain w1 where w1: "k_Get Host mem_clusters (cluster_key wit_sc) w = (Inr wit_synced_cluster, w1)"
    "w_env w1 = wit_env" by blast
  have "\<exists>w2. k_Get Virt mem_pvcs ?req w1 = (Inr wit_pvc, w2) \<and> w_env w2 = wit_env"
    by (simp add: w1 k_Get_def log_call_def mem_defs mem_resource_def mem_client_def Let_def wit_env_def
        wit_pvc_def key_of_def)
  then obtain w2 where w2: "k_Get Virt mem_pvcs ?req w1 = (Inr wit_pvc, w2)" "w_env w2 = wit_env" by blast
  have km: "key_of (pvc_meta ?h) = key_of ?m"
    by (simp add: translatePVC_def key_of_def)
  have "\<exists>w3. k_Get Host mem_pvcs (key_of ?m) w2 = (Inr ?h, w3) \<and> w_env w3 = wit_env"
    by (simp add: w2 k_Get_def log_call_def mem_defs mem_resource_def mem_client_def Let_def wit_env_def km)
  then obtain w3 where w3: "k_Get Host mem_pvcs (key_of ?m) w2 = (Inr ?h, w3)" "w_env w3 = wit_env" by blast
  have so: "SetOwnerReference ref_util (cl_meta wit_synced_cluster) (TranslateTo ?t (pvc_meta wit_pvc)) = Inr ?m"
    by (simp add: ref_util_def TranslateTo_frame)
  have "PVCReconciler_Reconcile ref_util mem_clusters mem_pvcs mem_pvs wit_sc ?req w = (Inr (), w3)"
    by (rule pvc_binding_not_retried [OF _ ref.controllerutil_axioms w1(1) w2(1) so _ _ w3(1)])
      (simp_all add: mem_defs wit_pvc_def)
  then show ?thesis by (simp add: w_def [symmetric] w3) (simp add: wit_env_def)
qed

end
