(* ===== verification/Ports.thy ===== *)
theory Ports
  imports Kube
begin

text \<open>
  \<^verbatim>\<open>pkg/controller/cluster/agent/ports.go\<close>: the allocator of kubelet ports. Its state is one config map
  shared by the installation, which holds the port of every cluster (YAML) and the snapshot of a
  range allocator.

  The range allocator and the YAML library are parameters, the record \<^verbatim>\<open>port_lib\<close>, and the locale
  \<^verbatim>\<open>port_library\<close> states what they promise. Each operation is split into the computation on the
  config map and the API calls around it; the invariant is about the former and holds for
  every sequence of allocations and releases. Writing to a nil Go map panics; that is an error here.
\<close>

section \<open>Library interface\<close>

record 'p port_lib =
  NewFromSnapshot :: "string \<Rightarrow> string \<Rightarrow> goerr + 'p"
  AllocateNext :: "'p \<Rightarrow> goerr + int \<times> 'p"
  Release :: "int \<Rightarrow> 'p \<Rightarrow> goerr + 'p"
  Snapshot :: "'p \<Rightarrow> goerr + string \<times> string"
  yaml_Unmarshal :: "string \<Rightarrow> goerr + (string, int) fmap"
  yaml_Marshal :: "(string, int) fmap \<Rightarrow> goerr + string"

locale port_library =
  fixes L :: "'p port_lib" and used :: "'p \<Rightarrow> int set" and avail :: "'p \<Rightarrow> int set"
  assumes AllocateNext_law: "AllocateNext L p = Inr (n, p') \<Longrightarrow>
      n \<in> avail p \<and> n \<notin> used p \<and> used p' = insert n (used p) \<and> avail p' = avail p"
    and Release_law: "Release L n p = Inr p' \<Longrightarrow> used p' = used p - {n} \<and> avail p' = avail p"
    and Snapshot_law: "Snapshot L p = Inr (r, d) \<Longrightarrow>
      \<exists>q. NewFromSnapshot L r d = Inr q \<and> used q = used p \<and> avail q = avail p"
    and fresh_law: "NewFromSnapshot L r '''' = Inr p \<Longrightarrow> used p = {}"
    and Marshal_law: "yaml_Marshal L m = Inr s \<Longrightarrow> yaml_Unmarshal L s = Inr m"
    and Unmarshal_empty: "yaml_Unmarshal L '''' = Inr fmempty"

section \<open>The operations\<close>

abbreviation kubeletPortRangeConfigMapName :: string where
  "kubeletPortRangeConfigMapName \<equiv> ''k3k-kubelet-port-range''"
abbreviation rangeKey :: string where "rangeKey \<equiv> ''range''"
abbreviation allocatedPortsKey :: string where "allocatedPortsKey \<equiv> ''allocatedPorts''"
abbreviation snapshotDataKey :: string where "snapshotDataKey \<equiv> ''snapshotData''"

definition nil_map_write :: goerr where
  "nil_map_write = ErrNew ''assignment to entry in nil map''"

text \<open>\<^verbatim>\<open>m[k] = v\<close> on a Go map that may be nil.\<close>

definition massign :: "smap option \<Rightarrow> string \<Rightarrow> string \<Rightarrow> goerr + smap option" where
  "massign m k v = (case m of None \<Rightarrow> Inl nil_map_write | Some f \<Rightarrow> Inr (Some (fmupd k v f)))"

definition NewPortAllocator :: "string \<Rightarrow> goerr + config_map" where
  "NewPortAllocator controllerNamespace =
     (if controllerNamespace = '''' then Inl (ErrNew ''failed to find k3k controller namespace'')
      else Inr \<lparr>cm_meta = meta_of kubeletPortRangeConfigMapName controllerNamespace, cm_Data = None,
        cm_BinaryData = None, cm_Immutable = None\<rparr>)"

text \<open>The operations return the result and the config map the allocator keeps in memory.\<close>

definition getOrCreate :: "('e, config_map) resource \<Rightarrow> config_map \<Rightarrow> string \<Rightarrow>
    ('e, (goerr + unit) \<times> config_map) io" where
  "getOrCreate R configmap portRange =
     bindS (k_Get Host R (key_of (cm_meta configmap))) (\<lambda>r. case r of
       Inr cm \<Rightarrow> ret (Inr (), cm)
     | Inl err \<Rightarrow> if \<not> IsNotFound err then ret (Inl err, configmap) else
         (let configmap = configmap\<lparr>
            cm_Data := Some (fmap_of_list [(rangeKey, portRange), (allocatedPortsKey, '''')]),
            cm_BinaryData := Some (fmap_of_list [(snapshotDataKey, '''')])\<rparr> in
          bindS (k_Create Host R configmap) (\<lambda>r. case r of
            Inl err \<Rightarrow> ret (Inl (ErrWrap ''failed to create port range configmap'' [err]), configmap)
          | Inr cm \<Rightarrow> ret (Inr (), cm))))"

definition parsePortMap :: "'p port_lib \<Rightarrow> string \<Rightarrow> goerr + (string, int) fmap" where
  "parsePortMap L portMapData =
     (case yaml_Unmarshal L portMapData of
        Inl err \<Rightarrow> Inl (ErrWrap ''failed to parse allocatedPorts'' [err]) | Inr m \<Rightarrow> Inr m)"

definition serializePortMap :: "'p port_lib \<Rightarrow> (string, int) fmap \<Rightarrow> goerr + string" where
  "serializePortMap L m =
     (case yaml_Marshal L m of
        Inl err \<Rightarrow> Inl (ErrWrap ''failed to serialize allocatedPorts'' [err]) | Inr s \<Rightarrow> Inr s)"

definition saveSnapshot :: "'p port_lib \<Rightarrow> 'p \<Rightarrow> config_map \<Rightarrow> (string, int) fmap \<Rightarrow> goerr + config_map" where
  "saveSnapshot L pa configMap portsMap =
     (case Snapshot L pa of Inl err \<Rightarrow> Inl err | Inr (r, d) \<Rightarrow>
     (case massign (cm_BinaryData configMap) snapshotDataKey d of Inl err \<Rightarrow> Inl err | Inr bin \<Rightarrow>
     (case massign (cm_Data configMap) rangeKey r of Inl err \<Rightarrow> Inl err | Inr dat \<Rightarrow>
     (case serializePortMap L portsMap of Inl err \<Rightarrow> Inl err | Inr s \<Rightarrow>
     (case massign dat allocatedPortsKey s of Inl err \<Rightarrow> Inl err | Inr dat \<Rightarrow>
        Inr (configMap\<lparr>cm_BinaryData := bin, cm_Data := dat\<rparr>))))))"

definition port_key :: "string \<Rightarrow> string \<Rightarrow> string" where
  "port_key clusterName clusterNamespace = clusterNamespace @ ''/'' @ clusterName"

text \<open>What \<^verbatim>\<open>allocatePort\<close> does between reading and writing the config map; no new config map when the cluster has
  a port already.\<close>

definition allocate_in :: "'p port_lib \<Rightarrow> string \<Rightarrow> config_map \<Rightarrow> goerr + int \<times> config_map option" where
  "allocate_in L clusterNamespaceName configMap =
     (case parsePortMap L (mindex (cm_Data configMap) allocatedPortsKey) of Inl err \<Rightarrow> Inl err
     | Inr portsMap \<Rightarrow> (case fmlookup portsMap clusterNamespaceName of
         Some port \<Rightarrow> Inr (port, None)
       | None \<Rightarrow> (case NewFromSnapshot L (mindex (cm_Data configMap) rangeKey)
             (mindex (cm_BinaryData configMap) snapshotDataKey) of Inl err \<Rightarrow> Inl err
         | Inr pa \<Rightarrow> (case AllocateNext L pa of Inl err \<Rightarrow> Inl err
           | Inr (port, pa) \<Rightarrow>
               (case saveSnapshot L pa configMap (fmupd clusterNamespaceName port portsMap) of
                 Inl err \<Rightarrow> Inl err | Inr cm \<Rightarrow> Inr (port, Some cm))))))"

definition allocatePort :: "'p port_lib \<Rightarrow> ('e, config_map) resource \<Rightarrow> string \<Rightarrow> string \<Rightarrow> config_map \<Rightarrow>
    ('e, (goerr + int) \<times> config_map) io" where
  "allocatePort L R clusterName clusterNamespace configMap =
     (case mlookup (cm_Data configMap) rangeKey of
        None \<Rightarrow> ret (Inl (ErrNew ''port range is not initialized''), configMap)
      | Some portRange \<Rightarrow> bindS (getOrCreate R configMap portRange) (\<lambda>(r, configMap).
          case r of Inl err \<Rightarrow> ret (Inl err, configMap) | Inr _ \<Rightarrow>
          (case allocate_in L (port_key clusterName clusterNamespace) configMap of
             Inl err \<Rightarrow> ret (Inl err, configMap)
           | Inr (port, None) \<Rightarrow> ret (Inr port, configMap)
           | Inr (port, Some cm) \<Rightarrow> bindS (k_Update Host R cm) (\<lambda>r. case r of
               Inl err \<Rightarrow> ret (Inl err, cm) | Inr cm \<Rightarrow> ret (Inr port, cm)))))"

definition release_in :: "'p port_lib \<Rightarrow> string \<Rightarrow> int \<Rightarrow> config_map \<Rightarrow> goerr + config_map" where
  "release_in L clusterNamespaceName port configMap =
     (case parsePortMap L (mindex (cm_Data configMap) allocatedPortsKey) of Inl err \<Rightarrow> Inl err
     | Inr portsMap \<Rightarrow> (case fmlookup portsMap clusterNamespaceName of
         None \<Rightarrow> Inr configMap
       | Some usedPort \<Rightarrow> if usedPort \<noteq> port then Inl (ErrNew ''port does not match used port'') else
           (case NewFromSnapshot L (mindex (cm_Data configMap) rangeKey)
               (mindex (cm_BinaryData configMap) snapshotDataKey) of Inl err \<Rightarrow> Inl err
           | Inr pa \<Rightarrow> (case Release L port pa of Inl err \<Rightarrow> Inl err
             | Inr pa \<Rightarrow> saveSnapshot L pa configMap (fmdrop clusterNamespaceName portsMap)))))"

definition deallocatePort :: "'p port_lib \<Rightarrow> ('e, config_map) resource \<Rightarrow> string \<Rightarrow> string \<Rightarrow> config_map \<Rightarrow> int \<Rightarrow>
    ('e, (goerr + unit) \<times> config_map) io" where
  "deallocatePort L R clusterName clusterNamespace configMap port =
     (case mlookup (cm_Data configMap) rangeKey of
        None \<Rightarrow> ret (Inl (ErrNew ''port range is not initialized''), configMap)
      | Some portRange \<Rightarrow> bindS (getOrCreate R configMap portRange) (\<lambda>(r, configMap).
          case r of Inl err \<Rightarrow> ret (Inl err, configMap) | Inr _ \<Rightarrow>
          (case release_in L (port_key clusterName clusterNamespace) port configMap of
             Inl err \<Rightarrow> ret (Inl err, configMap)
           | Inr cm \<Rightarrow> bindS (k_Update Host R cm) (\<lambda>r. case r of
               Inl err \<Rightarrow> ret (Inl err, cm) | Inr cm \<Rightarrow> ret (Inr (), cm)))))"

section \<open>The allocation invariant\<close>

text \<open>The stored ports of a config map, and its steps: an allocation or a release whose config map is written.\<close>

definition ports_of :: "'p port_lib \<Rightarrow> config_map \<Rightarrow> (string, int) fmap option" where
  "ports_of L cm = (case yaml_Unmarshal L (mindex (cm_Data cm) allocatedPortsKey) of Inl _ \<Rightarrow> None | Inr m \<Rightarrow> Some m)"

definition pool_of :: "'p port_lib \<Rightarrow> config_map \<Rightarrow> 'p option" where
  "pool_of L cm = (case NewFromSnapshot L (mindex (cm_Data cm) rangeKey) (mindex (cm_BinaryData cm) snapshotDataKey) of
     Inl _ \<Rightarrow> None | Inr p \<Rightarrow> Some p)"

inductive port_step :: "'p port_lib \<Rightarrow> config_map \<Rightarrow> config_map \<Rightarrow> bool" for L where
  allocate: "allocate_in L k cm = Inr (port, Some cm') \<Longrightarrow> port_step L cm cm'"
| release: "release_in L k port cm = Inr cm' \<Longrightarrow> port_step L cm cm'"

inductive_cases port_stepE: "port_step L cm cm'"

definition initial_ports :: "object_meta \<Rightarrow> string \<Rightarrow> config_map" where
  "initial_ports m portRange =
     \<lparr>cm_meta = m, cm_Data = Some (fmap_of_list [(rangeKey, portRange), (allocatedPortsKey, '''')]),
      cm_BinaryData = Some (fmap_of_list [(snapshotDataKey, '''')]), cm_Immutable = None\<rparr>"

text \<open>Every cluster has its own port, and the pool marks exactly the ports of the clusters as used.\<close>

definition ports_inv :: "'p port_lib \<Rightarrow> ('p \<Rightarrow> int set) \<Rightarrow> ('p \<Rightarrow> int set) \<Rightarrow> config_map \<Rightarrow> bool" where
  "ports_inv L used avail cm =
     (\<exists>m. ports_of L cm = Some m \<and> inj_on (fmlookup m) (dom (fmlookup m)) \<and>
       (\<forall>p. pool_of L cm = Some p \<longrightarrow> used p = ran (fmlookup m) \<and> ran (fmlookup m) \<subseteq> avail p))"

lemma fmlookup_fmupd: "fmlookup (fmupd k v m) = (fmlookup m)(k \<mapsto> v)"
  by auto

lemma fmlookup_fmdrop: "fmlookup (fmdrop k m) = (fmlookup m)(k := None)"
  by auto

context port_library
begin

lemma parsePortMap_ports_of: "parsePortMap L (mindex (cm_Data cm) allocatedPortsKey) = Inr m \<longleftrightarrow> ports_of L cm = Some m"
  by (auto simp: parsePortMap_def ports_of_def split: sum.splits)

lemma saveSnapshot_stored:
  assumes "saveSnapshot L pa cm m = Inr cm'"
  shows "ports_of L cm' = Some m"
    and "\<exists>q. pool_of L cm' = Some q \<and> used q = used pa \<and> avail q = avail pa"
    and "cm_meta cm' = cm_meta cm"
proof -
  from assms obtain r d fb fd s where *: "Snapshot L pa = Inr (r, d)" "cm_BinaryData cm = Some fb"
      "cm_Data cm = Some fd" "yaml_Marshal L m = Inr s"
      "cm' = cm\<lparr>cm_BinaryData := Some (fmupd snapshotDataKey d fb),
        cm_Data := Some (fmupd allocatedPortsKey s (fmupd rangeKey r fd))\<rparr>"
    by (auto simp: saveSnapshot_def massign_def serializePortMap_def split: sum.splits prod.splits option.splits)
  from Marshal_law [OF *(4)] show "ports_of L cm' = Some m"
    by (simp add: ports_of_def *(5) mindex_def)
  from Snapshot_law [OF *(1)] show "\<exists>q. pool_of L cm' = Some q \<and> used q = used pa \<and> avail q = avail pa"
    by (auto simp: pool_of_def *(5) mindex_def)
  show "cm_meta cm' = cm_meta cm" by (simp add: *(5))
qed

lemma allocate_in_new:
  assumes "allocate_in L k cm = Inr (port, Some cm')"
  obtains m pa pa' where "ports_of L cm = Some m" "fmlookup m k = None" "pool_of L cm = Some pa"
    "AllocateNext L pa = Inr (port, pa')" "saveSnapshot L pa' cm (fmupd k port m) = Inr cm'"
  using assms
  by (fastforce simp: allocate_in_def parsePortMap_ports_of pool_of_def split: sum.splits option.splits prod.splits)

lemma ran_fmupd_fresh:
  "fmlookup m k = None \<Longrightarrow> ran (fmlookup (fmupd k v m)) = insert v (ran (fmlookup m))"
  by (simp add: fmlookup_fmupd)

lemma inj_fmupd_fresh:
  assumes "inj_on (fmlookup m) (dom (fmlookup m))" "fmlookup m k = None" "v \<notin> ran (fmlookup m)"
  shows "inj_on (fmlookup (fmupd k v m)) (dom (fmlookup (fmupd k v m)))"
  using assms unfolding fmlookup_fmupd inj_on_def by (auto simp: dom_def ran_def)

lemma allocate_inv:
  assumes "ports_inv L used avail cm" "allocate_in L k cm = Inr (port, Some cm')"
  shows "ports_inv L used avail cm'"
proof -
  obtain m pa pa' where *: "ports_of L cm = Some m" "fmlookup m k = None" "pool_of L cm = Some pa"
    "AllocateNext L pa = Inr (port, pa')" "saveSnapshot L pa' cm (fmupd k port m) = Inr cm'"
    by (rule allocate_in_new [OF assms(2)])
  from assms(1) * have inv: "inj_on (fmlookup m) (dom (fmlookup m))" "used pa = ran (fmlookup m)"
    "ran (fmlookup m) \<subseteq> avail pa" by (auto simp: ports_inv_def)
  from AllocateNext_law [OF *(4)] inv have port: "port \<in> avail pa" "port \<notin> ran (fmlookup m)"
    "used pa' = insert port (ran (fmlookup m))" "avail pa' = avail pa" by auto
  from saveSnapshot_stored [OF *(5)] inj_fmupd_fresh [OF inv(1) *(2) port(2)] port inv(3)
  show ?thesis by (auto simp: ports_inv_def ran_fmupd_fresh [OF *(2)])
qed

lemma ran_fmdrop_inj:
  assumes "inj_on (fmlookup m) (dom (fmlookup m))" "fmlookup m k = Some v"
  shows "ran (fmlookup (fmdrop k m)) = ran (fmlookup m) - {v}"
proof -
  have uniq: "j = k" if "fmlookup m j = Some v" for j
  proof (rule inj_onD [OF assms(1)])
    show "fmlookup m j = fmlookup m k" using that assms(2) by simp
  qed (use that assms(2) in \<open>auto intro: fmdom'I\<close>)
  show ?thesis
  proof (rule set_eqI)
    fix x
    have "x \<in> ran (fmlookup (fmdrop k m)) \<longleftrightarrow> (\<exists>j. j \<noteq> k \<and> fmlookup m j = Some x)"
      unfolding fmlookup_fmdrop ran_def by auto
    also have "\<dots> \<longleftrightarrow> (\<exists>j. fmlookup m j = Some x) \<and> x \<noteq> v"
      using uniq assms(2) by (metis option.inject)
    finally show "x \<in> ran (fmlookup (fmdrop k m)) \<longleftrightarrow> x \<in> ran (fmlookup m) - {v}"
      by (simp add: ran_def)
  qed
qed

lemma release_inv:
  assumes "ports_inv L used avail cm" "release_in L k port cm = Inr cm'"
  shows "ports_inv L used avail cm'"
proof -
  from assms(1) obtain m where m: "ports_of L cm = Some m" "inj_on (fmlookup m) (dom (fmlookup m))"
    "\<And>p. pool_of L cm = Some p \<Longrightarrow> used p = ran (fmlookup m) \<and> ran (fmlookup m) \<subseteq> avail p"
    by (auto simp: ports_inv_def)
  show ?thesis
  proof (cases "fmlookup m k")
    case None
    with assms(2) m(1) have "cm' = cm"
      by (simp add: release_in_def parsePortMap_ports_of [THEN iffD2, OF m(1)])
    with assms(1) show ?thesis by simp
  next
    case (Some v)
    with assms(2) m(1) obtain pa pa' where *: "v = port" "pool_of L cm = Some pa" "Release L port pa = Inr pa'"
      "saveSnapshot L pa' cm (fmdrop k m) = Inr cm'"
      by (auto simp: release_in_def parsePortMap_ports_of [THEN iffD2, OF m(1)] pool_of_def
          split: if_splits sum.splits)
    have "inj_on (fmlookup (fmdrop k m)) (dom (fmlookup (fmdrop k m)))"
      using m(2) unfolding fmlookup_fmdrop inj_on_def by (auto simp: dom_def)
    with saveSnapshot_stored [OF *(4)] Release_law [OF *(3)] m(3) [OF *(2)] ran_fmdrop_inj [OF m(2) Some] *(1)
    show ?thesis by (auto simp: ports_inv_def)
  qed
qed

lemma initial_inv: "ports_inv L used avail (initial_ports m r)"
  using fresh_law
  by (auto simp: ports_inv_def initial_ports_def ports_of_def pool_of_def mindex_def Unmarshal_empty ran_def
      split: sum.splits)

lemma reachable_inv:
  assumes "(port_step L)\<^sup>*\<^sup>* (initial_ports m r) cm"
  shows "ports_inv L used avail cm"
  using assms
  by (induction rule: rtranclp_induct)
    (auto intro: initial_inv allocate_inv release_inv elim!: port_stepE)

end

section \<open>A reference library\<close>

text \<open>
  An allocator of 256 ports from 50000 on, whose snapshot is the list of used offsets, and an
  encoding of port maps: each entry is its key, byte by byte, and its port in unary.
\<close>

fun enc_key :: "string \<Rightarrow> string" where
  "enc_key [] = ''.''"
| "enc_key (c # s) = CHR ''k'' # c # enc_key s"

fun dec_key :: "string \<Rightarrow> (string \<times> string) option" where
  "dec_key (a # rest) =
     (if a = CHR ''.'' then Some ([], rest)
      else (case rest of [] \<Rightarrow> None
        | c # rest' \<Rightarrow> (case dec_key rest' of None \<Rightarrow> None | Some (s, r) \<Rightarrow> Some (c # s, r))))"
| "dec_key [] = None"

lemma dec_enc_key: "dec_key (enc_key s @ r) = Some (s, r)"
  by (induction s) auto

definition enc_port :: "nat \<Rightarrow> string" where
  "enc_port n = replicate n CHR ''1'' @ ''.''"

definition dec_port :: "string \<Rightarrow> nat \<times> string" where
  "dec_port s = (length (takeWhile (\<lambda>c. c = CHR ''1'') s), tl (dropWhile (\<lambda>c. c = CHR ''1'') s))"

lemma dec_enc_port: "dec_port (enc_port n @ r) = (n, r)"
  by (induction n) (auto simp: dec_port_def enc_port_def)

fun enc_ports :: "(string \<times> int) list \<Rightarrow> string" where
  "enc_ports [] = ''''"
| "enc_ports ((k, v) # xs) = CHR ''e'' # enc_key k @ enc_port (nat v) @ enc_ports xs"

lemma dec_key_shorter: "dec_key s = Some (k, r) \<Longrightarrow> length r < length s"
  by (induction s arbitrary: k rule: dec_key.induct) (fastforce split: if_splits list.splits option.splits)+

function dec_ports :: "string \<Rightarrow> (string \<times> int) list option" where
  "dec_ports s =
     (case s of [] \<Rightarrow> Some []
      | c # s' \<Rightarrow> (case dec_key s' of None \<Rightarrow> None
        | Some (k, r) \<Rightarrow> (case dec_port r of (n, r') \<Rightarrow> if length r' \<le> length r then
            (case dec_ports r' of None \<Rightarrow> None | Some xs \<Rightarrow> Some ((k, int n) # xs)) else None)))"
  by auto
termination
  by (relation "measure length") (auto dest: dec_key_shorter)

declare dec_ports.simps [simp del]

lemma dec_enc_ports: "list_all (\<lambda>(k, v). 0 \<le> v) xs \<Longrightarrow> dec_ports (enc_ports xs) = Some xs"
proof (induction xs rule: enc_ports.induct)
  case 1
  then show ?case by (simp add: dec_ports.simps)
next
  case (2 k v xs)
  then show ?case
    by (subst dec_ports.simps) (simp add: dec_enc_key dec_enc_port)
qed

definition map_entries :: "(string, int) fmap \<Rightarrow> (string \<times> int) list" where
  "map_entries m = map (\<lambda>k. (k, the (fmlookup m k))) (sorted_list_of_fset (fmdom m))"

lemma fmap_of_map_entries: "fmap_of_list (map_entries m) = m"
proof (rule fmap_ext)
  fix x
  have "map_of (map (\<lambda>k. (k, the (fmlookup m k))) ks) x = (if x \<in> set ks then Some (the (fmlookup m x)) else None)" for ks
    by (induction ks) auto
  then show "fmlookup (fmap_of_list (map_entries m)) x = fmlookup m x"
    by (cases "fmlookup m x") (auto simp: map_entries_def fmlookup_of_list fmlookup_dom_iff)
qed

definition ref_ports :: "(string \<times> nat list) port_lib" where
  "ref_ports =
     \<lparr>NewFromSnapshot = (\<lambda>r d. Inr (r, map of_char d)),
      AllocateNext = (\<lambda>(r, us). case List.find (\<lambda>i. i \<notin> set us) [0..<256] of
          None \<Rightarrow> Inl (ErrNew ''range is full'') | Some i \<Rightarrow> Inr (50000 + int i, (r, i # us))),
      Release = (\<lambda>n (r, us). Inr (r, filter (\<lambda>i. 50000 + int i \<noteq> n) us)),
      Snapshot = (\<lambda>(r, us). if \<forall>i\<in>set us. i < 256 then Inr (r, map char_of us) else Inl (ErrNew ''bad pool'')),
      yaml_Unmarshal = (\<lambda>s. case dec_ports s of None \<Rightarrow> Inl (ErrNew ''bad yaml'') | Some xs \<Rightarrow> Inr (fmap_of_list xs)),
      yaml_Marshal = (\<lambda>m. if list_all (\<lambda>(k, v). 0 \<le> v) (map_entries m) then Inr (enc_ports (map_entries m))
        else Inl (ErrNew ''negative port''))\<rparr>"

definition ref_used :: "string \<times> nat list \<Rightarrow> int set" where
  "ref_used p = (\<lambda>i. 50000 + int i) ` set (snd p)"

definition ref_avail :: "string \<times> nat list \<Rightarrow> int set" where
  "ref_avail p = {50000..<50256}"

interpretation ref_ports: port_library ref_ports ref_used ref_avail
proof
  fix p n p'
  assume "AllocateNext ref_ports p = Inr (n, p')"
  then show "n \<in> ref_avail p \<and> n \<notin> ref_used p \<and> ref_used p' = insert n (ref_used p) \<and> ref_avail p' = ref_avail p"
    by (auto simp: ref_ports_def ref_used_def ref_avail_def find_Some_iff split: option.splits prod.splits)
next
  fix n p p'
  assume "Release ref_ports n p = Inr p'"
  then show "ref_used p' = ref_used p - {n} \<and> ref_avail p' = ref_avail p"
    by (auto simp: ref_ports_def ref_used_def ref_avail_def split: prod.splits)
next
  fix p r d
  assume a: "Snapshot ref_ports p = Inr (r, d)"
  obtain us where p: "p = (r, us)" "d = map char_of us" "\<forall>i\<in>set us. i < 256"
    using a by (cases p) (auto simp: ref_ports_def split: if_splits)
  have "map (of_char \<circ> (char_of :: nat \<Rightarrow> char)) us = us"
    by (rule map_idI) (use p(3) in auto)
  with p show "\<exists>q. NewFromSnapshot ref_ports r d = Inr q \<and> ref_used q = ref_used p \<and> ref_avail q = ref_avail p"
    by (simp add: ref_ports_def ref_used_def ref_avail_def)
next
  fix r p
  assume "NewFromSnapshot ref_ports r '''' = Inr p"
  then show "ref_used p = {}" by (auto simp: ref_ports_def ref_used_def)
next
  fix m s
  assume "yaml_Marshal ref_ports m = Inr s"
  then show "yaml_Unmarshal ref_ports s = Inr m"
    by (auto simp: ref_ports_def dec_enc_ports fmap_of_map_entries split: if_splits)
next
  show "yaml_Unmarshal ref_ports '''' = Inr fmempty"
    by (simp add: ref_ports_def dec_ports.simps)
qed

section \<open>Properties\<close>

lemma port_key_inj:
  assumes "CHR ''/'' \<notin> set ns" "CHR ''/'' \<notin> set ns'" "port_key n ns = port_key n' ns'"
  shows "n = n' \<and> ns = ns'"
  using append_sep_inj [OF assms(1,2)] assms(3) by (auto simp: port_key_def)

text \<open>
  C3: Two virtual clusters never have the same kubelet port: in every config map reached from the initial one by any
  sequence of allocations and releases, clusters with the same port are the same cluster, and
  their port is marked as used in the pool and lies in its range.
\<close>
theorem ports_never_shared:
  assumes "port_library L used avail" "(port_step L)\<^sup>*\<^sup>* (initial_ports m r) cm" "ports_of L cm = Some ports"
    and "fmlookup ports (port_key n ns) = Some p" "fmlookup ports (port_key n' ns') = Some p"
    and "CHR ''/'' \<notin> set ns" "CHR ''/'' \<notin> set ns'"
  shows "n = n' \<and> ns = ns' \<and> (\<forall>pool. pool_of L cm = Some pool \<longrightarrow> p \<in> used pool \<and> p \<in> avail pool)"
proof -
  have inv: "ports_inv L used avail cm"
    by (rule port_library.reachable_inv [OF assms(1,2)])
  then have inj: "inj_on (fmlookup ports) (dom (fmlookup ports))"
    and pool: "\<forall>pool. pool_of L cm = Some pool \<longrightarrow> used pool = ran (fmlookup ports) \<and> ran (fmlookup ports) \<subseteq> avail pool"
    using assms(3) by (auto simp: ports_inv_def)
  have "port_key n ns = port_key n' ns'"
    by (rule inj_onD [OF inj]) (use assms(4,5) in \<open>auto intro: fmdom'I\<close>)
  moreover have "p \<in> ran (fmlookup ports)" using assms(4) by (auto simp: ran_def)
  ultimately show ?thesis using port_key_inj [OF assms(6,7)] pool by blast
qed

text \<open>The config map after one allocation, on the reference library.\<close>

definition wit_ports0 :: config_map where
  "wit_ports0 = initial_ports (meta_of kubeletPortRangeConfigMapName ''k3k-system'') ''50000-50255''"

definition wit_ports1 :: config_map where
  "wit_ports1 = (case allocate_in ref_ports (port_key ''c'' ''ns'') wit_ports0 of Inr (_, Some cm) \<Rightarrow> cm | _ \<Rightarrow> wit_ports0)"

lemma wit_map_entries: "map_entries (fmupd k v fmempty) = [(k, v)]"
  by (simp add: map_entries_def sorted_list_of_fset.rep_eq)

lemma wit_find: "List.find (\<lambda>i. i \<notin> set []) [0..<256] = Some (0::nat)"
  by (subst upt_conv_Cons) simp_all

lemma wit_allocate: "allocate_in ref_ports (port_key ''c'' ''ns'') wit_ports0 = Inr (50000, Some wit_ports1)"
  and wit_ports_of: "ports_of ref_ports wit_ports1 = Some (fmupd (port_key ''c'' ''ns'') 50000 fmempty)"
  and wit_pool: "\<exists>pool. pool_of ref_ports wit_ports1 = Some pool"
proof -
  let ?k = "port_key ''c'' ''ns''"
  have a: "\<exists>cm. allocate_in ref_ports ?k wit_ports0 = Inr (50000, Some cm) \<and>
      saveSnapshot ref_ports (''50000-50255'', [0]) wit_ports0 (fmupd ?k 50000 fmempty) = Inr cm"
    using wit_find
    by (simp add: allocate_in_def parsePortMap_def wit_ports0_def initial_ports_def ref_ports_def mindex_def
        dec_ports.simps [of "[]"] saveSnapshot_def massign_def serializePortMap_def wit_map_entries)
  then show "allocate_in ref_ports ?k wit_ports0 = Inr (50000, Some wit_ports1)"
    by (auto simp: wit_ports1_def)
  with a show "ports_of ref_ports wit_ports1 = Some (fmupd ?k 50000 fmempty)"
    using ref_ports.saveSnapshot_stored(1) by auto
  from a \<open>allocate_in ref_ports ?k wit_ports0 = Inr (50000, Some wit_ports1)\<close>
  show "\<exists>pool. pool_of ref_ports wit_ports1 = Some pool"
    using ref_ports.saveSnapshot_stored(2) by fastforce
qed

theorem ports_never_shared_witness:
  "\<exists>pool. pool_of ref_ports wit_ports1 = Some pool \<and> (50000::int) \<in> ref_used pool"
proof -
  have "(port_step ref_ports)\<^sup>*\<^sup>* wit_ports0 wit_ports1"
    by (rule r_into_rtranclp [of "port_step ref_ports", OF port_step.allocate [OF wit_allocate]])
  then have "\<forall>pool. pool_of ref_ports wit_ports1 = Some pool \<longrightarrow> (50000::int) \<in> ref_used pool"
    using ports_never_shared [OF ref_ports.port_library_axioms _ wit_ports_of, of
      "meta_of kubeletPortRangeConfigMapName ''k3k-system''" "''50000-50255''" "''c''" "''ns''" 50000 "''c''" "''ns''"]
    by (simp add: wit_ports0_def)
  then show ?thesis using wit_pool by blast
qed

text \<open>
  Releasing what was allocated restores the pool: after an allocation, asking again for the cluster gives the
  same port without a write, releasing any other port is refused, and releasing that port
  gives back the ports of all clusters and the used ports as they were before.
\<close>
theorem allocate_release_roundtrip:
  assumes "port_library L used avail" "ports_inv L used avail cm"
    and "allocate_in L k cm = Inr (port, Some cm')"
  shows "allocate_in L k cm' = Inr (port, None) \<and>
    (\<forall>q. q \<noteq> port \<longrightarrow> (\<exists>e. release_in L k q cm' = Inl e)) \<and>
    (\<forall>cm''. release_in L k port cm' = Inr cm'' \<longrightarrow> ports_of L cm'' = ports_of L cm \<and>
      (\<exists>pa qa. pool_of L cm = Some pa \<and> pool_of L cm'' = Some qa \<and> used qa = used pa))"
proof -
  obtain m pa pa' where *: "ports_of L cm = Some m" "fmlookup m k = None" "pool_of L cm = Some pa"
    "AllocateNext L pa = Inr (port, pa')" "saveSnapshot L pa' cm (fmupd k port m) = Inr cm'"
    by (rule port_library.allocate_in_new [OF assms(1,3)])
  note st = port_library.saveSnapshot_stored [OF assms(1) *(5)]
  from st(2) obtain q where q: "pool_of L cm' = Some q" "used q = used pa'" by blast
  have parse: "parsePortMap L (mindex (cm_Data cm') allocatedPortsKey) = Inr (fmupd k port m)"
    using st(1) by (simp add: port_library.parsePortMap_ports_of [OF assms(1)])
  have u: "used pa' - {port} = used pa"
    using port_library.AllocateNext_law [OF assms(1) *(4)] by auto
  have "ports_of L cm'' = ports_of L cm \<and>
      (\<exists>pa qa. pool_of L cm = Some pa \<and> pool_of L cm'' = Some qa \<and> used qa = used pa)"
    if r: "release_in L k port cm' = Inr cm''" for cm''
  proof -
    from r q(1) obtain rp where rp: "Release L port q = Inr rp"
      "saveSnapshot L rp cm' (fmdrop k (fmupd k port m)) = Inr cm''"
      by (auto simp: release_in_def parse pool_of_def split: sum.splits)
    have "fmdrop k (fmupd k port m) = m" by (rule fmap_ext) (use *(2) in auto)
    with port_library.saveSnapshot_stored [OF assms(1) rp(2)] port_library.Release_law [OF assms(1) rp(1)] q(2) u *
    show ?thesis by auto
  qed
  then show ?thesis by (auto simp: allocate_in_def release_in_def parse)
qed

theorem allocate_release_roundtrip_witness:
  "allocate_in ref_ports (port_key ''c'' ''ns'') wit_ports1 = Inr (50000, None) \<and>
   (\<exists>e. release_in ref_ports (port_key ''c'' ''ns'') 50001 wit_ports1 = Inl e)"
  using allocate_release_roundtrip [OF ref_ports.port_library_axioms _ wit_allocate]
    ref_ports.initial_inv [of "meta_of kubeletPortRangeConfigMapName ''k3k-system''" "''50000-50255''"]
  by (simp add: wit_ports0_def)

end
