(* ===== verification/Policy.thy ===== *)
theory Policy
  imports Names Kube
begin

text \<open>
  \<^verbatim>\<open>pkg/controller/policy\<close>: the controller that applies a \<^verbatim>\<open>VirtualClusterPolicy\<close> to the namespaces bound to
  it: network policy, quota, limit range, pod security labels and the policy fields in the
  status of the clusters, and what it cleans up when a namespace or the policy goes away.

  The event handlers return the requests they enqueue. \<^verbatim>\<open>reflect.DeepEqual\<close> of records is equality, with
  nil and empty maps kept apart. \<^verbatim>\<open>labels.NewRequirement\<close> fails on values that are not valid label values,
  which is the parameter \<^verbatim>\<open>valid\<close>.
\<close>

section \<open>Objects\<close>

record namespace =
  nsp_meta :: object_meta
  nsp_rest :: payload

record resource_quota_obj =
  rq_meta :: object_meta
  rq_Spec :: payload

record limit_range =
  lr_meta :: object_meta
  lr_Spec :: payload

text \<open>The peers of an egress rule, and the specification of a network policy: the selected pods are those with
  a label key, ingress rules are counted (an empty rule allows everything).\<close>

datatype peer =
    IPBlock string "string list"
  | NamespacePeer smap
  | NamespacePodPeer smap smap

record network_policy_spec =
  nps_PodSelectorExists :: "string list"
  nps_PolicyTypes :: "string list"
  nps_IngressAllowAll :: bool
  nps_Egress :: "peer list list"

record network_policy =
  np_meta :: object_meta
  np_Spec :: network_policy_spec

record host_node =
  hn_meta :: object_meta
  hn_PodCIDR :: string
  hn_PodCIDRs :: "string list"

record 'e policy_api =
  PolicyR :: "('e, virtual_cluster_policy) resource"
  NamespaceR :: "('e, namespace) resource"
  NetworkPolicyR :: "('e, network_policy) resource"
  QuotaR :: "('e, resource_quota_obj) resource"
  LimitR :: "('e, limit_range) resource"
  ClusterR :: "('e, cluster) resource"
  NodeR :: "('e, host_node) resource"

abbreviation PolicyNameLabelKey :: string where "PolicyNameLabelKey \<equiv> ''policy.k3k.io/policy-name''"
abbreviation ManagedByLabelKey :: string where "ManagedByLabelKey \<equiv> ''app.kubernetes.io/managed-by''"
abbreviation VirtualPolicyControllerName :: string where
  "VirtualPolicyControllerName \<equiv> ''k3k-policy-controller''"
abbreviation policyFinalizerName :: string where "policyFinalizerName \<equiv> ''policy.k3k.io/finalizer''"

abbreviation cluster_scoped :: "string \<Rightarrow> namespaced_name" where
  "cluster_scoped n \<equiv> \<lparr>nn_Namespace = '''', nn_Name = n\<rparr>"

section \<open>Event handlers\<close>

definition namespace_Create :: "namespace \<Rightarrow> namespaced_name list" where
  "namespace_Create ns =
     (if mindex (Labels (nsp_meta ns)) PolicyNameLabelKey \<noteq> ''''
      then [cluster_scoped (mindex (Labels (nsp_meta ns)) PolicyNameLabelKey)] else [])"

definition namespace_Update :: "namespace \<Rightarrow> namespace \<Rightarrow> namespaced_name list" where
  "namespace_Update oldNs newNs =
     (let oldVCPName = mindex (Labels (nsp_meta oldNs)) PolicyNameLabelKey;
          newVCPName = mindex (Labels (nsp_meta newNs)) PolicyNameLabelKey
      in if Labels (nsp_meta oldNs) = Labels (nsp_meta newNs) then []
         else if oldVCPName = '''' \<and> newVCPName = '''' then []
         else if oldVCPName = newVCPName then [cluster_scoped oldVCPName]
         else (if oldVCPName \<noteq> '''' then [cluster_scoped oldVCPName] else []) @
              (if newVCPName \<noteq> '''' then [cluster_scoped newVCPName] else []))"

definition namespace_Delete :: "namespace \<Rightarrow> namespaced_name list" where
  "namespace_Delete ns = namespace_Create ns"

definition enqueueAllVCPs :: "'e policy_api \<Rightarrow> ('e, namespaced_name list) io" where
  "enqueueAllVCPs A =
     bindS (k_List Host (PolicyR A) (InNamespace '''')) (\<lambda>r. case r of
       Inl err \<Rightarrow> ret [] | Inr vcps \<Rightarrow> ret (map (\<lambda>vcp. cluster_scoped (Name (vp_meta vcp))) vcps))"

definition node_Create :: "'e policy_api \<Rightarrow> string \<Rightarrow> host_node \<Rightarrow> ('e, namespaced_name list) io" where
  "node_Create A clusterCIDR n = (if clusterCIDR \<noteq> '''' then ret [] else enqueueAllVCPs A)"

definition node_Delete :: "'e policy_api \<Rightarrow> string \<Rightarrow> host_node \<Rightarrow> ('e, namespaced_name list) io" where
  "node_Delete A clusterCIDR _ = (if clusterCIDR \<noteq> '''' then ret [] else enqueueAllVCPs A)"

definition node_Update :: "'e policy_api \<Rightarrow> string \<Rightarrow> host_node \<Rightarrow> host_node \<Rightarrow> ('e, namespaced_name list) io" where
  "node_Update A clusterCIDR oldNode newNode =
     (if clusterCIDR \<noteq> '''' then ret []
      else if hn_PodCIDR oldNode \<noteq> hn_PodCIDR newNode \<or> hn_PodCIDRs oldNode \<noteq> hn_PodCIDRs newNode
      then enqueueAllVCPs A else ret [])"

definition cluster_Create :: "'e policy_api \<Rightarrow> cluster \<Rightarrow> ('e, namespaced_name list) io" where
  "cluster_Create A cluster =
     bindS (k_Get Host (NamespaceR A) (cluster_scoped (Namespace (cl_meta cluster)))) (\<lambda>r. case r of
       Inl err \<Rightarrow> ret [] | Inr ns \<Rightarrow> ret (namespace_Create ns))"

definition cluster_Update :: "'e policy_api \<Rightarrow> cluster \<Rightarrow> cluster \<Rightarrow> ('e, namespaced_name list) io" where
  "cluster_Update A oldCluster newCluster =
     bindS (k_Get Host (NamespaceR A) (cluster_scoped (Namespace (cl_meta oldCluster)))) (\<lambda>r. case r of
       Inl err \<Rightarrow> ret []
     | Inr ns \<Rightarrow> (let vcp = mindex (Labels (nsp_meta ns)) PolicyNameLabelKey in
         if vcp = '''' then ret []
         else if PriorityClass (cl_Spec oldCluster) \<noteq> PriorityClass (cl_Spec newCluster) \<or>
             NodeSelector (cl_Spec oldCluster) \<noteq> NodeSelector (cl_Spec newCluster)
         then ret [cluster_scoped vcp] else ret []))"

section \<open>Network policy\<close>

definition FindPodCIDRs :: "'e policy_api \<Rightarrow> string \<Rightarrow> ('e, goerr + string list) io" where
  "FindPodCIDRs A clusterCIDR =
     (if clusterCIDR \<noteq> '''' then ret (Inr [clusterCIDR])
      else bindE (k_List Host (NodeR A) (InNamespace '''')) (\<lambda>nodes.
        ret (Inr (sorted_set (concat (map (\<lambda>node. hn_PodCIDRs node @
          (if hn_PodCIDR node \<noteq> '''' then [hn_PodCIDR node] else [])) nodes))))))"

definition IsolationNetworkPolicySpec :: "string \<Rightarrow> string list \<Rightarrow> network_policy_spec" where
  "IsolationNetworkPolicySpec namespaceName podCIDRs =
     \<lparr>nps_PodSelectorExists = [''k3k.io/clusterName''],
      nps_PolicyTypes = [''Ingress'', ''Egress''],
      nps_IngressAllowAll = True,
      nps_Egress = [[IPBlock ''0.0.0.0/0'' podCIDRs,
        NamespacePeer (fmap_of_list [(''kubernetes.io/metadata.name'', namespaceName)]),
        NamespacePodPeer (fmap_of_list [(''kubernetes.io/metadata.name'', ''kube-system'')])
          (fmap_of_list [(''k8s-app'', ''kube-dns'')])]]\<rparr>"

definition managed_meta :: "string \<Rightarrow> virtual_cluster_policy \<Rightarrow> object_meta" where
  "managed_meta namespace policy =
     (meta_of (SafeConcatNameWithPrefix [Name (vp_meta policy)]) namespace)\<lparr>
       Labels := Some (fmap_of_list [(ManagedByLabelKey, VirtualPolicyControllerName),
         (PolicyNameLabelKey, Name (vp_meta policy))])\<rparr>"

definition networkPolicy :: "string \<Rightarrow> virtual_cluster_policy \<Rightarrow> string list \<Rightarrow> network_policy" where
  "networkPolicy namespaceName policy cidrList =
     \<lparr>np_meta = managed_meta namespaceName policy,
      np_Spec = IsolationNetworkPolicySpec namespaceName cidrList\<rparr>"

text \<open>\<^verbatim>\<open>Create\<close>, and \<^verbatim>\<open>Update\<close> when the object exists.\<close>

definition create_then_update :: "('e, 'o) resource \<Rightarrow> 'o \<Rightarrow> ('e, goerr + unit) io" where
  "create_then_update R ob =
     bindS (k_Create Host R ob) (\<lambda>r. case r of
       Inr _ \<Rightarrow> ret (Inr ())
     | Inl err \<Rightarrow> if IsAlreadyExists err then bindE (k_Update Host R ob) (\<lambda>_. ret (Inr ())) else ret (Inl err))"

definition reconcileNetworkPolicy :: "util \<Rightarrow> 'e policy_api \<Rightarrow> string \<Rightarrow> string \<Rightarrow> virtual_cluster_policy \<Rightarrow>
    ('e, goerr + unit) io" where
  "reconcileNetworkPolicy U A clusterCIDR namespace policy =
     bindE (FindPodCIDRs A clusterCIDR) (\<lambda>cidrList.
     (let np = networkPolicy namespace policy cidrList in
     case SetControllerReference U (vp_meta policy) (np_meta np) of Inl err \<Rightarrow> ret (Inl err)
     | Inr m \<Rightarrow> (let np = np\<lparr>np_meta := m\<rparr> in
         if DisableNetworkPolicy (vp_Spec policy)
         then bindS (k_Delete Host (NetworkPolicyR A) np) (\<lambda>r. ret (IgnoreNotFound r))
         else create_then_update (NetworkPolicyR A) np)))"

section \<open>Quota and limit range\<close>

definition reconcileQuota :: "util \<Rightarrow> 'e policy_api \<Rightarrow> string \<Rightarrow> virtual_cluster_policy \<Rightarrow> ('e, goerr + unit) io" where
  "reconcileQuota U A namespace policy =
     (case Quota (vp_Spec policy) of
        None \<Rightarrow> bindS (k_Get Host (QuotaR A) \<lparr>nn_Namespace = namespace,
            nn_Name = SafeConcatNameWithPrefix [Name (vp_meta policy)]\<rparr>) (\<lambda>r. case r of
          Inl err \<Rightarrow> ret (IgnoreNotFound (Inl err :: goerr + unit))
        | Inr q \<Rightarrow> k_Delete Host (QuotaR A) q)
      | Some quota \<Rightarrow>
          (case SetControllerReference U (vp_meta policy) (managed_meta namespace policy) of
             Inl err \<Rightarrow> ret (Inl err)
           | Inr m \<Rightarrow> create_then_update (QuotaR A) \<lparr>rq_meta = m, rq_Spec = quota\<rparr>))"

definition reconcileLimit :: "util \<Rightarrow> 'e policy_api \<Rightarrow> string \<Rightarrow> virtual_cluster_policy \<Rightarrow> ('e, goerr + unit) io" where
  "reconcileLimit U A namespace policy =
     (case Limit (vp_Spec policy) of
        None \<Rightarrow> bindS (k_Get Host (LimitR A) \<lparr>nn_Namespace = namespace,
            nn_Name = SafeConcatNameWithPrefix [Name (vp_meta policy)]\<rparr>) (\<lambda>r. case r of
          Inl err \<Rightarrow> ret (IgnoreNotFound (Inl err :: goerr + unit))
        | Inr l \<Rightarrow> k_Delete Host (LimitR A) l)
      | Some limit \<Rightarrow>
          (case SetControllerReference U (vp_meta policy) (managed_meta namespace policy) of
             Inl err \<Rightarrow> ret (Inl err)
           | Inr m \<Rightarrow> create_then_update (LimitR A) \<lparr>lr_meta = m, lr_Spec = limit\<rparr>))"

section \<open>Clusters\<close>

definition appliedPolicy :: "virtual_cluster_policy \<Rightarrow> applied_policy" where
  "appliedPolicy policy =
     \<lparr>ap_Name = Name (vp_meta policy), ap_PriorityClass = Some (DefaultPriorityClass (vp_Spec policy)),
      ap_NodeSelector = DefaultNodeSelector (vp_Spec policy),
      ap_ServerAffinity = DefaultServerAffinity (vp_Spec policy),
      ap_AgentAffinity = DefaultAgentAffinity (vp_Spec policy), ap_Sync = pl_Sync (vp_Spec policy),
      ap_RuntimeClassName = pl_RuntimeClassName (vp_Spec policy), ap_PodSecurityContext = None,
      ap_SecurityContext = pl_SecurityContext (vp_Spec policy), ap_HostUsers = pl_HostUsers (vp_Spec policy),
      ap_AllowedHostSchedulers = pl_AllowedHostSchedulers (vp_Spec policy)\<rparr>"

definition reconcileClusters :: "'e policy_api \<Rightarrow> namespace \<Rightarrow> virtual_cluster_policy \<Rightarrow> ('e, goerr + unit) io" where
  "reconcileClusters A namespace policy =
     bindE (k_List Host (ClusterR A) (InNamespace (Name (nsp_meta namespace)))) (\<lambda>clusters.
     bindS (for_collect clusters (\<lambda>cluster.
       let new = cluster\<lparr>cl_Status := (cl_Status cluster)\<lparr>st_Policy := Some (appliedPolicy policy)\<rparr>\<rparr> in
       if cl_Status cluster \<noteq> cl_Status new
       then bindS (k_StatusUpdate Host (ClusterR A) new) (\<lambda>r. case r of Inl err \<Rightarrow> ret [err] | Inr _ \<Rightarrow> ret [])
       else ret [])) (\<lambda>errs. ret (of_err (errors_Join (map Some errs)))))"

definition clearPolicyFieldsForClustersInNamespace :: "'e policy_api \<Rightarrow> string \<Rightarrow> ('e, goerr + unit) io" where
  "clearPolicyFieldsForClustersInNamespace A namespace =
     bindS (k_List Host (ClusterR A) (InNamespace namespace)) (\<lambda>r. case r of
       Inl err \<Rightarrow> ret (Inl (ErrWrap ''failed listing clusters in namespace'' [err]))
     | Inr clusters \<Rightarrow>
     bindS (for_collect clusters (\<lambda>cluster.
       if st_Policy (cl_Status cluster) \<noteq> None
       then bindS (k_StatusUpdate Host (ClusterR A) (cluster\<lparr>cl_Status := (cl_Status cluster)\<lparr>st_Policy := None\<rparr>\<rparr>))
         (\<lambda>r. case r of Inl err \<Rightarrow> ret [ErrWrap ''failed updating Status for Cluster'' [err]] | Inr _ \<Rightarrow> ret [])
       else ret [])) (\<lambda>errs. ret (of_err (errors_Join (map Some errs)))))"

section \<open>Namespaces\<close>

definition psa_labels :: "string list" where
  "psa_labels = [''pod-security.kubernetes.io/enforce'', ''pod-security.kubernetes.io/enforce-version'',
     ''pod-security.kubernetes.io/warn'', ''pod-security.kubernetes.io/warn-version'']"

definition nil_labels :: goerr where
  "nil_labels = ErrNew ''assignment to entry in nil map''"

definition reconcileNamespacePodSecurityLabels :: "namespace \<Rightarrow> virtual_cluster_policy \<Rightarrow> goerr + namespace" where
  "reconcileNamespacePodSecurityLabels namespace policy =
     (let labels = fold (\<lambda>k m. mdelete m k) psa_labels (Labels (nsp_meta namespace));
          done = (\<lambda>ls. Inr (namespace\<lparr>nsp_meta := (nsp_meta namespace)\<lparr>Labels := ls\<rparr>\<rparr>))
      in case PodSecurityAdmissionLevel (vp_Spec policy) of
           None \<Rightarrow> done labels
         | Some psaLevel \<Rightarrow> (case labels of None \<Rightarrow> Inl nil_labels | Some m \<Rightarrow>
             (let m = fmupd ''pod-security.kubernetes.io/enforce-version'' ''latest''
                    (fmupd ''pod-security.kubernetes.io/enforce'' psaLevel m)
              in if psaLevel \<noteq> PrivilegedPodSecurityAdmissionLevel
                 then done (Some (fmupd ''pod-security.kubernetes.io/warn-version'' ''latest''
                   (fmupd ''pod-security.kubernetes.io/warn'' psaLevel m)))
                 else done (Some m))))"

text \<open>The body of the loop, for one namespace.\<close>

definition cleanup_reqs :: "(string \<Rightarrow> bool) \<Rightarrow> string \<Rightarrow> requirement list" where
  "cleanup_reqs valid currentPolicyName =
     (let managed = ReqEquals ManagedByLabelKey VirtualPolicyControllerName
      in if currentPolicyName \<noteq> '''' \<and> valid currentPolicyName
         then [managed, ReqNotEquals PolicyNameLabelKey currentPolicyName] else [managed])"

definition cleanup_namespace_bound :: "(string \<Rightarrow> bool) \<Rightarrow> 'e policy_api \<Rightarrow> namespace \<Rightarrow> ('e, goerr + unit) io" where
  "cleanup_namespace_bound valid A ns =
     (let currentPolicyName = mindex (Labels (nsp_meta ns)) PolicyNameLabelKey;
          name = Name (nsp_meta ns)
      in bindS (if currentPolicyName = ''''
           then bindS (clearPolicyFieldsForClustersInNamespace A name) (\<lambda>_. ret ())
           else bindS (k_Get Host (PolicyR A) (cluster_scoped currentPolicyName)) (\<lambda>r. case r of
               Inl err \<Rightarrow> if IsNotFound err
                 then bindS (clearPolicyFieldsForClustersInNamespace A name) (\<lambda>_. ret ()) else ret ()
             | Inr _ \<Rightarrow> ret ())) (\<lambda>_.
         let opts = \<lparr>lo_Namespace = name, lo_Reqs = cleanup_reqs valid currentPolicyName\<rparr> in
         bindE (k_DeleteAllOf Host (NetworkPolicyR A) opts) (\<lambda>_.
         bindE (k_DeleteAllOf Host (QuotaR A) opts) (\<lambda>_.
         k_DeleteAllOf Host (LimitR A) opts))))"

definition cleanupNamespaces :: "(string \<Rightarrow> bool) \<Rightarrow> 'e policy_api \<Rightarrow> ('e, goerr + unit) io" where
  "cleanupNamespaces valid A =
     bindE (k_List Host (NamespaceR A) (InNamespace '''')) (\<lambda>namespaces.
     for_each namespaces (cleanup_namespace_bound valid A))"

section \<open>The policy\<close>

definition bound_opts :: "virtual_cluster_policy \<Rightarrow> list_opts" where
  "bound_opts policy = \<lparr>lo_Namespace = '''', lo_Reqs = [ReqEquals PolicyNameLabelKey (Name (vp_meta policy))]\<rparr>"

definition reconcileNamespace :: "util \<Rightarrow> 'e policy_api \<Rightarrow> string \<Rightarrow> virtual_cluster_policy \<Rightarrow> namespace \<Rightarrow>
    ('e, goerr + unit) io" where
  "reconcileNamespace U A clusterCIDR policy ns =
     bindE (reconcileNetworkPolicy U A clusterCIDR (Name (nsp_meta ns)) policy) (\<lambda>_.
     bindE (reconcileQuota U A (Name (nsp_meta ns)) policy) (\<lambda>_.
     bindE (reconcileLimit U A (Name (nsp_meta ns)) policy) (\<lambda>_.
     bindE (reconcileClusters A ns policy) (\<lambda>_.
     case reconcileNamespacePodSecurityLabels ns policy of Inl err \<Rightarrow> ret (Inl err)
     | Inr ns' \<Rightarrow> if ns \<noteq> ns' then bindE (k_Update Host (NamespaceR A) ns') (\<lambda>_. ret (Inr ()))
         else ret (Inr ())))))"

definition reconcileMatchingNamespaces :: "util \<Rightarrow> 'e policy_api \<Rightarrow> string \<Rightarrow> virtual_cluster_policy \<Rightarrow>
    ('e, goerr + unit) io" where
  "reconcileMatchingNamespaces U A clusterCIDR policy =
     bindE (k_List Host (NamespaceR A) (bound_opts policy)) (\<lambda>namespaces.
     for_each namespaces (reconcileNamespace U A clusterCIDR policy))"

definition reconcileVirtualClusterPolicy :: "util \<Rightarrow> (string \<Rightarrow> bool) \<Rightarrow> 'e policy_api \<Rightarrow> string \<Rightarrow>
    virtual_cluster_policy \<Rightarrow> ('e, goerr + unit) io" where
  "reconcileVirtualClusterPolicy U valid A clusterCIDR policy =
     bindE (reconcileMatchingNamespaces U A clusterCIDR policy) (\<lambda>_. cleanupNamespaces valid A)"

definition cleanup_namespace :: "'e policy_api \<Rightarrow> virtual_cluster_policy \<Rightarrow> namespace \<Rightarrow> ('e, goerr list) io" where
  "cleanup_namespace A policy ns =
     bindS (clearPolicyFieldsForClustersInNamespace A (Name (nsp_meta ns))) (\<lambda>r.
     let errs = (case r of Inl err \<Rightarrow> [ErrWrap ''failed to clear cluster policy fields in namespace'' [err]] | Inr _ \<Rightarrow> []);
         labels = mdelete (Labels (nsp_meta ns)) PolicyNameLabelKey;
         labels = (if PodSecurityAdmissionLevel (vp_Spec policy) \<noteq> None
           then fold (\<lambda>k m. mdelete m k) psa_labels labels else labels)
     in if Labels (nsp_meta ns) \<noteq> labels
        then bindS (k_Update Host (NamespaceR A) (ns\<lparr>nsp_meta := (nsp_meta ns)\<lparr>Labels := labels\<rparr>\<rparr>)) (\<lambda>r. case r of
          Inl err \<Rightarrow> ret (errs @ [ErrWrap ''failed to update namespace labels'' [err]]) | Inr _ \<Rightarrow> ret errs)
        else ret errs)"

definition cleanupPolicyResources :: "'e policy_api \<Rightarrow> virtual_cluster_policy \<Rightarrow> ('e, goerr + unit) io" where
  "cleanupPolicyResources A policy =
     bindE (k_List Host (NamespaceR A) (bound_opts policy)) (\<lambda>namespaces.
     bindS (for_collect namespaces (cleanup_namespace A policy)) (\<lambda>errs.
       ret (of_err (errors_Join (map Some errs)))))"

definition finalizePolicy :: "util \<Rightarrow> 'e policy_api \<Rightarrow> virtual_cluster_policy \<Rightarrow> ('e, goerr + unit) io" where
  "finalizePolicy U A policy =
     (let policy = policy\<lparr>vp_Status := (vp_Status policy)\<lparr>ps_Conditions :=
         SetStatusCondition U (ps_Conditions (vp_Status policy))
           \<lparr>cd_Type = ''Ready'', cd_Status = ''False'', cd_Reason = ''Terminating'',
            cd_Message = ''Policy is being terminated''\<rparr>\<rparr>\<rparr> in
     bindS (k_StatusUpdate Host (PolicyR A) policy) (\<lambda>r.
     let policy = (case r of Inl err \<Rightarrow> policy | Inr p \<Rightarrow> p) in
     bindS (cleanupPolicyResources A policy) (\<lambda>_.
     case RemoveFinalizer U policyFinalizerName (vp_meta policy) of (changed, m) \<Rightarrow>
       if changed then bindE (k_Update Host (PolicyR A) (policy\<lparr>vp_meta := m\<rparr>)) (\<lambda>_. ret (Inr ()))
       else ret (Inr ()))))"

text \<open>\<^verbatim>\<open>reflect.DeepEqual(orig, policy)\<close> compares a pointer with a struct, values of distinct types, and is false.\<close>

definition deep_equal_pointer_struct :: "virtual_cluster_policy \<Rightarrow> virtual_cluster_policy \<Rightarrow> bool" where
  "deep_equal_pointer_struct orig policy = False"

definition VirtualClusterPolicyReconciler_Reconcile :: "util \<Rightarrow> (string \<Rightarrow> bool) \<Rightarrow> 'e policy_api \<Rightarrow> string \<Rightarrow>
    namespaced_name \<Rightarrow> ('e, goerr + unit) io" where
  "VirtualClusterPolicyReconciler_Reconcile U valid A clusterCIDR req =
     bindS (k_Get Host (PolicyR A) req) (\<lambda>r. case r of
       Inl err \<Rightarrow> ret (IgnoreNotFound (Inl err :: goerr + unit))
     | Inr policy \<Rightarrow>
     if DeletionTimestamp (vp_meta policy) \<noteq> None then finalizePolicy U A policy else
     bindE (case AddFinalizer U policyFinalizerName (vp_meta policy) of (changed, m) \<Rightarrow>
         let policy = policy\<lparr>vp_meta := m\<rparr> in
         if changed then k_Update Host (PolicyR A) policy else ret (Inr policy)) (\<lambda>policy.
     let orig = policy in
     bindS (reconcileVirtualClusterPolicy U valid A clusterCIDR policy) (\<lambda>reconcilerErr.
     bindE (if vp_Status orig \<noteq> vp_Status policy then k_StatusUpdate Host (PolicyR A) policy
       else ret (Inr policy)) (\<lambda>policy.
     case reconcilerErr of Inl err \<Rightarrow> ret (Inl err)
     | Inr _ \<Rightarrow>
         if \<not> deep_equal_pointer_struct orig policy
         then bindE (k_Update Host (PolicyR A) policy) (\<lambda>_. ret (Inr ()))
         else ret (Inr ())))))"

section \<open>Reasoning\<close>

text \<open>The resources are what their names say, and read honestly.\<close>

definition policy_api_ok :: "'e policy_api \<Rightarrow> bool" where
  "policy_api_ok A =
     (r_meta (PolicyR A) = vp_meta \<and> r_meta (NamespaceR A) = nsp_meta \<and> r_meta (NetworkPolicyR A) = np_meta \<and>
      r_meta (QuotaR A) = rq_meta \<and> r_meta (LimitR A) = lr_meta \<and> r_meta (ClusterR A) = cl_meta \<and>
      r_kind (PolicyR A) = KPolicy \<and> r_kind (NamespaceR A) = KNamespace \<and>
      r_kind (NetworkPolicyR A) = KNetworkPolicy \<and> r_kind (QuotaR A) = KResourceQuota \<and>
      r_kind (LimitR A) = KLimitRange \<and> r_kind (ClusterR A) = KCluster \<and>
      get_honest (QuotaR A) \<and> get_honest (LimitR A))"

text \<open>The calls of a handler that is known to extend the log.\<close>

lemma calls_extend:
  assumes "calls_sat P m" "m w = (a, w')"
  obtains cs where "w_calls w' = w_calls w @ cs" "list_all P cs"
  using assms unfolding calls_sat_def by (metis snd_conv)

lemma policy_extends:
  "calls_sat (\<lambda>_. True) (clearPolicyFieldsForClustersInNamespace A n)"
  "calls_sat (\<lambda>_. True) (cleanupPolicyResources A policy)"
  by (auto simp: clearPolicyFieldsForClustersInNamespace_def cleanupPolicyResources_def cleanup_namespace_def
      k_defs Let_def intro!: calls_intro)

text \<open>\<^verbatim>\<open>for_collect\<close> over steps that make one call each for the elements that need it.\<close>

lemma for_collect_calls:
  assumes "\<And>x w. need x \<Longrightarrow> \<exists>c. w_calls (snd (f x w)) = w_calls w @ [c] \<and> good x c \<and> (fst (f x w) = [] \<longleftrightarrow> c_err c = None)"
    and "\<And>x w. \<not> need x \<Longrightarrow> f x w = ([], w)"
  shows "\<exists>cs. w_calls (snd (for_collect xs f w)) = w_calls w @ cs \<and> list_all2 good (filter need xs) cs \<and>
    (fst (for_collect xs f w) = [] \<longleftrightarrow> list_all (\<lambda>c. c_err c = None) cs)"
proof (induction xs arbitrary: w)
  case (Cons x xs)
  show ?case
  proof (cases "need x")
    case True
    from assms(1) [OF True, of w] obtain c where c: "w_calls (snd (f x w)) = w_calls w @ [c]" "good x c"
      "fst (f x w) = [] \<longleftrightarrow> c_err c = None" by (elim exE conjE)
    from Cons [of "snd (f x w)"] obtain cs where
      "w_calls (snd (for_collect xs f (snd (f x w)))) = w_calls (snd (f x w)) @ cs"
      "list_all2 good (filter need xs) cs"
      "fst (for_collect xs f (snd (f x w))) = [] \<longleftrightarrow> list_all (\<lambda>c. c_err c = None) cs" by blast
    with c True show ?thesis
      by (intro exI [of _ "c # cs"]) (auto simp: io_run split: prod.splits)
  next
    case False
    with assms(2) Cons [of w] show ?thesis by (auto simp: io_run split: prod.splits)
  qed
qed (simp add: ret_def)

lemma reconcileClusters_calls:
  assumes "k_List Host (ClusterR A) (InNamespace (Name (nsp_meta ns))) w = (Inr clusters, w1)"
    and "r_meta (ClusterR A) = cl_meta"
  shows "\<exists>cs. w_calls (snd (reconcileClusters A ns policy w)) = w_calls w1 @ cs \<and>
    list_all2 (\<lambda>cl c. c_verb c = VStatusUpdate \<and> c_side c = Host \<and> c_meta c = cl_meta cl)
      (filter (\<lambda>cl. st_Policy (cl_Status cl) \<noteq> Some (appliedPolicy policy)) clusters) cs \<and>
    (fst (reconcileClusters A ns policy w) = Inr () \<longleftrightarrow> list_all (\<lambda>c. c_err c = None) cs)"
proof -
  let ?need = "\<lambda>cl. st_Policy (cl_Status cl) \<noteq> Some (appliedPolicy policy)"
  let ?f = "\<lambda>cluster. let new = cluster\<lparr>cl_Status := (cl_Status cluster)\<lparr>st_Policy := Some (appliedPolicy policy)\<rparr>\<rparr> in
       if cl_Status cluster \<noteq> cl_Status new
       then bindS (k_StatusUpdate Host (ClusterR A) new) (\<lambda>r. case r of Inl err \<Rightarrow> ret [err] | Inr _ \<Rightarrow> ret [])
       else ret []"
  have ne: "(cl_Status cl \<noteq> (cl_Status cl)\<lparr>st_Policy := p\<rparr>) \<longleftrightarrow> st_Policy (cl_Status cl) \<noteq> p" for cl p
    by (metis cluster_status.select_convs(7) cluster_status.surjective cluster_status.update_convs(7))
  have "\<exists>cs. w_calls (snd (for_collect clusters ?f w1)) = w_calls w1 @ cs \<and>
      list_all2 (\<lambda>cl c. c_verb c = VStatusUpdate \<and> c_side c = Host \<and> c_meta c = cl_meta cl) (filter ?need clusters) cs \<and>
      (fst (for_collect clusters ?f w1) = [] \<longleftrightarrow> list_all (\<lambda>c. c_err c = None) cs)"
    by (rule for_collect_calls)
      (auto simp: ne Let_def io_run k_StatusUpdate_def log_call_def assms(2) split: prod.splits sum.splits)
  moreover have "errors_Join (map Some es) = None \<longleftrightarrow> es = []" for es
    by (cases es) (auto simp: go_err)
  ultimately show ?thesis
    by (auto simp: reconcileClusters_def io_run assms(1) of_err_def split: prod.splits option.splits)
qed

text \<open>Where the controller may write for a namespace: the key of the objects it manages there, the namespace, and
  the status of clusters.\<close>

definition managed_key :: "namespace \<Rightarrow> virtual_cluster_policy \<Rightarrow> namespaced_name" where
  "managed_key ns policy =
     \<lparr>nn_Namespace = Name (nsp_meta ns), nn_Name = SafeConcatNameWithPrefix [Name (vp_meta policy)]\<rparr>"

definition ns_confined :: "namespace \<Rightarrow> virtual_cluster_policy \<Rightarrow> call \<Rightarrow> bool" where
  "ns_confined ns policy c =
     (is_write c \<longrightarrow>
       (c_kind c \<in> {KNetworkPolicy, KResourceQuota, KLimitRange} \<and> key_of (c_meta c) = managed_key ns policy) \<or>
       (c_kind c = KCluster \<and> c_verb c = VStatusUpdate) \<or>
       (c_kind c = KNamespace \<and> key_of (c_meta c) = key_of (nsp_meta ns)))"

section \<open>A concrete policy and server\<close>

record policy_env =
  pe_policies :: "side \<Rightarrow> virtual_cluster_policy list"
  pe_namespaces :: "side \<Rightarrow> namespace list"
  pe_netpols :: "side \<Rightarrow> network_policy list"
  pe_quotas :: "side \<Rightarrow> resource_quota_obj list"
  pe_limits :: "side \<Rightarrow> limit_range list"
  pe_clusters :: "side \<Rightarrow> cluster list"
  pe_nodes :: "side \<Rightarrow> host_node list"

definition mem_policy_api :: "policy_env policy_api" where
  "mem_policy_api =
     \<lparr>PolicyR = mem_resource KPolicy vp_meta pe_policies (\<lambda>x. pe_policies_update (\<lambda>_. x)),
      NamespaceR = mem_resource KNamespace nsp_meta pe_namespaces (\<lambda>x. pe_namespaces_update (\<lambda>_. x)),
      NetworkPolicyR = mem_resource KNetworkPolicy np_meta pe_netpols (\<lambda>x. pe_netpols_update (\<lambda>_. x)),
      QuotaR = mem_resource KResourceQuota rq_meta pe_quotas (\<lambda>x. pe_quotas_update (\<lambda>_. x)),
      LimitR = mem_resource KLimitRange lr_meta pe_limits (\<lambda>x. pe_limits_update (\<lambda>_. x)),
      ClusterR = mem_resource KCluster cl_meta pe_clusters (\<lambda>x. pe_clusters_update (\<lambda>_. x)),
      NodeR = mem_resource KNode hn_meta pe_nodes (\<lambda>x. pe_nodes_update (\<lambda>_. x))\<rparr>"

lemma mem_policy_api_ok: "policy_api_ok mem_policy_api"
  by (simp add: policy_api_ok_def mem_policy_api_def mem_resource_get_honest)

definition wit_policy :: virtual_cluster_policy where
  "wit_policy =
     \<lparr>vp_meta = (meta_of ''p'' '''')\<lparr>Finalizers := [policyFinalizerName]\<rparr>,
      vp_Spec = \<lparr>Quota = Some ''q'', Limit = None, DefaultNodeSelector = None, DefaultPriorityClass = '''',
        DefaultServerAffinity = None, DefaultAgentAffinity = None, AllowedMode = ''shared'',
        DisableNetworkPolicy = False, PodSecurityAdmissionLevel = Some ''baseline'', pl_Sync = None,
        pl_RuntimeClassName = None, pl_SecurityContext = None, pl_HostUsers = None,
        pl_AllowedHostSchedulers = None\<rparr>,
      vp_Status = \<lparr>ps_ObservedGeneration = 0, ps_LastUpdate = '''', ps_Summary = '''', ps_Conditions = []\<rparr>\<rparr>"

definition wit_ns :: namespace where
  "wit_ns = \<lparr>nsp_meta = (meta_of ''ns'' '''')\<lparr>Labels := Some (fmap_of_list [(PolicyNameLabelKey, ''p'')])\<rparr>, nsp_rest = ''''\<rparr>"

definition wit_penv :: policy_env where
  "wit_penv =
     \<lparr>pe_policies = (\<lambda>s. [wit_policy]), pe_namespaces = (\<lambda>s. [wit_ns]), pe_netpols = (\<lambda>_. []),
      pe_quotas = (\<lambda>_. []), pe_limits = (\<lambda>_. []), pe_clusters = (\<lambda>_. []), pe_nodes = (\<lambda>_. [])\<rparr>"

section \<open>Properties\<close>

text \<open>
  C4: The cleanup only ever bulk-deletes what the policy controller manages: in any run of the reconciler, every bulk
  delete is of network policies, quotas or limit ranges and selects on the managed-by label of
  the controller, so objects of users in the namespaces are never deleted by it.
\<close>
theorem policy_bulk_delete_only_managed:
  assumes "policy_api_ok A"
  shows "calls_sat (\<lambda>c. c_verb c = VDeleteAllOf \<longrightarrow>
      ReqEquals ManagedByLabelKey VirtualPolicyControllerName \<in> set (c_reqs c) \<and>
      c_kind c \<in> {KNetworkPolicy, KResourceQuota, KLimitRange})
    (VirtualClusterPolicyReconciler_Reconcile U valid A clusterCIDR req)"
  using assms
  by (auto simp: VirtualClusterPolicyReconciler_Reconcile_def finalizePolicy_def cleanupPolicyResources_def
      cleanup_namespace_def reconcileVirtualClusterPolicy_def reconcileMatchingNamespaces_def
      reconcileNamespace_def reconcileNetworkPolicy_def reconcileQuota_def reconcileLimit_def
      create_then_update_def FindPodCIDRs_def reconcileClusters_def cleanupNamespaces_def
      cleanup_namespace_bound_def cleanup_reqs_def clearPolicyFieldsForClustersInNamespace_def policy_api_ok_def k_defs Let_def
      intro!: calls_intro)

theorem policy_bulk_delete_only_managed_witness:
  "calls_sat (\<lambda>c. c_verb c = VDeleteAllOf \<longrightarrow>
      ReqEquals ManagedByLabelKey VirtualPolicyControllerName \<in> set (c_reqs c) \<and>
      c_kind c \<in> {KNetworkPolicy, KResourceQuota, KLimitRange})
    (VirtualClusterPolicyReconciler_Reconcile ref_util (\<lambda>_. True) mem_policy_api '''' (cluster_scoped ''p''))"
  by (rule policy_bulk_delete_only_managed [OF mem_policy_api_ok])

text \<open>
  Cleaning up a namespace bound to a policy spares that policy's own objects: no bulk delete there selects an object
  with the labels the controller gives to what it creates for that policy.
\<close>
theorem cleanup_spares_bound_policy:
  assumes "mindex (Labels (nsp_meta ns)) PolicyNameLabelKey = Name (vp_meta policy)"
    and "Name (vp_meta policy) \<noteq> ''''" "valid (Name (vp_meta policy))"
  shows "calls_sat (\<lambda>c. c_verb c = VDeleteAllOf \<longrightarrow> Namespace (c_meta c) = Name (nsp_meta ns) \<and>
      \<not> list_all (meets (Labels (managed_meta (Name (nsp_meta ns)) policy))) (c_reqs c))
    (cleanup_namespace_bound valid A ns)"
  using assms
  by (auto simp: cleanup_namespace_bound_def clearPolicyFieldsForClustersInNamespace_def cleanup_reqs_def
      managed_meta_def meets_def k_defs Let_def intro!: calls_intro)

theorem cleanup_spares_bound_policy_witness:
  "calls_sat (\<lambda>c. c_verb c = VDeleteAllOf \<longrightarrow> Namespace (c_meta c) = ''ns'' \<and>
      \<not> list_all (meets (Labels (managed_meta ''ns'' wit_policy))) (c_reqs c))
    (cleanup_namespace_bound (\<lambda>_. True) mem_policy_api wit_ns)"
  using cleanup_spares_bound_policy [of wit_ns wit_policy "\<lambda>_. True" mem_policy_api]
  by (simp add: wit_ns_def wit_policy_def mindex_def)

lemma managed_meta_key:
  assumes "controllerutil U" "SetControllerReference U (vp_meta policy) (managed_meta n policy) = Inr m"
  shows "key_of m = \<lparr>nn_Namespace = n, nn_Name = SafeConcatNameWithPrefix [Name (vp_meta policy)]\<rparr>"
  using controllerutil.SetControllerReference_key [OF assms] by (simp add: managed_meta_def key_of_def)

lemma create_then_update_confined:
  assumes "key_of (r_meta R ob) = managed_key ns policy" "r_kind R \<in> {KNetworkPolicy, KResourceQuota, KLimitRange}"
  shows "calls_sat (ns_confined ns policy) (create_then_update R ob)"
  using assms by (auto simp: create_then_update_def k_defs ns_confined_def intro!: calls_intro)

lemma delete_confined:
  assumes "key_of (r_meta R ob) = managed_key ns policy" "r_kind R \<in> {KNetworkPolicy, KResourceQuota, KLimitRange}"
  shows "calls_sat (ns_confined ns policy) (k_Delete Host R ob)"
  using assms by (auto simp: k_defs ns_confined_def intro!: calls_intro)

lemma reads_confined:
  "calls_sat (ns_confined ns policy) (k_Get s R key)"
  "calls_sat (ns_confined ns policy) (k_List s R opts)"
  by (auto simp: k_defs ns_confined_def intro!: calls_intro)

lemma reconcileNetworkPolicy_confined:
  assumes "policy_api_ok A" "controllerutil U"
  shows "calls_sat (ns_confined ns policy) (reconcileNetworkPolicy U A clusterCIDR (Name (nsp_meta ns)) policy)"
  using assms(1) managed_meta_key [OF assms(2)]
  unfolding reconcileNetworkPolicy_def FindPodCIDRs_def networkPolicy_def Let_def
  by (auto simp: policy_api_ok_def managed_key_def
      intro!: calls_intro reads_confined create_then_update_confined delete_confined)

lemma reconcileQuota_confined:
  assumes "policy_api_ok A" "controllerutil U"
  shows "calls_sat (ns_confined ns policy) (reconcileQuota U A (Name (nsp_meta ns)) policy)"
  using assms(1) managed_meta_key [OF assms(2)]
  unfolding reconcileQuota_def
  by (intro calls_sat_option calls_sat_bindS_res calls_sat_sum)
    (auto simp: policy_api_ok_def managed_key_def dest: k_Get_key
      intro!: calls_intro reads_confined create_then_update_confined delete_confined)

lemma reconcileLimit_confined:
  assumes "policy_api_ok A" "controllerutil U"
  shows "calls_sat (ns_confined ns policy) (reconcileLimit U A (Name (nsp_meta ns)) policy)"
  using assms(1) managed_meta_key [OF assms(2)]
  unfolding reconcileLimit_def
  by (intro calls_sat_option calls_sat_bindS_res calls_sat_sum)
    (auto simp: policy_api_ok_def managed_key_def dest: k_Get_key
      intro!: calls_intro reads_confined create_then_update_confined delete_confined)

lemma psa_key:
  "reconcileNamespacePodSecurityLabels ns policy = Inr ns' \<Longrightarrow> key_of (nsp_meta ns') = key_of (nsp_meta ns)"
  by (auto simp: reconcileNamespacePodSecurityLabels_def Let_def key_of_def split: option.splits if_splits)

text \<open>
  What the policy controller writes for a namespace stays there: network policy, quota and limit range only under
  the name of the policy in that namespace, the namespace itself, and of clusters only the
  status.
\<close>
theorem namespace_writes_confined:
  assumes "policy_api_ok A" "controllerutil U"
  shows "calls_sat (ns_confined ns policy) (reconcileNamespace U A clusterCIDR policy ns)"
proof -
  have c: "calls_sat (ns_confined ns policy) (reconcileClusters A ns policy)"
    using assms(1)
    by (auto simp: reconcileClusters_def k_defs Let_def policy_api_ok_def ns_confined_def intro!: calls_intro)
  show ?thesis
    unfolding reconcileNamespace_def
    using assms(1) psa_key [of ns policy]
    by (intro calls_sat_bindE reconcileNetworkPolicy_confined reconcileQuota_confined reconcileLimit_confined
        assms c)
      (auto simp: k_defs policy_api_ok_def ns_confined_def intro!: calls_intro)
qed

theorem namespace_writes_confined_witness:
  "calls_sat (ns_confined wit_ns wit_policy) (reconcileNamespace ref_util mem_policy_api '''' wit_policy wit_ns)"
  by (rule namespace_writes_confined [OF mem_policy_api_ok ref.controllerutil_axioms])

text \<open>
  Applying a policy reaches every cluster of the namespace: the status of each cluster that does not carry the policy
  is written once, in order, also after earlier writes failed, and the result is an error
  exactly when one of the writes failed.
\<close>
theorem reconcileClusters_all:
  assumes "policy_api_ok A"
    and "k_List Host (ClusterR A) (InNamespace (Name (nsp_meta ns))) w = (Inr clusters, w1)"
  shows "\<exists>cs. w_calls (snd (reconcileClusters A ns policy w)) = w_calls w1 @ cs \<and>
    list_all2 (\<lambda>cl c. c_verb c = VStatusUpdate \<and> c_side c = Host \<and> c_meta c = cl_meta cl)
      (filter (\<lambda>cl. st_Policy (cl_Status cl) \<noteq> Some (appliedPolicy policy)) clusters) cs \<and>
    (fst (reconcileClusters A ns policy w) = Inr () \<longleftrightarrow> list_all (\<lambda>c. c_err c = None) cs)"
  by (rule reconcileClusters_calls [OF assms(2)]) (use assms(1) in \<open>simp add: policy_api_ok_def\<close>)

theorem reconcileClusters_all_witness:
  "\<exists>c. w_calls (snd (reconcileClusters mem_policy_api wit_ns wit_policy
      \<lparr>w_calls = [], w_env = wit_penv\<lparr>pe_clusters := \<lambda>_. [empty_cluster\<lparr>cl_meta := meta_of ''c'' ''ns''\<rparr>]\<rparr>\<rparr>)) =
    [\<lparr>c_side = Host, c_verb = VList, c_kind = KCluster, c_meta = meta_of '''' ''ns'', c_reqs = [], c_err = None\<rparr>, c] \<and>
    c_verb c = VStatusUpdate \<and> c_meta c = meta_of ''c'' ''ns''"
proof -
  let ?cl = "empty_cluster\<lparr>cl_meta := meta_of ''c'' ''ns''\<rparr>"
  let ?w = "\<lparr>w_calls = [], w_env = wit_penv\<lparr>pe_clusters := \<lambda>_. [?cl]\<rparr>\<rparr>"
  let ?l = "\<lparr>c_side = Host, c_verb = VList, c_kind = KCluster, c_meta = meta_of '''' ''ns'', c_reqs = [], c_err = None\<rparr>"
  have "k_List Host (ClusterR mem_policy_api) (InNamespace (Name (nsp_meta wit_ns))) ?w = (Inr [?cl], ?w\<lparr>w_calls := [?l]\<rparr>)"
    by (simp add: k_List_def log_call_def mem_policy_api_def mem_resource_def mem_client_def wit_ns_def Let_def)
  from reconcileClusters_all [OF mem_policy_api_ok this, of wit_policy]
  show ?thesis by (auto simp: list_all2_Cons1 empty_cluster_def empty_status_def)
qed

lemma mlookup_fold_mdelete: "mlookup (fold (\<lambda>k m. mdelete m k) ks m) k = (if k \<in> set ks then None else mlookup m k)"
  by (induction ks arbitrary: m) (auto simp: go_map)

lemma fold_mdelete_None: "fold (\<lambda>k m. mdelete m k) ks m = None \<longleftrightarrow> m = None"
  by (induction ks arbitrary: m) (auto simp: mdelete_def)

lemma smap_ext: "(a = None \<longleftrightarrow> b = None) \<Longrightarrow> (\<And>k. mlookup a k = mlookup b k) \<Longrightarrow> a = b"
  by (cases a; cases b) (auto intro: fmap_ext)

text \<open>The value of a pod security label for a level.\<close>

definition psa_value :: "string option \<Rightarrow> string \<Rightarrow> string option" where
  "psa_value level k =
     (if k = ''pod-security.kubernetes.io/enforce'' then level
      else if k = ''pod-security.kubernetes.io/enforce-version'' then map_option (\<lambda>_. ''latest'') level
      else if level = Some PrivilegedPodSecurityAdmissionLevel then None
      else if k = ''pod-security.kubernetes.io/warn'' then level
      else map_option (\<lambda>_. ''latest'') level)"

lemma psa_result:
  assumes "reconcileNamespacePodSecurityLabels ns policy = Inr ns'"
  shows "\<exists>ls. ns' = ns\<lparr>nsp_meta := (nsp_meta ns)\<lparr>Labels := ls\<rparr>\<rparr> \<and> (ls = None \<longleftrightarrow> Labels (nsp_meta ns) = None) \<and>
    (\<forall>k. mlookup ls k = (if k \<in> set psa_labels then psa_value (PodSecurityAdmissionLevel (vp_Spec policy)) k
      else mlookup (Labels (nsp_meta ns)) k))"
proof -
  define d where "d = fold (\<lambda>k m. mdelete m k) psa_labels (Labels (nsp_meta ns))"
  have dk: "mlookup d k = (if k \<in> set psa_labels then None else mlookup (Labels (nsp_meta ns)) k)" for k
    by (simp add: d_def mlookup_fold_mdelete)
  have dn: "d = None \<longleftrightarrow> Labels (nsp_meta ns) = None" by (simp add: d_def fold_mdelete_None)
  show ?thesis
  proof (cases "PodSecurityAdmissionLevel (vp_Spec policy)")
    case None
    with assms dk dn show ?thesis
      by (auto simp: reconcileNamespacePodSecurityLabels_def d_def [symmetric] psa_value_def psa_labels_def)
  next
    case (Some l)
    with assms obtain m where m: "d = Some m"
      by (cases d) (auto simp: reconcileNamespacePodSecurityLabels_def d_def [symmetric])
    with dk have mk: "fmlookup m k = (if k \<in> set psa_labels then None else mlookup (Labels (nsp_meta ns)) k)" for k
      using mlookup_simps(2) [of m k] by (metis)
    define e where "e = fmupd ''pod-security.kubernetes.io/enforce-version'' ''latest''
      (fmupd ''pod-security.kubernetes.io/enforce'' l m)"
    define ls where "ls = (if l = PrivilegedPodSecurityAdmissionLevel then Some e
      else Some (fmupd ''pod-security.kubernetes.io/warn-version'' ''latest''
        (fmupd ''pod-security.kubernetes.io/warn'' l e)))"
    have "ns' = ns\<lparr>nsp_meta := (nsp_meta ns)\<lparr>Labels := ls\<rparr>\<rparr>"
      using assms Some m
      by (simp add: reconcileNamespacePodSecurityLabels_def d_def [symmetric] ls_def e_def Let_def split: if_splits)
    moreover have "ls = None \<longleftrightarrow> Labels (nsp_meta ns) = None" using m dn by (simp add: ls_def)
    moreover have "mlookup ls k = (if k \<in> set psa_labels then psa_value (Some l) k
        else mlookup (Labels (nsp_meta ns)) k)" for k
      using mk [of k] by (auto simp: ls_def e_def psa_value_def psa_labels_def)
    ultimately show ?thesis unfolding Some by (intro exI [of _ ls]) simp
  qed
qed

text \<open>
  Reconciling the pod security labels of a namespace sets exactly the labels of the policy's level, with the
  warnings left out for the privileged level, keeps every other label, and is idempotent.
\<close>
theorem psa_labels_reconciled:
  assumes "reconcileNamespacePodSecurityLabels ns policy = Inr ns'"
  shows "(\<forall>k. mlookup (Labels (nsp_meta ns')) k =
      (if k \<in> set psa_labels then psa_value (PodSecurityAdmissionLevel (vp_Spec policy)) k
       else mlookup (Labels (nsp_meta ns)) k)) \<and>
    reconcileNamespacePodSecurityLabels ns' policy = Inr ns'"
proof -
  from psa_result [OF assms] obtain ls where ls: "ns' = ns\<lparr>nsp_meta := (nsp_meta ns)\<lparr>Labels := ls\<rparr>\<rparr>"
    "ls = None \<longleftrightarrow> Labels (nsp_meta ns) = None"
    "\<forall>k. mlookup ls k = (if k \<in> set psa_labels then psa_value (PodSecurityAdmissionLevel (vp_Spec policy)) k
      else mlookup (Labels (nsp_meta ns)) k)" by (elim exE conjE)
  have "PodSecurityAdmissionLevel (vp_Spec policy) = None \<or> ls \<noteq> None"
    using assms ls(2) fold_mdelete_None [of psa_labels "Labels (nsp_meta ns)"]
    by (auto simp: reconcileNamespacePodSecurityLabels_def Let_def)
  then have "\<exists>ns''. reconcileNamespacePodSecurityLabels ns' policy = Inr ns''"
    using ls(1) fold_mdelete_None [of psa_labels ls]
    by (auto simp: reconcileNamespacePodSecurityLabels_def Let_def split: option.splits)
  then obtain ns'' where ns'': "reconcileNamespacePodSecurityLabels ns' policy = Inr ns''" by blast
  from psa_result [OF this] obtain ls' where ls': "ns'' = ns'\<lparr>nsp_meta := (nsp_meta ns')\<lparr>Labels := ls'\<rparr>\<rparr>"
    "ls' = None \<longleftrightarrow> Labels (nsp_meta ns') = None"
    "\<forall>k. mlookup ls' k = (if k \<in> set psa_labels then psa_value (PodSecurityAdmissionLevel (vp_Spec policy)) k
      else mlookup (Labels (nsp_meta ns')) k)" by (elim exE conjE)
  have "ls' = ls" by (rule smap_ext) (use ls ls' in auto)
  then have "ns'' = ns'" using ls(1) ls'(1) by simp
  with ns'' ls show ?thesis by simp
qed

theorem psa_labels_reconciled_witness:
  "case reconcileNamespacePodSecurityLabels wit_ns wit_policy of
     Inl _ \<Rightarrow> False
   | Inr ns' \<Rightarrow> mlookup (Labels (nsp_meta ns')) ''pod-security.kubernetes.io/warn'' = Some ''baseline'' \<and>
       reconcileNamespacePodSecurityLabels ns' wit_policy = Inr ns'"
proof -
  obtain ns' where ns': "reconcileNamespacePodSecurityLabels wit_ns wit_policy = Inr ns'"
    by (auto simp: reconcileNamespacePodSecurityLabels_def Let_def wit_ns_def wit_policy_def psa_labels_def)
  from psa_labels_reconciled [OF this] ns' show ?thesis
    by (simp add: psa_labels_def psa_value_def wit_policy_def)
qed

text \<open>
  C30: Deleting a policy is never blocked by its cleanup: whatever fails on the way, the last call of the
  finalization is the update that takes the finalizer off, and its answer alone is the result.
\<close>
theorem policy_finalizer_always_released:
  assumes "controllerutil U" "policy_api_ok A" "policyFinalizerName \<in> set (Finalizers (vp_meta policy))"
    and honest: "\<And>p e p' e'. cli_StatusUpdate (r_cli (PolicyR A) Host) p e = (Inr p', e') \<Longrightarrow>
      Finalizers (vp_meta p') = Finalizers (vp_meta p)"
  shows "\<exists>cs c. w_calls (snd (finalizePolicy U A policy w)) = w_calls w @ cs @ [c] \<and>
    c_verb c = VUpdate \<and> c_kind c = KPolicy \<and> policyFinalizerName \<notin> set (Finalizers (c_meta c)) \<and>
    fst (finalizePolicy U A policy w) = (case c_err c of None \<Rightarrow> Inr () | Some e \<Rightarrow> Inl e)"
proof -
  define p where "p = policy\<lparr>vp_Status := (vp_Status policy)\<lparr>ps_Conditions :=
         SetStatusCondition U (ps_Conditions (vp_Status policy))
           \<lparr>cd_Type = ''Ready'', cd_Status = ''False'', cd_Reason = ''Terminating'',
            cd_Message = ''Policy is being terminated''\<rparr>\<rparr>\<rparr>"
  obtain r w1 where r: "k_StatusUpdate Host (PolicyR A) p w = (r, w1)" by (cases "k_StatusUpdate Host (PolicyR A) p w")
  define q where "q = (case r of Inl err \<Rightarrow> p | Inr p \<Rightarrow> p)"
  obtain x w2 where x: "cleanupPolicyResources A q w1 = (x, w2)" by (cases "cleanupPolicyResources A q w1")
  have "calls_sat (\<lambda>_. True) (k_StatusUpdate Host (PolicyR A) p)" by (simp add: k_defs calls_sat_log_call)
  from calls_extend [OF this r] obtain cs1 where cs1: "w_calls w1 = w_calls w @ cs1" by blast
  from calls_extend [OF policy_extends(2) x] obtain cs2 where cs2: "w_calls w2 = w_calls w1 @ cs2" by blast
  have fq: "policyFinalizerName \<in> set (Finalizers (vp_meta q))"
    using r assms(3) honest [of p "w_env w"]
    by (auto simp: q_def p_def k_StatusUpdate_def log_call_def split: sum.splits prod.splits)
  have law: "RemoveFinalizer U policyFinalizerName (vp_meta q) =
      (True, (vp_meta q)\<lparr>Finalizers := removeAll policyFinalizerName (Finalizers (vp_meta q))\<rparr>)"
    using controllerutil.RemoveFinalizer_law [OF assms(1)] fq by simp
  have fin: "finalizePolicy U A policy w = bindE (k_Update Host (PolicyR A)
      (q\<lparr>vp_meta := (vp_meta q)\<lparr>Finalizers := removeAll policyFinalizerName (Finalizers (vp_meta q))\<rparr>\<rparr>))
      (\<lambda>_. ret (Inr ())) w2"
    by (simp add: finalizePolicy_def Let_def p_def [symmetric] bindS_run r q_def [symmetric] x law)
  show ?thesis
    unfolding fin using assms(2) cs1 cs2
    by (auto simp: k_Update_def log_call_def io_run policy_api_ok_def split: prod.splits sum.splits)
qed

theorem policy_finalizer_always_released_witness:
  "\<exists>cs c. w_calls (snd (finalizePolicy ref_util mem_policy_api wit_policy \<lparr>w_calls = [], w_env = wit_penv\<rparr>)) = cs @ [c] \<and>
    c_verb c = VUpdate \<and> policyFinalizerName \<notin> set (Finalizers (c_meta c))"
  using policy_finalizer_always_released [OF ref.controllerutil_axioms mem_policy_api_ok, of wit_policy
      "\<lparr>w_calls = [], w_env = wit_penv\<rparr>"]
  by (fastforce simp: wit_policy_def mem_policy_api_def mem_resource_def mem_client_def Let_def split: option.splits)

text \<open>
  A policy that reconciles without error is always written back, changed or not: the last call of a
  successful run is an update of the policy.
\<close>
theorem policy_always_updated:
  assumes "k_Get Host (PolicyR A) req w = (Inr policy, w1)" "DeletionTimestamp (vp_meta policy) = None"
    and "policy_api_ok A"
    and "fst (VirtualClusterPolicyReconciler_Reconcile U valid A clusterCIDR req w) = Inr ()"
  shows "\<exists>cs c. w_calls (snd (VirtualClusterPolicyReconciler_Reconcile U valid A clusterCIDR req w)) = cs @ [c] \<and>
    c_verb c = VUpdate \<and> c_kind c = KPolicy"
  using assms(2-4)
  by (auto simp: VirtualClusterPolicyReconciler_Reconcile_def io_run assms(1) deep_equal_pointer_struct_def Let_def
      k_Update_def log_call_def policy_api_ok_def split: prod.splits sum.splits if_splits)

theorem policy_always_updated_witness:
  "\<exists>cs c. w_calls (snd (VirtualClusterPolicyReconciler_Reconcile ref_util (\<lambda>_. True) mem_policy_api '''' (cluster_scoped ''p'')
      \<lparr>w_calls = [], w_env = wit_penv\<lparr>pe_namespaces := \<lambda>_. []\<rparr>\<rparr>)) = cs @ [c] \<and> c_verb c = VUpdate \<and> c_kind c = KPolicy"
proof -
  let ?w = "\<lparr>w_calls = [], w_env = wit_penv\<lparr>pe_namespaces := \<lambda>_. []\<rparr>\<rparr>"
  obtain w1 where "k_Get Host (PolicyR mem_policy_api) (cluster_scoped ''p'') ?w = (Inr wit_policy, w1)"
    by (simp add: k_Get_def log_call_def mem_policy_api_def mem_resource_def mem_client_def wit_penv_def wit_policy_def
        Let_def key_of_def)
  moreover have "fst (VirtualClusterPolicyReconciler_Reconcile ref_util (\<lambda>_. True) mem_policy_api ''''
      (cluster_scoped ''p'') ?w) = Inr ()"
    by code_simp
  moreover have "DeletionTimestamp (vp_meta wit_policy) = None" by (simp add: wit_policy_def)
  ultimately show ?thesis by (intro policy_always_updated [OF _ _ mem_policy_api_ok])
qed

end
