(* ===== verification/Pods.thy ===== *)
theory Pods
  imports Translate Kube
begin

text \<open>
  The pure part of \<^verbatim>\<open>k3k-kubelet/provider/provider.go\<close>: what the virtual kubelet changes in a pod of the
  virtual cluster before it runs on the host. Environment variables and volumes that name
  objects of the virtual cluster are redirected to their synced copies, the API server and
  DNS of the virtual cluster are injected, and an updated pod is merged into an existing one.

  Containers are updated through indices shared by the host pod and the virtual pod, of which it
  is a deep copy; here the two lists are walked together. Ephemeral containers are
  containers, with their extra field in \<^verbatim>\<open>ct_rest\<close>.
\<close>

abbreviation kubeAPIAccessPrefix :: string where "kubeAPIAccessPrefix \<equiv> ''kube-api-access''"
abbreviation HostSchedulerNameAnnotation :: string where
  "HostSchedulerNameAnnotation \<equiv> ''k3k.io/host-scheduler-name''"
abbreviation DefaultSchedulerName :: string where "DefaultSchedulerName \<equiv> ''default-scheduler''"

record provider =
  p_translator :: to_host_translator
  p_clusterName :: string
  p_clusterNamespace :: string
  p_agentHostname :: string
  p_serverIP :: string
  p_dnsIP :: string

section \<open>Environment variables\<close>

definition configure_env_var :: "to_host_translator \<Rightarrow> pod \<Rightarrow> env_var \<Rightarrow> env_var" where
  "configure_env_var t virtualPod envVar =
     (case ev_ValueFrom envVar of None \<Rightarrow> envVar
      | Some from \<Rightarrow>
          (case es_FieldRef from of
             Some fieldPath \<Rightarrow>
               if fieldPath = MetadataNameField
               then envVar\<lparr>ev_Value := Name (pod_meta virtualPod), ev_ValueFrom := None\<rparr>
               else if fieldPath = MetadataNamespaceField
               then envVar\<lparr>ev_Value := Namespace (pod_meta virtualPod), ev_ValueFrom := None\<rparr>
               else envVar
           | None \<Rightarrow> (case es_ConfigMapKeyRef from of
             Some (n, k) \<Rightarrow> envVar\<lparr>ev_ValueFrom := Some (from\<lparr>es_ConfigMapKeyRef :=
               Some (TranslateName t (Namespace (pod_meta virtualPod)) n, k)\<rparr>)\<rparr>
           | None \<Rightarrow> (case es_SecretKeyRef from of
             Some (n, k) \<Rightarrow> envVar\<lparr>ev_ValueFrom := Some (from\<lparr>es_SecretKeyRef :=
               Some (TranslateName t (Namespace (pod_meta virtualPod)) n, k)\<rparr>)\<rparr>
           | None \<Rightarrow> envVar))))"

definition configureEnv :: "to_host_translator \<Rightarrow> pod \<Rightarrow> env_var list \<Rightarrow> env_var list" where
  "configureEnv t virtualPod envs = map (configure_env_var t virtualPod) envs"

definition configureEnvFrom :: "to_host_translator \<Rightarrow> pod \<Rightarrow> env_from_source list \<Rightarrow> env_from_source list" where
  "configureEnvFrom t virtualPod envs =
     map (\<lambda>e. e\<lparr>ef_ConfigMapRef := map_option (TranslateName t (Namespace (pod_meta virtualPod))) (ef_ConfigMapRef e),
       ef_SecretRef := map_option (TranslateName t (Namespace (pod_meta virtualPod))) (ef_SecretRef e)\<rparr>) envs"

definition configure_containers :: "to_host_translator \<Rightarrow> pod \<Rightarrow> container list \<Rightarrow> container list \<Rightarrow> container list" where
  "configure_containers t virtualPod hostContainers virtualContainers =
     map (\<lambda>(h, v). h\<lparr>ct_Env := configureEnv t virtualPod (ct_Env v),
        ct_EnvFrom := configureEnvFrom t virtualPod (ct_EnvFrom v)\<rparr>) (zip hostContainers virtualContainers)"

definition configurePodEnvs :: "to_host_translator \<Rightarrow> pod \<Rightarrow> pod \<Rightarrow> pod" where
  "configurePodEnvs t hostPod virtualPod =
     (let conf = (\<lambda>f. configure_containers t virtualPod (f (pod_Spec hostPod)) (f (pod_Spec virtualPod)))
      in hostPod\<lparr>pod_Spec := (pod_Spec hostPod)\<lparr>pod_Containers := conf pod_Containers,
           pod_InitContainers := conf pod_InitContainers,
           pod_EphemeralContainers := conf pod_EphemeralContainers\<rparr>\<rparr>)"

text \<open>The loop over \<^verbatim>\<open>orig\<close> replaces the first variable of each updated name; what is left in the map is
  appended, in the order \<^verbatim>\<open>ord\<close> in which the map is iterated.\<close>

fun merge_env_loop :: "env_var list \<Rightarrow> (string, env_var) fmap \<Rightarrow> env_var list \<times> (string, env_var) fmap" where
  "merge_env_loop [] m = ([], m)"
| "merge_env_loop (env # orig) m =
     (case fmlookup m (ev_Name env) of
        Some updatedEnv \<Rightarrow> (case merge_env_loop orig (fmdrop (ev_Name env) m) of (es, m') \<Rightarrow> (updatedEnv # es, m'))
      | None \<Rightarrow> (case merge_env_loop orig m of (es, m') \<Rightarrow> (env # es, m')))"

definition mergeEnvVars :: "(string fset \<Rightarrow> string list) \<Rightarrow> env_var list \<Rightarrow> env_var list \<Rightarrow> env_var list" where
  "mergeEnvVars ord orig updated =
     (if updated = [] then orig
      else case merge_env_loop orig (fold (\<lambda>e. fmupd (ev_Name e) e) updated fmempty) of
        (es, m) \<Rightarrow> es @ List.map_filter (fmlookup m) (ord (fmdom m)))"

section \<open>Volumes\<close>

definition transform_projection :: "to_host_translator \<Rightarrow> string \<Rightarrow> projection \<Rightarrow> projection" where
  "transform_projection t podNamespace source =
     (case pj_ConfigMap source of
        Some cm \<Rightarrow> source\<lparr>pj_ConfigMap := Some (cm\<lparr>ns_Name := TranslateName t podNamespace (ns_Name cm)\<rparr>)\<rparr>
      | None \<Rightarrow> (case pj_Secret source of
        Some s \<Rightarrow> source\<lparr>pj_Secret := Some (s\<lparr>sp_Name := TranslateName t podNamespace (sp_Name s)\<rparr>)\<rparr>
      | None \<Rightarrow> source))"

definition transform_downward :: "downward_item \<Rightarrow> downward_item" where
  "transform_downward item =
     (case dw_FieldRef item of None \<Rightarrow> item
      | Some fieldPath \<Rightarrow>
          if fieldPath = MetadataNameField
          then item\<lparr>dw_FieldRef := Some (''metadata.annotations['' @ [CHR 0x27] @ ResourceNameAnnotation @ [CHR 0x27] @ '']'')\<rparr>
          else if fieldPath = MetadataNamespaceField
          then item\<lparr>dw_FieldRef := Some (''metadata.annotations['' @ [CHR 0x27] @ ResourceNamespaceAnnotation @ [CHR 0x27] @ '']'')\<rparr>
          else item)"

definition transform_volume :: "to_host_translator \<Rightarrow> string \<Rightarrow> volume \<Rightarrow> volume" where
  "transform_volume t podNamespace v =
     (let tn = (\<lambda>s. s\<lparr>ns_Name := TranslateName t podNamespace (ns_Name s)\<rparr>) in
      if strings_HasPrefix (vo_Name v) kubeAPIAccessPrefix then v
      else case vo_ConfigMap v of Some s \<Rightarrow> v\<lparr>vo_ConfigMap := Some (tn s)\<rparr>
      | None \<Rightarrow> (case vo_Secret v of Some s \<Rightarrow> v\<lparr>vo_Secret := Some (tn s)\<rparr>
      | None \<Rightarrow> (case vo_PersistentVolumeClaim v of Some s \<Rightarrow> v\<lparr>vo_PersistentVolumeClaim := Some (tn s)\<rparr>
      | None \<Rightarrow> (case vo_Projected v of Some ss \<Rightarrow> v\<lparr>vo_Projected := Some (map (transform_projection t podNamespace) ss)\<rparr>
      | None \<Rightarrow> (case vo_DownwardAPI v of Some is \<Rightarrow> v\<lparr>vo_DownwardAPI := Some (map transform_downward is)\<rparr>
      | None \<Rightarrow> v)))))"

definition transformVolumes :: "to_host_translator \<Rightarrow> string \<Rightarrow> volume list \<Rightarrow> volume list" where
  "transformVolumes t podNamespace volumes = map (transform_volume t podNamespace) volumes"

section \<open>Networking\<close>

definition isCoreDNSPod :: "pod \<Rightarrow> bool" where
  "isCoreDNSPod pod = (Namespace (pod_meta pod) = ''kube-system'' \<and> mindex (Labels (pod_meta pod)) ''k8s-app'' = ''kube-dns'')"

abbreviation nobodyUID :: int where "nobodyUID \<equiv> 65534"

definition harden_container :: "container \<Rightarrow> container" where
  "harden_container c =
     (let sc = (case ct_SecurityContext c of None \<Rightarrow> empty_security_context | Some sc \<Rightarrow> sc)
      in c\<lparr>ct_SecurityContext := Some (sc\<lparr>sx_AllowPrivilegeEscalation := Some False,
           sx_Capabilities := Some \<lparr>cap_Add = [''NET_BIND_SERVICE''], cap_Drop = [''ALL'']\<rparr>,
           sx_RunAsNonRoot := Some True, sx_RunAsUser := Some nobodyUID, sx_RunAsGroup := Some nobodyUID,
           sx_SeccompProfile := Some ''RuntimeDefault''\<rparr>)\<rparr>)"

definition hardenCoreDNS :: "pod \<Rightarrow> pod" where
  "hardenCoreDNS pod =
     pod\<lparr>pod_Spec := (pod_Spec pod)\<lparr>pod_Containers := map harden_container (pod_Containers (pod_Spec pod))\<rparr>\<rparr>"

definition updatedEnvVars :: "string \<Rightarrow> env_var list" where
  "updatedEnvVars serverIP =
     map (\<lambda>(n, v). \<lparr>ev_Name = n, ev_Value = v, ev_ValueFrom = None\<rparr>)
       [(''KUBERNETES_SERVICE_HOST'', serverIP), (''KUBERNETES_PORT'', ''tcp://'' @ serverIP @ '':443''),
        (''KUBERNETES_PORT_443_TCP'', ''tcp://'' @ serverIP @ '':443''), (''KUBERNETES_PORT_443_TCP_ADDR'', serverIP)]"

definition configureNetworking :: "(string fset \<Rightarrow> string list) \<Rightarrow> pod \<Rightarrow> pod \<Rightarrow> string \<Rightarrow> string \<Rightarrow> pod" where
  "configureNetworking ord hostPod virtualPod serverIP dnsIP =
     (let spec = pod_Spec hostPod;
          spec = spec\<lparr>pod_HostAliases := pod_HostAliases spec @ [\<lparr>ha_IP = serverIP, ha_Hostnames =
            [''kubernetes'', ''kubernetes.default'', ''kubernetes.default.svc'',
             ''kubernetes.default.svc.cluster'', ''kubernetes.default.svc.cluster.local'']\<rparr>]\<rparr>;
          spec = (if \<not> isCoreDNSPod virtualPod \<and> pod_DNSConfig spec = None
            then spec\<lparr>pod_DNSPolicy := ''None'', pod_DNSConfig := Some \<lparr>dn_Nameservers = [dnsIP],
              dn_Searches = [Namespace (pod_meta virtualPod) @ ''.svc.cluster.local'', ''svc.cluster.local'', ''cluster.local''],
              dn_Options = [(''ndots'', Some ''5'')]\<rparr>\<rparr>
            else spec);
          inject = map (\<lambda>c. c\<lparr>ct_Env := mergeEnvVars ord (ct_Env c) (updatedEnvVars serverIP)\<rparr>)
      in hostPod\<lparr>pod_Spec := spec\<lparr>pod_Containers := inject (pod_Containers spec),
           pod_InitContainers := inject (pod_InitContainers spec),
           pod_EphemeralContainers := inject (pod_EphemeralContainers spec)\<rparr>\<rparr>)"

section \<open>Updates\<close>

definition updateContainerImages :: "container list \<Rightarrow> container list \<Rightarrow> container list" where
  "updateContainerImages dst src =
     (let images = fold (\<lambda>c. fmupd (ct_Name c) (ct_Image c)) src fmempty
      in map (\<lambda>c. c\<lparr>ct_Image := mindex (Some images) (ct_Name c)\<rparr>) dst)"

definition mergeManagedMetadata :: "smap option \<Rightarrow> smap option \<Rightarrow> smap option" where
  "mergeManagedMetadata dst src =
     Some (fmadd (minit src) (fmfilter (\<lambda>k. strings_HasPrefix k MetadataPrefix) (minit dst)))"

definition updateMetadata :: "object_meta \<Rightarrow> object_meta \<Rightarrow> object_meta" where
  "updateMetadata dst src =
     dst\<lparr>Labels := mergeManagedMetadata (Labels dst) (Labels src),
       Annotations := mergeManagedMetadata (Annotations dst) (Annotations src)\<rparr>"

definition updatePod :: "pod \<Rightarrow> pod \<Rightarrow> pod" where
  "updatePod dst src =
     \<lparr>pod_meta = updateMetadata (pod_meta dst) (pod_meta src),
      pod_Spec = (pod_Spec dst)
        \<lparr>pod_Containers := updateContainerImages (pod_Containers (pod_Spec dst)) (pod_Containers (pod_Spec src)),
         pod_InitContainers := updateContainerImages (pod_InitContainers (pod_Spec dst)) (pod_InitContainers (pod_Spec src)),
         pod_ActiveDeadlineSeconds := pod_ActiveDeadlineSeconds (pod_Spec src),
         pod_Tolerations := pod_Tolerations (pod_Spec src)\<rparr>,
      pod_Status = pod_Status dst\<rparr>"

section \<open>References of a pod\<close>

text \<open>
  The objects of its namespace a pod refers to by name: config maps, secrets and claims, in
  environment variables and volumes. The volumes of the API access are left out; the kubelet
  replaces them.
\<close>

definition ref :: "kind \<Rightarrow> string option \<Rightarrow> (kind \<times> string) list" where
  "ref k n = (case n of None \<Rightarrow> [] | Some x \<Rightarrow> [(k, x)])"

definition env_refs :: "env_var \<Rightarrow> (kind \<times> string) list" where
  "env_refs e = (case ev_ValueFrom e of None \<Rightarrow> [] | Some f \<Rightarrow>
     ref KConfigMap (map_option fst (es_ConfigMapKeyRef f)) @ ref KSecret (map_option fst (es_SecretKeyRef f)))"

definition env_from_refs :: "env_from_source \<Rightarrow> (kind \<times> string) list" where
  "env_from_refs e = ref KConfigMap (ef_ConfigMapRef e) @ ref KSecret (ef_SecretRef e)"

definition container_refs :: "container \<Rightarrow> (kind \<times> string) list" where
  "container_refs c = concat (map env_refs (ct_Env c)) @ concat (map env_from_refs (ct_EnvFrom c))"

definition projection_refs :: "projection \<Rightarrow> (kind \<times> string) list" where
  "projection_refs s = ref KConfigMap (map_option ns_Name (pj_ConfigMap s)) @ ref KSecret (map_option sp_Name (pj_Secret s))"

definition volume_refs :: "volume \<Rightarrow> (kind \<times> string) list" where
  "volume_refs v =
     ref KConfigMap (map_option ns_Name (vo_ConfigMap v)) @ ref KSecret (map_option ns_Name (vo_Secret v)) @
     ref KPVC (map_option ns_Name (vo_PersistentVolumeClaim v)) @
     concat (map projection_refs (case vo_Projected v of None \<Rightarrow> [] | Some ss \<Rightarrow> ss))"

definition all_containers :: "pod_spec \<Rightarrow> container list" where
  "all_containers s = pod_Containers s @ pod_InitContainers s @ pod_EphemeralContainers s"

definition pod_refs :: "pod_spec \<Rightarrow> (kind \<times> string) list" where
  "pod_refs s = concat (map container_refs (all_containers s)) @
     concat (map volume_refs (filter (\<lambda>v. \<not> strings_HasPrefix (vo_Name v) kubeAPIAccessPrefix) (pod_Volumes s)))"

text \<open>What the API server checks of a pod: every variable, volume and projection has at most one source. A
  variable that reads a field has none of the others.\<close>

definition one_source_env :: "env_var \<Rightarrow> bool" where
  "one_source_env e = (case ev_ValueFrom e of None \<Rightarrow> True | Some f \<Rightarrow>
     length (filter id [es_FieldRef f \<noteq> None, es_ConfigMapKeyRef f \<noteq> None, es_SecretKeyRef f \<noteq> None]) \<le> 1)"

definition one_source_projection :: "projection \<Rightarrow> bool" where
  "one_source_projection s = (pj_ConfigMap s = None \<or> pj_Secret s = None)"

definition one_source_volume :: "volume \<Rightarrow> bool" where
  "one_source_volume v =
     (length (filter id [vo_ConfigMap v \<noteq> None, vo_Secret v \<noteq> None, vo_PersistentVolumeClaim v \<noteq> None,
        vo_Projected v \<noteq> None]) \<le> 1 \<and>
      list_all one_source_projection (case vo_Projected v of None \<Rightarrow> [] | Some ss \<Rightarrow> ss))"

definition one_source_pod :: "pod_spec \<Rightarrow> bool" where
  "one_source_pod s =
     (list_all (\<lambda>c. list_all one_source_env (ct_Env c)) (all_containers s) \<and> list_all one_source_volume (pod_Volumes s))"

lemma ref_simps [simp]: "ref k None = []" "ref k (Some x) = [(k, x)]"
  by (simp_all add: ref_def)

lemma ref_map_option: "ref k (map_option f n) = map (apsnd f) (ref k n)"
  by (cases n) simp_all

lemma configure_env_var_refs:
  "one_source_env e \<Longrightarrow>
    env_refs (configure_env_var t p e) = map (apsnd (TranslateName t (Namespace (pod_meta p)))) (env_refs e)"
  by (auto simp: env_refs_def one_source_env_def configure_env_var_def split: option.splits if_splits)

lemma configureEnvFrom_refs:
  "concat (map env_from_refs (configureEnvFrom t p es)) =
    map (apsnd (TranslateName t (Namespace (pod_meta p)))) (concat (map env_from_refs es))"
  by (induction es) (auto simp: configureEnvFrom_def env_from_refs_def ref_map_option)

lemma configureEnv_refs:
  "list_all one_source_env es \<Longrightarrow> concat (map env_refs (configureEnv t p es)) =
    map (apsnd (TranslateName t (Namespace (pod_meta p)))) (concat (map env_refs es))"
  by (induction es) (auto simp: configureEnv_def configure_env_var_refs)

lemma configure_containers_refs:
  "list_all (\<lambda>c. list_all one_source_env (ct_Env c)) cs \<Longrightarrow>
    concat (map container_refs (configure_containers t p cs cs)) =
    map (apsnd (TranslateName t (Namespace (pod_meta p)))) (concat (map container_refs cs))"
  by (induction cs) (auto simp: configure_containers_def container_refs_def configureEnv_refs configureEnvFrom_refs)

lemma transform_projection_refs:
  "one_source_projection s \<Longrightarrow>
    projection_refs (transform_projection t ns s) = map (apsnd (TranslateName t ns)) (projection_refs s)"
  by (auto simp: one_source_projection_def projection_refs_def transform_projection_def split: option.splits)

lemma transform_projections_refs:
  "list_all one_source_projection ss \<Longrightarrow>
    concat (map (projection_refs \<circ> transform_projection t ns) ss) =
    map (apsnd (TranslateName t ns)) (concat (map projection_refs ss))"
  by (induction ss) (auto simp: transform_projection_refs)

lemma transform_volume_refs:
  "one_source_volume v \<Longrightarrow> \<not> strings_HasPrefix (vo_Name v) kubeAPIAccessPrefix \<Longrightarrow>
    volume_refs (transform_volume t ns v) = map (apsnd (TranslateName t ns)) (volume_refs v)"
  by (auto simp: one_source_volume_def volume_refs_def transform_volume_def transform_projections_refs split: option.splits if_splits)

lemma transform_volume_Name [simp]: "vo_Name (transform_volume t ns v) = vo_Name v"
  by (auto simp: transform_volume_def Let_def split: option.splits)

lemma transformVolumes_refs:
  "list_all one_source_volume vs \<Longrightarrow>
    concat (map volume_refs (filter (\<lambda>v. \<not> strings_HasPrefix (vo_Name v) kubeAPIAccessPrefix) (transformVolumes t ns vs))) =
    map (apsnd (TranslateName t ns))
      (concat (map volume_refs (filter (\<lambda>v. \<not> strings_HasPrefix (vo_Name v) kubeAPIAccessPrefix) vs)))"
  by (induction vs) (auto simp: transformVolumes_def transform_volume_refs)

section \<open>Merged environments\<close>

lemma merge_env_loop_map:
  "merge_env_loop orig m = (es, m') \<Longrightarrow> fmlookup m' k = (if k \<in> ev_Name ` set orig then None else fmlookup m k)"
  by (induction orig m arbitrary: es m' rule: merge_env_loop.induct) (auto split: option.splits prod.splits)

lemma merge_env_loop_envs:
  assumes "merge_env_loop orig m = (es, m')" "distinct (map ev_Name orig)"
    and "\<forall>k e. fmlookup m k = Some e \<longrightarrow> ev_Name e = k"
  shows "es = map (\<lambda>e. case fmlookup m (ev_Name e) of None \<Rightarrow> e | Some u \<Rightarrow> u) orig"
  using assms
proof (induction orig m arbitrary: es m' rule: merge_env_loop.induct)
  case (2 env orig m)
  show ?case
  proof (cases "fmlookup m (ev_Name env)")
    case None
    obtain es' m'' where r: "merge_env_loop orig m = (es', m'')" by (cases "merge_env_loop orig m")
    have "es' = map (\<lambda>e. case fmlookup m (ev_Name e) of None \<Rightarrow> e | Some u \<Rightarrow> u) orig"
      by (rule 2(1) [OF None r]) (use 2(4,5) in simp_all)
    with 2(3) None r show ?thesis by simp
  next
    case (Some u)
    obtain es' m'' where r: "merge_env_loop orig (fmdrop (ev_Name env) m) = (es', m'')"
      by (cases "merge_env_loop orig (fmdrop (ev_Name env) m)")
    have "es' = map (\<lambda>e. case fmlookup (fmdrop (ev_Name env) m) (ev_Name e) of None \<Rightarrow> e | Some u \<Rightarrow> u) orig"
      by (rule 2(2) [OF Some r]) (use 2(4,5) in \<open>auto split: if_splits\<close>)
    also have "\<dots> = map (\<lambda>e. case fmlookup m (ev_Name e) of None \<Rightarrow> e | Some u \<Rightarrow> u) orig"
    proof (rule map_cong [OF refl])
      fix e
      assume "e \<in> set orig"
      then have "ev_Name e \<in> ev_Name ` set orig" by simp
      moreover have "ev_Name env \<notin> ev_Name ` set orig" using 2(4) by simp
      ultimately have "ev_Name e \<noteq> ev_Name env" by metis
      then show "(case fmlookup (fmdrop (ev_Name env) m) (ev_Name e) of None \<Rightarrow> e | Some u \<Rightarrow> u) =
          (case fmlookup m (ev_Name e) of None \<Rightarrow> e | Some u \<Rightarrow> u)" by simp
    qed
    finally show ?thesis using 2(3) Some r by simp
  qed
qed simp

lemma fold_env_other:
  "k \<notin> ev_Name ` set updated \<Longrightarrow> fmlookup (fold (\<lambda>e. fmupd (ev_Name e) e) updated m) k = fmlookup m k"
  by (induction updated arbitrary: m) auto

lemma fold_env_in:
  "distinct (map ev_Name updated) \<Longrightarrow> e \<in> set updated \<Longrightarrow>
    fmlookup (fold (\<lambda>e. fmupd (ev_Name e) e) updated m) (ev_Name e) = Some e"
proof (induction updated arbitrary: m)
  case (Cons a updated)
  then show ?case by (cases "e = a") (auto simp: fold_env_other)
qed simp

lemma set_map_filter_dom:
  assumes "set ks = fset (fmdom m)"
  shows "set (List.map_filter (fmlookup m) ks) = {v. \<exists>k. fmlookup m k = Some v}"
proof -
  have "set (List.map_filter (fmlookup m) ks) = {v. \<exists>k\<in>set ks. fmlookup m k = Some v}"
    by (auto simp: List.map_filter_def) force
  also have "\<dots> = {v. \<exists>k. fmlookup m k = Some v}" unfolding assms by (auto simp: fmdomI)
  finally show ?thesis .
qed

lemma map_filter_names:
  "\<forall>k e. fmlookup m k = Some e \<longrightarrow> f e = k \<Longrightarrow> set ks \<subseteq> fset (fmdom m) \<Longrightarrow>
    map f (List.map_filter (fmlookup m) ks) = ks"
  by (induction ks) (auto simp: List.map_filter_simps fmlookup_dom_iff)

section \<open>Properties\<close>

text \<open>
  Injecting variables into the environment of a container overrides exactly those: when no name occurs twice, the
  result has the injected variables and the container's other ones and no more, each name
  once, and the container's variables keep their positions, whatever the iteration order of the map.
\<close>
theorem mergeEnvVars_overrides:
  assumes "range_order ord" "distinct (map ev_Name orig)" "distinct (map ev_Name updated)"
  shows "set (mergeEnvVars ord orig updated) = set updated \<union> {e \<in> set orig. ev_Name e \<notin> ev_Name ` set updated} \<and>
    distinct (map ev_Name (mergeEnvVars ord orig updated)) \<and>
    take (length orig) (map ev_Name (mergeEnvVars ord orig updated)) = map ev_Name orig"
proof (cases "updated = []")
  case False
  let ?m = "fold (\<lambda>e. fmupd (ev_Name e) e) updated fmempty"
  obtain es m where r: "merge_env_loop orig ?m = (es, m)" by (cases "merge_env_loop orig ?m")
  have look: "fmlookup ?m k = Some e \<longleftrightarrow> e \<in> set updated \<and> ev_Name e = k" for k e
  proof (cases "k \<in> ev_Name ` set updated")
    case True
    then obtain e' where e': "e' \<in> set updated" "k = ev_Name e'" by blast
    then have "fmlookup ?m k = Some e'" using fold_env_in [OF assms(3) e'(1)] by simp
    moreover have "e \<in> set updated \<and> ev_Name e = ev_Name e' \<longleftrightarrow> e = e'"
      using e'(1) assms(3) by (auto simp: distinct_map dest: inj_onD)
    ultimately show ?thesis using e'(2) by auto
  qed (auto simp: fold_env_other)
  have es: "es = map (\<lambda>e. case fmlookup ?m (ev_Name e) of None \<Rightarrow> e | Some u \<Rightarrow> u) orig"
    by (rule merge_env_loop_envs [OF r assms(2)]) (simp add: look)
  have names: "map ev_Name es = map ev_Name orig"
    unfolding es by (auto simp: look split: option.split)
  have m: "fmlookup m k = (if k \<in> ev_Name ` set orig then None else fmlookup ?m k)" for k
    by (rule merge_env_loop_map [OF r])
  let ?rest = "List.map_filter (fmlookup m) (ord (fmdom m))"
  have rest_names: "map ev_Name ?rest = ord (fmdom m)"
    by (rule map_filter_names) (auto simp: m look range_order.set_ord [OF assms(1)])
  have rest_set: "set ?rest = {e \<in> set updated. ev_Name e \<notin> ev_Name ` set orig}"
    unfolding set_map_filter_dom [OF range_order.set_ord [OF assms(1)]] by (auto simp: m look)
  have "set es = {e \<in> set updated. ev_Name e \<in> ev_Name ` set orig} \<union> {e \<in> set orig. ev_Name e \<notin> ev_Name ` set updated}"
  proof -
    define pick where "pick e = (case fmlookup ?m (ev_Name e) of None \<Rightarrow> e | Some u \<Rightarrow> u)" for e
    have "pick e = x \<longleftrightarrow>
        x \<in> set updated \<and> ev_Name x = ev_Name e \<or> ev_Name e \<notin> ev_Name ` set updated \<and> x = e" for e x
    proof (cases "fmlookup ?m (ev_Name e)")
      case None
      then have "\<not> (y \<in> set updated \<and> ev_Name y = ev_Name e)" for y using look [of "ev_Name e" y] by simp
      then have "ev_Name e \<notin> ev_Name ` set updated" "\<not> (x \<in> set updated \<and> ev_Name x = ev_Name e)" by force+
      with None show ?thesis by (auto simp: pick_def)
    next
      case (Some u)
      then have "y \<in> set updated \<and> ev_Name y = ev_Name e \<longleftrightarrow> u = y" for y using look [of "ev_Name e" y] by simp
      with Some show ?thesis unfolding pick_def by (metis (full_types) image_eqI option.simps(5))
    qed
    then have "x \<in> set es \<longleftrightarrow> (\<exists>e\<in>set orig. x \<in> set updated \<and> ev_Name x = ev_Name e \<or>
        ev_Name e \<notin> ev_Name ` set updated \<and> x = e)" for x
      unfolding es pick_def [symmetric] set_map image_iff by metis
    then show ?thesis by blast
  qed
  moreover have "distinct (map ev_Name (es @ ?rest))"
    using assms(2) range_order.distinct_ord [OF assms(1)]
    by (auto simp: names rest_names range_order.set_ord [OF assms(1)] fmlookup_dom_iff m)
  moreover have "mergeEnvVars ord orig updated = es @ ?rest" using False by (simp add: mergeEnvVars_def r)
  moreover have "length es = length orig" by (simp add: es)
  ultimately show ?thesis using rest_set by (auto simp: names)
qed (use assms in \<open>auto simp: mergeEnvVars_def\<close>)

theorem mergeEnvVars_overrides_witness:
  "let e = (\<lambda>n v. \<lparr>ev_Name = n, ev_Value = v, ev_ValueFrom = None\<rparr>)
   in set (mergeEnvVars sorted_list_of_fset [e ''A'' ''1'', e ''KUBERNETES_PORT'' ''x''] [e ''KUBERNETES_PORT'' ''y'', e ''B'' ''2'']) =
     {e ''A'' ''1'', e ''KUBERNETES_PORT'' ''y'', e ''B'' ''2''}"
  unfolding Let_def
  by (subst mergeEnvVars_overrides [OF sorted_order.range_order_axioms, THEN conjunct1]) auto

lemma mlookup_mergeManagedMetadata:
  "mlookup (mergeManagedMetadata dst src) k =
     (if strings_HasPrefix k MetadataPrefix \<and> mlookup dst k \<noteq> None then mlookup dst k else mlookup src k)"
  by (auto simp: mergeManagedMetadata_def fmlookup_minit fmlookup_dom_iff)

text \<open>
  C31: An update of a pod on the host follows the labels and annotations of the virtual pod and keeps what k3k recorded:
  entries under the k3k.io prefix that the host pod has stay as they are, all others are those of the
  virtual pod, so that the updated host pod still translates back to the same
  virtual pod and still belongs to the same cluster and agent.
\<close>
theorem updatePod_keeps_identity:
  assumes "mlookup (Annotations (pod_meta host)) ResourceNameAnnotation = Some n"
    and "mlookup (Annotations (pod_meta host)) ResourceNamespaceAnnotation = Some ns"
  shows "key_of (TranslateFrom (pod_meta (updatePod host src))) = \<lparr>nn_Namespace = ns, nn_Name = n\<rparr> \<and>
    key_of (pod_meta (updatePod host src)) = key_of (pod_meta host) \<and>
    (\<forall>k. mlookup (Labels (pod_meta (updatePod host src))) k =
      (if strings_HasPrefix k MetadataPrefix \<and> mlookup (Labels (pod_meta host)) k \<noteq> None
       then mlookup (Labels (pod_meta host)) k else mlookup (Labels (pod_meta src)) k))"
  using assms
  by (simp add: updatePod_def updateMetadata_def TranslateFrom_def Let_def key_of_def mindex_def
      mlookup_mergeManagedMetadata strings_HasPrefix_def)

theorem updatePod_keeps_identity_witness:
  "key_of (TranslateFrom (pod_meta (updatePod
     (pod_of (TranslateTo \<lparr>tr_ClusterName = ''c'', tr_ClusterNamespace = ''k''\<rparr> (meta_of ''web'' ''default'')))
     (pod_of (meta_of ''web'' ''default''))))) = \<lparr>nn_Namespace = ''default'', nn_Name = ''web''\<rparr>"
  by (rule updatePod_keeps_identity [THEN conjunct1]) (simp_all add: pod_of_def TranslateTo_def Let_def)

lemma fold_images_other:
  "n \<notin> ct_Name ` set src \<Longrightarrow> fmlookup (fold (\<lambda>c. fmupd (ct_Name c) (ct_Image c)) src m) n = fmlookup m n"
  by (induction src arbitrary: m) auto

lemma fold_images_in:
  "distinct (map ct_Name src) \<Longrightarrow> c \<in> set src \<Longrightarrow>
    fmlookup (fold (\<lambda>c. fmupd (ct_Name c) (ct_Image c)) src m) (ct_Name c) = Some (ct_Image c)"
proof (induction src arbitrary: m)
  case (Cons a src)
  then show ?case by (cases "c = a") (auto simp: fold_images_other)
qed simp

text \<open>
  Updating the images of the containers gives every container the image of the container of its name in the
  source and changes nothing else of it; a container that the source does not have, such as one injected
  by an admission webhook of the host cluster, gets the empty image.
\<close>
theorem updateContainerImages_by_name:
  assumes "distinct (map ct_Name src)"
  shows "list_all2 (\<lambda>d r. \<exists>image. r = d\<lparr>ct_Image := image\<rparr> \<and>
      (\<forall>c\<in>set src. ct_Name c = ct_Name d \<longrightarrow> image = ct_Image c) \<and>
      (ct_Name d \<notin> ct_Name ` set src \<longrightarrow> image = ''''))
    dst (updateContainerImages dst src)"
proof -
  let ?m = "fold (\<lambda>c. fmupd (ct_Name c) (ct_Image c)) src fmempty"
  have "\<forall>c\<in>set src. ct_Name c = ct_Name d \<longrightarrow> mindex (Some ?m) (ct_Name d) = ct_Image c" for d
    using fold_images_in [OF assms, of _ fmempty] by (auto simp: mindex_def split: option.splits) (metis option.distinct(1) option.inject)+
  moreover have "ct_Name d \<notin> ct_Name ` set src \<longrightarrow> mindex (Some ?m) (ct_Name d) = ''''" for d
    by (auto simp: mindex_def fold_images_other)
  ultimately show ?thesis
    by (auto simp: updateContainerImages_def Let_def list_all2_conv_all_nth intro!: exI)
qed

theorem updateContainerImages_by_name_witness:
  "let c = (\<lambda>n i. \<lparr>ct_Name = n, ct_Image = i, ct_Env = [], ct_EnvFrom = [], ct_VolumeMounts = [],
      ct_SecurityContext = None, ct_rest = ''''\<rparr>)
   in map ct_Image (updateContainerImages [c ''web'' ''nginx:1'', c ''sidecar'' ''proxy:1''] [c ''web'' ''nginx:2'']) =
     [''nginx:2'', '''']"
  unfolding Let_def
  using updateContainerImages_by_name [of "[\<lparr>ct_Name = ''web'', ct_Image = ''nginx:2'', ct_Env = [], ct_EnvFrom = [],
      ct_VolumeMounts = [], ct_SecurityContext = None, ct_rest = ''''\<rparr>]"
    "[\<lparr>ct_Name = ''web'', ct_Image = ''nginx:1'', ct_Env = [], ct_EnvFrom = [], ct_VolumeMounts = [],
      ct_SecurityContext = None, ct_rest = ''''\<rparr>, \<lparr>ct_Name = ''sidecar'', ct_Image = ''proxy:1'', ct_Env = [],
      ct_EnvFrom = [], ct_VolumeMounts = [], ct_SecurityContext = None, ct_rest = ''''\<rparr>]"]
  by (auto simp: list_all2_Cons1)

end
