(* ===== verification/Go_Std.thy ===== *)
theory Go_Std
  imports NetIP Sha256 "HOL-Library.Signed_Division"
begin

text \<open>
  More of Go's standard library, as the token code uses it: \<^verbatim>\<open>strconv.FormatInt\<close>, the verb \<^verbatim>\<open>%q\<close> on
  strings, and times.

  A time is its number of nanoseconds since the Unix epoch, a duration is an \<^verbatim>\<open>int64\<close>. \<^verbatim>\<open>Format\<close> is for times
  from 1970 on; \<^verbatim>\<open>Parse\<close> reads what RFC 3339 allows, with fraction and offset. \<^verbatim>\<open>%q\<close> escapes the bytes that are
  not printable ASCII; strings are taken to be ASCII, as the attributes of tokens are.

  The lemmas show that both encodings lose nothing: a formatted time is read back to
  the second, and a quoted string ends where its closing quote is.
\<close>

section \<open>Integers\<close>

fun nat_digits :: "nat \<Rightarrow> string" where
  "nat_digits n = (if n < 10 then [char_of (48 + n)] else nat_digits (n div 10) @ [char_of (48 + n mod 10)])"

declare nat_digits.simps [simp del]

definition strconv_FormatInt :: "int \<Rightarrow> string" where
  "strconv_FormatInt i = (if i < 0 then CHR ''-'' # nat_digits (nat (- i)) else nat_digits (nat i))"

text \<open>The value of a signed 64-bit result.\<close>

definition wrap64 :: "int \<Rightarrow> int" where
  "wrap64 x = sint (word_of_int x :: 64 word)"

lemma wrap64_id: "- (2 ^ 63) \<le> x \<Longrightarrow> x < 2 ^ 63 \<Longrightarrow> wrap64 x = x"
  by (simp add: wrap64_def sint_sbintrunc' signed_take_bit_int_eq_self_iff)

lemma digit_char: "n < 10 \<Longrightarrow> is_digit (char_of (48 + n)) \<and> digit_val (char_of (48 + n :: nat)) = n"
  by (simp add: is_digit_def digit_val_def)

lemma nat_digits_spec: "list_all is_digit (nat_digits n) \<and> dec_val (nat_digits n) = n \<and> nat_digits n \<noteq> []"
proof (induction n rule: nat_digits.induct)
  case (1 n)
  then show ?case
    using digit_char [of n] digit_char [of "n mod 10"]
    by (cases "n < 10") (auto simp: nat_digits.simps [of n] dec_val_def)
qed

lemma strconv_FormatInt_inj: "strconv_FormatInt i = strconv_FormatInt j \<longleftrightarrow> i = j"
proof
  assume eq: "strconv_FormatInt i = strconv_FormatInt j"
  have minus: "CHR ''-'' # s \<noteq> nat_digits n" for s n
    using nat_digits_spec [of n] by (cases "nat_digits n") (auto simp: is_digit_def)
  have "nat_digits m = nat_digits n \<longleftrightarrow> m = n" for m n using nat_digits_spec by metis
  with eq minus minus [symmetric] show "i = j" by (auto simp: strconv_FormatInt_def split: if_splits)
qed simp

lemma strconv_FormatInt_nonempty [simp]: "strconv_FormatInt i \<noteq> []"
  using nat_digits_spec by (simp add: strconv_FormatInt_def)

section \<open>Quoted strings\<close>

definition quote_letters :: "(char \<times> char) list" where
  "quote_letters =
     [(CHR 0x22, CHR 0x22), (CHR 0x5C, CHR 0x5C), (CHR 0x07, CHR ''a''), (CHR 0x08, CHR ''b''), (CHR 0x0C, CHR ''f''),
      (CHR 0x0A, CHR ''n''), (CHR 0x0D, CHR ''r''), (CHR 0x09, CHR ''t''), (CHR 0x0B, CHR ''v'')]"

definition quote_char :: "char \<Rightarrow> string" where
  "quote_char c =
     (case map_of quote_letters c of
        Some l \<Rightarrow> [CHR 0x5C, l]
      | None \<Rightarrow> if (of_char c :: nat) < 32 \<or> 127 \<le> (of_char c :: nat)
          then [CHR 0x5C, CHR ''x''] @ hex_byte (of_char c) else [c])"

definition strconv_Quote :: "string \<Rightarrow> string" where
  "strconv_Quote s = CHR 0x22 # concat (map quote_char s) @ [CHR 0x22]"

text \<open>Reading one quoted character: what follows a backslash decides which one.\<close>

lemma quote_letters_inj: "map_of quote_letters c = Some l \<Longrightarrow> map_of quote_letters d = Some l \<Longrightarrow> c = d"
  by (auto simp: quote_letters_def split: if_splits)

lemma quote_letters_not_x: "map_of quote_letters c \<noteq> Some CHR ''x''"
  by (simp add: quote_letters_def)

lemma quote_letters_None: "map_of quote_letters c = None \<Longrightarrow> c \<noteq> CHR 0x22 \<and> c \<noteq> CHR 0x5C"
  by (auto simp: quote_letters_def)

lemma quote_char_hd: "\<exists>b bs. quote_char c = b # bs \<and> b \<noteq> CHR 0x22"
  using quote_letters_None by (auto simp: quote_char_def split: option.splits)

lemma quote_char_prefix_free:
  assumes "quote_char c @ x = quote_char d @ y"
  shows "c = d \<and> x = y"
proof -
  have hex: "hex_byte (of_char c) @ x = hex_byte (of_char d) @ y \<Longrightarrow> c = d \<and> x = y"
    using hex_byte_inj [of "of_char c" "of_char d"] of_char_word_inj [of c d] by (auto simp: hex_byte_def)
  show ?thesis
    using assms hex quote_letters_inj [of c _ d] quote_letters_not_x quote_letters_None [of c] quote_letters_None [of d]
    unfolding quote_char_def by (auto split: option.splits if_splits)
qed

lemma quoted_ends:
  "concat (map quote_char s) @ CHR 0x22 # x = concat (map quote_char t) @ CHR 0x22 # y \<Longrightarrow> s = t \<and> x = y"
proof (induction s arbitrary: t)
  case Nil
  then show ?case
  proof (cases t)
    case (Cons d t')
    with Nil quote_char_hd [of d] show ?thesis by auto
  qed auto
next
  case (Cons c s)
  then show ?case
  proof (cases t)
    case (Cons d t')
    with Cons.prems have "quote_char c @ concat (map quote_char s) @ CHR 0x22 # x =
        quote_char d @ concat (map quote_char t') @ CHR 0x22 # y" by simp
    from quote_char_prefix_free [OF this] Cons.IH [of t'] Cons show ?thesis by simp
  next
    case Nil
    with Cons.prems quote_char_hd [of c] show ?thesis by auto
  qed
qed

section \<open>Times\<close>

abbreviation Second :: int where "Second \<equiv> 1000000000"

text \<open>\<^verbatim>\<open>Time.Sub\<close> saturates.\<close>

definition time_Sub :: "int \<Rightarrow> int \<Rightarrow> int" where
  "time_Sub t u = max (- (2 ^ 63)) (min (2 ^ 63 - 1) (t - u))"

definition leap :: "nat \<Rightarrow> bool" where
  "leap y = (4 dvd y \<and> (\<not> 100 dvd y \<or> 400 dvd y))"

definition year_len :: "nat \<Rightarrow> nat" where
  "year_len y = (if leap y then 366 else 365)"

definition month_len :: "nat \<Rightarrow> nat \<Rightarrow> nat" where
  "month_len y m = (if m = 2 then (if leap y then 29 else 28) else if m \<in> {4, 6, 9, 11} then 30 else 31)"

text \<open>The days before a year of the proleptic Gregorian calendar and before a month of a year.\<close>

definition days_before_year :: "nat \<Rightarrow> nat" where
  "days_before_year y = 365 * y + (y + 3) div 4 + (y + 399) div 400 - (y + 99) div 100"

fun days_before_month :: "nat \<Rightarrow> nat \<Rightarrow> nat" where
  "days_before_month y 0 = 0"
| "days_before_month y (Suc 0) = 0"
| "days_before_month y (Suc (Suc m)) = days_before_month y (Suc m) + month_len y (Suc m)"

text \<open>The year and month that a day falls in, and its number there.\<close>

function split_year :: "nat \<Rightarrow> nat \<Rightarrow> nat \<times> nat" where
  "split_year y d = (if d < year_len y then (y, d) else split_year (Suc y) (d - year_len y))"
  by auto
termination by (relation "measure snd") (auto simp: year_len_def)

function split_month :: "nat \<Rightarrow> nat \<Rightarrow> nat \<Rightarrow> nat \<times> nat" where
  "split_month y m d = (if d < month_len y m then (m, d) else split_month y (Suc m) (d - month_len y m))"
  by auto
termination by (relation "measure (snd \<circ> snd)") (auto simp: month_len_def)

declare split_year.simps [simp del] split_month.simps [simp del]

definition pad2 :: "nat \<Rightarrow> string" where
  "pad2 n = [char_of (48 + n div 10), char_of (48 + n mod 10)]"

definition pad4 :: "nat \<Rightarrow> string" where
  "pad4 n = (if n < 10000 then pad2 (n div 100) @ pad2 (n mod 100) else nat_digits n)"

text \<open>\<^verbatim>\<open>t.UTC().Format(time.RFC3339)\<close> for a time that is not before 1970.\<close>

definition time_Format :: "int \<Rightarrow> string" where
  "time_Format t =
     (let s = nat (t div Second);
          (y, r) = split_year 1970 (s div 86400);
          (m, d) = split_month y 1 r;
          z = s mod 86400
      in pad4 y @ ''-'' @ pad2 m @ ''-'' @ pad2 (d + 1) @ ''T'' @
         pad2 (z div 3600) @ '':'' @ pad2 (z div 60 mod 60) @ '':'' @ pad2 (z mod 60) @ ''Z'')"

text \<open>Fields of digits, with the bounds of the field.\<close>

definition parse_field :: "nat \<Rightarrow> nat \<Rightarrow> nat \<Rightarrow> string \<Rightarrow> (nat \<times> string) option" where
  "parse_field w lo hi s =
     (if w \<le> length s \<and> list_all is_digit (take w s) \<and> lo \<le> dec_val (take w s) \<and> dec_val (take w s) \<le> hi
      then Some (dec_val (take w s), drop w s) else None)"

definition parse_char :: "char \<Rightarrow> string \<Rightarrow> string option" where
  "parse_char c s = (case s of x # r \<Rightarrow> if x = c then Some r else None | [] \<Rightarrow> None)"

text \<open>The fraction of a second, in nanoseconds.\<close>

definition parse_fraction :: "string \<Rightarrow> nat \<times> string" where
  "parse_fraction s =
     (case parse_char CHR ''.'' s of None \<Rightarrow> (0, s)
      | Some r \<Rightarrow> let ds = takeWhile is_digit r in
          if ds = [] then (0, s)
          else (dec_val (take 9 ds) * 10 ^ (9 - length (take 9 ds)), drop (length ds) r))"

text \<open>The offset of the time zone, in seconds.\<close>

definition parse_offset :: "string \<Rightarrow> int option" where
  "parse_offset s =
     (if s = ''Z'' then Some 0
      else case s of [] \<Rightarrow> None | c # r \<Rightarrow>
        Option.bind (parse_field 2 0 23 r) (\<lambda>(h, r). Option.bind (parse_char CHR '':'' r) (\<lambda>r.
        Option.bind (parse_field 2 0 59 r) (\<lambda>(m, r).
          if r \<noteq> [] then None
          else if c = CHR ''+'' then Some (int (h * 3600 + m * 60))
          else if c = CHR ''-'' then Some (- int (h * 3600 + m * 60)) else None))))"

definition time_Parse :: "string \<Rightarrow> int option" where
  "time_Parse s =
     Option.bind (parse_field 4 0 9999 s) (\<lambda>(y, s). Option.bind (parse_char CHR ''-'' s) (\<lambda>s.
     Option.bind (parse_field 2 1 12 s) (\<lambda>(m, s). Option.bind (parse_char CHR ''-'' s) (\<lambda>s.
     Option.bind (parse_field 2 1 (month_len y m) s) (\<lambda>(d, s). Option.bind (parse_char CHR ''T'' s) (\<lambda>s.
     Option.bind (parse_field 2 0 23 s) (\<lambda>(hh, s). Option.bind (parse_char CHR '':'' s) (\<lambda>s.
     Option.bind (parse_field 2 0 59 s) (\<lambda>(mm, s). Option.bind (parse_char CHR '':'' s) (\<lambda>s.
     Option.bind (parse_field 2 0 59 s) (\<lambda>(ss, s). case parse_fraction s of (ns, s) \<Rightarrow>
     Option.bind (parse_offset s) (\<lambda>off.
       Some ((int (days_before_year y + days_before_month y m + (d - 1)) - 719528) * 86400 * Second +
         (int (hh * 3600 + mm * 60 + ss) - off) * Second + int ns)))))))))))))"

subsection \<open>Round trip\<close>

lemma div_step: "0 < k \<Longrightarrow> (Suc y + (k - 1)) div k = (y + (k - 1)) div k + (if k dvd y then 1 else 0)"
  using div_Suc [of "y + (k - 1)" k] by (simp add: dvd_eq_mod_eq_0)

lemma days_before_year_Suc: "days_before_year (Suc y) = days_before_year y + year_len y"
proof -
  define a b c where "a = (y + 3) div 4" and "b = (y + 99) div 100" and "c = (y + 399) div 400"
  have nxt: "(Suc y + 3) div 4 = a + (if 4 dvd y then 1 else 0)"
    "(Suc y + 99) div 100 = b + (if 100 dvd y then 1 else 0)"
    "(Suc y + 399) div 400 = c + (if 400 dvd y then 1 else 0)"
    using div_step [of 4 y] div_step [of 100 y] div_step [of 400 y] by (simp_all add: a_def b_def c_def)
  have le: "b \<le> a"
  proof -
    have "100 * b \<le> y + 99" by (simp add: b_def)
    then have "b * 4 \<le> y + 3" by arith
    then show ?thesis by (simp add: a_def less_eq_div_iff_mult_less_eq)
  qed
  have "(400::nat) dvd y \<longrightarrow> 100 dvd y" "(100::nat) dvd y \<longrightarrow> 4 dvd y"
    by (auto intro: dvd_trans [of 100 400] dvd_trans [of 4 100])
  moreover have "days_before_year y = 365 * y + a + c - b"
    "days_before_year (Suc y) = 365 * Suc y + (a + (if 4 dvd y then 1 else 0)) + (c + (if 400 dvd y then 1 else 0)) -
       (b + (if 100 dvd y then 1 else 0))"
    unfolding days_before_year_def nxt by (simp_all only: a_def b_def c_def)
  ultimately show ?thesis
    using le by (cases "4 dvd y"; cases "100 dvd y"; cases "400 dvd y") (simp_all add: year_len_def leap_def)
qed

lemma days_before_year_mono: "y \<le> z \<Longrightarrow> days_before_year y \<le> days_before_year z"
  by (induction rule: dec_induct) (auto simp: days_before_year_Suc)

lemma split_year_spec:
  "split_year y d = (y', r) \<Longrightarrow> days_before_year y' + r = days_before_year y + d \<and> r < year_len y'"
proof (induction y d rule: split_year.induct)
  case (1 y d)
  show ?case
  proof (cases "d < year_len y")
    case False
    with 1 have "split_year (Suc y) (d - year_len y) = (y', r)" by (simp add: split_year.simps [of y d])
    from 1(1) [OF False this] False show ?thesis by (simp add: days_before_year_Suc)
  qed (use 1(2) in \<open>simp add: split_year.simps [of y d]\<close>)
qed

lemma days_before_month_Suc: "1 \<le> m \<Longrightarrow> days_before_month y (Suc m) = days_before_month y m + month_len y m"
  by (cases m) auto

lemma days_before_month_mono: "m \<le> n \<Longrightarrow> 1 \<le> m \<Longrightarrow> days_before_month y m \<le> days_before_month y n"
  by (induction rule: dec_induct) (auto simp: days_before_month_Suc)

lemma days_before_month_year: "days_before_month y 13 = year_len y"
  by (simp add: numeral_eq_Suc month_len_def year_len_def)

lemma split_month_spec:
  "split_month y m d = (m', r) \<Longrightarrow> 1 \<le> m \<Longrightarrow>
    days_before_month y m' + r = days_before_month y m + d \<and> r < month_len y m' \<and> m \<le> m'"
proof (induction y m d rule: split_month.induct)
  case (1 y m d)
  show ?case
  proof (cases "d < month_len y m")
    case False
    with 1 have "split_month y (Suc m) (d - month_len y m) = (m', r)" by (simp add: split_month.simps [of y m d])
    from 1(1) [OF False this] False 1(3) show ?thesis by (simp add: days_before_month_Suc)
  qed (use 1(2) in \<open>simp add: split_month.simps [of y m d]\<close>)
qed

lemma split_month_le:
  assumes "split_month y 1 d = (m, r)" "d < year_len y"
  shows "m \<le> 12"
proof (rule ccontr)
  assume "\<not> m \<le> 12"
  then have "days_before_month y 13 \<le> days_before_month y m" by (intro days_before_month_mono) auto
  with split_month_spec [OF assms(1)] assms(2) show False by (simp add: days_before_month_year)
qed

lemma pad2_digits: "n < 100 \<Longrightarrow> list_all is_digit (pad2 n) \<and> dec_val (pad2 n) = n \<and> length (pad2 n) = 2"
  using digit_char [of "n div 10"] digit_char [of "n mod 10"] by (simp add: pad2_def dec_val_def)

lemma pad4_digits: "n < 10000 \<Longrightarrow> list_all is_digit (pad4 n) \<and> dec_val (pad4 n) = n \<and> length (pad4 n) = 4"
  using digit_char [of "n div 100 div 10"] digit_char [of "n div 100 mod 10"] digit_char [of "n mod 100 div 10"]
    digit_char [of "n mod 100 mod 10"]
  by (simp add: pad4_def pad2_def dec_val_def)

lemma parse_field_pads:
  "n < 100 \<Longrightarrow> lo \<le> n \<Longrightarrow> n \<le> hi \<Longrightarrow> parse_field 2 lo hi (pad2 n @ s) = Some (n, s)"
  "n < 10000 \<Longrightarrow> lo \<le> n \<Longrightarrow> n \<le> hi \<Longrightarrow> parse_field 4 lo hi (pad4 n @ s) = Some (n, s)"
  using pad2_digits [of n] pad4_digits [of n] by (auto simp: parse_field_def)

lemma parse_char_Cons: "parse_char c (c # s) = Some s"
  by (simp add: parse_char_def)

lemma time_Parse_Format:
  assumes "0 \<le> t" "t < 253402300800 * Second"
  shows "time_Parse (time_Format t) = Some (t div Second * Second)"
proof -
  define s where "s = nat (t div Second)"
  obtain y r where y: "split_year 1970 (s div 86400) = (y, r)" by (cases "split_year 1970 (s div 86400)")
  obtain m d where m: "split_month y 1 r = (m, d)" by (cases "split_month y 1 r")
  define z where "z = s mod 86400"
  have s: "s < 253402300800" using assms by (simp add: s_def nat_less_iff div_less_iff_less_mult) 
  have base: "days_before_year 1970 = 719528" "days_before_year 10000 = 3652425" by (simp_all add: days_before_year_def)
  note ys = split_year_spec [OF y]
  have "y < 10000"
  proof (rule ccontr)
    assume "\<not> y < 10000"
    then have "3652425 \<le> days_before_year y" using days_before_year_mono [of 10000 y] base by simp
    moreover have "s div 86400 < 2932897" using s by (simp add: div_less_iff_less_mult)
    ultimately show False using ys base by simp
  qed
  note ms = split_month_spec [OF m] and m12 = split_month_le [OF m]
  have "month_len y m \<le> 31" by (simp add: month_len_def)
  then have d: "d + 1 < 100" "1 \<le> d + 1" "d + 1 \<le> month_len y m" using ms by auto
  have z: "z div 3600 < 24" "z div 60 mod 60 < 60" "z mod 60 < 60" by (simp_all add: z_def div_less_iff_less_mult)
  have zsum: "z div 3600 * 3600 + z div 60 mod 60 * 60 + z mod 60 = z"
  proof -
    have "z div 3600 = z div 60 div 60" by (simp add: div_mult2_eq [symmetric])
    moreover have "z div 60 div 60 * 60 + z div 60 mod 60 = z div 60" "z div 60 * 60 + z mod 60 = z" by simp_all
    ultimately show ?thesis by linarith
  qed
  have f: "time_Format t = pad4 y @ CHR ''-'' # pad2 m @ CHR ''-'' # pad2 (d + 1) @ CHR ''T'' #
      pad2 (z div 3600) @ CHR '':'' # pad2 (z div 60 mod 60) @ CHR '':'' # pad2 (z mod 60) @ ''Z''"
    using m by (simp add: time_Format_def s_def [symmetric] y z_def Let_def)
  have "time_Parse (time_Format t) = Some ((int (days_before_year y + days_before_month y m + d) - 719528) * 86400 * Second +
      int (z div 3600 * 3600 + z div 60 mod 60 * 60 + z mod 60) * Second)"
    unfolding f time_Parse_def using \<open>y < 10000\<close> ms m12 ys d z
    by (simp add: parse_field_pads parse_char_Cons parse_fraction_def parse_char_def parse_offset_def)
  moreover have "int (days_before_year y + days_before_month y m + d) - 719528 = int (s div 86400)"
    using ys ms base by simp
  moreover have "int (s div 86400) * 86400 + int z = int s" by (simp add: z_def zdiv_int zmod_int)
  moreover have "int s = t div Second" using assms by (simp add: s_def)
  ultimately show ?thesis by (simp only: zsum) (simp add: algebra_simps flip: distrib_left)
qed

end
