(* ===== verification/Tokens.thy ===== *)
theory Tokens
  imports Pods Go_Std
begin

text \<open>
  \<^verbatim>\<open>k3k-kubelet/provider/token.go\<close>: service account tokens of the virtual cluster. A pod that runs on the host
  must reach the API server of the virtual cluster, so the kubelet requests tokens there, stores them in
  secrets of the host namespace, mounts these in place of the token volumes and refreshes them.

  The token API and the clock are part of the environment: \<^verbatim>\<open>CreateToken\<close> may answer anything and \<^verbatim>\<open>Now\<close>
  reads the time. Log messages are left out.
\<close>

abbreviation serviceAccountTokenMountPath :: string where
  "serviceAccountTokenMountPath \<equiv> ''/var/run/secrets/kubernetes.io/serviceaccount''"
abbreviation kubeAccessTokenExpirationSeconds :: int where "kubeAccessTokenExpirationSeconds \<equiv> 3607"
abbreviation tokenRefreshAfterAnnotation :: string where "tokenRefreshAfterAnnotation \<equiv> ''k3k.io/token-refresh-after''"
abbreviation maxTokenRefreshPeriod :: int where "maxTokenRefreshPeriod \<equiv> 24 * 3600 * Second"
abbreviation RootCACertConfigMapName :: string where "RootCACertConfigMapName \<equiv> ''kube-root-ca.crt''"
abbreviation ServiceAccountRootCAKey :: string where "ServiceAccountRootCAKey \<equiv> ''ca.crt''"
abbreviation ServiceAccountTokenKey :: string where "ServiceAccountTokenKey \<equiv> ''token''"
abbreviation ServiceAccountNamespaceKey :: string where "ServiceAccountNamespaceKey \<equiv> ''namespace''"

section \<open>The environment\<close>

record token_request =
  tq_Audiences :: "string list"
  tq_ExpirationSeconds :: "int option"
  tq_BoundName :: string
  tq_BoundUID :: string

record token_response =
  tk_Token :: string
  tk_ExpirationTimestamp :: int

record 'e provider_api =
  pa_ClusterR :: "('e, cluster) resource"
  pa_PodR :: "('e, pod) resource"
  pa_SecretR :: "('e, secret) resource"
  pa_ConfigMapR :: "('e, config_map) resource"
  pa_CreateToken :: "namespaced_name \<Rightarrow> token_request \<Rightarrow> 'e \<Rightarrow> (goerr + token_response) \<times> 'e"
  pa_UpdateEphemeralContainers :: "namespaced_name \<Rightarrow> pod \<Rightarrow> 'e \<Rightarrow> (goerr + pod) \<times> 'e"
  pa_Now :: "'e \<Rightarrow> int"

definition time_Now :: "'e provider_api \<Rightarrow> ('e, int) io" where
  "time_Now A = (\<lambda>w. (pa_Now A (w_env w), w))"

section \<open>Names\<close>

definition to_lower :: "char \<Rightarrow> char" where
  "to_lower c = (let n = (of_char c :: nat) in if 65 \<le> n \<and> n \<le> 90 then char_of (n + 32) else c)"

definition valid_name_char :: "char \<Rightarrow> bool" where
  "valid_name_char c = (lower_or_digit c \<or> c = CHR ''.'' \<or> c = CHR ''-'')"

text \<open>Every run of other characters becomes one hyphen; the flag is set inside a run.\<close>

fun replace_invalid :: "bool \<Rightarrow> string \<Rightarrow> string" where
  "replace_invalid b [] = []"
| "replace_invalid b (c # s) =
     (if valid_name_char c then c # replace_invalid False s
      else if b then replace_invalid True s else CHR ''-'' # replace_invalid True s)"

definition strings_Trim :: "string \<Rightarrow> char set \<Rightarrow> string" where
  "strings_Trim s cs = rev (dropWhile (\<lambda>c. c \<in> cs) (rev (dropWhile (\<lambda>c. c \<in> cs) s)))"

definition sanitizeNameComponent :: "string \<Rightarrow> string" where
  "sanitizeNameComponent s = strings_Trim (replace_invalid False (map to_lower s)) {CHR ''-'', CHR ''.''}"

definition kubeAccessTokenSecretName :: "string \<Rightarrow> string" where
  "kubeAccessTokenSecretName podName = SafeConcatNameWithPrefix [podName, kubeAPIAccessPrefix]"

definition token_expiration :: "token_projection \<Rightarrow> string" where
  "token_expiration token = (case tp_ExpirationSeconds token of None \<Rightarrow> '''' | Some e \<Rightarrow> strconv_FormatInt e)"

definition token_attributes :: "string \<Rightarrow> token_projection \<Rightarrow> string" where
  "token_attributes podName token =
     strconv_Quote podName @ ''/'' @ strconv_Quote (tp_Audience token) @ ''/'' @
     strconv_Quote (token_expiration token) @ ''/'' @ strconv_Quote (tp_Path token)"

definition generateTokenSecretName :: "string \<Rightarrow> token_projection \<Rightarrow> string" where
  "generateTokenSecretName podName token =
     (let nameComponents = [podName];
          nameComponents = (if tp_Audience token \<noteq> '''' then nameComponents @ [sanitizeNameComponent (tp_Audience token)]
            else nameComponents);
          nameComponents = (if tp_ExpirationSeconds token \<noteq> None then nameComponents @ [token_expiration token]
            else nameComponents);
          nameComponents = (if tp_Path token \<noteq> '''' then nameComponents @ [sanitizeNameComponent (tp_Path token)]
            else nameComponents);
          digest = hex_EncodeToString (sha256_Sum256 (bytes_of (token_attributes podName token)))
      in SafeConcatNameWithPrefix (nameComponents @ [take 6 digest]))"

section \<open>Refresh times\<close>

definition tokenRefreshAfter :: "int \<Rightarrow> int \<Rightarrow> int" where
  "tokenRefreshAfter now expiration =
     (let refreshPeriod = min (wrap64 (time_Sub expiration now * 8) sdiv 10) maxTokenRefreshPeriod
      in now + refreshPeriod)"

definition tokenSecretAnnotations :: "token_response \<Rightarrow> int \<Rightarrow> smap" where
  "tokenSecretAnnotations tokenResp now =
     fmap_of_list [(tokenRefreshAfterAnnotation, time_Format (tokenRefreshAfter now (tk_ExpirationTimestamp tokenResp)))]"

definition tokenRefreshDue :: "secret \<Rightarrow> int \<Rightarrow> bool" where
  "tokenRefreshDue hostSecret now =
     (case time_Parse (mindex (Annotations (sec_meta hostSecret)) tokenRefreshAfterAnnotation) of
        None \<Rightarrow> True | Some refreshAfter \<Rightarrow> \<not> now < refreshAfter)"

section \<open>Requests\<close>

definition requestToken :: "'e provider_api \<Rightarrow> pod \<Rightarrow> string \<Rightarrow> int option \<Rightarrow> ('e, goerr + token_response) io" where
  "requestToken A virtualPod audience expirationSeconds =
     (let namespace = Namespace (pod_meta virtualPod);
          serviceAccountName = pod_ServiceAccountName (pod_Spec virtualPod);
          audiences = (if audience \<noteq> '''' then [audience] else [])
      in log_call Virt VCreateToken KServiceAccount (meta_of serviceAccountName namespace) []
           (pa_CreateToken A \<lparr>nn_Namespace = namespace, nn_Name = serviceAccountName\<rparr>
             \<lparr>tq_Audiences = audiences, tq_ExpirationSeconds = expirationSeconds,
              tq_BoundName = Name (pod_meta virtualPod), tq_BoundUID = UID (pod_meta virtualPod)\<rparr>))"

definition token_secret :: "object_meta \<Rightarrow> smap \<Rightarrow> smap \<Rightarrow> secret" where
  "token_secret m annotations data =
     \<lparr>sec_meta = m\<lparr>Annotations := Some annotations\<rparr>, sec_Type = '''', sec_Data = Some data, sec_Immutable = None\<rparr>"

definition kubeAccessTokenSecret :: "'e provider_api \<Rightarrow> pod \<Rightarrow> ('e, goerr + secret) io" where
  "kubeAccessTokenSecret A virtualPod =
     bindE (k_Get Virt (pa_ConfigMapR A)
       \<lparr>nn_Namespace = Namespace (pod_meta virtualPod), nn_Name = RootCACertConfigMapName\<rparr>) (\<lambda>rootCA.
     case mlookup (cm_Data rootCA) ServiceAccountRootCAKey of
       None \<Rightarrow> ret (Inl (ErrNew ''configmap has no ca.crt''))
     | Some caCert \<Rightarrow>
     bindE (requestToken A virtualPod '''' (Some kubeAccessTokenExpirationSeconds)) (\<lambda>tokenResp.
     bindS (time_Now A) (\<lambda>now.
     ret (Inr (token_secret (meta_of (kubeAccessTokenSecretName (Name (pod_meta virtualPod))) (Namespace (pod_meta virtualPod)))
       (tokenSecretAnnotations tokenResp now)
       (fmap_of_list [(ServiceAccountTokenKey, tk_Token tokenResp), (ServiceAccountRootCAKey, caCert),
         (ServiceAccountNamespaceKey, Namespace (pod_meta virtualPod))]))))))"

definition projectedTokenSecret :: "'e provider_api \<Rightarrow> token_projection \<Rightarrow> pod \<Rightarrow> ('e, goerr + secret) io" where
  "projectedTokenSecret A token virtualPod =
     bindE (requestToken A virtualPod (tp_Audience token) (tp_ExpirationSeconds token)) (\<lambda>tokenResp.
     bindS (time_Now A) (\<lambda>now.
     ret (Inr (token_secret (meta_of (generateTokenSecretName (Name (pod_meta virtualPod)) token) (Namespace (pod_meta virtualPod)))
       (tokenSecretAnnotations tokenResp now) (fmap_of_list [(tp_Path token, tk_Token tokenResp)])))))"

definition translateAndCreateHostTokenSecret :: "provider \<Rightarrow> 'e provider_api \<Rightarrow> secret \<Rightarrow> ('e, goerr + secret) io" where
  "translateAndCreateHostTokenSecret p A virtualSecret =
     (let hostSecret = virtualSecret\<lparr>sec_Type := '''', sec_meta := TranslateTo (p_translator p) (sec_meta virtualSecret)\<rparr>;
          data = sec_Data hostSecret;
          annotations = minit (Annotations (sec_meta hostSecret));
          mutate = (\<lambda>s. Inr (s\<lparr>sec_Data := data,
            sec_meta := (sec_meta s)\<lparr>Annotations := Some (fmadd (minit (Annotations (sec_meta s))) annotations)\<rparr>\<rparr>))
      in k_CreateOrUpdate Host (pa_SecretR A) hostSecret mutate)"

section \<open>Volumes of a pod\<close>

definition hasKubeAccessVolume :: "pod \<Rightarrow> bool" where
  "hasKubeAccessVolume pod = list_ex (\<lambda>v. strings_HasPrefix (vo_Name v) kubeAPIAccessPrefix) (pod_Volumes (pod_Spec pod))"

text \<open>The loops that cut the first match out of a slice and break.\<close>

fun remove_first :: "('a \<Rightarrow> bool) \<Rightarrow> 'a list \<Rightarrow> 'a list" where
  "remove_first P [] = []"
| "remove_first P (x # xs) = (if P x then xs else x # remove_first P xs)"

definition map_containers :: "(container \<Rightarrow> container) \<Rightarrow> pod_spec \<Rightarrow> pod_spec" where
  "map_containers f s =
     s\<lparr>pod_InitContainers := map f (pod_InitContainers s), pod_Containers := map f (pod_Containers s),
       pod_EphemeralContainers := map f (pod_EphemeralContainers s)\<rparr>"

definition removeKubeAccessVolume :: "pod \<Rightarrow> pod" where
  "removeKubeAccessVolume pod =
     (let spec = pod_Spec pod;
          spec = spec\<lparr>pod_Volumes := remove_first (\<lambda>v. strings_HasPrefix (vo_Name v) kubeAPIAccessPrefix) (pod_Volumes spec)\<rparr>
      in pod\<lparr>pod_Spec := map_containers (\<lambda>c. c\<lparr>ct_VolumeMounts :=
           remove_first (\<lambda>m. strings_HasPrefix (vm_Name m) kubeAPIAccessPrefix) (ct_VolumeMounts c)\<rparr>) spec\<rparr>)"

definition tokenVolumeName :: string where
  "tokenVolumeName = SafeConcatNameWithPrefix [kubeAPIAccessPrefix]"

definition addKubeAccessVolume :: "pod \<Rightarrow> string \<Rightarrow> pod" where
  "addKubeAccessVolume pod hostSecretName =
     (let spec = pod_Spec pod;
          spec = spec\<lparr>pod_Volumes := pod_Volumes spec @
            [(empty_volume tokenVolumeName)\<lparr>vo_Secret := Some \<lparr>ns_Name = hostSecretName, ns_rest = ''''\<rparr>\<rparr>]\<rparr>
      in pod\<lparr>pod_Spec := map_containers (\<lambda>c. c\<lparr>ct_VolumeMounts := ct_VolumeMounts c @
           [\<lparr>vm_Name = tokenVolumeName, vm_MountPath = serviceAccountTokenMountPath, vm_SubPath = '''', vm_rest = ''''\<rparr>]\<rparr>) spec\<rparr>)"

section \<open>Transformation of the tokens\<close>

text \<open>The two loops of \<^verbatim>\<open>transformProjectedTokens\<close>: over the sources of a volume and over the volumes. Both return
  what they change and the names of the host secrets, and stop at the first error.\<close>

fun transform_sources :: "provider \<Rightarrow> 'e provider_api \<Rightarrow> pod \<Rightarrow> projection list \<Rightarrow>
    ('e, goerr + projection list \<times> string list) io" where
  "transform_sources p A virtualPod [] = ret (Inr ([], []))"
| "transform_sources p A virtualPod (source # sources) =
     bindE (case pj_ServiceAccountToken source of None \<Rightarrow> ret (Inr (source, []))
       | Some token \<Rightarrow>
         bindE (projectedTokenSecret A token virtualPod) (\<lambda>projectedSecret.
         bindE (translateAndCreateHostTokenSecret p A projectedSecret) (\<lambda>hostSecret.
         ret (Inr (source\<lparr>pj_ServiceAccountToken := None,
           pj_Secret := Some \<lparr>sp_Name = Name (sec_meta hostSecret), sp_Items = [], sp_Optional = None\<rparr>\<rparr>,
           [Name (sec_meta hostSecret)]))))) (\<lambda>(source, names).
     bindE (transform_sources p A virtualPod sources) (\<lambda>(sources, names').
     ret (Inr (source # sources, names @ names'))))"

fun transform_token_volumes :: "provider \<Rightarrow> 'e provider_api \<Rightarrow> pod \<Rightarrow> volume list \<Rightarrow>
    ('e, goerr + volume list \<times> string list) io" where
  "transform_token_volumes p A virtualPod [] = ret (Inr ([], []))"
| "transform_token_volumes p A virtualPod (volume # volumes) =
     bindE (if strings_HasPrefix (vo_Name volume) kubeAPIAccessPrefix then ret (Inr (volume, []))
       else case vo_Projected volume of None \<Rightarrow> ret (Inr (volume, []))
       | Some sources \<Rightarrow> bindE (transform_sources p A virtualPod sources) (\<lambda>(sources, names).
           ret (Inr (volume\<lparr>vo_Projected := Some sources\<rparr>, names)))) (\<lambda>(volume, names).
     bindE (transform_token_volumes p A virtualPod volumes) (\<lambda>(volumes, names').
     ret (Inr (volume # volumes, names @ names'))))"

definition transformProjectedTokens :: "provider \<Rightarrow> 'e provider_api \<Rightarrow> pod \<Rightarrow> pod \<Rightarrow> ('e, goerr + pod \<times> string list) io" where
  "transformProjectedTokens p A virtualPod hostPod =
     bindE (transform_token_volumes p A virtualPod (pod_Volumes (pod_Spec hostPod))) (\<lambda>(volumes, names).
     ret (Inr (hostPod\<lparr>pod_Spec := (pod_Spec hostPod)\<lparr>pod_Volumes := volumes\<rparr>\<rparr>, names)))"

definition transformKubeAccessToken :: "provider \<Rightarrow> 'e provider_api \<Rightarrow> pod \<Rightarrow> pod \<Rightarrow> ('e, goerr + pod \<times> string) io" where
  "transformKubeAccessToken p A virtualPod hostPod =
     (if \<not> hasKubeAccessVolume virtualPod then ret (Inr (hostPod, ''''))
      else
        bindE (kubeAccessTokenSecret A virtualPod) (\<lambda>virtualSecret.
        bindE (translateAndCreateHostTokenSecret p A virtualSecret) (\<lambda>hostSecret.
        ret (Inr (addKubeAccessVolume (removeKubeAccessVolume hostPod) (Name (sec_meta hostSecret)),
          Name (sec_meta hostSecret))))))"

definition transformTokens :: "provider \<Rightarrow> 'e provider_api \<Rightarrow> pod \<Rightarrow> pod \<Rightarrow> ('e, goerr + pod \<times> string list) io" where
  "transformTokens p A virtualPod hostPod =
     (let hostPod = hostPod\<lparr>pod_Spec := (pod_Spec hostPod)\<lparr>pod_ServiceAccountName := '''',
            pod_DeprecatedServiceAccount := '''', pod_AutomountServiceAccountToken := Some False\<rparr>\<rparr>
      in bindE (transformProjectedTokens p A virtualPod hostPod) (\<lambda>(hostPod, hostSecretNames).
         bindE (transformKubeAccessToken p A virtualPod hostPod) (\<lambda>(hostPod, hostSecretName).
         ret (Inr (hostPod, if hostSecretName \<noteq> '''' then hostSecretNames @ [hostSecretName] else hostSecretNames)))))"

section \<open>Owners and refresh\<close>

definition setTokenSecretOwner :: "util \<Rightarrow> 'e provider_api \<Rightarrow> pod \<Rightarrow> string \<Rightarrow> ('e, goerr + unit) io" where
  "setTokenSecretOwner U A hostPod name =
     (let hostSecret = \<lparr>sec_meta = meta_of name (Namespace (pod_meta hostPod)), sec_Type = '''', sec_Data = None,
            sec_Immutable = None\<rparr>
      in case SetOwnerReference U (pod_meta hostPod) (sec_meta hostSecret) of
           Inl err \<Rightarrow> ret (Inl err)
         | Inr m \<Rightarrow> bindE (k_Patch Host (pa_SecretR A) (hostSecret\<lparr>sec_meta := m\<rparr>) hostSecret) (\<lambda>_. ret (Inr ())))"

fun setTokenSecretsOwner_errs :: "util \<Rightarrow> 'e provider_api \<Rightarrow> pod \<Rightarrow> string list \<Rightarrow> ('e, goerr option list) io" where
  "setTokenSecretsOwner_errs U A hostPod [] = ret []"
| "setTokenSecretsOwner_errs U A hostPod (name # names) =
     bindS (setTokenSecretOwner U A hostPod name) (\<lambda>r.
     bindS (setTokenSecretsOwner_errs U A hostPod names) (\<lambda>errs. ret (err_of r # errs)))"

definition setTokenSecretsOwner :: "util \<Rightarrow> 'e provider_api \<Rightarrow> pod \<Rightarrow> string list \<Rightarrow> ('e, goerr + unit) io" where
  "setTokenSecretsOwner U A hostPod hostSecretNames =
     bindS (setTokenSecretsOwner_errs U A hostPod hostSecretNames) (\<lambda>errs. ret (of_err (errors_Join errs)))"

definition refreshToken :: "util \<Rightarrow> provider \<Rightarrow> 'e provider_api \<Rightarrow> pod \<Rightarrow> string \<Rightarrow> string \<Rightarrow> ('e, goerr + secret) io \<Rightarrow>
    ('e, goerr + unit) io" where
  "refreshToken U p A hostPod namespace name tokenSecret =
     bindS (k_Get Host (pa_SecretR A)
       \<lparr>nn_Namespace = p_clusterNamespace p, nn_Name = TranslateName (p_translator p) namespace name\<rparr>) (\<lambda>r. case r of
       Inl err \<Rightarrow> ret (if IsNotFound err then Inr () else Inl err)
     | Inr hostSecret \<Rightarrow>
     bindS (if list_ex (\<lambda>r. or_UID r = UID (pod_meta hostPod)) (OwnerReferences (sec_meta hostSecret)) then ret []
       else bindS (setTokenSecretOwner U A hostPod (Name (sec_meta hostSecret))) (\<lambda>r. ret [err_of r])) (\<lambda>errs.
     bindS (time_Now A) (\<lambda>now.
     if \<not> tokenRefreshDue hostSecret now then ret (of_err (errors_Join errs))
     else
       bindS tokenSecret (\<lambda>r. case r of Inl err \<Rightarrow> ret (of_err (errors_Join (errs @ [Some err])))
       | Inr virtualSecret \<Rightarrow>
       bindS (translateAndCreateHostTokenSecret p A virtualSecret) (\<lambda>r. case r of
         Inl err \<Rightarrow> ret (of_err (errors_Join (errs @ [Some err])))
       | Inr _ \<Rightarrow> ret (of_err (errors_Join errs)))))))"

text \<open>The tokens of the projected volumes of a pod, in the order of the loops.\<close>

definition projected_tokens :: "pod \<Rightarrow> token_projection list" where
  "projected_tokens pod =
     concat (map (\<lambda>volume. if strings_HasPrefix (vo_Name volume) kubeAPIAccessPrefix then []
       else case vo_Projected volume of None \<Rightarrow> [] | Some sources \<Rightarrow> List.map_filter pj_ServiceAccountToken sources)
       (pod_Volumes (pod_Spec pod)))"

fun refresh_projected :: "util \<Rightarrow> provider \<Rightarrow> 'e provider_api \<Rightarrow> pod \<Rightarrow> pod \<Rightarrow> token_projection list \<Rightarrow>
    ('e, goerr option list) io" where
  "refresh_projected U p A virtualPod hostPod [] = ret []"
| "refresh_projected U p A virtualPod hostPod (token # tokens) =
     bindS (refreshToken U p A hostPod (Namespace (pod_meta virtualPod))
       (generateTokenSecretName (Name (pod_meta virtualPod)) token) (projectedTokenSecret A token virtualPod)) (\<lambda>r.
     bindS (refresh_projected U p A virtualPod hostPod tokens) (\<lambda>errs. ret (err_of r # errs)))"

definition refreshPodTokens :: "util \<Rightarrow> provider \<Rightarrow> 'e provider_api \<Rightarrow> pod \<Rightarrow> pod \<Rightarrow> ('e, goerr + unit) io" where
  "refreshPodTokens U p A virtualPod hostPod =
     bindS (if hasKubeAccessVolume virtualPod
       then bindS (refreshToken U p A hostPod (Namespace (pod_meta virtualPod))
           (kubeAccessTokenSecretName (Name (pod_meta virtualPod))) (kubeAccessTokenSecret A virtualPod)) (\<lambda>r. ret [err_of r])
       else ret []) (\<lambda>errs.
     bindS (refresh_projected U p A virtualPod hostPod (projected_tokens virtualPod)) (\<lambda>errs'.
     ret (of_err (errors_Join (errs @ errs')))))"

definition listHostPods :: "provider \<Rightarrow> 'e provider_api \<Rightarrow> ('e, goerr + pod list) io" where
  "listHostPods p A =
     k_List Host (pa_PodR A) \<lparr>lo_Namespace = p_clusterNamespace p,
       lo_Reqs = [ReqEquals ClusterNameLabel (p_clusterName p), ReqEquals AgentNameLabel (p_agentHostname p)]\<rparr>"

text \<open>The body of the loop of \<^verbatim>\<open>refreshTokens\<close>, for one host pod; errors are only logged.\<close>

definition refresh_host_pod :: "util \<Rightarrow> provider \<Rightarrow> 'e provider_api \<Rightarrow> pod \<Rightarrow> ('e, goerr + unit) io" where
  "refresh_host_pod U p A hostPod =
     (if DeletionTimestamp (pod_meta hostPod) \<noteq> None \<or> pod_Phase (pod_Status hostPod) = ''Succeeded'' \<or>
        pod_Phase (pod_Status hostPod) = ''Failed'' then ret (Inr ())
      else
        let m = TranslateFrom (pod_meta hostPod) in
        bindS (k_Get Virt (pa_PodR A) \<lparr>nn_Namespace = Namespace m, nn_Name = Name m\<rparr>) (\<lambda>r. case r of
          Inl err \<Rightarrow> ret (Inr ())
        | Inr virtualPod \<Rightarrow>
          if DeletionTimestamp (pod_meta virtualPod) \<noteq> None then ret (Inr ())
          else bindS (refreshPodTokens U p A virtualPod hostPod) (\<lambda>_. ret (Inr ()))))"

definition refreshTokens :: "util \<Rightarrow> provider \<Rightarrow> 'e provider_api \<Rightarrow> ('e, unit) io" where
  "refreshTokens U p A =
     bindS (listHostPods p A) (\<lambda>r. case r of
       Inl err \<Rightarrow> ret ()
     | Inr hostPods \<Rightarrow> bindS (for_each hostPods (refresh_host_pod U p A)) (\<lambda>_. ret ()))"

section \<open>Names of token secrets\<close>

text \<open>
  The digest in the name of a token secret is taken of an unambiguous encoding: pods and projected tokens with the same
  encoded attributes are the same, so two secrets of different tokens share a name only when
  their digests collide.
\<close>
theorem token_attributes_injective:
  "token_attributes podName token = token_attributes podName' token' \<longleftrightarrow> podName = podName' \<and> token = token'"
proof
  assume "token_attributes podName token = token_attributes podName' token'"
  then have q: "concat (map quote_char podName) @ CHR 0x22 # CHR ''/'' # strconv_Quote (tp_Audience token) @ ''/'' @
      strconv_Quote (token_expiration token) @ ''/'' @ strconv_Quote (tp_Path token) =
    concat (map quote_char podName') @ CHR 0x22 # CHR ''/'' # strconv_Quote (tp_Audience token') @ ''/'' @
      strconv_Quote (token_expiration token') @ ''/'' @ strconv_Quote (tp_Path token')"
    by (simp add: token_attributes_def strconv_Quote_def)
  note q1 = quoted_ends [OF q]
  from q1 have q: "concat (map quote_char (tp_Audience token)) @ CHR 0x22 # CHR ''/'' #
      strconv_Quote (token_expiration token) @ ''/'' @ strconv_Quote (tp_Path token) =
    concat (map quote_char (tp_Audience token')) @ CHR 0x22 # CHR ''/'' #
      strconv_Quote (token_expiration token') @ ''/'' @ strconv_Quote (tp_Path token')"
    by (simp add: strconv_Quote_def [of "tp_Audience token"] strconv_Quote_def [of "tp_Audience token'"])
  note q2 = quoted_ends [OF q]
  from q2 have q: "concat (map quote_char (token_expiration token)) @ CHR 0x22 # CHR ''/'' # strconv_Quote (tp_Path token) =
    concat (map quote_char (token_expiration token')) @ CHR 0x22 # CHR ''/'' # strconv_Quote (tp_Path token')"
    by (simp add: strconv_Quote_def [of "token_expiration token"] strconv_Quote_def [of "token_expiration token'"])
  note q3 = quoted_ends [OF q]
  from q3 have "tp_Path token = tp_Path token'"
    using quoted_ends [of "tp_Path token" "[]" "tp_Path token'" "[]"] by (simp add: strconv_Quote_def)
  moreover have "tp_ExpirationSeconds token = tp_ExpirationSeconds token'"
    using q3 strconv_FormatInt_nonempty [symmetric]
    by (auto simp: token_expiration_def strconv_FormatInt_inj split: option.splits)
  ultimately show "podName = podName' \<and> token = token'" using q1 q2 by simp
qed simp

section \<open>Refresh\<close>

text \<open>
  C32: A token is refreshed in time: for a lifetime whose eightfold fits an int64 of nanoseconds, the stored time is at most
  80 percent of the lifetime and 24 hours ahead and not after the expiration, and the secret is due exactly
  from that time on, up to the second that the annotation keeps.
\<close>
theorem token_refresh_window:
  assumes "0 \<le> now" "now \<le> tk_ExpirationTimestamp resp" "(tk_ExpirationTimestamp resp - now) * 8 < 2 ^ 63"
    and "tk_ExpirationTimestamp resp < 253402300800 * Second"
    and "Annotations (sec_meta s) = Some (fmadd ann (tokenSecretAnnotations resp now))"
  shows "let r = tokenRefreshAfter now (tk_ExpirationTimestamp resp) in
    r = now + min ((tk_ExpirationTimestamp resp - now) * 8 div 10) maxTokenRefreshPeriod \<and>
    now \<le> r \<and> r \<le> tk_ExpirationTimestamp resp \<and> (\<forall>t. tokenRefreshDue s t \<longleftrightarrow> r div Second * Second \<le> t)"
proof -
  define life where "life = tk_ExpirationTimestamp resp - now"
  have life: "0 \<le> life" "life * 8 < 2 ^ 63" using assms(2,3) by (simp_all add: life_def)
  define r where "r = tokenRefreshAfter now (tk_ExpirationTimestamp resp)"
  have "time_Sub (tk_ExpirationTimestamp resp) now = life"
    using life by (simp add: time_Sub_def life_def)
  moreover have "wrap64 (life * 8) = life * 8" by (rule wrap64_id) (use life in simp_all)
  ultimately have r: "r = now + min (life * 8 div 10) maxTokenRefreshPeriod"
    using life by (cases "life = 0") (simp_all add: r_def tokenRefreshAfter_def signed_divide_int_def)
  then have rb: "now \<le> r" "r \<le> tk_ExpirationTimestamp resp"
    using life by (auto simp: life_def)
  moreover have "time_Parse (time_Format r) = Some (r div Second * Second)"
    by (rule time_Parse_Format) (use rb assms(1,4) in simp_all)
  then have "\<forall>t. tokenRefreshDue s t \<longleftrightarrow> r div Second * Second \<le> t"
    using assms(5) by (auto simp: tokenRefreshDue_def mindex_def tokenSecretAnnotations_def r_def [symmetric])
  ultimately show ?thesis unfolding Let_def r_def [symmetric] using r unfolding life_def by blast
qed

text \<open>A token of one hour, issued at the epoch.\<close>

definition wit_resp :: token_response where
  "wit_resp = \<lparr>tk_Token = ''t'', tk_ExpirationTimestamp = 3607 * Second\<rparr>"

definition wit_token_secret :: secret where
  "wit_token_secret = token_secret (meta_of ''s'' ''ns'') (tokenSecretAnnotations wit_resp 0) fmempty"

theorem token_refresh_window_witness:
  "tokenRefreshDue wit_token_secret (2885 * Second) \<and> \<not> tokenRefreshDue wit_token_secret (2884 * Second)"
proof -
  have "let r = tokenRefreshAfter 0 (3607 * Second) in r = 0 + min (3607 * Second * 8 div 10) maxTokenRefreshPeriod \<and> 0 \<le> r \<and>
      r \<le> 3607 * Second \<and> (\<forall>t. tokenRefreshDue wit_token_secret t \<longleftrightarrow> r div Second * Second \<le> t)"
    using token_refresh_window [of 0 wit_resp wit_token_secret fmempty]
    by (simp add: wit_resp_def wit_token_secret_def token_secret_def)
  then show ?thesis by (simp add: Let_def)
qed

text \<open>
  The longest lifetime a projected token may ask for, 2 to the 32 seconds, overflows the computation of the refresh
  time: it lies before the time the token was issued, so the token is due at once.
\<close>
theorem token_refresh_overflow:
  "tokenRefreshAfter now (now + 2 ^ 32 * Second) < now"
proof -
  have "wrap64 (time_Sub (now + 2 ^ 32 * Second) now * 8) = - 2533749779419103232"
    by (simp add: time_Sub_def wrap64_def sint_sbintrunc')
  then show ?thesis by (simp add: tokenRefreshAfter_def Let_def signed_divide_int_def)
qed

section \<open>Isolation\<close>

text \<open>
  What the token code may do for a pod: on the host, read and write secrets of the host namespace whose names are
  translated from names made of the pod's own; in the virtual cluster, read, and request tokens of the
  pod's own service account.
\<close>

definition token_names :: "pod \<Rightarrow> string set" where
  "token_names virtualPod =
     insert (kubeAccessTokenSecretName (Name (pod_meta virtualPod))) (range (generateTokenSecretName (Name (pod_meta virtualPod))))"

definition token_key :: "provider \<Rightarrow> pod \<Rightarrow> namespaced_name \<Rightarrow> bool" where
  "token_key p virtualPod key =
     (nn_Namespace key = tr_ClusterNamespace (p_translator p) \<and>
      nn_Name key \<in> TranslateName (p_translator p) (Namespace (pod_meta virtualPod)) ` token_names virtualPod)"

definition token_confined :: "provider \<Rightarrow> pod \<Rightarrow> call \<Rightarrow> bool" where
  "token_confined p virtualPod c =
     (case c_side c of
        Host \<Rightarrow> c_kind c = KSecret \<and> c_verb c = VCreateOrUpdate \<and> token_key p virtualPod (key_of (c_meta c))
      | Virt \<Rightarrow> is_write c \<longrightarrow> c_kind c = KServiceAccount \<and> c_verb c = VCreateToken \<and>
          key_of (c_meta c) = \<lparr>nn_Namespace = Namespace (pod_meta virtualPod),
            nn_Name = pod_ServiceAccountName (pod_Spec virtualPod)\<rparr>)"

definition secret_resource :: "('e, secret) resource \<Rightarrow> bool" where
  "secret_resource R = (r_kind R = KSecret \<and> r_meta R = sec_meta)"

lemma requestToken_confined: "calls_sat (token_confined p virtualPod) (requestToken A virtualPod aud e)"
  by (auto simp: requestToken_def Let_def token_confined_def key_of_def intro!: calls_intro)

lemma time_Now_calls [calls_intro]: "calls_sat P (time_Now A)"
  by (simp add: calls_sat_def time_Now_def)

lemma kubeAccessTokenSecret_confined: "calls_sat (token_confined p virtualPod) (kubeAccessTokenSecret A virtualPod)"
  unfolding kubeAccessTokenSecret_def
  by (auto simp: k_defs token_confined_def intro!: calls_intro requestToken_confined)

lemma projectedTokenSecret_confined: "calls_sat (token_confined p virtualPod) (projectedTokenSecret A token virtualPod)"
  unfolding projectedTokenSecret_def by (auto intro!: calls_intro requestToken_confined)

lemma token_secret_meta:
  "kubeAccessTokenSecret A virtualPod w = (Inr s, w') \<Longrightarrow> Namespace (sec_meta s) = Namespace (pod_meta virtualPod) \<and>
    Name (sec_meta s) \<in> token_names virtualPod"
  "projectedTokenSecret A token virtualPod w = (Inr s, w') \<Longrightarrow> Namespace (sec_meta s) = Namespace (pod_meta virtualPod) \<and>
    Name (sec_meta s) \<in> token_names virtualPod"
  by (auto simp: kubeAccessTokenSecret_def projectedTokenSecret_def token_secret_def token_names_def time_Now_def io_run
      split: prod.splits sum.splits option.splits)

lemma translateAndCreate_confined:
  assumes "secret_resource (pa_SecretR A)" "Namespace (sec_meta s) = Namespace (pod_meta virtualPod) \<and>
    Name (sec_meta s) \<in> token_names virtualPod"
  shows "calls_sat (token_confined p virtualPod) (translateAndCreateHostTokenSecret p A s)"
  using assms
  by (auto simp: translateAndCreateHostTokenSecret_def Let_def k_defs token_confined_def token_key_def secret_resource_def
      TranslateTo_frame NamespacedName_def intro!: calls_intro)

lemma transform_sources_confined:
  assumes "secret_resource (pa_SecretR A)"
  shows "calls_sat (token_confined p virtualPod) (transform_sources p A virtualPod sources)"
proof (induction sources)
  case (Cons source sources)
  have token: "calls_sat (token_confined p virtualPod) (bindE (projectedTokenSecret A token virtualPod) (\<lambda>s.
      bindE (translateAndCreateHostTokenSecret p A s) (\<lambda>h. ret (Inr (f h)))))"
    for token and f :: "secret \<Rightarrow> projection \<times> string list"
    by (rule calls_sat_bindE_res [OF projectedTokenSecret_confined])
      (intro calls_sat_bindE calls_sat_ret translateAndCreate_confined [OF assms] token_secret_meta(2))
  show ?case
    unfolding transform_sources.simps
    by (rule calls_sat_bindE, rule calls_sat_option, rule calls_sat_ret, rule token)
      (intro calls_sat_prod calls_sat_bindE calls_sat_ret Cons)
qed (simp add: calls_sat_ret)

lemma transform_token_volumes_confined:
  assumes "secret_resource (pa_SecretR A)"
  shows "calls_sat (token_confined p virtualPod) (transform_token_volumes p A virtualPod volumes)"
  by (induction volumes) (auto intro!: calls_intro transform_sources_confined assms)

text \<open>
  C23: Running a pod on the host never reaches for more than its own identity: whatever the API servers answer,
  transforming the tokens of a pod requests tokens only for the service account of that pod in
  its namespace, and writes on the host only secrets with names translated from
  names made of the pod's name, in the namespace of the cluster.
\<close>
theorem transformTokens_confined:
  assumes "secret_resource (pa_SecretR A)"
  shows "calls_sat (token_confined p virtualPod) (transformTokens p A virtualPod hostPod)"
proof -
  have "calls_sat (token_confined p virtualPod) (transformKubeAccessToken p A virtualPod h)" for h
    unfolding transformKubeAccessToken_def
    by (intro calls_sat_if calls_sat_ret calls_sat_bindE_res [OF kubeAccessTokenSecret_confined])
      (intro calls_intro translateAndCreate_confined [OF assms] token_secret_meta(1))
  then show ?thesis
    unfolding transformTokens_def transformProjectedTokens_def
    by (auto simp: Let_def intro!: calls_intro transform_token_volumes_confined assms)
qed

section \<open>Replaced volumes\<close>

lemma remove_first_unique:
  "length (filter P xs) \<le> 1 \<Longrightarrow> remove_first P xs = filter (\<lambda>x. \<not> P x) xs"
proof (induction xs)
  case (Cons x xs)
  show ?case
  proof (cases "P x")
    case True
    with Cons.prems have "filter P xs = []" by simp
    then have "filter (\<lambda>x. \<not> P x) xs = xs" by (simp add: filter_empty_conv)
    with True show ?thesis by simp
  qed (use Cons in simp)
qed simp

text \<open>The volume and the mounts of the API access.\<close>

abbreviation kube_volume :: "volume \<Rightarrow> bool" where
  "kube_volume v \<equiv> strings_HasPrefix (vo_Name v) kubeAPIAccessPrefix"
abbreviation kube_mount :: "volume_mount \<Rightarrow> bool" where
  "kube_mount m \<equiv> strings_HasPrefix (vm_Name m) kubeAPIAccessPrefix"

definition pod_mounts_resolve :: "pod_spec \<Rightarrow> bool" where
  "pod_mounts_resolve s = list_all (\<lambda>c. list_all (\<lambda>m. vm_Name m \<in> vo_Name ` set (pod_Volumes s)) (ct_VolumeMounts c)) (all_containers s)"

text \<open>
  Replacing the API access volume: for a pod as the service account admission makes it, with at most one such volume
  and at most one such mount per container, the result has no such volume or mount any more, every other
  volume and mount is kept in order, each container mounts the secret at the well-known path, and all
  mounts still have their volume.
\<close>
theorem kube_access_volume_replaced:
  assumes "length (filter kube_volume (pod_Volumes (pod_Spec pod))) \<le> 1"
    and "\<forall>c\<in>set (all_containers (pod_Spec pod)). length (filter kube_mount (ct_VolumeMounts c)) \<le> 1"
    and "pod_mounts_resolve (pod_Spec pod)"
  shows "let s = pod_Spec (addKubeAccessVolume (removeKubeAccessVolume pod) secretName) in
    pod_Volumes s = filter (\<lambda>v. \<not> kube_volume v) (pod_Volumes (pod_Spec pod)) @
      [(empty_volume tokenVolumeName)\<lparr>vo_Secret := Some \<lparr>ns_Name = secretName, ns_rest = ''''\<rparr>\<rparr>] \<and>
    list_all2 (\<lambda>c d. d = c\<lparr>ct_VolumeMounts := filter (\<lambda>m. \<not> kube_mount m) (ct_VolumeMounts c) @
      [\<lparr>vm_Name = tokenVolumeName, vm_MountPath = serviceAccountTokenMountPath, vm_SubPath = '''', vm_rest = ''''\<rparr>]\<rparr>)
      (all_containers (pod_Spec pod)) (all_containers s) \<and>
    pod_mounts_resolve s"
proof -
  let ?s = "pod_Spec (addKubeAccessVolume (removeKubeAccessVolume pod) secretName)"
  have v: "pod_Volumes ?s = filter (\<lambda>v. \<not> kube_volume v) (pod_Volumes (pod_Spec pod)) @
      [(empty_volume tokenVolumeName)\<lparr>vo_Secret := Some \<lparr>ns_Name = secretName, ns_rest = ''''\<rparr>\<rparr>]"
    using remove_first_unique [OF assms(1)]
    by (simp add: addKubeAccessVolume_def removeKubeAccessVolume_def Let_def map_containers_def)
  have c: "all_containers ?s = map (\<lambda>c. c\<lparr>ct_VolumeMounts := filter (\<lambda>m. \<not> kube_mount m) (ct_VolumeMounts c) @
      [\<lparr>vm_Name = tokenVolumeName, vm_MountPath = serviceAccountTokenMountPath, vm_SubPath = '''', vm_rest = ''''\<rparr>]\<rparr>)
      (all_containers (pod_Spec pod))"
    using assms(2)
    by (auto simp: addKubeAccessVolume_def removeKubeAccessVolume_def Let_def map_containers_def all_containers_def
        remove_first_unique)
  have "pod_mounts_resolve ?s"
    using assms(3) unfolding pod_mounts_resolve_def c v
    by (fastforce simp: list_all_iff empty_volume_def)
  with v c show ?thesis by (simp add: Let_def list.rel_map list.rel_refl)
qed

section \<open>A reference environment\<close>

text \<open>An in-memory server with a token service that issues tokens of the requested lifetime, and a clock.\<close>

record provider_env =
  ve_clusters :: "side \<Rightarrow> cluster list"
  ve_pods :: "side \<Rightarrow> pod list"
  ve_secrets :: "side \<Rightarrow> secret list"
  ve_config_maps :: "side \<Rightarrow> config_map list"
  ve_now :: int

definition mem_provider_api :: "provider_env provider_api" where
  "mem_provider_api =
     \<lparr>pa_ClusterR = mem_resource KCluster cl_meta ve_clusters (\<lambda>x. ve_clusters_update (\<lambda>_. x)),
      pa_PodR = mem_resource KPod pod_meta ve_pods (\<lambda>x. ve_pods_update (\<lambda>_. x)),
      pa_SecretR = mem_resource KSecret sec_meta ve_secrets (\<lambda>x. ve_secrets_update (\<lambda>_. x)),
      pa_ConfigMapR = mem_resource KConfigMap cm_meta ve_config_maps (\<lambda>x. ve_config_maps_update (\<lambda>_. x)),
      pa_CreateToken = (\<lambda>key req e. (Inr \<lparr>tk_Token = nn_Name key @ ''-token'',
        tk_ExpirationTimestamp = ve_now e + (case tq_ExpirationSeconds req of None \<Rightarrow> 3600 | Some s \<Rightarrow> s) * Second\<rparr>, e)),
      pa_UpdateEphemeralContainers = (\<lambda>key ob e. (Inr ob, e)),
      pa_Now = ve_now\<rparr>"

lemma mem_provider_api_simps [simp]:
  "secret_resource (pa_SecretR mem_provider_api)"
  "r_meta (pa_PodR mem_provider_api) = pod_meta" "r_kind (pa_PodR mem_provider_api) = KPod"
  "r_meta (pa_ClusterR mem_provider_api) = cl_meta" "r_kind (pa_ClusterR mem_provider_api) = KCluster"
  by (simp_all add: mem_provider_api_def secret_resource_def)

definition wit_provider :: provider where
  "wit_provider =
     \<lparr>p_translator = \<lparr>tr_ClusterName = ''c'', tr_ClusterNamespace = ''k''\<rparr>, p_clusterName = ''c'', p_clusterNamespace = ''k'',
      p_agentHostname = ''node1'', p_serverIP = ''10.0.0.1'', p_dnsIP = ''10.0.0.2''\<rparr>"

definition wit_container :: container where
  "wit_container =
     \<lparr>ct_Name = ''web'', ct_Image = ''nginx'', ct_Env = [], ct_EnvFrom = [], ct_VolumeMounts =
        [\<lparr>vm_Name = ''data'', vm_MountPath = ''/data'', vm_SubPath = '''', vm_rest = ''''\<rparr>,
         \<lparr>vm_Name = ''kube-api-access-x'', vm_MountPath = serviceAccountTokenMountPath, vm_SubPath = '''', vm_rest = ''''\<rparr>],
      ct_SecurityContext = None, ct_rest = ''''\<rparr>"

definition wit_pod :: pod where
  "wit_pod = (pod_of (meta_of ''web'' ''ns''))\<lparr>pod_Spec := empty_pod_spec\<lparr>pod_ServiceAccountName := ''default'',
     pod_Volumes := [empty_volume ''kube-api-access-x'',
       (empty_volume ''data'')\<lparr>vo_ConfigMap := Some \<lparr>ns_Name = ''cm'', ns_rest = ''''\<rparr>\<rparr>],
     pod_Containers := [wit_container]\<rparr>\<rparr>"

theorem transformTokens_confined_witness:
  "calls_sat (token_confined wit_provider wit_pod) (transformTokens wit_provider mem_provider_api wit_pod wit_pod)"
  by (rule transformTokens_confined) simp

theorem kube_access_volume_replaced_witness:
  "map vo_Name (pod_Volumes (pod_Spec (addKubeAccessVolume (removeKubeAccessVolume wit_pod) ''s''))) = [''data'', tokenVolumeName] \<and>
   pod_mounts_resolve (pod_Spec (addKubeAccessVolume (removeKubeAccessVolume wit_pod) ''s''))"
proof -
  have v: "pod_Volumes (pod_Spec wit_pod) = [empty_volume ''kube-api-access-x'',
      (empty_volume ''data'')\<lparr>vo_ConfigMap := Some \<lparr>ns_Name = ''cm'', ns_rest = ''''\<rparr>\<rparr>]"
    and c: "all_containers (pod_Spec wit_pod) = [wit_container]"
    by (simp_all add: wit_pod_def pod_of_def empty_pod_spec_def all_containers_def)
  have "pod_mounts_resolve (pod_Spec wit_pod)"
    by (simp add: pod_mounts_resolve_def c v wit_container_def empty_volume_def)
  from kube_access_volume_replaced [OF _ _ this, of "''s''"]
  have "pod_Volumes (pod_Spec (addKubeAccessVolume (removeKubeAccessVolume wit_pod) ''s'')) =
      filter (\<lambda>v. \<not> kube_volume v) (pod_Volumes (pod_Spec wit_pod)) @
      [(empty_volume tokenVolumeName)\<lparr>vo_Secret := Some \<lparr>ns_Name = ''s'', ns_rest = ''''\<rparr>\<rparr>] \<and>
      pod_mounts_resolve (pod_Spec (addKubeAccessVolume (removeKubeAccessVolume wit_pod) ''s''))"
    unfolding v c Let_def by (simp add: strings_HasPrefix_def empty_volume_def wit_container_def)
  then show ?thesis unfolding v by (simp add: strings_HasPrefix_def empty_volume_def)
qed

end
