(* ===== verification/Provider.thy ===== *)
theory Provider
  imports Tokens
begin

text \<open>
  The pod operations of \<^verbatim>\<open>k3k-kubelet/provider/provider.go\<close>, which the virtual kubelet calls: \<^verbatim>\<open>CreatePod\<close>,
  \<^verbatim>\<open>UpdatePod\<close>, \<^verbatim>\<open>DeletePod\<close>, \<^verbatim>\<open>GetPod\<close>, \<^verbatim>\<open>GetPodStatus\<close> and \<^verbatim>\<open>GetPods\<close>.

  \<^verbatim>\<open>createPod\<close> is split where the source makes calls: \<^verbatim>\<open>prepareHostPod\<close> is what it computes from the cluster and the
  virtual pod before the tokens, \<^verbatim>\<open>finishHostPod\<close> what it computes after them. The polling of \<^verbatim>\<open>withRetry\<close> ends
  after the time-out, so the number of attempts that fit is a parameter, at least one because the
  first is immediate.
\<close>

section \<open>Retries\<close>

text \<open>The loop of \<^verbatim>\<open>wait.PollUntilContextTimeout\<close>, with the errors so far.\<close>

fun poll :: "nat \<Rightarrow> ('e, goerr + unit) io \<Rightarrow> goerr option \<Rightarrow> ('e, goerr + unit) io" where
  "poll 0 f allErrors = ret (of_err (errors_Join [allErrors, Some (Sentinel ErrRetryTimeout)]))"
| "poll (Suc n) f allErrors =
     bindS f (\<lambda>r. case r of
       Inl lastErr \<Rightarrow> poll n f (errors_Join [allErrors, Some lastErr])
     | Inr _ \<Rightarrow> ret (Inr ()))"

definition withRetry :: "nat \<Rightarrow> (pod \<Rightarrow> ('e, goerr + unit) io) \<Rightarrow> pod \<Rightarrow> ('e, goerr + unit) io" where
  "withRetry attempts f pod = poll (Suc attempts) (f pod) None"

section \<open>The host pod\<close>

definition agent_affinity :: "string \<Rightarrow> affinity" where
  "agent_affinity agentHostname = PreferredNodeAffinity [(100, ''kubernetes.io/hostname'', ''In'', [agentHostname])]"

definition host_node_selector :: "cluster \<Rightarrow> smap option" where
  "host_node_selector cluster =
     (case st_Policy (cl_Status cluster) of
        Some policy \<Rightarrow> if minit (ap_NodeSelector policy) \<noteq> fmempty then ap_NodeSelector policy else NodeSelector (cl_Spec cluster)
      | None \<Rightarrow> NodeSelector (cl_Spec cluster))"

definition enforcedPriorityClassName :: "cluster \<Rightarrow> string" where
  "enforcedPriorityClassName cluster =
     (case st_Policy (cl_Status cluster) of None \<Rightarrow> PriorityClass (cl_Spec cluster)
      | Some policy \<Rightarrow> (case ap_PriorityClass policy of None \<Rightarrow> PriorityClass (cl_Spec cluster) | Some c \<Rightarrow> c))"

definition set_priority :: "provider \<Rightarrow> cluster \<Rightarrow> pod_spec \<Rightarrow> pod_spec \<Rightarrow> pod_spec" where
  "set_priority p cluster virtualSpec hostSpec =
     (let spec =
        (if strings_HasPrefix (pod_PriorityClassName virtualSpec) ''system-''
         then hostSpec\<lparr>pod_PriorityClassName := pod_PriorityClassName virtualSpec\<rparr>
         else if enforcedPriorityClassName cluster \<noteq> ''''
         then hostSpec\<lparr>pod_PriorityClassName := enforcedPriorityClassName cluster\<rparr>
         else if pod_PriorityClassName virtualSpec \<noteq> ''''
         then hostSpec\<lparr>pod_PriorityClassName := TranslateName (p_translator p) '''' (pod_PriorityClassName virtualSpec),
           pod_Priority := None\<rparr>
         else hostSpec)
      in if pod_PriorityClassName spec \<noteq> '''' then spec\<lparr>pod_Priority := None\<rparr> else spec)"

definition allowedHostSchedulers :: "cluster \<Rightarrow> string list" where
  "allowedHostSchedulers cluster =
     (let own = (case AllowedHostSchedulers (cl_Spec cluster) of None \<Rightarrow> [] | Some l \<Rightarrow> l) in
      case st_Policy (cl_Status cluster) of None \<Rightarrow> own
      | Some policy \<Rightarrow> (case ap_AllowedHostSchedulers policy of None \<Rightarrow> own | Some l \<Rightarrow> l))"

definition not_allowed :: "string \<Rightarrow> goerr" where
  "not_allowed s = ErrNew (''scheduler '' @ strconv_Quote s @ '' is not allowed for this cluster'')"

definition set_scheduler :: "cluster \<Rightarrow> pod \<Rightarrow> pod_spec \<Rightarrow> goerr + pod_spec" where
  "set_scheduler cluster virtualPod hostSpec =
     (let schedulerName = mindex (Annotations (pod_meta virtualPod)) HostSchedulerNameAnnotation;
          virtualName = pod_SchedulerName (pod_Spec virtualPod)
      in if schedulerName \<noteq> '''' \<and> schedulerName \<notin> set (allowedHostSchedulers cluster) then Inl (not_allowed schedulerName)
         else
           let hostSpec = (if schedulerName \<noteq> '''' then hostSpec\<lparr>pod_SchedulerName := schedulerName\<rparr> else hostSpec) in
           if virtualName \<noteq> '''' \<and> virtualName \<noteq> DefaultSchedulerName \<and> virtualName \<notin> set (allowedHostSchedulers cluster)
           then Inl (not_allowed virtualName) else Inr hostSpec)"

definition prepareHostPod :: "provider \<Rightarrow> cluster \<Rightarrow> string \<Rightarrow> pod \<Rightarrow> goerr + pod" where
  "prepareHostPod p cluster podNamespace virtualPod =
     (let m = TranslateTo (p_translator p) (pod_meta virtualPod);
          m = m\<lparr>Labels := Some (fmupd AgentNameLabel (p_agentHostname p) (minit (Labels m)))\<rparr>;
          spec = (pod_Spec virtualPod)\<lparr>pod_NodeName := ''''\<rparr>;
          spec = (if pod_Affinity spec = None then spec\<lparr>pod_Affinity := Some (agent_affinity (p_agentHostname p))\<rparr> else spec);
          spec = spec\<lparr>pod_NodeSelector := host_node_selector cluster\<rparr>;
          spec = (if pod_Hostname (pod_Spec virtualPod) = ''''
            then spec\<lparr>pod_Hostname := SafeConcatName [Name (pod_meta virtualPod)]\<rparr> else spec);
          spec = set_priority p cluster (pod_Spec virtualPod) spec
      in case set_scheduler cluster virtualPod spec of
           Inl err \<Rightarrow> Inl err
         | Inr spec \<Rightarrow>
             let hostPod = configurePodEnvs (p_translator p) (virtualPod\<lparr>pod_meta := m, pod_Spec := spec\<rparr>) virtualPod
             in Inr (hostPod\<lparr>pod_Spec := (pod_Spec hostPod)\<lparr>pod_Volumes :=
                  transformVolumes (p_translator p) podNamespace (pod_Volumes (pod_Spec hostPod))\<rparr>\<rparr>))"

definition finishHostPod :: "util \<Rightarrow> (string fset \<Rightarrow> string list) \<Rightarrow> provider \<Rightarrow> cluster \<Rightarrow> pod \<Rightarrow> pod \<Rightarrow> goerr + pod" where
  "finishHostPod U ord p cluster virtualPod hostPod =
     (let hostPod = hostPod\<lparr>pod_Spec := (pod_Spec hostPod)\<lparr>pod_ImagePullSecrets :=
            map (TranslateName (p_translator p) (Namespace (pod_meta virtualPod))) (pod_ImagePullSecrets (pod_Spec hostPod))\<rparr>\<rparr>;
          hostPod = configureNetworking ord hostPod virtualPod (p_serverIP p) (p_dnsIP p)
      in case SetControllerReference U (cl_meta cluster) (pod_meta hostPod) of
           Inl err \<Rightarrow> Inl err
         | Inr m \<Rightarrow>
             let hostPod = hostPod\<lparr>pod_meta := m\<rparr>
             in Inr (if isCoreDNSPod virtualPod then hardenCoreDNS hostPod else hostPod))"

section \<open>Operations\<close>

abbreviation lift_sum :: "goerr + 'a \<Rightarrow> ('e, goerr + 'a) io" where "lift_sum r \<equiv> ret r"

definition createPod :: "util \<Rightarrow> (string fset \<Rightarrow> string list) \<Rightarrow> provider \<Rightarrow> 'e provider_api \<Rightarrow> pod \<Rightarrow> ('e, goerr + unit) io" where
  "createPod U ord p A pod =
     bindE (k_Get Host (pa_ClusterR A) \<lparr>nn_Namespace = p_clusterNamespace p, nn_Name = p_clusterName p\<rparr>) (\<lambda>cluster.
     bindE (k_Get Virt (pa_PodR A) (key_of (pod_meta pod))) (\<lambda>virtualPod.
     bindE (lift_sum (prepareHostPod p cluster (Namespace (pod_meta pod)) virtualPod)) (\<lambda>hostPod.
     bindE (transformTokens p A virtualPod hostPod) (\<lambda>(hostPod, tokenSecretNames).
     bindE (lift_sum (finishHostPod U ord p cluster virtualPod hostPod)) (\<lambda>hostPod.
     bindE (k_Create Host (pa_PodR A) hostPod) (\<lambda>hostPod.
     bindS (setTokenSecretsOwner U A hostPod tokenSecretNames) (\<lambda>_.
     ret (Inr ()))))))))"

definition CreatePod :: "nat \<Rightarrow> util \<Rightarrow> (string fset \<Rightarrow> string list) \<Rightarrow> provider \<Rightarrow> 'e provider_api \<Rightarrow> pod \<Rightarrow> ('e, goerr + unit) io" where
  "CreatePod attempts U ord p A pod = withRetry attempts (createPod U ord p A) pod"

definition k_UpdateEphemeralContainers :: "'e provider_api \<Rightarrow> string \<Rightarrow> pod \<Rightarrow> ('e, goerr + pod) io" where
  "k_UpdateEphemeralContainers A namespace pod =
     log_call Host VUpdateEphemeralContainers KPod (meta_of (Name (pod_meta pod)) namespace) []
       (pa_UpdateEphemeralContainers A \<lparr>nn_Namespace = namespace, nn_Name = Name (pod_meta pod)\<rparr> pod)"

text \<open>One half of \<^verbatim>\<open>updatePod\<close>: merge into the pod of a side, and the ephemeral containers, which both halves send to the
  host client.\<close>

definition update_side :: "provider \<Rightarrow> 'e provider_api \<Rightarrow> side \<Rightarrow> namespaced_name \<Rightarrow> pod \<Rightarrow> ('e, goerr + unit) io" where
  "update_side p A s key pod =
     bindE (k_Get s (pa_PodR A) key) (\<lambda>dst.
     bindE (k_Update s (pa_PodR A) (updatePod dst pod)) (\<lambda>dst.
     if pod_EphemeralContainers (pod_Spec dst) \<noteq> pod_EphemeralContainers (pod_Spec pod)
     then bindE (k_UpdateEphemeralContainers A (p_clusterNamespace p)
         (dst\<lparr>pod_Spec := (pod_Spec dst)\<lparr>pod_EphemeralContainers := pod_EphemeralContainers (pod_Spec pod)\<rparr>\<rparr>)) (\<lambda>_. ret (Inr ()))
     else ret (Inr ())))"

definition provider_updatePod :: "provider \<Rightarrow> 'e provider_api \<Rightarrow> pod \<Rightarrow> ('e, goerr + unit) io" where
  "provider_updatePod p A pod =
     bindE (update_side p A Host \<lparr>nn_Namespace = p_clusterNamespace p,
       nn_Name = TranslateName (p_translator p) (Namespace (pod_meta pod)) (Name (pod_meta pod))\<rparr> pod) (\<lambda>_.
     update_side p A Virt (key_of (pod_meta pod)) pod)"

definition UpdatePod :: "nat \<Rightarrow> provider \<Rightarrow> 'e provider_api \<Rightarrow> pod \<Rightarrow> ('e, goerr + unit) io" where
  "UpdatePod attempts p A pod = withRetry attempts (provider_updatePod p A) pod"

definition deletePod :: "provider \<Rightarrow> 'e provider_api \<Rightarrow> pod \<Rightarrow> ('e, goerr + unit) io" where
  "deletePod p A pod =
     bindS (k_Delete Host (pa_PodR A) (pod_of (meta_of
       (TranslateName (p_translator p) (Namespace (pod_meta pod)) (Name (pod_meta pod))) (p_clusterNamespace p)))) (\<lambda>r.
     ret (IgnoreNotFound r))"

definition DeletePod :: "nat \<Rightarrow> provider \<Rightarrow> 'e provider_api \<Rightarrow> pod \<Rightarrow> ('e, goerr + unit) io" where
  "DeletePod attempts p A pod = withRetry attempts (deletePod p A) pod"

definition getPodFromHostCluster :: "provider \<Rightarrow> 'e provider_api \<Rightarrow> string \<Rightarrow> ('e, goerr + pod) io" where
  "getPodFromHostCluster p A hostPodName =
     bindE (k_Get Host (pa_PodR A) \<lparr>nn_Namespace = p_clusterNamespace p, nn_Name = hostPodName\<rparr>) (\<lambda>pod.
     ret (Inr (pod\<lparr>pod_meta := TranslateFrom (pod_meta pod)\<rparr>)))"

definition GetPod :: "provider \<Rightarrow> 'e provider_api \<Rightarrow> string \<Rightarrow> string \<Rightarrow> ('e, goerr + pod) io" where
  "GetPod p A namespace name = getPodFromHostCluster p A (TranslateName (p_translator p) namespace name)"

definition GetPodStatus :: "provider \<Rightarrow> 'e provider_api \<Rightarrow> string \<Rightarrow> string \<Rightarrow> ('e, goerr + pod_status) io" where
  "GetPodStatus p A namespace name =
     bindE (getPodFromHostCluster p A (TranslateName (p_translator p) namespace name)) (\<lambda>pod. ret (Inr (pod_Status pod)))"

definition GetPods :: "provider \<Rightarrow> 'e provider_api \<Rightarrow> ('e, goerr + pod list) io" where
  "GetPods p A =
     bindE (listHostPods p A) (\<lambda>hostPods.
     ret (Inr (map (\<lambda>pod. pod\<lparr>pod_meta := TranslateFrom (pod_meta pod)\<rparr>) hostPods)))"

section \<open>Properties of the host pod\<close>

lemma set_priority_frame:
  "pod_Containers (set_priority p c v s) = pod_Containers s"
  "pod_InitContainers (set_priority p c v s) = pod_InitContainers s"
  "pod_EphemeralContainers (set_priority p c v s) = pod_EphemeralContainers s"
  "pod_Volumes (set_priority p c v s) = pod_Volumes s"
  "pod_SchedulerName (set_priority p c v s) = pod_SchedulerName s"
  by (simp_all add: set_priority_def Let_def)

lemma set_scheduler_frame:
  "set_scheduler c v s = Inr s' \<Longrightarrow> s' = s\<lparr>pod_SchedulerName := pod_SchedulerName s'\<rparr>"
  by (auto simp: set_scheduler_def Let_def split: if_splits)

text \<open>\<^verbatim>\<open>prepareHostPod\<close> in three parts: the metadata, the specification before the references, the references.\<close>

lemma prepareHostPod_cases:
  assumes "prepareHostPod p cluster ns virtualPod = Inr hostPod"
  obtains spec where "set_scheduler cluster virtualPod spec = Inr (spec\<lparr>pod_SchedulerName := pod_SchedulerName (pod_Spec hostPod)\<rparr>)"
    and "pod_SchedulerName spec = pod_SchedulerName (pod_Spec virtualPod)"
    and "pod_Volumes (pod_Spec hostPod) = transformVolumes (p_translator p) ns (pod_Volumes (pod_Spec virtualPod))"
    and "all_containers (pod_Spec hostPod) = configure_containers (p_translator p) virtualPod
      (all_containers (pod_Spec virtualPod)) (all_containers (pod_Spec virtualPod))"
    and "pod_PriorityClassName (pod_Spec hostPod) = pod_PriorityClassName (set_priority p cluster (pod_Spec virtualPod) (pod_Spec virtualPod))"
proof -
  define spec where "spec = set_priority p cluster (pod_Spec virtualPod)
    (let spec = (pod_Spec virtualPod)\<lparr>pod_NodeName := ''''\<rparr>;
         spec = (if pod_Affinity spec = None then spec\<lparr>pod_Affinity := Some (agent_affinity (p_agentHostname p))\<rparr> else spec);
         spec = spec\<lparr>pod_NodeSelector := host_node_selector cluster\<rparr>
     in if pod_Hostname (pod_Spec virtualPod) = '''' then spec\<lparr>pod_Hostname := SafeConcatName [Name (pod_meta virtualPod)]\<rparr> else spec)"
  have frame: "pod_SchedulerName spec = pod_SchedulerName (pod_Spec virtualPod)"
    "pod_Volumes spec = pod_Volumes (pod_Spec virtualPod)" "pod_Containers spec = pod_Containers (pod_Spec virtualPod)"
    "pod_InitContainers spec = pod_InitContainers (pod_Spec virtualPod)"
    "pod_EphemeralContainers spec = pod_EphemeralContainers (pod_Spec virtualPod)"
    by (simp_all add: spec_def set_priority_frame Let_def)
  have prio: "pod_PriorityClassName spec = pod_PriorityClassName (set_priority p cluster (pod_Spec virtualPod) (pod_Spec virtualPod))"
    by (simp add: spec_def set_priority_def Let_def)
  from assms obtain spec' where s': "set_scheduler cluster virtualPod spec = Inr spec'"
    by (cases "set_scheduler cluster virtualPod spec") (auto simp: prepareHostPod_def spec_def Let_def)
  with assms have host: "pod_Spec hostPod = (let s = pod_Spec (configurePodEnvs (p_translator p)
      (virtualPod\<lparr>pod_meta := m, pod_Spec := spec'\<rparr>) virtualPod)
    in s\<lparr>pod_Volumes := transformVolumes (p_translator p) ns (pod_Volumes s)\<rparr>)" for m
    by (auto simp: prepareHostPod_def spec_def [unfolded Let_def, symmetric] Let_def configurePodEnvs_def)
  have s'': "spec' = spec\<lparr>pod_SchedulerName := pod_SchedulerName spec'\<rparr>" by (rule set_scheduler_frame [OF s'])
  have fields: "pod_Volumes spec' = pod_Volumes spec" "pod_Containers spec' = pod_Containers spec"
    "pod_InitContainers spec' = pod_InitContainers spec" "pod_EphemeralContainers spec' = pod_EphemeralContainers spec"
    "pod_PriorityClassName spec' = pod_PriorityClassName spec"
    by (subst s'', simp)+
  show thesis
  proof (rule that [of spec])
    show "set_scheduler cluster virtualPod spec = Inr (spec\<lparr>pod_SchedulerName := pod_SchedulerName (pod_Spec hostPod)\<rparr>)"
      using s' s'' host by (simp add: configurePodEnvs_def Let_def)
  qed (use host fields frame prio in \<open>simp_all add: configurePodEnvs_def Let_def all_containers_def configure_containers_def\<close>)
qed



text \<open>
  A pod reaches a host scheduler only by permission: the scheduler of a host pod is one of the schedulers that the
  policy, or else the cluster, allows, unless it is the default or none at all.
\<close>
theorem host_pod_scheduler_allowed:
  assumes "prepareHostPod p cluster ns virtualPod = Inr hostPod"
  shows "pod_SchedulerName (pod_Spec hostPod) \<in> {'''', DefaultSchedulerName} \<union> set (allowedHostSchedulers cluster)"
  using assms
proof (rule prepareHostPod_cases)
  fix spec
  assume "set_scheduler cluster virtualPod spec = Inr (spec\<lparr>pod_SchedulerName := pod_SchedulerName (pod_Spec hostPod)\<rparr>)"
    and s: "pod_SchedulerName spec = pod_SchedulerName (pod_Spec virtualPod)"
  then have "pod_SchedulerName (case set_scheduler cluster virtualPod spec of Inr s \<Rightarrow> s) = pod_SchedulerName (pod_Spec hostPod)"
    "\<exists>s. set_scheduler cluster virtualPod spec = Inr s" by simp_all
  with s show ?thesis by (auto simp: set_scheduler_def Let_def split: if_splits)
qed

theorem host_pod_scheduler_allowed_witness:
  "let v = wit_pod\<lparr>pod_meta := (meta_of ''web'' ''ns'')\<lparr>Annotations := Some (fmap_of_list [(HostSchedulerNameAnnotation, ''volcano'')])\<rparr>\<rparr>;
       c = empty_cluster\<lparr>cl_Spec := empty_spec\<lparr>AllowedHostSchedulers := Some [''volcano'']\<rparr>\<rparr>
   in (case prepareHostPod wit_provider c ''ns'' v of Inl _ \<Rightarrow> False | Inr h \<Rightarrow>
        pod_SchedulerName (pod_Spec h) \<in> {'''', DefaultSchedulerName} \<union> set (allowedHostSchedulers c))"
proof -
  let ?v = "wit_pod\<lparr>pod_meta := (meta_of ''web'' ''ns'')\<lparr>Annotations := Some (fmap_of_list [(HostSchedulerNameAnnotation, ''volcano'')])\<rparr>\<rparr>"
  let ?c = "empty_cluster\<lparr>cl_Spec := empty_spec\<lparr>AllowedHostSchedulers := Some [''volcano'']\<rparr>\<rparr>"
  have "\<exists>h. prepareHostPod wit_provider ?c ''ns'' ?v = Inr h"
    by (simp add: prepareHostPod_def Let_def set_scheduler_def wit_pod_def pod_of_def empty_pod_spec_def mindex_def
        allowedHostSchedulers_def empty_cluster_def empty_status_def)
  then obtain h where "prepareHostPod wit_provider ?c ''ns'' ?v = Inr h" by blast
  with host_pod_scheduler_allowed [OF this] show ?thesis by (simp add: Let_def)
qed

text \<open>
  A pod cannot pick a priority class of the host: apart from the system classes, the class of the host pod is the one
  that the policy or else the cluster enforces, and without one the translated class of the virtual
  cluster, so never the pod's own name for it.
\<close>
theorem host_pod_priority_class:
  assumes "prepareHostPod p cluster ns virtualPod = Inr hostPod"
    and "\<not> strings_HasPrefix (pod_PriorityClassName (pod_Spec virtualPod)) ''system-''"
  shows "pod_PriorityClassName (pod_Spec hostPod) =
     (if enforcedPriorityClassName cluster \<noteq> '''' then enforcedPriorityClassName cluster
      else if pod_PriorityClassName (pod_Spec virtualPod) = '''' then ''''
      else TranslateName (p_translator p) '''' (pod_PriorityClassName (pod_Spec virtualPod)))"
  using assms(1) by (rule prepareHostPod_cases) (use assms(2) in \<open>simp add: set_priority_def Let_def\<close>)

theorem host_pod_priority_class_witness:
  "let v = wit_pod\<lparr>pod_Spec := (pod_Spec wit_pod)\<lparr>pod_PriorityClassName := ''high''\<rparr>\<rparr>
   in (case prepareHostPod wit_provider empty_cluster ''ns'' v of Inl _ \<Rightarrow> False | Inr h \<Rightarrow>
        pod_PriorityClassName (pod_Spec h) = TranslateName (p_translator wit_provider) '''' ''high'')"
proof -
  let ?v = "wit_pod\<lparr>pod_Spec := (pod_Spec wit_pod)\<lparr>pod_PriorityClassName := ''high''\<rparr>\<rparr>"
  have "\<exists>h. prepareHostPod wit_provider empty_cluster ''ns'' ?v = Inr h"
    by (simp add: prepareHostPod_def Let_def set_scheduler_def set_priority_frame wit_pod_def pod_of_def empty_pod_spec_def mindex_def)
  then obtain h where "prepareHostPod wit_provider empty_cluster ''ns'' ?v = Inr h" by blast
  with host_pod_priority_class [OF this] show ?thesis
    by (simp add: Let_def strings_HasPrefix_def enforcedPriorityClassName_def empty_cluster_def empty_status_def empty_spec_def)
qed

section \<open>Retries\<close>

text \<open>
  \<^verbatim>\<open>emits P F m\<close>: the calls of \<^verbatim>\<open>m\<close> that satisfy \<^verbatim>\<open>P\<close> are as many as its result says.
\<close>

definition emits :: "(call \<Rightarrow> bool) \<Rightarrow> ('a \<Rightarrow> nat) \<Rightarrow> ('e, 'a) io \<Rightarrow> bool" where
  "emits P F m = (\<forall>w. \<exists>cs. w_calls (snd (m w)) = w_calls w @ cs \<and> length (filter P cs) = F (fst (m w)))"

lemma emits_ret: "F a = 0 \<Longrightarrow> emits P F (ret a)"
  by (simp add: emits_def ret_def)

lemma emits_bindS:
  assumes "calls_sat (\<lambda>c. \<not> P c) m" "\<And>a. emits P F (f a)"
  shows "emits P F (bindS m f)"
  unfolding emits_def
proof
  fix w
  obtain a w' where m: "m w = (a, w')" by (cases "m w")
  with assms(1) obtain cs where "w_calls w' = w_calls w @ cs" "filter P cs = []"
    unfolding calls_sat_def by (metis (mono_tags, lifting) filter_False list_all_iff snd_conv)
  moreover obtain cs' where "w_calls (snd (f a w')) = w_calls w' @ cs'" "length (filter P cs') = F (fst (f a w'))"
    using assms(2) unfolding emits_def by blast
  ultimately show "\<exists>cs. w_calls (snd (bindS m f w)) = w_calls w @ cs \<and> length (filter P cs) = F (fst (bindS m f w))"
    by (intro exI [of _ "cs @ cs'"]) (simp add: bindS_def m)
qed

lemma emits_bindE:
  assumes "calls_sat (\<lambda>c. \<not> P c) m" "\<And>a. emits P F (f a)" "\<And>e. F (Inl e) = 0"
  shows "emits P F (bindE m f)"
  unfolding bindE_def by (rule emits_bindS [OF assms(1)]) (auto intro: assms emits_ret split: sum.split)

lemma emits_poll:
  assumes "emits P (\<lambda>r. case r of Inl _ \<Rightarrow> 0 | Inr _ \<Rightarrow> 1) f"
  shows "emits P (\<lambda>r. case r of Inl _ \<Rightarrow> 0 | Inr _ \<Rightarrow> 1) (poll n f errs)"
proof (induction n arbitrary: errs)
  case 0
  have "errors_Join [errs, Some (Sentinel ErrRetryTimeout)] \<noteq> None" by (simp add: errors_Join_None)
  then show ?case by (auto intro: emits_ret)
next
  case (Suc n)
  show ?case
    unfolding emits_def
  proof
    fix w :: "'a world"
    obtain r w' where f: "f w = (r, w')" by (cases "f w")
    with assms obtain cs where cs: "w_calls w' = w_calls w @ cs" "length (filter P cs) = (case r of Inl _ \<Rightarrow> 0 | Inr _ \<Rightarrow> 1)"
      unfolding emits_def by (metis fst_conv snd_conv)
    show "\<exists>cs. w_calls (snd (poll (Suc n) f errs w)) = w_calls w @ cs \<and>
        length (filter P cs) = (case fst (poll (Suc n) f errs w) of Inl _ \<Rightarrow> 0 | Inr _ \<Rightarrow> 1)"
    proof (cases r)
      case (Inl e)
      obtain cs' where "w_calls (snd (poll n f (errors_Join [errs, Some e]) w')) = w_calls w' @ cs'"
        "length (filter P cs') = (case fst (poll n f (errors_Join [errs, Some e]) w') of Inl _ \<Rightarrow> 0 | Inr _ \<Rightarrow> 1)"
        using Suc [of "errors_Join [errs, Some e]"] unfolding emits_def by blast
      with Inl f cs show ?thesis by (intro exI [of _ "cs @ cs'"]) (simp add: bindS_run)
    next
      case (Inr u)
      with f cs show ?thesis by (intro exI [of _ cs]) (simp add: io_run)
    qed
  qed
qed

definition pod_created :: "call \<Rightarrow> bool" where
  "pod_created c = (c_side c = Host \<and> c_verb c = VCreate \<and> c_err c = None)"

lemma not_pod_created [simp]:
  "v \<noteq> VCreate \<Longrightarrow> \<not> pod_created \<lparr>c_side = s, c_verb = v, c_kind = k, c_meta = m, c_reqs = rs, c_err = e\<rparr>"
  by (simp add: pod_created_def)

lemma setTokenSecretsOwner_calls:
  "(\<And>m e. P \<lparr>c_side = Host, c_verb = VPatch, c_kind = r_kind (pa_SecretR A), c_meta = m, c_reqs = [], c_err = e\<rparr>) \<Longrightarrow>
    calls_sat P (setTokenSecretsOwner U A hostPod names)"
proof -
  assume p: "\<And>m e. P \<lparr>c_side = Host, c_verb = VPatch, c_kind = r_kind (pa_SecretR A), c_meta = m, c_reqs = [], c_err = e\<rparr>"
  have "calls_sat P (setTokenSecretOwner U A hostPod name)" for name
    unfolding setTokenSecretOwner_def by (auto simp: Let_def k_Patch_def intro!: calls_intro p)
  then have "calls_sat P (setTokenSecretsOwner_errs U A hostPod names)"
    by (induction names) (auto intro!: calls_intro)
  then show ?thesis unfolding setTokenSecretsOwner_def by (intro calls_intro)
qed

lemma transformTokens_creates_nothing: "calls_sat (\<lambda>c. \<not> pod_created c) (transformTokens p A virtualPod hostPod)"
proof -
  have r: "calls_sat (\<lambda>c. \<not> pod_created c) (requestToken A v a e)" for v a e
    by (auto simp: requestToken_def Let_def intro!: calls_intro)
  have k: "calls_sat (\<lambda>c. \<not> pod_created c) (kubeAccessTokenSecret A v)"
    "calls_sat (\<lambda>c. \<not> pod_created c) (projectedTokenSecret A token v)"
    "calls_sat (\<lambda>c. \<not> pod_created c) (translateAndCreateHostTokenSecret p A s)" for v token s
    by (auto simp: kubeAccessTokenSecret_def projectedTokenSecret_def translateAndCreateHostTokenSecret_def k_defs
        Let_def intro!: calls_intro r)
  have s: "calls_sat (\<lambda>c. \<not> pod_created c) (transform_sources p A v ss)" for v ss
    by (induction ss) (auto intro!: calls_intro k)
  have "calls_sat (\<lambda>c. \<not> pod_created c) (transform_token_volumes p A v vs)" for v vs
    by (induction vs) (auto intro!: calls_intro s)
  then show ?thesis
    by (auto simp: transformTokens_def transformProjectedTokens_def transformKubeAccessToken_def Let_def intro!: calls_intro k)
qed

lemma createPod_emits: "emits pod_created (\<lambda>r. case r of Inl _ \<Rightarrow> 0 | Inr _ \<Rightarrow> 1) (createPod U ord p A pod)"
proof -
  have last: "emits pod_created (\<lambda>r. case r of Inl _ \<Rightarrow> 0 | Inr _ \<Rightarrow> 1) (bindE (k_Create Host (pa_PodR A) hostPod) (\<lambda>hostPod.
      bindS (setTokenSecretsOwner U A hostPod names) (\<lambda>_. ret (Inr ()))))" for hostPod names
    unfolding emits_def
  proof
    fix w :: "'a world"
    obtain r w1 where c: "k_Create Host (pa_PodR A) hostPod w = (r, w1)" by (cases "k_Create Host (pa_PodR A) hostPod w")
    then have w1: "w_calls w1 = w_calls w @ [\<lparr>c_side = Host, c_verb = VCreate, c_kind = r_kind (pa_PodR A),
        c_meta = r_meta (pa_PodR A) hostPod, c_reqs = [], c_err = err_of r\<rparr>]"
      by (auto simp: k_Create_def log_call_def split: prod.splits)
    have "calls_sat (\<lambda>c. \<not> pod_created c) (setTokenSecretsOwner U A h names)" for h
      by (rule setTokenSecretsOwner_calls) (simp add: pod_created_def)
    then have "\<exists>cs. w_calls (snd (setTokenSecretsOwner U A h names w1)) = w_calls w1 @ cs \<and> filter pod_created cs = []" for h
      unfolding calls_sat_def by (metis (mono_tags, lifting) filter_False list_all_iff)
    then obtain cs where cs: "w_calls (snd (setTokenSecretsOwner U A h names w1)) = w_calls w1 @ cs h"
      "filter pod_created (cs h) = []" for h by metis
    show "\<exists>cs. w_calls (snd (bindE (k_Create Host (pa_PodR A) hostPod) (\<lambda>hostPod.
        bindS (setTokenSecretsOwner U A hostPod names) (\<lambda>_. ret (Inr ()))) w)) = w_calls w @ cs \<and>
      length (filter pod_created cs) = (case fst (bindE (k_Create Host (pa_PodR A) hostPod) (\<lambda>hostPod.
        bindS (setTokenSecretsOwner U A hostPod names) (\<lambda>_. ret (Inr ()))) w) of Inl _ \<Rightarrow> 0 | Inr _ \<Rightarrow> 1)"
    proof (cases r)
      case (Inl e)
      with c w1 show ?thesis by (simp add: bindE_run pod_created_def)
    next
      case (Inr h)
      with c w1 cs [of h] show ?thesis
        by (auto simp: io_run pod_created_def split: prod.splits)
    qed
  qed
  have get: "calls_sat (\<lambda>c. \<not> pod_created c) (k_Get s R key)" for s and R :: "('a, 'o) resource" and key
    by (auto simp: k_Get_def intro!: calls_intro)
  have finish: "emits pod_created (\<lambda>r. case r of Inl _ \<Rightarrow> 0 | Inr _ \<Rightarrow> 1) (bindE (ret x) (\<lambda>hostPod.
      bindE (k_Create Host (pa_PodR A) hostPod) (\<lambda>hostPod.
      bindS (setTokenSecretsOwner U A hostPod names) (\<lambda>_. ret (Inr ())))))" for x names
    by (rule emits_bindE [OF calls_sat_ret last]) simp
  show ?thesis
    unfolding createPod_def
    by (rule emits_bindE [OF get], rule emits_bindE [OF get], rule emits_bindE [OF calls_sat_ret],
        rule emits_bindE [OF transformTokens_creates_nothing])
      (simp_all add: finish split: prod.split del: One_nat_def)
qed

text \<open>
  C22: Creating a pod with retries creates it once: whatever the API servers answer, CreatePod returns success exactly when
  one of its attempts created the host pod, and no attempt is made after that, so a failure to set the owner
  of a token secret neither fails the operation nor creates the pod again.
\<close>
theorem CreatePod_creates_once:
  "emits pod_created (\<lambda>r. case r of Inl _ \<Rightarrow> 0 | Inr _ \<Rightarrow> 1) (CreatePod attempts U ord p A pod)"
  unfolding CreatePod_def withRetry_def by (rule emits_poll [OF createPod_emits])

lemma poll_timeout: "fst (poll n f errs w) = Inl e \<Longrightarrow> errors_Is e ErrRetryTimeout"
proof (induction n arbitrary: errs w)
  case 0
  then show ?case
    by (auto simp: ret_run errors_Join_def Let_def List.map_filter_def of_err_def split: option.splits if_splits)
next
  case (Suc n)
  then show ?case by (auto simp: io_run split: prod.splits sum.splits)
qed

definition pod_host_key :: "provider \<Rightarrow> pod \<Rightarrow> namespaced_name" where
  "pod_host_key p pod = \<lparr>nn_Namespace = p_clusterNamespace p,
     nn_Name = TranslateName (p_translator p) (Namespace (pod_meta pod)) (Name (pod_meta pod))\<rparr>"

text \<open>A call after which the object is gone.\<close>

definition gone_call :: "call \<Rightarrow> bool" where
  "gone_call c = (case c_err c of None \<Rightarrow> True | Some e \<Rightarrow> IsNotFound e)"

lemma calls_sat_poll: "calls_sat P f \<Longrightarrow> calls_sat P (poll n f errs)"
  by (induction n arbitrary: errs) (auto intro!: calls_intro)

text \<open>
  Deleting a pod touches nothing but its host pod, is done when that is gone, and an error is always a time-out of the
  retries: every call of DeletePod deletes the pod with the translated name in the namespace of the cluster, and
  a missing pod counts as deleted.
\<close>
theorem DeletePod_confined:
  assumes "r_kind (pa_PodR A) = KPod" "r_meta (pa_PodR A) = pod_meta"
  shows "calls_sat (\<lambda>c. c_side c = Host \<and> c_verb c = VDelete \<and> c_kind c = KPod \<and> key_of (c_meta c) = pod_host_key p pod)
      (DeletePod attempts p A pod) \<and>
    (\<forall>w. case fst (DeletePod attempts p A pod w) of
       Inr _ \<Rightarrow> gone_call (last (w_calls (snd (DeletePod attempts p A pod w))))
     | Inl e \<Rightarrow> errors_Is e ErrRetryTimeout)"
proof
  show "calls_sat (\<lambda>c. c_side c = Host \<and> c_verb c = VDelete \<and> c_kind c = KPod \<and> key_of (c_meta c) = pod_host_key p pod)
      (DeletePod attempts p A pod)"
    unfolding DeletePod_def withRetry_def deletePod_def using assms
    by (auto simp: k_Delete_def pod_of_def key_of_def pod_host_key_def intro!: calls_sat_poll calls_intro)
  have gone: "gone_call (last (w_calls w'))"
    if "deletePod p A pod w = (Inr u, w')" for w w' u
  proof -
    from that obtain r :: "goerr + unit" where r: "IgnoreNotFound r = Inr ()" "c_err (last (w_calls w')) = err_of r"
      by (fastforce simp: deletePod_def io_run k_Delete_def log_call_def split: prod.splits)
    then show ?thesis by (cases r) (auto simp: gone_call_def split: if_splits)
  qed
  have "gone_call (last (w_calls (snd (poll n (deletePod p A pod) errs w))))"
    if "fst (poll n (deletePod p A pod) errs w) = Inr u" for n errs w u
    using that
  proof (induction n arbitrary: errs w)
    case 0
    then show ?case by (auto simp: ret_run errors_Join_def Let_def List.map_filter_def of_err_def split: option.splits if_splits)
  next
    case (Suc n)
    obtain r w' where d: "deletePod p A pod w = (r, w')" by (cases "deletePod p A pod w")
    with Suc gone [of w _ w'] show ?case by (cases r) (auto simp: io_run)
  qed
  then show "\<forall>w. case fst (DeletePod attempts p A pod w) of
       Inr _ \<Rightarrow> gone_call (last (w_calls (snd (DeletePod attempts p A pod w))))
     | Inl e \<Rightarrow> errors_Is e ErrRetryTimeout"
    unfolding DeletePod_def withRetry_def by (auto split: sum.split dest: poll_timeout simp del: poll.simps)
qed

theorem DeletePod_confined_witness:
  "calls_sat (\<lambda>c. c_side c = Host \<and> c_verb c = VDelete \<and> c_kind c = KPod \<and> key_of (c_meta c) = pod_host_key wit_provider wit_pod)
    (DeletePod 9 wit_provider mem_provider_api wit_pod)"
  by (rule DeletePod_confined [THEN conjunct1]) simp_all

lemma transformTokens_meta:
  assumes "transformTokens p A virtualPod hostPod w = (Inr (hostPod', names), w')"
  shows "pod_meta hostPod' = pod_meta hostPod"
  using assms
  by (auto simp: transformTokens_def transformProjectedTokens_def transformKubeAccessToken_def addKubeAccessVolume_def
      removeKubeAccessVolume_def Let_def io_run split: prod.splits sum.splits if_splits)


definition wit_pod_env :: provider_env where
  "wit_pod_env = \<lparr>ve_clusters = (\<lambda>_. []), ve_pods = (\<lambda>_. [wit_pod]), ve_secrets = (\<lambda>_. []), ve_config_maps = (\<lambda>_. []), ve_now = 0\<rparr>"

text \<open>A pod without token volumes.\<close>

definition wit_plain_pod :: pod where
  "wit_plain_pod = pod_of (meta_of ''web'' ''ns'')"


text \<open>
  The ephemeral containers of the virtual pod are sent to the wrong cluster: when the second half of an update finds them
  changed, its last call goes to the host, for a pod with the untranslated name of the virtual pod.
\<close>
theorem ephemeral_update_misdirected:
  assumes "k_Get Virt (pa_PodR A) key w = (Inr v, w1)" "k_Update Virt (pa_PodR A) (updatePod v pod) w1 = (Inr v', w2)"
    and "pod_EphemeralContainers (pod_Spec v') \<noteq> pod_EphemeralContainers (pod_Spec pod)"
  shows "\<exists>c. w_calls (snd (update_side p A Virt key pod w)) = w_calls w2 @ [c] \<and> c_side c = Host \<and>
    c_verb c = VUpdateEphemeralContainers \<and>
    key_of (c_meta c) = \<lparr>nn_Namespace = p_clusterNamespace p, nn_Name = Name (pod_meta v')\<rparr>"
  using assms
  by (auto simp: update_side_def io_run k_UpdateEphemeralContainers_def log_call_def key_of_def split: prod.splits sum.splits)

theorem ephemeral_update_misdirected_witness:
  "\<exists>cs c. w_calls (snd (update_side wit_provider mem_provider_api Virt \<lparr>nn_Namespace = ''ns'', nn_Name = ''web''\<rparr>
      (wit_pod\<lparr>pod_Spec := (pod_Spec wit_pod)\<lparr>pod_EphemeralContainers := [wit_container]\<rparr>\<rparr>)
      \<lparr>w_calls = [], w_env = wit_pod_env\<rparr>)) = cs @ [c] \<and> c_side c = Host \<and>
    key_of (c_meta c) = \<lparr>nn_Namespace = ''k'', nn_Name = ''web''\<rparr>"
proof -
  let ?k = "\<lparr>nn_Namespace = ''ns'', nn_Name = ''web''\<rparr>"
  let ?w = "\<lparr>w_calls = [], w_env = wit_pod_env\<rparr>"
  let ?p = "wit_pod\<lparr>pod_Spec := (pod_Spec wit_pod)\<lparr>pod_EphemeralContainers := [wit_container]\<rparr>\<rparr>"
  have key: "key_of (pod_meta wit_pod) = ?k" "key_of (pod_meta (updatePod wit_pod q)) = ?k" for q
    by (simp_all add: key_of_def wit_pod_def pod_of_def updatePod_def updateMetadata_def)
  obtain w1 where w1: "k_Get Virt (pa_PodR mem_provider_api) ?k ?w = (Inr wit_pod, w1)" "w_env w1 = wit_pod_env"
    by (simp add: k_Get_def log_call_def mem_provider_api_def mem_resource_def mem_client_def wit_pod_env_def Let_def key)
  obtain w2 where w2: "k_Update Virt (pa_PodR mem_provider_api) (updatePod wit_pod ?p) w1 = (Inr (updatePod wit_pod ?p), w2)"
    by (simp add: k_Update_def log_call_def mem_provider_api_def mem_resource_def mem_client_def wit_pod_env_def Let_def key w1)
  from ephemeral_update_misdirected [OF w1(1) w2, of wit_provider]
  show ?thesis
    by (auto simp: updatePod_def wit_pod_def pod_of_def empty_pod_spec_def wit_provider_def updateMetadata_def)
qed

end
