(* ===== verification/Workloads.thy ===== *)
theory Workloads
  imports Names Kube
begin

text \<open>
  What the cluster controller builds: pod templates and the workloads around them, the services of a
  cluster, and \<^verbatim>\<open>pkg/controller/cluster/mounts\<close>, which adds volumes and mounts to a pod. A stateful set, a
  deployment and a daemon set are one record, with the fields a kind does not have left empty. The
  volumes and mounts are those of \<^verbatim>\<open>Core_Types\<close>; \<^verbatim>\<open>vm_rest\<close> of a mount is \<^verbatim>\<open>readOnly\<close> or empty and \<^verbatim>\<open>ns_rest\<close> of a
  secret volume lists its items.

  The lemmas show that removing the empty directories of a pod leaves no mount without a volume.
\<close>

section \<open>Pod templates\<close>

datatype container_security = Privileged | ContainerSecurity payload

datatype probe_handler =
    TCPSocket int
  | Exec "string list"
  | HTTPGet string string int

record probe =
  pr_InitialDelaySeconds :: int
  pr_FailureThreshold :: int
  pr_TimeoutSeconds :: int
  pr_PeriodSeconds :: int
  pr_Handler :: probe_handler

record wl_container =
  wc_Name :: string
  wc_Image :: string
  wc_ImagePullPolicy :: string
  wc_Command :: "string list"
  wc_Args :: "string list"
  wc_Env :: "env_var list"
  wc_VolumeMounts :: "volume_mount list"
  wc_SecurityContext :: "container_security option"
  wc_Limits :: "payload option"
  wc_ReadinessProbe :: "probe option"
  wc_LivenessProbe :: "probe option"
  wc_Ports :: "(string \<times> int) list"

record wl_pod_spec =
  wp_Affinity :: "affinity option"
  wp_NodeSelector :: "smap option"
  wp_PriorityClassName :: string
  wp_HostNetwork :: bool
  wp_DNSPolicy :: string
  wp_ServiceAccountName :: string
  wp_Volumes :: "volume list"
  wp_Containers :: "wl_container list"
  wp_SecurityContext :: "payload option"
  wp_RuntimeClassName :: "string option"
  wp_HostUsers :: "bool option"
  wp_Resources :: "payload option"
  wp_ImagePullSecrets :: "string list"

record workload =
  wk_meta :: object_meta
  wk_Replicas :: "int option"
  wk_ServiceName :: string
  wk_PodManagementPolicy :: string
  wk_Selector :: smap
  wk_TemplateLabels :: smap
  wk_TemplateAnnotations :: "smap option"
  wk_Template :: wl_pod_spec
  wk_VolumeClaimTemplates :: "persistent_volume_claim list"

definition empty_wl_container :: wl_container where
  "empty_wl_container =
     \<lparr>wc_Name = '''', wc_Image = '''', wc_ImagePullPolicy = '''', wc_Command = [], wc_Args = [], wc_Env = [],
      wc_VolumeMounts = [], wc_SecurityContext = None, wc_Limits = None, wc_ReadinessProbe = None,
      wc_LivenessProbe = None, wc_Ports = []\<rparr>"

definition empty_wl_pod_spec :: wl_pod_spec where
  "empty_wl_pod_spec =
     \<lparr>wp_Affinity = None, wp_NodeSelector = None, wp_PriorityClassName = '''', wp_HostNetwork = False,
      wp_DNSPolicy = '''', wp_ServiceAccountName = '''', wp_Volumes = [], wp_Containers = [],
      wp_SecurityContext = None, wp_RuntimeClassName = None, wp_HostUsers = None, wp_Resources = None,
      wp_ImagePullSecrets = []\<rparr>"

text \<open>The panic of reading through a nil pointer.\<close>

definition nil_pointer :: goerr where
  "nil_pointer = ErrNew ''invalid memory address or nil pointer dereference''"

text \<open>\<^verbatim>\<open>podSpec.Containers[0]\<close>, which every caller has put there.\<close>

definition first_container :: "(wl_container \<Rightarrow> wl_container) \<Rightarrow> wl_pod_spec \<Rightarrow> wl_pod_spec" where
  "first_container f ps =
     ps\<lparr>wp_Containers := (case wp_Containers ps of [] \<Rightarrow> [] | c # cs \<Rightarrow> f c # cs)\<rparr>"

definition add_volumes :: "volume list \<Rightarrow> volume_mount list \<Rightarrow> wl_pod_spec \<Rightarrow> wl_pod_spec" where
  "add_volumes vs ms ps =
     first_container (\<lambda>c. c\<lparr>wc_VolumeMounts := wc_VolumeMounts c @ ms\<rparr>) (ps\<lparr>wp_Volumes := wp_Volumes ps @ vs\<rparr>)"

text \<open>A mount, an empty directory and a volume with the \<^verbatim>\<open>config.yaml\<close> of a secret.\<close>

definition mount_at :: "string \<Rightarrow> string \<Rightarrow> volume_mount" where
  "mount_at n p = \<lparr>vm_Name = n, vm_MountPath = p, vm_SubPath = '''', vm_rest = ''''\<rparr>"

definition empty_dir :: "string \<Rightarrow> volume" where
  "empty_dir n = (empty_volume n)\<lparr>vo_EmptyDir := Some ''''\<rparr>"

definition secret_volume :: "string \<Rightarrow> string \<Rightarrow> payload \<Rightarrow> volume" where
  "secret_volume n secretName items =
     (empty_volume n)\<lparr>vo_Secret := Some \<lparr>ns_Name = secretName, ns_rest = items\<rparr>\<rparr>"

text \<open>The value of a field the policy of the cluster may override.\<close>

definition from_policy :: "(applied_policy \<Rightarrow> 'a option) \<Rightarrow> 'a option \<Rightarrow> cluster \<Rightarrow> 'a option" where
  "from_policy field own cluster =
     (case st_Policy (cl_Status cluster) of
        Some p \<Rightarrow> (case field p of Some v \<Rightarrow> Some v | None \<Rightarrow> own)
      | None \<Rightarrow> own)"

section \<open>Services\<close>

record service_port =
  sp_PortName :: string
  sp_Protocol :: string
  sp_Port :: int
  sp_TargetPort :: int
  sp_NodePort :: int

record cluster_service =
  se_meta :: object_meta
  se_Type :: string
  se_ClusterIP :: string
  se_Selector :: smap
  se_Ports :: "service_port list"
  se_LoadBalancerClass :: "string option"
  se_ExternalTrafficPolicy :: string
  se_Ingress :: "(string \<times> string) list"

definition service_of :: "string \<Rightarrow> string \<Rightarrow> smap \<Rightarrow> cluster_service" where
  "service_of name namespace selector =
     \<lparr>se_meta = meta_of name namespace, se_Type = '''', se_ClusterIP = '''', se_Selector = selector, se_Ports = [],
      se_LoadBalancerClass = None, se_ExternalTrafficPolicy = '''', se_Ingress = []\<rparr>"

definition tcp_port :: "string \<Rightarrow> int \<Rightarrow> int \<Rightarrow> service_port" where
  "tcp_port n p target =
     \<lparr>sp_PortName = n, sp_Protocol = ''TCP'', sp_Port = p, sp_TargetPort = target, sp_NodePort = 0\<rparr>"

section \<open>Mounts\<close>

definition buildSecretMountVolume :: "secret_mount \<Rightarrow> volume \<times> volume_mount" where
  "buildSecretMountVolume secretMount =
     (let projection = \<lparr>pj_ConfigMap = None,
            pj_Secret = Some \<lparr>sp_Name = sm_SecretName secretMount, sp_Items = sm_Items secretMount,
              sp_Optional = sm_Optional secretMount\<rparr>,
            pj_DownwardAPI = None, pj_ServiceAccountToken = None, pj_rest = ''''\<rparr>;
          volName = (if sm_Name secretMount = '''' then sm_SecretName secretMount else sm_Name secretMount)
      in ((empty_volume volName)\<lparr>vo_Projected := Some [projection]\<rparr>,
          \<lparr>vm_Name = volName, vm_MountPath = sm_MountPath secretMount, vm_SubPath = sm_SubPath secretMount,
           vm_rest = ''''\<rparr>))"

definition secret_mount_applies :: "string \<Rightarrow> secret_mount \<Rightarrow> bool" where
  "secret_mount_applies role m =
     (sm_SecretName m \<noteq> '''' \<and> sm_MountPath m \<noteq> '''' \<and>
      (sm_Role m = role \<or> sm_Role m = '''' \<or> sm_Role m = ''all''))"

definition BuildSecretsMountsVolumes :: "secret_mount list \<Rightarrow> string \<Rightarrow> volume list \<times> volume_mount list" where
  "BuildSecretsMountsVolumes secretMounts role =
     (let built = map buildSecretMountVolume (filter (secret_mount_applies role) secretMounts)
      in (map fst built, map snd built))"

definition FilterEmptyDirVolumes :: "wl_pod_spec \<Rightarrow> wl_pod_spec" where
  "FilterEmptyDirVolumes ps =
     (let emptyDirNames = map vo_Name (filter (\<lambda>vol. vo_EmptyDir vol \<noteq> None) (wp_Volumes ps))
      in ps\<lparr>wp_Volumes := filter (\<lambda>vol. vo_EmptyDir vol = None) (wp_Volumes ps),
            wp_Containers := map (\<lambda>c. c\<lparr>wc_VolumeMounts :=
              filter (\<lambda>m. vm_Name m \<notin> set emptyDirNames) (wc_VolumeMounts c)\<rparr>) (wp_Containers ps)\<rparr>)"

definition AddKmsgMount :: "wl_pod_spec \<Rightarrow> wl_pod_spec" where
  "AddKmsgMount ps =
     add_volumes [(empty_volume ''dev-kmsg'')\<lparr>vo_HostPath := Some ''/dev/kmsg''\<rparr>]
       [mount_at ''dev-kmsg'' ''/dev/kmsg''] ps"

section \<open>Mounts resolve\<close>

text \<open>Every mount of a container names a volume of the pod, or one of the given claims.\<close>

definition mounts_resolve :: "string list \<Rightarrow> wl_pod_spec \<Rightarrow> bool" where
  "mounts_resolve claims ps =
     list_all (\<lambda>c. list_all (\<lambda>m. vm_Name m \<in> set claims \<union> vo_Name ` set (wp_Volumes ps)) (wc_VolumeMounts c))
       (wp_Containers ps)"

lemma mounts_resolve_iff:
  "mounts_resolve claims ps \<longleftrightarrow>
     (\<forall>c\<in>set (wp_Containers ps). \<forall>m\<in>set (wc_VolumeMounts c).
        vm_Name m \<in> set claims \<or> vm_Name m \<in> vo_Name ` set (wp_Volumes ps))"
  by (simp add: mounts_resolve_def list_all_iff)

lemma mounts_resolve_FilterEmptyDirVolumes:
  assumes "mounts_resolve claims ps"
  shows "mounts_resolve claims (FilterEmptyDirVolumes ps)"
  using assms by (fastforce simp: mounts_resolve_iff FilterEmptyDirVolumes_def Let_def image_iff)

lemma mounts_resolve_add_volumes:
  assumes "mounts_resolve claims ps" "vm_Name ` set ms \<subseteq> vo_Name ` set vs"
  shows "mounts_resolve claims (add_volumes vs ms ps)"
  using assms
  by (cases "wp_Containers ps") (auto simp: mounts_resolve_iff add_volumes_def first_container_def image_Un)

lemma mounts_resolve_AddKmsgMount:
  "mounts_resolve claims ps \<Longrightarrow> mounts_resolve claims (AddKmsgMount ps)"
  unfolding AddKmsgMount_def
  by (rule mounts_resolve_add_volumes) (simp_all add: mount_at_def empty_volume_def)

lemma BuildSecretsMountsVolumes_resolve:
  "BuildSecretsMountsVolumes sms role = (vs, ms) \<Longrightarrow> map vm_Name ms = map vo_Name vs"
  by (auto simp: BuildSecretsMountsVolumes_def buildSecretMountVolume_def Let_def empty_volume_def)

lemma mounts_resolve_cong:
  assumes "wp_Volumes ps = wp_Volumes ps'"
    and "map wc_VolumeMounts (wp_Containers ps) = map wc_VolumeMounts (wp_Containers ps')"
  shows "mounts_resolve claims ps = mounts_resolve claims ps'"
proof -
  have "list_all (\<lambda>c. P (wc_VolumeMounts c)) cs = list_all P (map wc_VolumeMounts cs)"
    for P and cs :: "wl_container list"
    by (simp add: list.pred_map comp_def)
  then show ?thesis by (simp add: mounts_resolve_def assms)
qed

lemma FilterEmptyDirVolumes_no_empty_dir:
  "vol \<in> set (wp_Volumes (FilterEmptyDirVolumes ps)) \<longleftrightarrow> vol \<in> set (wp_Volumes ps) \<and> vo_EmptyDir vol = None"
  by (simp add: FilterEmptyDirVolumes_def Let_def)

end
