(* ===== verification/Server.thy ===== *)
theory Server
  imports Workloads Go_Std
begin

text \<open>
  \<^verbatim>\<open>pkg/controller/cluster/server\<close>: what the cluster controller builds for the k3s servers of a cluster (service,
  ingress, configuration secrets, stateful set) and the URL that clients are given.

  The cluster the package points to is passed to each function; \<^verbatim>\<open>buildServerConfig\<close> returns it with the TLS SANs
  it records. The YAML encoder is a third-party package and a parameter, like the text of the start-up script;
  the template package is modelled for the field actions the script uses.
\<close>

section \<open>Standard library\<close>

definition JoinHostPort :: "string \<Rightarrow> string \<Rightarrow> string" where
  "JoinHostPort host port =
     (if CHR '':'' \<in> set host \<or> CHR ''%'' \<in> set host then ''['' @ host @ '']:'' @ port
      else host @ '':'' @ port)"

record url =
  url_Scheme :: string
  url_Host :: string

text \<open>\<^verbatim>\<open>splitHostPort\<close> of \<^verbatim>\<open>net/url\<close>: the part after the last colon is the port when it is made of digits, and brackets
  around the host are removed.\<close>

definition after_last_colon :: "string \<Rightarrow> string" where
  "after_last_colon s = rev (takeWhile (\<lambda>c. c \<noteq> CHR '':'') (rev s))"

definition splitHostPort :: "string \<Rightarrow> string \<times> string" where
  "splitHostPort hostPort =
     (let port = after_last_colon hostPort;
          split = CHR '':'' \<in> set hostPort \<and> list_all is_digit port;
          host = (if split then take (length hostPort - length port - 1) hostPort else hostPort);
          host = (if host \<noteq> [] \<and> hd host = CHR ''['' \<and> last host = CHR '']'' then butlast (tl host) else host)
      in (host, if split then port else []))"

definition url_Hostname :: "url \<Rightarrow> string" where
  "url_Hostname u = fst (splitHostPort (url_Host u))"

definition url_Port :: "url \<Rightarrow> string" where
  "url_Port u = snd (splitHostPort (url_Host u))"

text \<open>\<^verbatim>\<open>filepath.Join\<close> of elements the first of which is rooted.\<close>

fun clean_elems :: "string list \<Rightarrow> string list \<Rightarrow> string list" where
  "clean_elems acc [] = rev acc"
| "clean_elems acc (x # xs) =
     (if x = '''' \<or> x = ''.'' then clean_elems acc xs
      else if x = ''..'' then clean_elems (tl acc) xs
      else clean_elems (x # acc) xs)"

definition filepath_Join :: "string list \<Rightarrow> string" where
  "filepath_Join xs =
     ''/'' @ strings_Join (clean_elems []
       (strings_Split (strings_Join (filter (\<lambda>x. x \<noteq> '''') xs) ''/'') CHR ''/'')) ''/''"

text \<open>\<^verbatim>\<open>Template.Execute\<close> with missing keys as errors, for texts whose only actions are \<^verbatim>\<open>{{.KEY}}\<close>.\<close>

function template_Execute :: "string \<Rightarrow> smap \<Rightarrow> goerr + string" where
  "template_Execute s m =
     (case s of [] \<Rightarrow> Inr []
      | c # cs \<Rightarrow>
          if strings_HasPrefix s ''{{.'' then
            (let key = takeWhile (\<lambda>x. x \<noteq> CHR ''}'') (drop 3 s); rest = drop (3 + length key) s in
             if \<not> strings_HasPrefix rest ''}}'' then Inl (ErrNew ''unexpected action'')
             else (case fmlookup m key of None \<Rightarrow> Inl (ErrNew (''map has no entry for key '' @ key))
               | Some v \<Rightarrow> (case template_Execute (drop 2 rest) m of Inl e \<Rightarrow> Inl e | Inr out \<Rightarrow> Inr (v @ out))))
          else if strings_HasPrefix s ''{{'' then Inl (ErrNew ''unexpected action'')
          else (case template_Execute cs m of Inl e \<Rightarrow> Inl e | Inr out \<Rightarrow> Inr (c # out)))"
  by pat_completeness auto
termination
  by (relation "measure (\<lambda>(s, m). length s)") auto

declare template_Execute.simps [simp del]

lemma template_Execute_plain [simp]:
  "template_Execute [] m = Inr []"
  "c \<noteq> CHR ''{'' \<Longrightarrow>
    template_Execute (c # cs) m = (case template_Execute cs m of Inl e \<Rightarrow> Inl e | Inr out \<Rightarrow> Inr (c # out))"
  by (simp_all add: template_Execute.simps [of "[]"] template_Execute.simps [of "c # cs"] strings_HasPrefix_def)

section \<open>Names and ports\<close>

definition ServiceName :: "string \<Rightarrow> string" where
  "ServiceName clusterName = SafeConcatNameWithPrefix [clusterName, ''service'']"

definition HeadlessServiceName :: "string \<Rightarrow> string" where
  "HeadlessServiceName clusterName = SafeConcatNameWithPrefix [clusterName, ''service'', ''headless'']"

definition IngressName :: "string \<Rightarrow> string" where
  "IngressName clusterName = SafeConcatNameWithPrefix [clusterName, ''ingress'']"

definition configSecretName :: "string \<Rightarrow> bool \<Rightarrow> string" where
  "configSecretName clusterName init =
     (if \<not> init then SafeConcatNameWithPrefix [clusterName, ''server-config'']
      else SafeConcatNameWithPrefix [clusterName, ''init-server-config''])"

abbreviation httpsPort :: int where "httpsPort \<equiv> 443"
abbreviation k3sServerPort :: int where "k3sServerPort \<equiv> 6443"
abbreviation etcdPort :: int where "etcdPort \<equiv> 2379"
abbreviation lbServerPortName :: string where "lbServerPortName \<equiv> ''k3s-server-lb-port''"

abbreviation server_port :: service_port where "server_port \<equiv> tcp_port ''k3s-server-port'' httpsPort k3sServerPort"
abbreviation etcd_port :: service_port where "etcd_port \<equiv> tcp_port ''k3s-etcd-port'' etcdPort 0"

definition server_labels :: "cluster \<Rightarrow> smap" where
  "server_labels cluster = fmap_of_list [(''cluster'', Name (cl_meta cluster)), (''role'', ''server'')]"

section \<open>Service\<close>

definition addLoadBalancerPorts :: "cluster_service \<Rightarrow> load_balancer_config \<Rightarrow> service_port \<Rightarrow> service_port \<Rightarrow>
    cluster_service" where
  "addLoadBalancerPorts service lb sp ep =
     (let serverPort = (case lb_ServerPort lb of None \<Rightarrow> sp_Port sp | Some p \<Rightarrow> p);
          custom = (if serverPort > 0 \<and> serverPort \<noteq> sp_Port sp
            then [sp\<lparr>sp_PortName := lbServerPortName, sp_Port := serverPort\<rparr>] else []);
          etcd = (case lb_EtcdPort lb of None \<Rightarrow> [ep] | Some p \<Rightarrow> if p > 0 then [ep\<lparr>sp_Port := p\<rparr>] else [])
      in service\<lparr>se_Ports := se_Ports service @ [sp] @ custom @ etcd\<rparr>)"

definition node_port :: "int option \<Rightarrow> service_port \<Rightarrow> service_port list" where
  "node_port configured p =
     (case configured of None \<Rightarrow> [p]
      | Some n \<Rightarrow> if n \<ge> 30000 \<and> n \<le> 32767 then [p\<lparr>sp_NodePort := n\<rparr>] else [])"

definition addNodePortPorts :: "cluster_service \<Rightarrow> node_port_config \<Rightarrow> service_port \<Rightarrow> service_port \<Rightarrow>
    cluster_service" where
  "addNodePortPorts service np sp ep =
     service\<lparr>se_Ports := se_Ports service @ node_port (np_ServerPort np) sp @ node_port (np_EtcdPort np) ep\<rparr>"

definition Service :: "cluster \<Rightarrow> cluster_service" where
  "Service cluster =
     (let service = service_of (ServiceName (Name (cl_meta cluster))) (Namespace (cl_meta cluster)) (server_labels cluster)
      in case Expose (cl_Spec cluster) of
           None \<Rightarrow> service\<lparr>se_Type := ''ClusterIP'', se_Ports := [server_port, etcd_port]\<rparr>
         | Some expose \<Rightarrow>
             (let service = (case ex_Annotations expose of None \<Rightarrow> service
                  | Some as \<Rightarrow> service\<lparr>se_meta := (se_meta service)\<lparr>Annotations := Some (fmempty ++\<^sub>f as)\<rparr>\<rparr>);
                  policy = (if Mode (cl_Spec cluster) = HCPClusterMode then ''Local'' else '''')
              in case ex_LoadBalancer expose of
                   Some lb \<Rightarrow> (addLoadBalancerPorts (service\<lparr>se_Type := ''LoadBalancer'',
                       se_LoadBalancerClass := lb_LoadBalancerClass lb\<rparr>) lb server_port etcd_port)\<lparr>
                     se_ExternalTrafficPolicy := policy\<rparr>
                 | None \<Rightarrow> (case ex_NodePort expose of
                     Some np \<Rightarrow> (addNodePortPorts (service\<lparr>se_Type := ''NodePort''\<rparr>) np server_port etcd_port)\<lparr>
                       se_ExternalTrafficPolicy := policy\<rparr>
                   | None \<Rightarrow> service\<lparr>se_Type := ''ClusterIP'', se_Ports := [server_port, etcd_port]\<rparr>)))"

definition LoadBalancerSANs :: "cluster_service \<Rightarrow> string list" where
  "LoadBalancerSANs service =
     (if se_Type service \<noteq> ''LoadBalancer'' then []
      else concat (map (\<lambda>(ip, hostname). (if ip \<noteq> '''' then [ip] else []) @ (if hostname \<noteq> '''' then [hostname] else []))
        (se_Ingress service)))"

definition StatefulServerService :: "cluster \<Rightarrow> cluster_service" where
  "StatefulServerService cluster =
     (service_of (HeadlessServiceName (Name (cl_meta cluster))) (Namespace (cl_meta cluster)) (server_labels cluster))\<lparr>
       se_Type := ''ClusterIP'', se_ClusterIP := ''None'', se_Ports := [server_port, etcd_port]\<rparr>"

section \<open>Ingress\<close>

record cluster_ingress =
  ci_meta :: object_meta
  ci_IngressClassName :: "string option"
  ci_Rules :: "ingress_rule list"

definition ingressRules :: "cluster \<Rightarrow> ingress_rule list" where
  "ingressRules cluster =
     (case Expose (cl_Spec cluster) of None \<Rightarrow> []
      | Some expose \<Rightarrow> (case ex_Ingress expose of None \<Rightarrow> []
        | Some _ \<Rightarrow>
            (let path = \<lparr>ip_Service = Some \<lparr>sb_Name = ServiceName (Name (cl_meta cluster)), sb_Port = ''443''\<rparr>,
                   ip_rest = ''/ Prefix''\<rparr>
             in map (\<lambda>host. \<lparr>ir_Host = host, ir_HTTP = Some [path]\<rparr>) (FilterDNSNames (TLSSANs (cl_Spec cluster))))))"

definition Ingress :: "cluster \<Rightarrow> cluster_ingress" where
  "Ingress cluster =
     (let ingress = \<lparr>ci_meta = meta_of (IngressName (Name (cl_meta cluster))) (Namespace (cl_meta cluster)),
            ci_IngressClassName = None, ci_Rules = ingressRules cluster\<rparr>
      in case Expose (cl_Spec cluster) of None \<Rightarrow> ingress
         | Some expose \<Rightarrow> (case ex_Ingress expose of None \<Rightarrow> ingress
           | Some cfg \<Rightarrow> ingress\<lparr>
               ci_IngressClassName := (if ic_IngressClassName cfg \<noteq> '''' then Some (ic_IngressClassName cfg) else None),
               ci_meta := (ci_meta ingress)\<lparr>Annotations := ic_Annotations cfg\<rparr>\<rparr>))"

section \<open>Configuration\<close>

record server_config =
  sc_ClusterCIDR :: string
  sc_ClusterDNS :: string
  sc_ClusterInit :: bool
  sc_DisableAgent :: bool
  sc_Disable :: "string list"
  sc_EgressSelectorMode :: string
  sc_KubeAPIServerArg :: "string list"
  sc_Server :: string
  sc_ServiceCIDR :: string
  sc_TLSSAN :: "string list"
  sc_Token :: string

definition server_sans :: "cluster \<Rightarrow> cluster_service \<Rightarrow> string list \<Rightarrow> string list" where
  "server_sans cluster service extraSANs =
     (let name = ServiceName (Name (cl_meta cluster))
      in sorted_set (TLSSANs (cl_Spec cluster) @ extraSANs @
           [se_ClusterIP service, name, name @ ''.'' @ Namespace (cl_meta cluster)] @ LoadBalancerSANs service))"

definition buildServerConfig :: "cluster \<Rightarrow> bool \<Rightarrow> cluster_service \<Rightarrow> string \<Rightarrow> string list \<Rightarrow> server_config \<times> cluster" where
  "buildServerConfig cluster initServer service token extraSANs =
     (let sans = server_sans cluster service extraSANs;
          cluster = cluster\<lparr>cl_Status := (cl_Status cluster)\<lparr>st_TLSSANs := sans\<rparr>\<rparr>;
          config = \<lparr>sc_ClusterCIDR = st_ClusterCIDR (cl_Status cluster), sc_ClusterDNS = ClusterDNS (cl_Spec cluster),
            sc_ClusterInit = True, sc_DisableAgent = False, sc_Disable = [], sc_EgressSelectorMode = '''',
            sc_KubeAPIServerArg = [], sc_Server = (if \<not> initServer then ''https://'' @ se_ClusterIP service else ''''),
            sc_ServiceCIDR = st_ServiceCIDR (cl_Status cluster), sc_TLSSAN = sans, sc_Token = token\<rparr>;
          mode = Mode (cl_Spec cluster)
      in (if mode = '''' \<or> mode = SharedClusterMode then
            config\<lparr>sc_DisableAgent := True, sc_EgressSelectorMode := ''disabled'',
              sc_Disable := [''servicelb'', ''traefik'', ''metrics-server'', ''local-storage'']\<rparr>
          else if mode = HCPClusterMode then
            config\<lparr>sc_DisableAgent := True, sc_EgressSelectorMode := ''cluster'',
              sc_KubeAPIServerArg := [''endpoint-reconciler-type=none'']\<rparr>
          else config, cluster))"

definition Config :: "(server_config \<Rightarrow> goerr + string) \<Rightarrow> cluster \<Rightarrow> string \<Rightarrow> bool \<Rightarrow> cluster_service \<Rightarrow> string list \<Rightarrow>
    (goerr + secret) \<times> cluster" where
  "Config yaml cluster token init service extraSANs =
     (let name = configSecretName (Name (cl_meta cluster)) init in
     case buildServerConfig cluster init service token extraSANs of (serverConfig, cluster) \<Rightarrow>
       (case yaml serverConfig of Inl err \<Rightarrow> Inl err
        | Inr config \<Rightarrow> Inr \<lparr>sec_meta = meta_of name (Namespace (cl_meta cluster)), sec_Type = '''',
            sec_Data = Some (fmap_of_list [(''config.yaml'', config)]), sec_Immutable = None\<rparr>, cluster))"

section \<open>URL\<close>

record 'e server_api =
  sa_ServiceR :: "('e, cluster_service) resource"
  sa_IngressR :: "('e, cluster_ingress) resource"
  sa_SecretR :: "('e, secret) resource"

definition buildURL :: "string \<Rightarrow> int \<Rightarrow> url" where
  "buildURL host port =
     \<lparr>url_Scheme = ''https'',
      url_Host = (if port \<noteq> 443 then JoinHostPort host (strconv_FormatInt port) else host)\<rparr>"

text \<open>The choice of the host and port of a service, after it has been read.\<close>

definition san_fallback :: "cluster \<Rightarrow> string \<Rightarrow> string" where
  "san_fallback cluster host =
     (if host \<in> set (st_TLSSANs (cl_Status cluster)) then host
      else case TLSSANs (cl_Spec cluster) of san # _ \<Rightarrow> san
        | [] \<Rightarrow> (case st_TLSSANs (cl_Status cluster) of san # _ \<Rightarrow> san | [] \<Rightarrow> host))"

definition service_url :: "cluster \<Rightarrow> string \<Rightarrow> cluster_service \<Rightarrow> goerr + url" where
  "service_url cluster hostServerIP service =
     (let port = (case se_Ports service of [] \<Rightarrow> 443 | p # _ \<Rightarrow> sp_Port p) in
      if se_Type service = ''ClusterIP'' then Inr (buildURL (san_fallback cluster (se_ClusterIP service)) port)
      else if se_Type service = ''NodePort'' then
        (if hostServerIP \<noteq> se_ClusterIP service
         then Inr (buildURL (san_fallback cluster hostServerIP)
           (case se_Ports service of [] \<Rightarrow> port | p # _ \<Rightarrow> sp_NodePort p))
         else Inr (buildURL (san_fallback cluster (se_ClusterIP service)) port))
      else if se_Type service = ''LoadBalancer'' then
        (if hostServerIP = se_ClusterIP service then Inr (buildURL (se_ClusterIP service) port)
         else (case LoadBalancerSANs service of [] \<Rightarrow> Inl (Sentinel ErrLoadBalancerNotReady)
           | san # _ \<Rightarrow> Inr (buildURL san
               (foldl (\<lambda>port p. if sp_PortName p = lbServerPortName then sp_Port p else port) port (se_Ports service)))))
      else Inr (buildURL (san_fallback cluster hostServerIP) port))"

definition URL :: "'e server_api \<Rightarrow> cluster \<Rightarrow> string \<Rightarrow> ('e, goerr + url) io" where
  "URL A cluster hostServerIP =
     (let from_service =
        bindE (k_Get Host (sa_ServiceR A) \<lparr>nn_Namespace = Namespace (cl_meta cluster),
            nn_Name = ServiceName (Name (cl_meta cluster))\<rparr>) (\<lambda>service.
          ret (service_url cluster hostServerIP service))
      in if (case Expose (cl_Spec cluster) of None \<Rightarrow> False | Some e \<Rightarrow> ex_Ingress e \<noteq> None) then
           bindE (k_Get Host (sa_IngressR A) \<lparr>nn_Namespace = Namespace (cl_meta cluster),
               nn_Name = IngressName (Name (cl_meta cluster))\<rparr>) (\<lambda>ingress.
             case ci_Rules ingress of
               rule # _ \<Rightarrow> if ir_Host rule \<noteq> '''' then ret (Inr \<lparr>url_Scheme = ''https'', url_Host = ir_Host rule\<rparr>)
                 else from_service
             | [] \<Rightarrow> from_service)
         else from_service)"

section \<open>Server pods\<close>

record server =
  s_mode :: string
  s_token :: string
  s_image :: string
  s_imagePullPolicy :: string
  s_imagePullSecrets :: "string list"

definition New :: "cluster \<Rightarrow> string \<Rightarrow> string \<Rightarrow> string \<Rightarrow> string list \<Rightarrow> server" where
  "New cluster token img imagePullPolicy imagePullSecrets =
     \<lparr>s_mode = Mode (cl_Spec cluster), s_token = token, s_image = img, s_imagePullPolicy = imagePullPolicy,
      s_imagePullSecrets = imagePullSecrets\<rparr>"

definition node_selector :: "cluster \<Rightarrow> smap option" where
  "node_selector cluster =
     (case st_Policy (cl_Status cluster) of
        Some p \<Rightarrow> (if minit (ap_NodeSelector p) \<noteq> fmempty then ap_NodeSelector p else NodeSelector (cl_Spec cluster))
      | None \<Rightarrow> NodeSelector (cl_Spec cluster))"

definition defaultServerAffinity :: "cluster \<Rightarrow> affinity option" where
  "defaultServerAffinity cluster =
     (if Mode (cl_Spec cluster) \<noteq> HCPClusterMode \<or> Servers (cl_Spec cluster) = None \<or> the (Servers (cl_Spec cluster)) \<le> 1
      then None
      else Some (PreferredPodAntiAffinity 100 ''kubernetes.io/hostname'' (server_labels cluster)))"

definition env_from_field :: "string \<Rightarrow> string \<Rightarrow> env_var" where
  "env_from_field name field =
     \<lparr>ev_Name = name, ev_Value = '''',
      ev_ValueFrom = Some \<lparr>es_FieldRef = Some field, es_ConfigMapKeyRef = None, es_SecretKeyRef = None, es_rest = ''''\<rparr>\<rparr>"

text \<open>What the podSpec functions of servers and agents do alike: the fields a policy may override, the limits, which
  the resources replace, and the changes for Kata runtimes.\<close>

definition policy_contexts :: "cluster \<Rightarrow> wl_pod_spec \<Rightarrow> wl_pod_spec" where
  "policy_contexts cluster ps =
     (let ps = ps\<lparr>wp_SecurityContext := from_policy ap_PodSecurityContext (PodSecurityContext (cl_Spec cluster)) cluster\<rparr>;
          ps = (case from_policy ap_SecurityContext (SecurityContext (cl_Spec cluster)) cluster of
              None \<Rightarrow> ps
            | Some sc \<Rightarrow> first_container (\<lambda>c. c\<lparr>wc_SecurityContext := Some (ContainerSecurity sc)\<rparr>) ps)
      in ps\<lparr>wp_RuntimeClassName := from_policy ap_RuntimeClassName (RuntimeClassName (cl_Spec cluster)) cluster,
            wp_HostUsers := from_policy ap_HostUsers (HostUsers (cl_Spec cluster)) cluster\<rparr>)"

definition limits_and_resources :: "payload option \<Rightarrow> payload option \<Rightarrow> wl_pod_spec \<Rightarrow> wl_pod_spec" where
  "limits_and_resources limit resources ps =
     (let ps = (case limit of None \<Rightarrow> ps | Some l \<Rightarrow> first_container (\<lambda>c. c\<lparr>wc_Limits := Some l\<rparr>) ps)
      in case resources of None \<Rightarrow> ps
         | Some r \<Rightarrow> (first_container (\<lambda>c. c\<lparr>wc_Limits := None\<rparr>) ps)\<lparr>wp_Resources := Some r\<rparr>)"

definition kata_mounts :: "wl_pod_spec \<Rightarrow> wl_pod_spec" where
  "kata_mounts ps =
     (case wp_RuntimeClassName ps of
        Some rc \<Rightarrow> if strings_HasPrefix rc ''kata'' then FilterEmptyDirVolumes (AddKmsgMount ps) else ps
      | None \<Rightarrow> ps)"

definition server_container :: "server \<Rightarrow> string \<Rightarrow> string \<Rightarrow> string \<Rightarrow> wl_container" where
  "server_container s img name startupCmd =
     empty_wl_container\<lparr>wc_Name := name, wc_Image := img, wc_ImagePullPolicy := s_imagePullPolicy s,
       wc_Command := [''/bin/sh'', ''-c'', startupCmd],
       wc_Env := [env_from_field ''POD_NAME'' ''metadata.name'', env_from_field ''POD_IP'' ''status.podIP''],
       wc_VolumeMounts := [mount_at ''config'' ''/opt/rancher/k3s/server'', mount_at ''init-config'' ''/opt/rancher/k3s/init'',
         mount_at ''run'' ''/run'', mount_at ''var-run'' ''/var/run'', mount_at ''var-lib-cni'' ''/var/lib/cni'',
         mount_at ''var-lib-kubelet'' ''/var/lib/kubelet'', mount_at ''varlibrancherk3s'' ''/var/lib/rancher/k3s'',
         mount_at ''var-log'' ''/var/log''],
       wc_ReadinessProbe := Some \<lparr>pr_InitialDelaySeconds = 60, pr_FailureThreshold = 5, pr_TimeoutSeconds = 10,
         pr_PeriodSeconds = 0, pr_Handler = TCPSocket 6443\<rparr>,
       wc_LivenessProbe := Some \<lparr>pr_InitialDelaySeconds = 10, pr_FailureThreshold = 3, pr_TimeoutSeconds = 0,
         pr_PeriodSeconds = 3, pr_Handler = Exec [''sh'', ''-c'',
           ''grep -q '' @ [CHR 0x22] @ ''rejoin the cluster'' @ [CHR 0x22] @ '' /var/log/k3s.log && exit 1 || exit 0'']\<rparr>,
       wc_SecurityContext := (if s_mode s = VirtualClusterMode then Some Privileged else None)\<rparr>"

definition server_podSpec :: "server \<Rightarrow> cluster \<Rightarrow> string \<Rightarrow> string \<Rightarrow> bool \<Rightarrow> string \<Rightarrow> wl_pod_spec" where
  "server_podSpec s cluster img name persistent startupCmd =
     (let clusterName = Name (cl_meta cluster);
          policyAffinity = map_option OpaqueAffinity (from_policy ap_ServerAffinity (ServerAffinity (cl_Spec cluster)) cluster);
          ps = empty_wl_pod_spec\<lparr>
            wp_Affinity := (if policyAffinity = None then defaultServerAffinity cluster else policyAffinity),
            wp_NodeSelector := node_selector cluster,
            wp_PriorityClassName := PriorityClass (cl_Spec cluster),
            wp_Volumes := [secret_volume ''init-config'' (configSecretName clusterName True) ''config.yaml'',
              secret_volume ''config'' (configSecretName clusterName False) ''config.yaml'',
              empty_dir ''run'', empty_dir ''var-run'', empty_dir ''var-lib-cni'', empty_dir ''var-log'',
              empty_dir ''var-lib-kubelet''] @ (if \<not> persistent then [empty_dir ''varlibrancherk3s''] else []),
            wp_Containers := [server_container s img name startupCmd]\<rparr>;
          ps = policy_contexts cluster ps;
          ps = limits_and_resources (ServerLimit (cl_Spec cluster)) (ServerResources (cl_Spec cluster)) ps;
          ps = first_container (\<lambda>c. c\<lparr>wc_Env := wc_Env c @ ServerEnvs (cl_Spec cluster)\<rparr>) ps;
          ps = ps\<lparr>wp_ImagePullSecrets := wp_ImagePullSecrets ps @ s_imagePullSecrets s\<rparr>
      in kata_mounts ps)"

definition exposeSANsAnnotations :: "string list \<Rightarrow> smap option" where
  "exposeSANsAnnotations exposeSANs =
     (if exposeSANs = [] then None
      else Some (fmap_of_list [(''k3k.io/expose-sans-hash'',
        hex_EncodeToString (sha256_Sum256 (bytes_of (strings_Join (sort exposeSANs) '',''))))]))"

definition setupDynamicPersistence :: "cluster \<Rightarrow> goerr + persistent_volume_claim" where
  "setupDynamicPersistence cluster =
     (case pe_StorageRequestSize (Persistence (cl_Spec cluster)) of None \<Rightarrow> Inl nil_pointer
      | Some sz \<Rightarrow> Inr \<lparr>pvc_meta = meta_of ''varlibrancherk3s'' (Namespace (cl_meta cluster)),
          pvc_APIVersion = ''v1'', pvc_Kind = ''PersistentVolumeClaim'',
          pvc_StorageClassName = pe_StorageClassName (Persistence (cl_Spec cluster)), pvc_VolumeMode = None,
          pvc_AccessModes = [''ReadWriteOnce''], pvc_Requests = sz, pvc_VolumeName = '''', pvc_rest = '''',
          pvc_Phase = '''', pvc_StatusAccessModes = []\<rparr>)"

definition startup_map :: "int \<Rightarrow> cluster \<Rightarrow> smap" where
  "startup_map servers cluster = fmap_of_list
     [(''ETCD_DIR'', ''/var/lib/rancher/k3s/server/db/etcd''),
      (''INIT_CONFIG'', filepath_Join [''/opt/rancher/k3s/init'', ''config.yaml'']),
      (''SERVER_CONFIG'', filepath_Join [''/opt/rancher/k3s/server'', ''config.yaml'']),
      (''CLUSTER_MODE'', if servers > 1 then ''ha'' else ''single''),
      (''K3K_MODE'', Mode (cl_Spec cluster)),
      (''EXTRA_ARGS'', strings_Join (ServerArgs (cl_Spec cluster)) '' ''),
      (''RUNTIME_CLASS'', case RuntimeClassName (cl_Spec cluster) of None \<Rightarrow> '''' | Some rc \<Rightarrow> rc)]"

definition setupStartCommand :: "string \<Rightarrow> cluster \<Rightarrow> goerr + string" where
  "setupStartCommand StartupCommand cluster =
     (case Servers (cl_Spec cluster) of None \<Rightarrow> Inl nil_pointer
      | Some servers \<Rightarrow> template_Execute StartupCommand (startup_map servers cluster))"

section \<open>Stateful set\<close>

definition mountCACert :: "string \<Rightarrow> string \<Rightarrow> string \<Rightarrow> string \<Rightarrow> volume \<times> volume_mount list" where
  "mountCACert volumeName certName secretName subPathMount =
     (let etcd = strings_HasPrefix certName ''etcd-'';
          etcdPrefix = (if etcd then ''/etcd'' else '''');
          mountFile = (if etcd then strings_TrimPrefix certName ''etcd-'' else certName)
      in (secret_volume volumeName secretName '''',
          map (\<lambda>crtOrKey. \<lparr>vm_Name = volumeName,
              vm_MountPath = filepath_Join [''/var/lib/rancher/k3s/server/tls'', etcdPrefix, mountFile] @ ''.'' @ crtOrKey,
              vm_SubPath = subPathMount @ ''.'' @ crtOrKey, vm_rest = ''''\<rparr>)
            (filter (\<lambda>crtOrKey. \<not> (certName = ''service'' \<and> crtOrKey = ''crt'')) [''crt'', ''key''])))"

definition sortedKeys :: "smap \<Rightarrow> string list" where
  "sortedKeys keyMap = sorted_list_of_fset (fmdom keyMap)"

definition caCertMap :: "credential_sources \<Rightarrow> smap" where
  "caCertMap customCerts = fmap_of_list
     [(''server-ca'', cs_SecretName (ServerCA customCerts)),
      (''client-ca'', cs_SecretName (ClientCA customCerts)),
      (''request-header-ca'', cs_SecretName (RequestHeaderCA customCerts)),
      (''etcd-peer-ca'', cs_SecretName (EtcdPeerCA customCerts)),
      (''etcd-server-ca'', cs_SecretName (EtcdServerCA customCerts)),
      (''service'', cs_SecretName (ServiceAccountToken customCerts))]"

text \<open>A loop whose rounds append to two lists and that returns at the first error.\<close>

fun collect_volumes :: "'a list \<Rightarrow> ('a \<Rightarrow> ('e, goerr + volume \<times> volume_mount list) io) \<Rightarrow>
    ('e, goerr + volume list \<times> volume_mount list) io" where
  "collect_volumes [] f = ret (Inr ([], []))"
| "collect_volumes (x # xs) f =
     bindE (f x) (\<lambda>(v, ms). bindE (collect_volumes xs f) (\<lambda>(vs, ms'). ret (Inr (v # vs, ms @ ms'))))"

definition buildCABundleVolumes :: "'e server_api \<Rightarrow> cluster \<Rightarrow> ('e, goerr + volume list \<times> volume_mount list) io" where
  "buildCABundleVolumes A cluster =
     (case CustomCAs (cl_Spec cluster) of None \<Rightarrow> ret (Inl (ErrNew ''customCAs not found''))
      | Some cas \<Rightarrow>
          (let certMap = caCertMap (ca_Sources cas) in
           collect_volumes (sortedKeys certMap) (\<lambda>certName.
             (let secretName = mindex (Some certMap) certName in
              bindE (k_Get Host (sa_SecretR A) \<lparr>nn_Namespace = Namespace (cl_meta cluster), nn_Name = secretName\<rparr>)
                (\<lambda>certSecret.
                 if certName \<noteq> ''service'' \<and>
                     (mindex (sec_Data certSecret) ''tls.crt'' = '''' \<or> mindex (sec_Data certSecret) ''tls.key'' = '''')
                 then ret (Inl (ErrNew (''cert or key is not found in secret '' @ certName)))
                 else ret (Inr (mountCACert (certName @ ''-vol'') certName secretName ''tls'')))))))"

definition buildAddonsVolumes :: "util \<Rightarrow> 'e server_api \<Rightarrow> cluster \<Rightarrow> ('e, goerr + volume list \<times> volume_mount list) io" where
  "buildAddonsVolumes U A cluster =
     collect_volumes (Addons (cl_Spec cluster)) (\<lambda>addon.
       (let namespace = (if ad_SecretNamespace addon \<noteq> '''' then ad_SecretNamespace addon else Namespace (cl_meta cluster));
            name = ''addon-'' @ ad_SecretRef addon
        in bindE (k_Get Host (sa_SecretR A) \<lparr>nn_Namespace = namespace, nn_Name = ad_SecretRef addon\<rparr>) (\<lambda>addons.
           bindE (if namespace \<noteq> Namespace (cl_meta cluster)
             then k_CreateOrUpdate Host (sa_SecretR A)
               \<lparr>sec_meta = meta_of (Name (sec_meta addons)) (Namespace (cl_meta cluster)), sec_Type = '''',
                sec_Data = sec_Data addons, sec_Immutable = None\<rparr>
               (\<lambda>cur. case SetOwnerReference U (cl_meta cluster) (sec_meta cur) of Inl err \<Rightarrow> Inl err
                  | Inr m \<Rightarrow> Inr (cur\<lparr>sec_meta := m\<rparr>))
             else ret (Inr addons)) (\<lambda>_.
           ret (Inr (secret_volume name (ad_SecretRef addon) '''',
             [\<lparr>vm_Name = name, vm_MountPath = filepath_Join [''/var/lib/rancher/k3s/server/manifests'', ad_SecretRef addon],
               vm_SubPath = '''', vm_rest = ''readOnly''\<rparr>]))))))"

definition custom_CAs_enabled :: "cluster \<Rightarrow> bool" where
  "custom_CAs_enabled cluster = (case CustomCAs (cl_Spec cluster) of None \<Rightarrow> False | Some cas \<Rightarrow> ca_Enabled cas)"

text \<open>The claim template of a persistent server, owned by the cluster.\<close>

definition server_claims :: "util \<Rightarrow> cluster \<Rightarrow> goerr + persistent_volume_claim list" where
  "server_claims U cluster =
     (if pe_Type (Persistence (cl_Spec cluster)) = DynamicPersistenceMode then
        (case setupDynamicPersistence cluster of Inl err \<Rightarrow> Inl err
         | Inr pvClaim \<Rightarrow> (case SetControllerReference U (cl_meta cluster) (pvc_meta pvClaim) of Inl err \<Rightarrow> Inl err
           | Inr m \<Rightarrow> Inr [pvClaim\<lparr>pvc_meta := m\<rparr>]))
      else Inr [])"

definition StatefulServer :: "util \<Rightarrow> string \<Rightarrow> 'e server_api \<Rightarrow> server \<Rightarrow> cluster \<Rightarrow> string list \<Rightarrow> ('e, goerr + workload) io" where
  "StatefulServer U StartupCommand A s cluster exposeSANs =
     (let img = K3SImage cluster (s_image s);
          name = SafeConcatNameWithPrefix [Name (cl_meta cluster), ''server''];
          persistent = pe_Type (Persistence (cl_Spec cluster)) = DynamicPersistenceMode;
          selector = server_labels cluster
      in case Servers (cl_Spec cluster) of None \<Rightarrow> ret (Inl nil_pointer)
         | Some replicas \<Rightarrow>
           (case server_claims U cluster of Inl err \<Rightarrow> ret (Inl err)
            | Inr claims \<Rightarrow>
              bindE (if Addons (cl_Spec cluster) \<noteq> [] then buildAddonsVolumes U A cluster else ret (Inr ([], [])))
                (\<lambda>(addonVols, addonMounts).
              bindE (if custom_CAs_enabled cluster then buildCABundleVolumes A cluster else ret (Inr ([], [])))
                (\<lambda>(caVols, caMounts).
              (let (secretVols, secretMounts) = BuildSecretsMountsVolumes (SecretMounts (cl_Spec cluster)) ''server'' in
               case setupStartCommand StartupCommand cluster of Inl err \<Rightarrow> ret (Inl err)
               | Inr startupCommand \<Rightarrow>
                   ret (Inr \<lparr>wk_meta = (meta_of name (Namespace (cl_meta cluster)))\<lparr>Labels := Some selector\<rparr>,
                     wk_Replicas = Some replicas, wk_ServiceName = HeadlessServiceName (Name (cl_meta cluster)),
                     wk_PodManagementPolicy = '''', wk_Selector = selector, wk_TemplateLabels = selector,
                     wk_TemplateAnnotations = exposeSANsAnnotations exposeSANs,
                     wk_Template = add_volumes (addonVols @ caVols @ secretVols) (addonMounts @ caMounts @ secretMounts)
                       (server_podSpec s cluster img name persistent startupCommand),
                     wk_VolumeClaimTemplates = claims\<rparr>))))))"

section \<open>Bootstrap data\<close>

definition bootstrap_secret_key :: "cluster \<Rightarrow> namespaced_name" where
  "bootstrap_secret_key cluster =
     \<lparr>nn_Namespace = Namespace (cl_meta cluster), nn_Name = SafeConcatNameWithPrefix [Name (cl_meta cluster), ''bootstrap'']\<rparr>"

text \<open>The data is a payload: \<^verbatim>\<open>json.Marshal\<close> of it is itself, and \<^verbatim>\<open>well_formed\<close> says what \<^verbatim>\<open>json.Unmarshal\<close> accepts.\<close>

definition SaveToSecret :: "util \<Rightarrow> 'e server_api \<Rightarrow> cluster \<Rightarrow> payload \<Rightarrow> ('e, goerr + unit) io" where
  "SaveToSecret U A cluster data =
     bindE (k_CreateOrUpdate Host (sa_SecretR A)
       \<lparr>sec_meta = meta_of (nn_Name (bootstrap_secret_key cluster)) (nn_Namespace (bootstrap_secret_key cluster)),
        sec_Type = '''', sec_Data = None, sec_Immutable = None\<rparr>
       (\<lambda>secret. case SetControllerReference U (cl_meta cluster) (sec_meta secret) of Inl err \<Rightarrow> Inl err
          | Inr m \<Rightarrow> Inr (secret\<lparr>sec_meta := m, sec_Data := Some (fmap_of_list [(''bootstrap'', data)])\<rparr>)))
       (\<lambda>_. ret (Inr ()))"

definition LoadFromSecret :: "(payload \<Rightarrow> bool) \<Rightarrow> 'e server_api \<Rightarrow> cluster \<Rightarrow> ('e, goerr + payload) io" where
  "LoadFromSecret well_formed A cluster =
     bindE (k_Get Host (sa_SecretR A) (bootstrap_secret_key cluster)) (\<lambda>bootstrapSecret.
       case mlookup (sec_Data bootstrapSecret) ''bootstrap'' of
         None \<Rightarrow> ret (Inl (ErrNew ''empty bootstrap''))
       | Some data \<Rightarrow> if well_formed data then ret (Inr data) else ret (Inl (ErrNew ''invalid character'')))"

section \<open>Volumes of the server pod\<close>



text \<open>Mounts and the volumes that back them, none of them an empty directory.\<close>

definition backed :: "volume list \<Rightarrow> volume_mount list \<Rightarrow> bool" where
  "backed vs ms = (vm_Name ` set ms \<subseteq> vo_Name ` set vs \<and> (\<forall>v\<in>set vs. vo_EmptyDir v = None))"

lemma backed_Nil [simp]: "backed [] []"
  by (simp add: backed_def)

lemma backed_append: "backed vs ms \<Longrightarrow> backed vs' ms' \<Longrightarrow> backed (vs @ vs') (ms @ ms')"
  by (auto simp: backed_def image_Un)

lemma collect_volumes_backed:
  assumes "collect_volumes xs f w = (Inr (vs, ms), w')"
    and step: "\<forall>x v v1 m1 v'. f x v = (Inr (v1, m1), v') \<longrightarrow> backed [v1] m1"
  shows "backed vs ms"
  using assms(1)
proof (induction xs arbitrary: w vs ms w')
  case Nil
  then show ?case by (simp add: ret_def)
next
  case (Cons x xs)
  then obtain v1 m1 v vs1 ms1 v' where run: "f x w = (Inr (v1, m1), v)"
    "collect_volumes xs f v = (Inr (vs1, ms1), v')" "vs = [v1] @ vs1" "ms = m1 @ ms1"
    by (auto simp: bindE_Inr ret_def)
  have "backed [v1] m1" using step run(1) by blast
  moreover have "backed vs1 ms1" by (rule Cons.IH [OF run(2)])
  ultimately show ?case unfolding run(3,4) by (rule backed_append)
qed

lemma vo_Name_simps [simp]:
  "vo_Name (secret_volume n s i) = n"
  "vo_Name (empty_dir n) = n"
  "vo_EmptyDir (secret_volume n s i) = None"
  by (simp_all add: secret_volume_def empty_dir_def empty_volume_def)

lemma mount_at_simps [simp]: "vm_Name (mount_at n p) = n"
  by (simp add: mount_at_def)

lemma buildAddonsVolumes_backed:
  "buildAddonsVolumes U A cluster w = (Inr (vs, ms), w') \<Longrightarrow> backed vs ms"
  unfolding buildAddonsVolumes_def
  by (erule collect_volumes_backed) (auto simp: Let_def bindE_Inr ret_def backed_def)

lemma mountCACert_backed: "mountCACert vn cn sn sub = (v, ms) \<Longrightarrow> backed [v] ms"
  by (auto simp: mountCACert_def Let_def backed_def)

lemma buildCABundleVolumes_backed:
  assumes "buildCABundleVolumes A cluster w = (Inr (vs, ms), w')"
  shows "backed vs ms"
proof (cases "CustomCAs (cl_Spec cluster)")
  case None
  with assms show ?thesis by (simp add: buildCABundleVolumes_def ret_def)
next
  case (Some cas)
  show ?thesis
    using assms unfolding buildCABundleVolumes_def Some option.case Let_def
    by (rule collect_volumes_backed) (auto simp: bindE_Inr ret_def split: if_splits intro: mountCACert_backed)
qed

lemma BuildSecretsMountsVolumes_backed:
  assumes "BuildSecretsMountsVolumes sms role = (vs, ms)"
  shows "backed vs ms"
proof -
  have "set (map vm_Name ms) = set (map vo_Name vs)"
    by (simp only: BuildSecretsMountsVolumes_resolve [OF assms])
  moreover have "\<forall>v\<in>set vs. vo_EmptyDir v = None"
    using assms by (auto simp: BuildSecretsMountsVolumes_def buildSecretMountVolume_def Let_def empty_volume_def)
  ultimately show ?thesis by (simp add: backed_def)
qed

text \<open>The steps of the pod specification that do not touch volumes and mounts.\<close>

lemma first_container_volumes [simp]: "wp_Volumes (first_container f ps) = wp_Volumes ps"
  by (simp add: first_container_def)

lemma first_container_mounts:
  "(\<And>c. wc_VolumeMounts (f c) = wc_VolumeMounts c) \<Longrightarrow>
    map wc_VolumeMounts (wp_Containers (first_container f ps)) = map wc_VolumeMounts (wp_Containers ps)"
  by (cases "wp_Containers ps") (simp_all add: first_container_def)

lemma policy_contexts_volumes [simp]:
  "wp_Volumes (policy_contexts cluster ps) = wp_Volumes ps"
  "map wc_VolumeMounts (wp_Containers (policy_contexts cluster ps)) = map wc_VolumeMounts (wp_Containers ps)"
  by (simp_all add: policy_contexts_def Let_def first_container_mounts split: option.split)

lemma limits_and_resources_volumes [simp]:
  "wp_Volumes (limits_and_resources l r ps) = wp_Volumes ps"
  "map wc_VolumeMounts (wp_Containers (limits_and_resources l r ps)) = map wc_VolumeMounts (wp_Containers ps)"
  by (simp_all add: limits_and_resources_def Let_def first_container_mounts split: option.split)

lemma mounts_resolve_kata: "mounts_resolve claims ps \<Longrightarrow> mounts_resolve claims (kata_mounts ps)"
  by (auto simp: kata_mounts_def mounts_resolve_FilterEmptyDirVolumes mounts_resolve_AddKmsgMount split: option.split)

lemma server_podSpec_resolve:
  assumes "persistent \<Longrightarrow> ''varlibrancherk3s'' \<in> set claims"
  shows "mounts_resolve claims (server_podSpec s cluster img name persistent cmd)"
  unfolding server_podSpec_def Let_def
proof (rule mounts_resolve_kata, goal_cases)
  case 1
  have *: "mounts_resolve claims (ps\<lparr>wp_ImagePullSecrets := x\<rparr>) = mounts_resolve claims ps" for ps x
    by (rule mounts_resolve_cong) simp_all
  have env: "mounts_resolve claims (first_container (\<lambda>c. c\<lparr>wc_Env := g c\<rparr>) ps) = mounts_resolve claims ps" for g ps
    by (rule mounts_resolve_cong) (simp_all add: first_container_mounts)
  have lim: "mounts_resolve claims (limits_and_resources l r ps) = mounts_resolve claims ps" for l r ps
    by (rule mounts_resolve_cong) simp_all
  have pol: "mounts_resolve claims (policy_contexts cluster ps) = mounts_resolve claims ps" for ps
    by (rule mounts_resolve_cong) simp_all
  show ?case unfolding * env lim pol
    using assms by (cases persistent) (simp_all add: mounts_resolve_def server_container_def)
qed

lemma server_claims_names:
  assumes "controllerutil U" "server_claims U cluster = Inr claims"
  shows "map (\<lambda>c. Name (pvc_meta c)) claims =
    (if pe_Type (Persistence (cl_Spec cluster)) = DynamicPersistenceMode then [''varlibrancherk3s''] else [])"
proof -
  have nm: "Name m' = Name m" if "SetControllerReference U owner m = Inr m'" for owner m m'
    using controllerutil.SetControllerReference_key [OF assms(1) that] by (simp add: key_of_def)
  show ?thesis
    using assms(2) 
    by (auto simp: server_claims_def setupDynamicPersistence_def split: if_splits sum.splits option.splits
        dest: nm)
qed

lemma StatefulServer_run:
  assumes "StatefulServer U cmd A s cluster sans w = (Inr ss, w')"
  shows "\<exists>claims vs ms img name c. server_claims U cluster = Inr claims \<and> wk_VolumeClaimTemplates ss = claims \<and>
    backed vs ms \<and> wk_Template ss = add_volumes vs ms
      (server_podSpec s cluster img name (pe_Type (Persistence (cl_Spec cluster)) = DynamicPersistenceMode) c)"
proof -
  obtain claims where claims: "server_claims U cluster = Inr claims"
    using assms by (auto simp: StatefulServer_def Let_def ret_def split: option.splits sum.splits)
  obtain n where n: "Servers (cl_Spec cluster) = Some n"
    using assms by (auto simp: StatefulServer_def Let_def ret_def split: option.splits)
  define M1 where "M1 = (if Addons (cl_Spec cluster) \<noteq> [] then buildAddonsVolumes U A cluster else ret (Inr ([], [])))"
  define M2 where "M2 = (if custom_CAs_enabled cluster then buildCABundleVolumes A cluster else ret (Inr ([], [])))"
  obtain sv sm where sv: "BuildSecretsMountsVolumes (SecretMounts (cl_Spec cluster)) ''server'' = (sv, sm)"
    by (cases "BuildSecretsMountsVolumes (SecretMounts (cl_Spec cluster)) ''server''")
  obtain c where c: "setupStartCommand cmd cluster = Inr c"
    using assms n claims
    by (cases "setupStartCommand cmd cluster")
      (auto simp: StatefulServer_def Let_def bindE_Inr ret_def sv simp flip: M1_def M2_def)
  obtain av am v cv cm v' where av: "M1 w = (Inr (av, am), v)" and cv: "M2 v = (Inr (cv, cm), v')"
    and ss: "wk_VolumeClaimTemplates ss = claims" "wk_Template ss = add_volumes (av @ cv @ sv) (am @ cm @ sm)
      (server_podSpec s cluster (K3SImage cluster (s_image s)) (SafeConcatNameWithPrefix [Name (cl_meta cluster), ''server''])
        (pe_Type (Persistence (cl_Spec cluster)) = DynamicPersistenceMode) c)"
    using assms n claims c
    by (auto simp: StatefulServer_def Let_def bindE_Inr ret_def sv simp flip: M1_def M2_def)
  have "backed av am" using av by (auto simp: M1_def ret_def split: if_splits intro: buildAddonsVolumes_backed)
  moreover have "backed cv cm" using cv by (auto simp: M2_def ret_def split: if_splits intro: buildCABundleVolumes_backed)
  moreover have "backed sv sm" by (rule BuildSecretsMountsVolumes_backed [OF sv])
  ultimately have "backed (av @ cv @ sv) (am @ cm @ sm)" by (intro backed_append)
  with claims ss show ?thesis by blast
qed

lemma kata_mounts_no_empty_dir:
  "wp_RuntimeClassName (kata_mounts ps) = Some rc \<Longrightarrow> strings_HasPrefix rc ''kata'' \<Longrightarrow>
    vol \<in> set (wp_Volumes (kata_mounts ps)) \<Longrightarrow> vo_EmptyDir vol = None"
  by (auto simp: kata_mounts_def FilterEmptyDirVolumes_def AddKmsgMount_def add_volumes_def first_container_def Let_def
      split: option.splits if_splits)

lemma server_podSpec_no_empty_dir:
  "wp_RuntimeClassName (add_volumes vs ms (server_podSpec s cluster img name p c)) = Some rc \<Longrightarrow>
    strings_HasPrefix rc ''kata'' \<Longrightarrow>
    vol \<in> set (wp_Volumes (server_podSpec s cluster img name p c)) \<Longrightarrow> vo_EmptyDir vol = None"
  unfolding server_podSpec_def Let_def
  by (rule kata_mounts_no_empty_dir) (simp_all add: add_volumes_def first_container_def)

text \<open>
  C13: Every volume mount of the server pods names a volume of the pod or the claim of a persistent server,
  whatever add-ons, certificates and secret mounts the cluster has; with a Kata runtime no volume the program
  puts there is an empty directory.
\<close>

theorem server_mounts_resolve:
  assumes "controllerutil U" "StatefulServer U cmd A s cluster sans w = (Inr ss, w')"
  shows "mounts_resolve (map (\<lambda>c. Name (pvc_meta c)) (wk_VolumeClaimTemplates ss)) (wk_Template ss) \<and>
    (wp_RuntimeClassName (wk_Template ss) = Some rc \<and> strings_HasPrefix rc ''kata'' \<longrightarrow>
      (\<forall>vol\<in>set (wp_Volumes (wk_Template ss)). vo_EmptyDir vol = None))"
proof -
  obtain claims vs ms ps img name c where ss: "server_claims U cluster = Inr claims"
      "wk_VolumeClaimTemplates ss = claims" "backed vs ms" "wk_Template ss = add_volumes vs ms ps"
      "ps = server_podSpec s cluster img name (pe_Type (Persistence (cl_Spec cluster)) = DynamicPersistenceMode) c"
    using StatefulServer_run [OF assms(2)] by blast
  have "mounts_resolve (map (\<lambda>c. Name (pvc_meta c)) claims) ps"
    unfolding ss(5) server_claims_names [OF assms(1) ss(1)] by (rule server_podSpec_resolve) simp
  then have "mounts_resolve (map (\<lambda>c. Name (pvc_meta c)) claims) (wk_Template ss)"
    unfolding ss(4) using ss(3) by (intro mounts_resolve_add_volumes) (simp_all add: backed_def)
  moreover have "\<forall>vol\<in>set (wp_Volumes (wk_Template ss)). vo_EmptyDir vol = None"
    if "wp_RuntimeClassName (wk_Template ss) = Some rc" "strings_HasPrefix rc ''kata''"
    using ss(3) that by (auto simp: ss(4,5) backed_def add_volumes_def server_podSpec_no_empty_dir)
  ultimately show ?thesis by (simp add: ss(2))
qed

section \<open>The URL is certified\<close>

lemma buildServerConfig_sans:
  "st_TLSSANs (cl_Status (snd (buildServerConfig c init service token extra))) = server_sans c service extra"
  "sc_TLSSAN (fst (buildServerConfig c init service token extra)) = server_sans c service extra"
  "cl_Spec (snd (buildServerConfig c init service token extra)) = cl_Spec c"
  "cl_meta (snd (buildServerConfig c init service token extra)) = cl_meta c"
  by (simp_all add: buildServerConfig_def Let_def)

lemma server_sans_covers:
  "set (TLSSANs (cl_Spec c)) \<subseteq> set (server_sans c service extra)"
  "se_ClusterIP service \<in> set (server_sans c service extra)"
  "set (LoadBalancerSANs service) \<subseteq> set (server_sans c service extra)"
  by (auto simp: server_sans_def Let_def)

lemma san_fallback_certified:
  assumes "set (TLSSANs (cl_Spec c)) \<subseteq> set (st_TLSSANs (cl_Status c))" "st_TLSSANs (cl_Status c) \<noteq> []"
  shows "san_fallback c host \<in> set (st_TLSSANs (cl_Status c))"
  using assms by (auto simp: san_fallback_def split: list.split)

lemma service_url_certified:
  assumes "st_TLSSANs (cl_Status c) = sans" "set (TLSSANs (cl_Spec c)) \<subseteq> set sans"
    and "se_ClusterIP service \<in> set sans" "set (LoadBalancerSANs service) \<subseteq> set sans"
    and "service_url c ip service = Inr u"
  shows "\<exists>host\<in>set sans. \<exists>port. u = buildURL host port"
proof -
  have "san_fallback c host \<in> set sans" for host
    using san_fallback_certified [of c host] assms(1-3) by (cases "sans = []") auto
  with assms(3-5) show ?thesis
    by (auto simp: service_url_def Let_def split: if_splits list.splits)
qed

text \<open>A URL comes from the service that was read, or from the first rule of the ingress.\<close>

lemma URL_run:
  assumes "URL A cluster ip w = (Inr u, w')"
  shows "(\<exists>key v svc v'. k_Get Host (sa_ServiceR A) key v = (Inr svc, v') \<and> service_url cluster ip svc = Inr u) \<or>
    (\<exists>key v ing v' r rs. k_Get Host (sa_IngressR A) key v = (Inr ing, v') \<and> ci_Rules ing = r # rs \<and>
      u = \<lparr>url_Scheme = ''https'', url_Host = ir_Host r\<rparr>)"
proof -
  define S where "S = bindE (k_Get Host (sa_ServiceR A) \<lparr>nn_Namespace = Namespace (cl_meta cluster),
      nn_Name = ServiceName (Name (cl_meta cluster))\<rparr>) (\<lambda>service. ret (service_url cluster ip service))"
  have S: "\<exists>key v svc v'. k_Get Host (sa_ServiceR A) key v = (Inr svc, v') \<and> service_url cluster ip svc = Inr u"
    if "S v = (Inr u, v')" for v v'
    using that by (auto simp: S_def bindE_Inr ret_def)
  consider "S w = (Inr u, w')"
    | ing key v where "k_Get Host (sa_IngressR A) key w = (Inr ing, v)"
      "(case ci_Rules ing of rule # _ \<Rightarrow> if ir_Host rule \<noteq> '''' then ret (Inr \<lparr>url_Scheme = ''https'', url_Host = ir_Host rule\<rparr>)
         else S | [] \<Rightarrow> S) v = (Inr u, w')"
    using assms by (auto simp: URL_def Let_def bindE_Inr simp flip: S_def split: if_splits)
  then show ?thesis
  proof cases
    case 2
    show ?thesis
    proof (cases "\<exists>v1. S v1 = (Inr u, w')")
      case True
      then obtain v1 where "S v1 = (Inr u, w')" by blast
      then show ?thesis by (intro disjI1 S)
    next
      case False
      with 2(2) obtain r rs where "ci_Rules ing = r # rs" "u = \<lparr>url_Scheme = ''https'', url_Host = ir_Host r\<rparr>"
        by (cases "ci_Rules ing") (auto simp: ret_def split: if_splits)
      with 2(1) show ?thesis by blast
    qed
  qed (intro disjI1 S)
qed




section \<open>Hosts and ports of URLs\<close>

lemma nat_digits_no_colon: "CHR '':'' \<notin> set (nat_digits n)"
  using nat_digits_spec [of n] by (auto simp: list_all_iff is_digit_def)

lemma splitHostPort_port:
  assumes "list_all is_digit p"
  shows "splitHostPort (h @ CHR '':'' # p) =
    (if h \<noteq> [] \<and> hd h = CHR ''['' \<and> last h = CHR '']'' then butlast (tl h) else h, p)"
proof -
  have "CHR '':'' \<notin> set p" using assms by (auto simp: list_all_iff is_digit_def)
  then have "after_last_colon (h @ CHR '':'' # p) = p"
    by (simp add: after_last_colon_def takeWhile_append)
  then show ?thesis using assms by (simp add: splitHostPort_def Let_def)
qed

lemma JoinHostPort_split:
  assumes "list_all is_digit p" "CHR ''['' \<notin> set h"
  shows "splitHostPort (JoinHostPort h p) = (h, p)"
proof (cases "CHR '':'' \<in> set h \<or> CHR ''%'' \<in> set h")
  case True
  then show ?thesis
    using splitHostPort_port [OF assms(1), of "CHR ''['' # h @ [CHR '']'']"]
    by (simp add: JoinHostPort_def butlast_append)
next
  case False
  have "\<not> (h \<noteq> [] \<and> hd h = CHR ''['')" using assms(2) by (cases h) auto
  then show ?thesis using False splitHostPort_port [OF assms(1), of h] by (auto simp: JoinHostPort_def)
qed

lemma splitHostPort_plain:
  "CHR '':'' \<notin> set h \<Longrightarrow> CHR ''['' \<notin> set h \<Longrightarrow> splitHostPort h = (h, [])"
  by (cases h) (auto simp: splitHostPort_def Let_def)

text \<open>
  The host of a URL is read back as it was put in, with the port when it is not 443, for every host name or
  IPv4 address; for an IPv6 address only when there is a port.
\<close>

theorem buildURL_Hostname:
  assumes "0 \<le> port" "CHR ''['' \<notin> set host" "port \<noteq> 443 \<or> CHR '':'' \<notin> set host"
  shows "url_Hostname (buildURL host port) = host \<and>
    url_Port (buildURL host port) = (if port = 443 then '''' else strconv_FormatInt port)"
proof (cases "port = 443")
  case True
  with assms splitHostPort_plain [of host] show ?thesis
    by (simp add: buildURL_def url_Hostname_def url_Port_def)
next
  case False
  have "list_all is_digit (strconv_FormatInt port)"
    using assms(1) nat_digits_spec by (simp add: strconv_FormatInt_def)
  then show ?thesis
    using False JoinHostPort_split [of "strconv_FormatInt port" host] assms(2)
    by (simp add: buildURL_def url_Hostname_def url_Port_def)
qed

theorem buildURL_Hostname_witness:
  "url_Hostname (buildURL ''k3k.example.com'' 6443) = ''k3k.example.com''"
  using buildURL_Hostname [of 6443 "''k3k.example.com''"] by simp

text \<open>
  An IPv6 address on the default port is not put in brackets, so that its last group is read as the port.
\<close>

theorem buildURL_IPv6_default_port:
  "url_Hostname (buildURL ''fd00::1'' 443) = ''fd00:'' \<and> url_Port (buildURL ''fd00::1'' 443) = ''1''"
  by (simp add: buildURL_def url_Hostname_def url_Port_def splitHostPort_def after_last_colon_def is_digit_def Let_def)

lemma service_url_internal:
  assumes "se_ClusterIP service = ip" "ip \<in> set (st_TLSSANs (cl_Status cluster))"
    and "se_Type service \<in> {''ClusterIP'', ''NodePort'', ''LoadBalancer''}"
  shows "service_url cluster ip service = Inr (buildURL ip (case se_Ports service of [] \<Rightarrow> 443 | p # _ \<Rightarrow> sp_Port p))"
  using assms by (auto simp: service_url_def Let_def san_fallback_def)

lemma Service_type: "se_Type (Service cluster) \<in> {''ClusterIP'', ''NodePort'', ''LoadBalancer''}"
  by (simp add: Service_def Let_def addLoadBalancerPorts_def addNodePortPorts_def split: option.split)

lemma Service_first_port:
  "(case se_Ports (Service cluster) of [] \<Rightarrow> 443 | p # _ \<Rightarrow> sp_Port p) =
    (case Expose (cl_Spec cluster) of
       Some e \<Rightarrow> (case (ex_LoadBalancer e, ex_NodePort e) of
           (None, Some np) \<Rightarrow>
             if node_port (np_ServerPort np) server_port \<noteq> [] then 443
             else (case node_port (np_EtcdPort np) etcd_port of [] \<Rightarrow> 443 | _ \<Rightarrow> 2379)
         | _ \<Rightarrow> 443)
     | None \<Rightarrow> 443)"
proof (cases "Expose (cl_Spec cluster)")
  case None
  then show ?thesis by (simp add: Service_def Let_def tcp_port_def)
next
  case (Some e)
  have ports: "se_Ports (service_of n ns sel) = []" for n ns sel by (simp add: service_of_def)
  have np: "(case node_port x p of [] \<Rightarrow> d | q # _ \<Rightarrow> sp_Port q) = (case node_port x p of [] \<Rightarrow> d | _ \<Rightarrow> sp_Port p)" for x p d
    by (simp add: node_port_def split: option.split)
  have app: "(case xs @ ys of [] \<Rightarrow> d | q # _ \<Rightarrow> sp_Port q) =
      (case xs of [] \<Rightarrow> (case ys of [] \<Rightarrow> d | q # _ \<Rightarrow> sp_Port q) | q # _ \<Rightarrow> sp_Port q)" for xs ys and d :: int
    by (cases xs) auto
  show ?thesis
  proof (cases "ex_LoadBalancer e")
    case (Some lb)
    with \<open>Expose _ = Some e\<close> show ?thesis
      by (cases "ex_Annotations e") (simp_all add: Service_def Let_def addLoadBalancerPorts_def ports tcp_port_def)
  next
    case None
    with Some show ?thesis
      by (cases "ex_Annotations e"; cases "ex_NodePort e")
        (simp_all add: Service_def Let_def addNodePortPorts_def ports app np, simp_all add: tcp_port_def split: list.split)
  qed
qed

text \<open>
  The URL the controller puts into the kubeconfig, asking with the cluster IP, is that IP on the default port, for
  every way of exposing the cluster, custom load balancer ports included; only a server node port out of range
  breaks this, since then the first port of the service is that of etcd.
\<close>

theorem internal_url:
  assumes "ip \<in> set (st_TLSSANs (cl_Status cluster))"
  shows "service_url cluster ip ((Service cluster)\<lparr>se_ClusterIP := ip, se_Ingress := addrs\<rparr>) =
    (case Expose (cl_Spec cluster) of
       Some e \<Rightarrow> (case (ex_LoadBalancer e, ex_NodePort e) of
           (None, Some np) \<Rightarrow>
             if node_port (np_ServerPort np) server_port \<noteq> [] then Inr (buildURL ip 443)
             else Inr (buildURL ip (case node_port (np_EtcdPort np) etcd_port of [] \<Rightarrow> 443 | _ \<Rightarrow> 2379))
         | _ \<Rightarrow> Inr (buildURL ip 443))
     | None \<Rightarrow> Inr (buildURL ip 443))"
proof -
  let ?s = "(Service cluster)\<lparr>se_ClusterIP := ip, se_Ingress := addrs\<rparr>"
  have "service_url cluster ip ?s = Inr (buildURL ip (case se_Ports (Service cluster) of [] \<Rightarrow> 443 | p # _ \<Rightarrow> sp_Port p))"
    using service_url_internal [of ?s ip cluster] assms Service_type [of cluster] by simp
  then show ?thesis unfolding Service_first_port by (simp split: option.split)
qed

definition wit_cluster :: "expose_config option \<Rightarrow> cluster" where
  "wit_cluster e =
     empty_cluster\<lparr>cl_meta := meta_of ''c1'' ''ns1'',
       cl_Spec := empty_spec\<lparr>Servers := Some 1, Expose := e\<rparr>,
       cl_Status := empty_status\<lparr>st_TLSSANs := [''10.43.0.7'']\<rparr>\<rparr>"

theorem internal_url_witness:
  "service_url (wit_cluster (Some \<lparr>ex_Ingress = None, ex_LoadBalancer = None,
       ex_NodePort = Some \<lparr>np_ServerPort = Some 443, np_EtcdPort = None\<rparr>, ex_Annotations = None\<rparr>)) ''10.43.0.7''
     ((Service (wit_cluster (Some \<lparr>ex_Ingress = None, ex_LoadBalancer = None,
       ex_NodePort = Some \<lparr>np_ServerPort = Some 443, np_EtcdPort = None\<rparr>, ex_Annotations = None\<rparr>)))\<lparr>
       se_ClusterIP := ''10.43.0.7'', se_Ingress := []\<rparr>) = Inr (buildURL ''10.43.0.7'' 2379)"
  using internal_url [of "''10.43.0.7''" "wit_cluster (Some \<lparr>ex_Ingress = None, ex_LoadBalancer = None,
       ex_NodePort = Some \<lparr>np_ServerPort = Some 443, np_EtcdPort = None\<rparr>, ex_Annotations = None\<rparr>)" "[]"]
  by (simp add: wit_cluster_def empty_cluster_def node_port_def)

definition wit_api :: "cluster_service \<Rightarrow> cluster_ingress \<Rightarrow> unit server_api" where
  "wit_api svc ing =
     \<lparr>sa_ServiceR = mem_resource KService se_meta (\<lambda>_ _. [svc]) (\<lambda>_ e. e),
      sa_IngressR = mem_resource KIngress ci_meta (\<lambda>_ _. [ing]) (\<lambda>_ e. e),
      sa_SecretR = mem_resource KSecret sec_meta (\<lambda>_ _. []) (\<lambda>_ e. e)\<rparr>"

abbreviation wit_world :: "unit world" where "wit_world \<equiv> \<lparr>w_calls = [], w_env = ()\<rparr>"

definition wit_kata_cluster :: cluster where
  "wit_kata_cluster =
     (wit_cluster None)\<lparr>cl_Spec := (cl_Spec (wit_cluster None))\<lparr>RuntimeClassName := Some ''kata-qemu'',
       Persistence := \<lparr>pe_Type = DynamicPersistenceMode, pe_StorageClassName = None, pe_StorageRequestSize = Some ''2G''\<rparr>\<rparr>\<rparr>"

lemma first_container_runtime [simp]: "wp_RuntimeClassName (first_container f ps) = wp_RuntimeClassName ps"
  by (simp add: first_container_def)

lemma kata_mounts_runtime [simp]: "wp_RuntimeClassName (kata_mounts ps) = wp_RuntimeClassName ps"
  by (simp add: kata_mounts_def FilterEmptyDirVolumes_def AddKmsgMount_def add_volumes_def Let_def split: option.split)

lemma limits_and_resources_runtime [simp]:
  "wp_RuntimeClassName (limits_and_resources l r ps) = wp_RuntimeClassName ps"
  by (simp add: limits_and_resources_def Let_def split: option.split)

lemma server_podSpec_runtime_class:
  "wp_RuntimeClassName (server_podSpec s cluster img n p c) =
    from_policy ap_RuntimeClassName (RuntimeClassName (cl_Spec cluster)) cluster"
  unfolding server_podSpec_def Let_def by (simp add: policy_contexts_def Let_def)

lemma wit_kata_runs:
  "\<exists>ss w'. StatefulServer ref_util ''k3s'' (wit_api svc ing) (New wit_kata_cluster ''t'' ''rancher/k3s'' '''' [])
    wit_kata_cluster [] wit_world = (Inr ss, w') \<and> wp_RuntimeClassName (wk_Template ss) = Some ''kata-qemu''"
proof -
  have cmd: "setupStartCommand ''k3s'' wit_kata_cluster = Inr ''k3s''"
    by (simp add: setupStartCommand_def wit_kata_cluster_def wit_cluster_def empty_cluster_def)
  have claims: "\<exists>cs. server_claims ref_util wit_kata_cluster = Inr cs"
    by (simp add: server_claims_def setupDynamicPersistence_def wit_kata_cluster_def wit_cluster_def empty_cluster_def ref_util_def)
  have spec: "Addons (cl_Spec wit_kata_cluster) = []" "\<not> custom_CAs_enabled wit_kata_cluster"
      "SecretMounts (cl_Spec wit_kata_cluster) = []" "Servers (cl_Spec wit_kata_cluster) = Some 1"
      "RuntimeClassName (cl_Spec wit_kata_cluster) = Some ''kata-qemu''" "st_Policy (cl_Status wit_kata_cluster) = None"
    by (simp_all add: wit_kata_cluster_def wit_cluster_def empty_cluster_def empty_spec_def custom_CAs_enabled_def empty_status_def)
  have rc: "wp_RuntimeClassName (server_podSpec s wit_kata_cluster img n p c) = Some ''kata-qemu''" for s img n p c
    unfolding server_podSpec_runtime_class by (simp add: from_policy_def spec)
  obtain cs where "server_claims ref_util wit_kata_cluster = Inr cs" using claims by blast
  then show ?thesis
    unfolding StatefulServer_def Let_def spec option.case sum.case
    by (simp add: spec cmd ret_run BuildSecretsMountsVolumes_def add_volumes_def rc)
qed

theorem server_mounts_resolve_witness:
  "\<exists>ss. mounts_resolve (map (\<lambda>c. Name (pvc_meta c)) (wk_VolumeClaimTemplates ss)) (wk_Template ss) \<and>
    (\<forall>vol\<in>set (wp_Volumes (wk_Template ss)). vo_EmptyDir vol = None) \<and>
    fst (StatefulServer ref_util ''k3s'' (wit_api (Service wit_kata_cluster) (Ingress wit_kata_cluster))
      (New wit_kata_cluster ''t'' ''rancher/k3s'' '''' []) wit_kata_cluster [] wit_world) = Inr ss"
proof -
  obtain ss w' where run: "StatefulServer ref_util ''k3s'' (wit_api (Service wit_kata_cluster) (Ingress wit_kata_cluster))
      (New wit_kata_cluster ''t'' ''rancher/k3s'' '''' []) wit_kata_cluster [] wit_world = (Inr ss, w')"
    and rc: "wp_RuntimeClassName (wk_Template ss) = Some ''kata-qemu''"
    using wit_kata_runs by blast
  show ?thesis
    using server_mounts_resolve [OF ref.controllerutil_axioms run, of "''kata-qemu''"] rc run
    by (intro exI [of _ ss]) (simp add: strings_HasPrefix_def)
qed

definition wit_service :: cluster_service where
  "wit_service = (Service (wit_cluster None))\<lparr>se_ClusterIP := ''10.43.0.7''\<rparr>"


end
