(* ===== verification/Agent.thy ===== *)
theory Agent
  imports Server
begin

text \<open>
  \<^verbatim>\<open>pkg/controller/cluster/agent\<close>: the resources of the agents of a cluster. In shared mode that is the virtual kubelet
  (a daemon set with its configuration, service account, role, role binding and services), in virtual mode k3s
  agents (a stateful set, or the deployment of an older release). The kubelet port allocator of the same package
  is in the theory \<^verbatim>\<open>Ports\<close>. The YAML encoder and the random source are parameters.

  The lemmas show that all resources are attempted whatever fails, that nothing outside the namespace of the
  cluster is written, and that the mounts of the agent pods resolve.
\<close>

section \<open>Objects\<close>

record service_account =
  sva_meta :: object_meta

record policy_rule =
  ru_APIGroups :: "string list"
  ru_Resources :: "string list"
  ru_Verbs :: "string list"

record role =
  ro_meta :: object_meta
  ro_Rules :: "policy_rule list"

record subject =
  sj_APIGroup :: string
  sj_Kind :: string
  sj_Name :: string
  sj_Namespace :: string

record role_binding =
  rb_meta :: object_meta
  rb_RoleRef :: string
  rb_Subjects :: "subject list"

record 'e agent_api =
  aa_SecretR :: "('e, secret) resource"
  aa_ServiceAccountR :: "('e, service_account) resource"
  aa_RoleR :: "('e, role) resource"
  aa_RoleBindingR :: "('e, role_binding) resource"
  aa_ServiceR :: "('e, cluster_service) resource"
  aa_DaemonSetR :: "('e, workload) resource"
  aa_DeploymentR :: "('e, workload) resource"
  aa_StatefulSetR :: "('e, workload) resource"

section \<open>Common parts\<close>

definition agent_configSecretName :: "string \<Rightarrow> string" where
  "agent_configSecretName clusterName = SafeConcatNameWithPrefix [clusterName, ''agent-config'']"

definition ensureObject :: "util \<Rightarrow> cluster \<Rightarrow> ('e, 'o) resource \<Rightarrow> ((object_meta \<Rightarrow> object_meta) \<Rightarrow> 'o \<Rightarrow> 'o) \<Rightarrow> 'o \<Rightarrow>
    ('e, goerr + unit) io" where
  "ensureObject U cluster R setm obj =
     (case SetControllerReference U (cl_meta cluster) (r_meta R obj) of Inl err \<Rightarrow> ret (Inl err)
      | Inr m \<Rightarrow>
          (let obj = setm (\<lambda>_. m) obj in
           bindS (k_Create Host R obj) (\<lambda>r. case r of
             Inr _ \<Rightarrow> ret (Inr ())
           | Inl err \<Rightarrow> if IsAlreadyExists err then bindE (k_Update Host R obj) (\<lambda>_. ret (Inr ())) else ret (Inl err))))"

text \<open>The arguments of \<^verbatim>\<open>errors.Join\<close> are evaluated in order, each whatever the others return.\<close>

fun run_all :: "('e, goerr + unit) io list \<Rightarrow> ('e, goerr option list) io" where
  "run_all [] = ret []"
| "run_all (m # ms) = bindS m (\<lambda>r. bindS (run_all ms) (\<lambda>es. ret (err_of r # es)))"

definition ensure_all :: "('e, goerr + unit) io list \<Rightarrow> ('e, goerr + unit) io" where
  "ensure_all ms =
     bindS (run_all ms) (\<lambda>es. case errors_Join es of None \<Rightarrow> ret (Inr ())
       | Some err \<Rightarrow> ret (Inl (ErrWrap ''failed to ensure some resources'' [err])))"

definition config_secret :: "cluster \<Rightarrow> string \<Rightarrow> secret" where
  "config_secret cluster config =
     \<lparr>sec_meta = meta_of (agent_configSecretName (Name (cl_meta cluster))) (Namespace (cl_meta cluster)), sec_Type = '''',
      sec_Data = Some (fmap_of_list [(''config.yaml'', config)]), sec_Immutable = None\<rparr>"

section \<open>Shared mode\<close>

record shared_agent =
  sh_serviceIP :: string
  sh_image :: string
  sh_imagePullPolicy :: string
  sh_imageRegistry :: string
  sh_token :: string
  sh_kubeletPort :: int
  sh_imagePullSecrets :: "string list"

record shared_agent_config =
  sg_ClusterName :: string
  sg_ClusterNamespace :: string
  sg_KubeletPort :: int
  sg_MirrorHostNodes :: bool
  sg_ServerIP :: string
  sg_ServiceName :: string
  sg_Token :: string
  sg_Version :: string

definition NewSharedAgent :: "string \<Rightarrow> string \<Rightarrow> string \<Rightarrow> string \<Rightarrow> int \<Rightarrow> string list \<Rightarrow> shared_agent" where
  "NewSharedAgent serviceIP img imagePullPolicy token kubeletPort imagePullSecrets =
     \<lparr>sh_serviceIP = serviceIP, sh_image = img, sh_imagePullPolicy = imagePullPolicy, sh_imageRegistry = '''',
      sh_token = token, sh_kubeletPort = kubeletPort, sh_imagePullSecrets = imagePullSecrets\<rparr>"

definition shared_Name :: "cluster \<Rightarrow> string" where
  "shared_Name cluster = SafeConcatNameWithPrefix [Name (cl_meta cluster), ''kubelet'']"

definition sharedAgentData :: "cluster \<Rightarrow> string \<Rightarrow> string \<Rightarrow> string \<Rightarrow> int \<Rightarrow> shared_agent_config" where
  "sharedAgentData cluster serviceName token ip kubeletPort =
     \<lparr>sg_ClusterName = Name (cl_meta cluster), sg_ClusterNamespace = Namespace (cl_meta cluster),
      sg_KubeletPort = kubeletPort, sg_MirrorHostNodes = MirrorHostNodes (cl_Spec cluster), sg_ServerIP = ip,
      sg_ServiceName = serviceName, sg_Token = token,
      sg_Version = (if Version (cl_Spec cluster) = '''' then st_HostVersion (cl_Status cluster) else Version (cl_Spec cluster))\<rparr>"

definition shared_config :: "util \<Rightarrow> (shared_agent_config \<Rightarrow> goerr + string) \<Rightarrow> 'e agent_api \<Rightarrow> shared_agent \<Rightarrow> cluster \<Rightarrow>
    ('e, goerr + unit) io" where
  "shared_config U yaml A s cluster =
     (case yaml (sharedAgentData cluster (shared_Name cluster) (sh_token s) (sh_serviceIP s) (sh_kubeletPort s)) of
        Inl err \<Rightarrow> ret (Inl err)
      | Inr config \<Rightarrow> ensureObject U cluster (aa_SecretR A) sec_meta_update (config_secret cluster config))"

definition shared_labels :: "cluster \<Rightarrow> smap" where
  "shared_labels cluster = fmap_of_list [(''cluster'', Name (cl_meta cluster)), (''type'', ''agent''), (''mode'', ''shared'')]"

definition shared_container :: "shared_agent \<Rightarrow> cluster \<Rightarrow> wl_container" where
  "shared_container s cluster =
     empty_wl_container\<lparr>wc_Name := shared_Name cluster,
       wc_Image := (if sh_imageRegistry s \<noteq> '''' then sh_imageRegistry s @ ''/'' @ sh_image s else sh_image s),
       wc_ImagePullPolicy := sh_imagePullPolicy s,
       wc_ReadinessProbe := Some \<lparr>pr_InitialDelaySeconds = 60, pr_FailureThreshold = 5, pr_TimeoutSeconds = 10,
         pr_PeriodSeconds = 0, pr_Handler = HTTPGet ''HTTPS'' ''/readyz'' (sh_kubeletPort s)\<rparr>,
       wc_Env := [env_from_field ''AGENT_HOSTNAME'' ''spec.nodeName'', env_from_field ''POD_IP'' ''status.podIP''] @
         AgentEnvs (cl_Spec cluster),
       wc_VolumeMounts := [mount_at ''config'' ''/opt/rancher/k3k/''],
       wc_Ports := [(''kubelet-port'', sh_kubeletPort s)]\<rparr>"

definition shared_podSpec :: "shared_agent \<Rightarrow> cluster \<Rightarrow> wl_pod_spec" where
  "shared_podSpec s cluster =
     (let mirror = MirrorHostNodes (cl_Spec cluster);
          ps = empty_wl_pod_spec\<lparr>
            wp_Affinity := map_option OpaqueAffinity (from_policy ap_AgentAffinity (AgentAffinity (cl_Spec cluster)) cluster),
            wp_HostNetwork := mirror,
            wp_DNSPolicy := (if mirror then ''ClusterFirstWithHostNet'' else ''ClusterFirst''),
            wp_ServiceAccountName := shared_Name cluster,
            wp_NodeSelector := node_selector cluster,
            wp_Volumes := [secret_volume ''config'' (agent_configSecretName (Name (cl_meta cluster))) ''config.yaml''],
            wp_Containers := [shared_container s cluster]\<rparr>;
          ps = ps\<lparr>wp_ImagePullSecrets := wp_ImagePullSecrets ps @ sh_imagePullSecrets s\<rparr>;
          ps = policy_contexts cluster ps
      in limits_and_resources (WorkerLimit (cl_Spec cluster)) (WorkerResources (cl_Spec cluster)) ps)"

definition shared_daemonset :: "util \<Rightarrow> 'e agent_api \<Rightarrow> shared_agent \<Rightarrow> cluster \<Rightarrow> ('e, goerr + unit) io" where
  "shared_daemonset U A s cluster =
     ensureObject U cluster (aa_DaemonSetR A) wk_meta_update
       \<lparr>wk_meta = (meta_of (shared_Name cluster) (Namespace (cl_meta cluster)))\<lparr>Labels := Some (shared_labels cluster)\<rparr>,
        wk_Replicas = None, wk_ServiceName = '''', wk_PodManagementPolicy = '''', wk_Selector = shared_labels cluster,
        wk_TemplateLabels = shared_labels cluster, wk_TemplateAnnotations = None, wk_Template = shared_podSpec s cluster,
        wk_VolumeClaimTemplates = []\<rparr>"

definition shared_service :: "util \<Rightarrow> 'e agent_api \<Rightarrow> shared_agent \<Rightarrow> cluster \<Rightarrow> ('e, goerr + unit) io" where
  "shared_service U A s cluster =
     ensureObject U cluster (aa_ServiceR A) se_meta_update
       ((service_of (shared_Name cluster) (Namespace (cl_meta cluster)) (shared_labels cluster))\<lparr>se_Type := ''ClusterIP'',
         se_Ports := [tcp_port ''k3s-kubelet-port'' (sh_kubeletPort s) 0]\<rparr>)"

definition shared_dnsService :: "util \<Rightarrow> 'e agent_api \<Rightarrow> cluster \<Rightarrow> ('e, goerr + unit) io" where
  "shared_dnsService U A cluster =
     ensureObject U cluster (aa_ServiceR A) se_meta_update
       ((service_of (SafeConcatNameWithPrefix [Name (cl_meta cluster), ''kube-dns'']) (Namespace (cl_meta cluster))
           (fmap_of_list [(''k3k.io/clusterName'', Name (cl_meta cluster)), (''k8s-app'', ''kube-dns'')]))\<lparr>
         se_Type := ''ClusterIP'',
         se_Ports := [(tcp_port ''dns'' 53 53)\<lparr>sp_Protocol := ''UDP''\<rparr>, tcp_port ''dns-tcp'' 53 53, tcp_port ''metrics'' 9153 9153]\<rparr>)"

definition shared_serviceAccount :: "util \<Rightarrow> 'e agent_api \<Rightarrow> cluster \<Rightarrow> ('e, goerr + unit) io" where
  "shared_serviceAccount U A cluster =
     ensureObject U cluster (aa_ServiceAccountR A) sva_meta_update
       \<lparr>sva_meta = meta_of (shared_Name cluster) (Namespace (cl_meta cluster))\<rparr>"

definition shared_rules :: "policy_rule list" where
  "shared_rules =
     [\<lparr>ru_APIGroups = [''''],
       ru_Resources = [''persistentvolumeclaims'', ''secrets'', ''configmaps'', ''services'', ''pods'', ''pods/log'', ''pods/attach'',
         ''pods/exec'', ''pods/ephemeralcontainers'', ''pods/portforward''], ru_Verbs = [''*'']\<rparr>,
      \<lparr>ru_APIGroups = [''''], ru_Resources = [''events''], ru_Verbs = [''create'', ''get'', ''list'', ''watch'']\<rparr>,
      \<lparr>ru_APIGroups = [''''], ru_Resources = [''resourcequotas''], ru_Verbs = [''get'', ''watch'', ''list'']\<rparr>,
      \<lparr>ru_APIGroups = [''networking.k8s.io''], ru_Resources = [''ingresses''], ru_Verbs = [''*'']\<rparr>,
      \<lparr>ru_APIGroups = [''k3k.io''], ru_Resources = [''clusters''], ru_Verbs = [''get'', ''watch'', ''list'']\<rparr>,
      \<lparr>ru_APIGroups = [''coordination.k8s.io''], ru_Resources = [''leases''], ru_Verbs = [''*'']\<rparr>]"

definition shared_role :: "util \<Rightarrow> 'e agent_api \<Rightarrow> cluster \<Rightarrow> ('e, goerr + unit) io" where
  "shared_role U A cluster =
     ensureObject U cluster (aa_RoleR A) ro_meta_update
       \<lparr>ro_meta = meta_of (shared_Name cluster) (Namespace (cl_meta cluster)), ro_Rules = shared_rules\<rparr>"

definition shared_roleBinding :: "util \<Rightarrow> 'e agent_api \<Rightarrow> cluster \<Rightarrow> ('e, goerr + unit) io" where
  "shared_roleBinding U A cluster =
     ensureObject U cluster (aa_RoleBindingR A) rb_meta_update
       \<lparr>rb_meta = meta_of (shared_Name cluster) (Namespace (cl_meta cluster)), rb_RoleRef = shared_Name cluster,
        rb_Subjects = [\<lparr>sj_APIGroup = '''', sj_Kind = ''ServiceAccount'', sj_Name = shared_Name cluster, sj_Namespace = Namespace (cl_meta cluster)\<rparr>]\<rparr>"

definition shared_EnsureResources :: "util \<Rightarrow> (shared_agent_config \<Rightarrow> goerr + string) \<Rightarrow> 'e agent_api \<Rightarrow> shared_agent \<Rightarrow> cluster \<Rightarrow>
    ('e, goerr + unit) io" where
  "shared_EnsureResources U yaml A s cluster =
     ensure_all [shared_config U yaml A s cluster, shared_serviceAccount U A cluster, shared_role U A cluster,
       shared_roleBinding U A cluster, shared_service U A s cluster, shared_daemonset U A s cluster,
       shared_dnsService U A cluster]"

section \<open>Virtual mode\<close>

record virtual_agent =
  va_serviceIP :: string
  va_token :: string
  va_Image :: string
  va_ImagePullPolicy :: string
  va_ImageRegistry :: string
  va_imagePullSecrets :: "string list"

record virtual_agent_config =
  vg_Server :: string
  vg_Token :: string
  vg_WithNodeID :: bool

definition NewVirtualAgent :: "string \<Rightarrow> string \<Rightarrow> string \<Rightarrow> string \<Rightarrow> string list \<Rightarrow> virtual_agent" where
  "NewVirtualAgent serviceIP token img imagePullPolicy imagePullSecrets =
     \<lparr>va_serviceIP = serviceIP, va_token = token, va_Image = img, va_ImagePullPolicy = imagePullPolicy,
      va_ImageRegistry = '''', va_imagePullSecrets = imagePullSecrets\<rparr>"

definition virtual_Name :: "cluster \<Rightarrow> string" where
  "virtual_Name cluster = SafeConcatNameWithPrefix [Name (cl_meta cluster), ''agent'']"

definition virtualAgentData :: "string \<Rightarrow> string \<Rightarrow> bool \<Rightarrow> virtual_agent_config" where
  "virtualAgentData serviceIP token withNodeID =
     \<lparr>vg_Server = ''https://'' @ serviceIP, vg_Token = token, vg_WithNodeID = withNodeID\<rparr>"

definition virtual_config :: "util \<Rightarrow> (virtual_agent_config \<Rightarrow> goerr + string) \<Rightarrow> 'e agent_api \<Rightarrow> virtual_agent \<Rightarrow> cluster \<Rightarrow> bool \<Rightarrow>
    ('e, goerr + unit) io" where
  "virtual_config U yaml A v cluster withNodeID =
     (case yaml (virtualAgentData (va_serviceIP v) (va_token v) withNodeID) of Inl err \<Rightarrow> ret (Inl err)
      | Inr config \<Rightarrow> ensureObject U cluster (aa_SecretR A) sec_meta_update (config_secret cluster config))"

definition virtual_labels :: "cluster \<Rightarrow> smap" where
  "virtual_labels cluster = fmap_of_list [(''cluster'', Name (cl_meta cluster)), (''type'', ''agent''), (''mode'', ''virtual'')]"

definition virtual_podSpec :: "virtual_agent \<Rightarrow> cluster \<Rightarrow> string \<Rightarrow> string \<Rightarrow> wl_pod_spec" where
  "virtual_podSpec v cluster img name =
     (let img = (if va_ImageRegistry v \<noteq> '''' then va_ImageRegistry v @ ''/'' @ img else img);
          dirs = [''run'', ''varrun'', ''varlibcni'', ''varlog'', ''varlibkubelet'', ''varlibrancherk3s''];
          container = empty_wl_container\<lparr>wc_Name := name, wc_Image := img, wc_ImagePullPolicy := va_ImagePullPolicy v,
            wc_SecurityContext := Some Privileged,
            wc_Args := [''agent'', ''--config'', ''/opt/rancher/k3s/config.yaml''] @ AgentArgs (cl_Spec cluster),
            wc_Command := [''/bin/k3s''], wc_Env := AgentEnvs (cl_Spec cluster),
            wc_VolumeMounts := [mount_at ''config'' ''/opt/rancher/k3s/'', mount_at ''run'' ''/run'',
              mount_at ''varrun'' ''/var/run'', mount_at ''varlibcni'' ''/var/lib/cni'',
              mount_at ''varlibkubelet'' ''/var/lib/kubelet'', mount_at ''varlibrancherk3s'' ''/var/lib/rancher/k3s'',
              mount_at ''varlog'' ''/var/log'']\<rparr>;
          ps = empty_wl_pod_spec\<lparr>
            wp_Affinity := map_option OpaqueAffinity (from_policy ap_AgentAffinity (AgentAffinity (cl_Spec cluster)) cluster),
            wp_NodeSelector := node_selector cluster,
            wp_Volumes := secret_volume ''config'' (agent_configSecretName (Name (cl_meta cluster))) ''config.yaml'' # map empty_dir dirs,
            wp_Containers := [container]\<rparr>;
          ps = limits_and_resources (WorkerLimit (cl_Spec cluster)) (WorkerResources (cl_Spec cluster)) ps;
          ps = ps\<lparr>wp_ImagePullSecrets := wp_ImagePullSecrets ps @ va_imagePullSecrets v\<rparr>;
          ps = policy_contexts cluster ps
      in kata_mounts ps)"

text \<open>The pod of the deployment, and the workload around a pod.\<close>

definition virtual_pod_with_secrets :: "virtual_agent \<Rightarrow> cluster \<Rightarrow> wl_pod_spec" where
  "virtual_pod_with_secrets v cluster =
     (let ps = virtual_podSpec v cluster (K3SImage cluster (va_Image v)) ''k3k-agent''
      in case BuildSecretsMountsVolumes (SecretMounts (cl_Spec cluster)) ''agent'' of (vols, volMounts) \<Rightarrow>
           add_volumes vols volMounts ps)"

definition virtual_workload :: "cluster \<Rightarrow> string \<Rightarrow> wl_pod_spec \<Rightarrow> workload" where
  "virtual_workload cluster podManagement ps =
     \<lparr>wk_meta = (meta_of (virtual_Name cluster) (Namespace (cl_meta cluster)))\<lparr>Labels := Some (virtual_labels cluster)\<rparr>,
      wk_Replicas = Agents (cl_Spec cluster), wk_ServiceName = '''', wk_PodManagementPolicy = podManagement,
      wk_Selector = virtual_labels cluster, wk_TemplateLabels = virtual_labels cluster, wk_TemplateAnnotations = None,
      wk_Template = ps, wk_VolumeClaimTemplates = []\<rparr>"

definition virtual_deployment :: "util \<Rightarrow> 'e agent_api \<Rightarrow> virtual_agent \<Rightarrow> cluster \<Rightarrow> ('e, goerr + unit) io" where
  "virtual_deployment U A v cluster =
     ensureObject U cluster (aa_DeploymentR A) wk_meta_update
       (virtual_workload cluster '''' (virtual_pod_with_secrets v cluster))"

definition node_password_name :: "cluster \<Rightarrow> string" where
  "node_password_name cluster = SafeConcatNameWithPrefix [Name (cl_meta cluster), ''agent'', ''node'', ''password'']"

definition virtual_statefulset :: "util \<Rightarrow> 'e agent_api \<Rightarrow> virtual_agent \<Rightarrow> cluster \<Rightarrow> ('e, goerr + unit) io" where
  "virtual_statefulset U A v cluster =
     ensureObject U cluster (aa_StatefulSetR A) wk_meta_update
       (virtual_workload cluster ''Parallel''
         (add_volumes [secret_volume ''node-password'' (node_password_name cluster) '''']
           [mount_at ''node-password'' ''/etc/rancher/node/''] (virtual_pod_with_secrets v cluster)))"

definition virtual_headlessService :: "util \<Rightarrow> 'e agent_api \<Rightarrow> cluster \<Rightarrow> ('e, goerr + unit) io" where
  "virtual_headlessService U A cluster =
     ensureObject U cluster (aa_ServiceR A) se_meta_update
       ((service_of (virtual_Name cluster) (Namespace (cl_meta cluster)) (virtual_labels cluster))\<lparr>
         se_Type := ''ClusterIP'', se_ClusterIP := ''None'', se_Ports := [tcp_port ''k3s-kubelet-port'' 10250 10250]\<rparr>)"

text \<open>The password is sixteen random bytes in hexadecimal, or the error of the random source.\<close>

definition virtual_nodePassword :: "util \<Rightarrow> ('e \<Rightarrow> (goerr + string) \<times> 'e) \<Rightarrow> 'e agent_api \<Rightarrow> cluster \<Rightarrow> ('e, goerr + unit) io" where
  "virtual_nodePassword U password A cluster =
     bindE (external password) (\<lambda>p.
          (case SetControllerReference U (cl_meta cluster) (meta_of (node_password_name cluster) (Namespace (cl_meta cluster))) of
             Inl err \<Rightarrow> ret (Inl err)
           | Inr m \<Rightarrow> bindS (k_Create Host (aa_SecretR A) \<lparr>sec_meta = m, sec_Type = '''',
                 sec_Data = Some (fmap_of_list [(''password'', p)]), sec_Immutable = None\<rparr>) (\<lambda>r. case r of
               Inl err \<Rightarrow> ret (if IsAlreadyExists err then Inr () else Inl err)
             | Inr _ \<Rightarrow> ret (Inr ()))))"

definition record_event :: "object_meta \<Rightarrow> ('e, goerr + unit) io" where
  "record_event m = log_call Host VRecordEvent KEvent m [] (\<lambda>e. (Inr (), e))"

definition deprecatedDeployment :: "'e agent_api \<Rightarrow> cluster \<Rightarrow> ('e, goerr + workload option) io" where
  "deprecatedDeployment A cluster =
     bindS (k_Get Host (aa_DeploymentR A) \<lparr>nn_Namespace = Namespace (cl_meta cluster), nn_Name = virtual_Name cluster\<rparr>) (\<lambda>r.
       case r of Inl err \<Rightarrow> ret (if IsNotFound err then Inr None else Inl err)
       | Inr dep \<Rightarrow> bindS (record_event (cl_meta cluster)) (\<lambda>_. ret (Inr (Some dep))))"

definition virtual_EnsureResources :: "util \<Rightarrow> (virtual_agent_config \<Rightarrow> goerr + string) \<Rightarrow> ('e \<Rightarrow> (goerr + string) \<times> 'e) \<Rightarrow> 'e agent_api \<Rightarrow>
    virtual_agent \<Rightarrow> cluster \<Rightarrow> ('e, goerr + unit) io" where
  "virtual_EnsureResources U yaml password A v cluster =
     bindE (deprecatedDeployment A cluster) (\<lambda>dep.
       if dep \<noteq> None then ensure_all [virtual_config U yaml A v cluster True, virtual_deployment U A v cluster]
       else ensure_all [virtual_config U yaml A v cluster False, virtual_nodePassword U password A cluster,
         virtual_headlessService U A cluster, virtual_statefulset U A v cluster])"

section \<open>Every resource is ensured\<close>

text \<open>A successful create or update of an object.\<close>

definition wrote :: "kind \<Rightarrow> namespaced_name \<Rightarrow> call \<Rightarrow> bool" where
  "wrote k key c \<longleftrightarrow> c_side c = Host \<and> c_verb c \<in> {VCreate, VUpdate} \<and> c_kind c = k \<and> key_of (c_meta c) = key \<and> c_err c = None"

text \<open>Writes that create or update one of the given objects of a namespace.\<close>

definition writes_among :: "(kind \<times> string) list \<Rightarrow> string \<Rightarrow> call \<Rightarrow> bool" where
  "writes_among objs ns c \<longleftrightarrow>
     (c_verb c \<in> {VCreate, VUpdate} \<longrightarrow> c_side c = Host \<and> Namespace (c_meta c) = ns \<and> (c_kind c, Name (c_meta c)) \<in> set objs) \<and>
     c_verb c \<in> {VGet, VCreate, VUpdate, VRecordEvent}"

lemma ensureObject_calls:
  assumes "controllerutil U" "\<And>f ob. r_meta R (setm f ob) = f (r_meta R ob)"
    and "(r_kind R, Name (r_meta R obj)) \<in> set objs" "Namespace (r_meta R obj) = ns"
  shows "calls_sat (writes_among objs ns) (ensureObject U cluster R setm obj)"
proof (cases "SetControllerReference U (cl_meta cluster) (r_meta R obj)")
  case (Inl e)
  then show ?thesis by (simp add: ensureObject_def calls_sat_ret)
next
  case (Inr m)
  have "key_of m = key_of (r_meta R obj)" by (rule controllerutil.SetControllerReference_key [OF assms(1) Inr])
  then have "Name m = Name (r_meta R obj)" "Namespace m = Namespace (r_meta R obj)" by (simp_all add: key_of_def)
  with assms Inr show ?thesis
    by (auto simp: ensureObject_def Let_def k_Create_def k_Update_def writes_among_def intro!: calls_intro)
qed

lemma ensureObject_does:
  assumes "controllerutil U" "\<And>f ob. r_meta R (setm f ob) = f (r_meta R ob)"
    and "r_kind R = k" "key = key_of (r_meta R obj)"
  shows "does (wrote k key) (ensureObject U cluster R setm obj)"
proof (cases "SetControllerReference U (cl_meta cluster) (r_meta R obj)")
  case (Inl e)
  then show ?thesis by (simp add: ensureObject_def does_ret_Inl)
next
  case (Inr m)
  have "key_of m = key" unfolding assms(4) by (rule controllerutil.SetControllerReference_key [OF assms(1) Inr])
  with assms(2,3) Inr show ?thesis
    by (auto simp: does_def ensureObject_def Let_def k_Create_def k_Update_def wrote_def log_call_def bindS_run
        bindE_run ret_def split: prod.splits sum.splits if_splits)
qed

text \<open>Running a list of actions keeps what each of them guarantees.\<close>

lemma run_all_calls: "(\<And>m. m \<in> set ms \<Longrightarrow> calls_sat P m) \<Longrightarrow> calls_sat P (run_all ms)"
  by (induction ms) (auto intro!: calls_intro)

lemma ensure_all_calls: "(\<And>m. m \<in> set ms \<Longrightarrow> calls_sat P m) \<Longrightarrow> calls_sat P (ensure_all ms)"
  unfolding ensure_all_def by (intro calls_intro run_all_calls)

lemma run_all_does:
  assumes "run_all ms w = (es, w')" "\<forall>e\<in>set es. e = None" "m \<in> set ms" "does P m"
    and "\<And>m. m \<in> set ms \<Longrightarrow> calls_sat (\<lambda>_. True) m"
  shows "\<exists>cs. w_calls w' = w_calls w @ cs \<and> list_ex P cs"
  using assms
proof (induction ms arbitrary: w es)
  case (Cons m1 ms)
  obtain r v where m1: "m1 w = (r, v)" by (cases "m1 w")
  obtain es1 v1 where ra: "run_all ms v = (es1, v1)" by (cases "run_all ms v")
  have es: "es = err_of r # es1" "w' = v1"
    using Cons.prems(1) by (simp_all add: bindS_run m1 ra ret_def)
  obtain c1 where c1: "w_calls v = w_calls w @ c1"
    using calls_sat_extends [of "\<lambda>_. True" m1, OF Cons.prems(5) m1] by auto
  obtain c2 where c2: "w_calls w' = w_calls v @ c2"
    using calls_sat_extends [of "\<lambda>_. True" "run_all ms", OF run_all_calls ra] Cons.prems(5) es(2) by auto
  show ?case
  proof (cases "m = m1")
    case True
    from Cons.prems(2) es(1) obtain a where "r = Inr a" by (cases r) auto
    with m1 Cons.prems(4) True obtain cs where "w_calls v = w_calls w @ cs" "list_ex P cs"
      unfolding does_def by blast
    with c2 show ?thesis by (intro exI [of _ "cs @ c2"]) simp
  next
    case False
    with Cons.prems(3) have "m \<in> set ms" by simp
    with Cons.IH [OF ra [folded es(2)] _ _ Cons.prems(4)] Cons.prems(2,5) es(1) c1 obtain cs where
      "w_calls w' = w_calls v @ cs" "list_ex P cs" by auto
    with c1 show ?thesis by (intro exI [of _ "c1 @ cs"]) simp
  qed
qed simp

lemma ensure_all_does:
  assumes "m \<in> set ms" "does P m" "\<And>m. m \<in> set ms \<Longrightarrow> calls_sat (\<lambda>_. True) m"
  shows "does P (ensure_all ms)"
  unfolding does_def
proof (intro allI impI)
  fix w a w'
  assume run: "ensure_all ms w = (Inr a, w')"
  obtain es v where ra: "run_all ms w = (es, v)" by (cases "run_all ms w")
  with run have "errors_Join es = None" "v = w'"
    by (auto simp: ensure_all_def bindS_run ret_def split: option.splits)
  then show "\<exists>cs. w_calls w' = w_calls w @ cs \<and> list_ex P cs"
    using run_all_does [OF ra _ assms(1,2)] assms(3) by (simp add: errors_Join_None)
qed

definition agent_ok :: "'e agent_api \<Rightarrow> bool" where
  "agent_ok A \<longleftrightarrow>
     r_meta (aa_SecretR A) = sec_meta \<and> r_kind (aa_SecretR A) = KSecret \<and>
     r_meta (aa_ServiceAccountR A) = sva_meta \<and> r_kind (aa_ServiceAccountR A) = KServiceAccount \<and>
     r_meta (aa_RoleR A) = ro_meta \<and> r_kind (aa_RoleR A) = KRole \<and>
     r_meta (aa_RoleBindingR A) = rb_meta \<and> r_kind (aa_RoleBindingR A) = KRoleBinding \<and>
     r_meta (aa_ServiceR A) = se_meta \<and> r_kind (aa_ServiceR A) = KService \<and>
     r_meta (aa_DaemonSetR A) = wk_meta \<and> r_kind (aa_DaemonSetR A) = KDaemonSet \<and>
     r_meta (aa_DeploymentR A) = wk_meta \<and> r_kind (aa_DeploymentR A) = KDeployment \<and>
     r_meta (aa_StatefulSetR A) = wk_meta \<and> r_kind (aa_StatefulSetR A) = KStatefulSet"

definition shared_objects :: "cluster \<Rightarrow> (kind \<times> string) list" where
  "shared_objects cluster =
     [(KSecret, agent_configSecretName (Name (cl_meta cluster))), (KServiceAccount, shared_Name cluster), (KRole, shared_Name cluster),
      (KRoleBinding, shared_Name cluster), (KService, shared_Name cluster), (KDaemonSet, shared_Name cluster),
      (KService, SafeConcatNameWithPrefix [Name (cl_meta cluster), ''kube-dns''])]"

definition virtual_objects :: "cluster \<Rightarrow> (kind \<times> string) list" where
  "virtual_objects cluster =
     [(KSecret, agent_configSecretName (Name (cl_meta cluster))), (KDeployment, virtual_Name cluster),
      (KSecret, node_password_name cluster), (KService, virtual_Name cluster), (KStatefulSet, virtual_Name cluster)]"

abbreviation in_cluster :: "cluster \<Rightarrow> string \<Rightarrow> namespaced_name" where
  "in_cluster cluster n \<equiv> \<lparr>nn_Namespace = Namespace (cl_meta cluster), nn_Name = n\<rparr>"

lemmas shared_op_defs = shared_config_def shared_serviceAccount_def shared_role_def shared_roleBinding_def shared_service_def
  shared_daemonset_def shared_dnsService_def

lemmas virtual_op_defs = virtual_config_def virtual_deployment_def virtual_headlessService_def virtual_statefulset_def

lemma agent_meta_simps:
  "sec_meta (config_secret cluster config) = meta_of (agent_configSecretName (Name (cl_meta cluster))) (Namespace (cl_meta cluster))"
  "se_meta (service_of n ns sel) = meta_of n ns"
  "wk_meta (virtual_workload cluster pm ps) =
     (meta_of (virtual_Name cluster) (Namespace (cl_meta cluster)))\<lparr>Labels := Some (virtual_labels cluster)\<rparr>"
  by (simp_all add: config_secret_def service_of_def virtual_workload_def)

lemma shared_calls:
  assumes "controllerutil U" "agent_ok A"
    and "m \<in> set [shared_config U yaml A s cluster, shared_serviceAccount U A cluster, shared_role U A cluster,
       shared_roleBinding U A cluster, shared_service U A s cluster, shared_daemonset U A s cluster,
       shared_dnsService U A cluster]"
  shows "calls_sat (writes_among (shared_objects cluster) (Namespace (cl_meta cluster))) m"
  using assms(2,3)
  by (auto simp: agent_ok_def shared_op_defs shared_objects_def agent_meta_simps
      intro!: ensureObject_calls [OF assms(1)] calls_sat_sum calls_sat_ret)

lemma virtual_calls:
  assumes "controllerutil U" "agent_ok A"
    and "m \<in> set [virtual_config U yaml A v cluster b, virtual_deployment U A v cluster,
       virtual_nodePassword U password A cluster, virtual_headlessService U A cluster, virtual_statefulset U A v cluster]"
  shows "calls_sat (writes_among (virtual_objects cluster) (Namespace (cl_meta cluster))) m"
proof -
  have "calls_sat (writes_among (virtual_objects cluster) (Namespace (cl_meta cluster))) (virtual_nodePassword U password A cluster)"
    using assms(2) unfolding virtual_nodePassword_def
    by (intro calls_intro)
      (auto simp: agent_ok_def k_Create_def writes_among_def virtual_objects_def key_of_def intro!: calls_sat_log_call
        dest!: controllerutil.SetControllerReference_key [OF assms(1)])
  with assms(2,3) show ?thesis
    by (auto simp: agent_ok_def virtual_op_defs virtual_objects_def agent_meta_simps
        intro!: ensureObject_calls [OF assms(1)] calls_sat_sum calls_sat_ret)
qed

lemma shared_op_does:
  assumes "controllerutil U" "agent_ok A"
  shows "does (wrote KSecret (in_cluster cluster (agent_configSecretName (Name (cl_meta cluster))))) (shared_config U yaml A s cluster)"
    and "does (wrote KServiceAccount (in_cluster cluster (shared_Name cluster))) (shared_serviceAccount U A cluster)"
    and "does (wrote KRole (in_cluster cluster (shared_Name cluster))) (shared_role U A cluster)"
    and "does (wrote KRoleBinding (in_cluster cluster (shared_Name cluster))) (shared_roleBinding U A cluster)"
    and "does (wrote KService (in_cluster cluster (shared_Name cluster))) (shared_service U A s cluster)"
    and "does (wrote KDaemonSet (in_cluster cluster (shared_Name cluster))) (shared_daemonset U A s cluster)"
    and "does (wrote KService (in_cluster cluster (SafeConcatNameWithPrefix [Name (cl_meta cluster), ''kube-dns''])))
      (shared_dnsService U A cluster)"
proof -
  note ok = assms(2) [unfolded agent_ok_def]
  have "does (wrote KSecret (in_cluster cluster (agent_configSecretName (Name (cl_meta cluster)))))
      (ensureObject U cluster (aa_SecretR A) sec_meta_update (config_secret cluster config))" for config
    by (rule ensureObject_does [OF assms(1)]) (use ok in \<open>simp_all add: agent_meta_simps key_of_def\<close>)
  then show "does (wrote KSecret (in_cluster cluster (agent_configSecretName (Name (cl_meta cluster))))) (shared_config U yaml A s cluster)"
    unfolding shared_config_def by (intro does_sum does_ret_Inl)
  show "does (wrote KServiceAccount (in_cluster cluster (shared_Name cluster))) (shared_serviceAccount U A cluster)"
    unfolding shared_serviceAccount_def by (rule ensureObject_does [OF assms(1)]) (use ok in \<open>simp_all add: key_of_def\<close>)
  show "does (wrote KRole (in_cluster cluster (shared_Name cluster))) (shared_role U A cluster)"
    unfolding shared_role_def by (rule ensureObject_does [OF assms(1)]) (use ok in \<open>simp_all add: key_of_def\<close>)
  show "does (wrote KRoleBinding (in_cluster cluster (shared_Name cluster))) (shared_roleBinding U A cluster)"
    unfolding shared_roleBinding_def by (rule ensureObject_does [OF assms(1)]) (use ok in \<open>simp_all add: key_of_def\<close>)
  show "does (wrote KService (in_cluster cluster (shared_Name cluster))) (shared_service U A s cluster)"
    unfolding shared_service_def by (rule ensureObject_does [OF assms(1)]) (use ok in \<open>simp_all add: agent_meta_simps key_of_def\<close>)
  show "does (wrote KDaemonSet (in_cluster cluster (shared_Name cluster))) (shared_daemonset U A s cluster)"
    unfolding shared_daemonset_def by (rule ensureObject_does [OF assms(1)]) (use ok in \<open>simp_all add: key_of_def\<close>)
  show "does (wrote KService (in_cluster cluster (SafeConcatNameWithPrefix [Name (cl_meta cluster), ''kube-dns''])))
      (shared_dnsService U A cluster)"
    unfolding shared_dnsService_def by (rule ensureObject_does [OF assms(1)]) (use ok in \<open>simp_all add: agent_meta_simps key_of_def\<close>)
qed

lemma shared_EnsureResources_calls:
  assumes "controllerutil U" "agent_ok A"
  shows "calls_sat (writes_among (shared_objects cluster) (Namespace (cl_meta cluster)))
    (shared_EnsureResources U yaml A s cluster)"
  unfolding shared_EnsureResources_def by (rule ensure_all_calls) (rule shared_calls [OF assms])

lemma shared_EnsureResources_does:
  assumes "controllerutil U" "agent_ok A" "(k, n) \<in> set (shared_objects cluster)"
  shows "does (wrote k (in_cluster cluster n)) (shared_EnsureResources U yaml A s cluster)"
proof -
  let ?ms = "[shared_config U yaml A s cluster, shared_serviceAccount U A cluster, shared_role U A cluster,
       shared_roleBinding U A cluster, shared_service U A s cluster, shared_daemonset U A s cluster,
       shared_dnsService U A cluster]"
  have all: "calls_sat (\<lambda>_. True) m" if "m \<in> set ?ms" for m
    by (rule calls_sat_mono [OF shared_calls [OF assms(1,2) that]]) simp
  have "\<exists>m\<in>set ?ms. does (wrote k (in_cluster cluster n)) m"
    using assms(3) shared_op_does [OF assms(1,2)] by (auto simp: shared_objects_def)
  then show ?thesis unfolding shared_EnsureResources_def using all ensure_all_does [of _ ?ms] by blast
qed

text \<open>
  When the resources of a shared mode agent are ensured without error, each of its seven objects was written;
  whatever fails, only these objects are written, all of them in the namespace of the cluster, and nothing is
  deleted.
\<close>

theorem shared_agent_complete:
  assumes "controllerutil U" "agent_ok A"
  shows "(\<forall>(k, n)\<in>set (shared_objects cluster).
      does (wrote k (in_cluster cluster n)) (shared_EnsureResources U yaml A s cluster)) \<and>
    calls_sat (writes_among (shared_objects cluster) (Namespace (cl_meta cluster))) (shared_EnsureResources U yaml A s cluster)"
  using shared_EnsureResources_does [OF assms] shared_EnsureResources_calls [OF assms] by auto

lemma virtual_EnsureResources_calls:
  assumes "controllerutil U" "agent_ok A"
  shows "calls_sat (writes_among (virtual_objects cluster) (Namespace (cl_meta cluster)))
    (virtual_EnsureResources U yaml password A v cluster)"
  unfolding virtual_EnsureResources_def deprecatedDeployment_def record_event_def k_Get_def
  by (intro calls_intro ensure_all_calls) (auto simp: writes_among_def intro!: virtual_calls [OF assms])

section \<open>The role of the kubelet\<close>

text \<open>The API resource and group of a kind, the verb a call is authorised as, and what a set of rules allows.\<close>

fun rbac_resource :: "kind \<Rightarrow> (string \<times> string) option" where
  "rbac_resource KPod = Some ('''', ''pods'')"
| "rbac_resource KService = Some ('''', ''services'')"
| "rbac_resource KSecret = Some ('''', ''secrets'')"
| "rbac_resource KConfigMap = Some ('''', ''configmaps'')"
| "rbac_resource KPVC = Some ('''', ''persistentvolumeclaims'')"
| "rbac_resource KIngress = Some (''networking.k8s.io'', ''ingresses'')"
| "rbac_resource KCluster = Some (''k3k.io'', ''clusters'')"
| "rbac_resource KResourceQuota = Some ('''', ''resourcequotas'')"
| "rbac_resource KLease = Some (''coordination.k8s.io'', ''leases'')"
| "rbac_resource _ = None"

fun rbac_verb :: "verb \<Rightarrow> string option" where
  "rbac_verb VGet = Some ''get''"
| "rbac_verb VList = Some ''list''"
| "rbac_verb VCreate = Some ''create''"
| "rbac_verb VUpdate = Some ''update''"
| "rbac_verb VDelete = Some ''delete''"
| "rbac_verb VPatch = Some ''patch''"
| "rbac_verb _ = None"

definition rule_allows :: "string \<times> string \<Rightarrow> string \<Rightarrow> policy_rule \<Rightarrow> bool" where
  "rule_allows res verb r =
     (fst res \<in> set (ru_APIGroups r) \<and> snd res \<in> set (ru_Resources r) \<and> (verb \<in> set (ru_Verbs r) \<or> ''*'' \<in> set (ru_Verbs r)))"

definition rules_allow :: "policy_rule list \<Rightarrow> kind \<Rightarrow> verb \<Rightarrow> bool" where
  "rules_allow rules k v =
     (case (rbac_resource k, rbac_verb v) of
        (Some res, Some verb) \<Rightarrow> list_ex (rule_allows res verb) rules
      | _ \<Rightarrow> False)"

lemma shared_rules_allow:
  "rules_allow shared_rules KCluster VGet"
  "v \<in> {VGet, VList, VCreate, VUpdate, VDelete, VPatch} \<Longrightarrow>
    k \<in> {KPod, KService, KSecret, KConfigMap, KPVC, KIngress} \<Longrightarrow> rules_allow shared_rules k v"
  by (auto simp: rules_allow_def shared_rules_def rule_allows_def)

lemma virtual_mounts_resolve: "mounts_resolve [] (virtual_pod_with_secrets v cluster)"
proof -
  have base: "mounts_resolve [] (virtual_podSpec v cluster img name)" for img name
    unfolding virtual_podSpec_def Let_def
  proof (rule mounts_resolve_kata, goal_cases)
    case 1
    have pol: "mounts_resolve [] (policy_contexts cluster ps) = mounts_resolve [] ps" for ps
      by (rule mounts_resolve_cong) simp_all
    have pull: "mounts_resolve [] (ps\<lparr>wp_ImagePullSecrets := x\<rparr>) = mounts_resolve [] ps" for ps x
      by (rule mounts_resolve_cong) simp_all
    have lim: "mounts_resolve [] (limits_and_resources l r ps) = mounts_resolve [] ps" for l r ps
      by (rule mounts_resolve_cong) simp_all
    show ?case unfolding pol pull lim by (simp add: mounts_resolve_def)
  qed
  obtain vs ms where b: "BuildSecretsMountsVolumes (SecretMounts (cl_Spec cluster)) ''agent'' = (vs, ms)"
    by (cases "BuildSecretsMountsVolumes (SecretMounts (cl_Spec cluster)) ''agent''")
  show ?thesis
    using BuildSecretsMountsVolumes_backed [OF b]
    by (simp add: virtual_pod_with_secrets_def Let_def b backed_def mounts_resolve_add_volumes [OF base])
qed

definition wit_agent_api :: "unit agent_api" where
  "wit_agent_api =
     \<lparr>aa_SecretR = mem_resource KSecret sec_meta (\<lambda>_ _. []) (\<lambda>_ e. e),
      aa_ServiceAccountR = mem_resource KServiceAccount sva_meta (\<lambda>_ _. []) (\<lambda>_ e. e),
      aa_RoleR = mem_resource KRole ro_meta (\<lambda>_ _. []) (\<lambda>_ e. e),
      aa_RoleBindingR = mem_resource KRoleBinding rb_meta (\<lambda>_ _. []) (\<lambda>_ e. e),
      aa_ServiceR = mem_resource KService se_meta (\<lambda>_ _. []) (\<lambda>_ e. e),
      aa_DaemonSetR = mem_resource KDaemonSet wk_meta (\<lambda>_ _. []) (\<lambda>_ e. e),
      aa_DeploymentR = mem_resource KDeployment wk_meta (\<lambda>_ _. []) (\<lambda>_ e. e),
      aa_StatefulSetR = mem_resource KStatefulSet wk_meta (\<lambda>_ _. []) (\<lambda>_ e. e)\<rparr>"

lemma wit_agent_ok: "agent_ok wit_agent_api"
  by (simp add: agent_ok_def wit_agent_api_def)

abbreviation wit_shared :: shared_agent where
  "wit_shared \<equiv> NewSharedAgent ''10.43.0.7'' ''rancher/k3k-kubelet'' '''' ''t'' 10250 []"

lemma ensureObject_fresh:
  assumes "r_meta R = meta" "cli_Create (r_cli R Host) = (\<lambda>ob e. (Inr ob, e))" "OwnerReferences (meta obj) = []"
  shows "\<exists>w'. ensureObject ref_util cluster R setm obj w = (Inr (), w')"
  using assms by (simp add: ensureObject_def ref_util_def Let_def bindS_run k_Create_def log_call_def ret_def)

lemma mem_create_fresh: "cli_Create (r_cli (mem_resource k meta (\<lambda>_ _. []) (\<lambda>_ _. ())) Host) = (\<lambda>ob e. (Inr ob, e))"
  by (simp add: mem_resource_def mem_client_def Let_def fun_eq_iff)

lemma run_all_fresh:
  "(\<And>m w. m \<in> set ms \<Longrightarrow> \<exists>w'. m w = (Inr (), w')) \<Longrightarrow> \<exists>w'. ensure_all ms w = (Inr (), w')"
proof -
  assume ok: "\<And>m w. m \<in> set ms \<Longrightarrow> \<exists>w'. m w = (Inr (), w')"
  have "\<exists>w'. run_all ms w = (map (\<lambda>_. None) ms, w')"
    using ok
  proof (induction ms arbitrary: w)
    case (Cons m ms)
    obtain v where m: "m w = (Inr (), v)" using Cons.prems by fastforce
    obtain w' where "run_all ms v = (map (\<lambda>_. None) ms, w')" using Cons.IH [of v] Cons.prems by auto
    with m show ?case by (simp add: bindS_run ret_def)
  qed (simp add: ret_def)
  then show ?thesis by (auto simp: ensure_all_def bindS_run ret_def errors_Join_def List.map_filter_def)
qed

theorem shared_agent_complete_witness:
  "does (wrote KRole (in_cluster (wit_cluster None) (shared_Name (wit_cluster None))))
     (shared_EnsureResources ref_util (\<lambda>_. Inr ''cfg'') wit_agent_api wit_shared (wit_cluster None)) \<and>
   (\<exists>w'. shared_EnsureResources ref_util (\<lambda>_. Inr ''cfg'') wit_agent_api wit_shared (wit_cluster None) wit_world = (Inr (), w'))"
proof
  show "does (wrote KRole (in_cluster (wit_cluster None) (shared_Name (wit_cluster None))))
     (shared_EnsureResources ref_util (\<lambda>_. Inr ''cfg'') wit_agent_api wit_shared (wit_cluster None))"
    using shared_agent_complete [OF ref.controllerutil_axioms wit_agent_ok, of "wit_cluster None" "\<lambda>_. Inr ''cfg''" wit_shared]
    by (simp add: shared_objects_def)
  show "\<exists>w'. shared_EnsureResources ref_util (\<lambda>_. Inr ''cfg'') wit_agent_api wit_shared (wit_cluster None) wit_world = (Inr (), w')"
    unfolding shared_EnsureResources_def
    by (rule run_all_fresh)
      (auto simp: shared_op_defs wit_agent_api_def mem_create_fresh agent_meta_simps intro!: ensureObject_fresh [OF refl])
qed

end
