(* ===== verification/Startup.thy ===== *)
theory Startup
  imports Server
begin

text \<open>
  The start script of the server pods (\<^verbatim>\<open>template.go\<close>) and its rendering by \<^verbatim>\<open>setupStartCommand\<close>: the text is that of the
  source, line by line, with tabs, single quotes and template actions written apart.
\<close>

section \<open>The script\<close>

abbreviation newline :: char where "newline \<equiv> CHR 0x0A"
abbreviation quote :: string where "quote \<equiv> [CHR 0x27]"

definition tabs :: "nat \<Rightarrow> string \<Rightarrow> string" where "tabs n s = replicate n (CHR 0x09) @ s"

definition action :: "string \<Rightarrow> string" where "action key = ''{{.'' @ key @ ''}}''"

definition startup_functions :: "string list" where
  "startup_functions =
     ['''',
      ''info()'',
      ''{'',
      ''    echo \"[INFO] [$(date +\"%c\")]\" \"$@\"'',
      ''}'',
      '''',
      ''fatal()'',
      ''{'',
      ''    echo \"[FATAL] [$(date +\"%c\")] \" \"$@\" >&2'',
      ''    exit 1'',
      ''}'',
      '''',
      ''# safe mode function to reset node IP after pod restarts'',
      ''safe_mode() {'',
      tabs 1 ''CURRENT_IP=\"\"'',
      ''    if [ -f /var/lib/rancher/k3s/k3k-node-ip ]; then'',
      ''        CURRENT_IP=$(cat /var/lib/rancher/k3s/k3k-node-ip)'',
      ''    fi'',
      '''',
      ''    if [ -z \"$CURRENT_IP\" ] || [ \"$CURRENT_IP\" = \"$POD_IP\" ] || [ \"'' @ action ''K3K_MODE'' @ ''\" != \"virtual\" ]; then'',
      ''        return'',
      ''    fi'',
      '''',
      tabs 1 ''# skipping if the node is starting for the first time'',
      tabs 1 (''if [ -d \"'' @ action ''ETCD_DIR'' @ ''\" ]; then''),
      '''',
      tabs 2 ''info \"Starting K3s in Safe Mode (Network Policy Disabled) to patch Node IP from ${CURRENT_IP} to ${POD_IP}\"'',
      tabs 2 ''/bin/k3s server --disable-network-policy --config $1 $EXTRA_ARGS > /dev/null 2>&1 &'',
      tabs 2 ''PID=$!'',
      '''',
      tabs 2 ''# Start the loop to wait for the nodeIP to change'',
      tabs 2 ''info \"Waiting for Node IP to update to ${POD_IP}.\"'',
      tabs 2 ''count=0'',
      tabs 2 ''until kubectl get nodes -o wide 2>/dev/null | grep -q \"${POD_IP}\"; do'',
      tabs 3 ''if ! kill -0 $PID 2>/dev/null; then'',
      tabs 4 ''fatal \"safe Mode K3s process died unexpectedly!\"'',
      tabs 3 ''fi'',
      tabs 3 ''sleep 2'',
      tabs 3 ''count=$((count+1))'',
      '''',
      tabs 3 ''if [ $count -gt 60 ]; then'',
      tabs 4 ''fatal \"timed out waiting for node to change IP from $CURRENT_IP to $POD_IP\"'',
      tabs 3 ''fi'',
      tabs 2 ''done'',
      '''',
      tabs 2 ''info \"Node IP is set to ${POD_IP} successfully. Stopping Safe Mode process...\"'',
      tabs 2 ''kill $PID'',
      tabs 2 ''wait $PID 2>/dev/null || true'',
      tabs 1 ''fi'',
      ''}'',
      '''',
      ''start_single_node() {'',
      tabs 1 ''info \"Starting single node setup...\"'',
      '''',
      tabs 1 ''# checking for existing data in single server if found we must perform reset'',
      tabs 1 (''if [ -d \"'' @ action ''ETCD_DIR'' @ ''\" ]; then''),
      tabs 2 ''info \"Existing data found in single node setup. Performing cluster-reset to ensure quorum...\"'',
      '''',
      tabs 2 ''# clear any reset flags left behind by interrupted or failed reset'',
      tabs 2 ''# prevents crashloop on failed/interrupted cluster reset'',
      tabs 2 ''rm -f /var/lib/rancher/k3s/server/db/reset-flag'',
      '''',
      tabs 2 ''# The reset output is left visible in the container logs so failures are diagnosable.'',
      tabs 2 (''if ! /bin/k3s server --cluster-reset --config '' @ action ''INIT_CONFIG'' @ '' $EXTRA_ARGS; then''),
      tabs 3 ''fatal \"cluster reset failed!\"'',
      tabs 2 ''fi'',
      tabs 2 ''info \"Cluster reset complete. Removing Reset flag file.\"'',
      tabs 2 ''rm -f /var/lib/rancher/k3s/server/db/reset-flag'',
      tabs 1 ''fi'',
      '''',
      tabs 1 ''# entering safe mode to ensure correct NodeIP'',
      tabs 1 (''safe_mode '' @ action ''INIT_CONFIG''),
      '''',
      tabs 1 ''info \"Adding pod IP file.\"'',
      tabs 1 ''echo $POD_IP > /var/lib/rancher/k3s/k3k-node-ip'',
      '''',
      tabs 1 (''/bin/k3s server --config '' @ action ''INIT_CONFIG'' @ '' $EXTRA_ARGS 2>&1 | tee /var/log/k3s.log''),
      ''}'',
      '''',
      ''start_ha_node() {'',
      tabs 1 ''info \"Starting pod $POD_NAME in HA node setup\"'',
      '''',
      tabs 1 (''if [ ${POD_NAME: -1} == 0 ] && [ ! -d \"'' @ action ''ETCD_DIR'' @ ''\" ]; then''),
      tabs 2 ''info \"Adding pod IP file.\"'',
      tabs 2 ''echo $POD_IP > /var/lib/rancher/k3s/k3k-node-ip'',
      '''',
      tabs 2 (''/bin/k3s server --config '' @ action ''INIT_CONFIG'' @ '' $EXTRA_ARGS 2>&1 | tee /var/log/k3s.log''),
      tabs 1 ''else'',
      tabs 2 (''safe_mode '' @ action ''SERVER_CONFIG''),
      '''',
      tabs 2 ''info \"Adding pod IP file.\"'',
      tabs 2 ''echo $POD_IP > /var/lib/rancher/k3s/k3k-node-ip'',
      '''',
      tabs 2 (''/bin/k3s server --config '' @ action ''SERVER_CONFIG'' @ '' $EXTRA_ARGS 2>&1 | tee /var/log/k3s.info''),
      tabs 1 ''fi'',
      ''}'',
      '''',
      ''# Configuring cgroups for k3s process in virtual mode'',
      ''configure_cgroups() {'',
      tabs 1 (''runtime_class=\"'' @ action ''RUNTIME_CLASS'' @ ''\"''),
      tabs 1 ''if [ \"${runtime_class#kata}\" != \"$runtime_class\" ]; then'',
      '''',
      tabs 2 ''CGROUP_PATH=$(cat /proc/self/cgroup | cut -d: -f3)'',
      tabs 2 ''CGROUP_DIR=\"/sys/fs/cgroup${CGROUP_PATH}\"'',
      '''',
      tabs 2 ''# Move shell to init subcgroup to keep main cgroup clean for k3s children'',
      tabs 2 ''INIT_DIR=\"${CGROUP_DIR}init\"'',
      tabs 2 ''mkdir -p \"$INIT_DIR\" 2>/dev/null'',
      '''',
      tabs 2 (''PID=$(cut -d'' @ quote @ '' '' @ quote @ '' -f4 /proc/self/stat)''),
      '''',
      tabs 2 ''echo \"$PID\" > \"$INIT_DIR/cgroup.procs\"'',
      '''',
      tabs 2 ''for controller in $(cat \"$CGROUP_DIR/cgroup.controllers\"); do'',
      tabs 3 ''echo \"+$controller\" > \"$CGROUP_DIR/cgroup.subtree_control\" 2>/dev/null || true'',
      tabs 2 ''done'',
      '''',
      tabs 2 ''return'',
      tabs 1 ''fi'',
      '''',
      tabs 1 ''# only configure the cgroups if the runtime used is the default and the mode is virtual'',
      tabs 1 (''# shared and hcp run agentless (no kubelet) and don'' @ quote @ ''t need cgroup overrides.''),
      tabs 1 (''if [ -n \"$runtime_class\" ] || [ \"'' @ action ''K3K_MODE'' @ ''\" != \"virtual\" ]; then''),
      tabs 2 ''return'',
      tabs 1 ''fi'',
      '''',
      tabs 1 ''root_cgroup_raw=$(cat /proc/self/cgroup)'',
      tabs 1 ''root_cgroup_stripped=\"${root_cgroup_raw#0::}\"'',
      tabs 1 ''root_cgroup_parent=$(dirname \"$root_cgroup_stripped\")'',
      '''',
      tabs 1 ''info \"Current CGROUPS for $POD_NAME: ${root_cgroup_raw}\"'',
      '''',
      tabs 1 ''# overriding kubelet cgroup and the cgroup root for pods, this will prevent k3s'',
      tabs 1 ''# automatic placement see: https://github.com/k3s-io/k3s/blob/main/pkg/cgroups/cgroups_linux.go#L114-L127'',
      tabs 1 ''EXTRA_ARGS=\"$EXTRA_ARGS --kubelet-arg=kubelet-cgroups=$root_cgroup_parent/k3s --kubelet-arg=cgroup-root=$root_cgroup_parent\"'',
      ''}'',
      '''',
      ''configure_mount_propagation() {'',
      tabs 1 (''if [ \"'' @ action ''K3K_MODE'' @ ''\" != \"virtual\" ]; then''),
      tabs 2 ''return'',
      tabs 1 ''fi'',
      '''',
      tabs 1 ''info \"Setting root mount propagation to rshared\"'',
      tabs 1 ''if ! mount --make-rshared /; then'',
      tabs 2 ''info \"Failed to set root mount propagation to rshared, workloads using mountPropagation may fail to start\"'',
      tabs 1 ''fi'',
      ''}'',
      '''']"

definition startup_setup :: "string list" where
  "startup_setup =
     [''configure_cgroups'',
      ''configure_mount_propagation'',
      '''',
      ''if [ ! -f /etc/machine-id ]; then'',
      tabs 1 (''MACHINE_ID=$(printf '' @ quote @ ''%s'' @ quote @ '' \"$POD_NAME\" | md5sum | cut -d'' @ quote @ '' '' @ quote @ '' -f1)''),
      tabs 1 (''printf '' @ quote @ ''%s'' @ quote @ '' \"$MACHINE_ID\" > /etc/machine-id''),
      ''fi'',
      '''']"

definition startup_dispatch :: "string list" where
  "startup_dispatch =
     [''    \"ha\")'',
      ''        start_ha_node'',
      ''        ;;'',
      ''    \"single\"|*)'',
      ''        start_single_node'',
      ''        ;;'',
      ''esac'']"

definition StartupCommand :: string where
  "StartupCommand =
     strings_Join (startup_functions @ [''EXTRA_ARGS=\"'' @ action ''EXTRA_ARGS'' @ ''\"''] @ startup_setup @ [''case \"'' @ action ''CLUSTER_MODE'' @ ''\" in''] @ startup_dispatch) [newline]"

section \<open>Rendering\<close>

text \<open>A line that is rendered to \<^verbatim>\<open>out\<close>, whatever follows.\<close>

definition line_out :: "smap \<Rightarrow> string \<Rightarrow> string \<Rightarrow> bool" where
  "line_out m line out \<longleftrightarrow> (\<forall>r o'. template_Execute r m = Inr o' \<longrightarrow> template_Execute (line @ newline # r) m = Inr (out @ newline # o'))"

definition line_ok :: "smap \<Rightarrow> string \<Rightarrow> bool" where
  "line_ok m line \<longleftrightarrow> (\<exists>out. line_out m line out)"

fun plain :: "string \<Rightarrow> bool" where
  "plain [] = True"
| "plain (c # s) = (if c = CHR ''{'' then (case s of [] \<Rightarrow> True | d # _ \<Rightarrow> d \<noteq> CHR ''{'' \<and> plain s) else plain s)"

text \<open>Long literals are checked from the left, without simplifying what follows.\<close>

lemma plain_cong: "plain s = plain s" ..

lemma plain_append: "plain ([] @ t) = plain t" "plain ((c # s) @ t) = plain (c # (s @ t))"
  by simp_all

lemma template_Execute_char:
  assumes "c = CHR ''{'' \<longrightarrow> s = [] \<or> hd s \<noteq> CHR ''{''"
  shows "template_Execute (c # s) m = (case template_Execute s m of Inl e \<Rightarrow> Inl e | Inr out \<Rightarrow> Inr (c # out))"
proof -
  have "\<not> strings_HasPrefix (c # s) ''{{.''" "\<not> strings_HasPrefix (c # s) ''{{''"
    using assms by (cases s; auto simp: strings_HasPrefix_def)+
  then show ?thesis by (simp add: template_Execute.simps [of "c # s"])
qed

lemma template_Execute_text:
  "plain a \<Longrightarrow> a \<noteq> [] \<longrightarrow> last a \<noteq> CHR ''{'' \<or> hd s \<noteq> CHR ''{'' \<Longrightarrow> s \<noteq> [] \<Longrightarrow> template_Execute s m = Inr out \<Longrightarrow>
    template_Execute (a @ s) m = Inr (a @ out)"
proof (induction a)
  case (Cons c a)
  then have "template_Execute (a @ s) m = Inr (a @ out)" by (cases a) (auto split: if_splits)
  moreover have "c = CHR ''{'' \<longrightarrow> a @ s = [] \<or> hd (a @ s) \<noteq> CHR ''{''" using Cons.prems by (cases a) auto
  ultimately show ?case by (simp add: template_Execute_char)
qed simp

lemma template_Execute_key:
  assumes "strings_HasPrefix s ''{{.''" "drop 3 s = k @ ''}}'' @ r" "CHR ''}'' \<notin> set k"
  shows "template_Execute s m = (case fmlookup m k of None \<Rightarrow> Inl (ErrNew (''map has no entry for key '' @ k))
    | Some v \<Rightarrow> (case template_Execute r m of Inl e \<Rightarrow> Inl e | Inr out \<Rightarrow> Inr (v @ out)))"
proof -
  have key: "takeWhile (\<lambda>x. x \<noteq> CHR ''}'') (drop 3 s) = k" using assms(2,3) by (induction k arbitrary: s) (auto simp: takeWhile_tail)
  have "drop (3 + length k) s = drop (length k) (drop 3 s)" by (simp add: add.commute)
  then have rest: "drop (3 + length k) s = ''}}'' @ r" by (simp add: assms(2))
  obtain c cs where s: "s = c # cs" using assms(1) by (cases s) (auto simp: strings_HasPrefix_def)
  have "template_Execute s m = (let key = takeWhile (\<lambda>x. x \<noteq> CHR ''}'') (drop 3 s); rest = drop (3 + length key) s in
      if \<not> strings_HasPrefix rest ''}}'' then Inl (ErrNew ''unexpected action'')
      else (case fmlookup m key of None \<Rightarrow> Inl (ErrNew (''map has no entry for key '' @ key))
        | Some v \<Rightarrow> (case template_Execute (drop 2 rest) m of Inl e \<Rightarrow> Inl e | Inr out \<Rightarrow> Inr (v @ out))))"
    unfolding template_Execute.simps [of s] using assms(1) s by (simp only: list.case if_True) 
  moreover have "drop 2 (''}}'' @ r) = r" "strings_HasPrefix (''}}'' @ r) ''}}''" by (simp_all add: strings_HasPrefix_def)
  ultimately show ?thesis by (simp only: key rest Let_def not_True_eq_False if_False)
qed

lemma template_Execute_action:
  assumes "CHR ''}'' \<notin> set k" "fmlookup m k = Some v" "template_Execute s m = Inr out"
  shows "template_Execute (action k @ s) m = Inr (v @ out)"
proof -
  have "drop 3 (action k @ s) = k @ ''}}'' @ s" "strings_HasPrefix (action k @ s) ''{{.''"
    by (simp_all add: action_def strings_HasPrefix_def numeral_eq_Suc)
  with assms show ?thesis by (simp add: template_Execute_key [where k = k and r = s])
qed

lemma line_out_plain: "plain a \<Longrightarrow> line_out m a a"
  unfolding line_out_def using template_Execute_text [of a] by (auto simp: template_Execute_char)

lemma line_out_text:
  assumes "plain a" "a \<noteq> [] \<longrightarrow> last a \<noteq> CHR ''{''" "line_out m b out"
  shows "line_out m (a @ b) (a @ out)"
  using assms template_Execute_text [OF assms(1)] unfolding line_out_def by simp

lemma line_out_action:
  assumes "CHR ''}'' \<notin> set k" "fmlookup m k = Some v" "line_out m b out"
  shows "line_out m (action k @ b) (v @ out)"
  using assms template_Execute_action [OF assms(1,2)] unfolding line_out_def by simp

lemma line_ok_plain: "plain a \<Longrightarrow> line_ok m a"
  using line_out_plain unfolding line_ok_def by blast

lemma line_ok_action:
  assumes "plain a" "a \<noteq> [] \<longrightarrow> last a \<noteq> CHR ''{''" "CHR ''}'' \<notin> set k" "k |\<in>| fmdom m" "line_ok m b"
  shows "line_ok m (a @ action k @ b)"
  using assms line_out_text [OF assms(1,2)] line_out_action [OF assms(3)] unfolding line_ok_def by (metis fmdom_notI option.exhaust)

lemma line_ok_action_end:
  assumes "plain a" "a \<noteq> [] \<longrightarrow> last a \<noteq> CHR ''{''" "CHR ''}'' \<notin> set k" "k |\<in>| fmdom m"
  shows "line_ok m (a @ action k)"
  using line_ok_action [OF assms line_ok_plain [of "[]"]] by simp

lemma line_ok_tabs: "line_ok m a \<Longrightarrow> line_ok m (tabs n a)"
proof -
  have "plain (replicate n (CHR 0x09))" by (induction n) auto
  then show "line_ok m a \<Longrightarrow> line_ok m (tabs n a)"
    using line_out_text [of "replicate n (CHR 0x09)"] unfolding line_ok_def tabs_def by auto
qed

definition startup_keys :: "string fset" where
  "startup_keys = {|''ETCD_DIR'', ''INIT_CONFIG'', ''SERVER_CONFIG'', ''CLUSTER_MODE'', ''K3K_MODE'', ''EXTRA_ARGS'', ''RUNTIME_CLASS''|}"

lemma startup_lines_ok:
  assumes "startup_keys |\<subseteq>| fmdom m"
  shows "list_all (line_ok m) startup_functions" "list_all (line_ok m) startup_setup" "list_all (line_ok m) startup_dispatch"
  using assms unfolding startup_functions_def startup_setup_def startup_dispatch_def list.pred_inject
  by (intro conjI TrueI line_ok_tabs line_ok_action line_ok_action_end line_ok_plain;
      simp add: startup_keys_def plain_append cong: plain_cong)+

lemma join_lines: "lines \<noteq> [] \<Longrightarrow> strings_Join (ls @ lines) [newline] = concat (map (\<lambda>l. l @ [newline]) ls) @ strings_Join lines [newline]"
proof (induction ls)
  case (Cons l ls)
  then show ?case by (cases "ls @ lines") (auto simp del: append_is_Nil_conv)
qed simp

definition text_of :: "string list \<Rightarrow> string" where
  "text_of ls = concat (map (\<lambda>l. l @ [newline]) ls)"

lemma join_parts:
  "strings_Join (a @ [x] @ b @ [y] @ c @ [z]) [newline] = text_of a @ x @ newline # text_of b @ y @ newline # text_of c @ z"
  using join_lines [of "[z]" "a @ [x] @ b @ [y] @ c"] by (simp add: text_of_def)

lemma StartupCommand_text:
  "StartupCommand = text_of startup_functions @ (''EXTRA_ARGS=\"'' @ action ''EXTRA_ARGS'' @ ''\"'') @ newline #
     text_of startup_setup @ (''case \"'' @ action ''CLUSTER_MODE'' @ ''\" in'') @ newline # text_of (butlast startup_dispatch) @ ''esac''"
proof -
  have "startup_dispatch = butlast startup_dispatch @ [''esac'']" by (simp add: startup_dispatch_def)
  then show ?thesis unfolding StartupCommand_def by (metis join_parts)
qed

lemma template_Execute_lines:
  "list_all (line_ok m) ls \<Longrightarrow> template_Execute r m = Inr out \<Longrightarrow>
    \<exists>pre. template_Execute (text_of ls @ r) m = Inr (pre @ out)"
  unfolding text_of_def
proof (induction ls)
  case (Cons l ls)
  then obtain pre where "template_Execute (concat (map (\<lambda>l. l @ [newline]) ls) @ r) m = Inr (pre @ out)" by auto
  moreover obtain o' where "line_out m l o'" using Cons.prems by (auto simp: line_ok_def)
  ultimately show ?case by (auto simp: line_out_def)
qed auto

lemma template_Execute_keyed:
  assumes "list_all (line_ok m) ls" "fmlookup m k = Some v" "plain a" "a \<noteq> [] \<longrightarrow> last a \<noteq> CHR ''{''" "CHR ''}'' \<notin> set k" "plain b"
    and "template_Execute r m = Inr out"
  shows "\<exists>pre. template_Execute (text_of ls @ (a @ action k @ b) @ newline # r) m = Inr (pre @ (a @ v @ b) @ newline # out)"
proof -
  have "line_out m (a @ action k @ b) (a @ v @ b)"
    by (rule line_out_text [OF assms(3,4) line_out_action [OF assms(5,2) line_out_plain [OF assms(6)]]])
  then show ?thesis using assms(7) template_Execute_lines [OF assms(1)] unfolding line_out_def by blast
qed

lemma startup_map_entries:
  "Servers (cl_Spec cluster) = Some n \<Longrightarrow> setupStartCommand s cluster = template_Execute s (startup_map n cluster)"
  "startup_keys |\<subseteq>| fmdom (startup_map n cluster)"
  "fmlookup (startup_map n cluster) ''EXTRA_ARGS'' = Some (strings_Join (ServerArgs (cl_Spec cluster)) '' '')"
  "fmlookup (startup_map n cluster) ''CLUSTER_MODE'' = Some (if n > 1 then ''ha'' else ''single'')"
  by (simp_all add: setupStartCommand_def startup_map_def startup_keys_def)

lemma startup_dispatch_renders:
  assumes "startup_keys |\<subseteq>| fmdom m"
  obtains out where "template_Execute (text_of (butlast startup_dispatch) @ ''esac'') m = Inr out"
proof -
  have "template_Execute ''esac'' m = Inr ''esac''" by simp
  moreover have "list_all (line_ok m) (butlast startup_dispatch)"
    using startup_lines_ok(3) [OF assms] by (auto simp: list_all_iff dest: in_set_butlastD)
  ultimately show ?thesis using template_Execute_lines that by blast
qed

lemma setupStartCommand_total:
  assumes "Servers (cl_Spec cluster) = Some n"
  shows "\<exists>cmd. setupStartCommand StartupCommand cluster = Inr cmd"
proof -
  let ?m = "startup_map n cluster"
  have ok: "line_ok ?m (a @ action k @ b)" if "k |\<in>| fmdom ?m" "plain a" "a \<noteq> [] \<longrightarrow> last a \<noteq> CHR ''{''" "CHR ''}'' \<notin> set k" "plain b" for a k b
    using line_ok_action [OF that(2,3,4,1) line_ok_plain [OF that(5)]] .
  obtain out where "template_Execute (text_of (butlast startup_dispatch) @ ''esac'') ?m = Inr out"
    using startup_dispatch_renders [OF startup_map_entries(2)] by blast
  moreover have "list_all (line_ok ?m) (startup_functions @ [''EXTRA_ARGS=\"'' @ action ''EXTRA_ARGS'' @ ''\"''] @ startup_setup @
      [''case \"'' @ action ''CLUSTER_MODE'' @ ''\" in''])"
    unfolding list_all_append list.pred_inject
    by (intro conjI TrueI startup_lines_ok [OF startup_map_entries(2)] ok) (simp_all add: startup_map_def)
  ultimately show ?thesis
    using template_Execute_lines unfolding startup_map_entries(1) [OF assms] StartupCommand_text
    by (fastforce simp: text_of_def)
qed



end
