(* ===== verification/NetCIDR.thy ===== *)
theory NetCIDR
  imports Go_Std
begin

text \<open>
  \<^verbatim>\<open>net.ParseCIDR\<close> and \<^verbatim>\<open>IPNet.String\<close>, with which the cluster controller normalises the service range it finds. A network
  is its 16 address bytes, masked, and the length of the prefix counted in 128 bits, so that an IPv4 prefix is 96 longer
  than it is written.

  The lemmas show that the printed form of an IPv4 network is read back as the same network.
\<close>

definition keep_bits :: "nat \<Rightarrow> nat \<Rightarrow> nat" where
  "keep_bits k b = b div 2 ^ (8 - k) * 2 ^ (8 - k)"

definition mask_ip :: "nat \<Rightarrow> ip_addr \<Rightarrow> ip_addr" where
  "mask_ip ones ip = map2 (\<lambda>i b. keep_bits (min 8 (ones - 8 * i)) b) [0..<16] ip"

text \<open>The prefix length: digits only, with a value below the limit.\<close>

definition parse_prefix :: "string \<Rightarrow> nat \<Rightarrow> nat option" where
  "parse_prefix s limit =
     (if s \<noteq> [] \<and> list_all is_digit s \<and> dec_val s \<le> limit then Some (dec_val s) else None)"

definition ParseCIDR :: "string \<Rightarrow> goerr + ip_addr \<times> nat" where
  "ParseCIDR s =
     (let addr = takeWhile (\<lambda>c. c \<noteq> CHR ''/'') s; mask = drop (length addr + 1) s;
          fail = Inl (ErrNew (''invalid CIDR address: '' @ s))
      in if CHR ''/'' \<notin> set s then fail
         else case ParseIP addr of None \<Rightarrow> fail
           | Some ip \<Rightarrow>
               (let v4 = CHR '':'' \<notin> set addr in
                case parse_prefix mask (if v4 then 32 else 128) of None \<Rightarrow> fail
                | Some n \<Rightarrow> (let ones = (if v4 then 96 + n else n) in Inr (mask_ip ones ip, ones))))"

section \<open>Printing\<close>

fun nat_hex :: "nat \<Rightarrow> string" where
  "nat_hex n = (if n < 16 then [''0123456789abcdef'' ! n] else nat_hex (n div 16) @ [''0123456789abcdef'' ! (n mod 16)])"

declare nat_hex.simps [simp del]

fun ip_groups :: "nat list \<Rightarrow> nat list" where
  "ip_groups (a # b # bs) = (256 * a + b) # ip_groups bs"
| "ip_groups _ = []"

text \<open>The first longest run of at least two zero groups, as start and length.\<close>

definition zero_run :: "nat list \<Rightarrow> nat \<times> nat" where
  "zero_run gs =
     foldl (\<lambda>(s, l) i. let n = length (takeWhile (\<lambda>g. g = 0) (drop i gs)) in if 2 \<le> n \<and> l < n then (i, n) else (s, l))
       (0, 0) [0..<length gs]"

definition v6_String :: "ip_addr \<Rightarrow> string" where
  "v6_String ip =
     (let gs = ip_groups ip; join = (\<lambda>xs. strings_Join (map nat_hex xs) '':'') in
      case zero_run gs of (s, l) \<Rightarrow>
        if l = 0 then join gs else join (take s gs) @ ''::'' @ join (drop (s + l) gs))"

definition v4_String :: "nat list \<Rightarrow> string" where
  "v4_String q = strings_Join (map nat_digits q) ''.''"

definition IPNet_String :: "ip_addr \<times> nat \<Rightarrow> string" where
  "IPNet_String net =
     (case net of (ip, ones) \<Rightarrow>
        (case To4 ip of Some q \<Rightarrow> v4_String q @ ''/'' @ nat_digits (ones - 96)
         | None \<Rightarrow> v6_String ip @ ''/'' @ nat_digits ones))"

section \<open>Networks are masked\<close>

lemma keep_bits_idem: "keep_bits k (keep_bits k b) = keep_bits k b"
  by (simp add: keep_bits_def)

lemma keep_bits_le: "keep_bits k b \<le> b"
  by (simp add: keep_bits_def)

lemma keep_bits_8: "8 \<le> k \<Longrightarrow> keep_bits k b = b"
  by (simp add: keep_bits_def)

lemma length_mask_ip [simp]: "length ip = 16 \<Longrightarrow> length (mask_ip ones ip) = 16"
  by (simp add: mask_ip_def)

lemma mask_ip_nth: "length ip = 16 \<Longrightarrow> i < 16 \<Longrightarrow> mask_ip ones ip ! i = keep_bits (min 8 (ones - 8 * i)) (ip ! i)"
  by (simp add: mask_ip_def)

lemma mask_ip_idem: "length ip = 16 \<Longrightarrow> mask_ip ones (mask_ip ones ip) = mask_ip ones ip"
  by (rule nth_equalityI) (simp_all add: mask_ip_nth keep_bits_idem)

lemma mask_ip_wf: "wf_ip ip \<Longrightarrow> wf_ip (mask_ip ones ip)"
  by (auto simp: wf_ip_def mask_ip_nth Ball_set_list_all list_all_length intro!: le_less_trans [OF keep_bits_le])

text \<open>
  A parsed network is well formed: sixteen bytes that its own mask leaves alone.
\<close>

lemma ParseCIDR_masked:
  assumes "ParseCIDR s = Inr (ip, ones)"
  shows "wf_ip ip \<and> ones \<le> 128 \<and> mask_ip ones ip = ip"
proof -
  obtain addr ip0 n where p: "ParseIP addr = Some ip0" "ip = mask_ip ones ip0"
    "n \<le> (if CHR '':'' \<notin> set addr then 32 else 128)" "ones = (if CHR '':'' \<notin> set addr then 96 + n else n)"
    using assms by (auto simp: ParseCIDR_def Let_def parse_prefix_def split: if_split_asm option.split_asm)
  have "wf_ip ip0" by (rule ParseIP_wf [OF p(1)])
  moreover from this have "length ip0 = 16" by (simp add: wf_ip_def)
  ultimately show ?thesis
    unfolding p(2) using p(3,4) by (auto simp: mask_ip_wf mask_ip_idem split: if_split_asm)
qed

section \<open>IPv4 networks are read back\<close>

lemma nat_digits_length:
  assumes "n < 256"
  shows "length (nat_digits n) \<le> 3"
proof -
  have "n div 10 div 10 < 10" using assms by linarith
  then have 1: "length (nat_digits (n div 10 div 10)) = 1" by (simp add: nat_digits.simps [of "n div 10 div 10"])
  have 2: "length (nat_digits (n div 10)) \<le> 2"
    using 1 by (subst nat_digits.simps) simp
  show ?thesis using 2 by (subst nat_digits.simps) simp
qed

lemma nat_digits_hd: "0 < n \<Longrightarrow> hd (nat_digits n) \<noteq> CHR ''0''"
proof (induction n rule: nat_digits.induct)
  case (1 n)
  show ?case
  proof (cases "n < 10")
    case True
    have "(of_char (char_of (48 + n)) :: nat) \<noteq> of_char CHR ''0''" using 1(2) True by simp
    then have "char_of (48 + n) \<noteq> CHR ''0''" by metis
    with True show ?thesis by (simp add: nat_digits.simps [of n])
  next
    case False
    then have "hd (nat_digits (n div 10)) \<noteq> CHR ''0''" using 1 by simp
    with False nat_digits_spec [of "n div 10"] show ?thesis by (simp add: nat_digits.simps [of n])
  qed
qed

lemma nat_digits_0: "nat_digits 0 = ''0''"
proof -
  have "char_of (48 :: nat) = CHR ''0''" by code_simp
  then show ?thesis by (simp add: nat_digits.simps [of 0])
qed

lemma parse_octet_nat_digits:
  assumes "n < 256"
  shows "parse_octet (nat_digits n) = Some n"
proof (cases "n = 0")
  case True
  then show ?thesis by (simp add: nat_digits_0 parse_octet_def is_digit_def dec_val_def digit_val_def)
next
  case False
  with assms nat_digits_hd [of n] nat_digits_length [of n] nat_digits_spec [of n] show ?thesis
    by (auto simp: parse_octet_def)
qed

lemma nat_digits_set: "c \<in> set (nat_digits n) \<Longrightarrow> is_digit c"
  using nat_digits_spec [of n] by (auto simp: list_all_iff)

lemma strings_Split_sep:
  "c \<notin> set x \<Longrightarrow> strings_Split (x @ c # s) c = x # strings_Split s c"
  by (induction x) auto

lemma strings_Split_none: "c \<notin> set x \<Longrightarrow> strings_Split x c = [x]"
  by (induction x) auto

lemma parseIPv4Fields_v4_String:
  assumes "length q = 4" "\<forall>b\<in>set q. b < 256"
  shows "parseIPv4Fields (v4_String q) = Some q"
proof -
  obtain a b c d where q: "q = [a, b, c, d]"
    using assms(1) by (auto simp: length_Suc_conv numeral_eq_Suc)
  have dot: "CHR ''.'' \<notin> set (nat_digits n)" for n using nat_digits_set [of "CHR ''.''" n] by (auto simp: is_digit_def)
  have "strings_Split (v4_String q) CHR ''.'' = map nat_digits q"
    by (simp add: q v4_String_def strings_Split_sep strings_Split_none dot)
  then show ?thesis
    using assms(2) by (simp add: parseIPv4Fields_def q parse_octet_nat_digits)
qed

lemma v4_String_chars:
  assumes "length q = 4"
  shows "c \<in> set (v4_String q) \<Longrightarrow> is_digit c \<or> c = CHR ''.''" and "CHR ''.'' \<in> set (v4_String q)"
proof -
  obtain a b c' d where q: "q = [a, b, c', d]"
    using assms by (auto simp: length_Suc_conv numeral_eq_Suc)
  show "c \<in> set (v4_String q) \<Longrightarrow> is_digit c \<or> c = CHR ''.''"
    by (auto simp: q v4_String_def dest: nat_digits_set)
  show "CHR ''.'' \<in> set (v4_String q)" by (simp add: q v4_String_def)
qed

lemma ParseIP_v4_String:
  assumes "length q = 4" "\<forall>b\<in>set q. b < 256"
  shows "ParseIP (v4_String q) = Some (v4_mapped q)"
proof -
  let ?s = "dropWhile (\<lambda>c. c \<notin> {CHR ''.'', CHR '':'', CHR ''%''}) (v4_String q)"
  have ne: "?s \<noteq> []" using v4_String_chars(2) [OF assms(1)] by (auto simp: dropWhile_eq_Nil_conv)
  then obtain c r where cr: "?s = c # r" by (cases ?s) auto
  have "c \<in> {CHR ''.'', CHR '':'', CHR ''%''}" using hd_dropWhile [OF ne] cr by simp
  moreover have "c \<in> set (v4_String q)" using cr by (metis list.set_intros(1) set_dropWhileD)
  ultimately have "c = CHR ''.''" using v4_String_chars(1) [OF assms(1), of c] by (auto simp: is_digit_def)
  with cr assms show ?thesis by (simp add: ParseIP_def parseIPv4Fields_v4_String)
qed

text \<open>
  The service range the controller stores is canonical: the printed form of an IPv4 network that was parsed is
  parsed as the same network, with all bits outside its mask zero.
\<close>

theorem CIDR_roundtrip:
  assumes "ParseCIDR s = Inr (ip, ones)" "To4 ip = Some q" "96 \<le> ones"
  shows "ParseCIDR (IPNet_String (ip, ones)) = Inr (ip, ones) \<and> mask_ip ones ip = ip"
proof -
  have wf: "wf_ip ip" "ones \<le> 128" "mask_ip ones ip = ip" using ParseCIDR_masked [OF assms(1)] by auto
  have ip: "ip = v4_mapped q" "length q = 4" "\<forall>b\<in>set q. b < 256"
    using assms(2) wf(1) append_take_drop_id [of 12 ip]
    by (auto simp: To4_def v4_mapped_def wf_ip_def simp del: append_take_drop_id split: if_splits dest: in_set_dropD)
  have addr: "takeWhile (\<lambda>c. c \<noteq> CHR ''/'') (v4_String q @ CHR ''/'' # p) = v4_String q" for p
    using v4_String_chars(1) [OF ip(2), of "CHR ''/''"] by (subst takeWhile_append2) (auto simp: is_digit_def)
  have colon: "CHR '':'' \<notin> set (v4_String q)"
    using v4_String_chars(1) [OF ip(2), of "CHR '':''"] by (auto simp: is_digit_def)
  have "parse_prefix (nat_digits (ones - 96)) 32 = Some (ones - 96)"
    using wf(2) nat_digits_spec [of "ones - 96"] by (simp add: parse_prefix_def)
  then show ?thesis
    using wf(3) assms(2,3) ParseIP_v4_String [OF ip(2,3)]
    by (simp add: IPNet_String_def ParseCIDR_def Let_def addr colon ip(1))
qed

theorem CIDR_roundtrip_witness:
  "ParseCIDR ''10.43.7.9/16'' = Inr (v4_mapped [10, 43, 0, 0], 112) \<and>
   ParseCIDR (IPNet_String (v4_mapped [10, 43, 0, 0], 112)) = Inr (v4_mapped [10, 43, 0, 0], 112)"
proof -
  have m: "mask_ip 112 (v4_mapped [10, 43, 7, 9]) = v4_mapped [10, 43, 0, 0]" by code_simp
  have p: "ParseCIDR ''10.43.7.9/16'' = Inr (v4_mapped [10, 43, 0, 0], 112)"
    by (simp add: ParseCIDR_def Let_def ParseIP_def parseIPv4Fields_def parse_octet_def is_digit_def dec_val_def digit_val_def
        parse_prefix_def m)
  then show ?thesis
    using CIDR_roundtrip [OF p, of "[10, 43, 0, 0]"] by (simp add: To4_def v4_mapped_def)
qed

end
