(* ===== verification/Cluster.thy ===== *)
theory Cluster
  imports Agent Startup Ports Policy NetCIDR
begin

text \<open>
  \<^verbatim>\<open>pkg/controller/cluster\<close>: the controller of \<^verbatim>\<open>Cluster\<close> objects (\<^verbatim>\<open>cluster.go\<close>, \<^verbatim>\<open>cluster_finalize.go\<close>, \<^verbatim>\<open>status.go\<close>,
  \<^verbatim>\<open>token.go\<close>, \<^verbatim>\<open>client.go\<close>, \<^verbatim>\<open>hcp.go\<close>) with \<^verbatim>\<open>pkg/controller/kubeconfig\<close>. A reconciliation reads the cluster, finalizes it when it is being
  deleted, and otherwise ensures, in a fixed order, everything a running cluster needs; the status it computes along
  the way is threaded through the steps and written at the end, also after an error.

  The record \<^verbatim>\<open>externals\<close> holds what is outside the repository: the YAML encoders, the random source, discovery, the
  HTTP interface of a k3s server, certificate signing, the kubeconfig encoder and the resolver, and the place of the
  allocator's config map in the environment. The virtual cluster is the side \<^verbatim>\<open>Virt\<close> once its client has been made.
\<close>

section \<open>Objects and interfaces\<close>

record cluster_role_binding =
  cr_meta :: object_meta
  cr_Subjects :: "subject list"

record lease =
  le_meta :: object_meta

record storage_class =
  stc_meta :: object_meta
  stc_Provisioner :: string
  stc_Parameters :: "smap option"
  stc_ReclaimPolicy :: "string option"
  stc_MountOptions :: "string list"
  stc_AllowVolumeExpansion :: "bool option"
  stc_VolumeBindingMode :: "string option"
  stc_AllowedTopologies :: payload

record service_cidr =
  scd_meta :: object_meta
  scd_CIDRs :: "string list"

text \<open>The arguments of the containers of a control plane pod, and the addresses of a node with their types.\<close>

record control_pod =
  cop_meta :: object_meta
  cop_Args :: "string list list"

record addressed_node =
  adn_meta :: object_meta
  adn_Addresses :: "(string \<times> string) list"

record endpoint_slice =
  eps_meta :: object_meta
  eps_AddressType :: string
  eps_Endpoints :: "string list"
  eps_Port :: int

record endpoints =
  ept_meta :: object_meta
  ept_Addresses :: "string list"
  ept_Port :: int

record 'e cluster_api =
  cx_policy :: "'e policy_api"
  cx_server :: "'e server_api"
  cx_agent :: "'e agent_api"
  cx_BindingR :: "('e, cluster_role_binding) resource"
  cx_LeaseR :: "('e, lease) resource"
  cx_StorageClassR :: "('e, storage_class) resource"
  cx_ServiceCIDRR :: "('e, service_cidr) resource"
  cx_ControlPodR :: "('e, control_pod) resource"
  cx_PodR :: "('e, pod) resource"
  cx_NodeR :: "('e, addressed_node) resource"
  cx_ConfigMapR :: "('e, config_map) resource"
  cx_EndpointSliceR :: "('e, endpoint_slice) resource"
  cx_EndpointsR :: "('e, endpoints) resource"

record 'e externals =
  x_serverYaml :: "server_config \<Rightarrow> goerr + string"
  x_sharedYaml :: "shared_agent_config \<Rightarrow> goerr + string"
  x_virtualYaml :: "virtual_agent_config \<Rightarrow> goerr + string"
  x_random :: "'e \<Rightarrow> (goerr + string) \<times> 'e"
  x_ServerVersion :: "'e \<Rightarrow> (goerr + string) \<times> 'e"
  x_FetchBootstrap :: "string \<Rightarrow> string \<Rightarrow> cluster \<Rightarrow> 'e \<Rightarrow> (goerr + payload) \<times> 'e"
  x_bootstrap_ok :: "payload \<Rightarrow> bool"
  x_adminCert :: "payload \<Rightarrow> goerr + payload"
  x_kubeconfig :: "url \<Rightarrow> payload \<Rightarrow> payload \<Rightarrow> goerr + string"
  x_restConfig :: "string \<Rightarrow> goerr + unit"
  x_LookupIPAddr :: "string \<Rightarrow> 'e \<Rightarrow> (goerr + ip_addr list) \<times> 'e"
  x_ports :: "'e \<Rightarrow> config_map"
  x_ports_put :: "config_map \<Rightarrow> 'e \<Rightarrow> 'e"

record cluster_config =
  cc_ClusterCIDR :: string
  cc_SharedAgentImage :: string
  cc_SharedAgentImagePullPolicy :: string
  cc_VirtualAgentImage :: string
  cc_VirtualAgentImagePullPolicy :: string
  cc_K3SServerImage :: string
  cc_K3SServerImagePullPolicy :: string
  cc_ServerImagePullSecrets :: "string list"
  cc_AgentImagePullSecrets :: "string list"

abbreviation cx_SecretR where "cx_SecretR A \<equiv> sa_SecretR (cx_server A)"
abbreviation cx_ClusterR where "cx_ClusterR A \<equiv> ClusterR (cx_policy A)"

text \<open>The allocator of kubelet ports works on the config map it keeps in memory.\<close>

definition AllocateKubeletPort :: "'p port_lib \<Rightarrow> 'e externals \<Rightarrow> 'e cluster_api \<Rightarrow> string \<Rightarrow> string \<Rightarrow> ('e, goerr + int) io" where
  "AllocateKubeletPort L X A clusterName clusterNamespace =
     bindS (external (\<lambda>e. (x_ports X e, e))) (\<lambda>cm.
     bindS (allocatePort L (cx_ConfigMapR A) clusterName clusterNamespace cm) (\<lambda>(r, cm).
     bindS (external (\<lambda>e. ((), x_ports_put X cm e))) (\<lambda>_. ret r)))"

definition DeallocateKubeletPort :: "'p port_lib \<Rightarrow> 'e externals \<Rightarrow> 'e cluster_api \<Rightarrow> string \<Rightarrow> string \<Rightarrow> int \<Rightarrow>
    ('e, goerr + unit) io" where
  "DeallocateKubeletPort L X A clusterName clusterNamespace kubeletPort =
     bindS (external (\<lambda>e. (x_ports X e, e))) (\<lambda>cm.
     bindS (deallocatePort L (cx_ConfigMapR A) clusterName clusterNamespace cm kubeletPort) (\<lambda>(r, cm).
     bindS (external (\<lambda>e. ((), x_ports_put X cm e))) (\<lambda>_. ret r)))"

section \<open>Tokens\<close>

definition TokenSecretName :: "string \<Rightarrow> string" where
  "TokenSecretName clusterName = SafeConcatNameWithPrefix [clusterName, ''token'']"

definition TokenSecretObj :: "string \<Rightarrow> string \<Rightarrow> string \<Rightarrow> secret" where
  "TokenSecretObj token name namespace =
     \<lparr>sec_meta = meta_of (TokenSecretName name) namespace, sec_Type = '''',
      sec_Data = Some (fmap_of_list [(''token'', token)]), sec_Immutable = None\<rparr>"

definition ensureTokenSecret :: "util \<Rightarrow> 'e externals \<Rightarrow> 'e cluster_api \<Rightarrow> cluster \<Rightarrow> ('e, goerr + string) io" where
  "ensureTokenSecret U X A cluster =
     bindS (k_Get Host (cx_SecretR A) \<lparr>nn_Namespace = Namespace (cl_meta cluster), nn_Name = TokenSecretName (Name (cl_meta cluster))\<rparr>)
       (\<lambda>r. let data = (case r of Inl err \<Rightarrow> None | Inr tokenSecret \<Rightarrow> sec_Data tokenSecret) in
        if (case r of Inl err \<Rightarrow> \<not> IsNotFound err | Inr _ \<Rightarrow> False) then ret (Inl (projl r))
        else if data \<noteq> None then ret (Inr (mindex data ''token''))
        else bindE (external (x_random X)) (\<lambda>token.
          bindE (k_CreateOrUpdate Host (cx_SecretR A) (TokenSecretObj token (Name (cl_meta cluster)) (Namespace (cl_meta cluster)))
            (\<lambda>cur. case SetControllerReference U (cl_meta cluster) (sec_meta cur) of Inl err \<Rightarrow> Inl err
               | Inr m \<Rightarrow> Inr (cur\<lparr>sec_meta := m\<rparr>))) (\<lambda>_.
          ret (Inr token))))"

definition cluster_token :: "util \<Rightarrow> 'e externals \<Rightarrow> 'e cluster_api \<Rightarrow> cluster \<Rightarrow> ('e, goerr + string) io" where
  "cluster_token U X A cluster =
     (case TokenSecretRef (cl_Spec cluster) of None \<Rightarrow> ensureTokenSecret U X A cluster
      | Some ref \<Rightarrow>
          bindE (k_Get Host (cx_SecretR A) \<lparr>nn_Namespace = sr_Namespace ref, nn_Name = sr_Name ref\<rparr>) (\<lambda>tokenSecret.
          case mlookup (sec_Data tokenSecret) ''token'' of
            None \<Rightarrow> ret (Inl (ErrNew (''no token field in secret '' @ sr_Namespace ref @ ''/'' @ sr_Name ref)))
          | Some token \<Rightarrow> ret (Inr token)))"

definition GetClusterToken :: "'e cluster_api \<Rightarrow> cluster \<Rightarrow> ('e, goerr + string) io" where
  "GetClusterToken A cluster =
     (let tokenSecretName = (case TokenSecretRef (cl_Spec cluster) of
          None \<Rightarrow> TokenSecretName (Name (cl_meta cluster))
        | Some ref \<Rightarrow> if sr_Name ref \<noteq> '''' then sr_Name ref else TokenSecretName (Name (cl_meta cluster)))
      in bindE (k_Get Host (cx_SecretR A) \<lparr>nn_Namespace = Namespace (cl_meta cluster), nn_Name = tokenSecretName\<rparr>) (\<lambda>tokenSecret.
         if sec_Data tokenSecret \<noteq> None then ret (Inr (mindex (sec_Data tokenSecret) ''token''))
         else ret (Inl (ErrNew ''token secret is empty''))))"

section \<open>Virtual client\<close>

definition newVirtualClient :: "'e externals \<Rightarrow> 'e cluster_api \<Rightarrow> string \<Rightarrow> string \<Rightarrow> ('e, goerr + unit) io" where
  "newVirtualClient X A clusterName clusterNamespace =
     bindE (k_Get Host (cx_SecretR A) \<lparr>nn_Namespace = clusterNamespace,
         nn_Name = SafeConcatNameWithPrefix [clusterName, ''kubeconfig'']\<rparr>) (\<lambda>clusterKubeConfig.
     case x_restConfig X (mindex (sec_Data clusterKubeConfig) ''kubeconfig.yaml'') of
       Inl err \<Rightarrow> ret (Inl (ErrWrap ''failed to create config from kubeconfig file'' [err]))
     | Inr _ \<Rightarrow> ret (Inr ()))"

section \<open>Validation\<close>

definition validateCustomCACerts :: "credential_sources \<Rightarrow> goerr option" where
  "validateCustomCACerts src =
     (if cs_SecretName (ClientCA src) = '''' \<or> cs_SecretName (ServerCA src) = '''' \<or> cs_SecretName (EtcdPeerCA src) = '''' \<or>
         cs_SecretName (EtcdServerCA src) = '''' \<or> cs_SecretName (RequestHeaderCA src) = '''' \<or>
         cs_SecretName (ServiceAccountToken src) = ''''
      then Some (Sentinel ErrCustomCACertSecretMissing) else None)"

definition validate :: "cluster \<Rightarrow> virtual_cluster_policy option \<Rightarrow> goerr option" where
  "validate cluster policy =
     (let spec = cl_Spec cluster;
          invalid = (\<lambda>msg es. Some (ErrWrap msg (Sentinel ErrClusterValidation # es)));
          caErr = (case CustomCAs spec of None \<Rightarrow> None
            | Some cas \<Rightarrow> if ca_Enabled cas then validateCustomCACerts (ca_Sources cas) else None)
      in if Name (cl_meta cluster) = ''system'' then invalid ''invalid cluster name'' []
         else if (case policy of None \<Rightarrow> False | Some p \<Rightarrow> Mode spec \<noteq> AllowedMode (vp_Spec p))
           then invalid ''mode is not allowed by the policy'' []
         else if caErr \<noteq> None then invalid '''' [the caErr]
         else if (case Expose spec of None \<Rightarrow> False | Some e \<Rightarrow> ex_Ingress e \<noteq> None) \<and> FilterDNSNames (TLSSANs spec) = []
           then invalid ''expose.ingress requires at least one DNS name in spec.tlsSANs'' []
         else None)"

section \<open>Objects of the cluster\<close>

text \<open>Setting the cluster as the controller of an object, then a change.\<close>

definition controlled :: "util \<Rightarrow> cluster \<Rightarrow> ('o \<Rightarrow> object_meta) \<Rightarrow> ((object_meta \<Rightarrow> object_meta) \<Rightarrow> 'o \<Rightarrow> 'o) \<Rightarrow> ('o \<Rightarrow> 'o) \<Rightarrow>
    'o \<Rightarrow> goerr + 'o" where
  "controlled U cluster meta setm f cur =
     (case SetControllerReference U (cl_meta cluster) (meta cur) of Inl err \<Rightarrow> Inl err
      | Inr m \<Rightarrow> Inr (f (setm (\<lambda>_. m) cur)))"

definition ensureNetworkPolicy :: "util \<Rightarrow> 'e cluster_api \<Rightarrow> cluster_config \<Rightarrow> cluster \<Rightarrow> ('e, goerr + unit) io" where
  "ensureNetworkPolicy U A cfg cluster =
     (let R = NetworkPolicyR (cx_policy A);
          m = meta_of (SafeConcatNameWithPrefix [Name (cl_meta cluster)]) (Namespace (cl_meta cluster))
      in if st_PolicyName (cl_Status cluster) \<noteq> ''''
         then bindS (k_Delete Host R \<lparr>np_meta = m, np_Spec = IsolationNetworkPolicySpec '''' []\<rparr>) (\<lambda>r. ret (IgnoreNotFound r))
         else bindE (FindPodCIDRs (cx_policy A) (cc_ClusterCIDR cfg)) (\<lambda>cidrList.
           (let expected = \<lparr>np_meta = m, np_Spec = IsolationNetworkPolicySpec (Namespace (cl_meta cluster)) cidrList\<rparr> in
            bindE (k_CreateOrUpdate Host R expected
              (controlled U cluster np_meta np_meta_update (\<lambda>cur. cur\<lparr>np_Spec := np_Spec expected\<rparr>))) (\<lambda>_. ret (Inr ())))))"

definition ensureClusterService :: "util \<Rightarrow> 'e cluster_api \<Rightarrow> cluster \<Rightarrow> ('e, goerr + cluster_service) io" where
  "ensureClusterService U A cluster =
     (let expected = Service cluster in
      k_CreateOrUpdate Host (sa_ServiceR (cx_server A)) expected
        (controlled U cluster se_meta se_meta_update (\<lambda>cur.
          (let old = Annotations (se_meta cur); new = Annotations (se_meta expected);
               annotations = (case old of None \<Rightarrow> new | Some o' \<Rightarrow> Some (o' ++\<^sub>f minit new))
           in expected\<lparr>se_meta := (se_meta cur)\<lparr>Annotations := annotations\<rparr>, se_Ingress := se_Ingress cur\<rparr>))))"

definition hostNodeIPs :: "'e cluster_api \<Rightarrow> cluster \<Rightarrow> ('e, goerr + string list) io" where
  "hostNodeIPs A cluster =
     (let sel = minit (node_selector cluster);
          reqs = map (\<lambda>k. ReqEquals k (the (fmlookup sel k))) (sorted_list_of_fset (fmdom sel))
      in bindS (k_List Host (cx_NodeR A) \<lparr>lo_Namespace = '''', lo_Reqs = reqs\<rparr>) (\<lambda>r. case r of
           Inl err \<Rightarrow> ret (Inl (ErrWrap ''listing host nodes'' [err]))
         | Inr nodes \<Rightarrow> ret (Inr (sorted_set (concat (map (\<lambda>node.
             map snd (filter (\<lambda>(t, _). t = ''InternalIP'') (adn_Addresses node))) nodes))))))"

section \<open>Steps\<close>

text \<open>Steps that may fail and that change the cluster in memory, which is kept also after an error.\<close>

type_synonym ('e, 'a) step = "cluster \<Rightarrow> ('e, (goerr + 'a) \<times> cluster) io"

definition bindC :: "('e, 'a) step \<Rightarrow> ('a \<Rightarrow> ('e, 'b) step) \<Rightarrow> ('e, 'b) step" where
  "bindC m f = (\<lambda>c. bindS (m c) (\<lambda>(r, c). case r of Inl err \<Rightarrow> ret (Inl err, c) | Inr a \<Rightarrow> f a c))"

definition reading :: "(cluster \<Rightarrow> ('e, goerr + 'a) io) \<Rightarrow> ('e, 'a) step" where
  "reading m = (\<lambda>c. bindS (m c) (\<lambda>r. ret (r, c)))"

text \<open>One step after the other, up to the first error.\<close>

fun run_steps :: "('e, unit) step list \<Rightarrow> ('e, unit) step" where
  "run_steps [] = reading (\<lambda>_. ret (Inr ()))"
| "run_steps (m # ms) = bindC m (\<lambda>_. run_steps ms)"

definition set_status :: "(cluster \<Rightarrow> cluster_status \<Rightarrow> cluster_status) \<Rightarrow> ('e, unit) step" where
  "set_status f = (\<lambda>c. ret (Inr (), c\<lparr>cl_Status := f c (cl_Status c)\<rparr>))"

section \<open>Configuration and workloads\<close>

text \<open>The configuration secret of the init server and that of the joining ones; both runs of \<^verbatim>\<open>Config\<close> record the SANs.\<close>

definition ensure_config :: "util \<Rightarrow> 'e externals \<Rightarrow> 'e cluster_api \<Rightarrow> server \<Rightarrow> cluster_service \<Rightarrow> bool \<Rightarrow> string list \<Rightarrow> ('e, unit) step" where
  "ensure_config U X A s service init nodeSANs = (\<lambda>c.
     case Config (x_serverYaml X) c (s_token s) init service nodeSANs of (r, c) \<Rightarrow>
     (case r of Inl err \<Rightarrow> ret (Inl err, c)
      | Inr secret \<Rightarrow> bindC (reading (\<lambda>c. k_CreateOrUpdate Host (cx_SecretR A) secret
            (controlled U c sec_meta sec_meta_update (\<lambda>cur. cur\<lparr>sec_Data := sec_Data secret\<rparr>)))) (\<lambda>_. reading (\<lambda>_. ret (Inr ()))) c))"

definition ensureClusterConfigs :: "util \<Rightarrow> 'e externals \<Rightarrow> 'e cluster_api \<Rightarrow> server \<Rightarrow> cluster_service \<Rightarrow> ('e, unit) step" where
  "ensureClusterConfigs U X A s service =
     bindC (reading (\<lambda>c. if Mode (cl_Spec c) = HCPClusterMode then hostNodeIPs A c else ret (Inr []))) (\<lambda>nodeSANs.
     bindC (ensure_config U X A s service True nodeSANs) (\<lambda>_.
     ensure_config U X A s service False nodeSANs))"

definition ensureIngress :: "util \<Rightarrow> 'e cluster_api \<Rightarrow> cluster \<Rightarrow> ('e, goerr + unit) io" where
  "ensureIngress U A cluster =
     (let R = sa_IngressR (cx_server A); expected = Ingress cluster in
      if (case Expose (cl_Spec cluster) of None \<Rightarrow> True | Some e \<Rightarrow> ex_Ingress e = None)
      then bindS (k_Delete Host R expected) (\<lambda>r. ret (IgnoreNotFound r))
      else bindE (k_CreateOrUpdate Host R expected
        (controlled U cluster ci_meta ci_meta_update (\<lambda>cur.
          expected\<lparr>ci_meta := (ci_meta cur)\<lparr>Annotations := Annotations (ci_meta expected)\<rparr>\<rparr>))) (\<lambda>_. ret (Inr ())))"

definition etcdPodFinalizerName :: string where "etcdPodFinalizerName = ''etcdpod.k3k.io/finalizer''"

definition server_resources :: "util \<Rightarrow> 'e externals \<Rightarrow> 'e cluster_api \<Rightarrow> server \<Rightarrow> string list \<Rightarrow> cluster \<Rightarrow>
    ('e, goerr + unit) io" where
  "server_resources U X A s exposeSANs cluster =
     (let headless = StatefulServerService cluster in
     case SetControllerReference U (cl_meta cluster) (se_meta headless) of Inl err \<Rightarrow> ret (Inl err)
     | Inr m \<Rightarrow>
     bindE (bindS (k_Create Host (sa_ServiceR (cx_server A)) (headless\<lparr>se_meta := m\<rparr>)) (\<lambda>r. case r of
         Inl err \<Rightarrow> ret (if IsAlreadyExists err then Inr () else Inl err) | Inr _ \<Rightarrow> ret (Inr ()))) (\<lambda>_.
     bindE (StatefulServer U StartupCommand (cx_server A) s cluster exposeSANs) (\<lambda>expected.
     (let expected = expected\<lparr>wk_meta := snd (AddFinalizer U etcdPodFinalizerName (wk_meta expected))\<rparr> in
     bindE (k_CreateOrUpdate Host (aa_StatefulSetR (cx_agent A)) expected
       (controlled U cluster wk_meta wk_meta_update (\<lambda>cur. expected\<lparr>wk_meta := wk_meta cur\<rparr>))) (\<lambda>_.
     ret (Inr ()))))))"

section \<open>Role bindings\<close>

definition clusterRoles :: "string list" where
  "clusterRoles = [''k3k-kubelet-node'', ''k3k-priorityclass'']"

definition clusterSubject :: "cluster \<Rightarrow> subject" where
  "clusterSubject cluster =
     \<lparr>sj_APIGroup = '''', sj_Kind = ''ServiceAccount'', sj_Name = SafeConcatNameWithPrefix [Name (cl_meta cluster), ''kubelet''],
      sj_Namespace = Namespace (cl_meta cluster)\<rparr>"

definition bind_subject :: "cluster \<Rightarrow> subject list \<Rightarrow> subject list" where
  "bind_subject cluster subjects =
     (if clusterSubject cluster \<in> set subjects then subjects else subjects @ [clusterSubject cluster])"

definition unbind_subject :: "cluster \<Rightarrow> subject list \<Rightarrow> subject list" where
  "unbind_subject cluster subjects = filter (\<lambda>s. s \<noteq> clusterSubject cluster) subjects"

text \<open>Both operations read each binding, change its subjects and write it back when they changed; a failure for one
  role does not stop the other.\<close>

definition change_bindings :: "'e cluster_api \<Rightarrow> (subject list \<Rightarrow> subject list) \<Rightarrow> ('e, goerr + unit) io" where
  "change_bindings A f =
     bindS (for_collect clusterRoles (\<lambda>clusterRole.
       bindS (k_Get Host (cx_BindingR A) (cluster_scoped clusterRole)) (\<lambda>r. case r of
         Inl err \<Rightarrow> ret [ErrWrap ''failed to get or find ClusterRoleBinding'' [err]]
       | Inr binding \<Rightarrow>
           if f (cr_Subjects binding) \<noteq> cr_Subjects binding
           then bindS (k_Update Host (cx_BindingR A) (binding\<lparr>cr_Subjects := f (cr_Subjects binding)\<rparr>)) (\<lambda>r. case r of
             Inl err \<Rightarrow> ret [ErrWrap ''failed to update ClusterRoleBinding'' [err]] | Inr _ \<Rightarrow> ret [])
           else ret []))) (\<lambda>errs. ret (of_err (errors_Join (map Some errs))))"

definition bindClusterRoles :: "'e cluster_api \<Rightarrow> cluster \<Rightarrow> ('e, goerr + unit) io" where
  "bindClusterRoles A cluster = change_bindings A (bind_subject cluster)"

definition unbindClusterRoles :: "'e cluster_api \<Rightarrow> cluster \<Rightarrow> ('e, goerr + unit) io" where
  "unbindClusterRoles A cluster = change_bindings A (unbind_subject cluster)"

section \<open>Agents\<close>

definition ensureAgent :: "util \<Rightarrow> 'p port_lib \<Rightarrow> 'e externals \<Rightarrow> 'e cluster_api \<Rightarrow> cluster_config \<Rightarrow> string \<Rightarrow> string \<Rightarrow> cluster \<Rightarrow>
    ('e, (goerr + unit) \<times> cluster) io" where
  "ensureAgent U L X A cfg serviceIP token cluster =
     (if Mode (cl_Spec cluster) = HCPClusterMode then ret (Inr (), cluster)
      else if Mode (cl_Spec cluster) = VirtualClusterMode then
        bindS (virtual_EnsureResources U (x_virtualYaml X) (x_random X) (cx_agent A)
          (NewVirtualAgent serviceIP token (cc_VirtualAgentImage cfg) (cc_VirtualAgentImagePullPolicy cfg)
            (cc_AgentImagePullSecrets cfg)) cluster) (\<lambda>r. ret (r, cluster))
      else
        (let ensure = (\<lambda>kubeletPort cluster.
           bindS (shared_EnsureResources U (x_sharedYaml X) (cx_agent A)
             (NewSharedAgent serviceIP (cc_SharedAgentImage cfg) (cc_SharedAgentImagePullPolicy cfg) token kubeletPort
               (cc_AgentImagePullSecrets cfg)) cluster) (\<lambda>r. ret (r, cluster)))
         in if MirrorHostNodes (cl_Spec cluster)
            then bindS (AllocateKubeletPort L X A (Name (cl_meta cluster)) (Namespace (cl_meta cluster))) (\<lambda>r. case r of
              Inl err \<Rightarrow> ret (Inl err, cluster)
            | Inr kubeletPort \<Rightarrow> ensure kubeletPort
                (cluster\<lparr>cl_Status := (cl_Status cluster)\<lparr>st_KubeletPort := kubeletPort\<rparr>\<rparr>))
            else ensure 10250 cluster))"

section \<open>Storage classes\<close>

abbreviation SyncEnabledLabelKey :: string where "SyncEnabledLabelKey \<equiv> ''k3k.io/sync-enabled''"
abbreviation SyncSourceLabelKey :: string where "SyncSourceLabelKey \<equiv> ''k3k.io/sync-source''"
abbreviation SyncSourceHostLabel :: string where "SyncSourceHostLabel \<equiv> ''host''"

definition storage_sync :: "cluster \<Rightarrow> sync_config option" where
  "storage_sync cluster =
     (case st_Policy (cl_Status cluster) of
        Some p \<Rightarrow> (case ap_Sync p of Some s \<Rightarrow> Some s | None \<Rightarrow> SyncCfg (cl_Spec cluster))
      | None \<Rightarrow> SyncCfg (cl_Spec cluster))"

definition keep_storage_class :: "storage_class_sync_config \<Rightarrow> storage_class \<Rightarrow> bool" where
  "keep_storage_class cfg sc =
     ((case mlookup (Labels (stc_meta sc)) SyncEnabledLabelKey of Some v \<Rightarrow> v = ''true'' | None \<Rightarrow> True) \<and>
      labels_match (minit (sc_Selector cfg)) (Labels (stc_meta sc)))"

definition virtual_storage_class :: "storage_class \<Rightarrow> storage_class \<Rightarrow> storage_class" where
  "virtual_storage_class hostSc virtualSc =
     hostSc\<lparr>stc_meta := (stc_meta virtualSc)\<lparr>Annotations := Annotations (stc_meta hostSc),
       Labels := Some (fmupd SyncSourceLabelKey SyncSourceHostLabel (minit (Labels (stc_meta hostSc))))\<rparr>\<rparr>"

abbreviation host_sourced :: list_opts where
  "host_sourced \<equiv> \<lparr>lo_Namespace = '''', lo_Reqs = [ReqEquals SyncSourceLabelKey SyncSourceHostLabel]\<rparr>"

definition sync_storage_classes :: "(string fset \<Rightarrow> string list) \<Rightarrow> 'e cluster_api \<Rightarrow> storage_class list \<Rightarrow> storage_class list \<Rightarrow>
    ('e, goerr list) io" where
  "sync_storage_classes ord A kept virt =
     (let filtered = fmap_of_list (rev (map (\<lambda>sc. (Name (stc_meta sc), sc)) kept)) in
      bindS (for_collect virt (\<lambda>sc.
        if Name (stc_meta sc) |\<notin>| fmdom filtered
        then bindS (k_Delete Virt (cx_StorageClassR A) sc) (\<lambda>r. case r of Inl err \<Rightarrow> ret [err] | Inr _ \<Rightarrow> ret [])
        else ret [])) (\<lambda>errs.
      bindS (for_collect (List.map_filter (fmlookup filtered) (ord (fmdom filtered))) (\<lambda>hostSc.
        bindS (k_CreateOrUpdate Virt (cx_StorageClassR A)
            (hostSc\<lparr>stc_meta := (meta_of (Name (stc_meta hostSc)) '''')\<lparr>Labels := Labels (stc_meta hostSc),
              Annotations := Annotations (stc_meta hostSc)\<rparr>\<rparr>)
            (\<lambda>cur. Inr (virtual_storage_class hostSc cur)))
          (\<lambda>r. case r of Inl err \<Rightarrow> ret [err] | Inr _ \<Rightarrow> ret []))) (\<lambda>errs'.
      ret (errs @ errs'))))"

definition ensureStorageClasses :: "(string fset \<Rightarrow> string list) \<Rightarrow> 'e externals \<Rightarrow> 'e cluster_api \<Rightarrow> cluster \<Rightarrow>
    ('e, goerr + unit) io" where
  "ensureStorageClasses ord X A cluster =
     bindS (newVirtualClient X A (Name (cl_meta cluster)) (Namespace (cl_meta cluster))) (\<lambda>r. case r of
       Inl err \<Rightarrow> ret (Inl (ErrWrap ''failed creating virtual client'' [err]))
     | Inr _ \<Rightarrow>
     (case storage_sync cluster of
        Some cfg \<Rightarrow> if \<not> sc_Enabled (StorageClasses cfg)
          then bindS (k_DeleteAllOf Virt (cx_StorageClassR A) host_sourced) (\<lambda>r. ret (IgnoreNotFound r))
          else
            bindS (k_List Host (cx_StorageClassR A) (InNamespace '''')) (\<lambda>r. case r of
              Inl err \<Rightarrow> ret (Inl (ErrWrap ''failed listing host storageclasses'' [err]))
            | Inr hostScs \<Rightarrow>
            bindS (k_List Virt (cx_StorageClassR A) host_sourced) (\<lambda>r. case r of
              Inl err \<Rightarrow> ret (Inl (ErrWrap ''failed listing virtual storageclasses'' [err]))
            | Inr virtScs \<Rightarrow>
            bindS (sync_storage_classes ord A (filter (keep_storage_class (StorageClasses cfg)) hostScs) virtScs) (\<lambda>errs.
            if errs = [] then ret (Inr ()) else ret (Inl (ErrWrap ''failed to sync storageclasses'' errs)))))
      | None \<Rightarrow> bindS (k_DeleteAllOf Virt (cx_StorageClassR A) host_sourced) (\<lambda>r. ret (IgnoreNotFound r))))"

section \<open>Service range\<close>

text \<open>The text of an error, as far as the model keeps it.\<close>

fun sentinel_text :: "sentinel \<Rightarrow> string" where
  "sentinel_text ErrClusterValidation = ''cluster validation error''"
| "sentinel_text ErrCustomCACertSecretMissing = ''custom CA certificate secret is missing''"
| "sentinel_text ErrServerNotReady = ''server not ready''"
| "sentinel_text ErrRetryTimeout = ''timed out''"
| "sentinel_text ErrGRPCMemberNotFound = ''etcdserver: member not found''"
| "sentinel_text ErrLoadBalancerNotReady = ''the LoadBalancer address of the cluster service has not been assigned yet''"
| "sentinel_text ErrConnectionRefused = ''connection refused''"
| "sentinel_text ErrSaveSnapshot = ''failed to execute save snapshot request''"
| "sentinel_text ErrListSnapshots = ''failed to execute list snapshots request''"
| "sentinel_text ErrDeleteSnapshot = ''failed to execute delete snapshot request''"
| "sentinel_text ErrSnapshotNotFound = ''snapshot not found''"
| "sentinel_text ErrClusterNotReady = ''cluster is not ready''"
| "sentinel_text ErrNotExist = ''file does not exist''"
| "sentinel_text ErrContextCanceled = ''context canceled''"

fun err_Error :: "goerr \<Rightarrow> string" where
  "err_Error (ApiErr r m) = m"
| "err_Error (Sentinel s) = sentinel_text s"
| "err_Error (ErrNew m) = m"
| "err_Error (ErrWrap m es) = strings_Join ((if m = '''' then [] else [m]) @ map err_Error es) '': ''"

text \<open>\<^verbatim>\<open>strings.Split\<close> at a separator that is not empty, and \<^verbatim>\<open>strings.TrimSpace\<close>.\<close>

function split_at :: "string \<Rightarrow> string \<Rightarrow> string \<Rightarrow> string list" where
  "split_at sep acc s =
     (case s of [] \<Rightarrow> [rev acc]
      | c # cs \<Rightarrow> if sep \<noteq> [] \<and> strings_HasPrefix s sep then rev acc # split_at sep [] (drop (length sep) s)
          else split_at sep (c # acc) cs)"
  by pat_completeness auto
termination
  by (relation "measure (\<lambda>(sep, acc, s). length s)") auto

declare split_at.simps [simp del]

definition is_space :: "char \<Rightarrow> bool" where
  "is_space c = (c = CHR '' '' \<or> (9 \<le> (of_char c :: nat) \<and> (of_char c :: nat) \<le> 13))"

definition strings_TrimSpace :: "string \<Rightarrow> string" where
  "strings_TrimSpace s = rev (dropWhile is_space (rev (dropWhile is_space s)))"

definition normal_CIDR :: "string \<Rightarrow> goerr + string" where
  "normal_CIDR s = (case ParseCIDR s of Inl err \<Rightarrow> Inl err | Inr net \<Rightarrow> Inr (IPNet_String net))"

definition range_flag :: string where "range_flag = ''--service-cluster-ip-range=''"

definition range_from_args :: "string list \<Rightarrow> string" where
  "range_from_args args =
     (case filter (\<lambda>arg. strings_HasPrefix arg range_flag) args of [] \<Rightarrow> ''''
      | arg # _ \<Rightarrow> (case normal_CIDR (strings_TrimPrefix arg range_flag) of Inl _ \<Rightarrow> '''' | Inr c \<Rightarrow> c))"

definition range_from_pods :: "'e cluster_api \<Rightarrow> ('e, goerr + string) io" where
  "range_from_pods A =
     bindS (k_List Host (cx_ControlPodR A) \<lparr>lo_Namespace = ''kube-system'',
         lo_Reqs = [ReqEquals ''component'' ''kube-apiserver'', ReqEquals ''tier'' ''control-plane'']\<rparr>) (\<lambda>r. case r of
       Inl err \<Rightarrow> ret (if IsNotFound err then Inr '''' else Inl err)
     | Inr [] \<Rightarrow> ret (Inr '''')
     | Inr (pod # _) \<Rightarrow> (case cop_Args pod of [] \<Rightarrow> ret (Inl (ErrNew ''index out of range'')) | args # _ \<Rightarrow> ret (Inr (range_from_args args))))"

definition lookupServiceCIDR :: "'e cluster_api \<Rightarrow> ('e, goerr + string) io" where
  "lookupServiceCIDR A =
     bindS (k_Get Host (cx_ServiceCIDRR A) (cluster_scoped ''kubernetes'')) (\<lambda>r.
     case (case r of Inl err \<Rightarrow> [] | Inr c \<Rightarrow> scd_CIDRs c) of
       serviceCIDR # _ \<Rightarrow> ret (normal_CIDR serviceCIDR)
     | [] \<Rightarrow>
       bindS (k_Create Host (sa_ServiceR (cx_server A)) ((service_of ''fail'' ''default'' fmempty)\<lparr>se_ClusterIP := ''1.1.1.1''\<rparr>)) (\<lambda>r.
       case (case r of Inr _ \<Rightarrow> [] | Inl err \<Rightarrow> tl (split_at ''The range of valid IPs is '' [] (err_Error err))) of
         serviceCIDR # _ \<Rightarrow> ret (normal_CIDR (strings_TrimSpace serviceCIDR))
       | [] \<Rightarrow> range_from_pods A))"

section \<open>Addresses of hosted control planes\<close>

fun findNonLoopbackSAN :: "string list \<Rightarrow> string" where
  "findNonLoopbackSAN [] = ''''"
| "findNonLoopbackSAN (san # sans) =
     (if san = ''localhost'' then findNonLoopbackSAN sans
      else case ParseIP san of Some ip \<Rightarrow> if IsLoopback ip then findNonLoopbackSAN sans else san | None \<Rightarrow> san)"

definition isIPv4 :: "string \<Rightarrow> bool" where
  "isIPv4 address = (case ParseIP address of None \<Rightarrow> False | Some ip \<Rightarrow> To4 ip \<noteq> None)"

definition ip_String :: "ip_addr \<Rightarrow> string" where
  "ip_String ip = (case To4 ip of Some q \<Rightarrow> v4_String q | None \<Rightarrow> v6_String ip)"

definition hcpEndpointAddress :: "'e externals \<Rightarrow> string \<Rightarrow> ('e, goerr + string) io" where
  "hcpEndpointAddress X host =
     (case ParseIP host of
        Some ip \<Rightarrow> if IsLoopback ip then ret (Inl (ErrNew ''HCP endpoint host is a loopback address and cannot be used''))
          else ret (Inr host)
      | None \<Rightarrow>
          bindS (log_call Host VGet KHostAddress (meta_of host '''') [] (x_LookupIPAddr X host)) (\<lambda>r. case r of
            Inl err \<Rightarrow> ret (Inl (ErrWrap ''HCP endpoint host is not an IP and does not resolve'' [err]))
          | Inr addrs \<Rightarrow> (case filter (\<lambda>ip. \<not> IsLoopback ip) addrs of
              [] \<Rightarrow> ret (Inl (ErrNew ''HCP endpoint host resolved to no non-loopback IPs''))
            | ip # _ \<Rightarrow> ret (Inr (ip_String ip)))))"

definition listServerPods :: "'e cluster_api \<Rightarrow> cluster \<Rightarrow> ('e, goerr + pod list) io" where
  "listServerPods A cluster =
     bindS (k_List Host (cx_PodR A) \<lparr>lo_Namespace = Namespace (cl_meta cluster),
         lo_Reqs = [ReqEquals ''cluster'' (Name (cl_meta cluster)), ReqEquals ''role'' ''server'']\<rparr>) (\<lambda>r. case r of
       Inl err \<Rightarrow> ret (Inl (ErrWrap ''listing server pods'' [err])) | Inr pods \<Rightarrow> ret (Inr pods))"

text \<open>The addresses of a node that are published: internal ones of the wanted family.\<close>

definition node_addresses :: "bool \<Rightarrow> addressed_node \<Rightarrow> string list" where
  "node_addresses wantIPv4 node =
     map snd (filter (\<lambda>(t, a). t = ''InternalIP'' \<and> ParseIP a \<noteq> None \<and> isIPv4 a = wantIPv4) (adn_Addresses node))"

fun collect_node_ips :: "'e cluster_api \<Rightarrow> bool \<Rightarrow> string list \<Rightarrow> ('e, string list) io" where
  "collect_node_ips A wantIPv4 [] = ret []"
| "collect_node_ips A wantIPv4 (n # ns) =
     bindS (k_Get Host (cx_NodeR A) (cluster_scoped n)) (\<lambda>r.
     bindS (collect_node_ips A wantIPv4 ns) (\<lambda>rest.
     ret ((case r of Inl err \<Rightarrow> [] | Inr node \<Rightarrow>
       if DeletionTimestamp (adn_meta node) \<noteq> None then [] else node_addresses wantIPv4 node) @ rest)))"

definition serverNodeIPs :: "'e cluster_api \<Rightarrow> cluster \<Rightarrow> bool \<Rightarrow> ('e, goerr + string list) io" where
  "serverNodeIPs A cluster wantIPv4 =
     bindE (listServerPods A cluster) (\<lambda>serverPods.
     bindS (collect_node_ips A wantIPv4 (sorted_set (map (\<lambda>pod. pod_NodeName (pod_Spec pod))
       (filter (\<lambda>pod. pod_NodeName (pod_Spec pod) \<noteq> '''' \<and> DeletionTimestamp (pod_meta pod) = None) serverPods)))) (\<lambda>ips.
     ret (Inr ips)))"

definition exposed_by_node_port :: "cluster \<Rightarrow> bool" where
  "exposed_by_node_port cluster = (case Expose (cl_Spec cluster) of None \<Rightarrow> False | Some e \<Rightarrow> ex_NodePort e \<noteq> None)"

definition wrap32 :: "int \<Rightarrow> int" where
  "wrap32 x = sint (word_of_int x :: 32 word)"

definition strconv_Atoi :: "string \<Rightarrow> goerr + int" where
  "strconv_Atoi s =
     (let negative = (s \<noteq> [] \<and> hd s = CHR ''-'');
          ds = (if s \<noteq> [] \<and> (hd s = CHR ''-'' \<or> hd s = CHR ''+'') then tl s else s);
          v = (if negative then - int (dec_val ds) else int (dec_val ds))
      in if ds \<noteq> [] \<and> list_all is_digit ds \<and> - (2 ^ 63) \<le> v \<and> v < 2 ^ 63 then Inr v else Inl (ErrNew ''strconv.Atoi''))"

definition hcpEndpointAddresses :: "'e externals \<Rightarrow> 'e cluster_api \<Rightarrow> cluster \<Rightarrow> ('e, goerr + string list \<times> int) io" where
  "hcpEndpointAddresses X A cluster =
     bindE (URL (cx_server A) cluster (findNonLoopbackSAN (TLSSANs (cl_Spec cluster)))) (\<lambda>u.
     case strconv_Atoi (if url_Port u \<noteq> '''' then url_Port u else ''443'') of Inl err \<Rightarrow> ret (Inl err)
     | Inr port \<Rightarrow>
     bindE (hcpEndpointAddress X (url_Hostname u)) (\<lambda>addr.
     bindE (if exposed_by_node_port cluster then serverNodeIPs A cluster (isIPv4 addr) else ret (Inr [])) (\<lambda>nodeIPs.
     ret (Inr (if nodeIPs \<noteq> [] then nodeIPs else [addr], wrap32 port)))))"

definition ensureHCPKubernetesEndpointSlice :: "'e externals \<Rightarrow> 'e cluster_api \<Rightarrow> cluster \<Rightarrow> ('e, goerr + unit) io" where
  "ensureHCPKubernetesEndpointSlice X A cluster =
     bindE (hcpEndpointAddresses X A cluster) (\<lambda>(ips, port).
     (let addressType = (if ips \<noteq> [] \<and> isIPv4 (hd ips) then ''IPv4'' else ''IPv6'') in
     bindS (newVirtualClient X A (Name (cl_meta cluster)) (Namespace (cl_meta cluster))) (\<lambda>r. case r of
       Inl err \<Rightarrow> ret (Inl (ErrWrap ''creating virtual cluster client'' [err]))
     | Inr _ \<Rightarrow>
     bindS (k_CreateOrUpdate Virt (cx_EndpointSliceR A)
       \<lparr>eps_meta = meta_of ''kubernetes'' ''default'', eps_AddressType = '''', eps_Endpoints = [], eps_Port = 0\<rparr>
       (\<lambda>cur. Inr (cur\<lparr>eps_meta := (eps_meta cur)\<lparr>Labels :=
           Some (fmupd ''kubernetes.io/service-name'' ''kubernetes'' (minit (Labels (eps_meta cur))))\<rparr>,
         eps_AddressType := addressType, eps_Endpoints := ips, eps_Port := port\<rparr>))) (\<lambda>r. case r of
       Inl err \<Rightarrow> ret (Inl (ErrWrap ''upserting default/kubernetes endpointslice in virtual cluster'' [err]))
     | Inr _ \<Rightarrow> ret (Inr ())))))"

definition ensureHCPKubernetesEndpoints :: "'e externals \<Rightarrow> 'e cluster_api \<Rightarrow> cluster \<Rightarrow> ('e, goerr + unit) io" where
  "ensureHCPKubernetesEndpoints X A cluster =
     bindE (hcpEndpointAddresses X A cluster) (\<lambda>(ips, port).
     bindS (newVirtualClient X A (Name (cl_meta cluster)) (Namespace (cl_meta cluster))) (\<lambda>r. case r of
       Inl err \<Rightarrow> ret (Inl (ErrWrap ''creating virtual cluster client'' [err]))
     | Inr _ \<Rightarrow>
     bindS (k_CreateOrUpdate Virt (cx_EndpointsR A)
       \<lparr>ept_meta = meta_of ''kubernetes'' ''default'', ept_Addresses = [], ept_Port = 0\<rparr>
       (\<lambda>cur. Inr (cur\<lparr>ept_meta := (ept_meta cur)\<lparr>Labels :=
           Some (fmupd ''endpointslice.kubernetes.io/skip-mirror'' ''true'' (minit (Labels (ept_meta cur))))\<rparr>,
         ept_Addresses := ips, ept_Port := port\<rparr>))) (\<lambda>r. case r of
       Inl err \<Rightarrow> ret (Inl (ErrWrap ''upserting default/kubernetes endpoints in virtual cluster'' [err]))
     | Inr _ \<Rightarrow> ret (Inr ()))))"

section \<open>Bootstrap data and kubeconfig\<close>

definition ensureBootstrapSecret :: "util \<Rightarrow> 'e externals \<Rightarrow> 'e cluster_api \<Rightarrow> string \<Rightarrow> string \<Rightarrow> cluster \<Rightarrow> ('e, goerr + unit) io" where
  "ensureBootstrapSecret U X A serviceIP token cluster =
     bindE (log_call Virt VGet KBootstrapData (meta_of serviceIP '''') [] (x_FetchBootstrap X serviceIP token cluster)) (\<lambda>data.
     SaveToSecret U (cx_server A) cluster data)"

definition kubeconfig_Generate :: "'e externals \<Rightarrow> 'e cluster_api \<Rightarrow> cluster \<Rightarrow> string \<Rightarrow> ('e, goerr + string) io" where
  "kubeconfig_Generate X A cluster hostServerIP =
     bindE (LoadFromSecret (x_bootstrap_ok X) (cx_server A) cluster) (\<lambda>bootstrapData.
     case x_adminCert X bootstrapData of Inl err \<Rightarrow> ret (Inl err)
     | Inr cert \<Rightarrow>
     bindE (URL (cx_server A) cluster hostServerIP) (\<lambda>serverURL.
     ret (x_kubeconfig X serverURL bootstrapData cert)))"

definition ensureKubeconfigSecret :: "util \<Rightarrow> 'e externals \<Rightarrow> 'e cluster_api \<Rightarrow> string \<Rightarrow> cluster \<Rightarrow> ('e, goerr + unit) io" where
  "ensureKubeconfigSecret U X A serviceIP cluster =
     bindE (kubeconfig_Generate X A cluster serviceIP) (\<lambda>kubeconfigData.
     bindE (k_CreateOrUpdate Host (cx_SecretR A)
       \<lparr>sec_meta = meta_of (SafeConcatNameWithPrefix [Name (cl_meta cluster), ''kubeconfig'']) (Namespace (cl_meta cluster)),
        sec_Type = '''', sec_Data = None, sec_Immutable = None\<rparr>
       (controlled U cluster sec_meta sec_meta_update (\<lambda>cur.
         cur\<lparr>sec_Data := Some (fmap_of_list [(''kubeconfig.yaml'', kubeconfigData)])\<rparr>))) (\<lambda>_.
     ret (Inr ())))"

section \<open>Reconciliation\<close>

definition bound_policy :: "'e cluster_api \<Rightarrow> smap option \<Rightarrow> ('e, goerr + virtual_cluster_policy option) io" where
  "bound_policy A labels =
     (case mlookup labels PolicyNameLabelKey of
        Some policyName \<Rightarrow> if policyName \<noteq> ''''
          then bindE (k_Get Host (PolicyR (cx_policy A)) (cluster_scoped policyName)) (\<lambda>vcp. ret (Inr (Some vcp)))
          else ret (Inr None)
      | None \<Rightarrow> ret (Inr None))"

definition set_host_version :: "'e externals \<Rightarrow> ('e, unit) step" where
  "set_host_version X = (\<lambda>c.
     if st_HostVersion (cl_Status c) \<noteq> '''' then ret (Inr (), c)
     else bindC (reading (\<lambda>_. log_call Host VGet KServerVersion (meta_of '''' '''') [] (x_ServerVersion X))) (\<lambda>gitVersion.
       set_status (\<lambda>_ st. st\<lparr>st_HostVersion :=
         strings_Cut_before (strings_Cut_before gitVersion CHR ''+'') CHR ''-''\<rparr>)) c)"

definition cluster_cidr :: "cluster \<Rightarrow> string" where
  "cluster_cidr c =
     (if ClusterCIDR (cl_Spec c) \<noteq> '''' then ClusterCIDR (cl_Spec c)
      else if Mode (cl_Spec c) = SharedClusterMode then ''10.42.0.0/16'' else ''10.52.0.0/16'')"

definition set_service_cidr :: "'e cluster_api \<Rightarrow> ('e, unit) step" where
  "set_service_cidr A = (\<lambda>c.
     let put = (\<lambda>cidr. set_status (\<lambda>_ st. st\<lparr>st_ServiceCIDR := cidr\<rparr>)) in
     if ServiceCIDR (cl_Spec c) \<noteq> '''' then put (ServiceCIDR (cl_Spec c)) c
     else if Mode (cl_Spec c) = SharedClusterMode then
       bindS (lookupServiceCIDR A) (\<lambda>r. put (case r of Inl err \<Rightarrow> ''10.43.0.0/16'' | Inr cidr \<Rightarrow> cidr) c)
     else if Mode (cl_Spec c) = VirtualClusterMode \<or> Mode (cl_Spec c) = HCPClusterMode then put ''10.53.0.0/16'' c
     else put '''' c)"

definition lb_pending :: "cluster_service \<Rightarrow> bool" where
  "lb_pending service = (se_Type service = ''LoadBalancer'' \<and> LoadBalancerSANs service = [])"

definition ensure_hcp_endpoints :: "'e externals \<Rightarrow> 'e cluster_api \<Rightarrow> cluster \<Rightarrow> ('e, goerr + unit) io" where
  "ensure_hcp_endpoints X A c =
     (if Mode (cl_Spec c) = HCPClusterMode
      then bindE (ensureHCPKubernetesEndpointSlice X A c) (\<lambda>_. ensureHCPKubernetesEndpoints X A c)
      else ret (Inr ()))"

text \<open>What follows once the address of the service is known.\<close>

definition provision :: "util \<Rightarrow> 'p port_lib \<Rightarrow> (string fset \<Rightarrow> string list) \<Rightarrow> 'e externals \<Rightarrow> 'e cluster_api \<Rightarrow> cluster_config \<Rightarrow>
    server \<Rightarrow> string \<Rightarrow> cluster_service \<Rightarrow> ('e, unit) step list" where
  "provision U L ord X A cfg s token service =
     [ensureClusterConfigs U X A s service,
      reading (server_resources U X A s (LoadBalancerSANs service)),
      ensureAgent U L X A cfg (se_ClusterIP service) token,
      reading (ensureIngress U A),
      reading (ensureBootstrapSecret U X A (se_ClusterIP service) token),
      reading (bindClusterRoles A),
      reading (ensureKubeconfigSecret U X A (se_ClusterIP service)),
      reading (ensure_hcp_endpoints X A),
      reading (ensureStorageClasses ord X A)]"

definition reconcile_steps :: "util \<Rightarrow> 'p port_lib \<Rightarrow> (string fset \<Rightarrow> string list) \<Rightarrow> 'e externals \<Rightarrow> 'e cluster_api \<Rightarrow>
    cluster_config \<Rightarrow> ('e, unit) step" where
  "reconcile_steps U L ord X A cfg =
     bindC (reading (\<lambda>c. k_Get Host (NamespaceR (cx_policy A)) (cluster_scoped (Namespace (cl_meta c))))) (\<lambda>ns.
     bindC (set_status (\<lambda>_ st. st\<lparr>st_PolicyName := mindex (Labels (nsp_meta ns)) PolicyNameLabelKey\<rparr>)) (\<lambda>_.
     bindC (reading (\<lambda>_. bound_policy A (Labels (nsp_meta ns)))) (\<lambda>vcp.
     bindC (reading (\<lambda>c. ret (of_err (validate c vcp)))) (\<lambda>_.
     bindC (set_host_version X) (\<lambda>_.
     bindC (reading (cluster_token U X A)) (\<lambda>token.
     bindC (reading (\<lambda>c. ret (Inr (New c token (cc_K3SServerImage cfg) (cc_K3SServerImagePullPolicy cfg)
         (cc_ServerImagePullSecrets cfg))))) (\<lambda>s.
     bindC (set_status (\<lambda>c st. st\<lparr>st_ClusterCIDR := cluster_cidr c\<rparr>)) (\<lambda>_.
     bindC (set_service_cidr A) (\<lambda>_.
     bindC (reading (ensureNetworkPolicy U A cfg)) (\<lambda>_.
     bindC (reading (ensureClusterService U A)) (\<lambda>service.
     bindC (reading (\<lambda>_. ret (if lb_pending service
         then Inl (ErrWrap ''waiting for the LoadBalancer address of the cluster service'' [Sentinel ErrServerNotReady])
         else Inr ()))) (\<lambda>_.
     run_steps (provision U L ord X A cfg s token service)))))))))))))"

definition reconcile :: "util \<Rightarrow> 'p port_lib \<Rightarrow> (string fset \<Rightarrow> string list) \<Rightarrow> 'e externals \<Rightarrow> 'e cluster_api \<Rightarrow> cluster_config \<Rightarrow>
    ('e, unit) step" where
  "reconcile U L ord X A cfg cluster =
     reconcile_steps U L ord X A cfg (cluster\<lparr>cl_meta := (cl_meta cluster)\<lparr>Labels :=
       Some (fmupd ''provider.cattle.io'' ''k3k'' (minit (Labels (cl_meta cluster))))\<rparr>\<rparr>)"

section \<open>Status\<close>

abbreviation ConditionReady :: string where "ConditionReady \<equiv> ''Ready''"

definition ready_condition :: "bool \<Rightarrow> string \<Rightarrow> string \<Rightarrow> condition" where
  "ready_condition ok reason message =
     \<lparr>cd_Type = ConditionReady, cd_Status = (if ok then ''True'' else ''False''), cd_Reason = reason, cd_Message = message\<rparr>"

definition set_phase :: "util \<Rightarrow> string \<Rightarrow> condition \<Rightarrow> cluster \<Rightarrow> cluster" where
  "set_phase U phase cond cluster =
     cluster\<lparr>cl_Status := (cl_Status cluster)\<lparr>st_Phase := phase,
       st_Conditions := SetStatusCondition U (st_Conditions (cl_Status cluster)) cond\<rparr>\<rparr>"

definition updateStatus :: "util \<Rightarrow> cluster \<Rightarrow> goerr option \<Rightarrow> ('e, cluster) io" where
  "updateStatus U cluster reconcileErr =
     (let event = (\<lambda>c. bindS (record_event (cl_meta cluster)) (\<lambda>_. ret c)) in
      if DeletionTimestamp (cl_meta cluster) \<noteq> None then
        ret (set_phase U ClusterTerminating (ready_condition False ''Terminating'' ''Cluster is being terminated'') cluster)
      else case reconcileErr of
        Some err \<Rightarrow>
          if errors_Is err ErrClusterValidation then
            event (set_phase U ClusterPending (ready_condition False ''ValidationFailed'' (err_Error err)) cluster)
          else if errors_Is err ErrServerNotReady then
            ret (set_phase U ClusterProvisioning (ready_condition False ''Provisioning'' (err_Error err)) cluster)
          else event (set_phase U ClusterFailed (ready_condition False ''ProvisioningFailed'' (err_Error err)) cluster)
      | None \<Rightarrow>
          (let c = set_phase U ClusterReady (ready_condition True ''Provisioned'' ''Cluster successfully provisioned'') cluster
           in if (case List.find (\<lambda>cd. cd_Type cd = ConditionReady) (st_Conditions (cl_Status cluster)) of
                 Some cd \<Rightarrow> cd_Status cd = ''True'' | None \<Rightarrow> False)
              then ret c else event c))"

definition reconcileCluster :: "util \<Rightarrow> 'p port_lib \<Rightarrow> (string fset \<Rightarrow> string list) \<Rightarrow> 'e externals \<Rightarrow> 'e cluster_api \<Rightarrow> cluster_config \<Rightarrow>
    cluster \<Rightarrow> ('e, goerr option \<times> cluster) io" where
  "reconcileCluster U L ord X A cfg cluster =
     bindS (reconcile U L ord X A cfg cluster) (\<lambda>(r, cluster).
     bindS (updateStatus U cluster (err_of r)) (\<lambda>cluster. ret (err_of r, cluster)))"

section \<open>Finalization and the handler\<close>

abbreviation clusterFinalizerName :: string where "clusterFinalizerName \<equiv> ''cluster.k3k.io/finalizer''"

datatype result = Finished | RequeueAfter nat

definition finalizeCluster :: "util \<Rightarrow> 'p port_lib \<Rightarrow> 'e externals \<Rightarrow> 'e cluster_api \<Rightarrow> cluster \<Rightarrow> ('e, goerr + result) io" where
  "finalizeCluster U L X A cluster =
     (let cluster = set_phase U ClusterTerminating (ready_condition False ''Terminating'' ''Cluster is being terminated'') cluster;
          name = Name (cl_meta cluster); namespace = Namespace (cl_meta cluster) in
     bindE (unbindClusterRoles A cluster) (\<lambda>_.
     bindE (if Mode (cl_Spec cluster) = SharedClusterMode \<and> MirrorHostNodes (cl_Spec cluster)
       then DeallocateKubeletPort L X A name namespace (st_KubeletPort (cl_Status cluster)) else ret (Inr ())) (\<lambda>_.
     bindE (bindS (k_Delete Host (cx_LeaseR A) \<lparr>le_meta = meta_of name namespace\<rparr>) (\<lambda>r. ret (IgnoreNotFound r))) (\<lambda>_.
     case RemoveFinalizer U clusterFinalizerName (cl_meta cluster) of (changed, m) \<Rightarrow>
       if changed then bindE (k_Update Host (cx_ClusterR A) (cluster\<lparr>cl_meta := m\<rparr>)) (\<lambda>_. ret (Inr Finished))
       else ret (Inr Finished)))))"

text \<open>The part of \<^verbatim>\<open>Reconcile\<close> after the finalizer is in place: reconcile, store the status, then the labels.\<close>

definition reconcile_and_store :: "util \<Rightarrow> 'p port_lib \<Rightarrow> (string fset \<Rightarrow> string list) \<Rightarrow> 'e externals \<Rightarrow> 'e cluster_api \<Rightarrow>
    cluster_config \<Rightarrow> cluster \<Rightarrow> ('e, goerr + result) io" where
  "reconcile_and_store U L ord X A cfg orig =
     bindS (reconcileCluster U L ord X A cfg orig) (\<lambda>(reconcilerErr, cluster).
     bindE (if cl_Status orig \<noteq> cl_Status cluster then k_StatusUpdate Host (cx_ClusterR A) cluster else ret (Inr cluster)) (\<lambda>cluster.
     case reconcilerErr of
       Some err \<Rightarrow> if errors_Is err ErrServerNotReady then ret (Inr (RequeueAfter 10)) else ret (Inl err)
     | None \<Rightarrow>
         if cl_Spec orig \<noteq> cl_Spec cluster \<or> Labels (cl_meta orig) \<noteq> Labels (cl_meta cluster)
         then bindE (k_Update Host (cx_ClusterR A) cluster) (\<lambda>_. ret (Inr Finished))
         else ret (Inr Finished)))"

definition handle_cluster :: "util \<Rightarrow> 'p port_lib \<Rightarrow> (string fset \<Rightarrow> string list) \<Rightarrow> 'e externals \<Rightarrow> 'e cluster_api \<Rightarrow> cluster_config \<Rightarrow>
    cluster \<Rightarrow> ('e, goerr + result) io" where
  "handle_cluster U L ord X A cfg cluster =
     (if DeletionTimestamp (cl_meta cluster) \<noteq> None then finalizeCluster U L X A cluster
      else if st_Phase (cl_Status cluster) = '''' \<or> st_Phase (cl_Status cluster) = ClusterUnknown then
        bindE (k_StatusUpdate Host (cx_ClusterR A)
          (set_phase U ClusterProvisioning (ready_condition False ''Provisioning'' ''Cluster is being provisioned'') cluster)) (\<lambda>_.
        ret (Inr Finished))
      else (case AddFinalizer U clusterFinalizerName (cl_meta cluster) of (changed, m) \<Rightarrow>
        if changed then bindE (k_Update Host (cx_ClusterR A) (cluster\<lparr>cl_meta := m\<rparr>)) (\<lambda>_. ret (Inr Finished))
        else reconcile_and_store U L ord X A cfg (cluster\<lparr>cl_meta := m\<rparr>)))"

definition Cluster_Reconcile :: "util \<Rightarrow> 'p port_lib \<Rightarrow> (string fset \<Rightarrow> string list) \<Rightarrow> 'e externals \<Rightarrow> 'e cluster_api \<Rightarrow> cluster_config \<Rightarrow>
    namespaced_name \<Rightarrow> ('e, goerr + result) io" where
  "Cluster_Reconcile U L ord X A cfg req =
     bindS (k_Get Host (cx_ClusterR A) req) (\<lambda>r. case r of
       Inl err \<Rightarrow> ret (if IsNotFound err then Inr Finished else Inl err)
     | Inr cluster \<Rightarrow> handle_cluster U L ord X A cfg cluster)"

section \<open>Event handlers\<close>

abbreviation storageClassEnabledIndexField :: string where "storageClassEnabledIndexField \<equiv> ''spec.sync.storageClasses.enabled''"
abbreviation storageClassStatusEnabledIndexField :: string where
  "storageClassStatusEnabledIndexField \<equiv> ''status.policy.sync.storageClasses.enabled''"

definition mapStorageClassToCluster :: "'e cluster_api \<Rightarrow> ('e, namespaced_name set) io" where
  "mapStorageClassToCluster A =
     bindS (k_List Host (cx_ClusterR A) \<lparr>lo_Namespace = '''', lo_Reqs = [ReqField storageClassEnabledIndexField ''true'']\<rparr>) (\<lambda>r.
     bindS (k_List Host (cx_ClusterR A) \<lparr>lo_Namespace = '''', lo_Reqs = [ReqField storageClassStatusEnabledIndexField ''true'']\<rparr>) (\<lambda>r'.
     let keys = (\<lambda>r. case r of Inl err \<Rightarrow> {} | Inr clusters \<Rightarrow> (\<lambda>c. key_of (cl_meta c)) ` set clusters)
     in ret (keys r \<union> keys r')))"

definition cluster_namespace_Update :: "'e cluster_api \<Rightarrow> namespace \<Rightarrow> namespace \<Rightarrow> ('e, namespaced_name list) io" where
  "cluster_namespace_Update A oldNs newNs =
     (if mindex (Labels (nsp_meta oldNs)) PolicyNameLabelKey = mindex (Labels (nsp_meta newNs)) PolicyNameLabelKey then ret []
      else bindS (k_List Host (cx_ClusterR A) (InNamespace (Name (nsp_meta oldNs)))) (\<lambda>r. case r of
        Inl err \<Rightarrow> ret [] | Inr clusters \<Rightarrow> ret (map (\<lambda>c. key_of (cl_meta c)) clusters)))"

end
