(* ===== verification/Lifecycle.thy ===== *)
theory Lifecycle
  imports Cluster
begin

text \<open>
  Properties of the cluster controller: what a reconciliation leaves unchanged, which phase and condition its outcome
  gets, what it writes and where, what success implies, and the order in which a deleted cluster is taken down.
\<close>

section \<open>Reasoning about steps\<close>

text \<open>\<^verbatim>\<open>keeps Q m\<close>: the cluster a step leaves is related by \<^verbatim>\<open>Q\<close> to the one it got, also after an error.\<close>

definition keeps :: "(cluster \<Rightarrow> cluster \<Rightarrow> bool) \<Rightarrow> ('e, 'a) step \<Rightarrow> bool" where
  "keeps Q m = (\<forall>c w r c' w'. m c w = ((r, c'), w') \<longrightarrow> Q c c')"

text \<open>\<^verbatim>\<open>step_sat P m\<close>: all calls of a step satisfy \<^verbatim>\<open>P\<close>, which may depend on what \<^verbatim>\<open>keeps\<close> relates. \<^verbatim>\<open>step_does B P m\<close>: on a cluster
  that satisfies \<^verbatim>\<open>B\<close>, success implies a call that satisfies \<^verbatim>\<open>P\<close>.\<close>

definition step_sat :: "(cluster \<Rightarrow> call \<Rightarrow> bool) \<Rightarrow> ('e, 'a) step \<Rightarrow> bool" where
  "step_sat P m = (\<forall>c. calls_sat (P c) (m c))"

definition step_does :: "(cluster \<Rightarrow> bool) \<Rightarrow> (cluster \<Rightarrow> call \<Rightarrow> bool) \<Rightarrow> ('e, 'a) step \<Rightarrow> bool" where
  "step_does B P m =
     (\<forall>c w a c' w'. B c \<longrightarrow> m c w = ((Inr a, c'), w') \<longrightarrow> (\<exists>cs. w_calls w' = w_calls w @ cs \<and> list_ex (P c) cs))"

named_theorems step_rules \<open>rules for the steps of a reconciliation\<close>

lemma keeps_bindC [step_rules]:
  assumes "transp Q" "keeps Q m" "\<And>a. keeps Q (f a)"
  shows "keeps Q (bindC m f)"
  unfolding keeps_def bindC_def bindS_run
proof (intro allI impI)
  fix c w r c' w'
  assume run: "(case m c w of (x, w') \<Rightarrow> (case x of (r, c) \<Rightarrow> case r of Inl err \<Rightarrow> ret (Inl err, c) | Inr a \<Rightarrow> f a c) w') = ((r, c'), w')"
  obtain r1 c1 w1 where m: "m c w = ((r1, c1), w1)" by (metis surj_pair)
  have q: "Q c c1" using assms(2) m unfolding keeps_def by blast
  show "Q c c'"
  proof (cases r1)
    case (Inl err)
    with run m q show ?thesis by (simp add: ret_def)
  next
    case (Inr a)
    with run m have "f a c1 w1 = ((r, c'), w')" by simp
    with assms(3) have "Q c1 c'" unfolding keeps_def by blast
    show ?thesis by (rule transpD [OF assms(1) q \<open>Q c1 c'\<close>])
  qed
qed

lemma keeps_reading [step_rules]: "reflp Q \<Longrightarrow> keeps Q (reading m)"
  by (auto simp: keeps_def reading_def bindS_run ret_def reflpD split: prod.splits)

lemma keeps_set_status [step_rules]: "(\<And>c. Q c (c\<lparr>cl_Status := f c (cl_Status c)\<rparr>)) \<Longrightarrow> keeps Q (set_status f)"
  by (auto simp: keeps_def set_status_def ret_def)

lemma keepsI: "(\<And>c w r c' w'. m c w = ((r, c'), w') \<Longrightarrow> Q c c') \<Longrightarrow> keeps Q m"
  by (auto simp: keeps_def)

lemma step_sat_bindC [step_rules]:
  assumes "step_sat P m" "keeps Q m" "\<And>c c'. Q c c' \<Longrightarrow> P c' = P c" "\<And>a. step_sat P (f a)"
  shows "step_sat P (bindC m f)"
  unfolding step_sat_def bindC_def
proof
  fix c
  show "calls_sat (P c) (bindS (m c) (\<lambda>(r, c). case r of Inl err \<Rightarrow> ret (Inl err, c) | Inr a \<Rightarrow> f a c))"
  proof (rule calls_sat_bindS_res)
    show "calls_sat (P c) (m c)" using assms(1) by (simp add: step_sat_def)
    fix w x w'
    assume m: "m c w = (x, w')"
    obtain r c' where x: "x = (r, c')" by (cases x)
    have "Q c c'" using assms(2) m x unfolding keeps_def by blast
    then have "P c' = P c" by (rule assms(3))
    with assms(4) have "calls_sat (P c) (f a c')" for a unfolding step_sat_def by metis
    then show "calls_sat (P c) (case x of (r, c) \<Rightarrow> case r of Inl err \<Rightarrow> ret (Inl err, c) | Inr a \<Rightarrow> f a c)"
      by (simp add: x calls_sat_ret split: sum.split)
  qed
qed

lemma step_sat_reading [step_rules]: "(\<And>c. calls_sat (P c) (m c)) \<Longrightarrow> step_sat P (reading m)"
  by (auto simp: step_sat_def reading_def intro!: calls_sat_bindS calls_sat_ret)

lemma step_sat_set_status [step_rules]: "step_sat P (set_status f)"
  by (simp add: step_sat_def set_status_def calls_sat_ret)

lemma bindC_Inr:
  "bindC m f c w = ((Inr b, c'), w') \<longleftrightarrow>
    (\<exists>a c1 w1. m c w = ((Inr a, c1), w1) \<and> f a c1 w1 = ((Inr b, c'), w'))"
  by (auto simp: bindC_def bindS_run ret_def split: prod.splits sum.splits)

lemma step_sat_extends:
  assumes "step_sat P m" "m c w = (x, w')"
  shows "\<exists>cs. w_calls w' = w_calls w @ cs"
proof -
  have "calls_sat (P c) (m c)" using assms(1) by (simp add: step_sat_def)
  then show ?thesis using assms(2) by (rule calls_sat_extends)
qed

lemma step_does_bindC1:
  assumes "step_does B P m" "\<And>a. step_sat S (f a)"
  shows "step_does B P (bindC m f)"
  unfolding step_does_def
proof (intro allI impI)
  fix c w b c' w'
  assume B: "B c" and "bindC m f c w = ((Inr b, c'), w')"
  then obtain a c1 w1 where m: "m c w = ((Inr a, c1), w1)" and f: "f a c1 w1 = ((Inr b, c'), w')" by (auto simp: bindC_Inr)
  obtain cs where "w_calls w1 = w_calls w @ cs" "list_ex (P c) cs" using assms(1) m B unfolding step_does_def by blast
  moreover obtain cs' where "w_calls w' = w_calls w1 @ cs'" using step_sat_extends [OF assms(2) f] by blast
  ultimately show "\<exists>cs. w_calls w' = w_calls w @ cs \<and> list_ex (P c) cs" by (intro exI [of _ "cs @ cs'"]) simp
qed

lemma step_does_bindC2:
  assumes "step_sat S m" "keeps Q m" "\<And>c c'. Q c c' \<Longrightarrow> P c' = P c \<and> B c' = B c" "\<And>a. step_does B P (f a)"
  shows "step_does B P (bindC m f)"
  unfolding step_does_def
proof (intro allI impI)
  fix c w b c' w'
  assume B: "B c" and "bindC m f c w = ((Inr b, c'), w')"
  then obtain a c1 w1 where m: "m c w = ((Inr a, c1), w1)" and f: "f a c1 w1 = ((Inr b, c'), w')" by (auto simp: bindC_Inr)
  have "Q c c1" using assms(2) m unfolding keeps_def by blast
  then have P: "P c1 = P c" "B c1" using assms(3) B by simp_all
  obtain cs where "w_calls w' = w_calls w1 @ cs" "list_ex (P c1) cs" using assms(4) f P(2) unfolding step_does_def by blast
  moreover obtain cs' where "w_calls w1 = w_calls w @ cs'" using step_sat_extends [OF assms(1) m] by blast
  ultimately show "\<exists>cs. w_calls w' = w_calls w @ cs \<and> list_ex (P c) cs" using P(1) by (intro exI [of _ "cs' @ cs"]) simp
qed

text \<open>Sequences of steps.\<close>

lemma keeps_run_steps [step_rules]:
  "transp Q \<Longrightarrow> reflp Q \<Longrightarrow> (\<And>m. m \<in> set ms \<Longrightarrow> keeps Q m) \<Longrightarrow> keeps Q (run_steps ms)"
  by (induction ms) (auto intro: keeps_bindC keeps_reading)

lemma step_sat_run_steps:
  assumes "\<And>m. m \<in> set ms \<Longrightarrow> step_sat P m \<and> keeps Q m" "\<And>c c'. Q c c' \<Longrightarrow> P c' = P c"
  shows "step_sat P (run_steps ms)"
  using assms by (induction ms) (auto intro!: step_sat_bindC [of P _ Q] step_sat_reading calls_sat_ret)

lemma step_does_run_steps:
  assumes "\<And>m. m \<in> set ms \<Longrightarrow> step_sat S m \<and> keeps Q m" "\<And>c c'. Q c c' \<Longrightarrow> S c' = S c"
    and "\<And>c c'. Q c c' \<Longrightarrow> P c' = P c \<and> B c' = B c" "m \<in> set ms" "step_does B P m"
  shows "step_does B P (run_steps ms)"
  using assms(1,4)
proof (induction ms)
  case (Cons m1 ms)
  show ?case
  proof (cases "m1 = m")
    case True
    have "step_sat S (run_steps ms)" by (rule step_sat_run_steps [OF _ assms(2)]) (use Cons.prems(1) in auto)
    then show ?thesis using assms(5) True by (auto intro: step_does_bindC1)
  next
    case False
    with Cons show ?thesis by (auto intro!: step_does_bindC2 [OF _ _ assms(3)])
  qed
qed simp

lemma step_does_reading: "(\<And>c. does (P c) (m c)) \<Longrightarrow> step_does B P (reading m)"
  by (fastforce simp: step_does_def reading_def does_def bindS_run ret_def split: prod.splits)

section \<open>The frame of a reconciliation\<close>

text \<open>Metadata, specification, applied policy, phase and conditions are not touched by the steps.\<close>

definition same_core :: "cluster \<Rightarrow> cluster \<Rightarrow> bool" where
  "same_core c c' =
     (cl_meta c' = cl_meta c \<and> cl_Spec c' = cl_Spec c \<and> st_Policy (cl_Status c') = st_Policy (cl_Status c) \<and>
      st_Phase (cl_Status c') = st_Phase (cl_Status c) \<and> st_Conditions (cl_Status c') = st_Conditions (cl_Status c))"

lemma same_core_refl [step_rules]: "reflp same_core"
  by (simp add: reflp_def same_core_def)

lemma same_core_trans [step_rules]: "transp same_core"
  by (simp add: transp_def same_core_def)

text \<open>The same for a run that ends with a cluster.\<close>

definition leaves :: "(cluster \<Rightarrow> bool) \<Rightarrow> ('e, 'a \<times> cluster) io \<Rightarrow> bool" where
  "leaves Q m = (\<forall>w r c' w'. m w = ((r, c'), w') \<longrightarrow> Q c')"

named_theorems leaves_intro \<open>rules for the cluster a run ends with\<close>

lemma leaves_ret [leaves_intro]: "Q c \<Longrightarrow> leaves Q (ret (r, c))"
  by (simp add: leaves_def ret_def)

lemma leaves_bindS [leaves_intro]: "(\<And>a. leaves Q (f a)) \<Longrightarrow> leaves Q (bindS m f)"
  by (fastforce simp: leaves_def bindS_run split: prod.splits)

lemma leaves_if [leaves_intro]:
  "(b \<Longrightarrow> leaves Q m) \<Longrightarrow> (\<not> b \<Longrightarrow> leaves Q n) \<Longrightarrow> leaves Q (if b then m else n)"
  by simp

lemma leaves_sum [leaves_intro]:
  "(\<And>e. r = Inl e \<Longrightarrow> leaves Q (f e)) \<Longrightarrow> (\<And>a. r = Inr a \<Longrightarrow> leaves Q (g a)) \<Longrightarrow>
    leaves Q (case r of Inl e \<Rightarrow> f e | Inr a \<Rightarrow> g a)"
  by (simp split: sum.split)

lemma leaves_prod [leaves_intro]:
  "(\<And>a b. r = (a, b) \<Longrightarrow> leaves Q (f a b)) \<Longrightarrow> leaves Q (case r of (a, b) \<Rightarrow> f a b)"
  by (simp split: prod.split)

lemma leaves_Let [leaves_intro]: "leaves Q (f x) \<Longrightarrow> leaves Q (let y = x in f y)"
  by simp

lemma keeps_leaves: "(\<And>c. leaves (Q c) (m c)) \<Longrightarrow> keeps Q m"
  by (fastforce simp: leaves_def keeps_def)

lemma leaves_keeps: "keeps Q m \<Longrightarrow> leaves (Q c) (m c)"
  by (fastforce simp: leaves_def keeps_def)

lemma leaves_later: "keeps Q m \<Longrightarrow> transp Q \<Longrightarrow> Q c c1 \<Longrightarrow> leaves (Q c) (m c1)"
  unfolding keeps_def leaves_def by (blast dest: transpD)

lemma Config_core: "Config yaml c token init service sans = (r, c') \<Longrightarrow> same_core c c'"
  by (auto simp: Config_def buildServerConfig_def same_core_def Let_def split: prod.splits if_splits)

lemma ensure_config_core [step_rules]: "keeps same_core (ensure_config U X A s service init sans)"
  unfolding ensure_config_def
  by (rule keeps_leaves, intro leaves_prod leaves_sum leaves_ret leaves_later [OF _ same_core_trans] step_rules)
    (auto dest!: Config_core)

lemma ensureClusterConfigs_core [step_rules]: "keeps same_core (ensureClusterConfigs U X A s service)"
  unfolding ensureClusterConfigs_def by (intro step_rules)

lemma ensureAgent_core [step_rules]: "keeps same_core (ensureAgent U L X A cfg serviceIP token)"
  unfolding ensureAgent_def by (rule keeps_leaves, intro leaves_intro) (auto simp: same_core_def)

lemma set_status_core [step_rules]:
  "(\<And>c st. st_Policy (f c st) = st_Policy st \<and> st_Phase (f c st) = st_Phase st \<and> st_Conditions (f c st) = st_Conditions st) \<Longrightarrow>
    keeps same_core (set_status f)"
  by (auto simp: keeps_def set_status_def ret_def same_core_def)

lemma set_host_version_core [step_rules]: "keeps same_core (set_host_version X)"
proof (rule keeps_leaves)
  fix c
  have "keeps same_core (bindC (reading (\<lambda>_. log_call Host VGet KServerVersion (meta_of '''' '''') [] (x_ServerVersion X)))
     (\<lambda>gitVersion. set_status (\<lambda>_ st. st\<lparr>st_HostVersion := strings_Cut_before (strings_Cut_before gitVersion CHR ''+'') CHR ''-''\<rparr>)))"
    by (intro step_rules) auto
  then show "leaves (same_core c) (set_host_version X c)"
    unfolding set_host_version_def
    by (intro leaves_if leaves_ret leaves_keeps) (simp add: same_core_def)
qed

lemma set_service_cidr_core [step_rules]: "keeps same_core (set_service_cidr A)"
proof (rule keeps_leaves)
  fix c
  have "keeps same_core (set_status (\<lambda>_ st. st\<lparr>st_ServiceCIDR := cidr\<rparr>))" for cidr by (intro step_rules) auto
  then show "leaves (same_core c) (set_service_cidr A c)"
    unfolding set_service_cidr_def Let_def by (intro leaves_intro leaves_keeps)
qed

lemma provision_core: "m \<in> set (provision U L ord X A cfg s token service) \<Longrightarrow> keeps same_core m"
  unfolding provision_def by (auto intro!: step_rules)

lemma reconcile_steps_core: "keeps same_core (reconcile_steps U L ord X A cfg)"
  unfolding reconcile_steps_def by (intro step_rules provision_core) auto

section \<open>Where a reconciliation writes\<close>

text \<open>The resources are what their names say.\<close>

definition cluster_api_ok :: "'e cluster_api \<Rightarrow> bool" where
  "cluster_api_ok A \<longleftrightarrow>
     agent_ok (cx_agent A) \<and> policy_api_ok (cx_policy A) \<and> get_honest (cx_BindingR A) \<and>
     r_meta (cx_SecretR A) = sec_meta \<and> r_kind (cx_SecretR A) = KSecret \<and>
     r_meta (sa_ServiceR (cx_server A)) = se_meta \<and> r_kind (sa_ServiceR (cx_server A)) = KService \<and>
     r_meta (sa_IngressR (cx_server A)) = ci_meta \<and> r_kind (sa_IngressR (cx_server A)) = KIngress \<and>
     r_meta (cx_BindingR A) = cr_meta \<and> r_kind (cx_BindingR A) = KClusterRoleBinding \<and>
     r_meta (cx_LeaseR A) = le_meta \<and> r_kind (cx_LeaseR A) = KLease \<and>
     r_kind (cx_ConfigMapR A) = KConfigMap \<and> r_kind (cx_StorageClassR A) = KStorageClass \<and>
     r_meta (cx_EndpointSliceR A) = eps_meta \<and> r_kind (cx_EndpointSliceR A) = KEndpointSlice \<and>
     r_meta (cx_EndpointsR A) = ept_meta \<and> r_kind (cx_EndpointsR A) = KEndpoints"

text \<open>
  The writes of a reconciliation of a cluster in namespace \<^verbatim>\<open>ns\<close>: its own objects there, the two shared role bindings,
  the allocator's config map and the probing service of \<^verbatim>\<open>lookupServiceCIDR\<close> on the host; storage classes and the
  endpoints of the API server in the virtual cluster. Events may be recorded.
\<close>

definition own_kinds :: "kind set" where
  "own_kinds = {KSecret, KNetworkPolicy, KService, KIngress, KStatefulSet, KDaemonSet, KDeployment, KServiceAccount, KRole,
     KRoleBinding}"

definition reconcile_write :: "string \<Rightarrow> call \<Rightarrow> bool" where
  "reconcile_write ns x \<longleftrightarrow> (is_write x \<and> c_verb x \<noteq> VRecordEvent \<longrightarrow> (case c_side x of
     Host \<Rightarrow>
       c_verb x \<in> {VCreate, VUpdate, VCreateOrUpdate} \<and> c_kind x \<in> own_kinds \<and> Namespace (c_meta x) = ns \<or>
       c_verb x = VDelete \<and> c_kind x \<in> {KNetworkPolicy, KIngress} \<and> Namespace (c_meta x) = ns \<or>
       c_verb x = VUpdate \<and> c_kind x = KClusterRoleBinding \<and> Name (c_meta x) \<in> set clusterRoles \<or>
       c_verb x \<in> {VCreate, VUpdate} \<and> c_kind x = KConfigMap \<or>
       c_verb x = VCreate \<and> c_kind x = KService \<and> key_of (c_meta x) = \<lparr>nn_Namespace = ''default'', nn_Name = ''fail''\<rparr>
   | Virt \<Rightarrow>
       c_kind x = KStorageClass \<or>
       c_verb x = VCreateOrUpdate \<and> c_kind x \<in> {KEndpointSlice, KEndpoints} \<and>
         key_of (c_meta x) = \<lparr>nn_Namespace = ''default'', nn_Name = ''kubernetes''\<rparr>))"

lemma reconcile_write_read [simp]: "\<not> is_write x \<Longrightarrow> reconcile_write ns x"
  by (simp add: reconcile_write_def)

lemma reconcile_write_own:
  "c_side x = Host \<Longrightarrow> c_verb x \<in> {VCreate, VUpdate, VCreateOrUpdate} \<Longrightarrow> c_kind x \<in> own_kinds \<Longrightarrow> Namespace (c_meta x) = ns \<Longrightarrow>
    reconcile_write ns x"
  by (simp add: reconcile_write_def)

lemma writes_among_reconcile_write:
  assumes "writes_among objs ns x" "fst ` set objs \<subseteq> own_kinds"
  shows "reconcile_write ns x"
proof (cases "c_verb x \<in> {VCreate, VUpdate}")
  case True
  with assms have "c_side x = Host" "Namespace (c_meta x) = ns" "c_kind x \<in> own_kinds" by (auto simp: writes_among_def)
  with True show ?thesis by (intro reconcile_write_own) auto
next
  case False
  with assms(1) show ?thesis by (auto simp: writes_among_def reconcile_write_def is_write_def)
qed

lemma own_kinds_simps [simp]:
  "KSecret \<in> own_kinds" "KNetworkPolicy \<in> own_kinds" "KService \<in> own_kinds" "KIngress \<in> own_kinds" "KStatefulSet \<in> own_kinds"
  by (simp_all add: own_kinds_def)

lemma agent_objects_own: "fst ` set (shared_objects c) \<subseteq> own_kinds" "fst ` set (virtual_objects c) \<subseteq> own_kinds"
  by (auto simp: shared_objects_def virtual_objects_def own_kinds_def)

text \<open>Reads are always allowed, and a create-or-update of an own object is.\<close>

lemma reconcile_reads [calls_intro]:
  "calls_sat (reconcile_write ns) (k_Get s R key)" "calls_sat (reconcile_write ns) (k_List s R opts)"
  "calls_sat (reconcile_write ns) (log_call s VGet k m rs f)"
  by (auto simp: k_defs intro!: calls_sat_log_call)

lemma reconcile_own [calls_intro]:
  "r_kind R \<in> own_kinds \<Longrightarrow> Namespace (r_meta R ob) = ns \<Longrightarrow> calls_sat (reconcile_write ns) (k_CreateOrUpdate Host R ob f)"
  by (auto simp: k_defs intro!: calls_sat_log_call reconcile_write_own)

lemma reconcile_create:
  "r_kind R \<in> own_kinds \<Longrightarrow> Namespace (r_meta R ob) = ns \<Longrightarrow> calls_sat (reconcile_write ns) (k_Create Host R ob)"
  by (auto simp: k_defs intro!: calls_sat_log_call reconcile_write_own)

lemma reconcile_delete:
  "r_kind R \<in> {KNetworkPolicy, KIngress} \<Longrightarrow> Namespace (r_meta R ob) = ns \<Longrightarrow> calls_sat (reconcile_write ns) (k_Delete Host R ob)"
  by (auto simp: k_defs reconcile_write_def intro!: calls_sat_log_call)

lemma cluster_token_calls:
  assumes "cluster_api_ok A"
  shows "calls_sat (reconcile_write (Namespace (cl_meta c))) (cluster_token U X A c)"
  using assms unfolding cluster_token_def ensureTokenSecret_def Let_def
  by (intro calls_intro) (simp_all add: cluster_api_ok_def TokenSecretObj_def)

lemma ensureNetworkPolicy_calls:
  assumes "cluster_api_ok A"
  shows "calls_sat (reconcile_write (Namespace (cl_meta c))) (ensureNetworkPolicy U A cfg c)"
  using assms unfolding ensureNetworkPolicy_def FindPodCIDRs_def Let_def
  by (intro calls_intro reconcile_delete) (simp_all add: cluster_api_ok_def policy_api_ok_def)

lemma Service_key: "key_of (se_meta (Service c)) = in_cluster c (ServiceName (Name (cl_meta c)))"
  by (simp add: Service_def Let_def service_of_def addLoadBalancerPorts_def addNodePortPorts_def key_of_def split: option.split)

lemma meta_keys:
  "Namespace (se_meta (Service c)) = Namespace (cl_meta c)"
  "Namespace (se_meta (StatefulServerService c)) = Namespace (cl_meta c)"
  "Namespace (ci_meta (Ingress c)) = Namespace (cl_meta c)"
  using Service_key [of c] by (simp_all add: key_of_def StatefulServerService_def service_of_def Ingress_def Let_def split: option.split)

lemma ensureClusterService_calls:
  assumes "cluster_api_ok A"
  shows "calls_sat (reconcile_write (Namespace (cl_meta c))) (ensureClusterService U A c)"
  using assms unfolding ensureClusterService_def Let_def
  by (intro calls_intro) (simp_all add: cluster_api_ok_def meta_keys)

lemma Config_meta:
  "Config yaml c token init service sans = (Inr secret, c') \<Longrightarrow>
    sec_meta secret = meta_of (configSecretName (Name (cl_meta c)) init) (Namespace (cl_meta c)) \<and> cl_meta c' = cl_meta c"
  by (auto simp: Config_def buildServerConfig_def Let_def split: sum.splits if_splits)

lemma ensure_config_calls:
  assumes "cluster_api_ok A"
  shows "calls_sat (reconcile_write (Namespace (cl_meta c))) (ensure_config U X A s service init sans c)"
  using assms unfolding ensure_config_def bindC_def reading_def
  by (intro calls_intro) (auto simp: cluster_api_ok_def dest!: Config_meta)

lemma ensureIngress_calls:
  assumes "cluster_api_ok A"
  shows "calls_sat (reconcile_write (Namespace (cl_meta c))) (ensureIngress U A c)"
  using assms unfolding ensureIngress_def Let_def
  by (intro calls_intro reconcile_delete) (simp_all add: cluster_api_ok_def meta_keys)

lemma collect_volumes_calls: "(\<And>x. calls_sat P (f x)) \<Longrightarrow> calls_sat P (collect_volumes xs f)"
  by (induction xs) (auto intro!: calls_intro)

lemma StatefulServer_calls:
  assumes "cluster_api_ok A"
  shows "calls_sat (reconcile_write (Namespace (cl_meta c))) (StatefulServer U cmd (cx_server A) s c sans)"
  using assms unfolding StatefulServer_def buildAddonsVolumes_def buildCABundleVolumes_def Let_def
  by (intro calls_intro collect_volumes_calls) (simp_all add: cluster_api_ok_def)

lemma StatefulServer_meta:
  "StatefulServer U cmd A s c sans w = (Inr wl, w') \<Longrightarrow>
    key_of (wk_meta wl) = in_cluster c (SafeConcatNameWithPrefix [Name (cl_meta c), ''server''])"
  by (cases "BuildSecretsMountsVolumes (SecretMounts (cl_Spec c)) ''server''"; cases "setupStartCommand cmd c")
    (auto simp: StatefulServer_def Let_def bindE_Inr ret_def key_of_def split: option.splits sum.splits)

lemma server_resources_calls:
  assumes "cluster_api_ok A" "controllerutil U"
  shows "calls_sat (reconcile_write (Namespace (cl_meta c))) (server_resources U X A s sans c)"
  using assms(1) unfolding server_resources_def Let_def
  by (intro calls_intro reconcile_create calls_sat_bindE_res [OF StatefulServer_calls])
    (auto simp: cluster_api_ok_def agent_ok_def meta_keys key_of_def controllerutil.AddFinalizer_law [OF assms(2)]
      dest!: controllerutil.SetControllerReference_key [OF assms(2)] StatefulServer_meta)

lemma change_bindings_calls:
  assumes "cluster_api_ok A"
  shows "calls_sat (reconcile_write ns) (change_bindings A f)"
proof -
  have upd: "calls_sat (reconcile_write ns) (k_Update Host (cx_BindingR A) (b\<lparr>cr_Subjects := s\<rparr>))"
    if "k_Get Host (cx_BindingR A) (cluster_scoped role) w = (Inr b, w')" "role \<in> set clusterRoles" for b s role w w'
    using assms that k_Get_key [of "cx_BindingR A", OF _ that(1)]
    by (auto simp: cluster_api_ok_def k_defs reconcile_write_def key_of_def intro!: calls_sat_log_call)
  show ?thesis
    unfolding change_bindings_def
    by (intro calls_intro calls_sat_bindS_res [OF reconcile_reads(1)]) (auto intro!: calls_intro upd split: sum.split)
qed

lemma ports_calls:
  assumes "cluster_api_ok A"
  shows "calls_sat (reconcile_write ns) (AllocateKubeletPort L X A n ns')"
    "calls_sat (reconcile_write ns) (DeallocateKubeletPort L X A n ns' p)"
proof -
  have cm: "calls_sat (reconcile_write ns) (k_Create Host (cx_ConfigMapR A) cm)"
    "calls_sat (reconcile_write ns) (k_Update Host (cx_ConfigMapR A) cm)" for cm
    using assms by (auto simp: cluster_api_ok_def k_defs reconcile_write_def intro!: calls_sat_log_call)
  show "calls_sat (reconcile_write ns) (AllocateKubeletPort L X A n ns')"
    "calls_sat (reconcile_write ns) (DeallocateKubeletPort L X A n ns' p)"
    unfolding AllocateKubeletPort_def DeallocateKubeletPort_def allocatePort_def deallocatePort_def getOrCreate_def Let_def
    by (intro calls_intro cm)+
qed

lemma ensureAgent_calls:
  assumes "cluster_api_ok A" "controllerutil U"
  shows "calls_sat (reconcile_write (Namespace (cl_meta c))) (ensureAgent U L X A cfg serviceIP token c)"
proof -
  have ok: "agent_ok (cx_agent A)" using assms(1) by (simp add: cluster_api_ok_def)
  have "calls_sat (reconcile_write (Namespace (cl_meta c'))) (shared_EnsureResources U yaml (cx_agent A) s c')"
    "calls_sat (reconcile_write (Namespace (cl_meta c'))) (virtual_EnsureResources U yaml' pw (cx_agent A) v c')"
    for c' yaml s yaml' pw v
    by (rule calls_sat_mono [OF shared_EnsureResources_calls [OF assms(2) ok]],
        erule writes_among_reconcile_write [OF _ agent_objects_own(1)])
      (rule calls_sat_mono [OF virtual_EnsureResources_calls [OF assms(2) ok]],
        erule writes_among_reconcile_write [OF _ agent_objects_own(2)])
  from this [of "c\<lparr>cl_Status := st\<rparr>" for st] this [of c] show ?thesis
    unfolding ensureAgent_def Let_def by (auto intro!: calls_intro ports_calls [OF assms(1)])
qed

lemma URL_calls [calls_intro]: "calls_sat (reconcile_write ns) (URL A c ip)"
  unfolding URL_def Let_def by (auto intro!: calls_intro split: list.split)

lemma newVirtualClient_calls [calls_intro]: "calls_sat (reconcile_write ns) (newVirtualClient X A n ns')"
  unfolding newVirtualClient_def by (intro calls_intro)

lemma lookupServiceCIDR_calls:
  assumes "cluster_api_ok A"
  shows "calls_sat (reconcile_write ns) (lookupServiceCIDR A)"
proof -
  have "calls_sat (reconcile_write ns)
      (k_Create Host (sa_ServiceR (cx_server A)) ((service_of ''fail'' ''default'' fmempty)\<lparr>se_ClusterIP := ''1.1.1.1''\<rparr>))"
    using assms by (auto simp: cluster_api_ok_def k_defs reconcile_write_def key_of_def service_of_def intro!: calls_sat_log_call)
  then show ?thesis
    unfolding lookupServiceCIDR_def range_from_pods_def by (auto intro!: calls_intro split: list.split sum.split)
qed

lemma ensureStorageClasses_calls:
  assumes "cluster_api_ok A"
  shows "calls_sat (reconcile_write ns) (ensureStorageClasses ord X A c)"
proof -
  have "calls_sat (reconcile_write ns) (k_CreateOrUpdate Virt (cx_StorageClassR A) sc f)"
    "calls_sat (reconcile_write ns) (k_Delete Virt (cx_StorageClassR A) sc)"
    "calls_sat (reconcile_write ns) (k_DeleteAllOf Virt (cx_StorageClassR A) opts)" for sc f opts
    using assms by (auto simp: cluster_api_ok_def k_defs reconcile_write_def intro!: calls_sat_log_call)
  then show ?thesis
    unfolding ensureStorageClasses_def sync_storage_classes_def Let_def by (intro calls_intro)
qed

lemma collect_node_ips_calls: "calls_sat (reconcile_write ns) (collect_node_ips A want nodes)"
  by (induction nodes) (auto intro!: calls_intro)

lemma hcpEndpointAddresses_calls: "calls_sat (reconcile_write ns) (hcpEndpointAddresses X A c)"
  unfolding hcpEndpointAddresses_def hcpEndpointAddress_def serverNodeIPs_def listServerPods_def Let_def
  by (auto intro!: calls_intro collect_node_ips_calls split: list.split)

lemma ensure_hcp_endpoints_calls:
  assumes "cluster_api_ok A"
  shows "calls_sat (reconcile_write ns) (ensure_hcp_endpoints X A c)"
proof -
  have "eps_meta ob = meta_of ''kubernetes'' ''default'' \<Longrightarrow>
      calls_sat (reconcile_write ns) (k_CreateOrUpdate Virt (cx_EndpointSliceR A) ob f)"
    "ept_meta ob' = meta_of ''kubernetes'' ''default'' \<Longrightarrow>
      calls_sat (reconcile_write ns) (k_CreateOrUpdate Virt (cx_EndpointsR A) ob' f')" for ob f ob' f'
    using assms by (auto simp: cluster_api_ok_def k_defs reconcile_write_def key_of_def intro!: calls_sat_log_call)
  then show ?thesis
    unfolding ensure_hcp_endpoints_def ensureHCPKubernetesEndpointSlice_def ensureHCPKubernetesEndpoints_def Let_def
    by (auto intro!: calls_intro hcpEndpointAddresses_calls)
qed

lemma ensureBootstrapSecret_calls:
  assumes "cluster_api_ok A"
  shows "calls_sat (reconcile_write (Namespace (cl_meta c))) (ensureBootstrapSecret U X A ip token c)"
  using assms unfolding ensureBootstrapSecret_def SaveToSecret_def
  by (intro calls_intro) (simp_all add: cluster_api_ok_def bootstrap_secret_key_def)

lemma ensureKubeconfigSecret_calls:
  assumes "cluster_api_ok A"
  shows "calls_sat (reconcile_write (Namespace (cl_meta c))) (ensureKubeconfigSecret U X A ip c)"
  using assms unfolding ensureKubeconfigSecret_def kubeconfig_Generate_def LoadFromSecret_def
  by (intro calls_intro) (simp_all add: cluster_api_ok_def)

text \<open>The steps that change the cluster as well.\<close>

abbreviation confined :: "cluster \<Rightarrow> call \<Rightarrow> bool" where
  "confined c \<equiv> reconcile_write (Namespace (cl_meta c))"

lemma same_core_confined: "same_core c c' \<Longrightarrow> confined c' = confined c"
  by (simp add: same_core_def)

lemmas confined_bindC = step_sat_bindC [where Q = same_core and P = confined, OF _ _ same_core_confined]

lemma ensureClusterConfigs_calls:
  assumes "cluster_api_ok A"
  shows "step_sat confined (ensureClusterConfigs U X A s service)"
  unfolding ensureClusterConfigs_def hostNodeIPs_def Let_def
  by (intro confined_bindC step_rules calls_intro) (auto simp: step_sat_def intro: ensure_config_calls [OF assms])

text \<open>The steps of \<^verbatim>\<open>provision\<close>, each of them confined to the cluster.\<close>

lemma provision_confined:
  assumes "cluster_api_ok A" "controllerutil U" "m \<in> set (provision U L ord X A cfg s token service)"
  shows "step_sat confined m \<and> keeps same_core m"
proof -
  have "step_sat confined (ensureAgent U L X A cfg (se_ClusterIP service) token)"
    by (simp add: step_sat_def ensureAgent_calls [OF assms(1,2)])
  then show ?thesis
    using assms(3) ensureClusterConfigs_calls [OF assms(1)] server_resources_calls [OF assms(1,2)]
      ensureIngress_calls [OF assms(1)] ensureBootstrapSecret_calls [OF assms(1)] change_bindings_calls [OF assms(1)]
      ensureKubeconfigSecret_calls [OF assms(1)] ensure_hcp_endpoints_calls [OF assms(1)] ensureStorageClasses_calls [OF assms(1)]
    unfolding provision_def bindClusterRoles_def by (auto intro!: step_rules)
qed

lemma provision_calls:
  assumes "cluster_api_ok A" "controllerutil U"
  shows "step_sat confined (run_steps (provision U L ord X A cfg s token service))"
  by (rule step_sat_run_steps [OF provision_confined [OF assms] same_core_confined])

lemma set_host_version_calls: "step_sat confined (set_host_version X)"
  unfolding step_sat_def set_host_version_def bindC_def reading_def set_status_def by (auto intro!: calls_intro)

lemma set_service_cidr_calls:
  assumes "cluster_api_ok A"
  shows "step_sat confined (set_service_cidr A)"
  unfolding step_sat_def set_service_cidr_def set_status_def Let_def
  by (auto intro!: calls_intro lookupServiceCIDR_calls [OF assms])

lemma reconcile_steps_calls:
  assumes "cluster_api_ok A" "controllerutil U"
  shows "step_sat confined (reconcile_steps U L ord X A cfg)"
  unfolding reconcile_steps_def bound_policy_def
  by (intro confined_bindC step_rules calls_intro provision_calls [OF assms] set_host_version_calls
      set_service_cidr_calls [OF assms(1)] cluster_token_calls [OF assms(1)] ensureNetworkPolicy_calls [OF assms(1)]
      ensureClusterService_calls [OF assms(1)]) auto

section \<open>The phase of a cluster\<close>

context controllerutil
begin

lemma conditions_replaced:
  "set (SetStatusCondition U cs c) = insert c {d \<in> set cs. cd_Type d \<noteq> cd_Type c}"
  using SetStatusCondition_in SetStatusCondition_other SetStatusCondition_only by fastforce

end

text \<open>The phase and reason an outcome stands for.\<close>

definition outcome_phase :: "goerr option \<Rightarrow> string \<times> string" where
  "outcome_phase err =
     (case err of None \<Rightarrow> (ClusterReady, ''Provisioned'')
      | Some e \<Rightarrow> if errors_Is e ErrClusterValidation then (ClusterPending, ''ValidationFailed'')
          else if errors_Is e ErrServerNotReady then (ClusterProvisioning, ''Provisioning'')
          else (ClusterFailed, ''ProvisioningFailed''))"

lemma updateStatus_result:
  assumes "DeletionTimestamp (cl_meta c) = None" "updateStatus U c err w = (c', w')"
  shows "\<exists>msg. c' = set_phase U (fst (outcome_phase err)) (ready_condition (err = None) (snd (outcome_phase err)) msg) c"
  using assms unfolding updateStatus_def Let_def outcome_phase_def
  by (auto simp: bindS_run ret_def split: option.splits if_splits prod.splits)

lemma reconcile_core:
  assumes "reconcile U L ord X A cfg c w = ((r, c1), w1)"
  shows "cl_Spec c1 = cl_Spec c \<and> DeletionTimestamp (cl_meta c1) = DeletionTimestamp (cl_meta c) \<and> key_of (cl_meta c1) = key_of (cl_meta c) \<and>
    st_Conditions (cl_Status c1) = st_Conditions (cl_Status c) \<and>
    Labels (cl_meta c1) = Some (fmupd ''provider.cattle.io'' ''k3k'' (minit (Labels (cl_meta c))))"
  using assms reconcile_steps_core [of U L ord X A cfg] unfolding keeps_def reconcile_def
  by (auto simp: same_core_def key_of_def dest!: spec)

text \<open>
  C10: The phase and the Ready condition always tell how the last reconciliation ended: Ready with condition
  True exactly after a reconciliation without error, Pending after a validation error, Provisioning while a server is not
  ready, Failed after any other error. There is a Ready condition with the reason of the outcome, the other conditions
  stay, and the specification of the cluster is never changed.
\<close>

theorem cluster_phase_reflects_outcome:
  assumes "controllerutil U" "DeletionTimestamp (cl_meta c) = None"
    and "reconcileCluster U L ord X A cfg c w = ((err, c'), w')"
  shows "st_Phase (cl_Status c') = fst (outcome_phase err) \<and>
    (\<exists>cd\<in>set (st_Conditions (cl_Status c')). cd_Type cd = ConditionReady \<and> cd_Reason cd = snd (outcome_phase err)) \<and>
    (\<forall>cd\<in>set (st_Conditions (cl_Status c')). cd_Type cd = ConditionReady \<longrightarrow>
      cd_Status cd = (if err = None then ''True'' else ''False'')) \<and>
    {cd \<in> set (st_Conditions (cl_Status c')). cd_Type cd \<noteq> ConditionReady} =
      {cd \<in> set (st_Conditions (cl_Status c)). cd_Type cd \<noteq> ConditionReady} \<and>
    cl_Spec c' = cl_Spec c"
proof -
  obtain r c1 w1 where r: "reconcile U L ord X A cfg c w = ((r, c1), w1)" and err: "err = err_of r"
    and u: "updateStatus U c1 err w1 = (c', w')"
    using assms(3) by (auto simp: reconcileCluster_def bindS_run ret_def split: prod.splits)
  note core = reconcile_core [OF r]
  with assms(2) updateStatus_result [OF _ u] obtain msg where c': "c' = set_phase U (fst (outcome_phase err))
      (ready_condition (err = None) (snd (outcome_phase err)) msg) c1" by auto
  define cd where "cd = ready_condition (err = None) (snd (outcome_phase err)) msg"
  have cd: "cd_Type cd = ConditionReady" "cd_Reason cd = snd (outcome_phase err)"
    "cd_Status cd = (if err = None then ''True'' else ''False'')" by (simp_all add: cd_def ready_condition_def)
  have "set (st_Conditions (cl_Status c')) = insert cd {d \<in> set (st_Conditions (cl_Status c)). cd_Type d \<noteq> ConditionReady}"
    using core controllerutil.conditions_replaced [OF assms(1)] cd(1) by (simp add: c' set_phase_def flip: cd_def)
  moreover have "st_Phase (cl_Status c') = fst (outcome_phase err)" "cl_Spec c' = cl_Spec c"
    using core by (simp_all add: c' set_phase_def)
  ultimately show ?thesis using cd by auto
qed

section \<open>What Ready means\<close>

text \<open>A successful create or update of an object of the cluster, named after the cluster by \<^verbatim>\<open>f\<close>.\<close>

definition ensured :: "kind \<times> (string \<Rightarrow> string) \<Rightarrow> cluster \<Rightarrow> call \<Rightarrow> bool" where
  "ensured kf c x \<longleftrightarrow> c_side x = Host \<and> c_verb x \<in> {VCreate, VUpdate, VCreateOrUpdate} \<and> c_kind x = fst kf \<and>
     key_of (c_meta x) = in_cluster c (snd kf (Name (cl_meta c))) \<and> c_err x = None"

definition server_objects :: "(kind \<times> (string \<Rightarrow> string)) list" where
  "server_objects =
     [(KService, ServiceName), (KSecret, \<lambda>n. configSecretName n True), (KSecret, \<lambda>n. configSecretName n False),
      (KStatefulSet, \<lambda>n. SafeConcatNameWithPrefix [n, ''server'']), (KSecret, \<lambda>n. SafeConcatNameWithPrefix [n, ''bootstrap'']),
      (KSecret, \<lambda>n. SafeConcatNameWithPrefix [n, ''kubeconfig''])]"

lemma ensured_core: "same_core c c' \<Longrightarrow> ensured kn c' = ensured kn c"
  by (simp add: same_core_def ensured_def fun_eq_iff)

text \<open>A step that comes later in a reconciliation still happens when it succeeds, since the earlier ones keep the cluster.\<close>

definition agentful :: "cluster \<Rightarrow> bool" where
  "agentful c \<longleftrightarrow> Mode (cl_Spec c) \<noteq> HCPClusterMode \<and> Mode (cl_Spec c) \<noteq> VirtualClusterMode"

lemma agentful_core: "same_core c c' \<Longrightarrow> agentful c' = agentful c"
  by (simp add: same_core_def agentful_def)

lemma ensured_later:
  assumes "step_sat confined m" "keeps same_core m" "\<And>a. step_does B (ensured kf) (f a)"
    and "\<And>c c'. same_core c c' \<Longrightarrow> B c' = B c"
  shows "step_does B (ensured kf) (bindC m f)"
  by (rule step_does_bindC2 [OF assms(1,2) _ assms(3)]) (use assms(4) ensured_core in auto)

lemma ensured_CreateOrUpdate:
  "r_kind R = fst kf \<Longrightarrow> key_of (r_meta R ob) = in_cluster c (snd kf (Name (cl_meta c))) \<Longrightarrow>
    does (ensured kf c) (k_CreateOrUpdate Host R ob f)"
  by (simp add: k_CreateOrUpdate_def does_log_call ensured_def)

lemma ensureClusterService_does:
  assumes "cluster_api_ok A"
  shows "does (ensured (KService, ServiceName) c) (ensureClusterService U A c)"
  using assms unfolding ensureClusterService_def Let_def
  by (intro ensured_CreateOrUpdate) (simp_all add: cluster_api_ok_def Service_key)

lemma headless_calls:
  "calls_sat (\<lambda>_. True) (bindS (k_Create s R ob) (\<lambda>r. case r of Inl err \<Rightarrow> ret (f err) | Inr a \<Rightarrow> ret (g a)))"
  unfolding k_Create_def by (intro calls_intro) auto

lemma server_resources_does:
  assumes "cluster_api_ok A" "controllerutil U"
  shows "does (ensured (KStatefulSet, \<lambda>n. SafeConcatNameWithPrefix [n, ''server'']) c) (server_resources U X A s sans c)"
  using assms(1) unfolding server_resources_def Let_def
  by (intro does_sum does_ret_Inl does_bindE_res [OF headless_calls] does_bindE_res [OF StatefulServer_calls] does_bindE1
      ensured_CreateOrUpdate calls_sat_ret)
    (auto simp: cluster_api_ok_def agent_ok_def controllerutil.AddFinalizer_key [OF assms(2)] dest!: StatefulServer_meta)

lemma ensure_config_does:
  assumes "cluster_api_ok A"
  shows "step_does B (ensured (KSecret, \<lambda>n. configSecretName n init)) (ensure_config U X A s service init sans)"
  unfolding step_does_def
proof (intro allI impI)
  fix c w a c' w'
  assume run: "ensure_config U X A s service init sans c w = ((Inr a, c'), w')"
  obtain r c1 where cfg: "Config (x_serverYaml X) c (s_token s) init service sans = (r, c1)" by fastforce
  with run obtain secret where r: "r = Inr secret" by (cases r) (auto simp: ensure_config_def ret_def)
  let ?save = "\<lambda>c. k_CreateOrUpdate Host (cx_SecretR A) secret (controlled U c sec_meta sec_meta_update (\<lambda>cur. cur\<lparr>sec_Data := sec_Data secret\<rparr>))"
  from run cfg r have "bindC (reading ?save) (\<lambda>_. reading (\<lambda>_. ret (Inr ()))) c1 w = ((Inr a, c'), w')"
    by (simp add: ensure_config_def)
  then obtain b v where "?save c1 w = (Inr b, w')"
    by (auto simp: bindC_Inr reading_def bindS_run ret_def split: prod.splits)
  moreover have "does (ensured (KSecret, \<lambda>n. configSecretName n init) c) (?save c1)"
    using Config_meta [OF cfg [unfolded r]] assms by (intro ensured_CreateOrUpdate) (simp_all add: cluster_api_ok_def key_of_def)
  ultimately show "\<exists>cs. w_calls w' = w_calls w @ cs \<and> list_ex (ensured (KSecret, \<lambda>n. configSecretName n init) c) cs"
    unfolding does_def by blast
qed

lemma ensureBootstrapSecret_does:
  assumes "cluster_api_ok A"
  shows "does (ensured (KSecret, \<lambda>n. SafeConcatNameWithPrefix [n, ''bootstrap'']) c) (ensureBootstrapSecret U X A ip token c)"
  using assms unfolding ensureBootstrapSecret_def SaveToSecret_def
  by (intro does_bindE_res [OF reconcile_reads(3)] does_bindE1 ensured_CreateOrUpdate calls_sat_ret)
    (simp_all add: cluster_api_ok_def bootstrap_secret_key_def key_of_def)

lemma kubeconfig_Generate_calls: "calls_sat (reconcile_write ns) (kubeconfig_Generate X A c ip)"
  unfolding kubeconfig_Generate_def LoadFromSecret_def by (intro calls_intro)

lemma ensureKubeconfigSecret_does:
  assumes "cluster_api_ok A"
  shows "does (ensured (KSecret, \<lambda>n. SafeConcatNameWithPrefix [n, ''kubeconfig'']) c) (ensureKubeconfigSecret U X A ip c)"
  using assms unfolding ensureKubeconfigSecret_def
  by (intro does_bindE_res [OF kubeconfig_Generate_calls] does_bindE1 ensured_CreateOrUpdate calls_sat_ret)
    (simp_all add: cluster_api_ok_def key_of_def)

text \<open>The objects of the shared mode agent.\<close>

definition shared_agent_objects :: "(kind \<times> (string \<Rightarrow> string)) list" where
  "shared_agent_objects =
     (let kubelet = (\<lambda>n. SafeConcatNameWithPrefix [n, ''kubelet'']) in
      [(KSecret, agent_configSecretName), (KServiceAccount, kubelet), (KRole, kubelet), (KRoleBinding, kubelet),
       (KService, kubelet), (KDaemonSet, kubelet), (KService, \<lambda>n. SafeConcatNameWithPrefix [n, ''kube-dns''])])"

lemma shared_objects_names: "shared_objects c = map (\<lambda>(k, f). (k, f (Name (cl_meta c)))) shared_agent_objects"
  by (simp add: shared_agent_objects_def shared_objects_def shared_Name_def Let_def)

lemma shared_EnsureResources_ensured:
  assumes "cluster_api_ok A" "controllerutil U" "kf \<in> set shared_agent_objects" "cl_meta c1 = cl_meta c"
  shows "does (ensured kf c) (shared_EnsureResources U yaml (cx_agent A) s c1)"
proof -
  have ok: "agent_ok (cx_agent A)" using assms(1) by (simp add: cluster_api_ok_def)
  have "(fst kf, snd kf (Name (cl_meta c1))) \<in> set (shared_objects c1)"
    unfolding shared_objects_names set_map by (rule image_eqI [OF _ assms(3)]) (simp add: case_prod_beta)
  then have "does (wrote (fst kf) (in_cluster c1 (snd kf (Name (cl_meta c1))))) (shared_EnsureResources U yaml (cx_agent A) s c1)"
    by (rule shared_EnsureResources_does [OF assms(2) ok])
  then show ?thesis by (rule does_mono) (auto simp: wrote_def ensured_def assms(4))
qed

lemma ensureAgent_does:
  assumes "cluster_api_ok A" "controllerutil U" "kf \<in> set shared_agent_objects"
    and run: "ensureAgent U L X A cfg ip token c w = ((Inr a, c'), w')"
    and mode: "Mode (cl_Spec c) \<noteq> HCPClusterMode" "Mode (cl_Spec c) \<noteq> VirtualClusterMode"
  shows "\<exists>cs. w_calls w' = w_calls w @ cs \<and> list_ex (ensured kf c) cs"
proof -
  note sh = shared_EnsureResources_ensured [OF assms(1-3), unfolded does_def, rule_format]
  show ?thesis
  proof (cases "MirrorHostNodes (cl_Spec c)")
    case False
    with run mode obtain s where "shared_EnsureResources U (x_sharedYaml X) (cx_agent A) s c w = (Inr a, w')"
      by (auto simp: ensureAgent_def Let_def bindS_run ret_def split: prod.splits)
    then show ?thesis by (rule sh [OF refl])
  next
    case True
    with run mode obtain port w1 s where al: "AllocateKubeletPort L X A (Name (cl_meta c)) (Namespace (cl_meta c)) w = (Inr port, w1)"
      and r: "shared_EnsureResources U (x_sharedYaml X) (cx_agent A) s
        (c\<lparr>cl_Status := (cl_Status c)\<lparr>st_KubeletPort := port\<rparr>\<rparr>) w1 = (Inr a, w')"
      by (auto simp: ensureAgent_def Let_def bindS_run ret_def split: prod.splits sum.splits)
    obtain c1 where c1: "w_calls w1 = w_calls w @ c1" using calls_sat_extends [OF ports_calls(1) [OF assms(1)] al] by blast
    obtain c2 where "w_calls w' = w_calls w1 @ c2" "list_ex (ensured kf c) c2" using sh [OF _ r] by auto
    with c1 show ?thesis by (intro exI [of _ "c1 @ c2"]) simp
  qed
qed

lemma ensureAgent_step_does:
  assumes "cluster_api_ok A" "controllerutil U" "kf \<in> set shared_agent_objects"
  shows "step_does agentful (ensured kf) (ensureAgent U L X A cfg ip token)"
  unfolding step_does_def agentful_def using ensureAgent_does [OF assms] by blast

lemma step_does_weaken: "step_does B P m \<Longrightarrow> (\<And>c. B' c \<Longrightarrow> B c) \<Longrightarrow> step_does B' P m"
  unfolding step_does_def by blast

lemma ensureClusterConfigs_does:
  assumes "cluster_api_ok A"
  shows "step_does B (ensured (KSecret, \<lambda>n. configSecretName n init)) (ensureClusterConfigs U X A s service)"
proof -
  let ?P = "ensured (KSecret, \<lambda>n. configSecretName n init)"
  have cfg: "step_sat confined (ensure_config U X A s service b sans)" for b sans
    by (simp add: step_sat_def ensure_config_calls [OF assms])
  have nodes: "step_sat confined (reading (\<lambda>c. if Mode (cl_Spec c) = HCPClusterMode then hostNodeIPs A c else ret (Inr [])))"
    unfolding hostNodeIPs_def Let_def by (intro step_rules calls_intro)
  have "step_does (\<lambda>_. True) ?P (bindC (ensure_config U X A s service True sans) (\<lambda>_. ensure_config U X A s service False sans))" for sans
    by (cases init) (auto intro: step_does_bindC1 [OF _ cfg] ensured_later [OF cfg] ensure_config_does [OF assms] step_rules)
  then have "step_does (\<lambda>_. True) ?P (ensureClusterConfigs U X A s service)"
    unfolding ensureClusterConfigs_def by (intro ensured_later [OF nodes] step_rules) auto
  then show ?thesis by (rule step_does_weaken) simp
qed

text \<open>The objects a cluster has when it is ready.\<close>

definition ready_objects :: "cluster \<Rightarrow> (kind \<times> (string \<Rightarrow> string)) list" where
  "ready_objects c = server_objects @ (if agentful c then shared_agent_objects else [])"

lemma ready_objects_core: "same_core c c' \<Longrightarrow> ready_objects c' = ready_objects c"
  using agentful_core by (simp add: ready_objects_def)

lemma provision_does:
  assumes ok: "cluster_api_ok A" and U: "controllerutil U" and kf: "kf \<noteq> (KService, ServiceName)"
  shows "step_does (\<lambda>c. kf \<in> set (ready_objects c)) (ensured kf) (run_steps (provision U L ord X A cfg s token service))"
proof -
  have run: "step_does B (ensured kf) (run_steps (provision U L ord X A cfg s token service))"
    if "m \<in> set (provision U L ord X A cfg s token service)" "step_does B (ensured kf) m" "\<And>c c'. same_core c c' \<Longrightarrow> B c' = B c" for m B
    by (rule step_does_run_steps [OF provision_confined [OF ok U] same_core_confined _ that(1,2)]) (use that(3) ensured_core in auto)
  have "\<exists>m\<in>set (provision U L ord X A cfg s token service). step_does (\<lambda>_. True) (ensured kf) m" if "kf \<in> set server_objects"
    using that kf ensureClusterConfigs_does [OF ok] step_does_reading [OF server_resources_does [OF ok U]]
      step_does_reading [OF ensureBootstrapSecret_does [OF ok]] step_does_reading [OF ensureKubeconfigSecret_does [OF ok]]
    unfolding server_objects_def provision_def by auto
  then have "step_does (\<lambda>_. True) (ensured kf) (run_steps (provision U L ord X A cfg s token service))" if "kf \<in> set server_objects"
    using run [of _ "\<lambda>_. True"] that by blast
  moreover have "step_does agentful (ensured kf) (run_steps (provision U L ord X A cfg s token service))"
    if "kf \<in> set shared_agent_objects"
    by (rule run [of "ensureAgent U L X A cfg (se_ClusterIP service) token"])
      (auto simp: provision_def agentful_core intro: ensureAgent_step_does [OF ok U that])
  ultimately show ?thesis
    by (cases "kf \<in> set server_objects") (auto simp: ready_objects_def step_does_def split: if_splits)
qed

lemma reconcile_steps_does:
  assumes ok: "cluster_api_ok A" and U: "controllerutil U"
  shows "step_does (\<lambda>c. kf \<in> set (ready_objects c)) (ensured kf) (reconcile_steps U L ord X A cfg)"
proof -
  let ?does = "\<lambda>m. step_does (\<lambda>c. kf \<in> set (ready_objects c)) (ensured kf) m"
  have svc: "?does (bindC (reading (ensureClusterService U A)) (\<lambda>service.
      bindC (reading (\<lambda>_. ret (if lb_pending service
         then Inl (ErrWrap ''waiting for the LoadBalancer address of the cluster service'' [Sentinel ErrServerNotReady])
         else Inr ()))) (\<lambda>_.
      run_steps (provision U L ord X A cfg s token service))))" for s token
  proof (cases "kf = (KService, ServiceName)")
    case True
    show ?thesis unfolding True
      by (rule step_does_bindC1 [where S = confined])
        (intro step_does_reading ensureClusterService_does [OF ok] confined_bindC step_rules calls_intro provision_calls [OF ok U])+
  next
    case False
    show ?thesis
      by (intro ensured_later provision_does [OF ok U False] step_rules calls_intro ensureClusterService_calls [OF ok])
        (simp_all add: ready_objects_core)
  qed
  show ?thesis
    unfolding reconcile_steps_def bound_policy_def
    by (intro ensured_later svc step_rules calls_intro set_host_version_calls set_service_cidr_calls [OF ok]
        cluster_token_calls [OF ok] ensureNetworkPolicy_calls [OF ok]) (simp_all add: ready_objects_core)
qed

lemma reconcile_ensures:
  assumes ok: "cluster_api_ok A" and U: "controllerutil U"
    and run: "reconcile U L ord X A cfg c w = ((Inr a, c'), w')"
  shows "\<exists>cs. w_calls w' = w_calls w @ cs \<and> (\<forall>kf\<in>set (ready_objects c). \<exists>x\<in>set cs. ensured kf c x)"
proof -
  define c0 where "c0 = c\<lparr>cl_meta := (cl_meta c)\<lparr>Labels := Some (fmupd ''provider.cattle.io'' ''k3k'' (minit (Labels (cl_meta c))))\<rparr>\<rparr>"
  have same: "ready_objects c0 = ready_objects c" "ensured kf c0 = ensured kf c" for kf
    by (simp_all add: c0_def ready_objects_def agentful_def ensured_def fun_eq_iff)
  have run0: "reconcile_steps U L ord X A cfg c0 w = ((Inr a, c'), w')" using run by (simp add: reconcile_def c0_def)
  obtain cs where cs: "w_calls w' = w_calls w @ cs" using step_sat_extends [OF reconcile_steps_calls [OF ok U] run0] by blast
  have "\<exists>x\<in>set cs. ensured kf c x" if "kf \<in> set (ready_objects c)" for kf
  proof -
    have "kf \<in> set (ready_objects c0)" using that same by simp
    with run0 obtain cs' where "w_calls w' = w_calls w @ cs'" "list_ex (ensured kf c0) cs'"
      using reconcile_steps_does [OF ok U] unfolding step_does_def by blast
    with cs same show ?thesis by (simp add: list_ex_iff)
  qed
  with cs show ?thesis by blast
qed

lemma updateStatus_calls: "calls_sat (\<lambda>x. c_verb x = VRecordEvent) (updateStatus U c err)"
  unfolding updateStatus_def record_event_def Let_def by (auto intro!: calls_intro)

text \<open>
  C5: A cluster becomes Ready only in a reconciliation that successfully wrote each of the objects it runs on, in its
  namespace and under the names derived from its own: the service, both configuration secrets, the server StatefulSet,
  the bootstrap and the kubeconfig secret, and in shared mode the seven objects of the agent.
\<close>

theorem ready_means_provisioned:
  assumes "cluster_api_ok A" "controllerutil U" "DeletionTimestamp (cl_meta c) = None"
    and "reconcileCluster U L ord X A cfg c w = ((err, c'), w')" "st_Phase (cl_Status c') = ClusterReady"
  shows "\<exists>cs. w_calls w' = w_calls w @ cs \<and> (\<forall>kf\<in>set (ready_objects c). \<exists>x\<in>set cs. ensured kf c x)"
proof -
  obtain r c1 w1 where r: "reconcile U L ord X A cfg c w = ((r, c1), w1)" and err: "err = err_of r"
    and u: "updateStatus U c1 err w1 = (c', w')"
    using assms(4) by (auto simp: reconcileCluster_def bindS_run ret_def split: prod.splits)
  with assms(3,5) updateStatus_result [OF _ u] reconcile_core [OF r] have "err = None"
    by (auto simp: set_phase_def outcome_phase_def split: option.splits if_splits)
  with err obtain a where a: "r = Inr a" by (cases r) auto
  obtain cs where cs: "w_calls w1 = w_calls w @ cs"
    and all: "\<forall>kf\<in>set (ready_objects c). \<exists>x\<in>set cs. ensured kf c x"
    using reconcile_ensures [OF assms(1,2) r [unfolded a]] by blast
  obtain cs' where "w_calls w' = w_calls w1 @ cs'" using calls_sat_extends [OF updateStatus_calls u] by blast
  with cs all show ?thesis by (intro exI [of _ "cs @ cs'"]) auto
qed

section \<open>Taking a cluster down\<close>

lemma bindE_cases:
  assumes "bindE m f w = (r, w')"
  obtains e where "m w = (Inl e, w')" "r = Inl e" | a v where "m w = (Inr a, v)" "f a v = (r, w')"
  using assms by (auto simp: bindE_run split: prod.splits sum.splits)

text \<open>A call that is none of the first part's is made by the second, and then the first part has succeeded.\<close>

lemma bindE_trace:
  assumes m: "calls_sat P m" and f: "\<And>a. calls_sat Q (f a)" and run: "bindE m f w = (r, w')"
    and cs: "w_calls w' = w_calls w @ cs" and x: "x \<in> set cs" "\<not> P x"
  obtains a v c1 c2 where "m w = (Inr a, v)" "w_calls v = w_calls w @ c1" "list_all P c1"
    "f a v = (r, w')" "w_calls w' = w_calls v @ c2" "cs = c1 @ c2" "x \<in> set c2"
  using run
proof (cases rule: bindE_cases)
  case (1 e)
  obtain c1 where "w_calls w' = w_calls w @ c1" "list_all P c1" by (rule calls_extend [OF m 1(1)])
  with cs x show ?thesis by (auto simp: list_all_iff)
next
  case (2 a v)
  obtain c1 where c1: "w_calls v = w_calls w @ c1" "list_all P c1" by (rule calls_extend [OF m 2(1)])
  obtain c2 where c2: "w_calls w' = w_calls v @ c2" using calls_sat_extends [OF f 2(2)] by blast
  from c1 c2 cs have "cs = c1 @ c2" by simp
  with c1 c2 2 x show ?thesis by (intro that) (auto simp: list_all_iff)
qed

text \<open>Calls that succeeded, where a missing lease counts as deleted.\<close>

definition released :: "cluster \<Rightarrow> call \<Rightarrow> bool" where
  "released c x \<longleftrightarrow> c_side x = Host \<and> c_verb x = VDelete \<and> c_kind x = KLease \<and> key_of (c_meta x) = key_of (cl_meta c) \<and>
     (case c_err x of None \<Rightarrow> True | Some e \<Rightarrow> IsNotFound e)"

definition binding_read :: "string \<Rightarrow> call \<Rightarrow> bool" where
  "binding_read role x \<longleftrightarrow> c_verb x = VGet \<and> c_kind x = KClusterRoleBinding \<and> Name (c_meta x) = role \<and> c_err x = None"

definition uses_kubelet_port :: "cluster \<Rightarrow> bool" where
  "uses_kubelet_port c \<longleftrightarrow> Mode (cl_Spec c) = SharedClusterMode \<and> MirrorHostNodes (cl_Spec c)"

lemma change_bindings_success:
  assumes "r_kind (cx_BindingR A) = KClusterRoleBinding" "change_bindings A f w = (Inr a, w')"
  shows "\<exists>cs. w_calls w' = w_calls w @ cs \<and> list_all (\<lambda>x. c_kind x = KClusterRoleBinding \<and> c_err x = None) cs \<and>
    (\<forall>role\<in>set clusterRoles. list_ex (binding_read role) cs)"
  using assms
  by (auto simp: change_bindings_def clusterRoles_def bindS_run ret_def k_Get_def k_Update_def log_call_def binding_read_def errors_Join_def
      List.map_filter_def split: prod.splits sum.splits if_splits)

lemma DeallocateKubeletPort_does:
  assumes "r_kind (cx_ConfigMapR A) = KConfigMap"
  shows "does (\<lambda>x. c_verb x = VUpdate \<and> c_kind x = KConfigMap \<and> c_err x = None) (DeallocateKubeletPort L X A n ns p)"
proof -
  let ?P = "\<lambda>x. c_verb x = VUpdate \<and> c_kind x = KConfigMap \<and> c_err x = None"
  have "\<exists>cs. w_calls w1 = w_calls w @ cs \<and> list_ex ?P cs"
    if run: "deallocatePort L (cx_ConfigMapR A) n ns cm p w = ((Inr a, cm'), w1)" for cm cm' w w1 a
  proof -
    obtain range where range: "mlookup (cm_Data cm) rangeKey = Some range"
      using run by (cases "mlookup (cm_Data cm) rangeKey") (auto simp: deallocatePort_def ret_def)
    obtain r1 cm1 v where g: "getOrCreate (cx_ConfigMapR A) cm range w = ((r1, cm1), v)" by (metis surj_pair)
    have gc: "calls_sat (\<lambda>_. True) (getOrCreate (cx_ConfigMapR A) cm range)"
      unfolding getOrCreate_def k_defs Let_def by (auto intro!: calls_intro)
    obtain c1 where c1: "w_calls v = w_calls w @ c1" using calls_sat_extends [OF gc g] by blast
    have "\<exists>c2. w_calls w1 = w_calls v @ [c2] \<and> ?P c2"
      using run assms by (auto simp: deallocatePort_def range bindS_run g ret_def k_Update_def log_call_def split: sum.splits prod.splits)
    with c1 show ?thesis by auto
  qed
  then show ?thesis
    unfolding does_def DeallocateKubeletPort_def
    by (fastforce simp: bindS_run external_def ret_def split: prod.splits)
qed

text \<open>The three stages before the finalizer is removed: none of them writes a cluster, and their success leaves its traces.\<close>

definition finalize_ports :: "'p port_lib \<Rightarrow> 'e externals \<Rightarrow> 'e cluster_api \<Rightarrow> cluster \<Rightarrow> ('e, goerr + unit) io" where
  "finalize_ports L X A c =
     (if uses_kubelet_port c
      then DeallocateKubeletPort L X A (Name (cl_meta c)) (Namespace (cl_meta c)) (st_KubeletPort (cl_Status c)) else ret (Inr ()))"

definition finalize_lease :: "'e cluster_api \<Rightarrow> cluster \<Rightarrow> ('e, goerr + unit) io" where
  "finalize_lease A c =
     bindS (k_Delete Host (cx_LeaseR A) \<lparr>le_meta = meta_of (Name (cl_meta c)) (Namespace (cl_meta c))\<rparr>) (\<lambda>r. ret (IgnoreNotFound r))"

lemma set_phase_frame [simp]:
  "cl_meta (set_phase U p cd c) = cl_meta c" "cl_Spec (set_phase U p cd c) = cl_Spec c"
  "st_KubeletPort (cl_Status (set_phase U p cd c)) = st_KubeletPort (cl_Status c)"
  "unbind_subject (set_phase U p cd c) = unbind_subject c"
  by (simp_all add: set_phase_def unbind_subject_def clusterSubject_def fun_eq_iff)

lemma finalizeCluster_stages:
  "\<exists>c'. finalizeCluster U L X A c = bindE (unbindClusterRoles A c) (\<lambda>_. bindE (finalize_ports L X A c) (\<lambda>_. bindE (finalize_lease A c) (\<lambda>_.
     case RemoveFinalizer U clusterFinalizerName (cl_meta c) of (changed, m) \<Rightarrow>
       if changed then bindE (k_Update Host (cx_ClusterR A) (c'\<lparr>cl_meta := m\<rparr>)) (\<lambda>_. ret (Inr Finished)) else ret (Inr Finished))))"
  by (rule exI [of _ "set_phase U ClusterTerminating (ready_condition False ''Terminating'' ''Cluster is being terminated'') c"])
    (simp add: finalizeCluster_def finalize_ports_def finalize_lease_def uses_kubelet_port_def Let_def unbindClusterRoles_def)

lemma finalize_stage_calls:
  assumes "cluster_api_ok A"
  shows "calls_sat (\<lambda>x. c_kind x = KClusterRoleBinding) (unbindClusterRoles A c)"
    and "calls_sat (\<lambda>x. c_kind x = KConfigMap) (finalize_ports L X A c)"
    and "calls_sat (\<lambda>x. c_kind x = KLease) (finalize_lease A c)"
  using assms unfolding unbindClusterRoles_def change_bindings_def finalize_ports_def finalize_lease_def DeallocateKubeletPort_def
    deallocatePort_def getOrCreate_def cluster_api_ok_def k_defs Let_def
  by (auto intro!: calls_intro)

lemma finalize_lease_does:
  assumes "cluster_api_ok A"
  shows "does (released c) (finalize_lease A c)"
  using assms unfolding does_def finalize_lease_def
  by (auto simp: cluster_api_ok_def bindS_run ret_def k_Delete_def log_call_def released_def key_of_def IgnoreNotFound_def
      split: prod.splits sum.splits if_splits)


section \<open>The whole handler\<close>

text \<open>A status update answers with the object it was given.\<close>

definition status_honest :: "('e, 'o) resource \<Rightarrow> bool" where
  "status_honest R =
     (\<forall>s ob e. case cli_StatusUpdate (r_cli R s) ob e of (Inr ob', _) \<Rightarrow> key_of (r_meta R ob') = key_of (r_meta R ob) | _ \<Rightarrow> True)"

lemma k_StatusUpdate_key:
  assumes "status_honest R" "k_StatusUpdate s R ob w = (Inr ob', w')"
  shows "key_of (r_meta R ob') = key_of (r_meta R ob)"
  using assms by (fastforce simp: status_honest_def k_StatusUpdate_def log_call_def split: prod.splits sum.splits)

text \<open>The writes of the handler for the cluster \<^verbatim>\<open>req\<close>: those of the reconciliation, the cluster itself, and its lease.\<close>

definition handler_write :: "namespaced_name \<Rightarrow> call \<Rightarrow> bool" where
  "handler_write req x \<longleftrightarrow> reconcile_write (nn_Namespace req) x \<or>
     c_side x = Host \<and> key_of (c_meta x) = req \<and>
       (c_kind x = KCluster \<and> c_verb x \<in> {VUpdate, VStatusUpdate} \<or> c_kind x = KLease \<and> c_verb x = VDelete)"

lemma handler_reconcile: "calls_sat (reconcile_write (nn_Namespace req)) m \<Longrightarrow> calls_sat (handler_write req) m"
  by (erule calls_sat_mono) (simp add: handler_write_def)

lemma handler_cluster:
  assumes "cluster_api_ok A" "key_of (cl_meta c) = req"
  shows "calls_sat (handler_write req) (k_Update Host (cx_ClusterR A) c)"
    and "calls_sat (handler_write req) (k_StatusUpdate Host (cx_ClusterR A) c)"
  using assms by (auto simp: k_defs cluster_api_ok_def policy_api_ok_def handler_write_def intro!: calls_sat_log_call)

lemma finalizeCluster_calls:
  assumes "cluster_api_ok A" "controllerutil U" "key_of (cl_meta c) = req"
  shows "calls_sat (handler_write req) (finalizeCluster U L X A c)"
proof -
  have lease: "calls_sat (handler_write req) (finalize_lease A c)"
    unfolding finalize_lease_def k_Delete_def using assms(1,3)
    by (auto simp: cluster_api_ok_def handler_write_def key_of_def intro!: calls_intro)
  have ports: "calls_sat (handler_write req) (finalize_ports L X A c)"
    unfolding finalize_ports_def by (intro calls_intro handler_reconcile ports_calls [OF assms(1)])
  have roles: "calls_sat (handler_write req) (unbindClusterRoles A c)"
    unfolding unbindClusterRoles_def by (intro handler_reconcile change_bindings_calls [OF assms(1)])
  have upd: "calls_sat (handler_write req) (k_Update Host (cx_ClusterR A) (c'\<lparr>cl_meta := m\<rparr>))"
    if "RemoveFinalizer U clusterFinalizerName (cl_meta c) = (b, m)" for c' b m
    using controllerutil.RemoveFinalizer_key [OF assms(2), of clusterFinalizerName "cl_meta c"] that assms(3)
    by (intro handler_cluster [OF assms(1)]) simp
  obtain c' where "finalizeCluster U L X A c = bindE (unbindClusterRoles A c) (\<lambda>_. bindE (finalize_ports L X A c) (\<lambda>_.
     bindE (finalize_lease A c) (\<lambda>_. case RemoveFinalizer U clusterFinalizerName (cl_meta c) of (changed, m) \<Rightarrow>
       if changed then bindE (k_Update Host (cx_ClusterR A) (c'\<lparr>cl_meta := m\<rparr>)) (\<lambda>_. ret (Inr Finished)) else ret (Inr Finished))))"
    using finalizeCluster_stages by blast
  then show ?thesis by (simp only:) (intro calls_intro roles ports lease upd)
qed

lemma reconcileCluster_calls:
  assumes "cluster_api_ok A" "controllerutil U" "nn_Namespace req = Namespace (cl_meta c)"
  shows "calls_sat (handler_write req) (reconcileCluster U L ord X A cfg c)"
proof -
  have "calls_sat (reconcile_write (Namespace (cl_meta c))) (reconcile U L ord X A cfg c)"
    using reconcile_steps_calls [OF assms(1,2), of L ord X cfg] unfolding step_sat_def reconcile_def
    by (auto dest!: spec [of _ "c\<lparr>cl_meta := (cl_meta c)\<lparr>Labels :=
       Some (fmupd ''provider.cattle.io'' ''k3k'' (minit (Labels (cl_meta c))))\<rparr>\<rparr>"])
  moreover have "calls_sat (reconcile_write ns) (updateStatus U c' err)" for ns c' err
    by (rule calls_sat_mono [OF updateStatus_calls]) (simp add: reconcile_write_def)
  ultimately show ?thesis
    unfolding reconcileCluster_def by (intro calls_intro handler_reconcile) (simp_all add: assms(3))
qed

lemma reconcileCluster_key:
  assumes "reconcileCluster U L ord X A cfg c w = ((err, c'), w')"
  shows "key_of (cl_meta c') = key_of (cl_meta c)"
proof -
  obtain r c1 w1 where r: "reconcile U L ord X A cfg c w = ((r, c1), w1)" and u: "updateStatus U c1 err w1 = (c', w')"
    using assms by (auto simp: reconcileCluster_def bindS_run ret_def split: prod.splits)
  from u have "cl_meta c' = cl_meta c1"
    by (auto simp: updateStatus_def Let_def bindS_run ret_def split: option.splits if_splits prod.splits)
  with reconcile_core [OF r] show ?thesis by simp
qed

lemma reconcile_and_store_calls:
  assumes ok: "cluster_api_ok A" and U: "controllerutil U" and honest: "status_honest (cx_ClusterR A)"
    and key: "key_of (cl_meta c) = req"
  shows "calls_sat (handler_write req) (reconcile_and_store U L ord X A cfg c)"
  unfolding reconcile_and_store_def
proof (rule calls_sat_bindS_res)
  have meta: "r_meta (cx_ClusterR A) = cl_meta" using ok by (simp add: cluster_api_ok_def policy_api_ok_def)
  show "calls_sat (handler_write req) (reconcileCluster U L ord X A cfg c)"
    using key by (intro reconcileCluster_calls [OF ok U]) (auto simp: key_of_def)
  fix w a w'
  assume run: "reconcileCluster U L ord X A cfg c w = (a, w')"
  obtain err c' where a: "a = (err, c')" by (cases a)
  with run key have c': "key_of (cl_meta c') = req" by (metis reconcileCluster_key)
  have st: "key_of (cl_meta c2) = req"
    if "(if cl_Status c \<noteq> cl_Status c' then k_StatusUpdate Host (cx_ClusterR A) c' else ret (Inr c')) v = (Inr c2, v')" for v c2 v'
    using that c' k_StatusUpdate_key [OF honest] meta by (auto simp: ret_def split: if_splits)
  show "calls_sat (handler_write req) (case a of (reconcilerErr, cluster) \<Rightarrow>
     bindE (if cl_Status c \<noteq> cl_Status cluster then k_StatusUpdate Host (cx_ClusterR A) cluster else ret (Inr cluster)) (\<lambda>cluster.
     case reconcilerErr of None \<Rightarrow>
         if cl_Spec c \<noteq> cl_Spec cluster \<or> Labels (cl_meta c) \<noteq> Labels (cl_meta cluster)
         then bindE (k_Update Host (cx_ClusterR A) cluster) (\<lambda>_. ret (Inr Finished))
         else ret (Inr Finished)
     | Some err \<Rightarrow> if errors_Is err ErrServerNotReady then ret (Inr (RequeueAfter 10)) else ret (Inl err)))"
    unfolding a prod.case
    by (rule calls_sat_bindE_res) (intro calls_intro handler_cluster [OF ok] c', intro calls_intro handler_cluster [OF ok] st)
qed


section \<open>Storage classes\<close>

text \<open>The storage classes by name, the last one of a name being kept.\<close>

abbreviation class_names :: "storage_class list \<Rightarrow> string set" where
  "class_names scs \<equiv> (\<lambda>sc. Name (stc_meta sc)) ` set scs"

lemma kept_by_name:
  fixes kept :: "storage_class list"
  defines "filtered \<equiv> fmap_of_list (rev (map (\<lambda>sc. (Name (stc_meta sc), sc)) kept))"
  shows "fset (fmdom filtered) = class_names kept"
    and "fmlookup filtered n = Some sc \<Longrightarrow> Name (stc_meta sc) = n"
proof -
  show "fset (fmdom filtered) = class_names kept"
    unfolding filtered_def by (simp add: fset_of_list.rep_eq image_image)
  show "fmlookup filtered n = Some sc \<Longrightarrow> Name (stc_meta sc) = n"
    unfolding filtered_def fmlookup_of_list by (auto dest!: map_of_SomeD)
qed

lemma set_map_filter: "set (List.map_filter f xs) = {y. \<exists>x\<in>set xs. f x = Some y}"
  by (induction xs) (auto simp: List.map_filter_def)

lemma kept_names:
  fixes kept :: "storage_class list"
  defines "filtered \<equiv> fmap_of_list (rev (map (\<lambda>sc. (Name (stc_meta sc), sc)) kept))"
  assumes "set xs = fset (fmdom filtered)"
  shows "class_names (List.map_filter (fmlookup filtered) xs) = class_names kept"
proof -
  note names = kept_by_name [of kept, folded filtered_def]
  have "n \<in> class_names (List.map_filter (fmlookup filtered) xs) \<longleftrightarrow> n \<in> fset (fmdom filtered)" for n
  proof
    assume "n \<in> class_names (List.map_filter (fmlookup filtered) xs)"
    then show "n \<in> fset (fmdom filtered)" using names(2) assms(2) by (auto simp: set_map_filter)
  next
    assume n: "n \<in> fset (fmdom filtered)"
    then obtain sc where sc: "fmlookup filtered n = Some sc" by (auto dest: fmdomE)
    with n assms(2) have "sc \<in> set (List.map_filter (fmlookup filtered) xs)" by (auto simp: set_map_filter)
    with names(2) [OF sc] show "n \<in> class_names (List.map_filter (fmlookup filtered) xs)" by auto
  qed
  then show ?thesis using names(1) by blast
qed

text \<open>A loop of one call for each element that needs it.\<close>

lemma one_call_each:
  assumes "for_collect xs f w = (errs, w')"
    and "\<And>x. f x = (if need x then bindS (log_call s v k (m x) rs (g x)) (\<lambda>r. case r of Inl err \<Rightarrow> ret [err] | Inr _ \<Rightarrow> ret []) else ret [])"
  shows "\<exists>cs. w_calls w' = w_calls w @ cs \<and> (\<lambda>x. (c_verb x, Name (c_meta x))) ` set cs = (\<lambda>x. (v, Name (m x))) ` {x \<in> set xs. need x} \<and>
    (errs = [] \<longleftrightarrow> list_all (\<lambda>x. c_err x = None) cs)"
  using assms(1)
proof (induction xs arbitrary: w errs)
  case (Cons x xs)
  obtain e1 v1 where f: "f x w = (e1, v1)" by fastforce
  obtain e2 where r: "for_collect xs f v1 = (e2, w')" and errs: "errs = e1 @ e2"
    using Cons.prems f by (auto simp: bindS_run ret_def split: prod.splits)
  obtain cs where cs: "w_calls w' = w_calls v1 @ cs"
    "(\<lambda>x. (c_verb x, Name (c_meta x))) ` set cs = (\<lambda>x. (v, Name (m x))) ` {x \<in> set xs. need x}"
    "e2 = [] \<longleftrightarrow> list_all (\<lambda>x. c_err x = None) cs" using Cons.IH [OF r] by blast
  show ?case
  proof (cases "need x")
    case True
    with f obtain c where "w_calls v1 = w_calls w @ [c]" "c_verb c = v" "c_meta c = m x" "e1 = [] \<longleftrightarrow> c_err c = None"
      by (auto simp: assms(2) bindS_run log_call_def ret_def split: prod.splits sum.splits)
    with cs errs True show ?thesis by (intro exI [of _ "c # cs"]) auto
  next
    case False
    with f have "v1 = w" "e1 = []" by (simp_all add: assms(2) ret_def)
    with cs errs False show ?thesis by (intro exI [of _ cs]) auto
  qed
qed (simp add: ret_def)


section \<open>The service range\<close>

lemma normal_CIDR_canonical: "normal_CIDR s = Inr t \<Longrightarrow> \<exists>net. ParseCIDR s = Inr net \<and> t = IPNet_String net"
  by (auto simp: normal_CIDR_def split: sum.splits)

lemma range_from_pods_canonical:
  "range_from_pods A w = (Inr t, w') \<Longrightarrow> t = '''' \<or> (\<exists>s net. ParseCIDR s = Inr net \<and> t = IPNet_String net)"
  by (auto simp: range_from_pods_def range_from_args_def normal_CIDR_def bindS_run ret_def split: prod.splits sum.splits list.splits if_splits)

lemma lookupServiceCIDR_canonical:
  assumes "lookupServiceCIDR A w = (Inr t, w')"
  shows "t = '''' \<or> (\<exists>s net. ParseCIDR s = Inr net \<and> t = IPNet_String net)"
  using assms unfolding lookupServiceCIDR_def
  by (auto simp: bindS_run ret_def split: prod.splits list.splits dest!: range_from_pods_canonical normal_CIDR_canonical)


lemma lookupServiceCIDR_left_empty:
  assumes "cli_Get (r_cli (cx_ServiceCIDRR A) Host) (cluster_scoped ''kubernetes'') e = (Inl err, e1)"
    and "cli_Create (r_cli (sa_ServiceR (cx_server A)) Host) ((service_of ''fail'' ''default'' fmempty)\<lparr>se_ClusterIP := ''1.1.1.1''\<rparr>) e1 = (Inr ob, e2)"
    and "cli_List (r_cli (cx_ControlPodR A) Host) \<lparr>lo_Namespace = ''kube-system'',
         lo_Reqs = [ReqEquals ''component'' ''kube-apiserver'', ReqEquals ''tier'' ''control-plane'']\<rparr> e2 = (Inr [], e3)"
  shows "fst (lookupServiceCIDR A \<lparr>w_calls = cs, w_env = e\<rparr>) = Inr ''''"
  using assms unfolding lookupServiceCIDR_def range_from_pods_def
  by (simp add: bindS_run k_defs log_call_def ret_def)

end
