(* ===== verification/Provisioned.thy ===== *)
theory Provisioned
  imports Lifecycle
begin

text \<open>
  A concrete host on which a shared mode cluster is provisioned, deleted and synchronized: the environment of the
  witnesses of \<^verbatim>\<open>Lifecycle\<close>. Objects of some resources always exist, those of the others never do; both are API servers
  the controllers may meet.
\<close>

section \<open>Servers that answer\<close>

text \<open>A resource all of whose objects exist.\<close>

definition full_resource :: "kind \<Rightarrow> ('o \<Rightarrow> object_meta) \<Rightarrow> (namespaced_name \<Rightarrow> 'o) \<Rightarrow> (unit, 'o) resource" where
  "full_resource k meta mk =
     \<lparr>r_kind = k, r_meta = meta, r_cli = (\<lambda>s.
       \<lparr>cli_Get = (\<lambda>key e. (Inr (mk key), e)), cli_List = (\<lambda>opts e. (Inr [], e)), cli_Create = (\<lambda>ob e. (Inr ob, e)),
        cli_Update = (\<lambda>ob e. (Inr ob, e)), cli_StatusUpdate = (\<lambda>ob e. (Inr ob, e)), cli_StatusPatch = (\<lambda>ob _ e. (Inr ob, e)),
        cli_Patch = (\<lambda>ob _ e. (Inr ob, e)), cli_Delete = (\<lambda>ob e. (Inr (), e)), cli_DeleteAllOf = (\<lambda>opts e. (Inr (), e)),
        cli_CreateOrUpdate = (\<lambda>ob f e. (f ob, e))\<rparr>)\<rparr>"

text \<open>A resource without objects.\<close>

abbreviation empty_resource :: "kind \<Rightarrow> ('o \<Rightarrow> object_meta) \<Rightarrow> (unit, 'o) resource" where
  "empty_resource k meta \<equiv> mem_resource k meta (\<lambda>_ _. []) (\<lambda>_ _. ())"

abbreviation key_meta :: "namespaced_name \<Rightarrow> object_meta" where
  "key_meta key \<equiv> meta_of (nn_Name key) (nn_Namespace key)"

definition wit_secret :: "namespaced_name \<Rightarrow> secret" where
  "wit_secret key =
     \<lparr>sec_meta = key_meta key, sec_Type = '''',
      sec_Data = Some (fmap_of_list [(''token'', ''t''), (''bootstrap'', ''b''), (''kubeconfig.yaml'', ''k'')]), sec_Immutable = None\<rparr>"

definition wit_host_service :: "namespaced_name \<Rightarrow> cluster_service" where
  "wit_host_service key = (service_of (nn_Name key) (nn_Namespace key) fmempty)\<lparr>se_Type := ''ClusterIP'', se_ClusterIP := ''10.43.0.7''\<rparr>"

definition wit_binding :: "namespaced_name \<Rightarrow> cluster_role_binding" where
  "wit_binding key = \<lparr>cr_meta = key_meta key, cr_Subjects = []\<rparr>"

definition wit_cluster_api :: "unit cluster_api" where
  "wit_cluster_api =
     \<lparr>cx_policy = \<lparr>PolicyR = empty_resource KPolicy vp_meta,
        NamespaceR = full_resource KNamespace nsp_meta (\<lambda>key. \<lparr>nsp_meta = key_meta key, nsp_rest = ''''\<rparr>),
        NetworkPolicyR = empty_resource KNetworkPolicy np_meta, QuotaR = empty_resource KResourceQuota rq_meta,
        LimitR = empty_resource KLimitRange lr_meta,
        ClusterR = full_resource KCluster cl_meta (\<lambda>key. (wit_cluster None)\<lparr>cl_meta := key_meta key\<rparr>), NodeR = empty_resource KNode hn_meta\<rparr>,
      cx_server = \<lparr>sa_ServiceR = full_resource KService se_meta wit_host_service, sa_IngressR = empty_resource KIngress ci_meta,
        sa_SecretR = full_resource KSecret sec_meta wit_secret\<rparr>,
      cx_agent = wit_agent_api,
      cx_BindingR = full_resource KClusterRoleBinding cr_meta wit_binding,
      cx_LeaseR = empty_resource KLease le_meta, cx_StorageClassR = empty_resource KStorageClass stc_meta,
      cx_ServiceCIDRR = empty_resource KServiceCIDR scd_meta, cx_ControlPodR = empty_resource KPod cop_meta,
      cx_PodR = empty_resource KPod pod_meta, cx_NodeR = empty_resource KNode adn_meta,
      cx_ConfigMapR = empty_resource KConfigMap cm_meta, cx_EndpointSliceR = empty_resource KEndpointSlice eps_meta,
      cx_EndpointsR = empty_resource KEndpoints ept_meta\<rparr>"

definition wit_externals :: "unit externals" where
  "wit_externals =
     \<lparr>x_serverYaml = (\<lambda>_. Inr ''cfg''), x_sharedYaml = (\<lambda>_. Inr ''cfg''), x_virtualYaml = (\<lambda>_. Inr ''cfg''),
      x_random = (\<lambda>e. (Inr ''r'', e)), x_ServerVersion = (\<lambda>e. (Inr ''v1.33.1+k3s1'', e)), x_FetchBootstrap = (\<lambda>_ _ _ e. (Inr ''b'', e)),
      x_bootstrap_ok = (\<lambda>_. True), x_adminCert = Inr, x_kubeconfig = (\<lambda>_ _ _. Inr ''k''), x_restConfig = (\<lambda>_. Inr ()),
      x_LookupIPAddr = (\<lambda>_ e. (Inr [], e)),
      x_ports = (\<lambda>_. \<lparr>cm_meta = meta_of ''k3k-kubelet-port-range'' ''k3k-system'', cm_Data = None, cm_BinaryData = None, cm_Immutable = None\<rparr>),
      x_ports_put = (\<lambda>_ e. e)\<rparr>"

definition wit_config :: cluster_config where
  "wit_config =
     \<lparr>cc_ClusterCIDR = ''10.42.0.0/16'', cc_SharedAgentImage = ''rancher/k3k-kubelet'', cc_SharedAgentImagePullPolicy = '''',
      cc_VirtualAgentImage = ''rancher/k3s'', cc_VirtualAgentImagePullPolicy = '''', cc_K3SServerImage = ''rancher/k3s'',
      cc_K3SServerImagePullPolicy = '''', cc_ServerImagePullSecrets = [], cc_AgentImagePullSecrets = []\<rparr>"

definition wit_shared_cluster :: cluster where
  "wit_shared_cluster = (wit_cluster None)\<lparr>cl_Spec := (cl_Spec (wit_cluster None))\<lparr>Mode := SharedClusterMode\<rparr>\<rparr>"

lemma full_resource_simps [simp]:
  "r_kind (full_resource k meta mk) = k" "r_meta (full_resource k meta mk) = meta"
  by (simp_all add: full_resource_def)

lemma full_resource_honest: "(\<And>key. key_of (meta (mk key)) = key) \<Longrightarrow> get_honest (full_resource k meta mk)"
  by (simp add: get_honest_def full_resource_def)

lemma wit_cluster_api_ok: "cluster_api_ok wit_cluster_api"
  by (simp add: cluster_api_ok_def policy_api_ok_def wit_cluster_api_def wit_agent_ok mem_resource_get_honest
      full_resource_honest wit_binding_def key_of_def)

section \<open>Runs that succeed\<close>

definition succeeds :: "('a \<Rightarrow> bool) \<Rightarrow> (unit, goerr + 'a) io \<Rightarrow> bool" where
  "succeeds R m = (\<forall>w. \<exists>a w'. m w = (Inr a, w') \<and> R a)"

named_theorems run_intro \<open>rules for runs that succeed\<close>

lemma succeeds_ret [run_intro]: "R a \<Longrightarrow> succeeds R (ret (Inr a))"
  by (simp add: succeeds_def ret_def)

lemma succeeds_bindE: "succeeds R m \<Longrightarrow> (\<And>a. R a \<Longrightarrow> succeeds S (f a)) \<Longrightarrow> succeeds S (bindE m f)"
  unfolding succeeds_def bindE_Inr by metis

lemma succeeds_Get: "R (mk key) \<Longrightarrow> succeeds R (k_Get s (full_resource k meta mk) key)"
  by (simp add: succeeds_def k_Get_def log_call_def full_resource_def)

lemma succeeds_full_CreateOrUpdate: "f ob = Inr x \<Longrightarrow> R x \<Longrightarrow> succeeds R (k_CreateOrUpdate s (full_resource k meta mk) ob f)"
  by (simp add: succeeds_def k_CreateOrUpdate_def log_call_def full_resource_def)

lemma succeeds_empty_CreateOrUpdate: "f ob = Inr x \<Longrightarrow> R x \<Longrightarrow> succeeds R (k_CreateOrUpdate s (empty_resource k meta) ob f)"
  by (simp add: succeeds_def k_CreateOrUpdate_def log_call_def mem_resource_def mem_client_def Let_def)

lemma succeeds_empty_Delete: "succeeds (\<lambda>_. True) (bindS (k_Delete s (empty_resource k meta) ob) (\<lambda>r. ret (IgnoreNotFound r)))"
  by (simp add: succeeds_def k_Delete_def log_call_def mem_resource_def mem_client_def Let_def bindS_run ret_def)

lemma succeeds_empty_DeleteAllOf: "succeeds (\<lambda>_. True) (bindS (k_DeleteAllOf s (empty_resource k meta) opts) (\<lambda>r. ret (IgnoreNotFound r)))"
  by (simp add: succeeds_def k_DeleteAllOf_def log_call_def mem_resource_def mem_client_def Let_def bindS_run ret_def)

definition completes :: "(cluster \<Rightarrow> bool) \<Rightarrow> ('a \<Rightarrow> bool) \<Rightarrow> (unit, 'a) step \<Rightarrow> bool" where
  "completes Q R m = (\<forall>c w. Q c \<longrightarrow> (\<exists>a c' w'. m c w = ((Inr a, c'), w') \<and> Q c' \<and> R a))"

lemma completes_bindC:
  "completes Q R m \<Longrightarrow> (\<And>a. R a \<Longrightarrow> completes Q S (f a)) \<Longrightarrow> completes Q S (bindC m f)"
  unfolding completes_def bindC_Inr by metis

lemma completes_reading: "(\<And>c. Q c \<Longrightarrow> succeeds R (m c)) \<Longrightarrow> completes Q R (reading m)"
  unfolding completes_def
proof (intro allI impI)
  fix c w
  assume "\<And>c. Q c \<Longrightarrow> succeeds R (m c)" and c: "Q c"
  then obtain a w' where "m c w = (Inr a, w')" "R a" unfolding succeeds_def by blast
  with c show "\<exists>a c' w'. reading m c w = ((Inr a, c'), w') \<and> Q c' \<and> R a" by (auto simp: reading_def bindS_run ret_def)
qed

lemma completes_run_steps: "(\<And>m. m \<in> set ms \<Longrightarrow> completes Q (\<lambda>_. True) m) \<Longrightarrow> completes Q (\<lambda>_. True) (run_steps ms)"
  by (induction ms) (auto intro: completes_bindC completes_reading succeeds_ret)

lemma completes_kept:
  assumes "keeps same_core m" "\<And>c w. same_core c0 c \<Longrightarrow> \<exists>a c' w'. m c w = ((Inr a, c'), w') \<and> R a"
  shows "completes (same_core c0) R m"
  unfolding completes_def using assms transpD [OF same_core_trans] unfolding keeps_def by metis

section \<open>A cluster that becomes ready\<close>

definition wit_labelled :: cluster where
  "wit_labelled = wit_shared_cluster\<lparr>cl_meta := (cl_meta wit_shared_cluster)\<lparr>Labels :=
     Some (fmupd ''provider.cattle.io'' ''k3k'' (minit (Labels (cl_meta wit_shared_cluster))))\<rparr>\<rparr>"

lemma wit_core:
  assumes "same_core wit_labelled c"
  shows "Name (cl_meta c) = ''c1''" "Namespace (cl_meta c) = ''ns1''" "UID (cl_meta c) = ''''"
    "cl_Spec c = empty_spec\<lparr>Servers := Some 1, Mode := SharedClusterMode\<rparr>" "st_Policy (cl_Status c) = None"
  using assms by (simp_all add: same_core_def wit_labelled_def wit_shared_cluster_def wit_cluster_def empty_cluster_def empty_status_def empty_spec_def)



lemma wit_refs [simp]:
  "OwnerReferences (sec_meta (wit_secret key)) = []" "OwnerReferences (se_meta (Service c)) = []"
  "OwnerReferences (se_meta (StatefulServerService c)) = []"
  by (simp_all add: wit_secret_def Service_def StatefulServerService_def service_of_def addLoadBalancerPorts_def addNodePortPorts_def Let_def
      split: option.split)

lemma run_namespace:
  "completes (same_core wit_labelled) (\<lambda>ns. nsp_meta ns = meta_of ''ns1'' '''')
    (reading (\<lambda>c. k_Get Host (NamespaceR (cx_policy wit_cluster_api)) (cluster_scoped (Namespace (cl_meta c)))))"
  by (rule completes_reading) (simp add: wit_cluster_api_def succeeds_Get wit_core)

lemma run_policy: "completes (same_core wit_labelled) (\<lambda>vcp. vcp = None) (reading (\<lambda>_. bound_policy wit_cluster_api None))"
  by (rule completes_reading) (simp add: bound_policy_def succeeds_ret)

lemma run_validate: "completes (same_core wit_labelled) (\<lambda>_. True) (reading (\<lambda>c. ret (of_err (validate c None))))"
proof (rule completes_reading)
  fix c
  assume "same_core wit_labelled c"
  then have "validate c None = None" by (simp add: validate_def wit_core empty_spec_def Let_def)
  then show "succeeds (\<lambda>_. True) (ret (of_err (validate c None)))" by (simp add: succeeds_ret)
qed

lemma run_version: "completes (same_core wit_labelled) (\<lambda>_. True) (set_host_version wit_externals)"
  by (rule completes_kept [OF set_host_version_core])
    (simp add: set_host_version_def bindC_def reading_def set_status_def bindS_run log_call_def wit_externals_def ret_def)

lemma run_token: "completes (same_core wit_labelled) (\<lambda>_. True) (reading (cluster_token ref_util wit_externals wit_cluster_api))"
proof (rule completes_reading)
  fix c
  assume c: "same_core wit_labelled c"
  show "succeeds (\<lambda>_. True) (cluster_token ref_util wit_externals wit_cluster_api c)"
    by (simp add: cluster_token_def wit_core [OF c] empty_spec_def ensureTokenSecret_def succeeds_def bindS_run k_Get_def log_call_def
        wit_cluster_api_def full_resource_def wit_secret_def ret_def)
qed

lemma run_set_status:
  "(\<And>c st. st_Policy (f c st) = st_Policy st \<and> st_Phase (f c st) = st_Phase st \<and> st_Conditions (f c st) = st_Conditions st) \<Longrightarrow>
    completes (same_core wit_labelled) (\<lambda>_. True) (set_status f)"
  by (rule completes_kept [OF set_status_core]) (auto simp: set_status_def ret_def)

lemma run_service_cidr: "completes (same_core wit_labelled) (\<lambda>_. True) (set_service_cidr A)"
  by (rule completes_kept [OF set_service_cidr_core])
    (auto simp: set_service_cidr_def set_status_def bindS_run ret_def Let_def wit_core empty_spec_def split: prod.splits)

lemma run_network_policy:
  "completes (same_core wit_labelled) (\<lambda>_. True) (reading (ensureNetworkPolicy ref_util wit_cluster_api wit_config))"
  by (rule completes_reading)
    (auto simp: ensureNetworkPolicy_def Let_def wit_cluster_api_def succeeds_empty_Delete FindPodCIDRs_def wit_config_def controlled_def
      ref_util_def intro!: succeeds_bindE [OF succeeds_empty_CreateOrUpdate] succeeds_ret)

lemma run_service:
  "completes (same_core wit_labelled) (\<lambda>service. se_Type service = ''ClusterIP'') (reading (ensureClusterService ref_util wit_cluster_api))"
proof (rule completes_reading)
  fix c
  assume c: "same_core wit_labelled c"
  have "se_Type (Service c) = ''ClusterIP''" by (simp add: Service_def wit_core [OF c] empty_spec_def Let_def)
  then show "succeeds (\<lambda>service. se_Type service = ''ClusterIP'') (ensureClusterService ref_util wit_cluster_api c)"
    by (auto simp: ensureClusterService_def Let_def wit_cluster_api_def controlled_def ref_util_def intro!: succeeds_full_CreateOrUpdate)
qed

lemma run_config: "completes (same_core wit_labelled) (\<lambda>_. True) (ensure_config ref_util wit_externals wit_cluster_api s service init sans)"
  by (rule completes_kept [OF ensure_config_core])
    (auto simp: ensure_config_def Config_def bindC_def reading_def bindS_run ret_def k_CreateOrUpdate_def log_call_def wit_cluster_api_def
      full_resource_def wit_externals_def controlled_def ref_util_def Let_def split: prod.splits)

lemma run_configs: "completes (same_core wit_labelled) (\<lambda>_. True) (ensureClusterConfigs ref_util wit_externals wit_cluster_api s service)"
proof -
  have "completes (same_core wit_labelled) (\<lambda>_. True)
      (reading (\<lambda>c. if Mode (cl_Spec c) = HCPClusterMode then hostNodeIPs wit_cluster_api c else ret (Inr [])))"
    by (rule completes_reading) (simp add: wit_core empty_spec_def succeeds_ret)
  then show ?thesis
    unfolding ensureClusterConfigs_def by (rule completes_bindC) (rule completes_bindC [OF run_config run_config])
qed

lemma run_server:
  "completes (same_core wit_labelled) (\<lambda>_. True) (reading (server_resources ref_util wit_externals wit_cluster_api s sans))"
proof (rule completes_reading)
  fix c
  assume c: "same_core wit_labelled c"
  have ss: "succeeds (\<lambda>ss. OwnerReferences (wk_meta ss) = []) (StatefulServer ref_util StartupCommand (cx_server wit_cluster_api) s c sans)"
  proof -
    have servers: "Servers (cl_Spec c) = Some 1" by (simp add: wit_core [OF c])
    obtain cmd where "setupStartCommand StartupCommand c = Inr cmd" using setupStartCommand_total [OF servers] by blast
    then show ?thesis
      by (simp add: StatefulServer_def wit_core [OF c] empty_spec_def server_claims_def custom_CAs_enabled_def
          BuildSecretsMountsVolumes_def succeeds_ret Let_def)
  qed
  have svc: "succeeds (\<lambda>_. True) (bindS (k_Create Host (sa_ServiceR (cx_server wit_cluster_api)) ob) (\<lambda>r. case r of
         Inl err \<Rightarrow> ret (if IsAlreadyExists err then Inr () else Inl err) | Inr _ \<Rightarrow> ret (Inr ())))" for ob
    by (simp add: succeeds_def bindS_run k_Create_def log_call_def wit_cluster_api_def full_resource_def ret_def)
  have sts: "succeeds (\<lambda>_. True) (k_CreateOrUpdate Host (aa_StatefulSetR (cx_agent wit_cluster_api)) ob (controlled ref_util c wk_meta wk_meta_update f))"
    if "OwnerReferences (wk_meta ob) = []" for ob f
    using that by (auto simp: wit_cluster_api_def wit_agent_api_def controlled_def ref_util_def intro!: succeeds_empty_CreateOrUpdate)
  have refs: "SetControllerReference ref_util (cl_meta c) (se_meta (StatefulServerService c)) =
      Inr ((se_meta (StatefulServerService c))\<lparr>OwnerReferences := [owner_ref_to (cl_meta c) True]\<rparr>)"
    by (simp add: ref_util_def)
  show "succeeds (\<lambda>_. True) (server_resources ref_util wit_externals wit_cluster_api s sans c)"
    unfolding server_resources_def Let_def refs sum.case
    by (intro succeeds_bindE [OF svc] succeeds_bindE [OF ss] succeeds_bindE [OF sts] succeeds_ret) (simp_all add: ref_util_def)
qed

lemma run_agent:
  "completes (same_core wit_labelled) (\<lambda>_. True) (ensureAgent ref_util L wit_externals wit_cluster_api wit_config ip token)"
proof (rule completes_kept [OF ensureAgent_core])
  fix c w
  assume c: "same_core wit_labelled c"
  have "\<exists>w'. shared_EnsureResources ref_util (x_sharedYaml wit_externals) (cx_agent wit_cluster_api) s c w = (Inr (), w')" for s
    unfolding shared_EnsureResources_def
    by (rule run_all_fresh)
      (auto simp: shared_op_defs wit_agent_api_def wit_cluster_api_def wit_externals_def mem_create_fresh agent_meta_simps
        intro!: ensureObject_fresh [OF refl])
  from this [of "NewSharedAgent ip (cc_SharedAgentImage wit_config) (cc_SharedAgentImagePullPolicy wit_config) token 10250
      (cc_AgentImagePullSecrets wit_config)"]
  show "\<exists>a c' w'. ensureAgent ref_util L wit_externals wit_cluster_api wit_config ip token c w = ((Inr a, c'), w') \<and> True"
    by (auto simp: ensureAgent_def wit_core [OF c] empty_spec_def Let_def bindS_run ret_def)
qed

lemma run_ingress: "completes (same_core wit_labelled) (\<lambda>_. True) (reading (ensureIngress ref_util wit_cluster_api))"
  by (rule completes_reading) (simp add: ensureIngress_def wit_core empty_spec_def wit_cluster_api_def succeeds_empty_Delete Let_def)

lemma run_bootstrap:
  "completes (same_core wit_labelled) (\<lambda>_. True) (reading (ensureBootstrapSecret ref_util wit_externals wit_cluster_api ip token))"
  by (rule completes_reading)
    (simp add: succeeds_def ensureBootstrapSecret_def SaveToSecret_def bindE_run k_CreateOrUpdate_def log_call_def wit_externals_def
      wit_cluster_api_def full_resource_def ref_util_def ret_def)

lemma run_bindings: "completes (same_core wit_labelled) (\<lambda>_. True) (reading (bindClusterRoles wit_cluster_api))"
  by (rule completes_reading)
    (simp add: succeeds_def bindClusterRoles_def change_bindings_def clusterRoles_def bindS_run k_Get_def k_Update_def log_call_def
      wit_cluster_api_def full_resource_def wit_binding_def bind_subject_def ret_def errors_Join_def)

lemma run_kubeconfig:
  "completes (same_core wit_labelled) (\<lambda>_. True) (reading (ensureKubeconfigSecret ref_util wit_externals wit_cluster_api ip))"
  by (rule completes_reading)
    (simp add: succeeds_def ensureKubeconfigSecret_def kubeconfig_Generate_def LoadFromSecret_def URL_def service_url_def wit_host_service_def
      service_of_def wit_core empty_spec_def bindE_run k_Get_def k_CreateOrUpdate_def log_call_def wit_externals_def wit_cluster_api_def
      full_resource_def wit_secret_def controlled_def ref_util_def ret_def Let_def)

lemma run_storage: "completes (same_core wit_labelled) (\<lambda>_. True) (reading (ensureStorageClasses ord wit_externals wit_cluster_api))"
proof (rule completes_reading)
  fix c
  assume c: "same_core wit_labelled c"
  show "succeeds (\<lambda>_. True) (ensureStorageClasses ord wit_externals wit_cluster_api c)"
    by (simp add: succeeds_def ensureStorageClasses_def newVirtualClient_def storage_sync_def wit_core [OF c] empty_spec_def bindE_run bindS_run
      k_Get_def k_DeleteAllOf_def log_call_def wit_externals_def wit_cluster_api_def full_resource_def mem_resource_def mem_client_def
      wit_secret_def ret_def Let_def)
qed

lemma run_provision:
  "completes (same_core wit_labelled) (\<lambda>_. True) (run_steps (provision ref_util L ord wit_externals wit_cluster_api wit_config s token service))"
proof (rule completes_run_steps)
  fix m
  have hcp: "completes (same_core wit_labelled) (\<lambda>_. True) (reading (ensure_hcp_endpoints wit_externals wit_cluster_api))"
    by (rule completes_reading) (simp add: ensure_hcp_endpoints_def wit_core empty_spec_def succeeds_ret)
  assume "m \<in> set (provision ref_util L ord wit_externals wit_cluster_api wit_config s token service)"
  then show "completes (same_core wit_labelled) (\<lambda>_. True) m"
    using run_configs run_server run_agent run_ingress run_bootstrap run_bindings run_kubeconfig run_storage hcp by (auto simp: provision_def)
qed

lemma run_reconcile_steps:
  "completes (same_core wit_labelled) (\<lambda>_. True) (reconcile_steps ref_util L ord wit_externals wit_cluster_api wit_config)"
proof -
  have pending: "completes (same_core wit_labelled) (\<lambda>_. True) (reading (\<lambda>_. ret (if lb_pending service then Inl e else Inr ())))"
    if "se_Type service = ''ClusterIP''" for service e
    using that by (intro completes_reading) (simp add: lb_pending_def succeeds_ret)
  have server: "completes (same_core wit_labelled) (\<lambda>_. True) (reading (\<lambda>c. ret (Inr (New c token i p s))))" for token i p s
    by (rule completes_reading) (simp add: succeeds_ret)
  show ?thesis
    unfolding reconcile_steps_def
    apply (rule completes_bindC [OF run_namespace])
    apply (rule completes_bindC [OF run_set_status], simp)
    subgoal for ns
      apply (simp only: meta_of_simps)
      apply (rule completes_bindC [OF run_policy])
      apply (simp only:)
      apply (intro completes_bindC [OF run_validate] completes_bindC [OF run_version] completes_bindC [OF run_token] completes_bindC [OF server]
        completes_bindC [OF run_set_status] completes_bindC [OF run_service_cidr] completes_bindC [OF run_network_policy]
        completes_bindC [OF run_service] completes_bindC [OF pending] run_provision)
       apply simp_all
      done
    done
qed

lemma wit_reconciled:
  "\<exists>c' w'. reconcileCluster ref_util L ord wit_externals wit_cluster_api wit_config wit_shared_cluster wit_world = ((None, c'), w') \<and>
    st_Phase (cl_Status c') = ClusterReady"
proof -
  have "same_core wit_labelled wit_labelled" by (simp add: same_core_def)
  then obtain c1 w1 where "reconcile_steps ref_util L ord wit_externals wit_cluster_api wit_config wit_labelled wit_world = ((Inr (), c1), w1)"
    using run_reconcile_steps unfolding completes_def by fastforce
  then have r: "reconcile ref_util L ord wit_externals wit_cluster_api wit_config wit_shared_cluster wit_world = ((Inr (), c1), w1)"
    by (simp add: reconcile_def wit_labelled_def)
  have "DeletionTimestamp (cl_meta c1) = None"
    using reconcile_core [OF r] by (simp add: wit_shared_cluster_def wit_cluster_def)
  moreover obtain c' w' where u: "updateStatus ref_util c1 None w1 = (c', w')" by fastforce
  ultimately have "st_Phase (cl_Status c') = ClusterReady"
    using updateStatus_result [of c1 ref_util None w1 c' w'] by (auto simp: set_phase_def outcome_phase_def)
  with r u show ?thesis by (auto simp: reconcileCluster_def bindS_run ret_def)
qed

theorem ready_means_provisioned_witness:
  "\<exists>c' cs w'. reconcileCluster ref_util ref_ports sorted_list_of_fset wit_externals wit_cluster_api wit_config wit_shared_cluster wit_world =
      ((None, c'), w') \<and> w_calls w' = cs \<and> (\<exists>x\<in>set cs. ensured (KDaemonSet, \<lambda>n. SafeConcatNameWithPrefix [n, ''kubelet'']) wit_shared_cluster x)"
proof -
  obtain c' w' where run: "reconcileCluster ref_util ref_ports sorted_list_of_fset wit_externals wit_cluster_api wit_config wit_shared_cluster
      wit_world = ((None, c'), w')" "st_Phase (cl_Status c') = ClusterReady" using wit_reconciled by blast
  have "DeletionTimestamp (cl_meta wit_shared_cluster) = None" by (simp add: wit_shared_cluster_def wit_cluster_def)
  from ready_means_provisioned [OF wit_cluster_api_ok ref.controllerutil_axioms this run] obtain cs where
    cs: "w_calls w' = w_calls wit_world @ cs" "\<forall>kf\<in>set (ready_objects wit_shared_cluster). \<exists>x\<in>set cs. ensured kf wit_shared_cluster x" by blast
  have "(KDaemonSet, \<lambda>n. SafeConcatNameWithPrefix [n, ''kubelet'']) \<in> set (ready_objects wit_shared_cluster)"
    by (simp add: ready_objects_def agentful_def wit_shared_cluster_def shared_agent_objects_def Let_def)
  with cs run(1) show ?thesis by auto
qed

theorem cluster_phase_reflects_outcome_witness:
  "\<exists>c' w'. reconcileCluster ref_util ref_ports sorted_list_of_fset wit_externals wit_cluster_api wit_config wit_shared_cluster wit_world =
      ((None, c'), w') \<and> (\<exists>cd\<in>set (st_Conditions (cl_Status c')). cd_Type cd = ''Ready'' \<and> cd_Status cd = ''True'')"
proof -
  obtain c' w' where run: "reconcileCluster ref_util ref_ports sorted_list_of_fset wit_externals wit_cluster_api wit_config wit_shared_cluster
      wit_world = ((None, c'), w')" using wit_reconciled by blast
  have "DeletionTimestamp (cl_meta wit_shared_cluster) = None" by (simp add: wit_shared_cluster_def wit_cluster_def)
  from cluster_phase_reflects_outcome [OF ref.controllerutil_axioms this run] run show ?thesis by auto
qed

section \<open>Deletion, confinement, storage classes and ranges\<close>

definition wit_deleted :: cluster where
  "wit_deleted = wit_shared_cluster\<lparr>cl_meta := (cl_meta wit_shared_cluster)\<lparr>Finalizers := [''cluster.k3k.io/finalizer'']\<rparr>\<rparr>"

lemma wit_finalized:
  "\<exists>w'. finalizeCluster ref_util ref_ports wit_externals wit_cluster_api wit_deleted wit_world = (Inr Finished, w') \<and>
    list_ex (\<lambda>x. c_kind x = KCluster) (w_calls w')"
  by (simp add: finalizeCluster_def unbindClusterRoles_def change_bindings_def clusterRoles_def unbind_subject_def set_phase_def wit_deleted_def
      wit_shared_cluster_def wit_cluster_def empty_cluster_def empty_spec_def Let_def bindE_run bindS_run k_Get_def k_Update_def k_Delete_def
      log_call_def wit_cluster_api_def full_resource_def mem_resource_def mem_client_def wit_binding_def ref_util_def ret_def errors_Join_def)


lemma wit_cluster_honest: "get_honest (cx_ClusterR wit_cluster_api)" "status_honest (cx_ClusterR wit_cluster_api)"
  by (simp_all add: get_honest_def status_honest_def wit_cluster_api_def full_resource_def key_of_def)


definition wit_class :: "string \<Rightarrow> storage_class" where
  "wit_class n =
     \<lparr>stc_meta = meta_of n '''', stc_Provisioner = ''p'', stc_Parameters = None, stc_ReclaimPolicy = None, stc_MountOptions = [],
      stc_AllowVolumeExpansion = None, stc_VolumeBindingMode = None, stc_AllowedTopologies = ''''\<rparr>"



end
