(* ===== verification/NetURL.thy ===== *)
theory NetURL
  imports Server
begin

text \<open>
  \<^verbatim>\<open>url.Parse\<close> of Go's \<^verbatim>\<open>net/url\<close>, as far as the host of a URL depends on it: which texts are rejected, and the host of the
  others. Paths, queries, user information and fragments are checked and dropped.
\<close>

section \<open>Escapes\<close>

datatype escape_mode = EncodeHost | EncodeZone | EncodeOther

definition is_letter :: "char \<Rightarrow> bool" where
  "is_letter c = (let n = (of_char c :: nat) in 97 \<le> n \<and> n \<le> 122 \<or> 65 \<le> n \<and> n \<le> 90)"

definition is_hex :: "char \<Rightarrow> bool" where
  "is_hex c = (let n = (of_char c :: nat) in is_digit c \<or> 97 \<le> n \<and> n \<le> 102 \<or> 65 \<le> n \<and> n \<le> 70)"

definition unhex :: "char \<Rightarrow> nat" where
  "unhex c = (let n = (of_char c :: nat) in if is_digit c then n - 48 else if 97 \<le> n then n - 87 else n - 55)"

text \<open>Whether a character of a host must be escaped.\<close>

definition host_escapes :: "char \<Rightarrow> bool" where
  "host_escapes c = (\<not> (is_letter c \<or> is_digit c \<or> c \<in> set ''!$&()*+,;=:[]<>-_.~'' \<or> c = CHR 0x27 \<or> c = CHR 0x22))"

fun url_unescape :: "escape_mode \<Rightarrow> string \<Rightarrow> goerr + string" where
  "url_unescape mode [] = Inr []"
| "url_unescape mode (c # s) =
     (if c = CHR ''%'' then
        (case s of a # b # r \<Rightarrow>
           if \<not> is_hex a \<or> \<not> is_hex b then Inl (ErrNew ''invalid URL escape'')
           else (let v = char_of (16 * unhex a + unhex b) in
             if mode = EncodeHost \<and> unhex a < 8 \<and> \<not> (a = CHR ''2'' \<and> b = CHR ''5'') then Inl (ErrNew ''invalid URL escape'')
             else if mode = EncodeZone \<and> \<not> (a = CHR ''2'' \<and> b = CHR ''5'') \<and> v \<noteq> CHR '' '' \<and> host_escapes v
             then Inl (ErrNew ''invalid URL escape'')
             else (case url_unescape mode r of Inl err \<Rightarrow> Inl err | Inr t \<Rightarrow> Inr (v # t)))
         | _ \<Rightarrow> Inl (ErrNew ''invalid URL escape''))
      else if mode \<noteq> EncodeOther \<and> (of_char c :: nat) < 128 \<and> host_escapes c then Inl (ErrNew ''invalid character in host name'')
      else (case url_unescape mode s of Inl err \<Rightarrow> Inl err | Inr t \<Rightarrow> Inr (c # t)))"

section \<open>Parts of a URL\<close>

definition strings_Cut :: "string \<Rightarrow> char \<Rightarrow> string \<times> string" where
  "strings_Cut s c = (takeWhile (\<lambda>x. x \<noteq> c) s, drop 1 (dropWhile (\<lambda>x. x \<noteq> c) s))"

definition getScheme :: "string \<Rightarrow> goerr + string \<times> string" where
  "getScheme rawURL =
     (let p = takeWhile (\<lambda>c. is_letter c \<or> is_digit c \<or> c \<in> set ''+-.'') rawURL in
      if rawURL \<noteq> [] \<and> hd rawURL = CHR '':'' then Inl (ErrNew ''missing protocol scheme'')
      else if rawURL = [] \<or> \<not> is_letter (hd rawURL) then Inr ([], rawURL)
      else case drop (length p) rawURL of c # r \<Rightarrow> if c = CHR '':'' then Inr (p, r) else Inr ([], rawURL) | [] \<Rightarrow> Inr ([], rawURL))"

definition validOptionalPort :: "string \<Rightarrow> bool" where
  "validOptionalPort port = (port = [] \<or> hd port = CHR '':'' \<and> list_all is_digit (tl port))"

text \<open>A text before and from the last occurrence of a character.\<close>

definition split_last :: "char \<Rightarrow> string \<Rightarrow> string \<times> string" where
  "split_last c s = (let n = length (takeWhile (\<lambda>x. x \<noteq> c) (rev s)) in (take (length s - n - 1) s, drop (length s - n - 1) s))"

text \<open>A zone of an IPv6 address, split off at the first escaped percent sign.\<close>

fun cut_zone :: "string \<Rightarrow> string \<Rightarrow> (string \<times> string) option" where
  "cut_zone acc [] = None"
| "cut_zone acc (c # s) = (if strings_HasPrefix (c # s) ''%25'' then Some (rev acc, c # s) else cut_zone (c # acc) s)"

definition bindR :: "goerr + 'a \<Rightarrow> ('a \<Rightarrow> goerr + 'b) \<Rightarrow> goerr + 'b" where
  "bindR r f = (case r of Inl err \<Rightarrow> Inl err | Inr a \<Rightarrow> f a)"

definition parseHost :: "string \<Rightarrow> goerr + string" where
  "parseHost host =
     (if host \<noteq> [] \<and> hd host = CHR ''['' then
        (if CHR '']'' \<notin> set host then Inl (ErrNew ''missing ']' in host'')
         else case split_last CHR '']'' host of (inner, closing) \<Rightarrow>
           if \<not> validOptionalPort (tl closing) then Inl (ErrNew ''invalid port after host'')
           else case cut_zone [] inner of
             Some (addr, zone) \<Rightarrow> bindR (url_unescape EncodeHost addr) (\<lambda>h1.
               bindR (url_unescape EncodeZone zone) (\<lambda>h2. bindR (url_unescape EncodeHost closing) (\<lambda>h3. Inr (h1 @ h2 @ h3))))
           | None \<Rightarrow> url_unescape EncodeHost host)
      else if CHR '':'' \<in> set host \<and> \<not> validOptionalPort (snd (split_last CHR '':'' host)) then Inl (ErrNew ''invalid port after host'')
      else url_unescape EncodeHost host)"

definition validUserinfo :: "string \<Rightarrow> bool" where
  "validUserinfo s = list_all (\<lambda>c. is_letter c \<or> is_digit c \<or> c \<in> set ''-._:~!$&()*+,;=%@'' \<or> c = CHR 0x27) s"

definition parseAuthority :: "string \<Rightarrow> goerr + string" where
  "parseAuthority authority =
     (if CHR ''@'' \<notin> set authority then parseHost authority
      else case split_last CHR ''@'' authority of (userinfo, rest) \<Rightarrow>
        bindR (parseHost (tl rest)) (\<lambda>host.
        if \<not> validUserinfo userinfo then Inl (ErrNew ''net/url: invalid userinfo'')
        else bindR (url_unescape EncodeOther userinfo) (\<lambda>_. Inr host)))"

section \<open>Parsing\<close>

definition strings_ToLower :: "string \<Rightarrow> string" where
  "strings_ToLower s = map (\<lambda>c. let n = (of_char c :: nat) in if 65 \<le> n \<and> n \<le> 90 then char_of (n + 32) else c) s"

definition is_ctl :: "char \<Rightarrow> bool" where
  "is_ctl c = ((of_char c :: nat) < 32 \<or> (of_char c :: nat) = 127)"

definition url_parse :: "string \<Rightarrow> goerr + url" where
  "url_parse rawURL =
     (if list_ex is_ctl rawURL then Inl (ErrNew ''net/url: invalid control character in URL'')
      else if rawURL = ''*'' then Inr \<lparr>url_Scheme = '''', url_Host = ''''\<rparr>
      else bindR (getScheme rawURL) (\<lambda>(scheme, rest).
        (let scheme = strings_ToLower scheme; rest = fst (strings_Cut rest CHR ''?'') in
         if \<not> strings_HasPrefix rest ''/'' \<and> scheme \<noteq> '''' then Inr \<lparr>url_Scheme = scheme, url_Host = ''''\<rparr>
         else if \<not> strings_HasPrefix rest ''/'' \<and> CHR '':'' \<in> set (fst (strings_Cut rest CHR ''/''))
         then Inl (ErrNew ''first path segment in URL cannot contain colon'')
         else if (scheme \<noteq> '''' \<or> \<not> strings_HasPrefix rest ''///'') \<and> strings_HasPrefix rest ''//'' then
           (let authority = takeWhile (\<lambda>c. c \<noteq> CHR ''/'') (drop 2 rest); path = drop (length authority) (drop 2 rest) in
            bindR (parseAuthority authority) (\<lambda>host.
            bindR (url_unescape EncodeOther path) (\<lambda>_. Inr \<lparr>url_Scheme = scheme, url_Host = host\<rparr>)))
         else bindR (url_unescape EncodeOther rest) (\<lambda>_. Inr \<lparr>url_Scheme = scheme, url_Host = ''''\<rparr>))))"

definition url_Parse :: "string \<Rightarrow> goerr + url" where
  "url_Parse rawURL =
     (case strings_Cut rawURL CHR ''#'' of (u, frag) \<Rightarrow>
        bindR (url_parse u) (\<lambda>url. bindR (url_unescape EncodeOther frag) (\<lambda>_. Inr url)))"

section \<open>Plain hosts\<close>

text \<open>Host names and IPv4 addresses have no character that is special in a URL.\<close>

definition plain_char :: "char \<Rightarrow> bool" where
  "plain_char c = (is_letter c \<or> is_digit c \<or> c = CHR ''-'' \<or> c = CHR ''.'')"

abbreviation plain_host :: "string \<Rightarrow> bool" where
  "plain_host \<equiv> list_all plain_char"

lemma special_not_plain: "list_all (\<lambda>c. \<not> plain_char c) ''/:?#@%[''"
  by (simp add: plain_char_def is_letter_def is_digit_def)

lemma plain_char_not: "plain_char c \<Longrightarrow> c \<notin> set ''/:?#@%['' \<and> \<not> is_ctl c \<and> \<not> host_escapes c"
proof (intro conjI)
  assume c: "plain_char c"
  then show "c \<notin> set ''/:?#@%[''" using special_not_plain unfolding list_all_iff by blast
  show "\<not> host_escapes c" using c by (auto simp: plain_char_def host_escapes_def)
  have "is_letter c \<Longrightarrow> \<not> is_ctl c" "is_digit c \<Longrightarrow> \<not> is_ctl c" by (auto simp: is_letter_def is_digit_def is_ctl_def Let_def)
  then show "\<not> is_ctl c" using c by (auto simp: plain_char_def is_ctl_def)
qed

lemma url_unescape_plain:
  "(\<And>c. c \<in> set s \<Longrightarrow> c \<noteq> CHR ''%'' \<and> \<not> host_escapes c) \<Longrightarrow> url_unescape mode s = Inr s"
  by (induction s) auto

lemma strings_Cut_none: "c \<notin> set s \<Longrightarrow> strings_Cut s c = (s, [])"
proof -
  assume c: "c \<notin> set s"
  then have "takeWhile (\<lambda>x. x \<noteq> c) s = s" by (auto simp: takeWhile_eq_all_conv)
  moreover have "dropWhile (\<lambda>x. x \<noteq> c) s = []" using c by (auto simp: dropWhile_eq_Nil_conv)
  ultimately show ?thesis unfolding strings_Cut_def by (metis drop_Nil)
qed

lemma split_last_port: "list_all is_digit p \<Longrightarrow> snd (split_last CHR '':'' (h @ CHR '':'' # p)) = CHR '':'' # p"
proof -
  assume "list_all is_digit p"
  then have "takeWhile (\<lambda>x. x \<noteq> CHR '':'') (rev p @ CHR '':'' # rev h) = rev p"
    by (subst takeWhile_append2) (auto simp: list_all_iff is_digit_def)
  then show ?thesis by (simp add: split_last_def Let_def)
qed

lemma url_Parse_plain:
  assumes "plain_host h" "list_all is_digit p"
  shows "url_Parse (''https://'' @ h @ CHR '':'' # p) = Inr \<lparr>url_Scheme = ''https'', url_Host = h @ CHR '':'' # p\<rparr>"
proof -
  let ?hp = "h @ CHR '':'' # p"
  have "list_all (\<lambda>c. c = CHR '':'' \<or> plain_char c) h" by (rule list.pred_mono_strong [OF assms(1)]) simp
  moreover have "list_all (\<lambda>c. c = CHR '':'' \<or> plain_char c) p"
    by (rule list.pred_mono_strong [OF assms(2)]) (simp add: plain_char_def)
  ultimately have plain: "list_all (\<lambda>c. c = CHR '':'' \<or> plain_char c) ?hp" by simp
  have "list_all (\<lambda>c. c \<notin> set ''/?#@'') ?hp" by (rule list.pred_mono_strong [OF plain]) (auto dest: plain_char_not)
  then have no: "CHR ''/'' \<notin> set ?hp" "CHR ''?'' \<notin> set ?hp" "CHR ''#'' \<notin> set ?hp" "CHR ''@'' \<notin> set ?hp"
    by (auto simp: list_all_iff)
  have colon: "\<not> host_escapes CHR '':''" "\<not> is_ctl CHR '':''" by (simp_all add: host_escapes_def is_ctl_def)
  have ctl: "\<not> list_ex is_ctl (''https://'' @ ?hp)"
  proof -
    have "list_all (\<lambda>c. \<not> is_ctl c) ?hp"
      by (rule list.pred_mono_strong [OF plain]) (auto dest: plain_char_not simp: colon)
    then show ?thesis by (simp add: list_ex_iff list_all_iff is_ctl_def)
  qed
  have scheme: "getScheme (''https://'' @ ?hp) = Inr (''https'', ''//'' @ ?hp)"
    by (simp add: getScheme_def is_letter_def is_digit_def)
  have host: "parseAuthority ?hp = Inr ?hp"
  proof -
    have "list_all (\<lambda>c. c \<noteq> CHR ''%'' \<and> \<not> host_escapes c) ?hp"
      by (rule list.pred_mono_strong [OF plain]) (auto dest: plain_char_not simp: colon)
    then have "url_unescape EncodeHost ?hp = Inr ?hp" by (intro url_unescape_plain) (auto simp: list_all_iff)
    moreover have "hd ?hp \<noteq> CHR ''[''" using assms(1) plain_char_not [of "hd h"] by (cases h) auto
    ultimately show ?thesis
      using no(4) assms(2) split_last_port [OF assms(2), of h] by (simp add: parseAuthority_def parseHost_def validOptionalPort_def)
  qed
  have q: "strings_Cut (''//'' @ ?hp) CHR ''?'' = (''//'' @ ?hp, [])" using no(2) by (intro strings_Cut_none) simp
  have auth: "takeWhile (\<lambda>c. c \<noteq> CHR ''/'') ?hp = ?hp" using no(1) by (auto simp: takeWhile_eq_all_conv)
  have low: "strings_ToLower ''https'' = ''https''" by (simp add: strings_ToLower_def)
  have star: "''https://'' @ ?hp \<noteq> ''*''" by simp
  have "url_parse (''https://'' @ ?hp) = Inr \<lparr>url_Scheme = ''https'', url_Host = ?hp\<rparr>"
    unfolding url_parse_def scheme using ctl star host
    by (simp only: if_False bindR_def sum.case prod.case Let_def q low fst_conv) (simp add: strings_HasPrefix_def auth bindR_def)
  moreover have "strings_Cut (''https://'' @ ?hp) CHR ''#'' = (''https://'' @ ?hp, [])" using no(3) by (intro strings_Cut_none) simp
  ultimately show ?thesis unfolding url_Parse_def by (simp add: bindR_def)
qed

end
