(* ===== verification/ServerSet.thy ===== *)
theory ServerSet
  imports Provisioned NetURL Translate
begin

text \<open>
  The controllers of \<^verbatim>\<open>pkg/controller/cluster\<close> that watch the objects of a cluster on the host: \<^verbatim>\<open>statefulset.go\<close> keeps the etcd
  members in step with the server pods, \<^verbatim>\<open>pod.go\<close> propagates deletions of host pods to the virtual cluster, \<^verbatim>\<open>service.go\<close> copies the
  status of load balancers there, and \<^verbatim>\<open>filter.go\<close> selects their objects. The etcd client, the k3s client and the
  certificates are the parameter \<^verbatim>\<open>etcd_api\<close>.
\<close>

section \<open>Filters\<close>

abbreviation SchemeGroupVersion :: string where "SchemeGroupVersion \<equiv> ''k3k.io/v1beta1''"

definition GetControllerOf :: "object_meta \<Rightarrow> owner_ref option" where
  "GetControllerOf m = List.find or_Controller (OwnerReferences m)"

definition owned_by_cluster :: "owner_ref option \<Rightarrow> bool" where
  "owned_by_cluster owner = (case owner of None \<Rightarrow> False | Some r \<Rightarrow> or_Kind r = ''Cluster'' \<and> or_APIVersion r = SchemeGroupVersion)"

definition newClusterPredicate :: "object_meta \<Rightarrow> bool" where
  "newClusterPredicate m = owned_by_cluster (GetControllerOf m)"

definition newServerPredicate :: "object_meta \<Rightarrow> bool" where
  "newServerPredicate m = (mindex (Labels m) ''role'' = ''server'')"

definition clusterNamespacedName :: "object_meta \<Rightarrow> namespaced_name" where
  "clusterNamespacedName m =
     \<lparr>nn_Namespace = Namespace m,
      nn_Name = (if owned_by_cluster (GetControllerOf m) then or_Name (the (GetControllerOf m)) else mindex (Labels m) ClusterNameLabel)\<rparr>"

section \<open>Server StatefulSets\<close>

record etcd_member =
  em_ID :: nat
  em_Name :: string
  em_PeerURLs :: "string list"

text \<open>
  \<^verbatim>\<open>GetServerConfig\<close> of the k3s client, reduced to \<^verbatim>\<open>ClusterInit\<close>; the TLS configuration made of the bootstrap data; and
  the etcd client.
\<close>

record 'e etcd_api =
  et_GetServerConfig :: "string \<Rightarrow> string \<Rightarrow> 'e \<Rightarrow> (goerr + bool) \<times> 'e"
  et_TLS :: "payload \<Rightarrow> goerr + payload"
  et_New :: "string \<Rightarrow> payload \<Rightarrow> goerr + unit"
  et_MemberList :: "string \<Rightarrow> 'e \<Rightarrow> (goerr + etcd_member list) \<times> 'e"
  et_MemberRemove :: "string \<Rightarrow> nat \<Rightarrow> 'e \<Rightarrow> (goerr + unit) \<times> 'e"

text \<open>\<^verbatim>\<open>retry.OnError\<close> with a condition that is always true: at most \<^verbatim>\<open>n\<close> attempts, the last error when all failed.\<close>

fun retry_OnError :: "nat \<Rightarrow> ('e, goerr + 'a) io \<Rightarrow> ('e, goerr + 'a) io" where
  "retry_OnError 0 m = ret (Inl (Sentinel ErrRetryTimeout))"
| "retry_OnError (Suc n) m = bindS m (\<lambda>r. case r of Inr a \<Rightarrow> ret (Inr a) | Inl err \<Rightarrow> if n = 0 then ret (Inl err) else retry_OnError n m)"

definition Backoff_Steps :: nat where "Backoff_Steps = 5"

definition getETCDTLS :: "'e externals \<Rightarrow> 'e cluster_api \<Rightarrow> 'e etcd_api \<Rightarrow> cluster \<Rightarrow> ('e, goerr + payload) io" where
  "getETCDTLS X A E cluster =
     bindE (retry_OnError Backoff_Steps (LoadFromSecret (x_bootstrap_ok X) (cx_server A) cluster)) (\<lambda>b. ret (et_TLS E b))"

text \<open>The first member whose name contains \<^verbatim>\<open>name\<close> and that has a peer URL at \<^verbatim>\<open>address\<close>; a URL that does not parse is an error.\<close>

fun match_urls :: "string \<Rightarrow> string list \<Rightarrow> goerr + bool" where
  "match_urls address [] = Inr False"
| "match_urls address (peerURL # urls) =
     (case url_Parse peerURL of Inl err \<Rightarrow> Inl err
      | Inr u \<Rightarrow> if url_Hostname u = address then Inr True else match_urls address urls)"

fun find_peer :: "string \<Rightarrow> string \<Rightarrow> etcd_member list \<Rightarrow> goerr + etcd_member option" where
  "find_peer name address [] = Inr None"
| "find_peer name address (member # members) =
     (if \<not> strings_Contains (em_Name member) name then find_peer name address members
      else case match_urls address (em_PeerURLs member) of Inl err \<Rightarrow> Inl err
        | Inr True \<Rightarrow> Inr (Some member) | Inr False \<Rightarrow> find_peer name address members)"

text \<open>Calls of the etcd client are logged with the member's id as the name.\<close>

definition member_meta :: "nat \<Rightarrow> object_meta" where
  "member_meta i = meta_of (nat_digits i) ''''"

definition removePeer :: "'e etcd_api \<Rightarrow> string \<Rightarrow> string \<Rightarrow> string \<Rightarrow> ('e, goerr + unit) io" where
  "removePeer E endpoint name address =
     bindE (log_call Virt VList KEtcdMember (meta_of endpoint '''') [] (et_MemberList E endpoint)) (\<lambda>members.
     case find_peer name address members of Inl err \<Rightarrow> ret (Inl err)
     | Inr None \<Rightarrow> ret (Inr ())
     | Inr (Some member) \<Rightarrow>
         bindS (log_call Virt VDelete KEtcdMember (member_meta (em_ID member)) [] (et_MemberRemove E endpoint (em_ID member))) (\<lambda>r.
         case r of Inl err \<Rightarrow> ret (if errors_Is err ErrGRPCMemberNotFound then Inr () else Inl err) | Inr _ \<Rightarrow> ret (Inr ())))"

definition pod_update :: "'e cluster_api \<Rightarrow> pod \<Rightarrow> ('e, goerr + unit) io" where
  "pod_update A pod = bindE (k_Update Host (cx_PodR A) pod) (\<lambda>_. ret (Inr ()))"

definition drop_etcd_finalizer :: "util \<Rightarrow> 'e cluster_api \<Rightarrow> pod \<Rightarrow> ('e, goerr + unit) io" where
  "drop_etcd_finalizer U A pod =
     (case RemoveFinalizer U etcdPodFinalizerName (pod_meta pod) of (changed, m) \<Rightarrow>
        if changed then pod_update A (pod\<lparr>pod_meta := m\<rparr>) else ret (Inr ()))"

definition etcd_endpoint :: "cluster \<Rightarrow> pod \<Rightarrow> string" where
  "etcd_endpoint cluster pod = ''https://'' @ ServiceName (Name (cl_meta cluster)) @ ''.'' @ Namespace (pod_meta pod) @ '':2379''"

definition handleServerPod :: "util \<Rightarrow> 'e externals \<Rightarrow> 'e cluster_api \<Rightarrow> 'e etcd_api \<Rightarrow> cluster \<Rightarrow> pod \<Rightarrow> ('e, goerr + unit) io" where
  "handleServerPod U X A E cluster pod =
     (if DeletionTimestamp (pod_meta pod) = None then
        (case AddFinalizer U etcdPodFinalizerName (pod_meta pod) of (changed, m) \<Rightarrow>
           if changed then pod_update A (pod\<lparr>pod_meta := m\<rparr>) else ret (Inr ()))
      else if Name (cl_meta cluster) = '''' then drop_etcd_finalizer U A pod
      else
        (let endpoint = etcd_endpoint cluster pod in
         bindE (getETCDTLS X A E cluster) (\<lambda>tlsConfig.
         case et_New E endpoint tlsConfig of Inl err \<Rightarrow> ret (Inl err)
         | Inr _ \<Rightarrow>
         bindE (removePeer E endpoint (Name (pod_meta pod)) (pod_PodIP (pod_Status pod))) (\<lambda>_.
         drop_etcd_finalizer U A pod))))"

text \<open>The selector of a server StatefulSet has labels only, so that it always converts.
  A missing list of pods is a nil pointer.\<close>

definition listPods :: "'e cluster_api \<Rightarrow> workload \<Rightarrow> ('e, goerr + pod list option) io" where
  "listPods A sts =
     bindS (k_List Host (cx_PodR A) \<lparr>lo_Namespace = Namespace (wk_meta sts),
         lo_Reqs = map (\<lambda>k. ReqEquals k (the (fmlookup (wk_Selector sts) k))) (sorted_list_of_fset (fmdom (wk_Selector sts)))\<rparr>) (\<lambda>r.
     case r of Inl err \<Rightarrow> ret (if IsNotFound err then Inr None else Inl err) | Inr podList \<Rightarrow> ret (Inr (Some podList)))"

definition items :: "pod list option \<Rightarrow> ('e, goerr + pod list) io" where
  "items podList = (case podList of None \<Rightarrow> ret (Inl nil_pointer) | Some pods \<Rightarrow> ret (Inr pods))"

definition handleDeletion :: "util \<Rightarrow> 'e cluster_api \<Rightarrow> workload \<Rightarrow> ('e, goerr + unit) io" where
  "handleDeletion U A sts =
     bindE (listPods A sts) (\<lambda>podList. bindE (items podList) (\<lambda>pods.
     bindE (for_each pods (drop_etcd_finalizer U A)) (\<lambda>_.
     case RemoveFinalizer U etcdPodFinalizerName (wk_meta sts) of (changed, m) \<Rightarrow>
       if changed then bindE (k_Update Host (aa_StatefulSetR (cx_agent A)) (sts\<lparr>wk_meta := m\<rparr>)) (\<lambda>_. ret (Inr ())) else ret (Inr ()))))"

definition manage_pods :: "util \<Rightarrow> 'e externals \<Rightarrow> 'e cluster_api \<Rightarrow> 'e etcd_api \<Rightarrow> cluster \<Rightarrow> pod list \<Rightarrow> ('e, goerr + unit) io" where
  "manage_pods U X A E cluster pods =
     bindE (GetClusterToken A cluster) (\<lambda>clusterToken.
     bindE (log_call Virt VGet KServerConfig (meta_of (ServiceName (Name (cl_meta cluster))) (Namespace (cl_meta cluster))) []
       (et_GetServerConfig E (ServiceName (Name (cl_meta cluster)) @ ''.'' @ Namespace (cl_meta cluster)) clusterToken)) (\<lambda>ClusterInit.
     if \<not> ClusterInit then ret (Inr ()) else for_each pods (handleServerPod U X A E cluster)))"

definition reconcile_set :: "util \<Rightarrow> 'e externals \<Rightarrow> 'e cluster_api \<Rightarrow> 'e etcd_api \<Rightarrow> workload \<Rightarrow> cluster \<Rightarrow> ('e, goerr + unit) io" where
  "reconcile_set U X A E sts cluster =
     (if DeletionTimestamp (wk_meta sts) \<noteq> None then handleDeletion U A sts
      else
        bindE (listPods A sts) (\<lambda>podList. bindE (items podList) (\<lambda>pods.
        case pods of [serverPod] \<Rightarrow>
          if DeletionTimestamp (pod_meta serverPod) \<noteq> None then drop_etcd_finalizer U A serverPod
          else manage_pods U X A E cluster pods
        | _ \<Rightarrow> manage_pods U X A E cluster pods)))"

definition StatefulSetReconciler_Reconcile :: "util \<Rightarrow> 'e externals \<Rightarrow> 'e cluster_api \<Rightarrow> 'e etcd_api \<Rightarrow> namespaced_name \<Rightarrow>
    ('e, goerr + unit) io" where
  "StatefulSetReconciler_Reconcile U X A E req =
     bindS (k_Get Host (aa_StatefulSetR (cx_agent A)) req) (\<lambda>r. case r of
       Inl err \<Rightarrow> ret (if IsNotFound err then Inr () else Inl err)
     | Inr sts \<Rightarrow>
     bindS (k_Get Host (cx_ClusterR A) (clusterNamespacedName (wk_meta sts))) (\<lambda>r. case r of
       Inl err \<Rightarrow> if IsNotFound err then reconcile_set U X A E sts empty_cluster else ret (Inl err)
     | Inr cluster \<Rightarrow> reconcile_set U X A E sts cluster))"

section \<open>Pods and services of the virtual cluster\<close>

definition PodReconciler_Reconcile :: "'e externals \<Rightarrow> 'e cluster_api \<Rightarrow> namespaced_name \<Rightarrow> ('e, goerr + unit) io" where
  "PodReconciler_Reconcile X A req =
     bindS (k_Get Host (cx_PodR A) req) (\<lambda>r. case r of
       Inl err \<Rightarrow> ret (if IsNotFound err then Inr () else Inl err)
     | Inr pod \<Rightarrow>
     (let cluster = clusterNamespacedName (pod_meta pod) in
     bindE (newVirtualClient X A (nn_Name cluster) (nn_Namespace cluster)) (\<lambda>_.
     if DeletionTimestamp (pod_meta pod) \<noteq> None then
       bindS (k_Delete Virt (cx_PodR A) (pod\<lparr>pod_meta := meta_of (mindex (Annotations (pod_meta pod)) ResourceNameAnnotation)
         (mindex (Annotations (pod_meta pod)) ResourceNamespaceAnnotation)\<rparr>)) (\<lambda>r. ret (IgnoreNotFound r))
     else ret (Inr ()))))"

definition cluster_ServiceReconciler_Reconcile :: "'e externals \<Rightarrow> 'e cluster_api \<Rightarrow> ('e, service) resource \<Rightarrow> namespaced_name \<Rightarrow>
    ('e, goerr + unit) io" where
  "cluster_ServiceReconciler_Reconcile X A R req =
     bindS (k_Get Host R req) (\<lambda>r. case r of
       Inl err \<Rightarrow> ret (if IsNotFound err then Inr () else Inl err)
     | Inr hostService \<Rightarrow>
     (case (mlookup (Annotations (svc_meta hostService)) ResourceNameAnnotation,
            mlookup (Annotations (svc_meta hostService)) ResourceNamespaceAnnotation) of
        (Some virtualServiceName, Some virtualServiceNamespace) \<Rightarrow>
          (let cluster = clusterNamespacedName (svc_meta hostService) in
          bindS (newVirtualClient X A (nn_Name cluster) (nn_Namespace cluster)) (\<lambda>r. case r of
            Inl err \<Rightarrow> ret (Inl (ErrNew (''failed to get cluster info: '' @ err_Error err)))
          | Inr _ \<Rightarrow>
          if DeletionTimestamp (svc_meta hostService) \<noteq> None then ret (Inr ())
          else
            bindS (k_Get Virt R \<lparr>nn_Namespace = virtualServiceNamespace, nn_Name = virtualServiceName\<rparr>) (\<lambda>r. case r of
              Inl err \<Rightarrow> ret (Inl (ErrNew (''failed to get virtual service: '' @ err_Error err)))
            | Inr virtualService \<Rightarrow>
              if svc_LoadBalancer virtualService \<noteq> svc_LoadBalancer hostService
              then bindE (k_StatusUpdate Virt R (virtualService\<lparr>svc_LoadBalancer := svc_LoadBalancer hostService\<rparr>)) (\<lambda>_. ret (Inr ()))
              else ret (Inr ()))))
      | _ \<Rightarrow> ret (Inr ())))"

section \<open>The member goes before the pod\<close>

text \<open>A call that removed an etcd member, or found that it is gone.\<close>

definition member_removed :: "nat \<Rightarrow> call \<Rightarrow> bool" where
  "member_removed i x \<longleftrightarrow> c_verb x = VDelete \<and> c_kind x = KEtcdMember \<and> c_meta x = member_meta i \<and>
     (case c_err x of None \<Rightarrow> True | Some err \<Rightarrow> errors_Is err ErrGRPCMemberNotFound)"



lemma retry_OnError_calls: "calls_sat P m \<Longrightarrow> calls_sat P (retry_OnError n m)"
  by (induction n) (auto intro!: calls_intro)

lemma getETCDTLS_calls:
  assumes "r_kind (cx_SecretR A) = KSecret"
  shows "calls_sat (\<lambda>x. c_kind x = KSecret) (getETCDTLS X A E cluster)"
  using assms unfolding getETCDTLS_def LoadFromSecret_def k_Get_def by (intro calls_intro retry_OnError_calls) auto

lemma removePeer_calls: "calls_sat (\<lambda>x. c_kind x = KEtcdMember) (removePeer E endpoint name address)"
  unfolding removePeer_def by (auto intro!: calls_intro)

lemma removePeer_success:
  assumes "removePeer E endpoint name address w = (Inr a, w')"
  obtains members e e' cs where "et_MemberList E endpoint e = (Inr members, e')" "w_calls w' = w_calls w @ cs"
    "find_peer name address members = Inr None \<or>
      (\<exists>m. find_peer name address members = Inr (Some m) \<and> list_ex (member_removed (em_ID m)) cs)"
  using assms unfolding removePeer_def
  by (fastforce simp: bindE_run bindS_run log_call_def ret_def member_removed_def split: prod.splits sum.splits option.splits if_splits)

lemma drop_etcd_finalizer_one:
  assumes "drop_etcd_finalizer U A pod w = (r, w')"
  shows "\<exists>cs. w_calls w' = w_calls w @ cs \<and> length cs \<le> 1"
  using assms by (auto simp: drop_etcd_finalizer_def pod_update_def bindE_run k_Update_def log_call_def ret_def split: prod.splits if_splits sum.splits)


section \<open>Finding the member of a pod\<close>

definition peer_url :: "string \<Rightarrow> string \<Rightarrow> string" where
  "peer_url h p = ''https://'' @ h @ CHR '':'' # p"

text \<open>Peer URLs the way etcd lists them, and the hosts they name.\<close>

definition regular_urls :: "string list \<Rightarrow> bool" where
  "regular_urls urls \<longleftrightarrow> (\<forall>u\<in>set urls. \<exists>h p. u = peer_url h p \<and> plain_host h \<and> list_all is_digit p)"

definition names_host :: "string \<Rightarrow> string list \<Rightarrow> bool" where
  "names_host h urls \<longleftrightarrow> (\<exists>p. list_all is_digit p \<and> peer_url h p \<in> set urls)"

lemma peer_url_Hostname:
  assumes "plain_host h" "list_all is_digit p"
  shows "\<exists>u. url_Parse (peer_url h p) = Inr u \<and> url_Hostname u = h"
proof -
  have "h = [] \<or> hd h \<noteq> CHR ''[''" using assms(1) plain_char_not [of "hd h"] by (cases h) auto
  then show ?thesis
    using url_Parse_plain [OF assms] splitHostPort_port [OF assms(2), of h] by (auto simp: peer_url_def url_Hostname_def)
qed

lemma peer_url_inj:
  assumes "peer_url h p = peer_url h' p'" "list_all is_digit p" "list_all is_digit p'"
  shows "h = h'"
proof -
  have "splitHostPort (h @ CHR '':'' # p) = splitHostPort (h' @ CHR '':'' # p')" using assms(1) by (simp add: peer_url_def)
  then have "p = p'" using assms(2,3) by (simp add: splitHostPort_port)
  then show ?thesis using assms(1) by (simp add: peer_url_def)
qed

lemma match_urls_regular: "regular_urls urls \<Longrightarrow> match_urls address urls = Inr (names_host address urls)"
proof (induction urls)
  case Nil
  then show ?case by (simp add: names_host_def)
next
  case (Cons url urls)
  then obtain h p where hp: "url = peer_url h p" "plain_host h" "list_all is_digit p" by (auto simp: regular_urls_def)
  obtain u where u: "url_Parse (peer_url h p) = Inr u" "url_Hostname u = h" using peer_url_Hostname [OF hp(2,3)] by blast
  have "names_host address (url # urls) \<longleftrightarrow> address = h \<or> names_host address urls"
    using hp peer_url_inj [of address _ h p] by (auto simp: names_host_def)
  moreover have "match_urls address urls = Inr (names_host address urls)" using Cons by (simp add: regular_urls_def)
  ultimately show ?case using u hp by auto
qed


definition wit_member :: etcd_member where
  "wit_member = \<lparr>em_ID = 7, em_Name = ''k3k-c1-server-1-a1b2'', em_PeerURLs = [''https://10.42.0.5:2380'']\<rparr>"

lemma wit_member_urls:
  "regular_urls (em_PeerURLs wit_member)" "names_host ''10.42.0.5'' (em_PeerURLs wit_member)"
proof -
  have u: "''https://10.42.0.5:2380'' = peer_url ''10.42.0.5'' ''2380''" by (simp add: peer_url_def)
  have p: "plain_host ''10.42.0.5''" "list_all is_digit ''2380''" by (simp_all add: plain_char_def is_digit_def)
  have urls: "em_PeerURLs wit_member = [peer_url ''10.42.0.5'' ''2380'']" by (simp add: wit_member_def u)
  show "regular_urls (em_PeerURLs wit_member)" using p unfolding regular_urls_def by (simp only: urls list.set) blast
  show "names_host ''10.42.0.5'' (em_PeerURLs wit_member)" using p unfolding names_host_def by (simp only: urls list.set) blast
qed

lemma wit_member_Contains: "strings_Contains (em_Name wit_member) ''k3k-c1-server-1''"
  by (simp add: wit_member_def strings_HasPrefix_def)


section \<open>Deleting a StatefulSet\<close>

lemma for_each_does:
  assumes "for_each xs f w = (Inr a, w')" "\<And>x. calls_sat (\<lambda>_. True) (f x)" "\<And>x. x \<in> set xs \<Longrightarrow> Q x \<Longrightarrow> does (P x) (f x)"
  shows "\<exists>cs. w_calls w' = w_calls w @ cs \<and> (\<forall>x\<in>set xs. Q x \<longrightarrow> list_ex (P x) cs)"
  using assms(1,3)
proof (induction xs arbitrary: w)
  case (Cons x xs)
  obtain u v where f: "f x w = (Inr u, v)" and r: "for_each xs f v = (Inr a, w')" using Cons.prems(1) by (auto simp: bindE_Inr)
  obtain c1 where c1: "w_calls v = w_calls w @ c1" using calls_sat_extends [OF assms(2) f] by blast
  obtain c2 where c2: "w_calls w' = w_calls v @ c2" "\<forall>x\<in>set xs. Q x \<longrightarrow> list_ex (P x) c2" using Cons.IH [OF r] Cons.prems(2) by auto
  have "Q x \<longrightarrow> list_ex (P x) c1" using Cons.prems(2) [of x] f c1 unfolding does_def by fastforce
  with c1 c2 show ?case by (intro exI [of _ "c1 @ c2"]) auto
qed (simp add: ret_def)

definition freed :: "pod \<Rightarrow> call \<Rightarrow> bool" where
  "freed pod y \<longleftrightarrow> c_verb y = VUpdate \<and> c_kind y = KPod \<and> key_of (c_meta y) = key_of (pod_meta pod) \<and>
     etcdPodFinalizerName \<notin> set (Finalizers (c_meta y)) \<and> c_err y = None"

lemma drop_etcd_finalizer_does:
  assumes "r_kind (cx_PodR A) = KPod" "r_meta (cx_PodR A) = pod_meta" "controllerutil U"
    and "etcdPodFinalizerName \<in> set (Finalizers (pod_meta pod))"
  shows "does (freed pod) (drop_etcd_finalizer U A pod)"
  using assms(1,2,4) unfolding drop_etcd_finalizer_def pod_update_def k_Update_def controllerutil.RemoveFinalizer_law [OF assms(3)]
  by (auto intro!: does_bindE1 does_log_call calls_sat_ret simp: freed_def key_of_def)

lemma drop_etcd_finalizer_calls:
  assumes "r_kind (cx_PodR A) = KPod"
  shows "calls_sat (\<lambda>x. c_kind x = KPod) (drop_etcd_finalizer U A pod)"
  using assms unfolding drop_etcd_finalizer_def pod_update_def k_Update_def by (auto intro!: calls_intro)

text \<open>
  C14: A deleted server StatefulSet keeps its finalizer until every one of its pods has been freed: when the run writes
  the StatefulSet, all pods of the list that carry the etcd finalizer were updated before, each without error.
\<close>

theorem set_finalizer_after_pods:
  assumes kinds: "r_kind (cx_PodR A) = KPod" "r_kind (aa_StatefulSetR (cx_agent A)) = KStatefulSet" "r_meta (cx_PodR A) = pod_meta"
    and U: "controllerutil U"
    and run: "handleDeletion U A sts w = (r, w')"
    and cs: "w_calls w' = w_calls w @ cs" and x: "x \<in> set cs" "c_kind x = KStatefulSet"
  shows "\<exists>pods v. listPods A sts w = (Inr (Some pods), v) \<and>
    (\<forall>pod\<in>set pods. etcdPodFinalizerName \<in> set (Finalizers (pod_meta pod)) \<longrightarrow> list_ex (freed pod) cs)"
proof -
  let ?last = "case RemoveFinalizer U etcdPodFinalizerName (wk_meta sts) of (changed, m) \<Rightarrow>
     if changed then bindE (k_Update Host (aa_StatefulSetR (cx_agent A)) (sts\<lparr>wk_meta := m\<rparr>)) (\<lambda>_. ret (Inr ())) else ret (Inr ())"
  let ?free = "\<lambda>pods. for_each pods (drop_etcd_finalizer U A)"
  have pods: "calls_sat (\<lambda>x. c_kind x = KPod) (?free ps)" for ps by (intro calls_intro drop_etcd_finalizer_calls [OF kinds(1)])
  have any: "calls_sat (\<lambda>_. True) (?free ps)" "calls_sat (\<lambda>_. True) (drop_etcd_finalizer U A p)" for ps p
    by (rule calls_sat_mono [OF pods], simp) (rule calls_sat_mono [OF drop_etcd_finalizer_calls [OF kinds(1)]], simp)
  have fin: "calls_sat (\<lambda>_. True) ?last" unfolding k_Update_def by (auto intro!: calls_intro)
  have rest: "calls_sat (\<lambda>_. True) (bindE (items l) (\<lambda>ps. bindE (?free ps) (\<lambda>_. ?last)))" for l
    unfolding items_def by (intro calls_intro any fin)
  have list: "calls_sat (\<lambda>x. c_kind x = KPod) (listPods A sts)"
    using kinds(1) unfolding listPods_def k_List_def by (auto intro!: calls_intro)
  obtain l v c1 d1 where 1: "listPods A sts w = (Inr l, v)" "w_calls v = w_calls w @ c1"
      "bindE (items l) (\<lambda>ps. bindE (?free ps) (\<lambda>_. ?last)) v = (r, w')" "w_calls w' = w_calls v @ d1" "cs = c1 @ d1" "x \<in> set d1"
    by (rule bindE_trace [OF list rest run [unfolded handleDeletion_def] cs x(1)]) (use x(2) in auto)
  have "l \<noteq> None"
  proof
    assume "l = None"
    with 1(3,4,6) show False by (simp add: items_def) (simp add: ret_def)
  qed
  then obtain ps where l: "l = Some ps" by blast
  have run2: "bindE (?free ps) (\<lambda>_. ?last) v = (r, w')" using 1(3) by (simp add: l items_def)
  obtain a v2 c2 d2 where 2: "?free ps v = (Inr a, v2)" "w_calls v2 = w_calls v @ c2" "d1 = c2 @ d2"
    by (rule bindE_trace [OF pods fin run2 1(4,6)]) (use x(2) in auto)
  obtain c where "w_calls v2 = w_calls v @ c"
    "\<forall>pod\<in>set ps. etcdPodFinalizerName \<in> set (Finalizers (pod_meta pod)) \<longrightarrow> list_ex (freed pod) c"
    using for_each_does [OF 2(1) any(2), where Q = "\<lambda>pod. etcdPodFinalizerName \<in> set (Finalizers (pod_meta pod))" and P = freed]
      drop_etcd_finalizer_does [OF kinds(1,3) U] by blast
  with 1 2 l show ?thesis by (intro exI [of _ ps] exI [of _ v]) (auto simp: list_ex_iff)
qed

section \<open>Deletions reach the virtual cluster\<close>

lemma does_bindS_res:
  assumes "calls_sat Q m" "\<And>w r w'. m w = (r, w') \<Longrightarrow> does P (f r)"
  shows "does P (bindS m f)"
  unfolding does_def
proof (intro allI impI)
  fix w b w'
  assume "bindS m f w = (Inr b, w')"
  then obtain r v where m: "m w = (r, v)" and f: "f r v = (Inr b, w')" by (auto simp: bindS_run split: prod.splits)
  obtain c1 where "w_calls v = w_calls w @ c1" using calls_sat_extends [OF assms(1) m] by blast
  moreover obtain c2 where "w_calls w' = w_calls v @ c2" "list_ex P c2" using assms(2) [OF m] f unfolding does_def by blast
  ultimately show "\<exists>cs. w_calls w' = w_calls w @ cs \<and> list_ex P cs" by (intro exI [of _ "c1 @ c2"]) simp
qed

lemma does_log_then:
  "(\<And>e. P \<lparr>c_side = s, c_verb = v, c_kind = k, c_meta = m, c_reqs = rs, c_err = e\<rparr>) \<Longrightarrow>
    does P (bindS (log_call s v k m rs f) (\<lambda>r. ret (g r)))"
  by (auto simp: does_def log_call_def bindS_run ret_def split: prod.splits)

text \<open>
  C17: Deleting a host pod deletes its virtual pod and nothing else: for a host pod with the metadata that translation gave
  it, the only write of the reconciliation is a delete, in the virtual cluster, of the pod it was translated from, and
  when the host pod is being deleted, every reconciliation that succeeds has made it.
\<close>

definition virtual_delete :: "object_meta \<Rightarrow> call \<Rightarrow> bool" where
  "virtual_delete m x \<longleftrightarrow> c_side x = Virt \<and> c_verb x = VDelete \<and> c_kind x = KPod \<and> key_of (c_meta x) = key_of m"

theorem pod_deletion_propagates:
  assumes kinds: "r_kind (cx_PodR A) = KPod" "r_meta (cx_PodR A) = pod_meta"
    and get: "\<And>e. fst (cli_Get (r_cli (cx_PodR A) Host) req e) = Inr pod"
    and tr: "Annotations (pod_meta pod) = Annotations (TranslateTo t m)"
  shows "calls_sat (\<lambda>x. is_write x \<longrightarrow> DeletionTimestamp (pod_meta pod) \<noteq> None \<and> virtual_delete m x) (PodReconciler_Reconcile X A req) \<and>
    (DeletionTimestamp (pod_meta pod) \<noteq> None \<longrightarrow> does (virtual_delete m) (PodReconciler_Reconcile X A req))"
proof -
  have names: "mindex (Annotations (pod_meta pod)) ResourceNameAnnotation = Name m"
    "mindex (Annotations (pod_meta pod)) ResourceNamespaceAnnotation = Namespace m"
    by (simp_all add: tr TranslateTo_def Let_def mindex_def)
  have got: "r = Inr pod" if "k_Get Host (cx_PodR A) req w = (r, w')" for r w w'
    using that get [of "w_env w"] by (auto simp: k_Get_def log_call_def split: prod.splits)
  have reads: "calls_sat (\<lambda>x. is_write x \<longrightarrow> P x) (k_Get s R key)" "calls_sat (\<lambda>x. is_write x \<longrightarrow> P x) (newVirtualClient X A n ns)"
    for s R key P n ns
    unfolding newVirtualClient_def k_Get_def by (auto intro!: calls_intro)
  have any: "calls_sat (\<lambda>_. True) (k_Get s R key)" "calls_sat (\<lambda>_. True) (newVirtualClient X A n ns)" for s R key n ns
    by (rule calls_sat_mono [OF reads(1)], simp) (rule calls_sat_mono [OF reads(2)], simp)
  have writes: "calls_sat (\<lambda>x. is_write x \<longrightarrow> DeletionTimestamp (pod_meta pod) \<noteq> None \<and> virtual_delete m x) (PodReconciler_Reconcile X A req)"
    unfolding PodReconciler_Reconcile_def Let_def
    by (rule calls_sat_bindS_res [OF reads(1)])
      (auto dest!: got simp: virtual_delete_def k_Delete_def kinds names key_of_def intro!: calls_intro reads(2))
  have "does (virtual_delete m) (PodReconciler_Reconcile X A req)" if "DeletionTimestamp (pod_meta pod) \<noteq> None"
    unfolding PodReconciler_Reconcile_def Let_def
    by (rule does_bindS_res [OF any(1)])
      (use that in \<open>auto dest!: got simp: k_Delete_def kinds names key_of_def virtual_delete_def intro!: does_bindE2 any(2) does_log_then\<close>)
  with writes show ?thesis by blast
qed

section \<open>A host with a deleted server pod\<close>

definition wit_server_pod :: pod where
  "wit_server_pod = (pod_of ((meta_of ''k3k-c1-server-1'' ''ns1'')\<lparr>Finalizers := [etcdPodFinalizerName], DeletionTimestamp := Some ''now''\<rparr>))
     \<lparr>pod_Status := \<lparr>pod_Phase = ''Running'', pod_PodIP = ''10.42.0.5'', pod_HostIP = ''172.18.0.2'', pod_status_rest = []\<rparr>\<rparr>"

definition wit_set_api :: "unit cluster_api" where
  "wit_set_api = wit_cluster_api\<lparr>cx_PodR :=
     \<lparr>r_kind = KPod, r_meta = pod_meta, r_cli = (\<lambda>s. (r_cli (full_resource KPod pod_meta (\<lambda>_. wit_server_pod)) s)
       \<lparr>cli_List := (\<lambda>_ e. (Inr [wit_server_pod], e))\<rparr>)\<rparr>\<rparr>"

definition wit_etcd :: "unit etcd_api" where
  "wit_etcd =
     \<lparr>et_GetServerConfig = (\<lambda>_ _ e. (Inr True, e)), et_TLS = Inr, et_New = (\<lambda>_ _. Inr ()),
      et_MemberList = (\<lambda>_ e. (Inr [wit_member], e)), et_MemberRemove = (\<lambda>_ _ e. (Inr (), e))\<rparr>"

definition wit_set :: workload where
  "wit_set =
     \<lparr>wk_meta = (meta_of ''k3k-c1-server'' ''ns1'')\<lparr>Finalizers := [etcdPodFinalizerName], DeletionTimestamp := Some ''now''\<rparr>,
      wk_Replicas = Some 3, wk_ServiceName = '''', wk_PodManagementPolicy = '''', wk_Selector = fmempty, wk_TemplateLabels = fmempty,
      wk_TemplateAnnotations = None, wk_Template = empty_wl_pod_spec, wk_VolumeClaimTemplates = []\<rparr>"

lemma wit_set_kinds:
  "r_kind (cx_PodR wit_set_api) = KPod" "r_kind (cx_SecretR wit_set_api) = KSecret" "r_meta (cx_PodR wit_set_api) = pod_meta"
  "r_kind (aa_StatefulSetR (cx_agent wit_set_api)) = KStatefulSet"
  by (simp_all add: wit_set_api_def wit_cluster_api_def wit_agent_api_def)

lemma wit_peer: "find_peer ''k3k-c1-server-1'' ''10.42.0.5'' [wit_member] = Inr (Some wit_member)"
  using wit_member_Contains by (simp only: find_peer.simps match_urls_regular [OF wit_member_urls(1)] wit_member_urls(2)) simp

lemmas wit_run_defs =
  Let_def bindE_run bindS_run k_Get_def k_Update_def k_List_def k_Delete_def log_call_def ret_def wit_set_api_def wit_cluster_api_def
  wit_agent_api_def full_resource_def mem_resource_def mem_client_def ref_util_def wit_externals_def
  wit_shared_cluster_def wit_cluster_def empty_cluster_def

lemma wit_pod_freed:
  "\<exists>w'. handleServerPod ref_util wit_externals wit_set_api wit_etcd wit_shared_cluster wit_server_pod wit_world = (Inr (), w') \<and>
    list_ex (\<lambda>x. c_kind x = KPod) (w_calls w')"
  by (simp add: handleServerPod_def wit_server_pod_def wit_run_defs getETCDTLS_def Backoff_Steps_def LoadFromSecret_def numeral_eq_Suc
      wit_secret_def wit_etcd_def removePeer_def wit_peer drop_etcd_finalizer_def pod_update_def pod_of_def del: find_peer.simps)


lemma wit_set_deleted:
  "\<exists>w'. handleDeletion ref_util wit_set_api wit_set wit_world = (Inl not_found_err, w') \<and> list_ex (\<lambda>x. c_kind x = KStatefulSet) (w_calls w')"
  by (simp add: handleDeletion_def listPods_def items_def wit_set_def wit_server_pod_def wit_run_defs drop_etcd_finalizer_def pod_update_def
      pod_of_def)

theorem set_finalizer_after_pods_witness:
  "\<exists>w'. handleDeletion ref_util wit_set_api wit_set wit_world = (Inl not_found_err, w') \<and> list_ex (freed wit_server_pod) (w_calls w')"
proof -
  obtain w' x where run: "handleDeletion ref_util wit_set_api wit_set wit_world = (Inl not_found_err, w')"
    and x: "x \<in> set (w_calls w')" "c_kind x = KStatefulSet" using wit_set_deleted by (auto simp: list_ex_iff)
  have "w_calls w' = w_calls (wit_world :: unit world) @ w_calls w'" by simp
  from set_finalizer_after_pods [OF wit_set_kinds(1,4,3) ref.controllerutil_axioms run this x]
  obtain pods v where "listPods wit_set_api wit_set wit_world = (Inr (Some pods), v)"
    "\<forall>pod\<in>set pods. etcdPodFinalizerName \<in> set (Finalizers (pod_meta pod)) \<longrightarrow> list_ex (freed pod) (w_calls w')" by blast
  moreover from this(1) have "pods = [wit_server_pod]" by (auto simp: listPods_def wit_run_defs)
  ultimately show ?thesis using run by (simp add: wit_server_pod_def pod_of_def)
qed

definition wit_translator :: to_host_translator where
  "wit_translator = \<lparr>tr_ClusterName = ''c1'', tr_ClusterNamespace = ''ns1''\<rparr>"

definition wit_copy :: pod where
  "wit_copy = pod_of ((TranslateTo wit_translator (meta_of ''web'' ''default''))\<lparr>DeletionTimestamp := Some ''now''\<rparr>)"

theorem pod_deletion_propagates_witness:
  "does (virtual_delete (meta_of ''web'' ''default''))
    (PodReconciler_Reconcile wit_externals (wit_cluster_api\<lparr>cx_PodR := full_resource KPod pod_meta (\<lambda>_. wit_copy)\<rparr>) (key_of (pod_meta wit_copy)))"
proof -
  let ?A = "wit_cluster_api\<lparr>cx_PodR := full_resource KPod pod_meta (\<lambda>_. wit_copy)\<rparr>"
  have "r_kind (cx_PodR ?A) = KPod" "r_meta (cx_PodR ?A) = pod_meta" by simp_all
  moreover have "fst (cli_Get (r_cli (cx_PodR ?A) Host) req e) = Inr wit_copy" for req e by (simp add: full_resource_def)
  moreover have "Annotations (pod_meta wit_copy) = Annotations (TranslateTo wit_translator (meta_of ''web'' ''default''))"
    "DeletionTimestamp (pod_meta wit_copy) \<noteq> None" by (simp_all add: wit_copy_def pod_of_def)
  ultimately show ?thesis using pod_deletion_propagates [of ?A] by blast
qed

end
