(* ===== verification/K3sClient.thy ===== *)
theory K3sClient
  imports Cluster NetURL Base64
begin

text \<open>
  \<^verbatim>\<open>pkg/k3s\<close> and \<^verbatim>\<open>server/bootstrap\<close>: the client of the internal API of a k3s server. The transport of HTTP, the JSON codecs of the
  messages, the executor of commands in pods and the parser of key pairs are the parameter \<^verbatim>\<open>k3s_net\<close>; requests, headers, error mapping,
  the decoding of certificates and the choice of the source of bootstrap data are modelled. A JSON \<^verbatim>\<open>null\<close> decodes to a nil
  pointer, so codecs of pointers return an option.
\<close>

section \<open>Requests\<close>

record client_config =
  kc_AgentIP :: string
  kc_NodeName :: string
  kc_PodIP :: string
  kc_ServerIP :: string
  kc_Token :: string

record http_request =
  rq_Method :: string
  rq_URL :: string
  rq_User :: string
  rq_Password :: string
  rq_Headers :: "(string \<times> string) list"
  rq_Body :: "payload option"

record http_response =
  rs_StatusCode :: int
  rs_Body :: "goerr + payload"

record meta_status =
  mst_Status :: string
  mst_Message :: string
  mst_Reason :: api_reason

record certificate =
  ct_Timestamp :: string
  ct_Content :: string

record bootstrap_data =
  bd_ServerCA :: certificate
  bd_ServerCAKey :: certificate
  bd_ClientCA :: certificate
  bd_ClientCAKey :: certificate
  bd_ETCDServerCA :: certificate
  bd_ETCDServerCAKey :: certificate

record etcd_s3 =
  s3_AccessKey :: string
  s3_Bucket :: string
  s3_BucketLookup :: string
  s3_Endpoint :: string
  s3_EndpointCA :: string
  s3_Folder :: string
  s3_Proxy :: string
  s3_Region :: string
  s3_SecretKey :: string
  s3_SessionToken :: string
  s3_Insecure :: bool
  s3_SkipSSLVerify :: bool
  s3_Retention :: int
  s3_Timeout :: int

record snapshot_request =
  sq_Operation :: string
  sq_Name :: "string list"
  sq_Compress :: "bool option"
  sq_S3 :: "etcd_s3 option"

record snapshot_response =
  sr_Created :: "string list"
  sr_Deleted :: "string list"

record snapshot_file =
  sf_SnapshotName :: string
  sf_Location :: string

text \<open>The request of a command in a pod, of which the code reads the standard output.\<close>

record exec_request =
  er_Name :: string
  er_Namespace :: string
  er_SubResource :: string
  er_Command :: "string list"
  er_Stdout :: bool

type_synonym ('e, 'a) net = "'e \<Rightarrow> (goerr + 'a) \<times> 'e"

record 'e k3s_net =
  n_Do :: "http_request \<Rightarrow> ('e, http_response) net"
  n_encode :: "snapshot_request \<Rightarrow> goerr + payload"
  n_status :: "payload \<Rightarrow> goerr + meta_status"
  n_config :: "payload \<Rightarrow> goerr + bool option"
  n_bootstrap :: "payload \<Rightarrow> goerr + bootstrap_data option"
  n_response :: "payload \<Rightarrow> goerr + snapshot_response option"
  n_files :: "payload \<Rightarrow> goerr + snapshot_file list option"
  n_encode_bootstrap :: "bootstrap_data \<Rightarrow> payload"
  n_clientset :: "goerr + unit"
  n_AddToScheme :: "goerr + unit"
  n_NewSPDYExecutor :: "exec_request \<Rightarrow> goerr + payload"
  n_Stream :: "payload \<Rightarrow> ('e, payload) net"
  n_X509KeyPair :: "payload \<Rightarrow> goerr + payload"

definition retN :: "goerr + 'a \<Rightarrow> ('e, 'a) net" where
  "retN r = (\<lambda>e. (r, e))"

definition bindN :: "('e, 'a) net \<Rightarrow> ('a \<Rightarrow> ('e, 'b) net) \<Rightarrow> ('e, 'b) net" where
  "bindN m f = (\<lambda>e. case m e of (Inl err, e) \<Rightarrow> (Inl err, e) | (Inr a, e) \<Rightarrow> f a e)"

text \<open>Reading through a pointer.\<close>

definition deref :: "goerr + 'a option \<Rightarrow> goerr + 'a" where
  "deref r = (case r of Inl err \<Rightarrow> Inl err | Inr None \<Rightarrow> Inl nil_pointer | Inr (Some x) \<Rightarrow> Inr x)"

definition client_for :: "string \<Rightarrow> string \<Rightarrow> client_config" where
  "client_for serverIP token = \<lparr>kc_AgentIP = '''', kc_NodeName = '''', kc_PodIP = '''', kc_ServerIP = serverIP, kc_Token = token\<rparr>"

definition static_headers :: "client_config \<Rightarrow> (string \<times> string) list" where
  "static_headers config =
     (let nodeIPs = filter (\<lambda>ip. ip \<noteq> '''') [kc_AgentIP config, kc_PodIP config]
      in (if kc_Token config \<noteq> '''' then [(''K3s-Node-Password'', kc_Token config)] else []) @
         (if kc_NodeName config \<noteq> '''' then [(''K3s-Node-Name'', kc_NodeName config)] else []) @
         (if nodeIPs \<noteq> [] then [(''K3s-Node-Ip'', strings_Join nodeIPs '','')] else []))"

definition statusError :: "'e k3s_net \<Rightarrow> http_response \<Rightarrow> goerr" where
  "statusError N resp =
     (case (case rs_Body resp of Inl err \<Rightarrow> Inl err | Inr body \<Rightarrow> n_status N body) of
        Inl err \<Rightarrow> ErrWrap ''failed to unmarshal response body for failed request'' [err]
      | Inr status \<Rightarrow>
          if mst_Status status \<noteq> ''Failure''
          then ErrNew (''error status did not match failed request status: '' @ mst_Status status @ '': '' @ mst_Message status)
          else ApiErr (mst_Reason status) (mst_Message status))"

definition client_do :: "'e k3s_net \<Rightarrow> client_config \<Rightarrow> string \<Rightarrow> string \<Rightarrow> string \<Rightarrow> payload option \<Rightarrow> ('e, payload) net" where
  "client_do N c endpoint user method body =
     (let u = ''https://'' @ kc_ServerIP c @ endpoint in
      case url_Parse u of Inl err \<Rightarrow> retN (Inl err)
      | Inr _ \<Rightarrow> (\<lambda>e.
          case n_Do N \<lparr>rq_Method = method, rq_URL = u, rq_User = user, rq_Password = kc_Token c, rq_Headers = static_headers c, rq_Body = body\<rparr> e of
            (Inl err, e) \<Rightarrow> (Inl (if errors_Is err ErrConnectionRefused then Sentinel ErrServerNotReady else err), e)
          | (Inr resp, e) \<Rightarrow>
              (if rs_StatusCode resp < 200 \<or> rs_StatusCode resp > 299
               then Inl (ErrWrap (''failed executing '' @ quote @ endpoint @ quote @ '' request to k3s server'') [statusError N resp])
               else rs_Body resp, e)))"

definition get_json :: "'e k3s_net \<Rightarrow> client_config \<Rightarrow> string \<Rightarrow> string \<Rightarrow> (payload \<Rightarrow> goerr + 'a) \<Rightarrow> ('e, 'a) net" where
  "get_json N c endpoint user unmarshal = bindN (client_do N c endpoint user ''GET'' None) (\<lambda>body. retN (unmarshal body))"

definition post_snapshot :: "'e k3s_net \<Rightarrow> client_config \<Rightarrow> snapshot_request \<Rightarrow> (payload \<Rightarrow> goerr + 'a) \<Rightarrow> ('e, 'a) net" where
  "post_snapshot N c req unmarshal =
     (case n_encode N req of Inl err \<Rightarrow> retN (Inl err)
      | Inr b \<Rightarrow> bindN (client_do N c ''/db/snapshot'' ''server'' ''POST'' (Some b)) (\<lambda>body. retN (unmarshal body)))"

section \<open>Bootstrap data\<close>

definition GetServerConfig :: "'e k3s_net \<Rightarrow> client_config \<Rightarrow> ('e, bool option) net" where
  "GetServerConfig N c = get_json N c ''/v1-k3s/config'' ''node'' (n_config N)"

definition decode_cert :: "certificate \<Rightarrow> goerr + certificate" where
  "decode_cert c = (case base64_DecodeString (ct_Content c) of Inl err \<Rightarrow> Inl err | Inr decoded \<Rightarrow> Inr (c\<lparr>ct_Content := decoded\<rparr>))"

definition decode :: "bootstrap_data \<Rightarrow> goerr + bootstrap_data" where
  "decode data =
     bindR (decode_cert (bd_ClientCA data)) (\<lambda>c. let data = data\<lparr>bd_ClientCA := c\<rparr> in
     bindR (decode_cert (bd_ClientCAKey data)) (\<lambda>c. let data = data\<lparr>bd_ClientCAKey := c\<rparr> in
     bindR (decode_cert (bd_ServerCA data)) (\<lambda>c. let data = data\<lparr>bd_ServerCA := c\<rparr> in
     bindR (decode_cert (bd_ServerCAKey data)) (\<lambda>c. let data = data\<lparr>bd_ServerCAKey := c\<rparr> in
     bindR (decode_cert (bd_ETCDServerCA data)) (\<lambda>c. let data = data\<lparr>bd_ETCDServerCA := c\<rparr> in
     bindR (decode_cert (bd_ETCDServerCAKey data)) (\<lambda>c. Inr (data\<lparr>bd_ETCDServerCAKey := c\<rparr>)))))))"

definition GetServerBootstrap :: "'e k3s_net \<Rightarrow> client_config \<Rightarrow> ('e, bootstrap_data) net" where
  "GetServerBootstrap N c =
     bindN (get_json N c ''/v1-k3s/server-bootstrap'' ''server'' (\<lambda>body. deref (n_bootstrap N body))) (\<lambda>bootstrap.
     retN (case decode bootstrap of Inl err \<Rightarrow> Inl (ErrWrap ''failed to decode bootstrap secret'' [err]) | Inr data \<Rightarrow> Inr data))"

definition podExec :: "'e k3s_net \<Rightarrow> string \<Rightarrow> string \<Rightarrow> string list \<Rightarrow> ('e, payload) net" where
  "podExec N namespace name command =
     (let req = \<lparr>er_Name = name, er_Namespace = namespace, er_SubResource = ''exec'', er_Command = command, er_Stdout = True\<rparr> in
      case n_AddToScheme N of Inl err \<Rightarrow> retN (Inl (ErrNew (''error adding to scheme: '' @ err_Error err)))
      | Inr _ \<Rightarrow>
        (case n_NewSPDYExecutor N req of Inl err \<Rightarrow> retN (Inl (ErrNew (''error while creating Executor: '' @ err_Error err)))
         | Inr exec \<Rightarrow> (\<lambda>e. case n_Stream N exec e of
             (Inl err, e) \<Rightarrow> (Inl (ErrNew (''error in Stream: '' @ err_Error err)), e)
           | (Inr stdout, e) \<Rightarrow> (Inr stdout, e))))"

fun read_certs :: "'e k3s_net \<Rightarrow> string \<Rightarrow> string \<Rightarrow> string list \<Rightarrow> ('e, smap) net" where
  "read_certs N namespace pod [] = retN (Inr fmempty)"
| "read_certs N namespace pod (certName # certs) =
     bindN (podExec N namespace pod [''cat'', filepath_Join [''/var/lib/rancher/k3s/server/tls/'', certName]]) (\<lambda>certData.
     bindN (read_certs N namespace pod certs) (\<lambda>m. retN (Inr (fmupd certName certData m))))"

definition bootstrap_cert_names :: "string fset" where
  "bootstrap_cert_names = {|''server-ca.crt'', ''server-ca.key'', ''client-ca.crt'', ''client-ca.key''|}"

definition ReadBootstrapFromK3sPod :: "(string fset \<Rightarrow> string list) \<Rightarrow> 'e k3s_net \<Rightarrow> string \<Rightarrow> string \<Rightarrow> ('e, bootstrap_data) net" where
  "ReadBootstrapFromK3sPod ord N clusterName clusterNamespace =
     bindN (retN (n_clientset N)) (\<lambda>_.
     bindN (read_certs N clusterNamespace (SafeConcatNameWithPrefix [clusterName, ''server-0'']) (ord bootstrap_cert_names)) (\<lambda>certs.
     let crt = (\<lambda>name. \<lparr>ct_Timestamp = '''', ct_Content = mindex (Some certs) name\<rparr>); none = \<lparr>ct_Timestamp = '''', ct_Content = ''''\<rparr> in
     retN (Inr \<lparr>bd_ServerCA = crt ''server-ca.crt'', bd_ServerCAKey = crt ''server-ca.key'', bd_ClientCA = crt ''client-ca.crt'',
       bd_ClientCAKey = crt ''client-ca.key'', bd_ETCDServerCA = none, bd_ETCDServerCAKey = none\<rparr>)))"

definition Fetch :: "(string fset \<Rightarrow> string list) \<Rightarrow> 'e k3s_net \<Rightarrow> client_config \<Rightarrow> cluster \<Rightarrow> ('e, bootstrap_data) net" where
  "Fetch ord N c cluster =
     bindN (GetServerConfig N c) (\<lambda>config.
     bindN (retN (deref (Inr config))) (\<lambda>ClusterInit.
     if ClusterInit then GetServerBootstrap N c
     else ReadBootstrapFromK3sPod ord N (Name (cl_meta cluster)) (Namespace (cl_meta cluster))))"

definition GetServingKubeletCrt :: "'e k3s_net \<Rightarrow> client_config \<Rightarrow> ('e, payload) net" where
  "GetServingKubeletCrt N c = bindN (client_do N c ''/v1-k3s/serving-kubelet.crt'' ''node'' ''GET'' None) (\<lambda>data. retN (n_X509KeyPair N data))"

text \<open>What the cluster controller gets: the data in the form it is stored in.\<close>

definition fetch_payload :: "(string fset \<Rightarrow> string list) \<Rightarrow> 'e k3s_net \<Rightarrow> string \<Rightarrow> string \<Rightarrow> cluster \<Rightarrow> ('e, payload) net" where
  "fetch_payload ord N serviceIP token cluster =
     bindN (Fetch ord N (client_for serviceIP token) cluster) (\<lambda>data. retN (Inr (n_encode_bootstrap N data)))"

section \<open>Certificates come back\<close>

definition encode_cert :: "certificate \<Rightarrow> certificate" where
  "encode_cert c = c\<lparr>ct_Content := base64_EncodeToString (ct_Content c)\<rparr>"

definition encode_data :: "bootstrap_data \<Rightarrow> bootstrap_data" where
  "encode_data d =
     \<lparr>bd_ServerCA = encode_cert (bd_ServerCA d), bd_ServerCAKey = encode_cert (bd_ServerCAKey d), bd_ClientCA = encode_cert (bd_ClientCA d),
      bd_ClientCAKey = encode_cert (bd_ClientCAKey d), bd_ETCDServerCA = encode_cert (bd_ETCDServerCA d),
      bd_ETCDServerCAKey = encode_cert (bd_ETCDServerCAKey d)\<rparr>"

lemma decode_encode_cert [simp]: "decode_cert (encode_cert c) = Inr c"
  by (simp add: decode_cert_def encode_cert_def)

text \<open>
  The certificates of the bootstrap endpoint come back whole: decoding data all of whose certificates are encoded in
  base64, the way the endpoint serves them, gives the data that was encoded, time stamps included.
\<close>

theorem bootstrap_decode_roundtrip: "decode (encode_data d) = Inr d"
  by (simp add: decode_def encode_data_def bindR_def Let_def)

lemma client_do_refused:
  assumes "\<And>rq e. \<exists>err e'. n_Do N rq e = (Inl err, e') \<and> errors_Is err ErrConnectionRefused"
    and "url_Parse (''https://'' @ kc_ServerIP c @ endpoint) = Inr u"
  shows "fst (client_do N c endpoint user method body e) = Inl (Sentinel ErrServerNotReady)"
proof -
  let ?rq = "\<lparr>rq_Method = method, rq_URL = ''https://'' @ kc_ServerIP c @ endpoint, rq_User = user, rq_Password = kc_Token c,
    rq_Headers = static_headers c, rq_Body = body\<rparr>"
  obtain err e' where "n_Do N ?rq e = (Inl err, e')" "errors_Is err ErrConnectionRefused" using assms(1) [of ?rq e] by blast
  then show ?thesis using assms(2) by (simp add: client_do_def Let_def)
qed

lemma fetch_payload_refused:
  assumes "\<And>rq e. \<exists>err e'. n_Do N rq e = (Inl err, e') \<and> errors_Is err ErrConnectionRefused"
    and "url_Parse (''https://'' @ serviceIP @ ''/v1-k3s/config'') = Inr u"
  shows "fst (fetch_payload ord N serviceIP token cluster e) = Inl (Sentinel ErrServerNotReady)"
proof -
  have "fst (client_do N (client_for serviceIP token) ''/v1-k3s/config'' ''node'' ''GET'' None e) = Inl (Sentinel ErrServerNotReady)"
    by (rule client_do_refused [OF assms(1)]) (use assms(2) in \<open>simp_all add: client_for_def\<close>)
  then show ?thesis
    by (auto simp: fetch_payload_def Fetch_def GetServerConfig_def get_json_def bindN_def split: prod.splits sum.splits)
qed

end
