(* ===== verification/Snapshot.thy ===== *)
theory Snapshot
  imports K3sClient Provisioned
begin

text \<open>
  \<^verbatim>\<open>pkg/controller/snapshot\<close> with the snapshot requests of \<^verbatim>\<open>pkg/k3s\<close>: \<^verbatim>\<open>EtcdSnapshot\<close> objects ask for a snapshot of the etcd of a
  virtual cluster, on its disk or in S3. The handler changes the object in memory and keeps what it changed after an error,
  so its parts return the object beside their result. The parser of durations is a parameter.
\<close>

section \<open>Types\<close>

record etcd_snapshot_spec =
  ClusterRef :: string
  S3ConfigSecretRef :: "secret_reference option"
  Compress :: bool

record etcd_snapshot_status =
  Filename :: string
  sn_Conditions :: "condition list"

record etcd_snapshot =
  sn_meta :: object_meta
  sn_Spec :: etcd_snapshot_spec
  sn_Status :: etcd_snapshot_status

type_synonym ('e, 'a) sn_step = "etcd_snapshot \<Rightarrow> ('e, (goerr + 'a) \<times> etcd_snapshot) io"

section \<open>Requests to the k3s server\<close>

definition SaveSnapshot :: "'e k3s_net \<Rightarrow> client_config \<Rightarrow> etcd_snapshot \<Rightarrow> etcd_s3 option \<Rightarrow> ('e, snapshot_response option) net" where
  "SaveSnapshot N c snapshot s3Config = (\<lambda>e.
     case post_snapshot N c \<lparr>sq_Operation = ''save'', sq_Name = [Name (sn_meta snapshot)], sq_Compress = Some (Compress (sn_Spec snapshot)),
         sq_S3 = s3Config\<rparr> (n_response N) e of
       (Inl err, e) \<Rightarrow> (Inl (ErrWrap '''' [Sentinel ErrSaveSnapshot, err]), e) | (Inr r, e) \<Rightarrow> (Inr r, e))"

definition ListSnapshots :: "'e k3s_net \<Rightarrow> client_config \<Rightarrow> etcd_s3 option \<Rightarrow> ('e, snapshot_file list option) net" where
  "ListSnapshots N c s3Config = (\<lambda>e.
     case post_snapshot N c \<lparr>sq_Operation = ''list'', sq_Name = [], sq_Compress = None, sq_S3 = s3Config\<rparr> (n_files N) e of
       (Inl err, e) \<Rightarrow> (Inl (ErrWrap '''' [Sentinel ErrListSnapshots, err]), e) | (Inr r, e) \<Rightarrow> (Inr r, e))"

definition DeleteSnapshot :: "'e k3s_net \<Rightarrow> client_config \<Rightarrow> etcd_snapshot \<Rightarrow> etcd_s3 option \<Rightarrow> ('e, snapshot_response) net" where
  "DeleteSnapshot N c snapshot s3Config = (\<lambda>e.
     case post_snapshot N c \<lparr>sq_Operation = ''delete'', sq_Name = [Filename (sn_Status snapshot)], sq_Compress = None, sq_S3 = s3Config\<rparr>
         (n_response N) e of
       (Inl err, e) \<Rightarrow> (Inl (ErrWrap '''' [Sentinel ErrDeleteSnapshot, err]), e)
     | (Inr r, e) \<Rightarrow>
         (case deref (Inr r) of Inl err \<Rightarrow> (Inl err, e)
          | Inr resp \<Rightarrow> if Filename (sn_Status snapshot) \<notin> set (sr_Deleted resp) then (Inl (Sentinel ErrSnapshotNotFound), e)
              else (Inr resp, e)))"

section \<open>S3 configuration\<close>

definition DefaultEtcdS3 :: etcd_s3 where
  "DefaultEtcdS3 =
     \<lparr>s3_AccessKey = '''', s3_Bucket = '''', s3_BucketLookup = '''', s3_Endpoint = ''s3.amazonaws.com'', s3_EndpointCA = '''', s3_Folder = '''',
      s3_Proxy = '''', s3_Region = ''us-east-1'', s3_SecretKey = '''', s3_SessionToken = '''', s3_Insecure = False, s3_SkipSSLVerify = False,
      s3_Retention = 5, s3_Timeout = 300000000000\<rparr>"

definition strconv_ParseBool :: "string \<Rightarrow> goerr + bool" where
  "strconv_ParseBool s =
     (if s \<in> set [''1'', ''t'', ''T'', ''true'', ''TRUE'', ''True''] then Inr True
      else if s \<in> set [''0'', ''f'', ''F'', ''false'', ''FALSE'', ''False''] then Inr False
      else Inl (ErrNew ''strconv.ParseBool''))"

text \<open>An optional key of the secret, parsed when it is there.\<close>

definition parsed :: "smap option \<Rightarrow> string \<Rightarrow> (string \<Rightarrow> goerr + 'a) \<Rightarrow> 'a \<Rightarrow> goerr + 'a" where
  "parsed data key parse dflt =
     (case mlookup data key of None \<Rightarrow> Inr dflt
      | Some v \<Rightarrow> (case parse v of Inl err \<Rightarrow> Inl (ErrWrap (''failed to parse '' @ key @ '' value from S3 config secret'') [err]) | Inr x \<Rightarrow> Inr x))"

definition s3_from_data :: "(string \<Rightarrow> goerr + int) \<Rightarrow> smap option \<Rightarrow> goerr + etcd_s3" where
  "s3_from_data ParseDuration data =
     bindR (parsed data ''etcd-s3-timeout'' ParseDuration (s3_Timeout DefaultEtcdS3)) (\<lambda>timeout.
     bindR (parsed data ''etcd-s3-retention'' strconv_Atoi (s3_Retention DefaultEtcdS3)) (\<lambda>retention.
     bindR (parsed data ''etcd-s3-skip-ssl-verify'' strconv_ParseBool False) (\<lambda>skip.
     bindR (parsed data ''etcd-s3-insecure'' strconv_ParseBool False) (\<lambda>insecure.
     Inr \<lparr>s3_AccessKey = mindex data ''etcd-s3-access-key'', s3_Bucket = mindex data ''etcd-s3-bucket'',
       s3_BucketLookup = mindex data ''etcd-s3-bucket-lookup-type'',
       s3_Endpoint = (case mlookup data ''etcd-s3-endpoint'' of Some v \<Rightarrow> v | None \<Rightarrow> s3_Endpoint DefaultEtcdS3), s3_EndpointCA = '''',
       s3_Folder = mindex data ''etcd-s3-folder'', s3_Proxy = mindex data ''etcd-s3-proxy'',
       s3_Region = (case mlookup data ''etcd-s3-region'' of Some v \<Rightarrow> v | None \<Rightarrow> s3_Region DefaultEtcdS3),
       s3_SecretKey = mindex data ''etcd-s3-secret-key'', s3_SessionToken = mindex data ''etcd-s3-session-token'',
       s3_Insecure = insecure, s3_SkipSSLVerify = skip, s3_Retention = retention, s3_Timeout = timeout\<rparr>))))"

definition ca_bundles :: "(string fset \<Rightarrow> string list) \<Rightarrow> config_map \<Rightarrow> string list" where
  "ca_bundles ord configMap =
     (let values = (\<lambda>m. map (\<lambda>k. base64_EncodeToString (mindex m k)) (ord (fmdom (minit m))))
      in values (cm_Data configMap) @ values (cm_BinaryData configMap))"

definition getS3ConfigFromSecret :: "(string fset \<Rightarrow> string list) \<Rightarrow> (string \<Rightarrow> goerr + int) \<Rightarrow> 'e cluster_api \<Rightarrow> etcd_snapshot \<Rightarrow> string \<Rightarrow>
    ('e, goerr + etcd_s3) io" where
  "getS3ConfigFromSecret ord ParseDuration A snapshot secretName =
     bindE (k_Get Host (cx_SecretR A) \<lparr>nn_Namespace = Namespace (sn_meta snapshot), nn_Name = secretName\<rparr>) (\<lambda>s3Secret.
     bindE (ret (s3_from_data ParseDuration (sec_Data s3Secret))) (\<lambda>etcdS3.
     let inline = mindex (sec_Data s3Secret) ''etcd-s3-endpoint-ca'';
         caBundles = (if inline \<noteq> '''' then [base64_EncodeToString inline] else []);
         caConfigMapName = mindex (sec_Data s3Secret) ''etcd-s3-endpoint-ca-name'' in
     if caConfigMapName = '''' then ret (Inr (etcdS3\<lparr>s3_EndpointCA := strings_Join caBundles '' ''\<rparr>))
     else
       bindS (k_Get Host (cx_ConfigMapR A) \<lparr>nn_Namespace = Namespace (sec_meta s3Secret), nn_Name = caConfigMapName\<rparr>) (\<lambda>r. case r of
         Inl err \<Rightarrow> ret (Inl (ErrWrap (''failed to get ConfigMap '' @ caConfigMapName @ '' for etcd-s3-endpoint-ca-name value from S3 config secret '' @ Name (sec_meta s3Secret)) [err]))
       | Inr configMap \<Rightarrow> ret (Inr (etcdS3\<lparr>s3_EndpointCA := strings_Join (caBundles @ ca_bundles ord configMap) '' ''\<rparr>)))))"

text \<open>No configuration without a reference to a secret.\<close>

definition s3_config :: "(string fset \<Rightarrow> string list) \<Rightarrow> (string \<Rightarrow> goerr + int) \<Rightarrow> 'e cluster_api \<Rightarrow> etcd_snapshot \<Rightarrow>
    ('e, goerr + etcd_s3 option) io" where
  "s3_config ord ParseDuration A snapshot =
     (case S3ConfigSecretRef (sn_Spec snapshot) of None \<Rightarrow> ret (Inr None)
      | Some ref \<Rightarrow> bindE (getS3ConfigFromSecret ord ParseDuration A snapshot (sr_Name ref)) (\<lambda>c. ret (Inr (Some c))))"

section \<open>Taking a snapshot\<close>

abbreviation snapshotFinalizerName :: string where "snapshotFinalizerName \<equiv> ''snapshot.k3k.io/finalizer''"

text \<open>What the snapshot controller works with: the resource of its objects, the cluster API, the k3s server, and the
  parser of durations.\<close>

record 'e snapshot_api =
  sx_SnapshotR :: "('e, etcd_snapshot) resource"
  sx_cluster :: "'e cluster_api"
  sx_net :: "'e k3s_net"
  sx_ParseDuration :: "string \<Rightarrow> goerr + int"

definition init_server :: "cluster \<Rightarrow> string \<Rightarrow> etcd_snapshot \<Rightarrow> client_config" where
  "init_server cluster token snapshot =
     client_for (SafeConcatNameWithPrefix [Name (cl_meta cluster), ''server-0''] @ ''.'' @ HeadlessServiceName (Name (cl_meta cluster)) @
       ''.'' @ Namespace (sn_meta snapshot) @ '':6443'') token"

definition snapshot_cluster_key :: "etcd_snapshot \<Rightarrow> namespaced_name" where
  "snapshot_cluster_key snapshot = \<lparr>nn_Namespace = Namespace (sn_meta snapshot), nn_Name = ClusterRef (sn_Spec snapshot)\<rparr>"

text \<open>A write of the object: the answer of the server replaces it.\<close>

definition storing :: "(etcd_snapshot \<Rightarrow> ('e, goerr + etcd_snapshot) io) \<Rightarrow> ('e, unit) sn_step" where
  "storing put = (\<lambda>s. bindS (put s) (\<lambda>r. case r of Inl err \<Rightarrow> ret (Inl err, s) | Inr s' \<Rightarrow> ret (Inr (), s')))"

fun find_file :: "bool \<Rightarrow> string \<Rightarrow> snapshot_file list \<Rightarrow> snapshot_file option" where
  "find_file s3 snapshotName [] = None"
| "find_file s3 snapshotName (file # files) =
     (if sf_SnapshotName file = snapshotName \<and> \<not> (s3 \<and> strings_HasPrefix (sf_Location file) ''file://'') then Some file
      else find_file s3 snapshotName files)"

definition backpopulateSnapshotStatus :: "'e snapshot_api \<Rightarrow> string \<Rightarrow> client_config \<Rightarrow> etcd_s3 option \<Rightarrow> ('e, unit) sn_step" where
  "backpopulateSnapshotStatus S snapshotName k3sClient s3Config = (\<lambda>s.
     bindS (log_call Virt VList KSnapshotFile (meta_of '''' (kc_ServerIP k3sClient)) [] (ListSnapshots (sx_net S) k3sClient s3Config)) (\<lambda>r.
     case deref r of Inl err \<Rightarrow> ret (Inl err, s)
     | Inr files \<Rightarrow>
         (case find_file (s3Config \<noteq> None) snapshotName files of
            None \<Rightarrow> ret (Inl (ErrNew (''snapshot file '' @ snapshotName @ '' not found in virtual cluster'')), s)
          | Some file \<Rightarrow> storing (k_StatusUpdate Host (sx_SnapshotR S))
              (s\<lparr>sn_Status := \<lparr>Filename = sf_SnapshotName file, sn_Conditions = []\<rparr>\<rparr>))))"

text \<open>The part after the finalizer is in place.\<close>

definition save_snapshot :: "(string fset \<Rightarrow> string list) \<Rightarrow> 'e snapshot_api \<Rightarrow> cluster \<Rightarrow> ('e, unit) sn_step" where
  "save_snapshot ord S cluster = (\<lambda>s.
     bindS (GetClusterToken (sx_cluster S) cluster) (\<lambda>r. case r of Inl err \<Rightarrow> ret (Inl err, s)
     | Inr token \<Rightarrow>
     bindS (s3_config ord (sx_ParseDuration S) (sx_cluster S) s) (\<lambda>r. case r of Inl err \<Rightarrow> ret (Inl err, s)
     | Inr s3Config \<Rightarrow>
     (let k3sClient = init_server cluster token s in
     bindS (log_call Virt VCreate KSnapshotFile (meta_of (Name (sn_meta s)) (kc_ServerIP k3sClient)) [] (SaveSnapshot (sx_net S) k3sClient s s3Config)) (\<lambda>r.
     case r of Inl err \<Rightarrow> ret (Inl (ErrWrap (''failed to save snapshot for cluster '' @ Name (cl_meta cluster)) [err]), s)
     | Inr resp \<Rightarrow>
     (case deref (Inr resp) of Inl err \<Rightarrow> ret (Inl err, s)
      | Inr snapshotResp \<Rightarrow>
          (case sr_Created snapshotResp of [] \<Rightarrow> ret (Inl (ErrNew ''no snapshot found''), s)
           | created # _ \<Rightarrow> backpopulateSnapshotStatus S created k3sClient s3Config s)))))))"

definition reconcileSnapshot :: "util \<Rightarrow> (string fset \<Rightarrow> string list) \<Rightarrow> 'e snapshot_api \<Rightarrow> ('e, unit) sn_step" where
  "reconcileSnapshot U ord S = (\<lambda>s.
     bindS (k_Get Host (cx_ClusterR (sx_cluster S)) (snapshot_cluster_key s)) (\<lambda>r. case r of Inl err \<Rightarrow> ret (Inl err, s)
     | Inr cluster \<Rightarrow>
         if st_Phase (cl_Status cluster) \<noteq> ClusterReady then ret (Inl (Sentinel ErrClusterNotReady), s)
         else (case AddFinalizer U snapshotFinalizerName (sn_meta s) of (changed, m) \<Rightarrow>
           if changed then storing (k_Update Host (sx_SnapshotR S)) (s\<lparr>sn_meta := m\<rparr>)
           else save_snapshot ord S cluster (s\<lparr>sn_meta := m\<rparr>))))"

section \<open>Deleting a snapshot\<close>

definition deleteSnapshot :: "(string fset \<Rightarrow> string list) \<Rightarrow> 'e snapshot_api \<Rightarrow> etcd_snapshot \<Rightarrow> ('e, goerr + unit) io" where
  "deleteSnapshot ord S s =
     (if Filename (sn_Status s) = '''' then ret (Inr ())
      else
        bindS (k_Get Host (cx_ClusterR (sx_cluster S)) (snapshot_cluster_key s)) (\<lambda>r. case r of
          Inl err \<Rightarrow> ret (if IsNotFound err then Inr () else Inl err)
        | Inr cluster \<Rightarrow>
            if DeletionTimestamp (cl_meta cluster) \<noteq> None then ret (Inr ())
            else
              bindE (GetClusterToken (sx_cluster S) cluster) (\<lambda>token.
              bindE (s3_config ord (sx_ParseDuration S) (sx_cluster S) s) (\<lambda>s3Config.
              (let k3sClient = init_server cluster token s in
              bindS (log_call Virt VDelete KSnapshotFile (meta_of (Filename (sn_Status s)) (kc_ServerIP k3sClient)) []
                (DeleteSnapshot (sx_net S) k3sClient s s3Config)) (\<lambda>r.
              case r of Inl err \<Rightarrow> ret (if errors_Is err ErrSnapshotNotFound then Inr () else Inl err) | Inr _ \<Rightarrow> ret (Inr ())))))))"

definition finalizeSnapshot :: "util \<Rightarrow> (string fset \<Rightarrow> string list) \<Rightarrow> 'e snapshot_api \<Rightarrow> ('e, unit) sn_step" where
  "finalizeSnapshot U ord S = (\<lambda>s.
     bindS (deleteSnapshot ord S s) (\<lambda>r. case r of Inl err \<Rightarrow> ret (Inl err, s)
     | Inr _ \<Rightarrow> (case RemoveFinalizer U snapshotFinalizerName (sn_meta s) of (changed, m) \<Rightarrow>
         if changed then storing (k_Update Host (sx_SnapshotR S)) (s\<lparr>sn_meta := m\<rparr>) else ret (Inr (), s\<lparr>sn_meta := m\<rparr>))))"

section \<open>The handler\<close>

definition updateSnapshotStatus :: "util \<Rightarrow> 'e snapshot_api \<Rightarrow> bool \<Rightarrow> string \<Rightarrow> string \<Rightarrow> etcd_snapshot \<Rightarrow> ('e, goerr + unit) io" where
  "updateSnapshotStatus U S ok reason msg s =
     (let conditions = SetStatusCondition U (sn_Conditions (sn_Status s)) (ready_condition ok reason msg);
          s' = s\<lparr>sn_Status := (sn_Status s)\<lparr>sn_Conditions := conditions\<rparr>\<rparr>
      in if sn_Status s \<noteq> sn_Status s' then bindE (k_StatusUpdate Host (sx_SnapshotR S) s') (\<lambda>_. ret (Inr ())) else ret (Inr ()))"

text \<open>What follows the deletion, and the creation.\<close>

definition after_delete :: "util \<Rightarrow> 'e snapshot_api \<Rightarrow> (goerr + unit) \<times> etcd_snapshot \<Rightarrow> ('e, goerr + result) io" where
  "after_delete U S = (\<lambda>(r, s). case r of
     Inl err \<Rightarrow> bindE (updateSnapshotStatus U S False ''FailedDelete'' (err_Error err) s) (\<lambda>_.
       bindS (record_event (sn_meta s)) (\<lambda>_. ret (Inl err)))
   | Inr _ \<Rightarrow> bindS (record_event (sn_meta s)) (\<lambda>_. ret (Inr Finished)))"

definition after_create :: "util \<Rightarrow> 'e snapshot_api \<Rightarrow> (goerr + unit) \<times> etcd_snapshot \<Rightarrow> ('e, goerr + result) io" where
  "after_create U S = (\<lambda>(r, s). case r of
     Inl err \<Rightarrow> bindE (updateSnapshotStatus U S False ''FailedCreate'' (err_Error err) s) (\<lambda>_.
       if errors_Is err ErrClusterNotReady then ret (Inr (RequeueAfter 10))
       else bindS (record_event (sn_meta s)) (\<lambda>_. ret (Inl err)))
   | Inr _ \<Rightarrow>
       if Filename (sn_Status s) \<noteq> ''''
       then bindE (updateSnapshotStatus U S True ''SuccessfulCreate'' ''Snapshot was created'' s) (\<lambda>_.
         bindS (record_event (sn_meta s)) (\<lambda>_. ret (Inr Finished)))
       else ret (Inr Finished))"

definition handle_snapshot :: "util \<Rightarrow> (string fset \<Rightarrow> string list) \<Rightarrow> 'e snapshot_api \<Rightarrow> etcd_snapshot \<Rightarrow> ('e, goerr + result) io" where
  "handle_snapshot U ord S snapshot =
     (if DeletionTimestamp (sn_meta snapshot) \<noteq> None then bindS (finalizeSnapshot U ord S snapshot) (after_delete U S)
      else if Filename (sn_Status snapshot) \<noteq> '''' then ret (Inr Finished)
      else bindS (reconcileSnapshot U ord S snapshot) (after_create U S))"

definition Snapshot_Reconcile :: "util \<Rightarrow> (string fset \<Rightarrow> string list) \<Rightarrow> 'e snapshot_api \<Rightarrow> namespaced_name \<Rightarrow> ('e, goerr + result) io" where
  "Snapshot_Reconcile U ord S req =
     bindS (k_Get Host (sx_SnapshotR S) req) (\<lambda>r. case r of
       Inl err \<Rightarrow> ret (if IsNotFound err then Inr Finished else Inl err)
     | Inr snapshot \<Rightarrow> handle_snapshot U ord S snapshot)"

section \<open>The file goes before the finalizer\<close>

definition snapshot_kinds :: "'e snapshot_api \<Rightarrow> bool" where
  "snapshot_kinds S \<longleftrightarrow> r_kind (sx_SnapshotR S) = KEtcdSnapshot \<and> r_meta (sx_SnapshotR S) = sn_meta \<and>
     r_kind (cx_ClusterR (sx_cluster S)) = KCluster \<and> r_kind (cx_SecretR (sx_cluster S)) = KSecret \<and> r_kind (cx_ConfigMapR (sx_cluster S)) = KConfigMap"

text \<open>A call that deleted the file of a snapshot, or found that it is gone.\<close>

definition file_deleted :: "etcd_snapshot \<Rightarrow> call \<Rightarrow> bool" where
  "file_deleted s x \<longleftrightarrow> c_kind x = KSnapshotFile \<and> c_verb x = VDelete \<and> Name (c_meta x) = Filename (sn_Status s) \<and>
     (case c_err x of None \<Rightarrow> True | Some err \<Rightarrow> errors_Is err ErrSnapshotNotFound)"

text \<open>The cluster of a snapshot was read and is missing or being deleted.\<close>

definition cluster_gone :: "'e snapshot_api \<Rightarrow> etcd_snapshot \<Rightarrow> bool" where
  "cluster_gone S s \<longleftrightarrow> (\<exists>v r v'. k_Get Host (cx_ClusterR (sx_cluster S)) (snapshot_cluster_key s) v = (r, v') \<and>
     (case r of Inl err \<Rightarrow> IsNotFound err | Inr cluster \<Rightarrow> DeletionTimestamp (cl_meta cluster) \<noteq> None))"

lemma s3_config_calls:
  assumes "snapshot_kinds S"
  shows "calls_sat (\<lambda>x. \<not> is_write x \<and> (c_kind x = KSecret \<or> c_kind x = KConfigMap)) (s3_config ord p (sx_cluster S) s)"
  using assms unfolding s3_config_def getS3ConfigFromSecret_def k_Get_def snapshot_kinds_def Let_def
  by (auto intro!: calls_intro)

lemma GetClusterToken_calls:
  assumes "snapshot_kinds S"
  shows "calls_sat (\<lambda>x. \<not> is_write x \<and> c_kind x = KSecret) (GetClusterToken (sx_cluster S) cluster)"
  using assms unfolding GetClusterToken_def k_Get_def snapshot_kinds_def Let_def by (auto intro!: calls_intro)

lemma deleteSnapshot_calls:
  assumes "snapshot_kinds S"
  shows "calls_sat (\<lambda>x. c_kind x \<noteq> KEtcdSnapshot \<and> (is_write x \<longrightarrow> c_kind x = KSnapshotFile \<and> c_verb x = VDelete \<and>
    Name (c_meta x) = Filename (sn_Status s))) (deleteSnapshot ord S s)"
proof -
  have k: "r_kind (cx_ClusterR (sx_cluster S)) = KCluster" using assms by (simp add: snapshot_kinds_def)
  note reads = calls_sat_mono [OF s3_config_calls [OF assms]] calls_sat_mono [OF GetClusterToken_calls [OF assms]]
  show ?thesis
    unfolding deleteSnapshot_def k_Get_def Let_def k by (auto intro!: calls_intro reads)
qed

lemma deleteSnapshot_success:
  assumes S: "snapshot_kinds S" and run: "deleteSnapshot ord S s w = (Inr a, w')"
  shows "Filename (sn_Status s) = '''' \<or> cluster_gone S s \<or> (\<exists>cs. w_calls w' = w_calls w @ cs \<and> list_ex (file_deleted s) cs)"
proof (cases "Filename (sn_Status s) = '''' \<or> cluster_gone S s")
  case False
  obtain r v where get: "k_Get Host (cx_ClusterR (sx_cluster S)) (snapshot_cluster_key s) w = (r, v)" by fastforce
  with False have gone: "\<not> (case r of Inl err \<Rightarrow> IsNotFound err | Inr cluster \<Rightarrow> DeletionTimestamp (cl_meta cluster) \<noteq> None)"
    unfolding cluster_gone_def by blast
  note any = calls_sat_mono [OF s3_config_calls [OF S], where Q = "\<lambda>_. True"] calls_sat_mono [OF GetClusterToken_calls [OF S], where Q = "\<lambda>_. True"]
  let ?del = "\<lambda>cluster token s3Config. bindS (log_call Virt VDelete KSnapshotFile (meta_of (Filename (sn_Status s)) (kc_ServerIP (init_server cluster token s))) []
                (DeleteSnapshot (sx_net S) (init_server cluster token s) s s3Config)) (\<lambda>r.
              case r of Inl err \<Rightarrow> ret (if errors_Is err ErrSnapshotNotFound then Inr () else Inl err) | Inr _ \<Rightarrow> ret (Inr ()))"
  have del: "does (file_deleted s) (?del cluster token s3Config)" for cluster token s3Config
    by (auto simp: does_def log_call_def bindS_run ret_def file_deleted_def split: prod.splits sum.splits if_splits)
  obtain cluster where r: "r = Inr cluster" "DeletionTimestamp (cl_meta cluster) = None"
    and rest: "bindE (GetClusterToken (sx_cluster S) cluster) (\<lambda>token. bindE (s3_config ord (sx_ParseDuration S) (sx_cluster S) s) (?del cluster token)) v = (Inr a, w')"
    using run get gone False
    by (cases r) (auto simp: deleteSnapshot_def bindS_run Let_def ret_def split: if_splits)
  have "does (file_deleted s) (bindE (GetClusterToken (sx_cluster S) cluster) (\<lambda>token. bindE (s3_config ord (sx_ParseDuration S) (sx_cluster S) s) (?del cluster token)))"
    by (intro does_bindE2 any del) simp_all
  then obtain c2 where "w_calls w' = w_calls v @ c2" "list_ex (file_deleted s) c2" using rest unfolding does_def by blast
  moreover obtain c1 where "w_calls v = w_calls w @ c1" using get by (auto simp: k_Get_def log_call_def split: prod.splits)
  ultimately show ?thesis by auto
qed blast


section \<open>What the handler writes\<close>

text \<open>A write that handling the snapshot \<^verbatim>\<open>s\<close> may make.\<close>

definition snapshot_write :: "etcd_snapshot \<Rightarrow> call \<Rightarrow> bool" where
  "snapshot_write s x \<longleftrightarrow>
     c_kind x = KEvent \<or>
     (c_kind x = KEtcdSnapshot \<and> key_of (c_meta x) = key_of (sn_meta s)) \<or>
     (c_kind x = KSnapshotFile \<and> c_verb x = VCreate \<and> Name (c_meta x) = Name (sn_meta s) \<and> DeletionTimestamp (sn_meta s) = None \<and>
       Filename (sn_Status s) = '''' \<and> snapshotFinalizerName \<in> set (Finalizers (sn_meta s))) \<or>
     (c_kind x = KSnapshotFile \<and> c_verb x = VDelete \<and> Name (c_meta x) = Filename (sn_Status s) \<and> DeletionTimestamp (sn_meta s) \<noteq> None)"

text \<open>A run after which the object in memory still has the key it had.\<close>

definition keeps_key :: "etcd_snapshot \<Rightarrow> ('e, (goerr + 'a) \<times> etcd_snapshot) io \<Rightarrow> bool" where
  "keeps_key s m \<longleftrightarrow> (\<forall>w r s' w'. m w = ((r, s'), w') \<longrightarrow> key_of (sn_meta s') = key_of (sn_meta s))"

named_theorems key_intro \<open>rules for runs that keep the key\<close>

lemma keeps_key_ret [key_intro]: "key_of (sn_meta t) = key_of (sn_meta s) \<Longrightarrow> keeps_key s (ret (r, t))"
  by (simp add: keeps_key_def ret_def)

lemma keeps_key_bindS [key_intro]: "(\<And>a. keeps_key s (f a)) \<Longrightarrow> keeps_key s (bindS m f)"
  unfolding keeps_key_def bindS_run by (auto split: prod.splits)

lemma keeps_key_then:
  assumes "calls_sat P m" "keeps_key s m" "\<And>r t. key_of (sn_meta t) = key_of (sn_meta s) \<Longrightarrow> calls_sat P (f (r, t))"
  shows "calls_sat P (bindS m f)"
proof (rule calls_sat_bindS_res [OF assms(1)])
  fix w p w'
  assume "m w = (p, w')"
  then have "key_of (sn_meta (snd p)) = key_of (sn_meta s)" using assms(2) unfolding keeps_key_def by (metis prod.collapse)
  then show "calls_sat P (f p)" using assms(3) [of "snd p" "fst p"] by simp
qed

lemma keeps_key_cases [key_intro]:
  "(\<And>e. keeps_key s (f e)) \<Longrightarrow> (\<And>a. keeps_key s (g a)) \<Longrightarrow> keeps_key s (case q of Inl e \<Rightarrow> f e | Inr a \<Rightarrow> g a)"
  "(b \<Longrightarrow> keeps_key s m) \<Longrightarrow> (\<not> b \<Longrightarrow> keeps_key s n) \<Longrightarrow> keeps_key s (if b then m else n)"
  "keeps_key s m \<Longrightarrow> (\<And>y ys. keeps_key s (h y ys)) \<Longrightarrow> keeps_key s (case l of [] \<Rightarrow> m | y # ys \<Rightarrow> h y ys)"
  "keeps_key s m \<Longrightarrow> (\<And>y. keeps_key s (k y)) \<Longrightarrow> keeps_key s (case z of None \<Rightarrow> m | Some y \<Rightarrow> k y)"
  by (auto split: sum.splits list.splits option.splits)

definition honest_writes :: "('e, etcd_snapshot) resource \<Rightarrow> bool" where
  "honest_writes R \<longleftrightarrow> update_honest R \<and> status_honest R"

lemma storing_keeps [key_intro]:
  assumes "snapshot_kinds S" "honest_writes (sx_SnapshotR S)" "key_of (sn_meta t) = key_of (sn_meta s)"
  shows "keeps_key s (storing (k_Update Host (sx_SnapshotR S)) t)" "keeps_key s (storing (k_StatusUpdate Host (sx_SnapshotR S)) t)"
  using assms
  by (auto simp: keeps_key_def storing_def bindS_run k_Update_def k_StatusUpdate_def log_call_def ret_def honest_writes_def update_honest_def
      status_honest_def snapshot_kinds_def split: prod.splits sum.splits) fastforce+

lemma storing_calls [calls_intro]: "calls_sat P (put t) \<Longrightarrow> calls_sat P (storing put t)"
  unfolding storing_def by (auto intro!: calls_intro)

lemma snapshot_put [calls_intro]:
  assumes "snapshot_kinds S" "key_of (sn_meta t) = key_of (sn_meta s)"
  shows "writes_only (snapshot_write s) (k_Update Host (sx_SnapshotR S) t)" "writes_only (snapshot_write s) (k_StatusUpdate Host (sx_SnapshotR S) t)"
  using assms unfolding k_Update_def k_StatusUpdate_def by (auto intro!: calls_intro simp: snapshot_write_def snapshot_kinds_def)


lemma finalizeSnapshot_writes:
  assumes S: "snapshot_kinds S" and U: "controllerutil U" and del: "DeletionTimestamp (sn_meta s) \<noteq> None"
  shows "writes_only (snapshot_write s) (finalizeSnapshot U ord S s)"
proof -
  have "writes_only (snapshot_write s) (deleteSnapshot ord S s)"
    by (rule calls_sat_mono [OF deleteSnapshot_calls [OF S]]) (use del in \<open>auto simp: snapshot_write_def\<close>)
  then show ?thesis
    unfolding finalizeSnapshot_def controllerutil.RemoveFinalizer_law [OF U]
    by (auto intro!: calls_intro snapshot_put [OF S] simp: key_of_def)
qed

lemma finalizeSnapshot_keeps:
  assumes "snapshot_kinds S" "controllerutil U" "honest_writes (sx_SnapshotR S)"
  shows "keeps_key s (finalizeSnapshot U ord S s)"
  unfolding finalizeSnapshot_def controllerutil.RemoveFinalizer_law [OF assms(2)]
  by (auto intro!: key_intro storing_keeps [OF assms(1,3)] simp: key_of_def)

lemma save_snapshot_writes:
  assumes S: "snapshot_kinds S"
    and s: "DeletionTimestamp (sn_meta s) = None" "Filename (sn_Status s) = ''''" "snapshotFinalizerName \<in> set (Finalizers (sn_meta s))"
  shows "writes_only (snapshot_write s) (save_snapshot ord S cluster s)"
proof -
  have reads: "writes_only (snapshot_write s) (s3_config ord p (sx_cluster S) s)" "writes_only (snapshot_write s) (GetClusterToken (sx_cluster S) cluster)" for p
    by (rule calls_sat_mono [OF s3_config_calls [OF S]], simp) (rule calls_sat_mono [OF GetClusterToken_calls [OF S]], simp)
  have status: "writes_only (snapshot_write s) (backpopulateSnapshotStatus S name c s3 s)" for name c s3
    unfolding backpopulateSnapshotStatus_def by (auto intro!: calls_intro snapshot_put [OF S] split: option.split)
  have saved: "writes_only (snapshot_write s) (log_call Virt VCreate KSnapshotFile (meta_of (Name (sn_meta s)) ip) [] f)"
    for ip and f :: "'e \<Rightarrow> (goerr + snapshot_response option) \<times> 'e"
    by (auto intro!: calls_intro simp: snapshot_write_def s)
  show ?thesis
    unfolding save_snapshot_def Let_def by (auto intro!: calls_intro reads status saved split: list.split)
qed

lemma save_snapshot_keeps:
  assumes "snapshot_kinds S" "honest_writes (sx_SnapshotR S)"
  shows "keeps_key s (save_snapshot ord S cluster s)"
  unfolding save_snapshot_def backpopulateSnapshotStatus_def Let_def
  by (auto intro!: key_intro storing_keeps [OF assms] simp: key_of_def)

lemma reconcileSnapshot_writes:
  assumes S: "snapshot_kinds S" and U: "controllerutil U" and s: "DeletionTimestamp (sn_meta s) = None" "Filename (sn_Status s) = ''''"
  shows "writes_only (snapshot_write s) (reconcileSnapshot U ord S s)"
proof -
  have "writes_only (snapshot_write s) (save_snapshot ord S cluster s)" if "snapshotFinalizerName \<in> set (Finalizers (sn_meta s))" for cluster
    by (rule save_snapshot_writes [OF S s that])
  then show ?thesis
    unfolding reconcileSnapshot_def k_Get_def controllerutil.AddFinalizer_law [OF U]
    by (auto intro!: calls_intro snapshot_put [OF S] simp: key_of_def)
qed

lemma reconcileSnapshot_keeps:
  assumes "snapshot_kinds S" "controllerutil U" "honest_writes (sx_SnapshotR S)"
  shows "keeps_key s (reconcileSnapshot U ord S s)"
  unfolding reconcileSnapshot_def controllerutil.AddFinalizer_law [OF assms(2)]
  by (auto intro!: key_intro storing_keeps [OF assms(1,3)] save_snapshot_keeps [OF assms(1,3)] simp: key_of_def)

lemma updateSnapshotStatus_writes:
  assumes "snapshot_kinds S" "key_of (sn_meta t) = key_of (sn_meta s)"
  shows "writes_only (snapshot_write s) (updateSnapshotStatus U S ok reason msg t)"
  using assms(2) unfolding updateSnapshotStatus_def Let_def by (auto intro!: calls_intro snapshot_put [OF assms(1)])

lemma record_event_writes [calls_intro]: "writes_only (snapshot_write s) (record_event m)"
  unfolding record_event_def by (auto intro!: calls_intro simp: snapshot_write_def)

text \<open>
  Handling a snapshot object writes only that object, events, and its own file: the file is created only when the object
  is not being deleted, records no file yet and already carries the finalizer that will remove the file, and it is
  deleted only when the object is, whatever the servers answer.
\<close>

theorem snapshot_writes_confined:
  assumes S: "snapshot_kinds S" and U: "controllerutil U" and honest: "honest_writes (sx_SnapshotR S)"
    and get: "\<And>e. fst (cli_Get (r_cli (sx_SnapshotR S) Host) req e) = Inr s"
  shows "writes_only (snapshot_write s) (Snapshot_Reconcile U ord S req)"
proof -
  note upd = updateSnapshotStatus_writes [OF S]
  note run = keeps_key_then [OF finalizeSnapshot_writes [OF S U] finalizeSnapshot_keeps [OF S U honest]]
    keeps_key_then [OF reconcileSnapshot_writes [OF S U] reconcileSnapshot_keeps [OF S U honest]]
  have cont: "writes_only (snapshot_write s) (after_delete U S (r, t))" "writes_only (snapshot_write s) (after_create U S (r, t))"
    if "key_of (sn_meta t) = key_of (sn_meta s)" for r t
    using that unfolding after_delete_def after_create_def by (auto intro!: calls_intro upd)
  have handle: "writes_only (snapshot_write s) (handle_snapshot U ord S s)"
    unfolding handle_snapshot_def by (auto intro!: calls_sat_if calls_sat_ret run(1) [where f = "after_delete U S"] run(2) [where f = "after_create U S"] cont)
  have got: "r = Inr s" if "k_Get Host (sx_SnapshotR S) req w = (r, w')" for r w w'
    using that get [of "w_env w"] by (auto simp: k_Get_def log_call_def split: prod.splits)
  have reads: "writes_only (snapshot_write s) (k_Get Host (sx_SnapshotR S) req)" unfolding k_Get_def by (auto intro!: calls_intro)
  show ?thesis unfolding Snapshot_Reconcile_def by (rule calls_sat_bindS_res [OF reads]) (auto dest!: got simp: handle)
qed

section \<open>A deleted snapshot\<close>

definition wit_snapshot :: etcd_snapshot where
  "wit_snapshot =
     \<lparr>sn_meta = (meta_of ''s1'' ''ns1'')\<lparr>Finalizers := [snapshotFinalizerName], DeletionTimestamp := Some ''now''\<rparr>,
      sn_Spec = \<lparr>ClusterRef = ''c1'', S3ConfigSecretRef = None, Compress = False\<rparr>, sn_Status = \<lparr>Filename = ''s1-0'', sn_Conditions = []\<rparr>\<rparr>"

definition wit_net :: "unit k3s_net" where
  "wit_net =
     \<lparr>n_Do = (\<lambda>_ e. (Inr \<lparr>rs_StatusCode = 200, rs_Body = Inr ''{}''\<rparr>, e)), n_encode = (\<lambda>_. Inr ''{}''), n_status = (\<lambda>_. Inl (ErrNew ''EOF'')),
      n_config = (\<lambda>_. Inr (Some True)), n_bootstrap = (\<lambda>_. Inr None),
      n_response = (\<lambda>_. Inr (Some \<lparr>sr_Created = [''s1-0''], sr_Deleted = [''s1-0'']\<rparr>)),
      n_files = (\<lambda>_. Inr (Some [\<lparr>sf_SnapshotName = ''s1-0'', sf_Location = ''file:///db/s1-0''\<rparr>])), n_encode_bootstrap = (\<lambda>_. ''''),
      n_clientset = Inr (), n_AddToScheme = Inr (), n_NewSPDYExecutor = (\<lambda>req. Inr (er_Name req)), n_Stream = (\<lambda>exec e. (Inr exec, e)), n_X509KeyPair = Inr\<rparr>"

definition wit_snapshot_api :: "unit snapshot_api" where
  "wit_snapshot_api =
     \<lparr>sx_SnapshotR = full_resource KEtcdSnapshot sn_meta (\<lambda>_. wit_snapshot), sx_cluster = wit_cluster_api, sx_net = wit_net,
      sx_ParseDuration = (\<lambda>_. Inr 0)\<rparr>"

lemma wit_init_server_url:
  "url_Parse ''https://k3k-c1-server-0.k3k-c1-service-headless.ns1:6443/db/snapshot'' =
    Inr \<lparr>url_Scheme = ''https'', url_Host = ''k3k-c1-server-0.k3k-c1-service-headless.ns1:6443''\<rparr>"
  by code_simp

lemma wit_init_server: "kc_ServerIP (init_server cluster token wit_snapshot) = ''k3k-c1-server-0.k3k-c1-service-headless.ns1:6443''"
  if "Name (cl_meta cluster) = ''c1''"
proof -
  have "SafeConcatNameWithPrefix [''c1'', ''server-0''] = ''k3k-c1-server-0''" by code_simp
  moreover have "HeadlessServiceName ''c1'' = ''k3k-c1-service-headless''" by code_simp
  ultimately show ?thesis using that by (simp add: init_server_def client_for_def wit_snapshot_def meta_of_def)
qed

lemma wit_snapshot_kinds: "snapshot_kinds wit_snapshot_api"
  by (simp add: snapshot_kinds_def wit_snapshot_api_def wit_cluster_api_def wit_agent_api_def full_resource_def)

lemma wit_delete_file:
  assumes "Name (cl_meta cluster) = ''c1''"
  shows "DeleteSnapshot wit_net (init_server cluster token wit_snapshot) wit_snapshot None e =
    (Inr \<lparr>sr_Created = [''s1-0''], sr_Deleted = [''s1-0'']\<rparr>, e)"
proof -
  have "client_do wit_net (init_server cluster token wit_snapshot) ''/db/snapshot'' ''server'' ''POST'' b e = (Inr ''{}'', e)" for b
    unfolding client_do_def wit_init_server [OF assms] Let_def by (simp add: wit_init_server_url wit_net_def)
  then show ?thesis
    by (simp add: DeleteSnapshot_def post_snapshot_def bindN_def retN_def deref_def wit_snapshot_def wit_net_def)
qed

lemma wit_delete_runs:
  obtains w' where "deleteSnapshot sorted_list_of_fset wit_snapshot_api wit_snapshot wit_world = (Inr (), w')"
  using wit_delete_file
  by (auto simp: deleteSnapshot_def wit_snapshot_api_def wit_cluster_api_def full_resource_def s3_config_def GetClusterToken_def snapshot_cluster_key_def
      k_Get_def log_call_def bindS_run bindE_def ret_def Let_def wit_snapshot_def wit_secret_def wit_cluster_def meta_of_def
      split: option.splits)

lemma wit_finalize_runs:
  "\<exists>s' w' x. finalizeSnapshot ref_util sorted_list_of_fset wit_snapshot_api wit_snapshot wit_world = ((Inr (), s'), w') \<and>
    x \<in> set (w_calls w') \<and> c_kind x = KEtcdSnapshot"
proof -
  obtain v where "deleteSnapshot sorted_list_of_fset wit_snapshot_api wit_snapshot wit_world = (Inr (), v)" by (rule wit_delete_runs)
  then show ?thesis
    by (simp add: finalizeSnapshot_def bindS_run storing_def k_Update_def log_call_def ret_def wit_snapshot_api_def full_resource_def
        ref.RemoveFinalizer_law wit_snapshot_def) force
qed


theorem snapshot_writes_confined_witness:
  "writes_only (snapshot_write wit_snapshot) (Snapshot_Reconcile ref_util sorted_list_of_fset wit_snapshot_api \<lparr>nn_Namespace = ''ns1'', nn_Name = ''s1''\<rparr>)"
  by (rule snapshot_writes_confined [OF wit_snapshot_kinds ref.controllerutil_axioms])
    (simp_all add: honest_writes_def update_honest_def status_honest_def wit_snapshot_api_def full_resource_def)

end
