(* ===== verification/KubeconfigFile.thy ===== *)
theory KubeconfigFile
  imports Kube Translate
begin

text \<open>
  \<^verbatim>\<open>cli/kubeconfig\<close> and the kubeconfig of a cluster (\<^verbatim>\<open>pkg/controller/kubeconfig\<close>): the entries of virtual clusters in the kubeconfig
  file of the user. The codec of the file and its path resolution are the parameter \<^verbatim>\<open>kube_files\<close>; the locale \<^verbatim>\<open>kube_store\<close> has
  what is used of them, and is interpreted on files kept in a map.
\<close>

section \<open>Kubeconfigs\<close>

record kube_cluster =
  kcl_Server :: string
  kcl_CertificateAuthorityData :: payload
  kcl_rest :: payload

record auth_info =
  ai_ClientCertificateData :: payload
  ai_ClientKeyData :: payload
  ai_rest :: payload

record kube_context =
  kct_Cluster :: string
  kct_AuthInfo :: string
  kct_rest :: payload

record kube_config =
  kf_Clusters :: "(string, kube_cluster) fmap"
  kf_AuthInfos :: "(string, auth_info) fmap"
  kf_Contexts :: "(string, kube_context) fmap"
  kf_CurrentContext :: string
  kf_rest :: payload

abbreviation DefaultName :: string where "DefaultName \<equiv> ''default''"

text \<open>\<^verbatim>\<open>clientcmdapi.NewConfig\<close>.\<close>

definition empty_config :: kube_config where
  "empty_config = \<lparr>kf_Clusters = fmempty, kf_AuthInfos = fmempty, kf_Contexts = fmempty, kf_CurrentContext = '''', kf_rest = ''''\<rparr>"

definition NewConfig :: "string \<Rightarrow> payload \<Rightarrow> payload \<Rightarrow> payload \<Rightarrow> kube_config" where
  "NewConfig server serverCA clientCert clientKey =
     (let cluster = \<lparr>kcl_Server = server, kcl_CertificateAuthorityData = serverCA, kcl_rest = ''''\<rparr>;
          authInfo = \<lparr>ai_ClientCertificateData = clientCert, ai_ClientKeyData = clientKey, ai_rest = ''''\<rparr>;
          context = \<lparr>kct_Cluster = DefaultName, kct_AuthInfo = DefaultName, kct_rest = ''''\<rparr>
      in empty_config\<lparr>kf_Clusters := fmupd DefaultName cluster (kf_Clusters empty_config),
           kf_AuthInfos := fmupd DefaultName authInfo (kf_AuthInfos empty_config),
           kf_Contexts := fmupd DefaultName context (kf_Contexts empty_config), kf_CurrentContext := DefaultName\<rparr>)"

definition ContextName :: "string \<Rightarrow> string \<Rightarrow> string" where
  "ContextName namespace name = namespace @ ''/'' @ name"

definition currentEntries :: "kube_config \<Rightarrow> goerr + kube_cluster \<times> auth_info" where
  "currentEntries config =
     (case fmlookup (kf_Contexts config) (kf_CurrentContext config) of
        None \<Rightarrow> Inl (ErrNew (''the kubeconfig has no '' @ kf_CurrentContext config @ '' context''))
      | Some context \<Rightarrow>
          (case fmlookup (kf_Clusters config) (kct_Cluster context) of
             None \<Rightarrow> Inl (ErrNew (''the kubeconfig has no '' @ kct_Cluster context @ '' cluster''))
           | Some cluster \<Rightarrow>
               (case fmlookup (kf_AuthInfos config) (kct_AuthInfo context) of
                  None \<Rightarrow> Inl (ErrNew (''the kubeconfig has no '' @ kct_AuthInfo context @ '' user''))
                | Some authInfo \<Rightarrow> Inr (cluster, authInfo))))"

definition ServerURL :: "kube_config \<Rightarrow> string" where
  "ServerURL config = (case currentEntries config of Inl _ \<Rightarrow> '''' | Inr (cluster, _) \<Rightarrow> kcl_Server cluster)"

section \<open>The file of the user\<close>

record 'e kube_files =
  LoadFromFile :: "string \<Rightarrow> 'e \<Rightarrow> goerr + kube_config"
  WriteToFile :: "kube_config \<Rightarrow> string \<Rightarrow> 'e \<Rightarrow> (goerr + unit) \<times> 'e"
  GetDefaultFilename :: "string \<Rightarrow> string"
  filepath_Abs :: "string \<Rightarrow> goerr + string"

definition os_IsNotExist :: "goerr \<Rightarrow> bool" where
  "os_IsNotExist err \<longleftrightarrow> err = Sentinel ErrNotExist"

definition load :: "'e kube_files \<Rightarrow> string \<Rightarrow> 'e \<Rightarrow> goerr + kube_config" where
  "load F path e =
     (case LoadFromFile F path e of
        Inl err \<Rightarrow> if os_IsNotExist err then Inr empty_config else Inl (ErrWrap (''failed to load the kubeconfig '' @ path) [err])
      | Inr config \<Rightarrow> Inr config)"

definition Write :: "'e kube_files \<Rightarrow> kube_config \<Rightarrow> string \<Rightarrow> 'e \<Rightarrow> (goerr + string) \<times> 'e" where
  "Write F config path e = (case WriteToFile F config path e of (Inl err, e) \<Rightarrow> (Inl err, e) | (Inr _, e) \<Rightarrow> (filepath_Abs F path, e))"

definition add_entries :: "string \<Rightarrow> kube_cluster \<Rightarrow> auth_info \<Rightarrow> kube_config \<Rightarrow> kube_config" where
  "add_entries name cluster authInfo config =
     config\<lparr>kf_Clusters := fmupd name cluster (kf_Clusters config), kf_AuthInfos := fmupd name authInfo (kf_AuthInfos config),
       kf_Contexts := fmupd name \<lparr>kct_Cluster = name, kct_AuthInfo = name, kct_rest = ''''\<rparr> (kf_Contexts config)\<rparr>"

definition File_Add :: "'e kube_files \<Rightarrow> string \<Rightarrow> string \<Rightarrow> kube_config \<Rightarrow> 'e \<Rightarrow> (goerr + unit) \<times> 'e" where
  "File_Add F path name src e =
     (case currentEntries src of Inl err \<Rightarrow> (Inl err, e)
      | Inr (srcCluster, srcAuthInfo) \<Rightarrow>
          (case load F path e of Inl err \<Rightarrow> (Inl err, e)
           | Inr config \<Rightarrow> WriteToFile F (add_entries name srcCluster srcAuthInfo config) path e))"

definition has_entry :: "kube_config \<Rightarrow> string \<Rightarrow> bool" where
  "has_entry config name \<longleftrightarrow>
     fmlookup (kf_Clusters config) name \<noteq> None \<or> fmlookup (kf_AuthInfos config) name \<noteq> None \<or> fmlookup (kf_Contexts config) name \<noteq> None"

definition remove_entry :: "string \<Rightarrow> kube_config \<Rightarrow> kube_config" where
  "remove_entry name config =
     config\<lparr>kf_Clusters := fmdrop name (kf_Clusters config), kf_AuthInfos := fmdrop name (kf_AuthInfos config),
       kf_Contexts := fmdrop name (kf_Contexts config),
       kf_CurrentContext := (if kf_CurrentContext config = name then '''' else kf_CurrentContext config)\<rparr>"

fun remove_entries :: "string list \<Rightarrow> kube_config \<Rightarrow> string list \<times> kube_config" where
  "remove_entries [] config = ([], config)"
| "remove_entries (name # names) config =
     (if \<not> has_entry config name then remove_entries names config
      else (case remove_entries names (remove_entry name config) of (removed, config) \<Rightarrow> (name # removed, config)))"

definition File_Remove :: "'e kube_files \<Rightarrow> string \<Rightarrow> string list \<Rightarrow> 'e \<Rightarrow> string list \<times> (goerr + unit) \<times> 'e" where
  "File_Remove F path names e =
     (case load F path e of Inl err \<Rightarrow> ([], Inl err, e)
      | Inr config \<Rightarrow>
          (case remove_entries names config of (removed, config) \<Rightarrow>
             if removed = [] then ([], Inr (), e)
             else (case WriteToFile F config path e of (r, e) \<Rightarrow> (removed, r, e))))"

section \<open>Entries of one cluster\<close>

text \<open>Two kubeconfigs that differ at most in the entries of some names.\<close>

definition same_but :: "string set \<Rightarrow> kube_config \<Rightarrow> kube_config \<Rightarrow> bool" where
  "same_but N c d \<longleftrightarrow>
     (\<forall>n. n \<notin> N \<longrightarrow> fmlookup (kf_Clusters c) n = fmlookup (kf_Clusters d) n \<and> fmlookup (kf_AuthInfos c) n = fmlookup (kf_AuthInfos d) n \<and>
        fmlookup (kf_Contexts c) n = fmlookup (kf_Contexts d) n) \<and> kf_rest c = kf_rest d"

lemma same_but_trans: "same_but N a b \<Longrightarrow> same_but N b c \<Longrightarrow> same_but N a c"
  by (simp add: same_but_def)

lemma add_entries_same: "same_but {name} (add_entries name c a config) config"
  by (simp add: same_but_def add_entries_def)

lemma add_entries_current: "currentEntries ((add_entries name c a config)\<lparr>kf_CurrentContext := name\<rparr>) = Inr (c, a)"
  by (simp add: currentEntries_def add_entries_def)

lemma remove_entries_same: "remove_entries names config = (removed, config') \<Longrightarrow> same_but (set names) config' config"
  by (induction names config arbitrary: removed config' rule: remove_entries.induct)
    (auto simp: same_but_def remove_entry_def split: if_splits prod.splits)

lemma remove_entries_gone: "remove_entries names config = (removed, config') \<Longrightarrow> n \<in> set names \<Longrightarrow> \<not> has_entry config' n"
proof (induction names config arbitrary: removed config' rule: remove_entries.induct)
  case (2 name names config)
  have stays: "\<not> has_entry d' m" if "remove_entries ns d = (r, d')" "\<not> has_entry d m" for ns d r d' m
    using that by (induction ns d arbitrary: r d' rule: remove_entries.induct)
      (auto simp: has_entry_def remove_entry_def split: if_splits prod.splits)
  have "\<not> has_entry (remove_entry name config) name" by (simp add: has_entry_def remove_entry_def)
  with 2 stays show ?case by (auto split: if_splits prod.splits)
qed simp



lemma remove_add:
  assumes "\<not> has_entry config name" "kf_CurrentContext config \<noteq> name"
  shows "remove_entries [name] (add_entries name c a config) = ([name], config)"
  using assms by (simp add: has_entry_def remove_entry_def add_entries_def fmdrop_fmupd_fresh)

section \<open>The file\<close>

text \<open>What the file is expected to do: a kubeconfig that was written is the one that is loaded.\<close>

locale kube_store =
  fixes F :: "'e kube_files"
  assumes written: "WriteToFile F config path e = (Inr (), e') \<Longrightarrow> LoadFromFile F path e' = Inr config"
begin

lemma load_written: "WriteToFile F config path e = (Inr (), e') \<Longrightarrow> load F path e' = Inr config"
  by (simp add: load_def written)

lemma File_Add_run:
  assumes "File_Add F path name src e = (Inr (), e')"
  obtains c a old where "currentEntries src = Inr (c, a)" "load F path e = Inr old" "load F path e' = Inr (add_entries name c a old)"
  using assms load_written by (auto simp: File_Add_def split: sum.splits prod.splits)

lemma File_Remove_run:
  assumes "File_Remove F path names e = (removed, Inr (), e')"
  obtains old new where "load F path e = Inr old" "load F path e' = Inr new" "remove_entries names old = (removed, new)"
proof -
  have keep: "fst (remove_entries ns d) = [] \<Longrightarrow> snd (remove_entries ns d) = d" for ns d
    by (induction ns d rule: remove_entries.induct) (auto split: if_splits prod.splits)
  obtain old where old: "load F path e = Inr old" using assms by (auto simp: File_Remove_def split: sum.splits)
  obtain r new where r: "remove_entries names old = (r, new)" by fastforce
  show thesis
  proof (cases "r = []")
    case True
    then show thesis using assms old r keep [of names old] that [of old new] by (auto simp: File_Remove_def)
  next
    case False
    then show thesis using assms old r load_written that [of old new] by (auto simp: File_Remove_def split: prod.splits)
  qed
qed

end

text \<open>
  C39: Adding a virtual cluster to the kubeconfig of the user is additive: the entries of all other names, the preferences and the
  current context stay, and selecting the new context gives the cluster and the credentials of the given kubeconfig.
\<close>

theorem kubeconfig_add_additive:
  assumes F: "kube_store F" and run: "File_Add F path name src e = (Inr (), e')" and old: "load F path e = Inr old"
  shows "\<exists>new. load F path e' = Inr new \<and> same_but {name} new old \<and> kf_CurrentContext new = kf_CurrentContext old \<and>
    currentEntries (new\<lparr>kf_CurrentContext := name\<rparr>) = currentEntries src"
proof -
  obtain c a old' where src: "currentEntries src = Inr (c, a)" and "load F path e = Inr old'" "load F path e' = Inr (add_entries name c a old')"
    by (rule kube_store.File_Add_run [OF F run])
  with old have "load F path e' = Inr (add_entries name c a old)" by simp
  then show ?thesis using src add_entries_same add_entries_current by (auto simp: add_entries_def)
qed

text \<open>
  Deleting a cluster undoes its creation in the kubeconfig of the user: removing the name that was added to a file without
  entries of this name gives back the kubeconfig as it was before, and reports the name.
\<close>

theorem kubeconfig_add_remove:
  assumes F: "kube_store F" and add: "File_Add F path name src e = (Inr (), e1)" and remove: "File_Remove F path [name] e1 = (removed, Inr (), e2)"
    and old: "load F path e = Inr old" "\<not> has_entry old name" "kf_CurrentContext old \<noteq> name"
  shows "load F path e2 = Inr old \<and> removed = [name]"
proof -
  obtain c a old' where "load F path e = Inr old'" "load F path e1 = Inr (add_entries name c a old')"
    by (rule kube_store.File_Add_run [OF F add])
  with old have added: "load F path e1 = Inr (add_entries name c a old)" by simp
  obtain mid new where "load F path e1 = Inr mid" "load F path e2 = Inr new" "remove_entries [name] mid = (removed, new)"
    by (rule kube_store.File_Remove_run [OF F remove])
  with added remove_add [OF old(2,3)] show ?thesis by auto
qed

section \<open>Files in a map\<close>

definition mem_files :: "(string \<rightharpoonup> kube_config) kube_files" where
  "mem_files =
     \<lparr>LoadFromFile = (\<lambda>path e. case e path of None \<Rightarrow> Inl (Sentinel ErrNotExist) | Some c \<Rightarrow> Inr c),
      WriteToFile = (\<lambda>c path e. (Inr (), e(path \<mapsto> c))), GetDefaultFilename = (\<lambda>path. if path = '''' then ''config'' else path), filepath_Abs = Inr\<rparr>"

interpretation mem: kube_store mem_files
  by unfold_locales (auto simp: mem_files_def)

lemma wit_add:
  "File_Add mem_files ''config'' ''ns1/c1'' (NewConfig ''https://h'' ''ca'' ''crt'' ''key'') Map.empty =
    (Inr (), [''config'' \<mapsto> add_entries ''ns1/c1'' \<lparr>kcl_Server = ''https://h'', kcl_CertificateAuthorityData = ''ca'', kcl_rest = ''''\<rparr>
      \<lparr>ai_ClientCertificateData = ''crt'', ai_ClientKeyData = ''key'', ai_rest = ''''\<rparr> empty_config])"
  by (simp add: File_Add_def NewConfig_def currentEntries_def load_def mem_files_def os_IsNotExist_def Let_def)

lemma wit_load: "load mem_files ''config'' Map.empty = Inr empty_config"
  by (simp add: load_def mem_files_def os_IsNotExist_def)

theorem kubeconfig_add_additive_witness:
  "\<exists>e' new. fst (File_Add mem_files ''config'' ''ns1/c1'' (NewConfig ''https://h'' ''ca'' ''crt'' ''key'') Map.empty) = Inr () \<and>
    load mem_files ''config'' e' = Inr new \<and> ServerURL (new\<lparr>kf_CurrentContext := ''ns1/c1''\<rparr>) = ''https://h''"
proof -
  have server: "ServerURL (NewConfig ''https://h'' ''ca'' ''crt'' ''key'') = ''https://h''"
    by (simp add: ServerURL_def NewConfig_def currentEntries_def Let_def)
  obtain e' new where "load mem_files ''config'' e' = Inr new"
    "currentEntries (new\<lparr>kf_CurrentContext := ''ns1/c1''\<rparr>) = currentEntries (NewConfig ''https://h'' ''ca'' ''crt'' ''key'')"
    using kubeconfig_add_additive [OF mem.kube_store_axioms wit_add wit_load] by blast
  then have "load mem_files ''config'' e' = Inr new" "ServerURL (new\<lparr>kf_CurrentContext := ''ns1/c1''\<rparr>) = ''https://h''"
    using server by (simp_all add: ServerURL_def)
  then show ?thesis unfolding wit_add by auto
qed

theorem kubeconfig_add_remove_witness:
  "\<exists>e1 e2. File_Remove mem_files ''config'' [''ns1/c1''] e1 = ([''ns1/c1''], Inr (), e2) \<and> load mem_files ''config'' e2 = Inr empty_config"
proof -
  have fresh: "\<not> has_entry empty_config ''ns1/c1''" "kf_CurrentContext empty_config \<noteq> ''ns1/c1''"
    by (simp_all add: has_entry_def empty_config_def)
  have "\<exists>e2. File_Remove mem_files ''config'' [''ns1/c1''] (snd (File_Add mem_files ''config'' ''ns1/c1'' (NewConfig ''https://h'' ''ca'' ''crt'' ''key'')
      Map.empty)) = ([''ns1/c1''], Inr (), e2)"
    unfolding wit_add File_Remove_def by (simp add: load_def mem_files_def remove_add [OF fresh] del: remove_entries.simps)
  then show ?thesis using kubeconfig_add_remove [OF mem.kube_store_axioms wit_add _ wit_load fresh] wit_add by fastforce
qed

end
