(* ===== verification/Certs.thy ===== *)
theory Certs
  imports Cluster
begin

text \<open>
  \<^verbatim>\<open>pkg/controller/certs\<close>: the issue of client certificates. The certificate library is the parameter \<^verbatim>\<open>cert_lib\<close>.
\<close>

record alt_names =
  an_DNSNames :: "string list"
  an_IPs :: "ip_addr list"

definition AddSANs :: "string list \<Rightarrow> alt_names" where
  "AddSANs sans = \<lparr>an_DNSNames = filter (\<lambda>san. ParseIP san = None) sans, an_IPs = List.map_filter ParseIP sans\<rparr>"

abbreviation ExtKeyUsageClientAuth :: string where "ExtKeyUsageClientAuth \<equiv> ''client auth''"

record cert_config =
  cg_CommonName :: string
  cg_Organization :: "string list"
  cg_Usages :: "string list"
  cg_ExpiresAt :: int
  cg_AltNames :: alt_names

text \<open>What is used of the certificate library; generating keys and signing read random numbers.\<close>

record 'e cert_lib =
  cy_ParsePrivateKeyPEM :: "payload \<Rightarrow> goerr + payload"
  cy_ParseCertsPEM :: "payload \<Rightarrow> goerr + payload list"
  cy_MakeEllipticPrivateKeyPEM :: "'e \<Rightarrow> (goerr + payload) \<times> 'e"
  cy_NewSignedCert :: "cert_config \<Rightarrow> payload \<Rightarrow> payload \<Rightarrow> payload \<Rightarrow> 'e \<Rightarrow> (goerr + payload) \<times> 'e"
  cy_EncodeCertPEM :: "payload \<Rightarrow> payload"

definition generateKey :: "'e cert_lib \<Rightarrow> ('e, goerr + payload) io" where
  "generateKey C =
     bindS (external (cy_MakeEllipticPrivateKeyPEM C)) (\<lambda>r. case r of
       Inl err \<Rightarrow> ret (Inl (ErrNew (''error generating key: '' @ err_Error err))) | Inr generatedData \<Rightarrow> ret (Inr generatedData))"

text \<open>The first certificate of an empty list is out of range.\<close>

definition CreateClientCertKey :: "'e cert_lib \<Rightarrow> string \<Rightarrow> string list \<Rightarrow> alt_names option \<Rightarrow> string list \<Rightarrow> int \<Rightarrow> payload \<Rightarrow> payload \<Rightarrow>
    ('e, goerr + payload \<times> payload) io" where
  "CreateClientCertKey C commonName organization altNames extKeyUsage expiresAt caCert caKey =
     bindE (ret (cy_ParsePrivateKeyPEM C caKey)) (\<lambda>caKeyPEM.
     bindE (ret (cy_ParseCertsPEM C caCert)) (\<lambda>caCertPEM.
     bindE (generateKey C) (\<lambda>b.
     bindE (ret (cy_ParsePrivateKeyPEM C b)) (\<lambda>key.
     let cfg = \<lparr>cg_CommonName = commonName, cg_Organization = organization, cg_Usages = extKeyUsage, cg_ExpiresAt = expiresAt,
       cg_AltNames = (case altNames of None \<Rightarrow> \<lparr>an_DNSNames = [], an_IPs = []\<rparr> | Some a \<Rightarrow> a)\<rparr> in
     case caCertPEM of [] \<Rightarrow> ret (Inl (ErrNew ''runtime error: index out of range [0] with length 0''))
     | ca # _ \<Rightarrow>
       bindE (external (cy_NewSignedCert C cfg key ca caKeyPEM)) (\<lambda>cert.
       ret (Inr (cy_EncodeCertPEM C cert @ cy_EncodeCertPEM C ca, b)))))))"

text \<open>A certificate that is issued is signed by the given authority, whose certificate follows it, and comes with the key it was signed for.\<close>

theorem issued_certificate:
  assumes "CreateClientCertKey C cn org names usage ttl caCert caKey w = (Inr (cert, key), w')"
  shows "\<exists>caKeyPEM ca cas signer leaf e e' cfg. cy_ParsePrivateKeyPEM C caKey = Inr caKeyPEM \<and> cy_ParseCertsPEM C caCert = Inr (ca # cas) \<and>
    cy_ParsePrivateKeyPEM C key = Inr signer \<and> cy_NewSignedCert C cfg signer ca caKeyPEM e = (Inr leaf, e') \<and>
    cg_CommonName cfg = cn \<and> cg_Organization cfg = org \<and> cg_Usages cfg = usage \<and> cg_ExpiresAt cfg = ttl \<and>
    (\<forall>a. names = Some a \<longrightarrow> cg_AltNames cfg = a) \<and> cert = cy_EncodeCertPEM C leaf @ cy_EncodeCertPEM C ca"
proof -
  let ?cfg = "\<lparr>cg_CommonName = cn, cg_Organization = org, cg_Usages = usage, cg_ExpiresAt = ttl,
    cg_AltNames = (case names of None \<Rightarrow> \<lparr>an_DNSNames = [], an_IPs = []\<rparr> | Some a \<Rightarrow> a)\<rparr>"
  obtain caKeyPEM cas' b signer v where parsed: "cy_ParsePrivateKeyPEM C caKey = Inr caKeyPEM" "cy_ParseCertsPEM C caCert = Inr cas'" "cy_ParsePrivateKeyPEM C b = Inr signer"
    and rest: "(case cas' of [] \<Rightarrow> ret (Inl (ErrNew ''runtime error: index out of range [0] with length 0''))
      | ca # _ \<Rightarrow> bindE (external (cy_NewSignedCert C ?cfg signer ca caKeyPEM)) (\<lambda>cert.
          ret (Inr (cy_EncodeCertPEM C cert @ cy_EncodeCertPEM C ca, b)))) v = (Inr (cert, key), w')"
    using assms by (auto simp: CreateClientCertKey_def bindE_Inr ret_def Let_def)
  then obtain ca cas leaf v' where cas: "cas' = ca # cas" and leaf: "external (cy_NewSignedCert C ?cfg signer ca caKeyPEM) v = (Inr leaf, v')"
    and out: "cert = cy_EncodeCertPEM C leaf @ cy_EncodeCertPEM C ca" "key = b"
    by (cases cas') (auto simp: bindE_Inr ret_def)
  obtain e' where "cy_NewSignedCert C ?cfg signer ca caKeyPEM (w_env v) = (Inr leaf, e')"
    using leaf by (auto simp: external_def split: prod.splits)
  with parsed cas out show ?thesis by (intro exI [of _ caKeyPEM] exI [of _ ca] exI [of _ cas] exI [of _ signer] exI [of _ leaf] exI [of _ "w_env v"] exI [of _ e'] exI [of _ ?cfg]) simp
qed

definition wit_certs :: "unit cert_lib" where
  "wit_certs =
     \<lparr>cy_ParsePrivateKeyPEM = Inr, cy_ParseCertsPEM = (\<lambda>pem. Inr [pem]), cy_MakeEllipticPrivateKeyPEM = (\<lambda>e. (Inr ''key'', e)),
      cy_NewSignedCert = (\<lambda>_ _ _ _ e. (Inr ''crt'', e)), cy_EncodeCertPEM = id\<rparr>"

end
