(* ===== verification/Cli.thy ===== *)
theory Cli
  imports K3sClient KubeconfigFile Provisioned Certs
begin

text \<open>
  \<^verbatim>\<open>cli/cmds\<close>: the commands that create, update and delete clusters and policies and that write kubeconfigs. Flag parsing and output
  are left out: a command gets the values of its flags. What it uses of libraries is the parameter \<^verbatim>\<open>app_context\<close>: the client
  of the host, files, the parsers of quantities, versions and kubeconfigs, the certificate library and the answer at the prompt. How
  often a condition is polled before the time-out is a number the clock decides.
\<close>

section \<open>Context of the commands\<close>

record 'e app_context =
  ac_Client :: "'e cluster_api"
  ac_ClaimR :: "('e, persistent_volume_claim) resource"
  ac_files :: "'e kube_files"
  ac_ReadFile :: "string \<Rightarrow> 'e \<Rightarrow> (goerr + payload) \<times> 'e"
  ac_Scan :: "'e \<Rightarrow> string option \<times> 'e"
  ac_ParseQuantity :: "string \<Rightarrow> goerr + payload"
  ac_ParseTolerant :: "string \<Rightarrow> goerr + payload"
  ac_LT :: "payload \<Rightarrow> payload \<Rightarrow> bool"
  ac_clientcmd_Load :: "payload \<Rightarrow> goerr + kube_config"
  ac_Unmarshal :: "payload \<Rightarrow> goerr + bootstrap_data"
  ac_certs :: "'e cert_lib"
  ac_HasControllerReference :: "object_meta \<Rightarrow> bool"
  ac_RemoveOwnerReference :: "object_meta \<Rightarrow> object_meta \<Rightarrow> goerr + object_meta"
  ac_Host :: string
  ac_Kubeconfig :: string
  ac_namespace :: string

definition AppContext_Namespace :: "'e app_context \<Rightarrow> string \<Rightarrow> string" where
  "AppContext_Namespace app name = (if ac_namespace app \<noteq> '''' then ac_namespace app else ''k3k-'' @ name)"

definition IgnoreAlreadyExists :: "goerr + 'a \<Rightarrow> goerr + unit" where
  "IgnoreAlreadyExists r = (case r of Inl err \<Rightarrow> if IsAlreadyExists err then Inr () else Inl err | Inr _ \<Rightarrow> Inr ())"

text \<open>\<^verbatim>\<open>wait.PollUntilContextTimeout\<close>: the condition works on a state that it changes.\<close>

fun poll_until :: "nat \<Rightarrow> ('s \<Rightarrow> ('e, (goerr + bool) \<times> 's) io) \<Rightarrow> 's \<Rightarrow> ('e, (goerr + unit) \<times> 's) io" where
  "poll_until 0 condition s = ret (Inl (ErrNew ''context deadline exceeded''), s)"
| "poll_until (Suc n) condition s =
     bindS (condition s) (\<lambda>(r, s). case r of
       Inl err \<Rightarrow> ret (Inl err, s) | Inr done \<Rightarrow> if done then ret (Inr (), s) else poll_until n condition s)"

text \<open>\<^verbatim>\<open>retry.OnError\<close> with \<^verbatim>\<open>apierrors.IsNotFound\<close>: the number of steps, and whether the last error is returned.\<close>

fun retry_not_found :: "nat \<Rightarrow> ('e, goerr + 'a) io \<Rightarrow> ('e, goerr + 'a) io" where
  "retry_not_found 0 m = ret (Inl (Sentinel ErrRetryTimeout))"
| "retry_not_found (Suc n) m =
     bindS m (\<lambda>r. case r of Inr a \<Rightarrow> ret (Inr a)
       | Inl err \<Rightarrow> if \<not> IsNotFound err \<or> n = 0 then ret (Inl err) else retry_not_found n m)"

section \<open>Flags\<close>

record create_config =
  cf_out :: string
  cf_noOut :: bool
  cf_configName :: string
  cf_token :: string
  cf_clusterCIDR :: string
  cf_serviceCIDR :: string
  cf_servers :: int
  cf_agents :: int
  cf_serverArgs :: "string list"
  cf_agentArgs :: "string list"
  cf_serverEnvs :: "string list"
  cf_agentEnvs :: "string list"
  cf_labels :: "string list"
  cf_annotations :: "string list"
  cf_tlsSANs :: "string list"
  cf_persistenceType :: string
  cf_storageClassName :: string
  cf_storageRequestSize :: string
  cf_version :: string
  cf_mode :: string
  cf_kubeconfigServerHost :: string
  cf_policy :: string
  cf_mirrorHostNodes :: bool
  cf_customCertsPath :: string

definition createFlags :: create_config where
  "createFlags =
     \<lparr>cf_out = '''', cf_noOut = False, cf_configName = '''', cf_token = '''', cf_clusterCIDR = '''', cf_serviceCIDR = '''', cf_servers = 1, cf_agents = 0,
      cf_serverArgs = [], cf_agentArgs = [], cf_serverEnvs = [], cf_agentEnvs = [], cf_labels = [], cf_annotations = [], cf_tlsSANs = [],
      cf_persistenceType = DynamicPersistenceMode, cf_storageClassName = '''', cf_storageRequestSize = '''', cf_version = '''',
      cf_mode = ''shared'', cf_kubeconfigServerHost = '''', cf_policy = '''', cf_mirrorHostNodes = False, cf_customCertsPath = ''''\<rparr>"

definition validPersistenceModes :: "string list" where
  "validPersistenceModes = [EphemeralPersistenceMode, DynamicPersistenceMode]"

definition validClusterModes :: "string list" where
  "validClusterModes = [VirtualClusterMode, SharedClusterMode, HCPClusterMode]"

definition validateCreateConfig :: "'e app_context \<Rightarrow> create_config \<Rightarrow> goerr + unit" where
  "validateCreateConfig app cfg =
     (if cf_servers cfg \<le> 0 then Inl (ErrNew ''invalid number of servers: must be 1 or more'')
      else if cf_persistenceType cfg \<noteq> '''' \<and> cf_persistenceType cfg \<notin> set validPersistenceModes
      then Inl (ErrNew ''persistence-type should be one of dynamic or ephemeral'')
      else if cf_storageRequestSize cfg \<noteq> '''' \<and> isl (ac_ParseQuantity app (cf_storageRequestSize cfg))
      then Inl (ErrNew ''invalid storage size'')
      else if cf_mode cfg \<noteq> '''' \<and> cf_mode cfg \<notin> set validClusterModes then Inl (ErrNew ''mode should be one of shared, virtual or hcp'')
      else Inr ())"

definition standalonePath :: "create_config \<Rightarrow> cluster \<Rightarrow> string" where
  "standalonePath cfg cluster =
     (if cf_noOut cfg then '''' else if cf_out cfg \<noteq> '''' then cf_out cfg else if cf_configName cfg \<noteq> '''' then cf_configName cfg
      else Namespace (cl_meta cluster) @ ''-'' @ Name (cl_meta cluster) @ ''-kubeconfig.yaml'')"

section \<open>The cluster to create\<close>

text \<open>A malformed variable ends the program.\<close>

fun env :: "string list \<Rightarrow> goerr + env_var list" where
  "env [] = Inr []"
| "env (e # envSlice) =
     (case strings_Split e (CHR ''='') of
        [key, value] \<Rightarrow>
          (case env envSlice of Inl err \<Rightarrow> Inl err
           | Inr envVars \<Rightarrow> Inr (\<lparr>ev_Name = key, ev_Value = value, ev_ValueFrom = None\<rparr> # envVars))
      | _ \<Rightarrow> Inl (ErrNew (''incorrect value for environment variable '' @ e)))"

definition parseKeyValuePairs :: "string list \<Rightarrow> smap" where
  "parseKeyValuePairs pairs = foldl (\<lambda>resultMap p. case strings_Cut p (CHR ''='') of (k, v) \<Rightarrow> fmupd k v resultMap) fmempty pairs"

fun unique_loop :: "string set \<Rightarrow> string list \<Rightarrow> string list" where
  "unique_loop seen [] = []"
| "unique_loop seen (s # ss) = (if s \<in> seen then unique_loop seen ss else s # unique_loop (insert s seen) ss)"

definition uniqueStrings :: "string list \<Rightarrow> string list" where
  "uniqueStrings ss = unique_loop {} ss"

definition extractHost :: "string \<Rightarrow> string \<Rightarrow> goerr + string" where
  "extractHost serverURL override =
     (if override \<noteq> '''' then Inr override
      else case url_Parse serverURL of Inl err \<Rightarrow> Inl err | Inr u \<Rightarrow> Inr (url_Hostname u))"

definition caCertSecret :: "string \<Rightarrow> string \<Rightarrow> string \<Rightarrow> payload \<Rightarrow> payload \<Rightarrow> secret" where
  "caCertSecret certName clusterName clusterNamespace cert key =
     \<lparr>sec_meta = meta_of (SafeConcatNameWithPrefix [clusterName, certName]) clusterNamespace, sec_Type = ''kubernetes.io/tls'',
      sec_Data = Some (fmap_of_list [(''tls.crt'', cert), (''tls.key'', key)]), sec_Immutable = None\<rparr>"

definition custom_cas_of :: "string \<Rightarrow> custom_cas" where
  "custom_cas_of name =
     (let source = (\<lambda>certName. \<lparr>cs_SecretName = SafeConcatNameWithPrefix [name, certName]\<rparr>) in
      \<lparr>ca_Enabled = True, ca_Sources =
        \<lparr>ServerCA = source ''server-ca'', ClientCA = source ''client-ca'', RequestHeaderCA = source ''request-header-ca'',
         EtcdServerCA = source ''etcd-server-ca'', EtcdPeerCA = source ''etcd-peer-ca'', ServiceAccountToken = source ''service-account-token''\<rparr>\<rparr>)"

definition newCluster :: "'e app_context \<Rightarrow> string \<Rightarrow> string \<Rightarrow> create_config \<Rightarrow> goerr + cluster" where
  "newCluster app name namespace config =
     bindR (if cf_storageRequestSize config = '''' then Inr None
        else case ac_ParseQuantity app (cf_storageRequestSize config) of Inl err \<Rightarrow> Inl err | Inr q \<Rightarrow> Inr (Some q)) (\<lambda>storageRequestSize.
     bindR (env (cf_serverEnvs config)) (\<lambda>serverEnvs. bindR (env (cf_agentEnvs config)) (\<lambda>agentEnvs.
     Inr \<lparr>cl_meta = (meta_of name namespace)\<lparr>Labels := Some (parseKeyValuePairs (cf_labels config)),
         Annotations := Some (parseKeyValuePairs (cf_annotations config))\<rparr>,
       cl_Spec = empty_spec\<lparr>Servers := Some (wrap32 (cf_servers config)), Agents := Some (wrap32 (cf_agents config)),
         ClusterCIDR := cf_clusterCIDR config, ServiceCIDR := cf_serviceCIDR config, ServerArgs := cf_serverArgs config, AgentArgs := cf_agentArgs config,
         ServerEnvs := serverEnvs, AgentEnvs := agentEnvs, Version := cf_version config, Mode := cf_mode config,
         Persistence := \<lparr>pe_Type = cf_persistenceType config,
           pe_StorageClassName = (if cf_storageClassName config = '''' then None else Some (cf_storageClassName config)),
           pe_StorageRequestSize = storageRequestSize\<rparr>,
         MirrorHostNodes := cf_mirrorHostNodes config,
         TokenSecretRef := (if cf_token config \<noteq> '''' then Some \<lparr>sr_Name = TokenSecretName name, sr_Namespace = namespace\<rparr> else None),
         CustomCAs := (if cf_customCertsPath config \<noteq> '''' then Some (custom_cas_of name) else None)\<rparr>,
       cl_Status = empty_status\<rparr>)))"

text \<open>The cluster as it is sent to the API server, and the host it is reached at.\<close>

definition cluster_for :: "'e app_context \<Rightarrow> string \<Rightarrow> string \<Rightarrow> create_config \<Rightarrow> goerr + cluster \<times> string" where
  "cluster_for app name namespace config =
     bindR (newCluster app name namespace config) (\<lambda>cluster.
     bindR (extractHost (ac_Host app) (cf_kubeconfigServerHost config)) (\<lambda>host.
     Inr (cluster\<lparr>cl_Spec := (cl_Spec cluster)
       \<lparr>Expose := Some \<lparr>ex_Ingress = None, ex_LoadBalancer = None, ex_NodePort = Some \<lparr>np_ServerPort = None, np_EtcdPort = None\<rparr>, ex_Annotations = None\<rparr>,
        TLSSANs := uniqueStrings (host # cf_tlsSANs config)\<rparr>\<rparr>, host)))"

section \<open>Creating a cluster\<close>

definition createNamespace :: "'e app_context \<Rightarrow> string \<Rightarrow> string \<Rightarrow> ('e, goerr + unit) io" where
  "createNamespace app name policyName =
     (let R = NamespaceR (cx_policy (ac_Client app));
          ns = \<lparr>nsp_meta = (meta_of name '''')\<lparr>Labels := (if policyName \<noteq> '''' then Some (fmap_of_list [(PolicyNameLabelKey, policyName)]) else None)\<rparr>,
            nsp_rest = ''''\<rparr>
      in bindS (k_Get Host R (cluster_scoped name)) (\<lambda>r. case r of
           Inr _ \<Rightarrow> ret (Inr ())
         | Inl err \<Rightarrow> if \<not> IsNotFound err then ret (Inl err) else bindE (k_Create Host R ns) (\<lambda>_. ret (Inr ()))))"

definition customCAsMap :: smap where
  "customCAsMap = fmap_of_list [(''etcd-peer-ca'', ''/etcd/peer-ca''), (''etcd-server-ca'', ''/etcd/server-ca''), (''server-ca'', ''/server-ca''),
     (''client-ca'', ''/client-ca''), (''request-header-ca'', ''/request-header-ca''), (''service-account-token'', ''/service'')]"

fun create_certs :: "'e app_context \<Rightarrow> string \<Rightarrow> string \<Rightarrow> string \<Rightarrow> string list \<Rightarrow> ('e, goerr + unit) io" where
  "create_certs app name namespace customCertsPath [] = ret (Inr ())"
| "create_certs app name namespace customCertsPath (certName # certs) =
     (let path = customCertsPath @ mindex (Some customCAsMap) certName in
      bindE (if certName \<noteq> ''service-account-token'' then external (ac_ReadFile app (path @ ''.crt'')) else ret (Inr '''')) (\<lambda>cert.
      bindE (external (ac_ReadFile app (path @ ''.key''))) (\<lambda>key.
      bindS (k_Create Host (cx_SecretR (ac_Client app)) (caCertSecret certName name namespace cert key)) (\<lambda>r. case r of
        Inl err \<Rightarrow> ret (IgnoreAlreadyExists (Inl err :: goerr + unit))
      | Inr _ \<Rightarrow> create_certs app name namespace customCertsPath certs))))"

definition CreateCustomCertsSecrets :: "(string fset \<Rightarrow> string list) \<Rightarrow> 'e app_context \<Rightarrow> string \<Rightarrow> string \<Rightarrow> string \<Rightarrow> ('e, goerr + unit) io" where
  "CreateCustomCertsSecrets ord app name namespace customCertsPath =
     create_certs app name namespace customCertsPath (ord (fmdom customCAsMap))"

definition refresh :: "'e app_context \<Rightarrow> cluster \<Rightarrow> ('e, (goerr + unit) \<times> cluster) io" where
  "refresh app cluster =
     bindS (k_Get Host (cx_ClusterR (ac_Client app)) (key_of (cl_meta cluster))) (\<lambda>r. case r of
       Inl err \<Rightarrow> ret (Inl (ErrWrap ''failed to get resource'' [err]), cluster) | Inr cluster \<Rightarrow> ret (Inr (), cluster))"

definition reconciled_condition :: "'e app_context \<Rightarrow> cluster \<Rightarrow> ('e, (goerr + bool) \<times> cluster) io" where
  "reconciled_condition app cluster =
     bindS (refresh app cluster) (\<lambda>(r, cluster). case r of
       Inl err \<Rightarrow> ret (Inl err, cluster) | Inr _ \<Rightarrow> ret (Inr (st_HostVersion (cl_Status cluster) \<noteq> ''''), cluster))"

definition waitForClusterReconciled :: "'e app_context \<Rightarrow> nat \<Rightarrow> cluster \<Rightarrow> ('e, (goerr + unit) \<times> cluster) io" where
  "waitForClusterReconciled app polls cluster = poll_until polls (reconciled_condition app) cluster"

definition ready_poll :: "'e app_context \<Rightarrow> cluster \<times> nat \<Rightarrow> ('e, (goerr + bool) \<times> cluster \<times> nat) io" where
  "ready_poll app = (\<lambda>(cluster, failCount).
     bindS (refresh app cluster) (\<lambda>(r, cluster). case r of
       Inl err \<Rightarrow> ret (Inl err, cluster, failCount)
     | Inr _ \<Rightarrow>
         if st_Phase (cl_Status cluster) = ClusterReady then ret (Inr True, cluster, failCount)
         else if st_Phase (cl_Status cluster) = ClusterFailed then
           (if Suc failCount > 3 then ret (Inl (ErrNew (''cluster creation failed: '' @ st_Phase (cl_Status cluster))), cluster, Suc failCount)
            else ret (Inr False, cluster, Suc failCount))
         else ret (Inr False, cluster, failCount)))"

definition waitForClusterReady :: "'e app_context \<Rightarrow> nat \<Rightarrow> cluster \<Rightarrow> ('e, (goerr + unit) \<times> cluster) io" where
  "waitForClusterReady app polls cluster =
     bindS (poll_until polls (ready_poll app) (cluster, 0)) (\<lambda>(r, cluster, _). ret (r, cluster))"

definition url_String :: "url \<Rightarrow> string" where
  "url_String u = url_Scheme u @ ''://'' @ url_Host u"

definition addKubeconfigContext :: "'e app_context \<Rightarrow> cluster \<Rightarrow> kube_config \<Rightarrow> ('e, goerr + unit) io" where
  "addKubeconfigContext app cluster config =
     external (File_Add (ac_files app) (GetDefaultFilename (ac_files app) (ac_Kubeconfig app))
       (ContextName (Namespace (cl_meta cluster)) (Name (cl_meta cluster))) config)"

definition writeKubeconfig :: "'e app_context \<Rightarrow> cluster \<Rightarrow> kube_config \<Rightarrow> string \<Rightarrow> ('e, goerr + unit) io" where
  "writeKubeconfig app cluster config path =
     bindE (if path \<noteq> '''' then external (Write (ac_files app) config path) else ret (Inr '''')) (\<lambda>_. addKubeconfigContext app cluster config)"

text \<open>What follows once the cluster is Ready: fetching, rewriting and storing its kubeconfig.\<close>

definition fetch_kubeconfig :: "'e app_context \<Rightarrow> cluster \<Rightarrow> ('e, goerr + kube_config) io" where
  "fetch_kubeconfig app cluster =
     bindE (k_Get Host (cx_SecretR (ac_Client app)) \<lparr>nn_Namespace = Namespace (cl_meta cluster),
         nn_Name = SafeConcatNameWithPrefix [Name (cl_meta cluster), ''kubeconfig'']\<rparr>) (\<lambda>kubeconfigSecret.
     ret (ac_clientcmd_Load app (mindex (sec_Data kubeconfigSecret) ''kubeconfig.yaml'')))"

definition extract_kubeconfig :: "'e app_context \<Rightarrow> create_config \<Rightarrow> string \<Rightarrow> cluster \<Rightarrow> ('e, goerr + unit) io" where
  "extract_kubeconfig app config host cluster =
     bindE (retry_not_found 25 (fetch_kubeconfig app cluster)) (\<lambda>kubeconfig.
     bindE (URL (cx_server (ac_Client app)) cluster host) (\<lambda>serverURL.
     writeKubeconfig app cluster (kubeconfig\<lparr>kf_Clusters := fmmap (kcl_Server_update (\<lambda>_. url_String serverURL)) (kf_Clusters kubeconfig)\<rparr>)
       (standalonePath config cluster)))"

definition wait_and_extract :: "'e app_context \<Rightarrow> nat \<times> nat \<Rightarrow> create_config \<Rightarrow> string \<Rightarrow> cluster \<Rightarrow> ('e, goerr + unit) io" where
  "wait_and_extract app polls config host cluster =
     bindS (waitForClusterReconciled app (fst polls) cluster) (\<lambda>(r, cluster). case r of
       Inl err \<Rightarrow> ret (Inl (ErrWrap ''failed to wait for cluster to be reconciled'' [err]))
     | Inr _ \<Rightarrow>
     bindS (waitForClusterReady app (snd polls) cluster) (\<lambda>(r, cluster). case r of
       Inl err \<Rightarrow> ret (Inl (ErrWrap ''failed to wait for cluster to become ready'' [err]))
     | Inr _ \<Rightarrow> extract_kubeconfig app config host cluster))"

definition create_secrets :: "(string fset \<Rightarrow> string list) \<Rightarrow> 'e app_context \<Rightarrow> create_config \<Rightarrow> string \<Rightarrow> string \<Rightarrow> ('e, goerr + unit) io" where
  "create_secrets ord app config name namespace =
     bindE (if cf_token config \<noteq> ''''
        then bindE (k_Create Host (cx_SecretR (ac_Client app)) (TokenSecretObj (cf_token config) name namespace)) (\<lambda>_. ret (Inr ()))
        else ret (Inr ())) (\<lambda>_.
     if cf_customCertsPath config \<noteq> '''' then CreateCustomCertsSecrets ord app name namespace (cf_customCertsPath config) else ret (Inr ()))"

definition createAction :: "(string fset \<Rightarrow> string list) \<Rightarrow> 'e app_context \<Rightarrow> nat \<times> nat \<Rightarrow> create_config \<Rightarrow> string \<Rightarrow> ('e, goerr + unit) io" where
  "createAction ord app polls config name =
     (if name = ''system'' then ret (Inl (ErrNew ''invalid cluster name''))
      else if cf_agents config \<noteq> 0 \<and> cf_mode config \<noteq> VirtualClusterMode
      then ret (Inl (ErrNew ''invalid flag, --agents flag is only allowed in virtual mode''))
      else
        (let namespace = AppContext_Namespace app name;
             config = config\<lparr>cf_version := map (\<lambda>c. if c = CHR ''+'' then CHR ''-'' else c) (cf_version config)\<rparr> in
         bindE (createNamespace app namespace (cf_policy config)) (\<lambda>_.
         bindE (create_secrets ord app config name namespace) (\<lambda>_.
         case cluster_for app name namespace config of Inl err \<Rightarrow> ret (Inl err)
         | Inr (cluster, host) \<Rightarrow>
             bindS (k_Create Host (cx_ClusterR (ac_Client app)) cluster) (\<lambda>r. case r of
               Inl err \<Rightarrow> if \<not> IsAlreadyExists err then ret (Inl err) else wait_and_extract app polls config host cluster
             | Inr cluster \<Rightarrow> wait_and_extract app polls config host cluster)))))"

section \<open>Deleting a cluster\<close>

text \<open>The argument names a cluster, with its namespace or without.\<close>

definition resolveClusterArg :: "'e app_context \<Rightarrow> string \<Rightarrow> goerr + string \<times> string" where
  "resolveClusterArg app arg =
     (if CHR ''/'' \<in> set arg then
        (case strings_Cut arg (CHR ''/'') of (ns, clusterName) \<Rightarrow>
           if ac_namespace app \<noteq> '''' \<and> ac_namespace app \<noteq> ns then Inl (ErrNew ''namespace mismatch'') else Inr (ns, clusterName))
      else Inr (AppContext_Namespace app arg, arg))"

definition RemoveOwnerReferenceFromSecret :: "'e app_context \<Rightarrow> string \<Rightarrow> cluster \<Rightarrow> ('e, goerr + unit) io" where
  "RemoveOwnerReferenceFromSecret app name cluster =
     bindS (k_Get Host (cx_SecretR (ac_Client app)) \<lparr>nn_Namespace = Namespace (cl_meta cluster), nn_Name = name\<rparr>) (\<lambda>r. case r of
       Inl err \<Rightarrow> ret (if IsNotFound err then Inr () else Inl err)
     | Inr secret \<Rightarrow>
         if ac_HasControllerReference app (sec_meta secret) then
           (case ac_RemoveOwnerReference app (cl_meta cluster) (sec_meta secret) of Inl err \<Rightarrow> ret (Inl err)
            | Inr m \<Rightarrow> bindE (k_Update Host (cx_SecretR (ac_Client app)) (secret\<lparr>sec_meta := m\<rparr>)) (\<lambda>_. ret (Inr ())))
         else ret (Inr ()))"

definition cluster_claims :: "cluster \<Rightarrow> list_opts" where
  "cluster_claims cluster =
     \<lparr>lo_Namespace = Namespace (cl_meta cluster), lo_Reqs = [ReqEquals ''cluster'' (Name (cl_meta cluster)), ReqEquals ''role'' ''server'']\<rparr>"

definition deleteCluster :: "'e app_context \<Rightarrow> bool \<Rightarrow> cluster \<Rightarrow> ('e, goerr + unit) io" where
  "deleteCluster app keepData cluster =
     (let delete = bindS (k_Delete Host (cx_ClusterR (ac_Client app)) cluster) (\<lambda>r. ret (IgnoreNotFound r)) in
      if keepData then bindE (RemoveOwnerReferenceFromSecret app (TokenSecretName (Name (cl_meta cluster))) cluster) (\<lambda>_. delete)
      else bindS (k_DeleteAllOf Host (ac_ClaimR app) (cluster_claims cluster)) (\<lambda>r. case r of
        Inl err \<Rightarrow> ret (IgnoreNotFound (Inl err :: goerr + unit)) | Inr _ \<Rightarrow> delete))"

text \<open>An error of the file is only a warning.\<close>

definition removeKubeconfigContexts :: "'e app_context \<Rightarrow> cluster list \<Rightarrow> ('e, unit) io" where
  "removeKubeconfigContexts app clusters =
     external (\<lambda>e. case File_Remove (ac_files app) (GetDefaultFilename (ac_files app) (ac_Kubeconfig app))
       (map (\<lambda>cluster. ContextName (Namespace (cl_meta cluster)) (Name (cl_meta cluster))) clusters) e of (_, _, e) \<Rightarrow> ((), e))"

definition delete_all :: "'e app_context \<Rightarrow> bool \<Rightarrow> ('e, goerr + unit) io" where
  "delete_all app keepData =
     bindE (k_List Host (cx_ClusterR (ac_Client app)) (InNamespace (ac_namespace app))) (\<lambda>clusters.
     if clusters = [] then ret (Inr ())
     else bindE (for_each clusters (deleteCluster app keepData)) (\<lambda>_. bindS (removeKubeconfigContexts app clusters) (\<lambda>_. ret (Inr ()))))"

definition delete_one :: "'e app_context \<Rightarrow> bool \<Rightarrow> string \<Rightarrow> string \<Rightarrow> ('e, goerr + unit) io" where
  "delete_one app keepData namespace name =
     bindS (k_Get Host (cx_ClusterR (ac_Client app)) \<lparr>nn_Namespace = namespace, nn_Name = name\<rparr>) (\<lambda>r. case r of
       Inl err \<Rightarrow> ret (Inl (if IsNotFound err then ErrNew (''cluster '' @ strconv_Quote name @ '' not found in namespace '' @ strconv_Quote namespace) else err))
     | Inr cluster \<Rightarrow> bindE (deleteCluster app keepData cluster) (\<lambda>_. bindS (removeKubeconfigContexts app [cluster]) (\<lambda>_. ret (Inr ()))))"

definition clusterDelete :: "'e app_context \<Rightarrow> bool \<Rightarrow> bool \<Rightarrow> string list \<Rightarrow> ('e, goerr + unit) io" where
  "clusterDelete app keepData deleteAll args =
     (if deleteAll then
        (if args \<noteq> [] then ret (Inl (ErrNew ''cannot specify a cluster name together with --all''))
         else if ac_namespace app = '''' then ret (Inl (ErrNew ''--all requires a namespace, set it with --namespace/-n''))
         else delete_all app keepData)
      else (case args of
        [arg] \<Rightarrow> (case resolveClusterArg app arg of Inl err \<Rightarrow> ret (Inl err)
          | Inr (namespace, name) \<Rightarrow>
              if name = ''system'' then ret (Inl (ErrNew ''invalid cluster name'')) else delete_one app keepData namespace name)
      | _ \<Rightarrow> ret (Inl (ErrNew ''expected exactly one cluster name''))))"

section \<open>Updating a cluster\<close>

text \<open>A flag that was not given is \<^verbatim>\<open>None\<close>.\<close>

record update_config =
  uf_servers :: "int option"
  uf_agents :: "int option"
  uf_labels :: "string list option"
  uf_annotations :: "string list option"
  uf_version :: "string option"
  uf_noConfirm :: bool

datatype change = Change string string string

definition diffMaps :: "(string fset \<Rightarrow> string list) \<Rightarrow> smap \<Rightarrow> smap \<Rightarrow> change list" where
  "diffMaps ord oldMap newMap =
     concat (map (\<lambda>k. let newVal = mindex (Some newMap) k in
       case fmlookup oldMap k of Some oldVal \<Rightarrow> if oldVal \<noteq> newVal then [Change k oldVal newVal] else [] | None \<Rightarrow> [Change k '''' newVal])
       (ord (fmdom newMap)))"

definition update_version :: "'e app_context \<Rightarrow> string option \<Rightarrow> cluster \<Rightarrow> goerr + change list \<times> cluster" where
  "update_version app version cluster =
     (case version of None \<Rightarrow> Inr ([], cluster)
      | Some new \<Rightarrow>
          if new = Version (cl_Spec cluster) then Inr ([], cluster)
          else
            (let currentVersion = (if Version (cl_Spec cluster) = '''' then st_HostVersion (cl_Status cluster) else Version (cl_Spec cluster)) in
             case ac_ParseTolerant app currentVersion of Inl err \<Rightarrow> Inl (ErrWrap ''failed to parse current cluster version'' [err])
             | Inr current \<Rightarrow>
                 (case ac_ParseTolerant app new of Inl err \<Rightarrow> Inl (ErrWrap ''failed to parse new cluster version'' [err])
                  | Inr newVersion \<Rightarrow>
                      if ac_LT app newVersion current then Inl (ErrNew ''downgrading cluster version is not supported'')
                      else Inr ([Change ''Version'' currentVersion new], cluster\<lparr>cl_Spec := (cl_Spec cluster)\<lparr>Version := new\<rparr>\<rparr>))))"

definition update_count :: "string \<Rightarrow> int option \<Rightarrow> (cluster_spec \<Rightarrow> int option) \<Rightarrow> ((int option \<Rightarrow> int option) \<Rightarrow> cluster_spec \<Rightarrow> cluster_spec) \<Rightarrow>
    change list \<times> cluster \<Rightarrow> change list \<times> cluster" where
  "update_count field new get put = (\<lambda>(changes, cluster).
     let old = (case get (cl_Spec cluster) of None \<Rightarrow> 0 | Some n \<Rightarrow> n) in
     case new of None \<Rightarrow> (changes, cluster)
     | Some n \<Rightarrow> if old = n then (changes, cluster)
         else (changes @ [Change field (strconv_FormatInt old) (strconv_FormatInt n)], cluster\<lparr>cl_Spec := put (\<lambda>_. Some n) (cl_Spec cluster)\<rparr>))"

definition update_map :: "(string fset \<Rightarrow> string list) \<Rightarrow> string list option \<Rightarrow> smap option \<Rightarrow> change list \<times> smap option" where
  "update_map ord pairs m =
     (case pairs of None \<Rightarrow> ([], m)
      | Some ps \<Rightarrow> (let m' = minit m ++\<^sub>f parseKeyValuePairs ps in (diffMaps ord (minit m) m', Some m')))"

text \<open>The changed cluster, and whether there is a change.\<close>

definition updated :: "(string fset \<Rightarrow> string list) \<Rightarrow> 'e app_context \<Rightarrow> update_config \<Rightarrow> cluster \<Rightarrow> goerr + bool \<times> cluster" where
  "updated ord app config cluster =
     bindR (update_version app (uf_version config) cluster) (\<lambda>vc.
     let (changes, c) = update_count ''Agents'' (uf_agents config) Agents Agents_update
           (update_count ''Servers'' (uf_servers config) Servers Servers_update vc);
         (labelChanges, labels) = update_map ord (uf_labels config) (Labels (cl_meta c));
         (annotationChanges, annotations) = update_map ord (uf_annotations config) (Annotations (cl_meta c))
     in Inr (changes \<noteq> [] \<or> labelChanges \<noteq> [] \<or> annotationChanges \<noteq> [],
          c\<lparr>cl_meta := (cl_meta c)\<lparr>Labels := labels, Annotations := annotations\<rparr>\<rparr>))"

definition confirmClusterUpdate :: "'e app_context \<Rightarrow> ('e, bool) io" where
  "confirmClusterUpdate app =
     external (\<lambda>e. case ac_Scan app e of (line, e) \<Rightarrow>
       (case line of None \<Rightarrow> False | Some s \<Rightarrow> strings_ToLower (strings_TrimSpace s) = ''y'', e))"

definition updateAction :: "(string fset \<Rightarrow> string list) \<Rightarrow> 'e app_context \<Rightarrow> update_config \<Rightarrow> string \<Rightarrow> ('e, goerr + unit) io" where
  "updateAction ord app config arg =
     (case resolveClusterArg app arg of Inl err \<Rightarrow> ret (Inl err)
      | Inr (namespace, name) \<Rightarrow>
          if name = ''system'' then ret (Inl (ErrNew ''invalid cluster name''))
          else
            bindS (k_Get Host (cx_ClusterR (ac_Client app)) \<lparr>nn_Namespace = namespace, nn_Name = name\<rparr>) (\<lambda>r. case r of
              Inl err \<Rightarrow> ret (Inl (if IsNotFound err then ErrNew (''cluster '' @ name @ '' not found in namespace '' @ namespace)
                else ErrWrap ''failed to fetch cluster'' [err]))
            | Inr virtualCluster \<Rightarrow>
                (case updated ord app config virtualCluster of Inl err \<Rightarrow> ret (Inl err)
                 | Inr (dirty, cluster) \<Rightarrow>
                     if \<not> dirty then ret (Inr ())
                     else
                       bindS (if uf_noConfirm config then ret True else confirmClusterUpdate app) (\<lambda>yes.
                       if \<not> yes then ret (Inr ())
                       else bindE (k_Update Host (cx_ClusterR (ac_Client app)) cluster) (\<lambda>_. ret (Inr ()))))))"

section \<open>Policies\<close>

record policy_create_config =
  pcf_mode :: string
  pcf_labels :: "string list"
  pcf_annotations :: "string list"
  pcf_namespaces :: "string list"
  pcf_overwrite :: bool

text \<open>A policy with nothing but its mode.\<close>

definition new_policy :: "object_meta \<Rightarrow> string \<Rightarrow> virtual_cluster_policy" where
  "new_policy m mode =
     \<lparr>vp_meta = m, vp_Spec = \<lparr>Quota = None, Limit = None, DefaultNodeSelector = None, DefaultPriorityClass = '''', DefaultServerAffinity = None,
        DefaultAgentAffinity = None, AllowedMode = mode, DisableNetworkPolicy = False, PodSecurityAdmissionLevel = None, pl_Sync = None,
        pl_RuntimeClassName = None, pl_SecurityContext = None, pl_HostUsers = None, pl_AllowedHostSchedulers = None\<rparr>,
      vp_Status = \<lparr>ps_ObservedGeneration = 0, ps_LastUpdate = '''', ps_Summary = '''', ps_Conditions = []\<rparr>\<rparr>"

definition createPolicy :: "'e app_context \<Rightarrow> policy_create_config \<Rightarrow> string \<Rightarrow> ('e, goerr + unit) io" where
  "createPolicy app config policyName =
     bindS (k_Create Host (PolicyR (cx_policy (ac_Client app)))
       (new_policy ((meta_of policyName '''')\<lparr>Labels := Some (parseKeyValuePairs (pcf_labels config)),
          Annotations := Some (parseKeyValuePairs (pcf_annotations config))\<rparr>) (pcf_mode config))) (\<lambda>r. ret (IgnoreAlreadyExists r))"

definition bind_namespace :: "'e app_context \<Rightarrow> policy_create_config \<Rightarrow> string \<Rightarrow> string \<Rightarrow> ('e, goerr list) io" where
  "bind_namespace app config policyName name =
     (let R = NamespaceR (cx_policy (ac_Client app)) in
      bindS (k_Get Host R (cluster_scoped name)) (\<lambda>r. case r of
        Inl err \<Rightarrow> ret (if IsNotFound err then [] else [err])
      | Inr ns \<Rightarrow>
          (let labels = minit (Labels (nsp_meta ns)); oldPolicy = mindex (Some labels) PolicyNameLabelKey;
               update = bindS (k_Update Host R (ns\<lparr>nsp_meta := (nsp_meta ns)\<lparr>Labels := Some (fmupd PolicyNameLabelKey policyName labels)\<rparr>\<rparr>))
                 (\<lambda>r. ret (case r of Inl err \<Rightarrow> [err] | Inr _ \<Rightarrow> []))
           in if oldPolicy = policyName then ret []
              else if oldPolicy = '''' then update
              else if pcf_overwrite config then update else ret [])))"

definition bindPolicyToNamespaces :: "'e app_context \<Rightarrow> policy_create_config \<Rightarrow> string \<Rightarrow> ('e, goerr + unit) io" where
  "bindPolicyToNamespaces app config policyName =
     bindS (for_collect (pcf_namespaces config) (bind_namespace app config policyName)) (\<lambda>errs. ret (of_err (errors_Join (map Some errs))))"

definition validatePolicyMode :: "policy_create_config \<Rightarrow> goerr + unit" where
  "validatePolicyMode config =
     (if pcf_mode config \<in> set [VirtualClusterMode, SharedClusterMode, HCPClusterMode] then Inr ()
      else Inl (ErrNew ''mode must be one of shared, virtual or hcp''))"

definition policyCreateAction :: "'e app_context \<Rightarrow> policy_create_config \<Rightarrow> string \<Rightarrow> ('e, goerr + unit) io" where
  "policyCreateAction app config policyName =
     bindE (createPolicy app config policyName) (\<lambda>_. bindPolicyToNamespaces app config policyName)"

definition policyDeleteAction :: "'e app_context \<Rightarrow> string \<Rightarrow> ('e, goerr + unit) io" where
  "policyDeleteAction app name =
     bindS (k_Delete Host (PolicyR (cx_policy (ac_Client app))) (new_policy (meta_of name '''') '''')) (\<lambda>r. ret (IgnoreNotFound r))"

section \<open>Generating a kubeconfig\<close>

record generate_config =
  gf_create :: create_config
  gf_name :: string
  gf_cn :: string
  gf_org :: "string list"
  gf_altNames :: "string list"
  gf_expirationDays :: int

record kube_cert =
  kq_AltNames :: alt_names
  kq_CN :: string
  kq_ORG :: "string list"
  kq_ExpiryDate :: int

definition Generate :: "'e app_context \<Rightarrow> kube_cert \<Rightarrow> cluster \<Rightarrow> string \<Rightarrow> ('e, goerr + kube_config) io" where
  "Generate app k cluster hostServerIP =
     bindE (LoadFromSecret (\<lambda>b. \<not> isl (ac_Unmarshal app b)) (cx_server (ac_Client app)) cluster) (\<lambda>b.
     case ac_Unmarshal app b of Inl err \<Rightarrow> ret (Inl err)
     | Inr bootstrapData \<Rightarrow>
     bindE (CreateClientCertKey (ac_certs app) (kq_CN k) (kq_ORG k) (Some (kq_AltNames k)) [ExtKeyUsageClientAuth] (kq_ExpiryDate k)
       (ct_Content (bd_ClientCA bootstrapData)) (ct_Content (bd_ClientCAKey bootstrapData))) (\<lambda>(adminCert, adminKey).
     bindE (URL (cx_server (ac_Client app)) cluster hostServerIP) (\<lambda>serverURL.
     ret (Inr (NewConfig (url_String serverURL) (ct_Content (bd_ServerCA bootstrapData)) adminCert adminKey)))))"

definition generate_cert :: "generate_config \<Rightarrow> kube_cert" where
  "generate_cert cfg =
     (let override = cf_kubeconfigServerHost (gf_create cfg) in
      \<lparr>kq_AltNames = AddSANs (gf_altNames cfg @ (if override \<noteq> '''' then [override] else [])), kq_CN = gf_cn cfg,
       kq_ORG = (if gf_org cfg = [] then [''system:masters''] else gf_org cfg), kq_ExpiryDate = wrap64 (3600000000000 * 24 * gf_expirationDays cfg)\<rparr>)"

definition resolveServerHost :: "string \<Rightarrow> string \<Rightarrow> goerr + string" where
  "resolveServerHost restConfigHost override =
     (if override \<noteq> '''' then Inr override
      else case url_Parse restConfigHost of Inl err \<Rightarrow> Inl err | Inr u \<Rightarrow> Inr (url_Hostname u))"

definition generate_arg :: "'e app_context \<Rightarrow> generate_config \<Rightarrow> string list \<Rightarrow> goerr + string \<times> string" where
  "generate_arg app cfg args =
     (case args of [arg] \<Rightarrow> resolveClusterArg app arg
      | _ \<Rightarrow> if gf_name cfg \<noteq> '''' then Inr (AppContext_Namespace app (gf_name cfg), gf_name cfg)
          else Inl (ErrNew ''expected exactly one cluster name''))"

definition kubeconfig_generate :: "'e app_context \<Rightarrow> generate_config \<Rightarrow> string list \<Rightarrow> ('e, goerr + unit) io" where
  "kubeconfig_generate app cfg args =
     (case generate_arg app cfg args of Inl err \<Rightarrow> ret (Inl err)
      | Inr (namespace, name) \<Rightarrow>
          bindS (k_Get Host (cx_ClusterR (ac_Client app)) \<lparr>nn_Namespace = namespace, nn_Name = name\<rparr>) (\<lambda>r. case r of
            Inl err \<Rightarrow> ret (Inl (if IsNotFound err then ErrNew (''cluster '' @ strconv_Quote name @ '' not found in namespace '' @ strconv_Quote namespace) else err))
          | Inr cluster \<Rightarrow>
              (case resolveServerHost (ac_Host app) (cf_kubeconfigServerHost (gf_create cfg)) of Inl err \<Rightarrow> ret (Inl err)
               | Inr host \<Rightarrow>
                   bindE (retry_not_found 5 (Generate app (generate_cert cfg) cluster host)) (\<lambda>kubeConfig.
                   writeKubeconfig app cluster kubeConfig (standalonePath (gf_create cfg) cluster)))))"

section \<open>The created cluster\<close>

lemma SafeConcatNameWithPrefix_nonempty: "SafeConcatNameWithPrefix name \<noteq> ''''"
proof -
  have "strings_Join (''k3k'' # xs) ''-'' \<noteq> ''''" for xs by (cases xs) auto
  then show ?thesis by (auto simp: SafeConcatNameWithPrefix_def SafeConcatName_def Let_def)
qed

lemma unique_loop_set: "set (unique_loop seen ss) = set ss - seen"
  by (induction seen ss rule: unique_loop.induct) auto

lemma unique_loop_distinct: "distinct (unique_loop seen ss)"
  by (induction seen ss rule: unique_loop.induct) (auto simp: unique_loop_set)

lemma cluster_for_spec:
  assumes "cluster_for app name namespace cfg = Inr (c, host)"
  shows "cl_meta c = (meta_of name namespace)\<lparr>Labels := Some (parseKeyValuePairs (cf_labels cfg)), Annotations := Some (parseKeyValuePairs (cf_annotations cfg))\<rparr>"
    and "Servers (cl_Spec c) = Some (wrap32 (cf_servers cfg))" and "Mode (cl_Spec c) = cf_mode cfg"
    and "ex_Ingress (the (Expose (cl_Spec c))) = None" and "Expose (cl_Spec c) \<noteq> None"
    and "TLSSANs (cl_Spec c) = uniqueStrings (host # cf_tlsSANs cfg)"
    and "TokenSecretRef (cl_Spec c) = (if cf_token cfg \<noteq> '''' then Some \<lparr>sr_Name = TokenSecretName name, sr_Namespace = namespace\<rparr> else None)"
    and "CustomCAs (cl_Spec c) = (if cf_customCertsPath cfg \<noteq> '''' then Some (custom_cas_of name) else None)"
  using assms by (auto simp: cluster_for_def newCluster_def bindR_def split: sum.splits)

lemma wrap32_id: "0 \<le> x \<Longrightarrow> x < 2 ^ 31 \<Longrightarrow> wrap32 x = x"
  by (simp add: wrap32_def sint_sbintrunc' signed_take_bit_int_eq_self)


text \<open>Beyond 31 bits the number of servers wraps, and the command asks for a cluster without servers.\<close>

lemma cli_servers_wrap: "wrap32 4294967296 = 0"
  by (simp add: wrap32_def)

section \<open>Secrets before the cluster\<close>

definition cli_kinds :: "'e app_context \<Rightarrow> bool" where
  "cli_kinds app \<longleftrightarrow> r_kind (cx_ClusterR (ac_Client app)) = KCluster \<and> r_meta (cx_ClusterR (ac_Client app)) = cl_meta \<and>
     r_kind (cx_SecretR (ac_Client app)) = KSecret \<and> r_meta (cx_SecretR (ac_Client app)) = sec_meta \<and>
     r_kind (NamespaceR (cx_policy (ac_Client app))) = KNamespace \<and> r_meta (NamespaceR (cx_policy (ac_Client app))) = nsp_meta \<and>
     r_kind (ac_ClaimR app) = KPVC"

definition creates_cluster :: "call \<Rightarrow> bool" where
  "creates_cluster x \<longleftrightarrow> c_kind x = KCluster \<and> c_verb x = VCreate"

text \<open>The secret was created, or a secret of the command was there already.\<close>

definition secret_there :: "string \<Rightarrow> string \<Rightarrow> call \<Rightarrow> bool" where
  "secret_there namespace n x \<longleftrightarrow> c_kind x = KSecret \<and> c_verb x = VCreate \<and> Namespace (c_meta x) = namespace \<and>
     (case c_err x of None \<Rightarrow> Name (c_meta x) = n | Some err \<Rightarrow> IsAlreadyExists err)"

definition needed_secrets :: "cluster \<Rightarrow> string set" where
  "needed_secrets c =
     (case TokenSecretRef (cl_Spec c) of None \<Rightarrow> {} | Some ref \<Rightarrow> {sr_Name ref}) \<union>
     (case CustomCAs (cl_Spec c) of None \<Rightarrow> {}
      | Some cas \<Rightarrow> (\<lambda>f. cs_SecretName (f (ca_Sources cas))) `
          {ServerCA, ClientCA, RequestHeaderCA, EtcdServerCA, EtcdPeerCA, ServiceAccountToken})"

lemma guards_after:
  assumes "does en m" "calls_sat (\<lambda>x. \<not> cr x) m" "\<And>a. calls_sat (\<lambda>_. True) (f a)"
  shows "guards en cr (bindE m f)"
  unfolding guards_def
proof
  fix w
  obtain r v where m: "m w = (r, v)" by fastforce
  obtain cs where cs: "w_calls v = w_calls w @ cs" "list_all (\<lambda>x. \<not> cr x) cs" using assms(2) m unfolding calls_sat_def by (metis snd_conv)
  show "\<exists>cs. w_calls (snd (bindE m f w)) = w_calls w @ cs \<and> guarded en cr cs"
  proof (cases r)
    case (Inl err)
    with m cs show ?thesis by (intro exI [of _ cs]) (simp add: bindE_run ret_def guarded_none)
  next
    case (Inr a)
    obtain cs' where "w_calls (snd (f a v)) = w_calls v @ cs'" using assms(3) [of a] unfolding calls_sat_def by blast
    moreover have "\<exists>x\<in>set cs. en x" using assms(1) m Inr cs(1) unfolding does_def list_ex_iff by (metis same_append_eq)
    ultimately show ?thesis using m Inr cs guarded_append_enabled [OF guarded_none [OF cs(2)]]
      by (intro exI [of _ "cs @ cs'"]) (simp add: bindE_run)
  qed
qed

lemma poll_until_calls [calls_intro]: "(\<And>s. calls_sat P (condition s)) \<Longrightarrow> calls_sat P (poll_until n condition s)"
  by (induction n arbitrary: s) (auto intro!: calls_intro)

lemma retry_not_found_calls [calls_intro]: "calls_sat P m \<Longrightarrow> calls_sat P (retry_not_found n m)"
  by (induction n) (auto intro!: calls_intro)

lemma wait_and_extract_calls: "calls_sat (\<lambda>_. True) (wait_and_extract app polls cfg host c)"
  unfolding wait_and_extract_def waitForClusterReconciled_def reconciled_condition_def waitForClusterReady_def ready_poll_def refresh_def
    extract_kubeconfig_def fetch_kubeconfig_def writeKubeconfig_def addKubeconfigContext_def URL_def Let_def k_defs
  by (auto intro!: calls_intro split: list.split)

lemma create_certs_kinds:
  "cli_kinds app \<Longrightarrow> calls_sat (\<lambda>x. \<not> creates_cluster x) (create_certs app name namespace path certs)"
  by (induction certs) (auto simp: cli_kinds_def creates_cluster_def k_Create_def Let_def intro!: calls_intro)

lemma create_certs_does:
  assumes "cli_kinds app" "certName \<in> set certs"
  shows "does (secret_there namespace (SafeConcatNameWithPrefix [name, certName])) (create_certs app name namespace path certs)"
  using assms(2)
proof (induction certs)
  case (Cons cert certs)
  let ?P = "secret_there namespace (SafeConcatNameWithPrefix [name, certName])"
  let ?put = "\<lambda>crt key. bindS (k_Create Host (cx_SecretR (ac_Client app)) (caCertSecret cert name namespace crt key)) (\<lambda>r. case r of
        Inl err \<Rightarrow> ret (IgnoreAlreadyExists (Inl err :: goerr + unit)) | Inr _ \<Rightarrow> create_certs app name namespace path certs)"
  have put: "does ?P (?put crt key)" for crt key
    unfolding does_def
  proof (intro allI impI)
    fix w a w'
    assume run: "?put crt key w = (Inr a, w')"
    obtain r v where r: "k_Create Host (cx_SecretR (ac_Client app)) (caCertSecret cert name namespace crt key) w = (r, v)" by fastforce
    then have v: "w_calls v = w_calls w @ [\<lparr>c_side = Host, c_verb = VCreate, c_kind = KSecret,
        c_meta = meta_of (SafeConcatNameWithPrefix [name, cert]) namespace, c_reqs = [], c_err = err_of r\<rparr>]"
      using assms(1) by (auto simp: k_Create_def log_call_def cli_kinds_def caCertSecret_def split: prod.splits)
    show "\<exists>cs. w_calls w' = w_calls w @ cs \<and> list_ex ?P cs"
    proof (cases r)
      case (Inl err)
      with run r v show ?thesis by (auto simp: bindS_run ret_def IgnoreAlreadyExists_def secret_there_def err_of_def split: if_splits)
    next
      case (Inr s)
      with run r have rest: "create_certs app name namespace path certs v = (Inr a, w')" by (simp add: bindS_run)
      then obtain cs where cs: "w_calls w' = w_calls v @ cs"
        using calls_extend [OF calls_sat_mono [OF create_certs_kinds [OF assms(1)], where Q = "\<lambda>_. True"] rest] by auto
      show ?thesis
      proof (cases "cert = certName")
        case True
        with cs v Inr show ?thesis by (auto simp: secret_there_def err_of_def)
      next
        case False
        with Cons have "does ?P (create_certs app name namespace path certs)" by simp
        with rest v show ?thesis unfolding does_def by fastforce
      qed
    qed
  qed
  show ?case unfolding create_certs.simps Let_def by (intro does_bindE2 put) (auto intro!: calls_intro)
qed simp

lemma create_secrets_does:
  assumes app: "cli_kinds app" and ord: "range_order ord" and c: "cluster_for app name namespace cfg = Inr (c, host)" and n: "n \<in> needed_secrets c"
  shows "does (secret_there namespace n) (create_secrets ord app (cfg\<lparr>cf_version := v\<rparr>) name namespace)"
proof -
  note spec = cluster_for_spec(7,8) [OF c]
  consider (token) "cf_token cfg \<noteq> ''''" "n = TokenSecretName name"
    | (cert) certName where "cf_customCertsPath cfg \<noteq> ''''" "certName \<in> fset (fmdom customCAsMap)" "n = SafeConcatNameWithPrefix [name, certName]"
    using n by (auto simp: needed_secrets_def spec custom_cas_of_def customCAsMap_def Let_def split: if_splits option.splits)
  then show ?thesis
  proof cases
    case token
    have "does (secret_there namespace n) (k_Create Host (cx_SecretR (ac_Client app)) (TokenSecretObj (cf_token cfg) name namespace))"
      unfolding k_Create_def using app token by (intro does_log_call) (simp add: cli_kinds_def secret_there_def TokenSecretObj_def)
    then have "does (secret_there namespace n) (bindE (k_Create Host (cx_SecretR (ac_Client app)) (TokenSecretObj (cf_token cfg) name namespace))
        (\<lambda>_. ret (Inr ())))"
      by (rule does_bindE1) (auto intro!: calls_intro)
    with token show ?thesis unfolding create_secrets_def CreateCustomCertsSecrets_def
      by (intro does_bindE1) (auto intro!: calls_intro calls_sat_mono [OF create_certs_kinds [OF app]])
  next
    case cert
    then have "certName \<in> set (ord (fmdom customCAsMap))" by (simp add: range_order.set_ord [OF ord])
    then have "does (secret_there namespace n) (create_certs app name namespace p (ord (fmdom customCAsMap)))" for p
      unfolding cert(3) by (rule create_certs_does [OF app])
    then show ?thesis unfolding create_secrets_def CreateCustomCertsSecrets_def k_Create_def using cert
      by (intro does_bindE2) (auto intro!: calls_intro)
  qed
qed

text \<open>
  C34: When the create command sends the cluster, each secret that the cluster refers to, the token and the six custom
  certificates, was created before in the namespace of the cluster, unless a secret of the command existed already.
\<close>

theorem cli_secrets_first:
  assumes app: "cli_kinds app" and ord: "range_order ord"
    and c: "cluster_for app name (AppContext_Namespace app name) cfg = Inr (c, host)" and n: "n \<in> needed_secrets c"
    and run: "createAction ord app polls cfg name w = (r, w')" "w_calls w' = w_calls w @ cs"
    and i: "i < length cs" "creates_cluster (cs ! i)"
  shows "\<exists>j<i. secret_there (AppContext_Namespace app name) n (cs ! j)"
proof -
  let ?en = "secret_there (AppContext_Namespace app name) n"
  have kinds: "calls_sat (\<lambda>x. \<not> creates_cluster x) (create_secrets ord app cfg' name namespace)"
    "calls_sat (\<lambda>x. \<not> creates_cluster x) (createNamespace app namespace policy)" for cfg' namespace policy
    using app create_certs_kinds [OF app]
    unfolding create_secrets_def CreateCustomCertsSecrets_def createNamespace_def k_defs cli_kinds_def Let_def
    by (auto intro!: calls_intro simp: creates_cluster_def)
  have "guards ?en creates_cluster (createAction ord app polls cfg name)"
    unfolding createAction_def Let_def k_Create_def
    by (intro guards_if guards_bindE guards_after create_secrets_does [OF app ord c n] kinds)
      (auto intro!: guards_calls_sat calls_intro wait_and_extract_calls kinds split: sum.splits)
  then have "guarded ?en creates_cluster cs" using run unfolding guards_def by (metis same_append_eq snd_conv)
  then obtain j where j: "j \<le> i" "?en (cs ! j)" using guarded_nth i by blast
  moreover have "j \<noteq> i" using j(2) i(2) by (auto simp: creates_cluster_def secret_there_def)
  ultimately show ?thesis by (intro exI [of _ j]) simp
qed

section \<open>Deletion\<close>

definition delete_write :: "bool \<Rightarrow> cluster \<Rightarrow> call \<Rightarrow> bool" where
  "delete_write keepData c x \<longleftrightarrow>
     Namespace (c_meta x) = Namespace (cl_meta c) \<and>
     (c_kind x = KCluster \<and> c_verb x = VDelete \<and> Name (c_meta x) = Name (cl_meta c) \<or>
      keepData \<and> c_kind x = KSecret \<and> c_verb x = VUpdate \<and> Name (c_meta x) = TokenSecretName (Name (cl_meta c)) \<or>
      \<not> keepData \<and> c_kind x = KPVC \<and> c_verb x = VDeleteAllOf \<and> c_reqs x = [ReqEquals ''cluster'' (Name (cl_meta c)), ReqEquals ''role'' ''server''])"

definition owner_removal :: "'e app_context \<Rightarrow> bool" where
  "owner_removal app \<longleftrightarrow> (\<forall>owner m m'. ac_RemoveOwnerReference app owner m = Inr m' \<longrightarrow> m' = m\<lparr>OwnerReferences := OwnerReferences m'\<rparr>)"

text \<open>A list call in a namespace answers with objects of that namespace.\<close>

definition lists_namespace :: "('e, 'o) resource \<Rightarrow> bool" where
  "lists_namespace R \<longleftrightarrow> (\<forall>s opts e obs e'. cli_List (r_cli R s) opts e = (Inr obs, e') \<longrightarrow> lo_Namespace opts \<noteq> [] \<longrightarrow>
     list_all (\<lambda>ob. Namespace (r_meta R ob) = lo_Namespace opts) obs)"

lemma deleteCluster_writes:
  assumes app: "cli_kinds app" "owner_removal app" and get: "get_honest (cx_SecretR (ac_Client app))"
  shows "writes_only (delete_write keepData c) (deleteCluster app keepData c)"
proof -
  have detach: "writes_only (delete_write True c) (RemoveOwnerReferenceFromSecret app (TokenSecretName (Name (cl_meta c))) c)"
    unfolding RemoveOwnerReferenceFromSecret_def
  proof (rule calls_sat_bindS_res)
    fix w r w'
    assume run: "k_Get Host (cx_SecretR (ac_Client app)) \<lparr>nn_Namespace = Namespace (cl_meta c), nn_Name = TokenSecretName (Name (cl_meta c))\<rparr> w = (r, w')"
    have key: "Namespace (sec_meta s) = Namespace (cl_meta c) \<and> Name (sec_meta s) = TokenSecretName (Name (cl_meta c))" if "r = Inr s" for s
      using k_Get_key [OF get] run that app(1) by (fastforce simp: cli_kinds_def key_of_def)
    have "Name m' = Name m \<and> Namespace m' = Namespace m" if "ac_RemoveOwnerReference app owner m = Inr m'" for owner m m'
      using app(2) that unfolding owner_removal_def by (metis object_meta.select_convs(1,2) object_meta.surjective object_meta.update_convs(8))
    with key app(1) show "writes_only (delete_write True c) (case r of Inl err \<Rightarrow> ret (if IsNotFound err then Inr () else Inl err)
       | Inr secret \<Rightarrow> if ac_HasControllerReference app (sec_meta secret) then
           (case ac_RemoveOwnerReference app (cl_meta c) (sec_meta secret) of Inl err \<Rightarrow> ret (Inl err)
            | Inr m \<Rightarrow> bindE (k_Update Host (cx_SecretR (ac_Client app)) (secret\<lparr>sec_meta := m\<rparr>)) (\<lambda>_. ret (Inr ())))
         else ret (Inr ()))"
      by (auto intro!: calls_intro simp: k_Update_def delete_write_def cli_kinds_def)
  qed (auto simp: k_Get_def intro!: calls_intro)
  show ?thesis
    using app(1) detach unfolding deleteCluster_def Let_def k_Delete_def k_DeleteAllOf_def
    by (auto intro!: calls_intro simp: delete_write_def cli_kinds_def cluster_claims_def)
qed

text \<open>The clusters that a call of the delete command names.\<close>

definition delete_target :: "'e app_context \<Rightarrow> bool \<Rightarrow> string list \<Rightarrow> cluster \<Rightarrow> bool" where
  "delete_target app deleteAll args c \<longleftrightarrow>
     (if deleteAll then args = [] \<and> ac_namespace app \<noteq> '''' \<and> Namespace (cl_meta c) = ac_namespace app
      else \<exists>arg. args = [arg] \<and> resolveClusterArg app arg = Inr (Namespace (cl_meta c), Name (cl_meta c)) \<and> Name (cl_meta c) \<noteq> ''system'')"

lemma removeKubeconfigContexts_calls [calls_intro]: "calls_sat P (removeKubeconfigContexts app cs)"
  unfolding removeKubeconfigContexts_def by (auto intro!: calls_intro)


section \<open>Updates\<close>

lemma update_map_changes:
  assumes "range_order ord" "update_map ord pairs m = (changes, m')"
  shows "changes = [] \<longleftrightarrow> minit m' = minit m"
proof (cases pairs)
  case (Some ps)
  define n where "n = minit m ++\<^sub>f parseKeyValuePairs ps"
  have more: "fmlookup n k \<noteq> None" if "fmlookup (minit m) k \<noteq> None" for k using that unfolding n_def by (auto simp: fmlookup_dom_iff)
  have "(\<forall>k\<in>set (ord (fmdom n)). fmlookup (minit m) k = fmlookup n k) \<longleftrightarrow> n = minit m"
  proof
    assume all: "\<forall>k\<in>set (ord (fmdom n)). fmlookup (minit m) k = fmlookup n k"
    show "n = minit m"
    proof (rule fmap_ext)
      fix k
      show "fmlookup n k = fmlookup (minit m) k"
        using all more [of k] by (cases "fmlookup n k"; cases "fmlookup (minit m) k") (auto simp: range_order.set_ord [OF assms(1)] fmlookup_dom_iff)
    qed
  qed simp
  moreover have "diffMaps ord (minit m) n = [] \<longleftrightarrow> (\<forall>k\<in>set (ord (fmdom n)). fmlookup (minit m) k = fmlookup n k)"
  proof -
    have "(case fmlookup (minit m) k of Some oldVal \<Rightarrow> if oldVal \<noteq> mindex (Some n) k then [Change k oldVal (mindex (Some n) k)] else []
        | None \<Rightarrow> [Change k '''' (mindex (Some n) k)]) = [] \<longleftrightarrow> fmlookup (minit m) k = fmlookup n k" if "k \<in> set (ord (fmdom n))" for k
      using that by (auto simp: mindex_def range_order.set_ord [OF assms(1)] fmlookup_dom_iff split: option.splits)
    then show ?thesis by (simp add: diffMaps_def Let_def)
  qed
  moreover have "changes = diffMaps ord (minit m) n" "minit m' = n"
    using assms(2) Some by (auto simp: update_map_def Let_def n_def minit_def [of "Some _"])
  ultimately show ?thesis by simp
qed (use assms in \<open>simp add: update_map_def\<close>)

text \<open>
  The update command skips its write exactly when there is nothing to change: the version, the numbers of servers and agents, the
  labels and the annotations of the cluster it computed are those of the cluster it read, for every map iteration order.
\<close>

theorem cli_update_exact:
  assumes ord: "range_order ord" and up: "updated ord app cfg c = Inr (dirty, c')"
  shows "dirty \<longleftrightarrow> Version (cl_Spec c') \<noteq> Version (cl_Spec c) \<or> Servers (cl_Spec c') \<noteq> Servers (cl_Spec c) \<or> Agents (cl_Spec c') \<noteq> Agents (cl_Spec c) \<or>
    minit (Labels (cl_meta c')) \<noteq> minit (Labels (cl_meta c)) \<or> minit (Annotations (cl_meta c')) \<noteq> minit (Annotations (cl_meta c))"
proof -
  obtain ch0 c0 where v: "update_version app (uf_version cfg) c = Inr (ch0, c0)" using up by (auto simp: updated_def bindR_def split: sum.splits)
  obtain ch1 c1 where s: "update_count ''Servers'' (uf_servers cfg) Servers Servers_update (ch0, c0) = (ch1, c1)" by fastforce
  obtain ch2 c2 where a: "update_count ''Agents'' (uf_agents cfg) Agents Agents_update (ch1, c1) = (ch2, c2)" by fastforce
  obtain lc ls where l: "update_map ord (uf_labels cfg) (Labels (cl_meta c2)) = (lc, ls)" by fastforce
  obtain nc ns where n: "update_map ord (uf_annotations cfg) (Annotations (cl_meta c2)) = (nc, ns)" by fastforce
  have c': "c' = c2\<lparr>cl_meta := (cl_meta c2)\<lparr>Labels := ls, Annotations := ns\<rparr>\<rparr>" "dirty \<longleftrightarrow> ch2 \<noteq> [] \<or> lc \<noteq> [] \<or> nc \<noteq> []"
    using up v s a l n by (auto simp: updated_def bindR_def)
  have version: "ch0 = [] \<longleftrightarrow> Version (cl_Spec c0) = Version (cl_Spec c)" "cl_meta c0 = cl_meta c"
    "Servers (cl_Spec c0) = Servers (cl_Spec c)" "Agents (cl_Spec c0) = Agents (cl_Spec c)"
    using v by (auto simp: update_version_def Let_def split: option.splits if_splits sum.splits)
  have servers: "ch1 = [] \<longleftrightarrow> ch0 = [] \<and> Servers (cl_Spec c1) = Servers (cl_Spec c0)" "cl_meta c1 = cl_meta c0"
    "Version (cl_Spec c1) = Version (cl_Spec c0)" "Agents (cl_Spec c1) = Agents (cl_Spec c0)"
    using s by (auto simp: update_count_def Let_def split: option.splits if_splits)
  have agents: "ch2 = [] \<longleftrightarrow> ch1 = [] \<and> Agents (cl_Spec c2) = Agents (cl_Spec c1)" "cl_meta c2 = cl_meta c1"
    "Version (cl_Spec c2) = Version (cl_Spec c1)" "Servers (cl_Spec c2) = Servers (cl_Spec c1)"
    using a by (auto simp: update_count_def Let_def split: option.splits if_splits)
  show ?thesis
    using update_map_changes [OF ord l] update_map_changes [OF ord n] version servers agents by (auto simp: c')
qed

section \<open>Binding a policy\<close>

text \<open>What the command does to one namespace that it finds: it writes the namespace with the name of the policy exactly when no
  policy is bound to it, or another one is and overwriting was asked for; nothing else of the namespace changes.\<close>

lemma bind_namespace_exact:
  assumes app: "cli_kinds app" and get: "k_Get Host (NamespaceR (cx_policy (ac_Client app))) (cluster_scoped name) w = (Inr ns, v)"
    and run: "bind_namespace app cfg policyName name w = (errs, w')"
  defines "old \<equiv> mindex (Some (minit (Labels (nsp_meta ns)))) PolicyNameLabelKey"
  shows "if old \<noteq> policyName \<and> (old = '''' \<or> pcf_overwrite cfg)
    then \<exists>r. w_calls w' = w_calls v @ [\<lparr>c_side = Host, c_verb = VUpdate, c_kind = KNamespace,
        c_meta = (nsp_meta ns)\<lparr>Labels := Some (fmupd PolicyNameLabelKey policyName (minit (Labels (nsp_meta ns))))\<rparr>, c_reqs = [], c_err = r\<rparr>] \<and>
        errs = (case r of None \<Rightarrow> [] | Some err \<Rightarrow> [err])
    else w' = v \<and> errs = []"
  using run app unfolding bind_namespace_def Let_def bindS_run get old_def
  by (auto simp: cli_kinds_def k_Update_def log_call_def bindS_run ret_def err_of_def split: if_splits prod.splits sum.splits)

section \<open>A concrete run\<close>

definition wit_app :: "unit app_context" where
  "wit_app =
     \<lparr>ac_Client = wit_cluster_api, ac_ClaimR = empty_resource KPVC pvc_meta,
      ac_files = \<lparr>LoadFromFile = (\<lambda>_ _. Inl (Sentinel ErrNotExist)), WriteToFile = (\<lambda>_ _ e. (Inr (), e)), GetDefaultFilename = (\<lambda>p. p), filepath_Abs = Inr\<rparr>,
      ac_ReadFile = (\<lambda>_ e. (Inr ''pem'', e)), ac_Scan = (\<lambda>e. (Some ''y'', e)), ac_ParseQuantity = Inr, ac_ParseTolerant = Inr, ac_LT = (\<lambda>_ _. False),
      ac_clientcmd_Load = (\<lambda>_. Inr empty_config), ac_Unmarshal = (\<lambda>_. Inl (ErrNew ''EOF'')),
      ac_certs = wit_certs, ac_HasControllerReference = (\<lambda>_. False), ac_RemoveOwnerReference = (\<lambda>_. Inr),
      ac_Host = ''https://10.0.0.1:6443'', ac_Kubeconfig = '''', ac_namespace = ''''\<rparr>"

definition wit_create :: create_config where
  "wit_create = createFlags\<lparr>cf_token := ''t'', cf_kubeconfigServerHost := ''h'', cf_tlsSANs := [''h'', ''x'']\<rparr>"

lemma wit_cluster_for:
  obtains c where "cluster_for wit_app name namespace wit_create = Inr (c, ''h'')"
  by (simp add: cluster_for_def newCluster_def extractHost_def bindR_def wit_create_def createFlags_def)

lemma wit_app_kinds: "cli_kinds wit_app"
  by (simp add: cli_kinds_def wit_app_def wit_cluster_api_def wit_agent_api_def full_resource_def)


lemma wit_create_runs:
  "\<exists>r w' i. createAction sorted_list_of_fset wit_app (0, 0) wit_create ''c1'' wit_world = (r, w') \<and> i < length (w_calls w') \<and> creates_cluster (w_calls w' ! i)"
  by (simp add: createAction_def createNamespace_def create_secrets_def cluster_for_def newCluster_def extractHost_def bindR_def wit_create_def createFlags_def
      wit_app_def wit_cluster_api_def wit_agent_api_def full_resource_def k_defs log_call_def bindS_run bindE_run ret_def Let_def AppContext_Namespace_def
      wait_and_extract_def waitForClusterReconciled_def creates_cluster_def)
    (intro exI [of _ 2], simp)

theorem cli_secrets_first_witness:
  "\<exists>r w' j. createAction sorted_list_of_fset wit_app (0, 0) wit_create ''c1'' wit_world = (r, w') \<and>
    secret_there (AppContext_Namespace wit_app ''c1'') (TokenSecretName ''c1'') (w_calls w' ! j)"
proof -
  obtain c where c: "cluster_for wit_app ''c1'' (AppContext_Namespace wit_app ''c1'') wit_create = Inr (c, ''h'')" by (rule wit_cluster_for)
  have n: "TokenSecretName ''c1'' \<in> needed_secrets c" by (simp add: needed_secrets_def cluster_for_spec(7) [OF c] wit_create_def)
  obtain r w' i where run: "createAction sorted_list_of_fset wit_app (0, 0) wit_create ''c1'' wit_world = (r, w')"
    and i: "i < length (w_calls w')" "creates_cluster (w_calls w' ! i)" using wit_create_runs by blast
  have "w_calls w' = w_calls (wit_world :: unit world) @ w_calls w'" by simp
  from cli_secrets_first [OF wit_app_kinds sorted_order.range_order_axioms c n run this i] run show ?thesis by auto
qed


theorem cli_update_exact_witness:
  "\<exists>c'. updated sorted_list_of_fset wit_app \<lparr>uf_servers = Some 3, uf_agents = None, uf_labels = None, uf_annotations = None, uf_version = None, uf_noConfirm = True\<rparr>
      empty_cluster = Inr (True, c') \<and> Servers (cl_Spec c') = Some 3"
proof -
  obtain dirty c' where up: "updated sorted_list_of_fset wit_app \<lparr>uf_servers = Some 3, uf_agents = None, uf_labels = None, uf_annotations = None, uf_version = None,
      uf_noConfirm = True\<rparr> empty_cluster = Inr (dirty, c')" and c': "Servers (cl_Spec c') = Some 3"
    by (auto simp: updated_def bindR_def update_version_def update_count_def update_map_def empty_cluster_def empty_spec_def Let_def)
  moreover have "Servers (cl_Spec empty_cluster) = None" by (simp add: empty_cluster_def empty_spec_def)
  ultimately show ?thesis using cli_update_exact [OF sorted_order.range_order_axioms up] by auto
qed

end
