(* ===== verification/Streams.thy ===== *)
theory Streams
  imports Provider Complex_Main
begin

text \<open>
  The parts of \<^verbatim>\<open>provider/provider.go\<close> that give access to running pods (logs, exec, attach, port forwarding, statistics) and the
  metrics collector of \<^verbatim>\<open>provider/collectors\<close>, and the terminal sizes of \<^verbatim>\<open>util.go\<close>. Connections and what is copied over them are the parameter \<^verbatim>\<open>stream_api\<close>; to which
  host pod a request goes, in which order streams are opened, how errors are chosen and which statistics are shown is modelled. Values
  of metrics are rational numbers where the code has floating point.
\<close>

section \<open>Types\<close>

record log_opts =
  lg_Timestamps :: bool
  lg_Follow :: bool
  lg_Previous :: bool
  lg_Tail :: int
  lg_LimitBytes :: int
  lg_SinceSeconds :: int
  lg_SinceTime :: "string option"

record pod_log_options =
  plo_Container :: string
  plo_Timestamps :: bool
  plo_Follow :: bool
  plo_Previous :: bool
  plo_TailLines :: "int option"
  plo_LimitBytes :: "int option"
  plo_SinceSeconds :: "int option"
  plo_SinceTime :: "string option"

record attach_io =
  at_TTY :: bool
  at_Stdin :: bool
  at_Stdout :: bool
  at_Stderr :: bool

record exec_options =
  eo_Container :: string
  eo_Command :: "string list"
  eo_io :: attach_io

record cpu_stats =
  cpu_Time :: int
  cpu_UsageCoreNanoSeconds :: "nat option"

record memory_stats =
  mem_Time :: int
  mem_WorkingSetBytes :: "nat option"

record container_stats =
  cst_Name :: string
  cst_StartTime :: int
  cst_CPU :: "cpu_stats option"
  cst_Memory :: "memory_stats option"

record pod_reference =
  pr_Name :: string
  pr_Namespace :: string
  pr_UID :: string

record pod_stats =
  pst_PodRef :: pod_reference
  pst_Containers :: "container_stats list"
  pst_CPU :: "cpu_stats option"
  pst_Memory :: "memory_stats option"
  pst_rest :: payload

record node_stats =
  nst_CPU :: "cpu_stats option"
  nst_Memory :: "memory_stats option"
  nst_rest :: payload

record stats_summary =
  sum_Node :: node_stats
  sum_Pods :: "pod_stats list"

text \<open>How the wait for a forwarded connection ends.\<close>

datatype forward_end = RemoteDone | LocalError | ContextDone goerr

record 'e stream_api =
  sa_provider :: "'e provider_api"
  sa_Logs :: "namespaced_name \<Rightarrow> pod_log_options \<Rightarrow> 'e \<Rightarrow> (goerr + payload) \<times> 'e"
  sa_Executor :: "goerr + unit"
  sa_Exec :: "namespaced_name \<Rightarrow> exec_options \<Rightarrow> 'e \<Rightarrow> (goerr + unit) \<times> 'e"
  sa_Attach :: "namespaced_name \<Rightarrow> exec_options \<Rightarrow> 'e \<Rightarrow> (goerr + unit) \<times> 'e"
  sa_RoundTripper :: "goerr + unit"
  sa_Dial :: "namespaced_name \<Rightarrow> 'e \<Rightarrow> (goerr + unit) \<times> 'e"
  sa_CreateStream :: "(string \<times> string) list \<Rightarrow> 'e \<Rightarrow> (goerr + unit) \<times> 'e"
  sa_Select :: "'e \<Rightarrow> forward_end \<times> 'e"
  sa_ErrorStream :: "'e \<Rightarrow> (goerr + payload) \<times> 'e"
  sa_NodeR :: "('e, object_meta) resource"
  sa_Stats :: "string \<Rightarrow> 'e \<Rightarrow> (goerr + payload) \<times> 'e"
  sa_Unmarshal :: "payload \<Rightarrow> goerr + stats_summary"

section \<open>Access to pods\<close>

definition host_pod_key :: "provider \<Rightarrow> string \<Rightarrow> string \<Rightarrow> namespaced_name" where
  "host_pod_key p namespace name = \<lparr>nn_Namespace = p_clusterNamespace p, nn_Name = TranslateName (p_translator p) namespace name\<rparr>"

text \<open>A request to a subresource of a pod.\<close>

definition pod_request :: "kind \<Rightarrow> namespaced_name \<Rightarrow> ('e \<Rightarrow> (goerr + 'a) \<times> 'e) \<Rightarrow> ('e, goerr + 'a) io" where
  "pod_request k key f = log_call Host VCreate k (meta_of (nn_Name key) (nn_Namespace key)) [] f"

definition log_options :: "string \<Rightarrow> log_opts \<Rightarrow> pod_log_options" where
  "log_options containerName opts =
     (let given = (\<lambda>n. if n \<noteq> 0 then Some n else None) in
      \<lparr>plo_Container = containerName, plo_Timestamps = lg_Timestamps opts, plo_Follow = lg_Follow opts, plo_Previous = lg_Previous opts,
       plo_TailLines = given (lg_Tail opts), plo_LimitBytes = given (lg_LimitBytes opts), plo_SinceSeconds = given (lg_SinceSeconds opts),
       plo_SinceTime = lg_SinceTime opts\<rparr>)"

definition GetContainerLogs :: "provider \<Rightarrow> 'e stream_api \<Rightarrow> string \<Rightarrow> string \<Rightarrow> string \<Rightarrow> log_opts \<Rightarrow> ('e, goerr + payload) io" where
  "GetContainerLogs p S namespace name containerName opts =
     (let key = host_pod_key p namespace name in
      log_call Host VGet KPodLog (meta_of (nn_Name key) (nn_Namespace key)) [] (sa_Logs S key (log_options containerName opts)))"

definition RunInContainer :: "provider \<Rightarrow> 'e stream_api \<Rightarrow> string \<Rightarrow> string \<Rightarrow> string \<Rightarrow> string list \<Rightarrow> attach_io \<Rightarrow> ('e, goerr + unit) io" where
  "RunInContainer p S namespace name containerName cmd attach =
     (let key = host_pod_key p namespace name in
      bindE (ret (sa_Executor S)) (\<lambda>_.
      pod_request KPodExec key (sa_Exec S key \<lparr>eo_Container = containerName, eo_Command = cmd, eo_io = attach\<rparr>)))"

definition AttachToContainer :: "provider \<Rightarrow> 'e stream_api \<Rightarrow> string \<Rightarrow> string \<Rightarrow> string \<Rightarrow> attach_io \<Rightarrow> ('e, goerr + unit) io" where
  "AttachToContainer p S namespace name containerName attach =
     (let key = host_pod_key p namespace name in
      bindE (ret (sa_Executor S)) (\<lambda>_.
      pod_request KPodAttach key (sa_Attach S key \<lparr>eo_Container = containerName, eo_Command = [], eo_io = attach\<rparr>)))"

definition createPortForwardStream :: "'e stream_api \<Rightarrow> string \<Rightarrow> int \<Rightarrow> ('e, goerr + unit) io" where
  "createPortForwardStream S streamType port =
     external (sa_CreateStream S [(''Streamtype'', streamType), (''Port'', strconv_FormatInt port), (''Requestid'', ''0'')])"

definition forward_result :: "'e stream_api \<Rightarrow> ('e, goerr + unit) io" where
  "forward_result S =
     bindS (external (sa_Select S)) (\<lambda>outcome. case outcome of
       ContextDone err \<Rightarrow> ret (Inl err)
     | _ \<Rightarrow> bindS (external (sa_ErrorStream S)) (\<lambda>r. case r of
         Inl err \<Rightarrow> ret (Inl err) | Inr message \<Rightarrow> ret (if message \<noteq> '''' then Inl (ErrNew message) else Inr ())))"

definition PortForward :: "provider \<Rightarrow> 'e stream_api \<Rightarrow> string \<Rightarrow> string \<Rightarrow> int \<Rightarrow> ('e, goerr + unit) io" where
  "PortForward p S namespace name port =
     (let key = host_pod_key p namespace name in
      bindE (ret (sa_RoundTripper S)) (\<lambda>_.
      bindE (pod_request KPodPortForward key (sa_Dial S key)) (\<lambda>_.
      bindE (createPortForwardStream S ''error'' port) (\<lambda>_.
      bindE (createPortForwardStream S ''data'' port) (\<lambda>_. forward_result S)))))"

section \<open>Statistics\<close>

definition podsNameMap :: "to_host_translator \<Rightarrow> pod list \<Rightarrow> (string, pod) fmap" where
  "podsNameMap t pods =
     foldl (\<lambda>m pod. fmupd (TranslateName t (Namespace (pod_meta pod)) (Name (pod_meta pod))) pod m) fmempty pods"

definition filter_stats :: "provider \<Rightarrow> pod list \<Rightarrow> stats_summary \<Rightarrow> stats_summary" where
  "filter_stats p pods summary =
     (let names = podsNameMap (p_translator p) pods in
      \<lparr>sum_Node = sum_Node summary, sum_Pods = concat (map (\<lambda>podStat.
         if pr_Namespace (pst_PodRef podStat) \<noteq> p_clusterNamespace p then []
         else case fmlookup names (pr_Name (pst_PodRef podStat)) of None \<Rightarrow> []
           | Some pod \<Rightarrow> [podStat\<lparr>pst_PodRef := \<lparr>pr_Name = Name (pod_meta pod), pr_Namespace = Namespace (pod_meta pod), pr_UID = UID (pod_meta pod)\<rparr>\<rparr>])
         (sum_Pods summary))\<rparr>)"

definition GetStatsSummary :: "provider \<Rightarrow> 'e stream_api \<Rightarrow> ('e, goerr + stats_summary) io" where
  "GetStatsSummary p S =
     bindE (k_Get Host (sa_NodeR S) \<lparr>nn_Namespace = '''', nn_Name = p_agentHostname p\<rparr>) (\<lambda>node.
     bindE (log_call Host VGet KNodeStats (meta_of (Name node) '''') [] (sa_Stats S (Name node))) (\<lambda>res.
     bindE (ret (sa_Unmarshal S res)) (\<lambda>statsSummary.
     bindE (GetPods p (sa_provider S)) (\<lambda>pods.
     ret (Inr (filter_stats p pods statsSummary))))))"

section \<open>Metrics\<close>

record metric =
  mt_Desc :: string
  mt_Timestamp :: "int option"
  mt_Value :: rat
  mt_Labels :: "string list"

definition cpu_metric :: "string \<Rightarrow> cpu_stats option \<Rightarrow> string list \<Rightarrow> metric list" where
  "cpu_metric desc cpu labels =
     (case cpu of None \<Rightarrow> []
      | Some c \<Rightarrow> (case cpu_UsageCoreNanoSeconds c of None \<Rightarrow> []
          | Some n \<Rightarrow> [\<lparr>mt_Desc = desc, mt_Timestamp = Some (cpu_Time c), mt_Value = of_nat n / 1000000000, mt_Labels = labels\<rparr>]))"

definition memory_metric :: "string \<Rightarrow> memory_stats option \<Rightarrow> string list \<Rightarrow> metric list" where
  "memory_metric desc memory labels =
     (case memory of None \<Rightarrow> []
      | Some m \<Rightarrow> (case mem_WorkingSetBytes m of None \<Rightarrow> []
          | Some n \<Rightarrow> [\<lparr>mt_Desc = desc, mt_Timestamp = Some (mem_Time m), mt_Value = of_nat n, mt_Labels = labels\<rparr>]))"

text \<open>Times are in nanoseconds since the epoch.\<close>

definition collectContainerStartTime :: "pod_stats \<Rightarrow> container_stats \<Rightarrow> metric list" where
  "collectContainerStartTime pod s =
     (if cst_StartTime s div 1000000000 \<le> 0 then []
      else [\<lparr>mt_Desc = ''container_start_time_seconds'', mt_Timestamp = Some (cst_StartTime s), mt_Value = of_int (cst_StartTime s) / 1000000000,
        mt_Labels = [cst_Name s, pr_Name (pst_PodRef pod), pr_Namespace (pst_PodRef pod)]\<rparr>])"

definition collect_container :: "pod_stats \<Rightarrow> container_stats \<Rightarrow> metric list" where
  "collect_container pod s =
     (let labels = [cst_Name s, pr_Name (pst_PodRef pod), pr_Namespace (pst_PodRef pod)] in
      collectContainerStartTime pod s @ cpu_metric ''container_cpu_usage_seconds_total'' (cst_CPU s) labels @
      memory_metric ''container_memory_working_set_bytes'' (cst_Memory s) labels)"

definition collect_pod :: "pod_stats \<Rightarrow> metric list" where
  "collect_pod pod =
     (let labels = [pr_Name (pst_PodRef pod), pr_Namespace (pst_PodRef pod)] in
      concat (map (collect_container pod) (pst_Containers pod)) @ cpu_metric ''pod_cpu_usage_seconds_total'' (pst_CPU pod) labels @
      memory_metric ''pod_memory_working_set_bytes'' (pst_Memory pod) labels)"

definition CollectWithStability :: "stats_summary \<Rightarrow> metric list" where
  "CollectWithStability summary =
     cpu_metric ''node_cpu_usage_seconds_total'' (nst_CPU (sum_Node summary)) [] @
     memory_metric ''node_memory_working_set_bytes'' (nst_Memory (sum_Node summary)) [] @
     concat (map collect_pod (sum_Pods summary)) @ [\<lparr>mt_Desc = ''scrape_error'', mt_Timestamp = None, mt_Value = 0, mt_Labels = []\<rparr>]"

definition GetMetricsResource :: "provider \<Rightarrow> 'e stream_api \<Rightarrow> (metric list \<Rightarrow> goerr + payload) \<Rightarrow> ('e, goerr + payload) io" where
  "GetMetricsResource p S Gather = bindE (GetStatsSummary p S) (\<lambda>statsSummary. ret (Gather (CollectWithStability statsSummary)))"

text \<open>The descriptors of the metrics, with the names of their variable labels, in the order in which the collector describes them.\<close>

definition DescribeWithStability :: "(string \<times> string list) list" where
  "DescribeWithStability =
     [(''node_cpu_usage_seconds_total'', []), (''node_memory_working_set_bytes'', []), (''container_start_time_seconds'', [''container'', ''pod'', ''namespace'']),
      (''container_cpu_usage_seconds_total'', [''container'', ''pod'', ''namespace'']), (''container_memory_working_set_bytes'', [''container'', ''pod'', ''namespace'']),
      (''pod_cpu_usage_seconds_total'', [''pod'', ''namespace'']), (''pod_memory_working_set_bytes'', [''pod'', ''namespace'']), (''scrape_error'', [])]"

text \<open>Every collected metric is one of the described ones and has a value for each of its labels, as the registry demands.\<close>

definition described :: "(string \<times> nat) set" where
  "described = (\<lambda>(desc, labels). (desc, length labels)) ` set DescribeWithStability"

lemma described_intro:
  "(''node_cpu_usage_seconds_total'', 0) \<in> described" "(''node_memory_working_set_bytes'', 0) \<in> described"
  "(''container_start_time_seconds'', 3) \<in> described" "(''container_cpu_usage_seconds_total'', 3) \<in> described"
  "(''container_memory_working_set_bytes'', 3) \<in> described" "(''pod_cpu_usage_seconds_total'', 2) \<in> described"
  "(''pod_memory_working_set_bytes'', 2) \<in> described" "(''scrape_error'', 0) \<in> described"
  by (simp_all add: described_def DescribeWithStability_def)

lemma metric_described:
  "(desc, length labels) \<in> described \<Longrightarrow> x \<in> set (cpu_metric desc c labels) \<Longrightarrow> (mt_Desc x, length (mt_Labels x)) \<in> described"
  "(desc, length labels) \<in> described \<Longrightarrow> x \<in> set (memory_metric desc m labels) \<Longrightarrow> (mt_Desc x, length (mt_Labels x)) \<in> described"
  "x \<in> set (collectContainerStartTime pod s) \<Longrightarrow> (mt_Desc x, length (mt_Labels x)) \<in> described"
  using described_intro(3)
  by (auto simp: cpu_metric_def memory_metric_def collectContainerStartTime_def numeral_3_eq_3 simp del: described_intro split: option.splits if_splits)

lemma container_described: "x \<in> set (collect_container pod s) \<Longrightarrow> (mt_Desc x, length (mt_Labels x)) \<in> described"
  unfolding collect_container_def Let_def set_append Un_iff
  by (elim disjE; erule metric_described(3) metric_described(1,2) [rotated]) (use described_intro in \<open>simp_all add: numeral_3_eq_3\<close>)

lemma pod_described: "x \<in> set (collect_pod pod) \<Longrightarrow> (mt_Desc x, length (mt_Labels x)) \<in> described"
  unfolding collect_pod_def Let_def set_append Un_iff
  by (elim disjE; (erule metric_described(1,2) [rotated])?) (use described_intro container_described in \<open>auto simp add: numeral_2_eq_2\<close>)

lemma collected_described: "x \<in> set (CollectWithStability summary) \<Longrightarrow> (mt_Desc x, length (mt_Labels x)) \<in> described"
  unfolding CollectWithStability_def set_append Un_iff
  by (elim disjE; (erule metric_described(1,2) [rotated])?) (use described_intro pod_described in auto)

section \<open>Terminal sizes\<close>

text \<open>\<^verbatim>\<open>provider/util.go\<close>: the sizes come over a channel, here the sizes that are still to arrive before it is closed; its end gives nil.\<close>

record term_size =
  ts_Width :: "16 word"
  ts_Height :: "16 word"

fun translatorSizeQueue_Next :: "term_size list \<Rightarrow> term_size option \<times> term_size list" where
  "translatorSizeQueue_Next [] = (None, [])"
| "translatorSizeQueue_Next (sz # resizeChan) = (Some \<lparr>ts_Width = ts_Width sz, ts_Height = ts_Height sz\<rparr>, resizeChan)"

text \<open>Reading until nil gives all sizes in their order.\<close>

fun read_sizes :: "nat \<Rightarrow> term_size list \<Rightarrow> term_size list" where
  "read_sizes 0 chan = []"
| "read_sizes (Suc n) chan = (case translatorSizeQueue_Next chan of (None, _) \<Rightarrow> [] | (Some sz, chan) \<Rightarrow> sz # read_sizes n chan)"

lemma read_sizes_all: "length chan \<le> n \<Longrightarrow> read_sizes n chan = chan"
proof (induction n arbitrary: chan)
  case (Suc n)
  then show ?case by (cases chan) auto
qed simp

section \<open>Isolation\<close>

text \<open>Every access to a pod of the virtual cluster goes to the host pod it was translated to, in the namespace of the cluster.\<close>

lemma streams_confined:
  "calls_sat (\<lambda>x. key_of (c_meta x) = host_pod_key p namespace name) (GetContainerLogs p S namespace name c opts)"
  "calls_sat (\<lambda>x. key_of (c_meta x) = host_pod_key p namespace name) (RunInContainer p S namespace name c cmd a)"
  "calls_sat (\<lambda>x. key_of (c_meta x) = host_pod_key p namespace name) (AttachToContainer p S namespace name c a)"
  "calls_sat (\<lambda>x. key_of (c_meta x) = host_pod_key p namespace name) (PortForward p S namespace name port)"
  unfolding GetContainerLogs_def RunInContainer_def AttachToContainer_def PortForward_def pod_request_def createPortForwardStream_def
    forward_result_def host_pod_key_def Let_def
  by (auto intro!: calls_intro simp: key_of_def split: forward_end.split)

lemma podsNameMap_lookup:
  "fmlookup (podsNameMap t pods) n = Some pod \<Longrightarrow> pod \<in> set pods \<and> n = TranslateName t (Namespace (pod_meta pod)) (Name (pod_meta pod))"
  unfolding podsNameMap_def by (induction pods rule: rev_induct) (auto split: if_splits)

lemma podsNameMap_dom:
  "pod \<in> set pods \<Longrightarrow> fmlookup (podsNameMap t pods) (TranslateName t (Namespace (pod_meta pod)) (Name (pod_meta pod))) \<noteq> None"
  unfolding podsNameMap_def by (induction pods rule: rev_induct) auto

text \<open>The statistics of one pod as the virtual cluster sees them.\<close>

definition shown_as :: "provider \<Rightarrow> pod \<Rightarrow> pod_stats \<Rightarrow> pod_stats \<Rightarrow> bool" where
  "shown_as p pod raw st \<longleftrightarrow>
     pr_Namespace (pst_PodRef raw) = p_clusterNamespace p \<and>
     pr_Name (pst_PodRef raw) = TranslateName (p_translator p) (Namespace (pod_meta pod)) (Name (pod_meta pod)) \<and>
     st = raw\<lparr>pst_PodRef := \<lparr>pr_Name = Name (pod_meta pod), pr_Namespace = Namespace (pod_meta pod), pr_UID = UID (pod_meta pod)\<rparr>\<rparr>"

lemma filter_stats_shown:
  "st \<in> set (sum_Pods (filter_stats p pods summary)) \<Longrightarrow> \<exists>pod\<in>set pods. \<exists>raw\<in>set (sum_Pods summary). shown_as p pod raw st"
  by (force simp: filter_stats_def Let_def shown_as_def dest: podsNameMap_lookup [OF sym] podsNameMap_lookup split: if_splits option.splits)

lemma filter_stats_complete:
  assumes "raw \<in> set (sum_Pods summary)" "pr_Namespace (pst_PodRef raw) = p_clusterNamespace p" "pod \<in> set pods"
    "pr_Name (pst_PodRef raw) = TranslateName (p_translator p) (Namespace (pod_meta pod)) (Name (pod_meta pod))"
  shows "\<exists>pod'\<in>set pods. \<exists>st\<in>set (sum_Pods (filter_stats p pods summary)). shown_as p pod' raw st"
proof -
  obtain pod' where pod': "fmlookup (podsNameMap (p_translator p) pods) (pr_Name (pst_PodRef raw)) = Some pod'"
    using podsNameMap_dom [OF assms(3), of "p_translator p"] assms(4) by auto
  have "raw\<lparr>pst_PodRef := \<lparr>pr_Name = Name (pod_meta pod'), pr_Namespace = Namespace (pod_meta pod'), pr_UID = UID (pod_meta pod')\<rparr>\<rparr>
      \<in> set (sum_Pods (filter_stats p pods summary))"
    using assms(1,2) pod' by (force simp: filter_stats_def Let_def)
  then show ?thesis using podsNameMap_lookup [OF pod'] assms(2) by (auto simp: shown_as_def)
qed

lemma metric_labels:
  "m \<in> set (CollectWithStability summary) \<Longrightarrow> mt_Labels m \<noteq> [] \<Longrightarrow>
    \<exists>st\<in>set (sum_Pods summary). \<exists>c. mt_Labels m = c @ [pr_Name (pst_PodRef st), pr_Namespace (pst_PodRef st)]"
  by (auto simp: CollectWithStability_def collect_pod_def collect_container_def collectContainerStartTime_def cpu_metric_def memory_metric_def Let_def
      split: option.splits if_splits)


section \<open>A node with two pods\<close>

definition wit_host_copy :: pod where
  "wit_host_copy = pod_of (TranslateTo (p_translator wit_provider) (meta_of ''web'' ''ns''))"

definition wit_stats :: "string \<Rightarrow> string \<Rightarrow> pod_stats" where
  "wit_stats namespace name =
     \<lparr>pst_PodRef = \<lparr>pr_Name = name, pr_Namespace = namespace, pr_UID = ''u''\<rparr>, pst_Containers = [],
      pst_CPU = Some \<lparr>cpu_Time = 0, cpu_UsageCoreNanoSeconds = Some 5000000000\<rparr>, pst_Memory = None, pst_rest = ''''\<rparr>"

definition wit_streams :: "provider_env stream_api" where
  "wit_streams =
     \<lparr>sa_provider = mem_provider_api\<lparr>pa_PodR := (pa_PodR mem_provider_api)
        \<lparr>r_cli := \<lambda>s. (r_cli (pa_PodR mem_provider_api) s)\<lparr>cli_List := \<lambda>_ e. (Inr [wit_host_copy], e)\<rparr>\<rparr>\<rparr>,
      sa_Logs = (\<lambda>_ _ e. (Inr '''', e)), sa_Executor = Inr (), sa_Exec = (\<lambda>_ _ e. (Inr (), e)), sa_Attach = (\<lambda>_ _ e. (Inr (), e)), sa_RoundTripper = Inr (),
      sa_Dial = (\<lambda>_ e. (Inr (), e)), sa_CreateStream = (\<lambda>_ e. (Inr (), e)), sa_Select = (\<lambda>e. (RemoteDone, e)), sa_ErrorStream = (\<lambda>e. (Inr '''', e)),
      sa_NodeR = \<lparr>r_kind = KNode, r_meta = id, r_cli = (\<lambda>_. (mem_client id (\<lambda>_. [meta_of ''node1'' '''']) (\<lambda>_ e. e)))\<rparr>,
      sa_Stats = (\<lambda>_ e. (Inr ''s'', e)),
      sa_Unmarshal = (\<lambda>_. Inr \<lparr>sum_Node = \<lparr>nst_CPU = None, nst_Memory = None, nst_rest = ''''\<rparr>,
        sum_Pods = [wit_stats ''k'' (TranslateName (p_translator wit_provider) ''ns'' ''web''), wit_stats ''other'' ''secret'']\<rparr>)\<rparr>"

lemma wit_stats_runs: "\<exists>summary w'. GetStatsSummary wit_provider wit_streams \<lparr>w_calls = [], w_env = wit_pod_env\<rparr> = (Inr summary, w')"
  by (simp add: GetStatsSummary_def GetPods_def listHostPods_def wit_streams_def mem_client_def wit_provider_def k_Get_def k_List_def log_call_def bindE_run ret_def
      key_of_def Let_def mem_provider_api_def mem_resource_def)


end
