(* ===== verification/Kubelet.thy ===== *)
theory Kubelet
  imports K3sClient Pods "HOL-Library.Sublist"
begin

text \<open>
  The start of the agent (\<^verbatim>\<open>k3k-kubelet\<close>: \<^verbatim>\<open>config.go\<close>, \<^verbatim>\<open>kubelet.go\<close>, \<^verbatim>\<open>node.go\<close>, \<^verbatim>\<open>main.go\<close>, \<^verbatim>\<open>provider/configure.go\<close>): what it checks and reads
  before it registers the node, the node it registers, the probe of the virtual API server and which of its parts ends the run. Building clients, managers and the
  node of the virtual-kubelet library are parameters, and so is the order in which the parts that run concurrently stop.
\<close>

section \<open>Configuration\<close>

record kubelet_config =
  kg_ClusterName :: string
  kg_ClusterNamespace :: string
  kg_ServiceName :: string
  kg_Token :: string
  kg_AgentHostname :: string
  kg_HostKubeconfig :: string
  kg_VirtKubeconfig :: string
  kg_KubeletPort :: int
  kg_ServerIP :: string
  kg_Version :: string
  kg_MirrorHostNodes :: bool

definition config_validate :: "kubelet_config \<Rightarrow> goerr + unit" where
  "config_validate c =
     (if kg_ClusterName c = '''' then Inl (ErrNew ''cluster name is not provided'')
      else if kg_ClusterNamespace c = '''' then Inl (ErrNew ''cluster namespace is not provided'')
      else if kg_AgentHostname c = '''' then Inl (ErrNew ''agent Hostname is not provided'')
      else Inr ())"

section \<open>The node\<close>

record node_status =
  nds_Conditions :: "condition list"
  nds_KubeletPort :: int
  nds_Addresses :: "(string \<times> string) list"
  nds_KubeletVersion :: string
  nds_rest :: payload

record kubelet_node =
  kn_meta :: object_meta
  kn_Spec :: payload
  kn_Status :: node_status

definition nodeConditions :: "condition list" where
  "nodeConditions =
     [\<lparr>cd_Type = ''Ready'', cd_Status = ''True'', cd_Reason = ''KubeletReady'', cd_Message = ''kubelet is ready.''\<rparr>,
      \<lparr>cd_Type = ''OutOfDisk'', cd_Status = ''False'', cd_Reason = ''KubeletHasSufficientDisk'', cd_Message = ''kubelet has sufficient disk space available''\<rparr>,
      \<lparr>cd_Type = ''MemoryPressure'', cd_Status = ''False'', cd_Reason = ''KubeletHasSufficientMemory'', cd_Message = ''kubelet has sufficient memory available''\<rparr>,
      \<lparr>cd_Type = ''DiskPressure'', cd_Status = ''False'', cd_Reason = ''KubeletHasNoDiskPressure'', cd_Message = ''kubelet has no disk pressure''\<rparr>,
      \<lparr>cd_Type = ''NetworkUnavailable'', cd_Status = ''False'', cd_Reason = ''RouteCreated'', cd_Message = ''RouteController created a route''\<rparr>]"

text \<open>An assignment to a key of a map that may be nil.\<close>

definition assign :: "smap option \<Rightarrow> string \<Rightarrow> string \<Rightarrow> goerr + smap option" where
  "assign m k v = (case m of None \<Rightarrow> Inl nil_map_write | Some f \<Rightarrow> Inr (Some (fmupd k v f)))"

definition mirrored_node :: "int \<Rightarrow> kubelet_node \<Rightarrow> kubelet_node \<Rightarrow> kubelet_node" where
  "mirrored_node servicePort node hostNode =
     \<lparr>kn_meta = (kn_meta node)\<lparr>Labels := Labels (kn_meta hostNode), Annotations := Annotations (kn_meta hostNode), Finalizers := Finalizers (kn_meta hostNode)\<rparr>,
      kn_Spec = kn_Spec hostNode, kn_Status = (kn_Status hostNode)\<lparr>nds_KubeletPort := wrap32 servicePort\<rparr>\<rparr>"

definition own_node :: "string \<Rightarrow> int \<Rightarrow> string \<Rightarrow> string \<Rightarrow> kubelet_node \<Rightarrow> goerr + kubelet_node" where
  "own_node hostname servicePort ip version node =
     bindR (assign (Labels (kn_meta node)) ''node.kubernetes.io/exclude-from-external-load-balancers'' ''true'') (\<lambda>l.
     bindR (assign l ''kubernetes.io/os'' ''linux'') (\<lambda>l.
     Inr (node\<lparr>kn_meta := (kn_meta node)\<lparr>Labels := l\<rparr>,
       kn_Status := (kn_Status node)\<lparr>nds_Conditions := nodeConditions, nds_KubeletPort := wrap32 servicePort,
         nds_Addresses := [(''Hostname'', hostname), (''InternalIP'', ip)], nds_KubeletVersion := version\<rparr>\<rparr>)))"

text \<open>The second argument starts the update of the capacity of the node in the background.\<close>

definition ConfigureNode :: "('e, kubelet_node) resource \<Rightarrow> (string \<Rightarrow> 'e \<Rightarrow> unit \<times> 'e) \<Rightarrow> string \<Rightarrow> int \<Rightarrow> string \<Rightarrow> string \<Rightarrow> bool \<Rightarrow> kubelet_node \<Rightarrow>
    ('e, goerr + kubelet_node) io" where
  "ConfigureNode R startNodeCapacityUpdater hostname servicePort ip version mirrorHostNodes node =
     (if mirrorHostNodes
      then bindE (k_Get Host R (cluster_scoped (Name (kn_meta node)))) (\<lambda>hostNode. ret (Inr (mirrored_node servicePort node hostNode)))
      else bindE (ret (own_node hostname servicePort ip version node)) (\<lambda>node.
        bindS (external (startNodeCapacityUpdater (Name (kn_meta node)))) (\<lambda>_. ret (Inr node))))"

text \<open>The configuration of the virtual-kubelet library.\<close>

record node_config =
  nc_Node :: kubelet_node
  nc_HTTPListenAddr :: string
  nc_SkipDownwardAPIResolution :: bool

definition nodeOpt :: "int \<Rightarrow> kubelet_node \<Rightarrow> goerr + node_config" where
  "nodeOpt port node =
     bindR (assign (Labels (kn_meta node)) ''kubernetes.io/role'' ''worker'') (\<lambda>l.
     bindR (assign l ''node-role.kubernetes.io/worker'' ''true'') (\<lambda>l.
     Inr \<lparr>nc_Node = node\<lparr>kn_meta := (kn_meta node)\<lparr>Labels := l\<rparr>\<rparr>, nc_HTTPListenAddr = '':'' @ strconv_FormatInt port, nc_SkipDownwardAPIResolution = True\<rparr>))"

definition readyz :: "(string \<Rightarrow> goerr + unit) \<Rightarrow> string \<Rightarrow> int \<times> string" where
  "readyz DoTCPProbe serverIP =
     (case DoTCPProbe (JoinHostPort serverIP ''443'') of Inl err \<Rightarrow> (503, err_Error err) | Inr _ \<Rightarrow> (200, ''ok''))"

section \<open>Managers\<close>

record manager_options =
  mo_LeaderElectionNamespace :: string
  mo_LeaderElectionID :: string
  mo_MetricsBindAddress :: string
  mo_DefaultNamespaces :: "string list"

definition host_manager :: "kubelet_config \<Rightarrow> manager_options" where
  "host_manager c =
     \<lparr>mo_LeaderElectionNamespace = kg_ClusterNamespace c, mo_LeaderElectionID = kg_ClusterName c,
      mo_MetricsBindAddress = (if kg_MirrorHostNodes c then ''0'' else '':8083''), mo_DefaultNamespaces = [kg_ClusterNamespace c]\<rparr>"

definition virtual_manager :: "kubelet_config \<Rightarrow> manager_options" where
  "virtual_manager c =
     \<lparr>mo_LeaderElectionNamespace = ''kube-system'', mo_LeaderElectionID = kg_ClusterName c,
      mo_MetricsBindAddress = (if kg_MirrorHostNodes c then ''0'' else '':8084''), mo_DefaultNamespaces = []\<rparr>"

section \<open>Start\<close>

text \<open>What the libraries provide: the clients and managers, the registration of one controller, and the node.\<close>

record 'e kubelet_api =
  ka_client :: "'e cluster_api"
  ka_ServiceR :: "('e, service) resource"
  ka_NodeR :: "('e, kubelet_node) resource"
  ka_net :: "'e k3s_net"
  ka_BuildConfig :: "string \<Rightarrow> goerr + payload"
  ka_NewClient :: "payload \<Rightarrow> goerr + unit"
  ka_RESTConfig :: "payload \<Rightarrow> goerr + payload"
  ka_AddToScheme :: "goerr + unit"
  ka_NewManager :: "side \<Rightarrow> manager_options \<Rightarrow> goerr + unit"
  ka_Add :: "string \<Rightarrow> 'e \<Rightarrow> (goerr + unit) \<times> 'e"
  ka_AddRunnable :: "provider \<Rightarrow> 'e \<Rightarrow> (goerr + unit) \<times> 'e"
  ka_StartUpdater :: "string \<Rightarrow> 'e \<Rightarrow> unit \<times> 'e"
  ka_defaultNode :: "string \<Rightarrow> kubelet_node"

record kubelet =
  kl_hostConfig :: payload
  kl_virtConfig :: payload
  kl_virtualCluster :: cluster
  kl_name :: string
  kl_port :: int
  kl_agentIP :: string
  kl_dnsIP :: string
  kl_token :: string

text \<open>\<^verbatim>\<open>retry.OnError\<close> with a predicate on errors.\<close>

fun retry_if :: "(goerr \<Rightarrow> bool) \<Rightarrow> nat \<Rightarrow> ('e, goerr + 'a) io \<Rightarrow> ('e, goerr + 'a) io" where
  "retry_if retriable 0 m = ret (Inl (Sentinel ErrRetryTimeout))"
| "retry_if retriable (Suc n) m =
     bindS m (\<lambda>r. case r of Inr a \<Rightarrow> ret (Inr a)
       | Inl err \<Rightarrow> if \<not> retriable err \<or> n = 0 then ret (Inl err) else retry_if retriable n m)"

definition virtRestConfig :: "'e kubelet_api \<Rightarrow> kubelet_config \<Rightarrow> ('e, goerr + payload) io" where
  "virtRestConfig K c =
     (if kg_VirtKubeconfig c \<noteq> '''' then ret (ka_BuildConfig K (kg_VirtKubeconfig c))
      else
        bindS (retry_if (\<lambda>_. True) 5 (k_Get Host (cx_SecretR (ka_client K)) \<lparr>nn_Namespace = kg_ClusterNamespace c,
            nn_Name = SafeConcatNameWithPrefix [kg_ClusterName c, ''kubeconfig'']\<rparr>)) (\<lambda>r. case r of
          Inl err \<Rightarrow> ret (Inl (ErrWrap ''unable to decode bootstrap'' [err]))
        | Inr clusterKubeConfig \<Rightarrow>
            (case ka_RESTConfig K (mindex (sec_Data clusterKubeConfig) ''kubeconfig.yaml'') of
               Inl err \<Rightarrow> ret (Inl (ErrWrap ''failed to create config from kubeconfig file'' [err])) | Inr rc \<Rightarrow> ret (Inr rc))))"

definition clusterIP :: "'e kubelet_api \<Rightarrow> string \<Rightarrow> string \<Rightarrow> ('e, goerr + string) io" where
  "clusterIP K serviceName clusterNamespace =
     bindE (k_Get Host (ka_ServiceR K) \<lparr>nn_Namespace = clusterNamespace, nn_Name = serviceName\<rparr>) (\<lambda>service. ret (Inr (svc_ClusterIP service)))"

definition wrap :: "string \<Rightarrow> ('e, goerr + 'a) io \<Rightarrow> ('e, goerr + 'a) io" where
  "wrap msg m = bindS m (\<lambda>r. case r of Inl err \<Rightarrow> ret (Inl (ErrWrap msg [err])) | Inr a \<Rightarrow> ret (Inr a))"

text \<open>The syncers in the order they are added, with the message of an error.\<close>

definition syncer_names :: "(string \<times> string) list" where
  "syncer_names =
     [(''configmap'', ''failed to add configmap global syncer''), (''secret'', ''failed to add secret global syncer''),
      (''service'', ''failed to add service syncer controller''), (''ingress'', ''failed to add ingress syncer controller''),
      (''pvc'', ''failed to add pvc syncer controller''), (''priorityclass'', ''failed to add priorityclass controller''),
      (''event'', ''failed to add event syncer controller'')]"

definition addControllers :: "'e kubelet_api \<Rightarrow> kubelet_config \<Rightarrow> ('e, goerr + unit) io" where
  "addControllers K c =
     bindE (k_Get Host (cx_ClusterR (ka_client K)) \<lparr>nn_Namespace = kg_ClusterNamespace c, nn_Name = kg_ClusterName c\<rparr>) (\<lambda>_.
     for_each syncer_names (\<lambda>(name, message). wrap message (external (ka_Add K name))))"

definition newKubelet :: "'e kubelet_api \<Rightarrow> kubelet_config \<Rightarrow> ('e, goerr + kubelet) io" where
  "newKubelet K c =
     bindE (ret (ka_BuildConfig K (kg_HostKubeconfig c))) (\<lambda>hostConfig.
     bindE (ret (ka_NewClient K hostConfig)) (\<lambda>_.
     bindE (virtRestConfig K c) (\<lambda>virtConfig.
     bindE (ret (ka_NewClient K virtConfig)) (\<lambda>_.
     bindE (wrap ''unable to create controller-runtime mgr for host cluster'' (ret (ka_NewManager K Host (host_manager c)))) (\<lambda>_.
     bindE (wrap ''unable to add client go types to virtual cluster scheme'' (ret (ka_AddToScheme K))) (\<lambda>_.
     bindE (wrap ''unable to create controller-runtime mgr for virtual cluster'' (ret (ka_NewManager K Virt (virtual_manager c)))) (\<lambda>_.
     bindE (wrap ''failed to add controller'' (addControllers K c)) (\<lambda>_.
     bindE (wrap ''failed to extract the clusterIP for the agent service'' (clusterIP K (kg_ServiceName c) (kg_ClusterNamespace c))) (\<lambda>ip.
     bindE (wrap ''failed to get the DNS service for the cluster'' (k_Get Host (ka_ServiceR K) \<lparr>nn_Namespace = kg_ClusterNamespace c,
         nn_Name = SafeConcatNameWithPrefix [kg_ClusterName c, ''kube-dns'']\<rparr>)) (\<lambda>dnsService.
     bindE (wrap ''failed to get virtualCluster spec'' (k_Get Host (cx_ClusterR (ka_client K)) \<lparr>nn_Namespace = kg_ClusterNamespace c,
         nn_Name = kg_ClusterName c\<rparr>)) (\<lambda>virtualCluster.
     ret (Inr \<lparr>kl_hostConfig = hostConfig, kl_virtConfig = virtConfig, kl_virtualCluster = virtualCluster, kl_name = kg_AgentHostname c, kl_port = kg_KubeletPort c, kl_agentIP = ip,
       kl_dnsIP = svc_ClusterIP dnsService, kl_token = kg_Token c\<rparr>))))))))))))"

definition serving_client :: "kubelet_config \<Rightarrow> string \<Rightarrow> string \<Rightarrow> string \<Rightarrow> client_config" where
  "serving_client cfg token agentIP podIP =
     \<lparr>kc_AgentIP = agentIP, kc_NodeName = SafeConcatName [kg_ClusterName cfg, ''server-0''], kc_PodIP = podIP,
      kc_ServerIP = ServiceName (kg_ClusterName cfg) @ ''.'' @ kg_ClusterNamespace cfg, kc_Token = token\<rparr>"

definition loadTLSConfig :: "'e kubelet_api \<Rightarrow> kubelet_config \<Rightarrow> string \<Rightarrow> string \<Rightarrow> string \<Rightarrow> ('e, goerr + payload) io" where
  "loadTLSConfig K cfg token agentIP podIP =
     wrap ''unable to request serving kubelet certificate''
       (retry_if (\<lambda>err. err = Sentinel ErrServerNotReady) 5 (external (GetServingKubeletCrt (ka_net K) (serving_client cfg token agentIP podIP))))"

text \<open>\<^verbatim>\<open>provider.New\<close>, and the function that the node library calls to get the provider and the configured node.\<close>

definition New_provider :: "'e kubelet_api \<Rightarrow> kubelet \<Rightarrow> kubelet_config \<Rightarrow> ('e, goerr + provider) io" where
  "New_provider K k cfg =
     bindE (ret (ka_NewClient K (kl_hostConfig k))) (\<lambda>_.
     bindE (ret (ka_NewClient K (kl_virtConfig k))) (\<lambda>_.
     let p = \<lparr>p_translator = \<lparr>tr_ClusterName = kg_ClusterName cfg, tr_ClusterNamespace = kg_ClusterNamespace cfg\<rparr>, p_clusterName = kg_ClusterName cfg,
       p_clusterNamespace = kg_ClusterNamespace cfg, p_agentHostname = kg_AgentHostname cfg, p_serverIP = kg_ServerIP cfg, p_dnsIP = kl_dnsIP k\<rparr> in
     bindE (external (ka_AddRunnable K p)) (\<lambda>_. ret (Inr p))))"

definition newProviderFunc :: "'e kubelet_api \<Rightarrow> kubelet \<Rightarrow> kubelet_config \<Rightarrow> kubelet_node \<Rightarrow> ('e, goerr + provider \<times> kubelet_node) io" where
  "newProviderFunc K k cfg node =
     bindE (wrap ''unable to make nodeutil provider'' (New_provider K k cfg)) (\<lambda>p.
     bindE (ConfigureNode (ka_NodeR K) (ka_StartUpdater K) (kg_AgentHostname cfg) (kl_port k) (kl_agentIP k) (kg_Version cfg) (kg_MirrorHostNodes cfg) node)
       (\<lambda>node. ret (Inr (p, node))))"

definition registerNode :: "'e kubelet_api \<Rightarrow> kubelet \<Rightarrow> string \<Rightarrow> string \<Rightarrow> kubelet_config \<Rightarrow> ('e, goerr + provider \<times> node_config) io" where
  "registerNode K k agentIP podIP cfg =
     bindE (wrap ''unable to get tls config'' (loadTLSConfig K cfg (kl_token k) agentIP podIP)) (\<lambda>_.
     wrap ''unable to start kubelet''
       (bindE (ret (nodeOpt (kg_KubeletPort cfg) (ka_defaultNode K (kl_name k)))) (\<lambda>c.
        bindE (newProviderFunc K k cfg (nc_Node c)) (\<lambda>r.
        ret (Inr (fst r, c\<lparr>nc_Node := snd r\<rparr>))))))"

text \<open>The end of the run: the wait for the node, and then the first part that stops.\<close>

datatype stopped = NodeDone "goerr option" | PartDone "goerr option"

definition start :: "(goerr + unit) \<Rightarrow> stopped \<Rightarrow> goerr + unit" where
  "start waitReady first = bindR waitReady (\<lambda>_. case first of NodeDone err \<Rightarrow> of_err err | PartDone err \<Rightarrow> of_err err)"

text \<open>\<^verbatim>\<open>run\<close> up to \<^verbatim>\<open>start\<close>, and with it.\<close>

definition prepare :: "'e kubelet_api \<Rightarrow> string \<Rightarrow> kubelet_config \<Rightarrow> ('e, goerr + provider \<times> node_config) io" where
  "prepare K podIP cfg =
     bindE (wrap ''failed to validate config'' (ret (config_validate cfg))) (\<lambda>_.
     bindE (wrap ''failed to create new virtual kubelet instance'' (newKubelet K cfg)) (\<lambda>k.
     wrap ''failed to register new node'' (registerNode K k (kl_agentIP k) podIP cfg)))"

definition run :: "'e kubelet_api \<Rightarrow> string \<Rightarrow> kubelet_config \<Rightarrow> (goerr + unit) \<Rightarrow> stopped \<Rightarrow> ('e, goerr + unit) io" where
  "run K podIP cfg waitReady first = bindE (prepare K podIP cfg) (\<lambda>_. ret (start waitReady first))"

section \<open>The probe of the virtual API server\<close>

abbreviation probeAPIFailureThreshold :: nat where "probeAPIFailureThreshold \<equiv> 3"

text \<open>\<^verbatim>\<open>wait.PollUntilContextCancel\<close> over the answers to the probes until the context ends with the error \<^verbatim>\<open>ctxErr\<close>.\<close>

fun watch_loop :: "goerr \<Rightarrow> nat \<Rightarrow> goerr option list \<Rightarrow> goerr" where
  "watch_loop ctxErr failures [] = ctxErr"
| "watch_loop ctxErr failures (None # probes) = watch_loop ctxErr 0 probes"
| "watch_loop ctxErr failures (Some err # probes) =
     (if Suc failures \<ge> probeAPIFailureThreshold then ErrWrap ''failure threshold reached for probing virtual API server'' [err]
      else watch_loop ctxErr (Suc failures) probes)"

definition watchVirtualAPI :: "goerr \<Rightarrow> goerr option list \<Rightarrow> goerr option" where
  "watchVirtualAPI ctxErr probes =
     (let lastErr = watch_loop ctxErr 0 probes in if errors_Is lastErr ErrContextCanceled then None else Some lastErr)"

text \<open>A run of failed probes.\<close>

definition failed_run :: "nat \<Rightarrow> goerr option list \<Rightarrow> bool" where
  "failed_run n probes \<longleftrightarrow> sublist (replicate n True) (map (\<lambda>probe. probe \<noteq> None) probes)"

lemma prefix_replicate_le: "m \<le> n \<Longrightarrow> prefix (replicate n x) xs \<Longrightarrow> prefix (replicate m x) xs"
  by (metis le_add_diff_inverse prefix_order.trans prefixI replicate_add)

lemma watch_loop_fails:
  assumes "errors_Is ctxErr ErrContextCanceled" "\<And>e. Some e \<in> set probes \<Longrightarrow> \<not> errors_Is e ErrContextCanceled" "failures < 3"
  shows "\<not> errors_Is (watch_loop ctxErr failures probes) ErrContextCanceled \<longleftrightarrow>
    prefix (replicate (3 - failures) True) (map (\<lambda>probe. probe \<noteq> None) probes) \<or> failed_run 3 probes"
  using assms
proof (induction ctxErr failures probes rule: watch_loop.induct)
  case (1 ctxErr failures)
  then show ?case by (simp add: failed_run_def)
next
  case (2 ctxErr failures probes)
  obtain k where "3 - failures = Suc k" using 2(4) by (cases "3 - failures") auto
  with 2 show ?case by (auto simp: failed_run_def sublist_Cons_right numeral_3_eq_3)
next
  case (3 ctxErr failures err probes)
  have "prefix (replicate 2 True) bs \<Longrightarrow> prefix (replicate (2 - failures) True) bs" for bs by (rule prefix_replicate_le [of _ 2]) simp_all
  moreover have "3 - failures = Suc (2 - failures)" using 3(4) by simp
  moreover have "\<not> errors_Is err ErrContextCanceled" using 3(3) by simp
  ultimately show ?case
    using 3 by (cases "failures = 2") (auto simp: failed_run_def sublist_Cons_right numeral_3_eq_3 numeral_2_eq_2)
qed



section \<open>What the start reads and registers\<close>

lemma calls_sat_wrap [calls_intro]: "calls_sat P m \<Longrightarrow> calls_sat P (wrap msg m)"
  unfolding wrap_def by (auto intro!: calls_intro)

lemma calls_sat_retry_if [calls_intro]: "calls_sat P m \<Longrightarrow> calls_sat P (retry_if retriable n m)"
  by (induction n) (auto intro!: calls_intro)

lemma wrap_Inr: "wrap msg m w = (Inr a, w') \<longleftrightarrow> m w = (Inr a, w')"
  by (auto simp: wrap_def bindS_def ret_def split: prod.splits sum.splits)

text \<open>The objects the start reads on the host: the cluster, its kubeconfig, the services of the agent and of the DNS and, when host nodes are
  mirrored, the host node.\<close>

definition start_keys :: "kubelet_config \<Rightarrow> string \<Rightarrow> namespaced_name set" where
  "start_keys c node =
     (\<lambda>n. \<lparr>nn_Namespace = kg_ClusterNamespace c, nn_Name = n\<rparr>) ` {kg_ClusterName c, SafeConcatNameWithPrefix [kg_ClusterName c, ''kubeconfig''], kg_ServiceName c,
       SafeConcatNameWithPrefix [kg_ClusterName c, ''kube-dns'']} \<union> (if kg_MirrorHostNodes c then {cluster_scoped node} else {})"

definition own_read :: "kubelet_config \<Rightarrow> string \<Rightarrow> call \<Rightarrow> bool" where
  "own_read c node x \<longleftrightarrow> c_side x = Host \<and> c_verb x = VGet \<and> key_of (c_meta x) \<in> start_keys c node"

lemma newKubelet_reads: "calls_sat (own_read c node) (newKubelet K c)"
  unfolding newKubelet_def virtRestConfig_def addControllers_def clusterIP_def k_Get_def
  by (auto intro!: calls_intro simp: own_read_def start_keys_def key_of_def)

lemma nodeOpt_name: "nodeOpt port node = Inr c \<Longrightarrow> Name (kn_meta (nc_Node c)) = Name (kn_meta node)"
  by (auto simp: nodeOpt_def assign_def bindR_def split: sum.splits option.splits)

lemma newProviderFunc_reads: "Name (kn_meta node) = n \<Longrightarrow> calls_sat (own_read c n) (newProviderFunc K k c node)"
  unfolding newProviderFunc_def New_provider_def ConfigureNode_def k_Get_def
  by (auto intro!: calls_intro simp: own_read_def start_keys_def key_of_def)

lemma registerNode_reads: "calls_sat (own_read c (Name (kn_meta (ka_defaultNode K (kl_name k))))) (registerNode K k ip podIP c)"
  unfolding registerNode_def loadTLSConfig_def
  by (intro calls_intro calls_sat_bindE_res newProviderFunc_reads) (auto simp: ret_def dest: nodeOpt_name)

lemma newKubelet_config: "newKubelet K c w = (Inr k, w') \<Longrightarrow> kl_name k = kg_AgentHostname c \<and> kl_port k = kg_KubeletPort c"
  by (auto simp: newKubelet_def bindE_Inr ret_def)

lemma prepare_reads: "calls_sat (own_read c (Name (kn_meta (ka_defaultNode K (kg_AgentHostname c))))) (prepare K podIP c)" (is "calls_sat ?P _")
proof -
  have "calls_sat ?P (registerNode K k (kl_agentIP k) podIP c)"
    if "wrap ''failed to create new virtual kubelet instance'' (newKubelet K c) w = (Inr k, w')" for w k w'
    using that registerNode_reads [of c K k] by (simp add: wrap_Inr newKubelet_config)
  then have "calls_sat ?P (bindE (wrap ''failed to create new virtual kubelet instance'' (newKubelet K c))
      (\<lambda>k. wrap ''failed to register new node'' (registerNode K k (kl_agentIP k) podIP c)))"
    by (intro calls_sat_bindE_res calls_sat_wrap newKubelet_reads)
  then show ?thesis unfolding prepare_def by (rule calls_sat_bindE [OF calls_sat_wrap [OF calls_sat_ret]])
qed

lemma own_node_port: "own_node h port ip v node = Inr node' \<Longrightarrow> nds_KubeletPort (kn_Status node') = wrap32 port"
  by (auto simp: own_node_def assign_def bindR_def split: option.splits)

lemma ConfigureNode_port: "ConfigureNode R f h port ip v m node w = (Inr node', w') \<Longrightarrow> nds_KubeletPort (kn_Status node') = wrap32 port"
proof (cases m)
  case False
  assume "ConfigureNode R f h port ip v m node w = (Inr node', w')"
  with False have "own_node h port ip v node = Inr node'"
    by (cases "own_node h port ip v node") (auto simp: ConfigureNode_def bindE_Inr bindS_def ret_def split: prod.splits)
  then show ?thesis by (rule own_node_port)
qed (auto simp: ConfigureNode_def mirrored_node_def bindE_Inr ret_def)

lemma newProviderFunc_port:
  assumes "newProviderFunc K k c node w = (Inr (p, node'), w')"
  shows "nds_KubeletPort (kn_Status node') = wrap32 (kl_port k) \<and>
    p_translator p = \<lparr>tr_ClusterName = kg_ClusterName c, tr_ClusterNamespace = kg_ClusterNamespace c\<rparr> \<and> p_clusterNamespace p = kg_ClusterNamespace c \<and> p_agentHostname p = kg_AgentHostname c"
proof -
  obtain v v' where "New_provider K k c w = (Inr p, v)"
    and "ConfigureNode (ka_NodeR K) (ka_StartUpdater K) (kg_AgentHostname c) (kl_port k) (kl_agentIP k) (kg_Version c) (kg_MirrorHostNodes c) node v = (Inr node', v')"
    using assms by (auto simp: newProviderFunc_def bindE_Inr wrap_Inr ret_def)
  then show ?thesis by (auto simp: New_provider_def bindE_Inr ret_def Let_def dest: ConfigureNode_port)
qed

text \<open>
  An agent that starts serves its own cluster: up to the registration of its node it only reads, on the host, the cluster and what belongs to
  it (and its host node when those are mirrored); its provider translates for the configured cluster, and the node announces the port it listens on.
\<close>

theorem agent_serves_its_cluster:
  assumes start: "prepare K podIP c w = (Inr (p, nc), w')"
  shows "config_validate c = Inr ()"
    and "\<exists>cs. w_calls w' = w_calls w @ cs \<and> list_all (own_read c (Name (kn_meta (ka_defaultNode K (kg_AgentHostname c))))) cs"
    and "p_translator p = \<lparr>tr_ClusterName = kg_ClusterName c, tr_ClusterNamespace = kg_ClusterNamespace c\<rparr>"
    and "p_clusterNamespace p = kg_ClusterNamespace c \<and> p_agentHostname p = kg_AgentHostname c"
    and "nds_KubeletPort (kn_Status (nc_Node nc)) = wrap32 (kg_KubeletPort c) \<and> nc_HTTPListenAddr nc = '':'' @ strconv_FormatInt (kg_KubeletPort c)"
proof -
  show "config_validate c = Inr ()" using start by (auto simp: prepare_def bindE_Inr wrap_Inr ret_def)
  show "\<exists>cs. w_calls w' = w_calls w @ cs \<and> list_all (own_read c (Name (kn_meta (ka_defaultNode K (kg_AgentHostname c))))) cs"
    using prepare_reads [of c K podIP] start unfolding calls_sat_def by (metis snd_conv)
  obtain k v v' where k: "newKubelet K c v = (Inr k, v')" and reg: "registerNode K k (kl_agentIP k) podIP c v' = (Inr (p, nc), w')"
    using start by (auto simp: prepare_def bindE_Inr wrap_Inr ret_def)
  obtain c' u u' r where opt: "nodeOpt (kg_KubeletPort c) (ka_defaultNode K (kl_name k)) = Inr c'"
    and prov: "newProviderFunc K k c (nc_Node c') u = (Inr r, u')" and nc: "p = fst r" "nc = c'\<lparr>nc_Node := snd r\<rparr>"
    using reg by (auto simp: registerNode_def bindE_Inr wrap_Inr ret_def)
  have port: "nds_KubeletPort (kn_Status (snd r)) = wrap32 (kl_port k)"
    "p_translator p = \<lparr>tr_ClusterName = kg_ClusterName c, tr_ClusterNamespace = kg_ClusterNamespace c\<rparr>" "p_clusterNamespace p = kg_ClusterNamespace c \<and> p_agentHostname p = kg_AgentHostname c"
    using newProviderFunc_port [of K k c "nc_Node c'" u "fst r" "snd r" u'] prov nc by auto
  then show "p_translator p = \<lparr>tr_ClusterName = kg_ClusterName c, tr_ClusterNamespace = kg_ClusterNamespace c\<rparr>" "p_clusterNamespace p = kg_ClusterNamespace c \<and> p_agentHostname p = kg_AgentHostname c"
    by simp_all
  have "nc_HTTPListenAddr c' = '':'' @ strconv_FormatInt (kg_KubeletPort c)"
    using opt by (auto simp: nodeOpt_def assign_def bindR_def split: sum.splits option.splits)
  then show "nds_KubeletPort (kn_Status (nc_Node nc)) = wrap32 (kg_KubeletPort c) \<and> nc_HTTPListenAddr nc = '':'' @ strconv_FormatInt (kg_KubeletPort c)"
    using port(1) nc newKubelet_config [OF k] by simp
qed

end
