(* ===== verification/KubeletConfig.thy ===== *)
theory KubeletConfig
  imports Kubelet
begin

text \<open>
  The flags and the configuration of the agent (\<^verbatim>\<open>k3k-kubelet/main.go\<close>): every flag is bound to a key of viper and to an environment
  variable, the configuration file is read, and the options are decoded from the keys. Viper is a parameter, the record \<^verbatim>\<open>viper\<close>; its
  documented precedence (flag, environment, file, default of the flag) and the decoding of values that already have the wanted type
  are the laws of the locale \<^verbatim>\<open>viper_laws\<close>, which is interpreted on the executable \<^verbatim>\<open>ref_viper\<close>. The theory also has the configuration
  file the controller writes, and shows that an agent started by the controller reads back what the controller meant.
\<close>

section \<open>Viper\<close>

datatype vval = VStr string | VInt int | VBool bool

record pflag =
  pf_Name :: string
  pf_Value :: vval
  pf_Changed :: bool

text \<open>What was bound and read: flags and variables by key, and the entries of the file.\<close>

record viper_state =
  vs_Flags :: "(string \<times> pflag) list"
  vs_Env :: "(string \<times> string) list"
  vs_Config :: "(string \<times> vval) list"

record viper =
  vi_BindPFlag :: "string \<Rightarrow> pflag \<Rightarrow> goerr option"
  vi_BindEnv :: "string \<Rightarrow> string \<Rightarrow> goerr option"
  vi_ReadInConfig :: "string \<Rightarrow> goerr + (string \<times> vval) list"
  vi_IsConfigFileNotFound :: "goerr \<Rightarrow> bool"
  vi_Get :: "(string \<Rightarrow> string) \<Rightarrow> viper_state \<Rightarrow> string \<Rightarrow> vval"
  vi_string :: "vval \<Rightarrow> goerr + string"
  vi_int :: "vval \<Rightarrow> goerr + int"
  vi_bool :: "vval \<Rightarrow> goerr + bool"

text \<open>The keys of a file do not depend on case; a variable that is empty counts as not set.\<close>

definition config_entry :: "viper_state \<Rightarrow> string \<Rightarrow> vval option" where
  "config_entry v key = map_of (map (\<lambda>(k, x). (strings_ToLower k, x)) (vs_Config v)) key"

locale viper_laws =
  fixes V :: viper
  assumes Bind: "vi_BindPFlag V key f = None" "vi_BindEnv V key name = None"
    and from_flag: "map_of (vs_Flags v) key = Some f \<Longrightarrow> pf_Changed f \<Longrightarrow> vi_Get V environ v key = pf_Value f"
    and from_env: "map_of (vs_Flags v) key = Some f \<Longrightarrow> \<not> pf_Changed f \<Longrightarrow> map_of (vs_Env v) key = Some name \<Longrightarrow> environ name \<noteq> '''' \<Longrightarrow>
      vi_Get V environ v key = VStr (environ name)"
    and from_config: "map_of (vs_Flags v) key = Some f \<Longrightarrow> \<not> pf_Changed f \<Longrightarrow> map_of (vs_Env v) key = Some name \<Longrightarrow> environ name = '''' \<Longrightarrow>
      config_entry v key = Some x \<Longrightarrow> vi_Get V environ v key = x"
    and from_default: "map_of (vs_Flags v) key = Some f \<Longrightarrow> \<not> pf_Changed f \<Longrightarrow> map_of (vs_Env v) key = Some name \<Longrightarrow> environ name = '''' \<Longrightarrow>
      config_entry v key = None \<Longrightarrow> vi_Get V environ v key = pf_Value f"
    and decoded: "vi_string V (VStr s) = Inr s" "vi_int V (VInt i) = Inr i" "vi_bool V (VBool b) = Inr b"

definition ref_viper :: "(string \<Rightarrow> goerr + (string \<times> vval) list) \<Rightarrow> viper" where
  "ref_viper readFile =
     \<lparr>vi_BindPFlag = (\<lambda>_ _. None), vi_BindEnv = (\<lambda>_ _. None), vi_ReadInConfig = readFile, vi_IsConfigFileNotFound = (\<lambda>err. errors_Is err ErrNotExist),
      vi_Get = (\<lambda>environ v key. case map_of (vs_Flags v) key of None \<Rightarrow> VStr ''''
        | Some f \<Rightarrow> if pf_Changed f then pf_Value f else
            (let e = (case map_of (vs_Env v) key of None \<Rightarrow> '''' | Some name \<Rightarrow> environ name) in
             if e \<noteq> '''' then VStr e else case config_entry v key of Some x \<Rightarrow> x | None \<Rightarrow> pf_Value f)),
      vi_string = (\<lambda>x. case x of VStr s \<Rightarrow> Inr s | VInt i \<Rightarrow> Inr (strconv_FormatInt i) | VBool b \<Rightarrow> Inr (if b then ''1'' else ''0'')),
      vi_int = (\<lambda>x. case x of VInt i \<Rightarrow> Inr i | VBool b \<Rightarrow> Inr (if b then 1 else 0) | VStr s \<Rightarrow> strconv_Atoi s),
      vi_bool = (\<lambda>x. case x of VBool b \<Rightarrow> Inr b | VInt i \<Rightarrow> Inr (i \<noteq> 0) | VStr s \<Rightarrow> Inr (s = ''true''))\<rparr>"

interpretation ref_viper: viper_laws "ref_viper readFile" for readFile
  by unfold_locales (simp_all add: ref_viper_def)

section \<open>Flags and options\<close>

definition kubelet_flags :: "(string \<times> vval) list" where
  "kubelet_flags =
     [(''debug'', VBool False), (''log-format'', VStr ''text''), (''cluster-name'', VStr ''''), (''cluster-namespace'', VStr ''''), (''token'', VStr ''''),
      (''host-kubeconfig'', VStr ''''), (''virt-kubeconfig'', VStr ''''), (''kubelet-port'', VInt 0), (''service-name'', VStr ''''),
      (''agent-hostname'', VStr ''''), (''server-ip'', VStr ''''), (''version'', VStr ''''), (''config'', VStr ''/opt/rancher/k3k/config.yaml''),
      (''mirror-host-nodes'', VBool False)]"

definition config_name :: "string \<Rightarrow> string" where
  "config_name name = filter (\<lambda>c. c \<noteq> CHR ''-'') name"

definition env_name :: "string \<Rightarrow> string" where
  "env_name name =
     map (\<lambda>c. let n = (of_char c :: nat) in if c = CHR ''-'' then CHR ''_'' else if 97 \<le> n \<and> n \<le> 122 then char_of (n - 32) else c) name"

text \<open>The flags after the command line was parsed, and what is bound to viper.\<close>

definition parsed_flags :: "(string \<Rightarrow> vval option) \<Rightarrow> pflag list" where
  "parsed_flags cmdline =
     map (\<lambda>(name, d). \<lparr>pf_Name = name, pf_Value = (case cmdline name of Some x \<Rightarrow> x | None \<Rightarrow> d), pf_Changed = (cmdline name \<noteq> None)\<rparr>) kubelet_flags"

definition bound :: "pflag list \<Rightarrow> (string \<times> vval) list \<Rightarrow> viper_state" where
  "bound flags entries =
     \<lparr>vs_Flags = map (\<lambda>f. (config_name (pf_Name f), f)) flags, vs_Env = map (\<lambda>f. (config_name (pf_Name f), env_name (pf_Name f))) flags, vs_Config = entries\<rparr>"

text \<open>\<^verbatim>\<open>viper.Unmarshal\<close> into the configuration: the keys are the tags of its fields, without regard to case.\<close>

definition Unmarshal_config :: "viper \<Rightarrow> (string \<Rightarrow> string) \<Rightarrow> viper_state \<Rightarrow> goerr + kubelet_config" where
  "Unmarshal_config V environ v =
     (let str = (\<lambda>tag. vi_string V (vi_Get V environ v (strings_ToLower tag))) in
      bindR (str ''clusterName'') (\<lambda>ClusterName. bindR (str ''clusterNamespace'') (\<lambda>ClusterNamespace. bindR (str ''serviceName'') (\<lambda>ServiceName.
      bindR (str ''token'') (\<lambda>Token. bindR (str ''agentHostname'') (\<lambda>AgentHostname. bindR (str ''hostKubeconfig'') (\<lambda>HostKubeconfig.
      bindR (str ''virtKubeconfig'') (\<lambda>VirtKubeconfig. bindR (vi_int V (vi_Get V environ v (strings_ToLower ''kubeletPort''))) (\<lambda>KubeletPort.
      bindR (str ''serverIP'') (\<lambda>ServerIP. bindR (str ''version'') (\<lambda>Version. bindR (vi_bool V (vi_Get V environ v (strings_ToLower ''mirrorHostNodes''))) (\<lambda>MirrorHostNodes.
      Inr \<lparr>kg_ClusterName = ClusterName, kg_ClusterNamespace = ClusterNamespace, kg_ServiceName = ServiceName, kg_Token = Token, kg_AgentHostname = AgentHostname,
        kg_HostKubeconfig = HostKubeconfig, kg_VirtKubeconfig = VirtKubeconfig, kg_KubeletPort = KubeletPort, kg_ServerIP = ServerIP, kg_Version = Version,
        kg_MirrorHostNodes = MirrorHostNodes\<rparr>))))))))))))"

definition kubelet_InitializeConfig :: "viper \<Rightarrow> (string \<Rightarrow> vval option) \<Rightarrow> (string \<Rightarrow> string) \<Rightarrow> goerr + kubelet_config \<times> bool" where
  "kubelet_InitializeConfig V cmdline environ =
     (let flags = parsed_flags cmdline;
          err = errors_Join (concat (map (\<lambda>f. [vi_BindPFlag V (config_name (pf_Name f)) f, vi_BindEnv V (config_name (pf_Name f)) (env_name (pf_Name f))]) flags)) in
      case err of Some err \<Rightarrow> Inl err | None \<Rightarrow>
        (let configFile = (case vi_string V (vi_Get V environ (bound flags []) ''config'') of Inl _ \<Rightarrow> [] | Inr path \<Rightarrow> path) in
        case vi_ReadInConfig V configFile of
          Inl err \<Rightarrow> Inl (ErrWrap (if vi_IsConfigFileNotFound V err \<or> errors_Is err ErrNotExist then ''no config file found'' else ''failed to read config file'') [err])
        | Inr entries \<Rightarrow>
            (case Unmarshal_config V environ (bound flags entries) of
               Inl err \<Rightarrow> Inl (ErrWrap ''failed to unmarshal config'' [err])
             | Inr cfg \<Rightarrow> Inr (cfg, case vi_bool V (vi_Get V environ (bound flags entries) ''debug'') of Inl _ \<Rightarrow> False | Inr debug \<Rightarrow> debug))))"

section \<open>What the controller gives to the agent\<close>

text \<open>The configuration file: the fields of \<^verbatim>\<open>sharedAgentConfig\<close> under their YAML tags.\<close>

definition agent_file :: "shared_agent_config \<Rightarrow> (string \<times> vval) list" where
  "agent_file g =
     [(''clusterName'', VStr (sg_ClusterName g)), (''clusterNamespace'', VStr (sg_ClusterNamespace g)), (''kubeletPort'', VInt (sg_KubeletPort g)),
      (''mirrorHostNodes'', VBool (sg_MirrorHostNodes g)), (''serverIP'', VStr (sg_ServerIP g)), (''serviceName'', VStr (sg_ServiceName g)),
      (''token'', VStr (sg_Token g)), (''version'', VStr (sg_Version g))]"

text \<open>Where the container of the agent finds the file: the item of the secret below the path its volume is mounted at.\<close>

definition agent_config_path :: "shared_agent \<Rightarrow> cluster \<Rightarrow> string" where
  "agent_config_path s cluster =
     concat (map (\<lambda>m. concat (map (\<lambda>v. case vo_Secret v of Some src \<Rightarrow> if vo_Name v = vm_Name m then vm_MountPath m @ ns_rest src else '''' | None \<Rightarrow> '''')
       (wp_Volumes (shared_podSpec s cluster)))) (wc_VolumeMounts (shared_container s cluster)))"

text \<open>The variables of a container: the last entry of a name counts, and \<^verbatim>\<open>resolve\<close> gives the value of a source.\<close>

definition container_environ :: "(env_var_source \<Rightarrow> string) \<Rightarrow> (string \<Rightarrow> string) \<Rightarrow> env_var list \<Rightarrow> string \<Rightarrow> string" where
  "container_environ resolve inherited envs name =
     (case find (\<lambda>e. ev_Name e = name) (rev envs) of None \<Rightarrow> inherited name
      | Some e \<Rightarrow> (case ev_ValueFrom e of Some src \<Rightarrow> resolve src | None \<Rightarrow> ev_Value e))"

definition agent_environ :: "(env_var_source \<Rightarrow> string) \<Rightarrow> (string \<Rightarrow> string) \<Rightarrow> shared_agent \<Rightarrow> cluster \<Rightarrow> string \<Rightarrow> string" where
  "agent_environ resolve inherited s cluster = container_environ resolve inherited (wc_Env (shared_container s cluster))"

text \<open>The options the agent of a cluster should run with on a node.\<close>

definition agent_options :: "shared_agent \<Rightarrow> cluster \<Rightarrow> string \<Rightarrow> kubelet_config" where
  "agent_options s cluster node =
     (let g = sharedAgentData cluster (shared_Name cluster) (sh_token s) (sh_serviceIP s) (sh_kubeletPort s) in
      \<lparr>kg_ClusterName = Name (cl_meta cluster), kg_ClusterNamespace = Namespace (cl_meta cluster), kg_ServiceName = shared_Name cluster, kg_Token = sh_token s,
       kg_AgentHostname = node, kg_HostKubeconfig = '''', kg_VirtKubeconfig = '''', kg_KubeletPort = sh_kubeletPort s, kg_ServerIP = sh_serviceIP s,
       kg_Version = sg_Version g, kg_MirrorHostNodes = MirrorHostNodes (cl_Spec cluster)\<rparr>)"

abbreviation "bound_names \<equiv> map (env_name \<circ> fst) kubelet_flags"

lemma config_keys_distinct: "distinct (map (config_name \<circ> fst) kubelet_flags)"
  by (simp add: kubelet_flags_def config_name_def)

lemma bound_flag:
  assumes "(name, d) \<in> set kubelet_flags"
  shows "map_of (vs_Flags (bound (parsed_flags (\<lambda>_. None)) entries)) (config_name name) = Some \<lparr>pf_Name = name, pf_Value = d, pf_Changed = False\<rparr>"
    and "map_of (vs_Env (bound (parsed_flags (\<lambda>_. None)) entries)) (config_name name) = Some (env_name name)"
proof -
  have k: "map fst (vs_Flags (bound (parsed_flags (\<lambda>_. None)) entries)) = map (config_name \<circ> fst) kubelet_flags"
    "map fst (vs_Env (bound (parsed_flags (\<lambda>_. None)) entries)) = map (config_name \<circ> fst) kubelet_flags"
    by (simp_all add: bound_def parsed_flags_def o_def case_prod_unfold)
  show "map_of (vs_Flags (bound (parsed_flags (\<lambda>_. None)) entries)) (config_name name) = Some \<lparr>pf_Name = name, pf_Value = d, pf_Changed = False\<rparr>"
    using assms by (intro map_of_is_SomeI, simp only: k config_keys_distinct) (force simp: bound_def parsed_flags_def)
  show "map_of (vs_Env (bound (parsed_flags (\<lambda>_. None)) entries)) (config_name name) = Some (env_name name)"
    using assms by (intro map_of_is_SomeI, simp only: k config_keys_distinct) (force simp: bound_def parsed_flags_def)
qed

context viper_laws
begin

lemma Get_unchanged:
  assumes "(name, d) \<in> set kubelet_flags" "key = config_name name"
  shows "vi_Get V environ (bound (parsed_flags (\<lambda>_. None)) entries) key =
    (if environ (env_name name) \<noteq> '''' then VStr (environ (env_name name))
     else case config_entry (bound (parsed_flags (\<lambda>_. None)) entries) key of Some x \<Rightarrow> x | None \<Rightarrow> d)"
  using bound_flag [OF assms(1), of entries] unfolding assms(2)
  by (auto simp: from_env from_config from_default split: option.split)

end

lemma flag_keys:
  "config_name ''debug'' = ''debug''"
  "config_name ''log-format'' = ''logformat''"
  "config_name ''cluster-name'' = ''clustername''"
  "config_name ''cluster-namespace'' = ''clusternamespace''"
  "config_name ''token'' = ''token''"
  "config_name ''host-kubeconfig'' = ''hostkubeconfig''"
  "config_name ''virt-kubeconfig'' = ''virtkubeconfig''"
  "config_name ''kubelet-port'' = ''kubeletport''"
  "config_name ''service-name'' = ''servicename''"
  "config_name ''agent-hostname'' = ''agenthostname''"
  "config_name ''server-ip'' = ''serverip''"
  "config_name ''version'' = ''version''"
  "config_name ''config'' = ''config''"
  "config_name ''mirror-host-nodes'' = ''mirrorhostnodes''"
  by (simp_all add: config_name_def)

lemma flag_member:
  "(''cluster-name'', VStr '''') \<in> set kubelet_flags"
  "(''cluster-namespace'', VStr '''') \<in> set kubelet_flags"
  "(''service-name'', VStr '''') \<in> set kubelet_flags"
  "(''token'', VStr '''') \<in> set kubelet_flags"
  "(''agent-hostname'', VStr '''') \<in> set kubelet_flags"
  "(''host-kubeconfig'', VStr '''') \<in> set kubelet_flags"
  "(''virt-kubeconfig'', VStr '''') \<in> set kubelet_flags"
  "(''kubelet-port'', VInt 0) \<in> set kubelet_flags"
  "(''server-ip'', VStr '''') \<in> set kubelet_flags"
  "(''version'', VStr '''') \<in> set kubelet_flags"
  "(''mirror-host-nodes'', VBool False) \<in> set kubelet_flags"
  by (simp_all add: kubelet_flags_def)

lemma tag_keys:
  "strings_ToLower ''clusterName'' = ''clustername''"
  "strings_ToLower ''clusterNamespace'' = ''clusternamespace''"
  "strings_ToLower ''serviceName'' = ''servicename''"
  "strings_ToLower ''token'' = ''token''"
  "strings_ToLower ''agentHostname'' = ''agenthostname''"
  "strings_ToLower ''hostKubeconfig'' = ''hostkubeconfig''"
  "strings_ToLower ''virtKubeconfig'' = ''virtkubeconfig''"
  "strings_ToLower ''kubeletPort'' = ''kubeletport''"
  "strings_ToLower ''serverIP'' = ''serverip''"
  "strings_ToLower ''version'' = ''version''"
  "strings_ToLower ''mirrorHostNodes'' = ''mirrorhostnodes''"
  by code_simp+

lemma flag_variables:
  "env_name ''debug'' = ''DEBUG''"
  "env_name ''log-format'' = ''LOG_FORMAT''"
  "env_name ''cluster-name'' = ''CLUSTER_NAME''"
  "env_name ''cluster-namespace'' = ''CLUSTER_NAMESPACE''"
  "env_name ''token'' = ''TOKEN''"
  "env_name ''host-kubeconfig'' = ''HOST_KUBECONFIG''"
  "env_name ''virt-kubeconfig'' = ''VIRT_KUBECONFIG''"
  "env_name ''kubelet-port'' = ''KUBELET_PORT''"
  "env_name ''service-name'' = ''SERVICE_NAME''"
  "env_name ''agent-hostname'' = ''AGENT_HOSTNAME''"
  "env_name ''server-ip'' = ''SERVER_IP''"
  "env_name ''version'' = ''VERSION''"
  "env_name ''config'' = ''CONFIG''"
  "env_name ''mirror-host-nodes'' = ''MIRROR_HOST_NODES''"
  by code_simp+

lemma bound_names_eq:
  "bound_names = [''DEBUG'', ''LOG_FORMAT'', ''CLUSTER_NAME'', ''CLUSTER_NAMESPACE'', ''TOKEN'', ''HOST_KUBECONFIG'', ''VIRT_KUBECONFIG'', ''KUBELET_PORT'',
    ''SERVICE_NAME'', ''AGENT_HOSTNAME'', ''SERVER_IP'', ''VERSION'', ''CONFIG'', ''MIRROR_HOST_NODES'']"
  by (simp add: kubelet_flags_def flag_variables)

lemma find_append: "find P (xs @ ys) = (case find P xs of None \<Rightarrow> find P ys | Some x \<Rightarrow> Some x)"
  by (induction xs) auto

lemma agent_environ_bound:
  assumes "list_all (\<lambda>e. ev_Name e \<notin> set bound_names) (AgentEnvs (cl_Spec cluster))" "name \<in> set bound_names"
  shows "agent_environ resolve inherited s cluster name =
    (if name = ''AGENT_HOSTNAME'' then resolve \<lparr>es_FieldRef = Some ''spec.nodeName'', es_ConfigMapKeyRef = None, es_SecretKeyRef = None, es_rest = ''''\<rparr> else inherited name)"
proof -
  have "find (\<lambda>e. ev_Name e = name) (rev (AgentEnvs (cl_Spec cluster))) = None"
    using assms by (auto simp: find_None_iff list_all_iff)
  moreover have "name \<noteq> ''POD_IP''" using assms(2) unfolding bound_names_eq by auto
  ultimately show ?thesis
    by (simp add: agent_environ_def container_environ_def shared_container_def env_from_field_def find_append)
qed

lemma agent_entry:
  "config_entry (bound flags (agent_file g)) key =
    map_of [(''clustername'', VStr (sg_ClusterName g)), (''clusternamespace'', VStr (sg_ClusterNamespace g)), (''kubeletport'', VInt (sg_KubeletPort g)),
      (''mirrorhostnodes'', VBool (sg_MirrorHostNodes g)), (''serverip'', VStr (sg_ServerIP g)), (''servicename'', VStr (sg_ServiceName g)),
      (''token'', VStr (sg_Token g)), (''version'', VStr (sg_Version g))] key"
  by (simp add: config_entry_def bound_def agent_file_def tag_keys)

lemma bound_Config [simp]: "vs_Config (bound flags entries) = entries"
  by (simp add: bound_def)

lemma agent_config_path_default: "agent_config_path s cluster = ''/opt/rancher/k3k/config.yaml''"
  by (simp add: agent_config_path_def shared_podSpec_def shared_container_def Let_def limits_and_resources_def policy_contexts_def first_container_def
      secret_volume_def mount_at_def empty_volume_def split: option.split)

context viper_laws
begin

text \<open>Without flags, and with only the name of the node in the environment, the options are those of the file.\<close>

lemma agent_decodes:
  assumes environ: "\<And>name. name \<in> set bound_names \<Longrightarrow> environ name = (if name = ''AGENT_HOSTNAME'' then node else '''')" and node: "node \<noteq> ''''"
  shows "Unmarshal_config V environ (bound (parsed_flags (\<lambda>_. None)) (agent_file (sharedAgentData cluster (shared_Name cluster) (sh_token s) (sh_serviceIP s) (sh_kubeletPort s)))) =
    Inr (agent_options s cluster node)"
proof -
  let ?g = "sharedAgentData cluster (shared_Name cluster) (sh_token s) (sh_serviceIP s) (sh_kubeletPort s)"
  let ?v = "bound (parsed_flags (\<lambda>_. None)) (agent_file ?g)"
  have get: "vi_Get V environ ?v key = (if env_name name = ''AGENT_HOSTNAME'' then VStr node else case config_entry ?v key of Some x \<Rightarrow> x | None \<Rightarrow> d)"
    if "(name, d) \<in> set kubelet_flags" "key = config_name name" for name d key
  proof -
    have "env_name name \<in> set bound_names" using that(1) by force
    then have e: "environ (env_name name) = (if env_name name = ''AGENT_HOSTNAME'' then node else [])" by (rule environ)
    show ?thesis unfolding Get_unchanged [OF that] e using node by (simp split: option.split)
  qed
  have clustername: "vi_Get V environ ?v ''clustername'' = VStr (sg_ClusterName ?g)"
    using get [of "''cluster-name''" "VStr ''''" "''clustername''"] by (simp add: flag_member flag_keys flag_variables agent_entry)
  have clusternamespace: "vi_Get V environ ?v ''clusternamespace'' = VStr (sg_ClusterNamespace ?g)"
    using get [of "''cluster-namespace''" "VStr ''''" "''clusternamespace''"] by (simp add: flag_member flag_keys flag_variables agent_entry)
  have servicename: "vi_Get V environ ?v ''servicename'' = VStr (sg_ServiceName ?g)"
    using get [of "''service-name''" "VStr ''''" "''servicename''"] by (simp add: flag_member flag_keys flag_variables agent_entry)
  have token: "vi_Get V environ ?v ''token'' = VStr (sg_Token ?g)"
    using get [of "''token''" "VStr ''''" "''token''"] by (simp add: flag_member flag_keys flag_variables agent_entry)
  have agenthostname: "vi_Get V environ ?v ''agenthostname'' = VStr node"
    using get [of "''agent-hostname''" "VStr ''''" "''agenthostname''"] by (simp add: flag_member flag_keys flag_variables agent_entry)
  have hostkubeconfig: "vi_Get V environ ?v ''hostkubeconfig'' = VStr ''''"
    using get [of "''host-kubeconfig''" "VStr ''''" "''hostkubeconfig''"] by (simp add: flag_member flag_keys flag_variables agent_entry)
  have virtkubeconfig: "vi_Get V environ ?v ''virtkubeconfig'' = VStr ''''"
    using get [of "''virt-kubeconfig''" "VStr ''''" "''virtkubeconfig''"] by (simp add: flag_member flag_keys flag_variables agent_entry)
  have kubeletport: "vi_Get V environ ?v ''kubeletport'' = VInt (sg_KubeletPort ?g)"
    using get [of "''kubelet-port''" "VInt 0" "''kubeletport''"] by (simp add: flag_member flag_keys flag_variables agent_entry)
  have serverip: "vi_Get V environ ?v ''serverip'' = VStr (sg_ServerIP ?g)"
    using get [of "''server-ip''" "VStr ''''" "''serverip''"] by (simp add: flag_member flag_keys flag_variables agent_entry)
  have version: "vi_Get V environ ?v ''version'' = VStr (sg_Version ?g)"
    using get [of "''version''" "VStr ''''" "''version''"] by (simp add: flag_member flag_keys flag_variables agent_entry)
  have mirrorhostnodes: "vi_Get V environ ?v ''mirrorhostnodes'' = VBool (sg_MirrorHostNodes ?g)"
    using get [of "''mirror-host-nodes''" "VBool False" "''mirrorhostnodes''"] by (simp add: flag_member flag_keys flag_variables agent_entry)
  note got = clustername clusternamespace servicename token agenthostname hostkubeconfig virtkubeconfig kubeletport serverip version mirrorhostnodes
  have "Unmarshal_config V environ ?v =
      Inr \<lparr>kg_ClusterName = sg_ClusterName ?g, kg_ClusterNamespace = sg_ClusterNamespace ?g, kg_ServiceName = sg_ServiceName ?g, kg_Token = sg_Token ?g, kg_AgentHostname = node,
        kg_HostKubeconfig = '''', kg_VirtKubeconfig = '''', kg_KubeletPort = sg_KubeletPort ?g, kg_ServerIP = sg_ServerIP ?g, kg_Version = sg_Version ?g,
        kg_MirrorHostNodes = sg_MirrorHostNodes ?g\<rparr>"
    by (simp add: Unmarshal_config_def got tag_keys decoded bindR_def Let_def)
  then show ?thesis by (simp add: agent_options_def sharedAgentData_def Let_def)
qed

lemma agent_initializes:
  assumes environ: "\<And>name. name \<in> set bound_names \<Longrightarrow> environ name = (if name = ''AGENT_HOSTNAME'' then node else '''')" and node: "node \<noteq> ''''"
    and entries: "vi_ReadInConfig V (agent_config_path s cluster) =
      Inr (agent_file (sharedAgentData cluster (shared_Name cluster) (sh_token s) (sh_serviceIP s) (sh_kubeletPort s)))"
  shows "kubelet_InitializeConfig V (\<lambda>_. None) environ = Inr (agent_options s cluster node, False)"
proof -
  have flags: "(''config'', VStr ''/opt/rancher/k3k/config.yaml'') \<in> set kubelet_flags" "(''debug'', VBool False) \<in> set kubelet_flags"
    by (simp_all add: kubelet_flags_def)
  have unset: "environ ''CONFIG'' = ''''" "environ ''DEBUG'' = ''''" using environ by (simp_all only: bound_names_eq) simp_all
  have config: "vi_Get V environ (bound (parsed_flags (\<lambda>_. None)) []) ''config'' = VStr (agent_config_path s cluster)"
    using Get_unchanged [OF flags(1), of "''config''" environ "[]"] unset
    by (simp add: flag_keys flag_variables config_entry_def agent_config_path_default bound_Config)
  have debug: "vi_Get V environ (bound (parsed_flags (\<lambda>_. None)) (agent_file g)) ''debug'' = VBool False" for g
    using Get_unchanged [OF flags(2), of "''debug''" environ "agent_file g"] unset by (simp add: flag_keys flag_variables agent_entry)
  have "errors_Join (concat (map (\<lambda>f. [vi_BindPFlag V (config_name (pf_Name f)) f, vi_BindEnv V (config_name (pf_Name f)) (env_name (pf_Name f))])
      (parsed_flags (\<lambda>_. None)))) = None"
    by (auto simp: errors_Join_None Bind)
  moreover have "Unmarshal_config V environ (bound (parsed_flags (\<lambda>_. None)) (agent_file (sharedAgentData cluster (shared_Name cluster) (sh_token s) (sh_serviceIP s) (sh_kubeletPort s)))) =
      Inr (agent_options s cluster node)"
    using environ node by (rule agent_decodes)
  ultimately show ?thesis
    by (simp add: kubelet_InitializeConfig_def Let_def config debug decoded entries)
qed

end

end
