(* ===== verification/AgentRun.thy ===== *)
theory AgentRun
  imports KubeletConfig Snapshot
begin

text \<open>
  From the controller to the running agent: what the controller gives to the agent of a shared mode cluster (secret, volume, variables,
  probe) is what the agent (\<^verbatim>\<open>k3k-kubelet\<close>) reads when it starts.
\<close>

abbreviation node_name_source :: env_var_source where
  "node_name_source \<equiv> \<lparr>es_FieldRef = Some ''spec.nodeName'', es_ConfigMapKeyRef = None, es_SecretKeyRef = None, es_rest = ''''\<rparr>"

text \<open>A read of an object that the controller keeps for the cluster, or of the host node.\<close>

definition agent_read :: "cluster \<Rightarrow> string \<Rightarrow> call \<Rightarrow> bool" where
  "agent_read cluster hostNode x \<longleftrightarrow> c_side x = Host \<and> c_verb x = VGet \<and>
     (key_of (c_meta x) \<in> in_cluster cluster ` {Name (cl_meta cluster), SafeConcatNameWithPrefix [Name (cl_meta cluster), ''kubeconfig''], shared_Name cluster,
        SafeConcatNameWithPrefix [Name (cl_meta cluster), ''kube-dns'']} \<or> MirrorHostNodes (cl_Spec cluster) \<and> key_of (c_meta x) = cluster_scoped hostNode)"

lemma own_read_cluster: "own_read (agent_options s cluster node) n = agent_read cluster n"
  by (auto simp: own_read_def agent_read_def start_keys_def agent_options_def Let_def fun_eq_iff)

text \<open>
  C6: An agent started by the controller serves its own cluster. With the configuration file in the secret, the name of the node in the
  environment and no variable of the user that the agent binds, the agent reads the options the controller meant; when it then starts, it has
  only read objects of its cluster (and its host node when those are mirrored), its provider translates for this cluster on this node, and it
  announces and listens on the port that the controller gave to it, which the readiness probe asks.
\<close>

theorem agent_runs_for_its_cluster:
  assumes V: "viper_laws V"
    and entries: "vi_ReadInConfig V (agent_config_path s cluster) =
      Inr (agent_file (sharedAgentData cluster (shared_Name cluster) (sh_token s) (sh_serviceIP s) (sh_kubeletPort s)))"
    and user: "list_all (\<lambda>e. ev_Name e \<notin> set bound_names) (AgentEnvs (cl_Spec cluster))"
    and inherited: "\<And>name. name \<in> set bound_names \<Longrightarrow> inherited name = ''''"
    and node: "resolve node_name_source = node" "node \<noteq> ''''"
  shows "kubelet_InitializeConfig V (\<lambda>_. None) (agent_environ resolve inherited s cluster) = Inr (agent_options s cluster node, False) \<and>
    (\<forall>K podIP w p nc w'. prepare K podIP (agent_options s cluster node) w = (Inr (p, nc), w') \<longrightarrow>
      (\<exists>cs. w_calls w' = w_calls w @ cs \<and> list_all (agent_read cluster (Name (kn_meta (ka_defaultNode K node)))) cs) \<and>
      p_translator p = \<lparr>tr_ClusterName = Name (cl_meta cluster), tr_ClusterNamespace = Namespace (cl_meta cluster)\<rparr> \<and> p_agentHostname p = node \<and>
      nds_KubeletPort (kn_Status (nc_Node nc)) = wrap32 (sh_kubeletPort s) \<and> nc_HTTPListenAddr nc = '':'' @ strconv_FormatInt (sh_kubeletPort s) \<and>
      map_option pr_Handler (wc_ReadinessProbe (shared_container s cluster)) = Some (HTTPGet ''HTTPS'' ''/readyz'' (sh_kubeletPort s)))"
proof -
  have environ: "agent_environ resolve inherited s cluster name = (if name = ''AGENT_HOSTNAME'' then node else '''')" if "name \<in> set bound_names" for name
    using agent_environ_bound [OF user that] inherited [OF that] node(1) by simp
  have init: "kubelet_InitializeConfig V (\<lambda>_. None) (agent_environ resolve inherited s cluster) = Inr (agent_options s cluster node, False)"
    using V environ node(2) entries by (rule viper_laws.agent_initializes)
  have options: "kg_AgentHostname (agent_options s cluster node) = node" "kg_KubeletPort (agent_options s cluster node) = sh_kubeletPort s"
    "kg_ClusterName (agent_options s cluster node) = Name (cl_meta cluster)" "kg_ClusterNamespace (agent_options s cluster node) = Namespace (cl_meta cluster)"
    by (simp_all add: agent_options_def Let_def)
  have probe: "map_option pr_Handler (wc_ReadinessProbe (shared_container s cluster)) = Some (HTTPGet ''HTTPS'' ''/readyz'' (sh_kubeletPort s))"
    by (simp add: shared_container_def)
  show ?thesis
  proof (intro conjI allI impI init probe)
    fix K :: "'e kubelet_api" and podIP w p nc w'
    assume start: "prepare K podIP (agent_options s cluster node) w = (Inr (p, nc), w')"
    note facts = agent_serves_its_cluster [OF start, unfolded options own_read_cluster]
    show "\<exists>cs. w_calls w' = w_calls w @ cs \<and> list_all (agent_read cluster (Name (kn_meta (ka_defaultNode K node)))) cs" by (rule facts(2))
    show "p_translator p = \<lparr>tr_ClusterName = Name (cl_meta cluster), tr_ClusterNamespace = Namespace (cl_meta cluster)\<rparr>" by (rule facts(3))
    show "p_agentHostname p = node" using facts(4) by simp
    show "nds_KubeletPort (kn_Status (nc_Node nc)) = wrap32 (sh_kubeletPort s)" "nc_HTTPListenAddr nc = '':'' @ strconv_FormatInt (sh_kubeletPort s)"
      using facts(5) by simp_all
  qed
qed

section \<open>A concrete agent\<close>

definition wit_kubelet_api :: "unit kubelet_api" where
  "wit_kubelet_api =
     \<lparr>ka_client = wit_cluster_api,
      ka_ServiceR = full_resource KService svc_meta (\<lambda>key. \<lparr>svc_meta = key_meta key, svc_ClusterIP = ''10.43.0.10'', svc_rest = '''', svc_LoadBalancer = ''''\<rparr>),
      ka_NodeR = empty_resource KNode kn_meta, ka_net = wit_net, ka_BuildConfig = Inr, ka_NewClient = (\<lambda>_. Inr ()), ka_RESTConfig = Inr, ka_AddToScheme = Inr (),
      ka_NewManager = (\<lambda>_ _. Inr ()), ka_Add = (\<lambda>_ e. (Inr (), e)), ka_AddRunnable = (\<lambda>_ e. (Inr (), e)), ka_StartUpdater = (\<lambda>_ e. ((), e)),
      ka_defaultNode = (\<lambda>n. \<lparr>kn_meta = (meta_of n '''')\<lparr>Labels := Some fmempty\<rparr>, kn_Spec = '''',
        kn_Status = \<lparr>nds_Conditions = [], nds_KubeletPort = 0, nds_Addresses = [], nds_KubeletVersion = '''', nds_rest = ''''\<rparr>\<rparr>)\<rparr>"

lemma wit_serving_url:
  "url_Parse ''https://k3k-c1-service.ns1/v1-k3s/serving-kubelet.crt'' = Inr \<lparr>url_Scheme = ''https'', url_Host = ''k3k-c1-service.ns1''\<rparr>"
  by code_simp

definition wit_entries :: "string \<Rightarrow> goerr + (string \<times> vval) list" where
  "wit_entries path =
     (if path = ''/opt/rancher/k3k/config.yaml'' then Inr (agent_file (sharedAgentData wit_shared_cluster (shared_Name wit_shared_cluster) ''t'' ''10.43.0.7'' 10250))
      else Inl (Sentinel ErrNotExist))"

abbreviation wit_options :: kubelet_config where "wit_options \<equiv> agent_options wit_shared wit_shared_cluster ''node1''"

lemma wit_cert: "fst (GetServingKubeletCrt wit_net (serving_client wit_options ''t'' ip podIP) ()) = Inr ''{}''"
proof -
  have "ServiceName ''c1'' = ''k3k-c1-service''" by code_simp
  then have "kc_ServerIP (serving_client wit_options ''t'' ip podIP) = ''k3k-c1-service.ns1''"
    by (simp add: serving_client_def agent_options_def Let_def wit_shared_cluster_def wit_cluster_def)
  then show ?thesis using wit_serving_url
    by (simp add: GetServingKubeletCrt_def client_do_def bindN_def retN_def wit_net_def Let_def)
qed

lemma succeeds_wrap: "succeeds R m \<Longrightarrow> succeeds R (wrap msg m)"
  unfolding succeeds_def wrap_Inr .

lemma succeeds_retry_if: "succeeds R m \<Longrightarrow> 0 < n \<Longrightarrow> succeeds R (retry_if retriable n m)"
proof (cases n)
  case (Suc k)
  assume m: "succeeds R m"
  have "retry_if retriable (Suc k) m w = (Inr a, w')" if "m w = (Inr a, w')" for w a w' using that by (simp add: bindS_run ret_def)
  with m Suc show ?thesis unfolding succeeds_def by metis
qed simp

lemma succeeds_bindS: "succeeds Q m \<Longrightarrow> (\<And>a. Q a \<Longrightarrow> succeeds R (f (Inr a))) \<Longrightarrow> succeeds R (bindS m f)"
  unfolding succeeds_def bindS_run by (metis case_prod_conv)

lemma succeeds_external: "(\<And>e. \<exists>a e'. f e = (Inr a, e') \<and> R a) \<Longrightarrow> succeeds R (external f)"
proof -
  assume f: "\<And>e. \<exists>a e'. f e = (Inr a, e') \<and> R a"
  show ?thesis unfolding succeeds_def external_def
  proof
    fix w :: "unit world"
    obtain a e' where "f (w_env w) = (Inr a, e')" "R a" using f by blast
    then show "\<exists>a w'. (case f (w_env w) of (a, e) \<Rightarrow> (a, w\<lparr>w_env := e\<rparr>)) = (Inr a, w') \<and> R a" by simp
  qed
qed

lemma succeeds_for_each: "(\<And>x. x \<in> set xs \<Longrightarrow> succeeds (\<lambda>_. True) (f x)) \<Longrightarrow> succeeds (\<lambda>_. True) (for_each xs f)"
  by (induction xs) (auto intro!: succeeds_bindE [of "\<lambda>_. True"] succeeds_ret)

lemma wit_kubelet_simps:
  "ka_BuildConfig wit_kubelet_api x = Inr x" "ka_NewClient wit_kubelet_api x = Inr ()" "ka_RESTConfig wit_kubelet_api x = Inr x"
  "ka_NewManager wit_kubelet_api side opts = Inr ()" "ka_AddToScheme wit_kubelet_api = Inr ()" "ka_Add wit_kubelet_api n = (\<lambda>e. (Inr (), e))"
  "ka_AddRunnable wit_kubelet_api p = (\<lambda>e. (Inr (), e))" "ka_StartUpdater wit_kubelet_api n = (\<lambda>e. ((), e))" "ka_net wit_kubelet_api = wit_net"
  by (simp_all add: wit_kubelet_api_def)

lemma wit_kubelet_gets:
  "succeeds (\<lambda>_. True) (k_Get s (cx_SecretR (ka_client wit_kubelet_api)) key)"
  "succeeds (\<lambda>_. True) (k_Get s (cx_ClusterR (ka_client wit_kubelet_api)) key)"
  "succeeds (\<lambda>_. True) (k_Get s (ka_ServiceR wit_kubelet_api) key)"
  by (simp_all add: wit_kubelet_api_def wit_cluster_api_def succeeds_Get)

lemma wit_options_simps:
  "kg_VirtKubeconfig wit_options = ''''" "kg_Token wit_options = ''t''" "kg_AgentHostname wit_options = ''node1''" "kg_MirrorHostNodes wit_options = False"
  "kg_ClusterName wit_options = ''c1''" "kg_ClusterNamespace wit_options = ''ns1''"
  by (simp_all add: agent_options_def Let_def NewSharedAgent_def wit_shared_cluster_def wit_cluster_def empty_spec_def)

lemma wit_newKubelet: "succeeds (\<lambda>k. kl_token k = ''t'' \<and> kl_name k = ''node1'') (newKubelet wit_kubelet_api wit_options)"
proof -
  have rest: "succeeds (\<lambda>_. True) (virtRestConfig wit_kubelet_api wit_options)"
    unfolding virtRestConfig_def wit_options_simps by (simp add: succeeds_bindS [of "\<lambda>_. True"] succeeds_retry_if wit_kubelet_gets wit_kubelet_simps succeeds_ret)
  have add: "succeeds (\<lambda>_. True) (addControllers wit_kubelet_api wit_options)"
    unfolding addControllers_def
    by (intro succeeds_bindE [of "\<lambda>_. True"] wit_kubelet_gets succeeds_for_each) (auto intro!: succeeds_wrap succeeds_external simp: wit_kubelet_simps split: prod.split)
  have ip: "succeeds (\<lambda>_. True) (clusterIP wit_kubelet_api name namespace)" for name namespace
    unfolding clusterIP_def by (intro succeeds_bindE [of "\<lambda>_. True"] wit_kubelet_gets succeeds_ret) simp
  show ?thesis unfolding newKubelet_def wit_kubelet_simps
    by (intro succeeds_bindE [of "\<lambda>_. True"] succeeds_wrap rest add ip wit_kubelet_gets succeeds_ret) (simp_all add: wit_options_simps)
qed

lemma wit_prepare: "succeeds (\<lambda>_. True) (prepare wit_kubelet_api ''10.42.0.9'' wit_options)"
proof -
  have valid: "config_validate wit_options = Inr ()" by (simp add: config_validate_def wit_options_simps)
  have "\<exists>a e'. GetServingKubeletCrt wit_net (serving_client wit_options ''t'' ip podIP) e = (Inr a, e')" for ip podIP e
    using wit_cert [of ip podIP] by (cases "GetServingKubeletCrt wit_net (serving_client wit_options ''t'' ip podIP) ()") auto
  then have cert: "succeeds (\<lambda>_. True) (loadTLSConfig wit_kubelet_api wit_options ''t'' ip podIP)" for ip podIP
    unfolding loadTLSConfig_def wit_kubelet_simps by (intro succeeds_wrap succeeds_retry_if succeeds_external) simp_all
  have prov: "succeeds (\<lambda>_. True) (newProviderFunc wit_kubelet_api k wit_options node)" if labelled: "Labels (kn_meta node) \<noteq> None" for k node
  proof -
    obtain n where own: "own_node ''node1'' (kl_port k) (kl_agentIP k) (kg_Version wit_options) node = Inr n"
      using labelled by (cases "Labels (kn_meta node)") (simp_all add: own_node_def assign_def bindR_def)
    have "succeeds (\<lambda>_. True) (New_provider wit_kubelet_api k wit_options)"
      unfolding New_provider_def Let_def wit_kubelet_simps by (intro succeeds_bindE [of "\<lambda>_. True"] succeeds_external succeeds_ret) simp_all
    moreover have "succeeds (\<lambda>_. True) (ConfigureNode (ka_NodeR wit_kubelet_api) (ka_StartUpdater wit_kubelet_api) ''node1'' (kl_port k) (kl_agentIP k) (kg_Version wit_options) False node)"
      unfolding ConfigureNode_def own wit_kubelet_simps by (simp add: succeeds_def bindE_run bindS_run ret_def external_def)
    ultimately show ?thesis unfolding newProviderFunc_def wit_options_simps by (intro succeeds_bindE [of "\<lambda>_. True"] succeeds_wrap succeeds_ret) simp_all
  qed
  have node: "\<exists>c. nodeOpt port (ka_defaultNode wit_kubelet_api ''node1'') = Inr c \<and> Labels (kn_meta (nc_Node c)) \<noteq> None" for port
    by (simp add: nodeOpt_def assign_def bindR_def wit_kubelet_api_def)
  have reg: "succeeds (\<lambda>_. True) (registerNode wit_kubelet_api k ip podIP wit_options)" if "kl_token k = ''t''" "kl_name k = ''node1''" for k ip podIP
  proof -
    obtain c where c: "nodeOpt (kg_KubeletPort wit_options) (ka_defaultNode wit_kubelet_api ''node1'') = Inr c" "Labels (kn_meta (nc_Node c)) \<noteq> None" using node by blast
    show ?thesis unfolding registerNode_def that c(1)
      by (intro succeeds_bindE [of "\<lambda>_. True"] succeeds_bindE [of "\<lambda>x. x = c"] succeeds_wrap cert succeeds_ret prov) (simp_all add: c(2))
  qed
  have "succeeds (\<lambda>_. True) (bindE (wrap ''failed to create new virtual kubelet instance'' (newKubelet wit_kubelet_api wit_options))
      (\<lambda>k. wrap ''failed to register new node'' (registerNode wit_kubelet_api k (kl_agentIP k) ''10.42.0.9'' wit_options)))"
    by (rule succeeds_bindE [OF succeeds_wrap [OF wit_newKubelet]]) (simp add: succeeds_wrap reg)
  then show ?thesis unfolding prepare_def valid by (intro succeeds_bindE [of "\<lambda>_. True", OF succeeds_wrap [OF succeeds_ret]]) simp_all
qed

lemma wit_prepare_run:
  obtains p nc w' where "prepare wit_kubelet_api ''10.42.0.9'' wit_options wit_world = (Inr (p, nc), w')"
proof -
  obtain a w' where "prepare wit_kubelet_api ''10.42.0.9'' wit_options wit_world = (Inr a, w')" using wit_prepare unfolding succeeds_def by blast
  then show ?thesis using that by (cases a) simp
qed

theorem agent_runs_for_its_cluster_witness:
  "kubelet_InitializeConfig (ref_viper wit_entries) (\<lambda>_. None) (agent_environ (\<lambda>_. ''node1'') (\<lambda>_. '''') wit_shared wit_shared_cluster) = Inr (wit_options, False) \<and>
   (\<exists>p nc w'. prepare wit_kubelet_api ''10.42.0.9'' wit_options wit_world = (Inr (p, nc), w') \<and>
     p_translator p = \<lparr>tr_ClusterName = ''c1'', tr_ClusterNamespace = ''ns1''\<rparr> \<and> nc_HTTPListenAddr nc = '':'' @ strconv_FormatInt 10250)"
proof -
  let ?s = wit_shared and ?c = wit_shared_cluster
  have entries: "vi_ReadInConfig (ref_viper wit_entries) (agent_config_path ?s ?c) =
      Inr (agent_file (sharedAgentData ?c (shared_Name ?c) (sh_token ?s) (sh_serviceIP ?s) (sh_kubeletPort ?s)))"
    by (simp add: agent_config_path_default ref_viper_def wit_entries_def NewSharedAgent_def)
  have user: "list_all (\<lambda>e. ev_Name e \<notin> set bound_names) (AgentEnvs (cl_Spec ?c))"
    by (simp add: wit_shared_cluster_def wit_cluster_def empty_spec_def)
  have node: "''node1'' \<noteq> ''''" by simp
  note main = agent_runs_for_its_cluster [where inherited = "\<lambda>_. ''''" and resolve = "\<lambda>_. ''node1''", OF ref_viper.viper_laws_axioms entries user refl refl node]
  obtain p nc w' where run: "prepare wit_kubelet_api ''10.42.0.9'' wit_options wit_world = (Inr (p, nc), w')"
    by (rule wit_prepare_run)
  have names: "Name (cl_meta ?c) = ''c1''" "Namespace (cl_meta ?c) = ''ns1''" "sh_kubeletPort ?s = 10250"
    by (simp_all add: wit_shared_cluster_def wit_cluster_def NewSharedAgent_def)
  have init: "kubelet_InitializeConfig (ref_viper wit_entries) (\<lambda>_. None) (agent_environ (\<lambda>_. ''node1'') (\<lambda>_. '''') ?s ?c) = Inr (wit_options, False)"
    by (rule main [THEN conjunct1])
  note started = main [THEN conjunct2, rule_format, OF run, unfolded names]
  show ?thesis
    by (intro conjI init exI [of _ p] exI [of _ nc] exI [of _ w'] run) (rule started [THEN conjunct2, THEN conjunct1], rule started [THEN conjunct2, THEN conjunct2, THEN conjunct2, THEN conjunct2, THEN conjunct1])
qed

end
