(* ===== verification/CliOutput.thy ===== *)
theory CliOutput
  imports Cli
begin

text \<open>
  What \<^verbatim>\<open>cli/cmds\<close> shows: shell completion (\<^verbatim>\<open>completion.go\<close>), the clients of the commands (\<^verbatim>\<open>root.go\<close>), tables of clusters and policies
  (\<^verbatim>\<open>table_printer.go\<close>, \<^verbatim>\<open>cluster_list.go\<close>, \<^verbatim>\<open>policy_list.go\<close>), the details of a new cluster and the changes of an update
  (\<^verbatim>\<open>cluster_create.go\<close>, \<^verbatim>\<open>diff_printer.go\<close>). The conversion of objects and JSON paths are parameters; text is what is printed.
\<close>

section \<open>Clients\<close>

record rest_config =
  rc_Config :: payload
  rc_Timeout :: int

text \<open>In seconds.\<close>

abbreviation defaultRequestTimeout :: int where "defaultRequestTimeout \<equiv> 30"
abbreviation completionRequestTimeout :: int where "completionRequestTimeout \<equiv> 1"

text \<open>An explicit path of a kubeconfig replaces the default loading rules.\<close>

record 'e cli_env =
  ce_ClientConfig :: "string option \<Rightarrow> goerr + payload"
  ce_AddToScheme :: "goerr option list"
  ce_New :: "rest_config \<Rightarrow> goerr + 'e cluster_api"

definition loadRESTConfig :: "'e cli_env \<Rightarrow> string \<Rightarrow> int \<Rightarrow> goerr + rest_config" where
  "loadRESTConfig E kubeconfig timeout =
     bindR (ce_ClientConfig E (if kubeconfig \<noteq> '''' then Some kubeconfig else None)) (\<lambda>restConfig. Inr \<lparr>rc_Config = restConfig, rc_Timeout = timeout\<rparr>)"

definition buildClient :: "'e cli_env \<Rightarrow> rest_config \<Rightarrow> goerr + 'e cluster_api" where
  "buildClient E restConfig =
     (case find (\<lambda>r. r \<noteq> None) (ce_AddToScheme E) of Some (Some err) \<Rightarrow> Inl err | _ \<Rightarrow> ce_New E restConfig)"

definition completionClient :: "'e cli_env \<Rightarrow> goerr + string \<Rightarrow> goerr + 'e cluster_api" where
  "completionClient E kubeconfig =
     bindR kubeconfig (\<lambda>path. bindR (loadRESTConfig E path completionRequestTimeout) (\<lambda>restConfig. buildClient E restConfig))"

text \<open>A flag that was not given takes the value viper has for it; \<^verbatim>\<open>Set\<close> parses the value of a flag, and its error is ignored.\<close>

definition cli_InitializeConfig :: "(string \<Rightarrow> string option) \<Rightarrow> (string \<Rightarrow> string \<Rightarrow> string option) \<Rightarrow> (string \<times> string \<times> bool) list \<Rightarrow> (string \<times> string \<times> bool) list" where
  "cli_InitializeConfig viper Set flags =
     map (\<lambda>(name, value, changed).
       if changed then (name, value, changed)
       else case viper name of None \<Rightarrow> (name, value, changed)
         | Some val \<Rightarrow> (case Set name val of None \<Rightarrow> (name, value, changed) | Some v \<Rightarrow> (name, v, True))) flags"

section \<open>Completion\<close>

datatype directive = ShellCompDirectiveError | ShellCompDirectiveNoFileComp

type_synonym completion = "string list \<times> directive"

definition completeClusterMode :: completion where
  "completeClusterMode = ([SharedClusterMode, VirtualClusterMode, HCPClusterMode], ShellCompDirectiveNoFileComp)"

definition completePersistenceMode :: completion where
  "completePersistenceMode = ([DynamicPersistenceMode, EphemeralPersistenceMode], ShellCompDirectiveNoFileComp)"

text \<open>A list call whose failure is an error of the completion.\<close>

definition completed :: "('e, goerr + 'o list) io \<Rightarrow> ('o list \<Rightarrow> string list) \<Rightarrow> ('e, completion) io" where
  "completed m f = bindS m (\<lambda>r. case r of Inl err \<Rightarrow> ret ([], ShellCompDirectiveError) | Inr items \<Rightarrow> ret (f items, ShellCompDirectiveNoFileComp))"

definition namespaceCompletions :: "(goerr + string list) \<Rightarrow> 'e cluster_api \<Rightarrow> ('e, completion) io" where
  "namespaceCompletions namespaceFlag cl =
     completed (k_List Host (NamespaceR (cx_policy cl)) (InNamespace ''''))
       (\<lambda>items. let selected = (case namespaceFlag of Inl _ \<Rightarrow> [] | Inr vals \<Rightarrow> vals) in
         sorted_set (filter (\<lambda>n. n \<notin> set selected) (map (\<lambda>ns. Name (nsp_meta ns)) items)))"

definition clusterNamespaceCompletions :: "'e cluster_api \<Rightarrow> ('e, completion) io" where
  "clusterNamespaceCompletions cl =
     completed (k_List Host (cx_ClusterR cl) (InNamespace '''')) (\<lambda>items. sorted_set (map (\<lambda>c. Namespace (cl_meta c)) items))"

definition clusterNameCompletions :: "'e cluster_api \<Rightarrow> string \<Rightarrow> ('e, completion) io" where
  "clusterNameCompletions cl namespace =
     completed (k_List Host (cx_ClusterR cl) (InNamespace namespace)) (map (\<lambda>c. Namespace (cl_meta c) @ ''/'' @ Name (cl_meta c)))"

definition policyNameCompletions :: "'e cluster_api \<Rightarrow> ('e, completion) io" where
  "policyNameCompletions cl = completed (k_List Host (PolicyR (cx_policy cl)) (InNamespace '''')) (map (\<lambda>p. Name (vp_meta p)))"

definition with_client :: "goerr + 'e cluster_api \<Rightarrow> ('e cluster_api \<Rightarrow> ('e, completion) io) \<Rightarrow> ('e, completion) io" where
  "with_client cl f = (case cl of Inl err \<Rightarrow> ret ([], ShellCompDirectiveError) | Inr c \<Rightarrow> f c)"

definition completeNamespaces :: "'e cli_env \<Rightarrow> goerr + string \<Rightarrow> (goerr + string list) \<Rightarrow> ('e, completion) io" where
  "completeNamespaces E kubeconfig namespaceFlag = with_client (completionClient E kubeconfig) (namespaceCompletions namespaceFlag)"

definition completeClusterNamespaces :: "'e cli_env \<Rightarrow> goerr + string \<Rightarrow> ('e, completion) io" where
  "completeClusterNamespaces E kubeconfig = with_client (completionClient E kubeconfig) clusterNamespaceCompletions"

definition completeClusterNames :: "'e cli_env \<Rightarrow> goerr + string \<Rightarrow> bool \<Rightarrow> string \<Rightarrow> string list \<Rightarrow> ('e, completion) io" where
  "completeClusterNames E kubeconfig all_flag namespace args =
     (if args \<noteq> [] then ret ([], ShellCompDirectiveNoFileComp)
      else if all_flag then ret ([], ShellCompDirectiveNoFileComp)
      else with_client (completionClient E kubeconfig) (\<lambda>cl. clusterNameCompletions cl namespace))"

definition completePolicyNames :: "'e cli_env \<Rightarrow> goerr + string \<Rightarrow> ('e, completion) io" where
  "completePolicyNames E kubeconfig = with_client (completionClient E kubeconfig) policyNameCompletions"

definition completePolicyNameArg :: "'e cli_env \<Rightarrow> goerr + string \<Rightarrow> string list \<Rightarrow> ('e, completion) io" where
  "completePolicyNameArg E kubeconfig args = (if args \<noteq> [] then ret ([], ShellCompDirectiveNoFileComp) else completePolicyNames E kubeconfig)"

text \<open>The tree of commands: how the arguments and each flag are completed.\<close>

record cli_flag =
  fl_Name :: string
  fl_Type :: string
  fl_CompletionFunc :: "string option"
  fl_FilenameExt :: bool
  fl_SubdirsInDir :: bool

datatype command = Command (cmd_ValidArgsFunction: "string option") (cmd_ValidArgs: "string list") (cmd_Flags: "cli_flag list") (cmd_Commands: "command list")

abbreviation NoFileCompletions :: string where "NoFileCompletions \<equiv> ''NoFileCompletions''"

definition disable_flag :: "cli_flag \<Rightarrow> cli_flag" where
  "disable_flag f =
     (if fl_Type f = ''bool'' then f
      else if fl_CompletionFunc f \<noteq> None then f
      else if fl_FilenameExt f then f
      else if fl_SubdirsInDir f then f
      else f\<lparr>fl_CompletionFunc := Some NoFileCompletions\<rparr>)"

fun disableFileCompletion :: "command \<Rightarrow> command" where
  "disableFileCompletion (Command validArgs args flags subs) =
     Command (if validArgs = None \<and> args = [] then Some NoFileCompletions else validArgs) args (map disable_flag flags) (map disableFileCompletion subs)"

section \<open>Tables\<close>

record printer_column =
  co_Name :: string
  co_Type :: string
  co_Format :: string
  co_Description :: string
  co_Priority :: int
  co_JSONPath :: string

record table_column =
  tc_Name :: string
  tc_Type :: string
  tc_Format :: string
  tc_Description :: string
  tc_Priority :: int

record crd =
  crd_meta :: object_meta
  crd_Versions :: "(string \<times> printer_column list) list"

record 'o table_row =
  tr_Cells :: "payload list"
  tr_Object :: "'o option"

record 'o printed_table =
  tb_Columns :: "table_column list"
  tb_Rows :: "'o table_row list"

text \<open>The libraries: an object as a map, a parsed JSON path, and its results.\<close>

record 'o printer_lib =
  pl_ToUnstructured :: "'o \<Rightarrow> goerr + payload"
  pl_Parse :: "string \<Rightarrow> goerr + payload"
  pl_FindResults :: "payload \<Rightarrow> payload \<Rightarrow> goerr + payload list list"

definition getPrinterColumnsFromCRD :: "crd \<Rightarrow> printer_column list" where
  "getPrinterColumnsFromCRD c =
     \<lparr>co_Name = ''Name'', co_Type = ''string'', co_Format = ''name'', co_Description = ''Name of the Resource'', co_Priority = 0, co_JSONPath = ''.metadata.name''\<rparr> #
     (case find (\<lambda>(name, _). name = ''v1beta1'') (crd_Versions c) of None \<Rightarrow> [] | Some (_, columns) \<Rightarrow> columns)"

definition convertToTableColumns :: "printer_column list \<Rightarrow> table_column list" where
  "convertToTableColumns printerColumns =
     map (\<lambda>c. \<lparr>tc_Name = co_Name c, tc_Type = co_Type c, tc_Format = co_Format c, tc_Description = co_Description c, tc_Priority = co_Priority c\<rparr>) printerColumns"

definition cell :: "'o printer_lib \<Rightarrow> payload \<Rightarrow> printer_column \<Rightarrow> payload" where
  "cell L objMap printCol =
     (case pl_Parse L (''{'' @ co_JSONPath printCol @ ''}'') of Inl err \<Rightarrow> ''<error>''
      | Inr j \<Rightarrow> (case pl_FindResults L j objMap of
          Inr ((x # _) # _) \<Rightarrow> x | _ \<Rightarrow> ''<none>''))"

definition buildRowCells :: "'o printer_lib \<Rightarrow> payload \<Rightarrow> printer_column list \<Rightarrow> payload list" where
  "buildRowCells L objMap printerColumns = map (cell L objMap) printerColumns"

definition createTableRows :: "'o printer_lib \<Rightarrow> 'o list \<Rightarrow> printer_column list \<Rightarrow> 'o table_row list" where
  "createTableRows L objs printerColumns =
     map (\<lambda>obj. case pl_ToUnstructured L obj of Inl err \<Rightarrow> \<lparr>tr_Cells = [''<error: '' @ err_Error err @ ''>''], tr_Object = None\<rparr>
       | Inr objMap \<Rightarrow> \<lparr>tr_Cells = buildRowCells L objMap printerColumns, tr_Object = Some obj\<rparr>) objs"

definition createTable :: "'o printer_lib \<Rightarrow> crd \<Rightarrow> 'o list \<Rightarrow> 'o printed_table" where
  "createTable L c objs =
     (let printerColumns = getPrinterColumnsFromCRD c in
      \<lparr>tb_Columns = convertToTableColumns printerColumns, tb_Rows = createTableRows L objs printerColumns\<rparr>)"

definition cluster_list :: "'e app_context \<Rightarrow> ('e, crd) resource \<Rightarrow> cluster printer_lib \<Rightarrow> ('e, goerr + cluster printed_table) io" where
  "cluster_list app CRDR L =
     bindE (k_List Host (cx_ClusterR (ac_Client app)) (InNamespace (ac_namespace app))) (\<lambda>clusters.
     bindE (k_Get Host CRDR (cluster_scoped ''clusters.k3k.io'')) (\<lambda>c. ret (Inr (createTable L c clusters))))"

definition policyList :: "'e app_context \<Rightarrow> ('e, crd) resource \<Rightarrow> virtual_cluster_policy printer_lib \<Rightarrow> ('e, goerr + virtual_cluster_policy printed_table) io" where
  "policyList app CRDR L =
     bindE (k_List Host (PolicyR (cx_policy (ac_Client app))) (InNamespace '''')) (\<lambda>policies.
     bindE (k_Get Host CRDR (cluster_scoped ''virtualclusterpolicies.k3k.io'')) (\<lambda>c. ret (Inr (createTable L c policies))))"

section \<open>Text\<close>

definition printDiff :: "change list \<Rightarrow> string list" where
  "printDiff changes =
     concat (map (\<lambda>c. case c of Change field oldValue newValue \<Rightarrow> if oldValue = newValue then [] else [field @ '': '' @ oldValue @ '' -> '' @ newValue]) changes)"

definition printMapDiff :: "string \<Rightarrow> change list \<Rightarrow> string list" where
  "printMapDiff title changes =
     (if changes = [] then []
      else (title @ '':'') # map (\<lambda>c. case c of Change field oldValue newValue \<Rightarrow>
        if oldValue = '''' then ''  '' @ field @ ''='' @ newValue @ '' (new)''
        else ''  '' @ field @ ''='' @ oldValue @ '' -> '' @ field @ ''='' @ newValue) changes)"

text \<open>The lines of the details of a cluster; ranging over a map goes by its sorted keys.\<close>

definition map_lines :: "string \<Rightarrow> smap option \<Rightarrow> string list" where
  "map_lines title m =
     (if fmdom (minit m) = {||} then [] else (''  '' @ title @ '': '') # map (\<lambda>k. ''    '' @ k @ '': '' @ mindex m k) (sorted_list_of_fset (fmdom (minit m))))"

definition getClusterDetails :: "(payload \<Rightarrow> string) \<Rightarrow> cluster \<Rightarrow> string list" where
  "getClusterDetails String cluster =
     (let deref = (\<lambda>n. case n of None \<Rightarrow> 0 | Some (i :: int) \<Rightarrow> i); agents = deref (Agents (cl_Spec cluster));
          version = Version (cl_Spec cluster); hostVersion = st_HostVersion (cl_Status cluster); p = Persistence (cl_Spec cluster);
          class = (case pe_StorageClassName p of None \<Rightarrow> '''' | Some c \<Rightarrow> c);
          size = (case pe_StorageRequestSize p of None \<Rightarrow> '''' | Some q \<Rightarrow> String q) in
      [''Cluster details:'', ''  Mode: '' @ Mode (cl_Spec cluster), ''  Servers: '' @ strconv_FormatInt (deref (Servers (cl_Spec cluster)))] @
      (if agents \<noteq> 0 then [''  Agents: '' @ strconv_FormatInt agents] else []) @
      [''  Version: '' @ (if version \<noteq> '''' then version else hostVersion) @ '' (Host: '' @ hostVersion @ '')'', ''  Persistence:'', ''    Type: '' @ pe_Type p] @
      (if class \<noteq> '''' then [''    StorageClass: '' @ class] else []) @ (if size \<noteq> '''' then [''    Size: '' @ size] else []) @
      map_lines ''Labels'' (Labels (cl_meta cluster)) @ map_lines ''Annotations'' (Annotations (cl_meta cluster)))"

text \<open>What the create command prints for a hosted control plane: how an external node joins it.\<close>

definition printHCPJoinInstructions :: "cluster \<Rightarrow> string \<Rightarrow> string list" where
  "printHCPJoinInstructions cluster serverURL =
     [''To join an external worker node to this HCP cluster:'', [],
      ''1. On this machine, fetch the cluster token:'', [],
      ''kubectl get secret -n '' @ Namespace (cl_meta cluster) @ '' '' @ TokenSecretName (Name (cl_meta cluster)) @ '' -o jsonpath='' @ [CHR 0x27] @ ''{.data.token}'' @ [CHR 0x27] @ '' | base64 -d'', [],
      ''2. On the worker node, run (replace <TOKEN> with the value from step 1):'', [],
      ''curl -sfL https://get.k3s.io | INSTALL_K3S_VERSION='' @ ReleaseName (ResolveK3sVersion cluster) @ '' K3S_URL='' @ serverURL @ '' K3S_TOKEN=<TOKEN> sh -'']"

section \<open>What is shown\<close>

text \<open>Every object has its row, in order, and a row without an error has one cell for each column.\<close>

theorem table_rectangular:
  assumes "cluster_list app CRDR L w = (Inr t, w')"
  shows "\<exists>c clusters v. k_List Host (cx_ClusterR (ac_Client app)) (InNamespace (ac_namespace app)) w = (Inr clusters, v) \<and> t = createTable L c clusters \<and>
    length (tb_Rows t) = length clusters \<and> tc_Name (hd (tb_Columns t)) = ''Name'' \<and>
    (\<forall>i<length clusters. tr_Object (tb_Rows t ! i) = None \<and> length (tr_Cells (tb_Rows t ! i)) = 1 \<or>
      tr_Object (tb_Rows t ! i) = Some (clusters ! i) \<and> length (tr_Cells (tb_Rows t ! i)) = length (tb_Columns t))"
proof -
  obtain clusters v c where "k_List Host (cx_ClusterR (ac_Client app)) (InNamespace (ac_namespace app)) w = (Inr clusters, v)" "t = createTable L c clusters"
    using assms by (auto simp: cluster_list_def bindE_Inr ret_def)
  moreover have "length (tb_Rows (createTable L c clusters)) = length clusters" "tc_Name (hd (tb_Columns (createTable L c clusters))) = ''Name''"
    by (simp_all add: createTable_def createTableRows_def convertToTableColumns_def getPrinterColumnsFromCRD_def Let_def)
  moreover have "tr_Object (tb_Rows (createTable L c clusters) ! i) = None \<and> length (tr_Cells (tb_Rows (createTable L c clusters) ! i)) = 1 \<or>
      tr_Object (tb_Rows (createTable L c clusters) ! i) = Some (clusters ! i) \<and> length (tr_Cells (tb_Rows (createTable L c clusters) ! i)) =
        length (tb_Columns (createTable L c clusters))" if "i < length clusters" for i
    using that by (auto simp: createTable_def createTableRows_def convertToTableColumns_def buildRowCells_def Let_def split: sum.split)
  ultimately show ?thesis by blast
qed

text \<open>No argument and no flag falls back to file names unless it was configured so.\<close>

fun no_file_fallback :: "command \<Rightarrow> bool" where
  "no_file_fallback (Command validArgs args flags subs) \<longleftrightarrow>
     (validArgs \<noteq> None \<or> args \<noteq> []) \<and>
     list_all (\<lambda>f. fl_Type f = ''bool'' \<or> fl_CompletionFunc f \<noteq> None \<or> fl_FilenameExt f \<or> fl_SubdirsInDir f) flags \<and> list_all no_file_fallback subs"

theorem disableFileCompletion_total: "no_file_fallback (disableFileCompletion c) \<and> disableFileCompletion (disableFileCompletion c) = disableFileCompletion c"
  by (induction c rule: disableFileCompletion.induct) (auto simp: list_all_iff disable_flag_def)

text \<open>A completed name of a cluster, given to a command, names that cluster again.\<close>

lemma completed_run: "completed m f w = ((names, d), w') \<Longrightarrow> name \<in> set names \<Longrightarrow> \<exists>items. m w = (Inr items, w') \<and> names = f items"
  by (auto simp: completed_def bindS_run ret_def split: prod.splits sum.splits)

lemma Cut_joined: "CHR ''/'' \<notin> set ns \<Longrightarrow> strings_Cut (ns @ ''/'' @ name) (CHR ''/'') = (ns, name)"
  by (induction ns) (auto simp: strings_Cut_def)

theorem completed_name_resolves:
  assumes run: "clusterNameCompletions (ac_Client app) (ac_namespace app) w = ((names, d), w')" and arg: "arg \<in> set names"
    and api: "cli_kinds app" "lists_namespace (cx_ClusterR (ac_Client app))"
    and valid: "\<And>opts e items e' c. cli_List (r_cli (cx_ClusterR (ac_Client app)) Host) opts e = (Inr items, e') \<Longrightarrow> c \<in> set items \<Longrightarrow>
      CHR ''/'' \<notin> set (Namespace (cl_meta c))"
  shows "\<exists>items c. k_List Host (cx_ClusterR (ac_Client app)) (InNamespace (ac_namespace app)) w = (Inr items, w') \<and> c \<in> set items \<and>
    resolveClusterArg app arg = Inr (Namespace (cl_meta c), Name (cl_meta c))"
proof -
  obtain items where items: "k_List Host (cx_ClusterR (ac_Client app)) (InNamespace (ac_namespace app)) w = (Inr items, w')"
    and names: "names = map (\<lambda>c. Namespace (cl_meta c) @ ''/'' @ Name (cl_meta c)) items"
    using completed_run [OF run [unfolded clusterNameCompletions_def] arg] by blast
  obtain c where c: "c \<in> set items" "arg = Namespace (cl_meta c) @ ''/'' @ Name (cl_meta c)" using arg names by auto
  obtain e' where list: "cli_List (r_cli (cx_ClusterR (ac_Client app)) Host) (InNamespace (ac_namespace app)) (w_env w) = (Inr items, e')"
    using items by (auto simp: k_List_def log_call_def split: prod.splits)
  have "CHR ''/'' \<notin> set (Namespace (cl_meta c))" using valid [OF list c(1)] .
  moreover have "ac_namespace app \<noteq> [] \<longrightarrow> Namespace (cl_meta c) = ac_namespace app"
    using api list c(1) by (force simp: lists_namespace_def cli_kinds_def list_all_iff)
  ultimately have "resolveClusterArg app arg = Inr (Namespace (cl_meta c), Name (cl_meta c))"
    using Cut_joined [of "Namespace (cl_meta c)" "Name (cl_meta c)"] by (auto simp: resolveClusterArg_def c(2))
  with items c(1) show ?thesis by blast
qed

end
