(* ===== verification/Operator.thy ===== *)
theory Operator
  imports Cluster Tokens Capacity
begin

text \<open>
  The start of the controller (\<^verbatim>\<open>main.go\<close>), its logger (\<^verbatim>\<open>pkg/logging\<close>) and the loops of the agent that run in the background (\<^verbatim>\<open>token.go\<close>, \<^verbatim>\<open>configure_capacity.go\<close>). The manager is a parameter.
\<close>

section \<open>Background loops\<close>

text \<open>How often a task runs before the context ends.\<close>

fun ticks :: "nat \<Rightarrow> ('e, unit) io \<Rightarrow> ('e, unit) io" where
  "ticks 0 task = ret ()"
| "ticks (Suc n) task = bindS task (\<lambda>_. ticks n task)"

definition tokenRefresher_Start :: "nat \<Rightarrow> util \<Rightarrow> provider \<Rightarrow> 'e provider_api \<Rightarrow> ('e, goerr + unit) io" where
  "tokenRefresher_Start n U p A = bindS (ticks n (refreshTokens U p A)) (\<lambda>_. ret (Inr ()))"

definition startNodeCapacityUpdater :: "nat \<Rightarrow> 'q quantity_ops \<Rightarrow> (string fset \<Rightarrow> string list) \<Rightarrow> ('e, 'q node) resource \<Rightarrow> ('e, 'q resource_quota) resource \<Rightarrow>
    cluster \<Rightarrow> string \<Rightarrow> ('e, unit) io" where
  "startNodeCapacityUpdater n Q ord NR QR virtualCluster virtualNodeName =
     ticks n (updateNodeCapacity Q ord NR QR virtualCluster virtualNodeName)"

lemma calls_sat_ticks [calls_intro]: "calls_sat P task \<Longrightarrow> calls_sat P (ticks n task)"
  by (induction n) (auto intro!: calls_intro)

lemma reads_only: "writes_only P (k_Get s R key)" "writes_only P (k_List s R opts)"
  by (auto simp: k_Get_def k_List_def is_write_def intro!: calls_intro)

text \<open>The refresher writes on the host only secrets, and in the virtual cluster it only requests tokens.\<close>

definition refresh_write :: "call \<Rightarrow> bool" where
  "refresh_write c = (case c_side c of Host \<Rightarrow> c_kind c = KSecret | Virt \<Rightarrow> c_kind c = KServiceAccount \<and> c_verb c = VCreateToken)"

lemma token_confined_refresh: "calls_sat (token_confined p pod) m \<Longrightarrow> writes_only refresh_write m"
  by (erule calls_sat_mono) (auto simp: token_confined_def refresh_write_def split: side.splits)

lemma setTokenSecretOwner_writes: "secret_resource (pa_SecretR A) \<Longrightarrow> writes_only refresh_write (setTokenSecretOwner U A hostPod name)"
  by (auto simp: setTokenSecretOwner_def Let_def k_Patch_def refresh_write_def secret_resource_def intro!: calls_intro split: sum.split)

lemma refreshToken_writes:
  assumes R: "secret_resource (pa_SecretR A)" and m: "calls_sat (token_confined p virtualPod) tokenSecret"
    and s: "\<And>w s w'. tokenSecret w = (Inr s, w') \<Longrightarrow> Namespace (sec_meta s) = Namespace (pod_meta virtualPod) \<and> Name (sec_meta s) \<in> token_names virtualPod"
  shows "writes_only refresh_write (refreshToken U p A hostPod namespace name tokenSecret)"
proof -
  have create: "writes_only refresh_write (bindS tokenSecret (\<lambda>r. case r of Inl err \<Rightarrow> ret (of_err (errors_Join (errs @ [Some err])))
       | Inr virtualSecret \<Rightarrow> bindS (translateAndCreateHostTokenSecret p A virtualSecret) (\<lambda>r. case r of
         Inl err \<Rightarrow> ret (of_err (errors_Join (errs @ [Some err]))) | Inr _ \<Rightarrow> ret (of_err (errors_Join errs)))))" for errs
    by (rule calls_sat_bindS_res [OF token_confined_refresh [OF m]])
      (auto intro!: calls_intro token_confined_refresh [OF translateAndCreate_confined [OF R]] dest: s split: sum.split)
  show ?thesis unfolding refreshToken_def
    by (auto intro!: reads_only calls_intro create setTokenSecretOwner_writes [OF R] split: sum.split)
qed

lemma refreshPodTokens_writes:
  assumes R: "secret_resource (pa_SecretR A)"
  shows "writes_only refresh_write (refreshPodTokens U p A virtualPod hostPod)"
proof -
  have kube: "writes_only refresh_write (refreshToken U p A hostPod namespace name (kubeAccessTokenSecret A virtualPod))" for namespace name
    by (rule refreshToken_writes [OF R kubeAccessTokenSecret_confined token_secret_meta(1)])
  have "writes_only refresh_write (refreshToken U p A hostPod namespace name (projectedTokenSecret A token virtualPod))" for namespace name token
    by (rule refreshToken_writes [OF R projectedTokenSecret_confined token_secret_meta(2)])
  then have "writes_only refresh_write (refresh_projected U p A virtualPod hostPod tokens)" for tokens
    by (induction tokens) (auto intro!: calls_intro)
  with kube show ?thesis unfolding refreshPodTokens_def by (auto intro!: calls_intro)
qed

theorem tokenRefresher_confined:
  assumes R: "secret_resource (pa_SecretR A)"
  shows "writes_only refresh_write (tokenRefresher_Start n U p A)"
  unfolding tokenRefresher_Start_def refreshTokens_def listHostPods_def refresh_host_pod_def Let_def
  by (auto intro!: reads_only calls_intro refreshPodTokens_writes [OF R] split: sum.split)

text \<open>The capacity updater writes only the status of its own virtual node.\<close>

theorem startNodeCapacityUpdater_confined:
  assumes R: "get_honest NR" "r_meta NR = nd_meta"
  shows "writes_only (\<lambda>c. c_side c = Virt \<and> c_verb c = VStatusUpdate \<and> key_of (c_meta c) = cluster_scoped virtualNodeName)
    (startNodeCapacityUpdater n Q ord NR QR virtualCluster virtualNodeName)"
proof -
  have status: "writes_only (\<lambda>c. c_side c = Virt \<and> c_verb c = VStatusUpdate \<and> key_of (c_meta c) = cluster_scoped virtualNodeName)
    (bindS (k_Get Virt NR (cluster_scoped virtualNodeName)) (\<lambda>r. case r of Inl e \<Rightarrow> ret () | Inr virtualNode \<Rightarrow>
       bindS (k_StatusUpdate Virt NR (virtualNode\<lparr>nd_Capacity := allocatable, nd_Allocatable := allocatable\<rparr>)) (\<lambda>_. ret ())))" for allocatable
  proof (rule calls_sat_bindS_res)
    fix w r w'
    assume run: "k_Get Virt NR (cluster_scoped virtualNodeName) w = (r, w')"
    have "key_of (nd_meta v) = cluster_scoped virtualNodeName" if "r = Inr v" for v using k_Get_key [OF R(1)] run that R(2) by metis
    then show "writes_only (\<lambda>c. c_side c = Virt \<and> c_verb c = VStatusUpdate \<and> key_of (c_meta c) = cluster_scoped virtualNodeName)
      (case r of Inl e \<Rightarrow> ret () | Inr virtualNode \<Rightarrow>
        bindS (k_StatusUpdate Virt NR (virtualNode\<lparr>nd_Capacity := allocatable, nd_Allocatable := allocatable\<rparr>)) (\<lambda>_. ret ()))"
      by (auto simp: k_StatusUpdate_def R(2) intro!: calls_intro split: sum.split)
  qed (rule reads_only)
  show ?thesis
    unfolding startNodeCapacityUpdater_def updateNodeCapacity_def
    by (auto intro!: reads_only calls_intro status split: sum.split option.split)
qed

section \<open>Logging\<close>

datatype log_level = InfoLevel | DebugLevel
datatype log_encoder = ConsoleEncoder | JSONEncoder

definition newEncoder :: "string \<Rightarrow> log_encoder" where
  "newEncoder format = (if format = ''text'' then ConsoleEncoder else JSONEncoder)"

definition New_logger :: "bool \<Rightarrow> string \<Rightarrow> log_level \<times> log_encoder" where
  "New_logger debug format = (if debug then DebugLevel else InfoLevel, newEncoder format)"

section \<open>The controller\<close>

definition validate_operator :: "cluster_config \<Rightarrow> goerr + unit" where
  "validate_operator config =
     (if cc_SharedAgentImagePullPolicy config \<noteq> '''' \<and>
        cc_SharedAgentImagePullPolicy config \<notin> {''Always'', ''IfNotPresent'', ''Never''} then Inl (ErrNew ''invalid value for shared agent image policy'')
      else Inr ())"

text \<open>The task that the allocator adds to the manager.\<close>

definition InitPortAllocatorConfig :: "('e, config_map) resource \<Rightarrow> config_map \<Rightarrow> string \<Rightarrow> ('e, (goerr + unit) \<times> config_map) io" where
  "InitPortAllocatorConfig R KubeletCM kubeletPortRange = getOrCreate R KubeletCM kubeletPortRange"

text \<open>The manager: adding the allocator's task and the controllers, and running until it stops.\<close>

record 'e operator_api =
  om_BuildConfig :: "goerr + payload"
  om_NewManager :: "payload \<Rightarrow> goerr + unit"
  om_AddRunnable :: "config_map \<Rightarrow> 'e \<Rightarrow> (goerr + unit) \<times> 'e"
  om_Add :: "string \<Rightarrow> 'e \<Rightarrow> (goerr + unit) \<times> 'e"
  om_Start :: "'e \<Rightarrow> (goerr + unit) \<times> 'e"

definition failing :: "string \<Rightarrow> ('e, goerr + 'a) io \<Rightarrow> ('e, goerr + 'a) io" where
  "failing msg m = bindS m (\<lambda>r. case r of Inl err \<Rightarrow> ret (Inl (ErrNew (msg @ '': '' @ err_Error err))) | Inr a \<Rightarrow> ret (Inr a))"

definition operator_controllers :: "(string \<times> string) list" where
  "operator_controllers =
     [(''cluster'', ''failed to add cluster controller''), (''statefulset'', ''failed to add statefulset controller''),
      (''service'', ''failed to add service controller''), (''pod'', ''failed to add pod controller''),
      (''clusterpolicy'', ''failed to add clusterpolicy controller''), (''snapshot'', ''failed to add snapshot controller'')]"

definition run_operator :: "'e operator_api \<Rightarrow> string \<Rightarrow> ('e, goerr + unit) io" where
  "run_operator M controllerNamespace =
     bindE (failing ''failed to create config from kubeconfig file'' (ret (om_BuildConfig M))) (\<lambda>restConfig.
     bindE (failing ''failed to create new controller runtime manager'' (ret (om_NewManager M restConfig))) (\<lambda>_.
     bindE (ret (NewPortAllocator controllerNamespace)) (\<lambda>portAllocator.
     bindE (external (om_AddRunnable M portAllocator)) (\<lambda>_.
     bindE (for_each operator_controllers (\<lambda>(name, message). failing message (external (om_Add M name)))) (\<lambda>_.
     failing ''failed to start manager'' (external (om_Start M)))))))"

text \<open>The order in which the manager is used: whatever fails, it is started only after all controllers were added.\<close>

definition traced :: "(string \<Rightarrow> goerr option) \<Rightarrow> string list operator_api" where
  "traced outcome =
     (let step = (\<lambda>name e. (of_err (outcome name), e @ [name])) in
      \<lparr>om_BuildConfig = Inr '''', om_NewManager = (\<lambda>_. Inr ()), om_AddRunnable = (\<lambda>_. step ''ports''), om_Add = step, om_Start = step ''start''\<rparr>)"

lemma failing_ret: "failing msg (ret (Inr a)) = ret (Inr a)"
  by (simp add: failing_def bindS_def ret_def)

lemma traced_simps:
  "om_BuildConfig (traced outcome) = Inr []" "om_NewManager (traced outcome) cfg = Inr ()"
  "external (om_AddRunnable (traced outcome) cm) w = (of_err (outcome ''ports''), w\<lparr>w_env := w_env w @ [''ports'']\<rparr>)"
  by (simp_all add: traced_def external_def Let_def)

lemma traced_adds:
  "for_each xs (\<lambda>(name, message). failing message (external (om_Add (traced outcome) name))) w = (r, w') \<Longrightarrow>
    prefix (w_env w') (w_env w @ map fst xs) \<and> (\<forall>u. r = Inr u \<longrightarrow> w_env w' = w_env w @ map fst xs \<and> list_all (\<lambda>x. outcome (fst x) = None) xs)"
proof (induction xs arbitrary: w)
  case (Cons x xs)
  obtain name message where x: "x = (name, message)" by (cases x)
  let ?w = "w\<lparr>w_env := w_env w @ [name]\<rparr>"
  have step: "failing message (external (om_Add (traced outcome) name)) w =
      (case outcome name of None \<Rightarrow> Inr () | Some err \<Rightarrow> Inl (ErrNew (message @ '': '' @ err_Error err)), ?w)"
    by (simp add: failing_def external_def bindS_run ret_def traced_def Let_def split: option.split)
  show ?case
  proof (cases "outcome name")
    case None
    with Cons.prems step x have "for_each xs (\<lambda>(name, message). failing message (external (om_Add (traced outcome) name))) ?w = (r, w')" by (simp add: bindE_run)
    from Cons.IH [OF this] None x show ?thesis by simp
  next
    case (Some err)
    with Cons.prems step x have "w' = ?w" "isl r" by (auto simp: bindE_run)
    with x show ?thesis by auto
  qed
qed (simp add: ret_def)

theorem operator_starts_last:
  assumes "run_operator (traced outcome) ns \<lparr>w_calls = [], w_env = []\<rparr> = (r, w')"
  shows "prefix (w_env w') ([''ports''] @ map fst operator_controllers @ [''start'']) \<and>
    (''start'' \<in> set (w_env w') \<longrightarrow> list_all (\<lambda>n. outcome n = None) (''ports'' # map fst operator_controllers))"
proof -
  let ?w = "\<lparr>w_calls = [], w_env = [''ports'']\<rparr>"
  obtain r1 w1 where adds: "for_each operator_controllers (\<lambda>(name, message). failing message (external (om_Add (traced outcome) name))) ?w = (r1, w1)" by fastforce
  note trace = traced_adds [OF adds]
  have last: "w_env (snd (failing msg (external (om_Start (traced outcome))) v)) = w_env v @ [''start'']" for msg v
    by (auto simp: failing_def external_def bindS_run ret_def traced_def Let_def split: sum.split)
  have stop: "''start'' \<notin> set xs" if "prefix xs ([''ports''] @ map fst operator_controllers)" for xs
    using set_mono_prefix [OF that] by (auto simp: operator_controllers_def)
  have "w_env w' = [] \<or> w_env w' = [''ports''] \<or> outcome ''ports'' = None \<and> isl r1 \<and> w_env w' = w_env w1 \<or>
      outcome ''ports'' = None \<and> r1 = Inr () \<and> w_env w' = w_env w1 @ [''start'']"
  proof (cases "ns = []")
    case True
    with assms show ?thesis by (auto simp: run_operator_def NewPortAllocator_def failing_def bindE_run bindS_run ret_def traced_def Let_def)
  next
    case False
    then obtain cm where cm: "NewPortAllocator ns = Inr cm" by (simp add: NewPortAllocator_def)
    have "run_operator (traced outcome) ns \<lparr>w_calls = [], w_env = []\<rparr> =
      (case outcome ''ports'' of Some err \<Rightarrow> (Inl err, ?w)
       | None \<Rightarrow> (case r1 of Inl err \<Rightarrow> (Inl err, w1) | Inr _ \<Rightarrow> failing ''failed to start manager'' (external (om_Start (traced outcome))) w1))"
      using adds unfolding run_operator_def cm traced_simps(1,2) failing_ret bindE_ret
      by (simp add: bindE_run traced_simps(3) split: option.split sum.split)
    with assms last [of "''failed to start manager''" w1] show ?thesis by (cases "outcome ''ports''"; cases r1) auto
  qed
  moreover have "prefix xs ([''ports''] @ map fst operator_controllers) \<Longrightarrow> prefix xs ([''ports''] @ map fst operator_controllers @ [''start''])" for xs
    by (metis append_assoc prefix_prefix)
  ultimately show ?thesis
    using trace stop by (auto simp: operator_controllers_def list_all_iff)
qed

end
