(* ===== verification/Registration.thy ===== *)
theory Registration
  imports ServerSet Syncers Operator Kubelet
begin

text \<open>
  The registration of the controllers: \<^verbatim>\<open>Add\<close> of the cluster, policy and snapshot controllers, \<^verbatim>\<open>AddStatefulSetController\<close>, \<^verbatim>\<open>AddPodController\<close> and
  \<^verbatim>\<open>AddServiceController\<close> of the host, and the \<^verbatim>\<open>Add...Syncer\<close> functions of the agent. A registration says which events lead to which requests: the kinds that
  are watched, their handlers, and the predicates that an event has to pass. The manager is a parameter; how it applies predicates and the
  standard handlers is the documented behaviour of controller-runtime. The handlers of the code itself are the definitions of \<^verbatim>\<open>Policy\<close>, \<^verbatim>\<open>Cluster\<close> and \<^verbatim>\<open>Syncers\<close>.
\<close>

section \<open>Events and predicates\<close>

datatype watch_event = CreateEvent object_meta | UpdateEvent object_meta object_meta | DeleteEvent object_meta | GenericEvent object_meta

type_synonym 'e event_predicate = "watch_event \<Rightarrow> ('e, bool option) io"

text \<open>The objects of an event; of an update the old and the new one.\<close>

fun event_object :: "watch_event \<Rightarrow> object_meta" where
  "event_object (CreateEvent m) = m"
| "event_object (UpdateEvent old new) = new"
| "event_object (DeleteEvent m) = m"
| "event_object (GenericEvent m) = m"

fun event_objects :: "watch_event \<Rightarrow> object_meta list" where
  "event_objects (UpdateEvent old new) = [old, new]"
| "event_objects ev = [event_object ev]"

definition NewPredicateFuncs :: "(object_meta \<Rightarrow> ('e, bool option) io) \<Rightarrow> 'e event_predicate" where
  "NewPredicateFuncs keep ev = keep (event_object ev)"

definition pure_predicate :: "(object_meta \<Rightarrow> bool) \<Rightarrow> 'e event_predicate" where
  "pure_predicate keep = NewPredicateFuncs (\<lambda>m. ret (Some (keep m)))"

text \<open>An update of a priority class is judged by the old object.\<close>

definition system_predicate :: "'e event_predicate" where
  "system_predicate ev = ret (Some (ignoreSystemPrefixPredicate (hd (event_objects ev))))"

fun passes :: "'e event_predicate list \<Rightarrow> 'e event_predicate" where
  "passes [] ev = ret (Some True)"
| "passes (p # ps) ev = bindS (p ev) (\<lambda>r. case r of Some True \<Rightarrow> passes ps ev | _ \<Rightarrow> ret r)"

section \<open>Registrations\<close>

text \<open>
  The standard handlers enqueue the object itself or its controlling owner, of a kind and group, in the namespace of the object when the owner has one;
  \<^verbatim>\<open>EventHandler\<close> names a handler of the code.
\<close>

datatype handler = EnqueueRequestForObject | EnqueueRequestForOwner string string bool | EventHandler string

record 'e watch =
  wt_Side :: side
  wt_Kind :: kind
  wt_Handler :: handler
  wt_Predicates :: "'e event_predicate list"

record 'e registration =
  rg_Name :: string
  rg_Manager :: side
  rg_For :: "'e watch"
  rg_Watches :: "'e watch list"
  rg_EventFilters :: "'e event_predicate list"
  rg_MaxConcurrentReconciles :: "int option"

record 'e manager_api =
  mg_NewDiscoveryClient :: "goerr + unit"
  mg_IndexField :: "string \<Rightarrow> (cluster \<Rightarrow> string list) \<Rightarrow> 'e \<Rightarrow> (goerr + unit) \<times> 'e"
  mg_Complete :: "'e registration \<Rightarrow> 'e \<Rightarrow> (goerr + unit) \<times> 'e"

definition Watches :: "side \<Rightarrow> kind \<Rightarrow> handler \<Rightarrow> 'e watch" where
  "Watches s k h = \<lparr>wt_Side = s, wt_Kind = k, wt_Handler = h, wt_Predicates = []\<rparr>"

definition controller_for :: "side \<Rightarrow> string \<Rightarrow> kind \<Rightarrow> 'e registration" where
  "controller_for s name k =
     \<lparr>rg_Name = name, rg_Manager = s, rg_For = Watches s k EnqueueRequestForObject, rg_Watches = [], rg_EventFilters = [], rg_MaxConcurrentReconciles = None\<rparr>"

text \<open>What an event of a watched kind enqueues: the group of an API version is what precedes the slash.\<close>

definition api_group :: "string \<Rightarrow> string" where
  "api_group version = (if CHR ''/'' \<in> set version then takeWhile (\<lambda>c. c \<noteq> CHR ''/'') version else '''')"

definition owner_request :: "string \<Rightarrow> string \<Rightarrow> bool \<Rightarrow> object_meta \<Rightarrow> namespaced_name list" where
  "owner_request k g namespaced m =
     (case GetControllerOf m of None \<Rightarrow> []
      | Some r \<Rightarrow> if or_Kind r = k \<and> api_group (or_APIVersion r) = g
          then [\<lparr>nn_Namespace = (if namespaced then Namespace m else ''''), nn_Name = or_Name r\<rparr>] else [])"

definition handled :: "(string \<Rightarrow> watch_event \<Rightarrow> ('e, namespaced_name list) io) \<Rightarrow> handler \<Rightarrow> watch_event \<Rightarrow> ('e, namespaced_name list) io" where
  "handled H h ev =
     (case h of EnqueueRequestForObject \<Rightarrow> ret [key_of (event_object ev)]
      | EnqueueRequestForOwner k g namespaced \<Rightarrow> ret (remdups (concat (map (owner_request k g namespaced) (event_objects ev))))
      | EventHandler name \<Rightarrow> H name ev)"

text \<open>None when a predicate panics.\<close>

definition enqueued :: "(string \<Rightarrow> watch_event \<Rightarrow> ('e, namespaced_name list) io) \<Rightarrow> 'e registration \<Rightarrow> 'e watch \<Rightarrow> watch_event \<Rightarrow> ('e, namespaced_name list option) io" where
  "enqueued H reg w ev =
     bindS (passes (rg_EventFilters reg @ wt_Predicates w) ev) (\<lambda>r. case r of None \<Rightarrow> ret None
       | Some False \<Rightarrow> ret (Some []) | Some True \<Rightarrow> bindS (handled H (wt_Handler w) ev) (\<lambda>reqs. ret (Some reqs)))"

section \<open>The controllers on the host\<close>

definition storage_index :: "cluster \<Rightarrow> string list" where
  "storage_index vc = (case SyncCfg (cl_Spec vc) of Some s \<Rightarrow> if sc_Enabled (StorageClasses s) then [''true''] else [''false''] | None \<Rightarrow> [''false''])"

definition storage_status_index :: "cluster \<Rightarrow> string list" where
  "storage_status_index vc =
     (case st_Policy (cl_Status vc) of None \<Rightarrow> [''false'']
      | Some p \<Rightarrow> (case ap_Sync p of None \<Rightarrow> [''false''] | Some s \<Rightarrow> if sc_Enabled (StorageClasses s) then [''true''] else [''false'']))"

definition cluster_registration :: "int \<Rightarrow> 'e registration" where
  "cluster_registration maxConcurrentReconciles =
     (controller_for Host ''cluster'' KCluster)\<lparr>
       rg_Watches := [Watches Host KNamespace (EventHandler ''cluster namespaceEventHandler''), Watches Host KStorageClass (EventHandler ''mapStorageClassToCluster''),
         Watches Host KStatefulSet (EnqueueRequestForOwner ''Cluster'' ''k3k.io'' True), Watches Host KService (EnqueueRequestForOwner ''Cluster'' ''k3k.io'' True)],
       rg_MaxConcurrentReconciles := Some maxConcurrentReconciles\<rparr>"

definition cluster_Add :: "'e manager_api \<Rightarrow> cluster_config \<Rightarrow> int \<Rightarrow> ('e, goerr + unit) io" where
  "cluster_Add M config maxConcurrentReconciles =
     bindE (ret (mg_NewDiscoveryClient M)) (\<lambda>_.
     if cc_SharedAgentImage config = '''' then ret (Inl (ErrNew ''missing shared agent image'')) else
     bindE (external (mg_IndexField M storageClassEnabledIndexField storage_index)) (\<lambda>_.
     bindE (external (mg_IndexField M storageClassStatusEnabledIndexField storage_status_index)) (\<lambda>_.
     external (mg_Complete M (cluster_registration maxConcurrentReconciles)))))"

definition statefulset_registration :: "int \<Rightarrow> 'e registration" where
  "statefulset_registration maxConcurrentReconciles =
     (controller_for Host ''k3k-statefulset-controller'' KStatefulSet)\<lparr>
       rg_EventFilters := [passes [pure_predicate newClusterPredicate, pure_predicate newServerPredicate]],
       rg_Watches := [Watches Host KPod (EnqueueRequestForOwner ''StatefulSet'' ''apps'' True)],
       rg_MaxConcurrentReconciles := Some maxConcurrentReconciles\<rparr>"

definition owned_registration :: "string \<Rightarrow> kind \<Rightarrow> int \<Rightarrow> 'e registration" where
  "owned_registration name k maxConcurrentReconciles =
     (controller_for Host name k)\<lparr>rg_EventFilters := [pure_predicate newClusterPredicate], rg_MaxConcurrentReconciles := Some maxConcurrentReconciles\<rparr>"

definition AddStatefulSetController :: "'e manager_api \<Rightarrow> int \<Rightarrow> ('e, goerr + unit) io" where
  "AddStatefulSetController M n = external (mg_Complete M (statefulset_registration n))"

definition AddPodController :: "'e manager_api \<Rightarrow> int \<Rightarrow> ('e, goerr + unit) io" where
  "AddPodController M n = external (mg_Complete M (owned_registration ''k3k-pod-controller'' KPod n))"

definition AddServiceController :: "'e manager_api \<Rightarrow> int \<Rightarrow> ('e, goerr + unit) io" where
  "AddServiceController M n = external (mg_Complete M (owned_registration ''k3k-service-controller'' KService n))"

definition policy_Add :: "'e manager_api \<Rightarrow> int \<Rightarrow> ('e, goerr + unit) io" where
  "policy_Add M maxConcurrentReconciles =
     external (mg_Complete M ((controller_for Host ''virtualclusterpolicy'' KPolicy)\<lparr>
       rg_Watches := [Watches Host KNamespace (EventHandler ''policy namespaceEventHandler''), Watches Host KNode (EventHandler ''nodeEventHandler''),
         Watches Host KCluster (EventHandler ''clusterEventHandler''), Watches Host KNetworkPolicy (EnqueueRequestForOwner ''VirtualClusterPolicy'' ''k3k.io'' False),
         Watches Host KResourceQuota (EnqueueRequestForOwner ''VirtualClusterPolicy'' ''k3k.io'' False),
         Watches Host KLimitRange (EnqueueRequestForOwner ''VirtualClusterPolicy'' ''k3k.io'' False)],
       rg_MaxConcurrentReconciles := Some maxConcurrentReconciles\<rparr>))"

definition snapshot_Add :: "'e manager_api \<Rightarrow> int \<Rightarrow> ('e, goerr + unit) io" where
  "snapshot_Add M n = external (mg_Complete M ((controller_for Host ''etcdsnapshot'' KEtcdSnapshot)\<lparr>rg_MaxConcurrentReconciles := Some n\<rparr>))"

section \<open>The syncers\<close>

definition syncer_registration :: "sync_context \<Rightarrow> string \<Rightarrow> kind \<Rightarrow> 'e event_predicate list \<Rightarrow> 'e registration" where
  "syncer_registration sc name k filters =
     (controller_for Virt (TranslateName (sy_Translator sc) (sy_ClusterNamespace sc) name) k)\<lparr>rg_EventFilters := filters\<rparr>"

definition AddConfigMapSyncer :: "'e manager_api \<Rightarrow> ('e, cluster) resource \<Rightarrow> sync_context \<Rightarrow> ('e, goerr + unit) io" where
  "AddConfigMapSyncer M R sc =
     external (mg_Complete M (syncer_registration sc ''configmap-syncer'' KConfigMap [NewPredicateFuncs (ConfigMapSyncer_filterResources R sc)]))"

definition AddSecretSyncer :: "'e manager_api \<Rightarrow> ('e, cluster) resource \<Rightarrow> sync_context \<Rightarrow> ('e, goerr + unit) io" where
  "AddSecretSyncer M R sc =
     external (mg_Complete M (syncer_registration sc ''secret-syncer'' KSecret [NewPredicateFuncs (SecretSyncer_filterResources R sc)]))"

definition AddServiceSyncer :: "'e manager_api \<Rightarrow> ('e, cluster) resource \<Rightarrow> sync_context \<Rightarrow> ('e, goerr + unit) io" where
  "AddServiceSyncer M R sc =
     external (mg_Complete M (syncer_registration sc ''service-syncer-controller'' KService [NewPredicateFuncs (ServiceReconciler_filterResources R sc)]))"

text \<open>The ingress syncer also watches the ingresses of the host, which its predicate reads as a whole.\<close>

definition AddIngressSyncer :: "'e manager_api \<Rightarrow> ('e, cluster) resource \<Rightarrow> (object_meta \<Rightarrow> ingress) \<Rightarrow> sync_context \<Rightarrow> ('e, goerr + unit) io" where
  "AddIngressSyncer M R ing sc =
     (let reg = syncer_registration sc ''ingress-syncer-controller'' KIngress [] in
      external (mg_Complete M (reg\<lparr>
        rg_For := (rg_For reg)\<lparr>wt_Predicates := [NewPredicateFuncs (IngressReconciler_filterResources R sc)]\<rparr>,
        rg_Watches := [(Watches Host KIngress (EventHandler ''virtualIngressRequest''))\<lparr>wt_Predicates := [NewPredicateFuncs (\<lambda>m. filterHostIngress R sc (ing m))]\<rparr>]\<rparr>)))"

definition AddPVCSyncer :: "'e manager_api \<Rightarrow> ('e, cluster) resource \<Rightarrow> sync_context \<Rightarrow> ('e, goerr + unit) io" where
  "AddPVCSyncer M R sc =
     external (mg_Complete M (syncer_registration sc ''pvc-syncer-controller'' KPVC [NewPredicateFuncs (PVCReconciler_filterResources R sc)]))"

definition AddPriorityClassSyncer :: "'e manager_api \<Rightarrow> ('e, cluster) resource \<Rightarrow> sync_context \<Rightarrow> ('e, goerr + unit) io" where
  "AddPriorityClassSyncer M R sc =
     external (mg_Complete M (syncer_registration sc ''priorityclass-syncer-controller'' KPriorityClass
       [system_predicate, NewPredicateFuncs (PriorityClassSyncer_filterResources R sc)]))"

definition AddEventSyncer :: "'e manager_api \<Rightarrow> sync_context \<Rightarrow> ('e, goerr + unit) io" where
  "AddEventSyncer M sc = external (mg_Complete M (controller_for Host (TranslateName (sy_Translator sc) (sy_ClusterNamespace sc) ''event-syncer'') KEvent))"

section \<open>What reaches the controllers\<close>

lemma pure_predicate_run: "pure_predicate keep ev w = (Some (keep (event_object ev)), w)"
  by (simp add: pure_predicate_def NewPredicateFuncs_def ret_def)

lemma enqueued_filtered: "rg_EventFilters reg = p # ps \<Longrightarrow> p ev w = (Some False, w) \<Longrightarrow> enqueued H reg x ev w = (Some [], w)"
  by (simp add: enqueued_def bindS_def ret_def)

text \<open>
  An event of a host pod or service reaches its controller exactly when a cluster controls the object, and it asks for that object.
\<close>

lemma owned_events_enqueued:
  "enqueued H (owned_registration name k n) (rg_For (owned_registration name k n :: 'e registration)) ev w =
    (Some (if newClusterPredicate (event_object ev) then [key_of (event_object ev)] else []), w)"
  by (simp add: enqueued_def owned_registration_def controller_for_def Watches_def bindS_def ret_def pure_predicate_run handled_def)

text \<open>
  The filter of the controller of StatefulSets applies to the pods it watches as well. These are controlled by their StatefulSet and not by a cluster, so
  that no event of a pod reaches the controller.
\<close>

lemma server_pod_events_dropped:
  assumes "GetControllerOf (event_object ev) = Some r" "or_Kind r = ''StatefulSet''"
  shows "enqueued H (statefulset_registration n) x ev w = (Some [], w)"
proof -
  let ?p = "passes [pure_predicate newClusterPredicate, pure_predicate newServerPredicate]"
  have "\<not> newClusterPredicate (event_object ev)" using assms by (simp add: newClusterPredicate_def owned_by_cluster_def)
  then have "?p ev w = (Some False, w)" by (simp add: bindS_def ret_def pure_predicate_run)
  then show ?thesis by (rule enqueued_filtered [where ps = "[]", rotated]) (simp add: statefulset_registration_def del: passes.simps)
qed

section \<open>Storage classes\<close>

text \<open>The cache answers a selection by an index field with the clusters whose index has the value.\<close>

locale indexed_clusters =
  fixes A :: "'e cluster_api" and clusters :: "'e \<Rightarrow> cluster list"
  assumes spec_index: "cli_List (r_cli (cx_ClusterR A) Host) \<lparr>lo_Namespace = '''', lo_Reqs = [ReqField storageClassEnabledIndexField v]\<rparr> e =
      (Inr (filter (\<lambda>c. v \<in> set (storage_index c)) (clusters e)), e)"
    and status_index: "cli_List (r_cli (cx_ClusterR A) Host) \<lparr>lo_Namespace = '''', lo_Reqs = [ReqField storageClassStatusEnabledIndexField v]\<rparr> e =
      (Inr (filter (\<lambda>c. v \<in> set (storage_status_index c)) (clusters e)), e)"
begin

lemma mapped_clusters:
  "fst (mapStorageClassToCluster A w) =
    (\<lambda>c. key_of (cl_meta c)) ` {c \<in> set (clusters (w_env w)). ''true'' \<in> set (storage_index c) \<or> ''true'' \<in> set (storage_status_index c)}"
  by (auto simp: mapStorageClassToCluster_def k_List_def log_call_def bindS_def ret_def spec_index status_index Let_def)

end

lemma synchronized_indexed:
  "storage_sync c = Some cfg \<Longrightarrow> sc_Enabled (StorageClasses cfg) \<Longrightarrow> ''true'' \<in> set (storage_index c) \<or> ''true'' \<in> set (storage_status_index c)"
  by (auto simp: storage_sync_def storage_index_def storage_status_index_def split: option.splits)

text \<open>
  C11: A changed storage class reaches every cluster that synchronizes storage classes: when the cache answers by the two index
  functions that the cluster controller registers, the clusters that are enqueued include every cluster whose configuration in force, that of its policy
  or its own, has the synchronization enabled, and only clusters in which one of the two has it.
\<close>
theorem storage_class_change_reaches_clusters:
  assumes "indexed_clusters A clusters"
  shows "(\<lambda>c. key_of (cl_meta c)) ` {c \<in> set (clusters (w_env w)). \<exists>cfg. storage_sync c = Some cfg \<and> sc_Enabled (StorageClasses cfg)} \<subseteq>
      fst (mapStorageClassToCluster A w) \<and>
    fst (mapStorageClassToCluster A w) \<subseteq> (\<lambda>c. key_of (cl_meta c)) ` {c \<in> set (clusters (w_env w)). \<exists>cfg. sc_Enabled (StorageClasses cfg) \<and>
      (SyncCfg (cl_Spec c) = Some cfg \<or> (\<exists>p. st_Policy (cl_Status c) = Some p \<and> ap_Sync p = Some cfg))}"
  unfolding indexed_clusters.mapped_clusters [OF assms]
  by (intro conjI image_mono Collect_mono) (auto dest: synchronized_indexed simp: storage_index_def storage_status_index_def split: option.splits if_splits)

text \<open>A cache that evaluates the index functions on a list of clusters.\<close>

definition field_values :: "string \<Rightarrow> cluster \<Rightarrow> string list" where
  "field_values f = (if f = storageClassEnabledIndexField then storage_index else if f = storageClassStatusEnabledIndexField then storage_status_index else (\<lambda>_. []))"

definition indexed_api :: "cluster list \<Rightarrow> unit cluster_api" where
  "indexed_api cs =
     (let R = cx_ClusterR wit_cluster_api in
      wit_cluster_api\<lparr>cx_policy := (cx_policy wit_cluster_api)\<lparr>ClusterR := R\<lparr>r_cli := (\<lambda>s. (r_cli R s)\<lparr>cli_List := (\<lambda>opts e.
        (Inr (filter (\<lambda>c. list_all (\<lambda>q. case q of ReqField f v \<Rightarrow> v \<in> set (field_values f c) | _ \<Rightarrow> True) (lo_Reqs opts)) cs), e))\<rparr>)\<rparr>\<rparr>\<rparr>)"

interpretation indexed: indexed_clusters "indexed_api cs" "\<lambda>_. cs" for cs
  by unfold_locales (simp_all add: indexed_api_def field_values_def Let_def)

definition wit_storage_cluster :: cluster where
  "wit_storage_cluster =
     (wit_cluster None)\<lparr>cl_Spec := empty_spec\<lparr>SyncCfg := Some
       \<lparr>Services = \<lparr>svc_Enabled = False, svc_Selector = None\<rparr>, ConfigMaps = \<lparr>cm_Enabled = False, cm_Selector = None\<rparr>,
        Secrets = \<lparr>sec_Enabled = False, sec_Selector = None\<rparr>, Ingresses = \<lparr>ing_Enabled = False, ing_Selector = None, ing_DisableTLSSecretTranslation = False\<rparr>,
        PersistentVolumeClaims = \<lparr>pvc_Enabled = False, pvc_Selector = None\<rparr>, PriorityClasses = \<lparr>pc_Enabled = False, pc_Selector = None\<rparr>,
        StorageClasses = \<lparr>sc_Enabled = True, sc_Selector = None\<rparr>\<rparr>\<rparr>\<rparr>"

theorem storage_class_change_reaches_clusters_witness:
  "fst (mapStorageClassToCluster (indexed_api [wit_storage_cluster, empty_cluster]) \<lparr>w_calls = [], w_env = ()\<rparr>) = {\<lparr>nn_Namespace = ''ns1'', nn_Name = ''c1''\<rparr>}"
proof -
  have sync: "SyncCfg (cl_Spec empty_cluster) = None" "st_Policy (cl_Status empty_cluster) = None" "st_Policy (cl_Status wit_storage_cluster) = None"
    by (simp_all add: empty_cluster_def empty_spec_def empty_status_def wit_storage_cluster_def wit_cluster_def)
  have own: "\<exists>cfg. SyncCfg (cl_Spec wit_storage_cluster) = Some cfg \<and> sc_Enabled (StorageClasses cfg)" "key_of (cl_meta wit_storage_cluster) = \<lparr>nn_Namespace = ''ns1'', nn_Name = ''c1''\<rparr>"
    by (simp_all add: wit_storage_cluster_def wit_cluster_def key_of_def)
  let ?w = "\<lparr>w_calls = [], w_env = ()\<rparr>"
  note reach = storage_class_change_reaches_clusters [OF indexed.indexed_clusters_axioms, of "[wit_storage_cluster, empty_cluster]" ?w]
  have "{c \<in> {wit_storage_cluster, empty_cluster}. \<exists>cfg. storage_sync c = Some cfg \<and> sc_Enabled (StorageClasses cfg)} = {wit_storage_cluster}"
    using sync own by (auto simp: storage_sync_def)
  moreover have "{c \<in> {wit_storage_cluster, empty_cluster}. \<exists>cfg. sc_Enabled (StorageClasses cfg) \<and>
      (SyncCfg (cl_Spec c) = Some cfg \<or> (\<exists>p. st_Policy (cl_Status c) = Some p \<and> ap_Sync p = Some cfg))} = {wit_storage_cluster}"
    using sync own by auto
  ultimately show ?thesis using reach own(2) by (simp add: subset_antisym)
qed

end
