(* ===== verification/Spec2Isabelle.thy ===== *)
theory Spec2Isabelle
  imports Names Translate Kube Capacity Syncers Ports Policy Pods Tokens Provider Lifecycle Provisioned ServerSet Snapshot Cli Streams Kubelet KubeletConfig AgentRun Certs CliOutput Operator Registration
begin

text \<open>
  A verification library of k3k, which runs Kubernetes clusters (virtual clusters) inside another one (the host).

  The parts and how they interact. The controller on the host (\<^verbatim>\<open>main.go\<close>, \<^verbatim>\<open>pkg/controller\<close>) watches \<^verbatim>\<open>Cluster\<close> and
  \<^verbatim>\<open>VirtualClusterPolicy\<close> objects. For a cluster it creates the k3s servers, their service, configuration and secrets, and the
  agents; for a policy it keeps network policies, quotas and limits in the bound namespaces and records itself in the status of their
  clusters. In shared mode the agent (\<^verbatim>\<open>k3k-kubelet\<close>) registers the virtual nodes: its provider runs each virtual pod as a pod
  of the host namespace, its syncers copy config maps, secrets, services, ingresses, claims and priority classes to the host. The two
  sides meet in names (\<^verbatim>\<open>translate\<close>), in labels and annotations, and in the configuration secret of the agent.

  What is modelled where.
  \<^item> \<^verbatim>\<open>K3k_Prelude\<close>, \<^verbatim>\<open>Go_Std\<close>, \<^verbatim>\<open>Sha256\<close>, \<^verbatim>\<open>NetIP\<close>, \<^verbatim>\<open>NetCIDR\<close>, \<^verbatim>\<open>NetURL\<close>: what the sources use of Go: strings, quoting, time and
    durations at 64 bits, SHA-256 on 32 bit words, IP addresses, CIDRs and URLs.
  \<^item> \<^verbatim>\<open>Api_Types\<close> (\<^verbatim>\<open>types.go\<close>), \<^verbatim>\<open>Core_Types\<close>: the records of the API objects; fields that no code inspects are opaque payloads.
  \<^item> \<^verbatim>\<open>Kube\<close>: API calls. A handler is a function from a world to a result and a world; the world has the environment, of any
    type, and the log of calls with their outcome. A \<^verbatim>\<open>resource\<close> packs the clients of both clusters for one kind; what
    it answers is a parameter, so that a theorem holds for every server, stale, failing or not. The locale
    \<^verbatim>\<open>controllerutil\<close> has the documented laws of controller-runtime; it is interpreted on the executable \<^verbatim>\<open>ref_util\<close>.
  \<^item> \<^verbatim>\<open>Names\<close> (\<^verbatim>\<open>controller.go\<close>) and \<^verbatim>\<open>Translate\<close> (\<^verbatim>\<open>translate/host.go\<close>): names, versions, metadata to the host and back.
  \<^item> \<^verbatim>\<open>Capacity\<close> (\<^verbatim>\<open>provider/configure_capacity.go\<close>): quotas merged and distributed over the virtual nodes.
  \<^item> \<^verbatim>\<open>Syncers\<close> (\<^verbatim>\<open>k3k-kubelet/controller/syncer\<close>): the reconcilers, one locale for what they share.
  \<^item> \<^verbatim>\<open>Ports\<close> (\<^verbatim>\<open>agent/ports.go\<close>): the allocator of kubelet ports over its config map; the allocator library is a locale.
  \<^item> \<^verbatim>\<open>Policy\<close> (\<^verbatim>\<open>pkg/controller/policy\<close>): handlers, reconciliation, cleanup and finalization.
  \<^item> \<^verbatim>\<open>Pods\<close>, \<^verbatim>\<open>Tokens\<close>, \<^verbatim>\<open>Provider\<close> (\<^verbatim>\<open>provider/provider.go\<close>, \<^verbatim>\<open>token.go\<close>): from virtual pods to host pods.
  \<^item> \<^verbatim>\<open>Workloads\<close>, \<^verbatim>\<open>Server\<close>, \<^verbatim>\<open>Startup\<close> (\<^verbatim>\<open>cluster/mounts\<close>, \<^verbatim>\<open>cluster/server\<close>): services, ingress, URLs, the server StatefulSet and
    its start script; \<^verbatim>\<open>Agent\<close> (\<^verbatim>\<open>cluster/agent\<close>): the objects of the agents.
  \<^item> \<^verbatim>\<open>Cluster\<close> (\<^verbatim>\<open>cluster.go\<close>, \<^verbatim>\<open>cluster_finalize.go\<close>, \<^verbatim>\<open>status.go\<close>, \<^verbatim>\<open>token.go\<close>, \<^verbatim>\<open>client.go\<close>, \<^verbatim>\<open>hcp.go\<close>, \<^verbatim>\<open>kubeconfig.go\<close>): the handler
    of clusters. A step may fail and changes the cluster in memory, which is kept after an error as in the code.
  \<^item> \<^verbatim>\<open>Lifecycle\<close>: the theorems about that handler; \<^verbatim>\<open>Provisioned\<close>: a concrete host on which they apply.
  \<^item> \<^verbatim>\<open>ServerSet\<close> (\<^verbatim>\<open>statefulset.go\<close>, \<^verbatim>\<open>pod.go\<close>, \<^verbatim>\<open>service.go\<close>, \<^verbatim>\<open>filter.go\<close>): etcd members, deletions, load balancers.
  \<^item> \<^verbatim>\<open>Base64\<close>, \<^verbatim>\<open>K3sClient\<close> (\<^verbatim>\<open>pkg/k3s\<close>, \<^verbatim>\<open>server/bootstrap\<close>): requests to the k3s servers, bootstrap data and its decoding; \<^verbatim>\<open>Snapshot\<close>
    (\<^verbatim>\<open>pkg/controller/snapshot\<close>): etcd snapshots, on disk or in S3, and the deletion of their files.
  \<^item> \<^verbatim>\<open>KubeconfigFile\<close> (\<^verbatim>\<open>cli/kubeconfig\<close>): the kubeconfig of the user, behind a locale for its file; \<^verbatim>\<open>Cli\<close> (\<^verbatim>\<open>cli/cmds\<close>): the commands
    on clusters and policies.
  \<^item> \<^verbatim>\<open>Streams\<close> (\<^verbatim>\<open>provider.go\<close>, \<^verbatim>\<open>provider/collectors\<close>): logs, exec, attach, port forwarding, statistics and metrics, whose values are
    rational numbers; \<^verbatim>\<open>Kubelet\<close> (\<^verbatim>\<open>main.go\<close>, \<^verbatim>\<open>kubelet.go\<close>, \<^verbatim>\<open>node.go\<close>, \<^verbatim>\<open>config.go\<close>, \<^verbatim>\<open>provider/configure.go\<close> of \<^verbatim>\<open>k3k-kubelet\<close>): the start of the agent.
  \<^item> \<^verbatim>\<open>KubeletConfig\<close> (\<^verbatim>\<open>k3k-kubelet/main.go\<close>): flags, environment and file of the agent, behind a locale for viper; \<^verbatim>\<open>AgentRun\<close>: an agent that
    the controller started runs for its cluster.
  \<^item> \<^verbatim>\<open>Certs\<close> (\<^verbatim>\<open>pkg/controller/certs\<close>): client certificates; \<^verbatim>\<open>CliOutput\<close> (\<^verbatim>\<open>cli/cmds/completion.go\<close>, \<^verbatim>\<open>table_printer.go\<close>, \<^verbatim>\<open>root.go\<close>): completion,
    tables, printed text and clients of the command line.
  \<^item> \<^verbatim>\<open>Operator\<close> (\<^verbatim>\<open>main.go\<close>, \<^verbatim>\<open>pkg/logging\<close>, the tickers of \<^verbatim>\<open>token.go\<close> and \<^verbatim>\<open>configure_capacity.go\<close>): the start of the controller and the background
    loops; \<^verbatim>\<open>Registration\<close>: which events reach which controller, for both sides, and the index functions of the cluster controller.

  This theory has the theorems from the command line to the controllers and from the servers to the phase.

  What the lemmas show. Confinement: which objects each handler may write, whatever the servers answer (syncers, policies,
  clusters, tokens, pods, snapshots, deletions from the command line, statistics). Order: finalizers are removed only after what they guard is gone (syncers, clusters,
  etcd members, StatefulSets, snapshot files). Delivery: which events reach a controller. Outcome: a Ready cluster has all its objects, phases and conditions tell the outcome, retries create
  a pod once. Data: names are valid and injective, metadata and ports return, quotas are shared out exactly and within the
  capacity of the hosts, references of host pods are the translated ones, mounts resolve, an agent decodes what the controller wrote, URLs name certified hosts, the start script renders.

  Bounds and fuel. There is no fuel: every loop is structural or has a measure, and the retries have the number of
  attempts the code gives them (\<^verbatim>\<open>withRetry\<close>, \<^verbatim>\<open>Backoff_Steps\<close>). Durations and ports wrap as in Go where the code computes
  with them; replica counts and ports of the API are integers. Errors keep their chain of causes, which decides the branches; of
  the words of a wrapped error only the substance is kept.

  Parameters. The API servers, the etcd client, the YAML and kubeconfig encoders, random numbers, host name resolution,
  the certificate library, viper, the managers, the HTTP transport and the JSON codecs are arguments; the iteration order of Go maps is the argument \<^verbatim>\<open>ord\<close>, of which only the elements are known.

  Not modelled, and why: the parser of flags and the construction of the command trees, the scheme registration, the managers and the node library:
  library code that the sources only call; the bytes that streams copy; HTTP, TLS and signing below \<^verbatim>\<open>pkg/k3s\<close> and \<^verbatim>\<open>pkg/controller/certs\<close>: network and
  cryptography; \<^verbatim>\<open>zz_generated.deepcopy.go\<close>: generated, and values of HOL are not shared; where logs are written, and tests.
\<close>

section \<open>From the command line to the controllers\<close>

text \<open>
  C37: The token given to the create command is the one the cluster uses: with the secret of the command on the API server, the cluster
  controller, the StatefulSet controller and the snapshot controller all read back this token for the cluster that the command created.
\<close>

theorem cli_token_reaches_servers:
  assumes c: "cluster_for app name namespace cfg = Inr (c, host)" and token: "cf_token cfg \<noteq> ''''"
    and stored: "\<And>e. fst (cli_Get (r_cli (cx_SecretR A) Host) \<lparr>nn_Namespace = namespace, nn_Name = TokenSecretName name\<rparr> e) =
      Inr (TokenSecretObj (cf_token cfg) name namespace)"
  shows "fst (cluster_token U X A c w) = Inr (cf_token cfg) \<and> fst (GetClusterToken A c w) = Inr (cf_token cfg)"
proof -
  have ref: "TokenSecretRef (cl_Spec c) = Some \<lparr>sr_Name = TokenSecretName name, sr_Namespace = namespace\<rparr>"
    "Namespace (cl_meta c) = namespace" "TokenSecretName name \<noteq> ''''"
    using cluster_for_spec [OF c] token SafeConcatNameWithPrefix_nonempty by (simp_all add: TokenSecretName_def)
  have get: "\<exists>v. k_Get Host (cx_SecretR A) \<lparr>nn_Namespace = namespace, nn_Name = TokenSecretName name\<rparr> w = (Inr (TokenSecretObj (cf_token cfg) name namespace), v)"
    using stored [of "w_env w"] by (auto simp: k_Get_def log_call_def split: prod.splits)
  then show ?thesis using ref
    by (auto simp: cluster_token_def GetClusterToken_def bindE_run TokenSecretObj_def mindex_def ret_def Let_def)
qed

theorem cli_token_reaches_servers_witness:
  "\<exists>c A. cluster_for wit_app ''c1'' ''ns1'' wit_create = Inr (c, ''h'') \<and> fst (GetClusterToken A c wit_world) = Inr ''t''"
proof -
  let ?A = "wit_cluster_api\<lparr>cx_server := (cx_server wit_cluster_api)\<lparr>sa_SecretR := full_resource KSecret sec_meta (\<lambda>_. TokenSecretObj ''t'' ''c1'' ''ns1'')\<rparr>\<rparr>"
  obtain c where c: "cluster_for wit_app ''c1'' ''ns1'' wit_create = Inr (c, ''h'')" by (rule wit_cluster_for)
  have "cf_token wit_create = ''t''" by (simp add: wit_create_def)
  then have "fst (GetClusterToken ?A c wit_world) = Inr ''t''"
    using cli_token_reaches_servers [OF c, of ?A ref_util wit_externals wit_world] by (simp add: full_resource_def)
  with c show ?thesis by blast
qed

section \<open>From the servers to the phase of a cluster\<close>

text \<open>
  C38: While the k3s server refuses connections, fetching the bootstrap data over the k3s client writes nothing and ends in the error for
  a server that is not ready, for which the controller keeps the cluster in the Provisioning phase instead of failing it.
\<close>

theorem refused_server_keeps_provisioning:
  assumes X: "x_FetchBootstrap X = fetch_payload ord N" and N: "\<And>rq e. \<exists>err e'. n_Do N rq e = (Inl err, e') \<and> errors_Is err ErrConnectionRefused"
    and url: "url_Parse (''https://'' @ serviceIP @ ''/v1-k3s/config'') = Inr u"
    and run: "ensureBootstrapSecret U X A serviceIP token c w = (r, w')"
  shows "r = Inl (Sentinel ErrServerNotReady) \<and> (\<forall>x\<in>set (drop (length (w_calls w)) (w_calls w')). \<not> is_write x) \<and>
    fst (outcome_phase (err_of r)) = ClusterProvisioning"
proof -
  have "fst (x_FetchBootstrap X serviceIP token c (w_env w)) = Inl (Sentinel ErrServerNotReady)"
    unfolding X by (rule fetch_payload_refused [OF N url])
  then show ?thesis using run
    by (auto simp: ensureBootstrapSecret_def log_call_def bindE_run ret_def outcome_phase_def err_of_def split: prod.splits)
qed

theorem refused_server_keeps_provisioning_witness:
  "fst (ensureBootstrapSecret ref_util (wit_externals\<lparr>x_FetchBootstrap := fetch_payload sorted_list_of_fset (wit_net\<lparr>n_Do := \<lambda>_ e. (Inl (Sentinel ErrConnectionRefused), e)\<rparr>)\<rparr>)
      wit_cluster_api ''10.43.0.7'' ''t'' wit_shared_cluster wit_world) = Inl (Sentinel ErrServerNotReady)"
proof -
  let ?N = "wit_net\<lparr>n_Do := \<lambda>_ e. (Inl (Sentinel ErrConnectionRefused), e)\<rparr>"
  let ?X = "wit_externals\<lparr>x_FetchBootstrap := fetch_payload sorted_list_of_fset ?N\<rparr>"
  have url: "url_Parse (''https://'' @ ''10.43.0.7'' @ ''/v1-k3s/config'') = Inr \<lparr>url_Scheme = ''https'', url_Host = ''10.43.0.7''\<rparr>" by code_simp
  have X: "x_FetchBootstrap ?X = fetch_payload sorted_list_of_fset ?N" by simp
  obtain r w' where run: "ensureBootstrapSecret ref_util ?X wit_cluster_api ''10.43.0.7'' ''t'' wit_shared_cluster wit_world = (r, w')" by fastforce
  have "r = Inl (Sentinel ErrServerNotReady)" using refused_server_keeps_provisioning [OF X _ url run] by simp
  with run show ?thesis by simp
qed

end
